(* ===== verification/Prelude.thy ===== *)
theory Prelude
  imports Main "HOL-Library.Word"
begin

text \<open>
  What every component of the development shares: the machine types, the undefined
  behaviours the model makes visible, \<open>std::to_string\<close> and the conversions between
  \<open>size_t\<close> and \<open>int\<close> the C++ performs silently, with the lemmas that carry the
  component proofs.
\<close>

unbundle bit_operations_syntax

named_theorems world_simps \<open>frame equations: what an operation leaves unchanged\<close>
named_theorems codec_simps \<open>evaluation of encoders and decoders\<close>

section \<open>Machine types\<close>

type_synonym u8 = "8 word"
type_synonym u16 = "16 word"
type_synonym u32 = "32 word"
type_synonym u64 = "64 word"

text \<open>
  Behaviour the C++ standard leaves undefined, or a call that can never return. The code
  has no value for these; the model returns them as the \<open>Inl\<close> side of a sum so that no
  theorem can silently assume them away.
\<close>

datatype fault =
    Out_of_bounds      \<comment> \<open>a read or write outside a buffer or vector\<close>
  | Null_deref         \<comment> \<open>a null pointer is dereferenced\<close>
  | Blocks_forever     \<comment> \<open>a wait on a queue or condition nobody can satisfy\<close>
  | Bad_cast           \<comment> \<open>a pointer is cast to a class the object does not have\<close>
  | Div_by_zero        \<comment> \<open>integer division or remainder by zero\<close>
  | Bad_conversion     \<comment> \<open>a floating-point value with no integer value is converted\<close>
  | Uncaught_exception \<comment> \<open>a C++ exception leaves an \<open>extern "C"\<close> function\<close>
  | Uninitialized      \<comment> \<open>a variable is read before anything was stored in it\<close>
  | Use_after_free     \<comment> \<open>a deleted object or a freed buffer is used or freed again\<close>

section \<open>Conversions between size_t and int\<close>

text \<open>
  \<open>int npoint = n\<close> for a 64-bit unsigned \<open>n\<close> keeps the low 32 bits and reads them as a
  signed number; \<open>npoint * sizeof(T)\<close> converts the \<open>int\<close> back by sign extension and
  multiplies modulo \<open>2^64\<close>.
\<close>

definition int_of_size :: "u64 \<Rightarrow> int" where
  "int_of_size n = sint (ucast n :: u32)"

definition size_of_int :: "int \<Rightarrow> u64" where
  "size_of_int i = word_of_int i"

definition size_of_nat :: "nat \<Rightarrow> u64" where
  "size_of_nat n = word_of_nat n"

lemma int_of_size_small:
  assumes "unat n < 2 ^ 31"
  shows "int_of_size n = int (unat n)"
proof -
  have "int (unat n) < int (2 ^ 31)"
    using assms by (simp only: of_nat_less_iff)
  then have small: "uint n < 2 ^ 31" by simp
  then have u: "uint (ucast n :: u32) = uint n"
    by (simp add: unsigned_ucast_eq take_bit_int_eq_self)
  have "sint (ucast n :: u32) = signed_take_bit 31 (uint (ucast n :: u32))"
    by (simp add: sint_uint)
  also have "\<dots> = uint n"
    unfolding u by (rule signed_take_bit_int_eq_self) (use small in \<open>auto intro: order_trans [of _ 0]\<close>)
  finally show ?thesis by (simp add: int_of_size_def)
qed

lemma size_of_int_nat [simp]: "size_of_int (int n) = size_of_nat n"
  by (simp add: size_of_int_def size_of_nat_def)

lemma unat_size_of_nat [simp]: "n < 2 ^ 64 \<Longrightarrow> unat (size_of_nat n) = n"
  by (simp add: size_of_nat_def unsigned_of_nat take_bit_nat_eq_self)

lemma size_of_nat_inj:
  "m < 2 ^ 64 \<Longrightarrow> n < 2 ^ 64 \<Longrightarrow> (size_of_nat m = size_of_nat n) = (m = n)"
  using unat_size_of_nat [of m] unat_size_of_nat [of n] by metis

section \<open>std::to_string\<close>

function digits_of_nat :: "nat \<Rightarrow> string" where
  "digits_of_nat n =
     (if n < 10 then [char_of (48 + n)]
      else digits_of_nat (n div 10) @ [char_of (48 + n mod 10)])"
  by pat_completeness auto
termination
  by (relation "measure id") auto

declare digits_of_nat.simps [simp del]

definition to_string :: "int \<Rightarrow> string" where
  "to_string i = (if i < 0 then ''-'' @ digits_of_nat (nat (- i)) else digits_of_nat (nat i))"

lemma digits_of_nat_nonempty: "digits_of_nat n \<noteq> []"
  by (subst digits_of_nat.simps) simp

text \<open>\<open>"%08" PRIx64\<close>: lower-case hexadecimal, padded with zeros to eight digits.\<close>

definition hex_digit :: "nat \<Rightarrow> char" where
  "hex_digit n = char_of (if n < 10 then 48 + n else 87 + n)"

function hex_of_nat :: "nat \<Rightarrow> string" where
  "hex_of_nat n =
     (if n < 16 then [hex_digit n] else hex_of_nat (n div 16) @ [hex_digit (n mod 16)])"
  by pat_completeness auto
termination
  by (relation "measure id") auto

declare hex_of_nat.simps [simp del]

definition hex08 :: "u64 \<Rightarrow> string" where
  "hex08 w = (let s = hex_of_nat (unat w) in replicate (8 - length s) CHR ''0'' @ s)"

text \<open>\<open>snprintf (buf, n, ...)\<close> keeps at most \<open>n - 1\<close> characters.\<close>

definition snprintf_buf :: "nat \<Rightarrow> string \<Rightarrow> string" where
  "snprintf_buf n s = take (n - 1) s"

section \<open>List lemmas\<close>

lemma filter_all_eq: "(\<And>x. x \<in> set xs \<Longrightarrow> P x) \<Longrightarrow> filter P xs = xs"
  by (simp add: filter_id_conv)

lemma sum_list_update:
  fixes f :: "'a \<Rightarrow> int"
  assumes "i < length xs"
  shows "sum_list (map f (xs[i := x])) = sum_list (map f xs) - f (xs ! i) + f x"
  using assms
proof (induction xs arbitrary: i)
  case Nil
  then show ?case by simp
next
  case (Cons a xs)
  then show ?case by (cases i) auto
qed

lemma foldl_invariant:
  assumes "P s" and "\<And>s x. x \<in> set xs \<Longrightarrow> P s \<Longrightarrow> P (f s x)"
  shows "P (foldl f s xs)"
  using assms by (induction xs arbitrary: s) auto

lemma map_sum_Inl: "map_sum f g r = Inl y \<longleftrightarrow> (\<exists>x. r = Inl x \<and> y = f x)"
  by (cases r) auto

lemma map_sum_Inr: "map_sum f g r = Inr y \<longleftrightarrow> (\<exists>x. r = Inr x \<and> y = g x)"
  by (cases r) auto

lemma not_isl_Inr: "isl r = False \<Longrightarrow> \<exists>a b. r = Inr (a, b)"
  by (cases r) auto

end
