(* ===== verification/Float32.thy ===== *)
theory Float32
  imports Prelude
begin

text \<open>
  IEEE-754 single precision as the code sees it: a \<open>float\<close> is its 32-bit pattern. The
  comparisons, the sign change and \<open>std::min\<close> are exact on every pattern, NaN, the two
  zeros and the infinities included. The pattern is also what \<open>memcpy\<close> and the file and
  packet formats move around, so one type serves both uses.
\<close>

type_synonym f32 = u32

definition f32_mag :: "f32 \<Rightarrow> u32" where
  "f32_mag x = x AND 0x7FFFFFFF"

definition f32_neg_bit :: "f32 \<Rightarrow> bool" where
  "f32_neg_bit x = (x AND 0x80000000 \<noteq> 0)"

definition f32_isnan :: "f32 \<Rightarrow> bool" where
  "f32_isnan x = (0x7F800000 < f32_mag x)"

definition f32_zero :: f32 where
  "f32_zero = 0"

definition f32_infinity :: f32 where
  "f32_infinity = 0x7F800000"

text \<open>
  On patterns that are not NaN the numeric order is the order of this key: the magnitude
  bits, negated when the sign bit is set. Both zeros have key 0.
\<close>

definition f32_key :: "f32 \<Rightarrow> int" where
  "f32_key x = (if f32_neg_bit x then - uint (f32_mag x) else uint (f32_mag x))"

definition f32_lt :: "f32 \<Rightarrow> f32 \<Rightarrow> bool" where
  "f32_lt x y = (\<not> f32_isnan x \<and> \<not> f32_isnan y \<and> f32_key x < f32_key y)"

definition f32_le :: "f32 \<Rightarrow> f32 \<Rightarrow> bool" where
  "f32_le x y = (\<not> f32_isnan x \<and> \<not> f32_isnan y \<and> f32_key x \<le> f32_key y)"

definition f32_eq :: "f32 \<Rightarrow> f32 \<Rightarrow> bool" where
  "f32_eq x y = (\<not> f32_isnan x \<and> \<not> f32_isnan y \<and> f32_key x = f32_key y)"

definition f32_neg :: "f32 \<Rightarrow> f32" where
  "f32_neg x = x XOR 0x80000000"

text \<open>\<open>std::min (a, b)\<close> is \<open>b < a ? b : a\<close>.\<close>

definition f32_min :: "f32 \<Rightarrow> f32 \<Rightarrow> f32" where
  "f32_min a b = (if f32_lt b a then b else a)"

lemmas f32_defs = f32_lt_def f32_le_def f32_eq_def f32_key_def f32_neg_bit_def
  f32_isnan_def f32_mag_def

lemma f32_lt_irrefl [simp]: "\<not> f32_lt x x"
  by (simp add: f32_lt_def)

lemma f32_lt_trans: "f32_lt x y \<Longrightarrow> f32_lt y z \<Longrightarrow> f32_lt x z"
  by (auto simp: f32_lt_def)

lemma f32_le_trans: "f32_le x y \<Longrightarrow> f32_le y z \<Longrightarrow> f32_le x z"
  by (auto simp: f32_le_def)

lemma f32_lt_imp_le: "f32_lt x y \<Longrightarrow> f32_le x y"
  by (auto simp: f32_lt_def f32_le_def)

lemma f32_not_lt_le:
  "\<not> f32_isnan x \<Longrightarrow> \<not> f32_isnan y \<Longrightarrow> (\<not> f32_lt x y) = f32_le y x"
  by (auto simp: f32_lt_def f32_le_def)

lemma f32_le_refl: "\<not> f32_isnan x \<Longrightarrow> f32_le x x"
  by (simp add: f32_le_def)

lemma f32_lt_le_trans: "f32_lt x y \<Longrightarrow> f32_le y z \<Longrightarrow> f32_lt x z"
  by (auto simp: f32_lt_def f32_le_def)

lemma f32_min_le:
  assumes "\<not> f32_isnan a" and "\<not> f32_isnan b"
  shows "f32_le (f32_min a b) a" and "f32_le (f32_min a b) b"
  using assms by (auto simp: f32_min_def f32_lt_def f32_le_def)

lemma f32_infinity_not_nan [simp]: "\<not> f32_isnan f32_infinity"
  by (simp add: f32_isnan_def f32_mag_def f32_infinity_def)

lemma f32_zero_not_nan [simp]: "\<not> f32_isnan f32_zero"
  by (simp add: f32_isnan_def f32_mag_def f32_zero_def)

lemma f32_zero_not_neg [simp]: "\<not> f32_lt f32_zero f32_zero"
  by simp

lemma f32_neg_involutive [simp]: "f32_neg (f32_neg x) = x"
  by (simp add: f32_neg_def ac_simps)

end
