(* ===== verification/Bytes.thy ===== *)
theory Bytes
  imports Float32
begin

text \<open>
  Byte layouts: little-endian words and the structs of \<open>cwipc_util/api.h\<close> that are moved
  with \<open>memcpy\<close>, \<open>fread\<close> and \<open>recv\<close>. A decoder returns the value and the bytes that
  remain, so that layouts compose field by field. The locale \<open>codec\<close> is the contract every
  layout is used through; the formats built on top (dump file, packet, proxy connection,
  JPEG line stream) take their round trips from its interpretations.
\<close>

section \<open>Running an encoder or decoder over a list\<close>

definition enc_all :: "('a \<Rightarrow> u8 list) \<Rightarrow> 'a list \<Rightarrow> u8 list" where
  "enc_all enc xs = concat (map enc xs)"

fun dec_n :: "(u8 list \<Rightarrow> ('a \<times> u8 list) option) \<Rightarrow> nat \<Rightarrow> u8 list \<Rightarrow> ('a list \<times> u8 list) option"
where
  "dec_n dec 0 bs = Some ([], bs)"
| "dec_n dec (Suc n) bs =
     (case dec bs of None \<Rightarrow> None
      | Some (x, r) \<Rightarrow> (case dec_n dec n r of None \<Rightarrow> None | Some (xs, r') \<Rightarrow> Some (x # xs, r')))"

lemma enc_all_Nil [simp]: "enc_all enc [] = []"
  by (simp add: enc_all_def)

lemma enc_all_Cons [simp]: "enc_all enc (x # xs) = enc x @ enc_all enc xs"
  by (simp add: enc_all_def)

section \<open>The contract of a layout\<close>

locale codec =
  fixes enc :: "'a \<Rightarrow> u8 list"
    and dec :: "u8 list \<Rightarrow> ('a \<times> u8 list) option"
  assumes dec_enc: "dec (enc x @ rest) = Some (x, rest)"
begin

lemma dec_enc_exact: "dec (enc x) = Some (x, [])"
  using dec_enc [of x "[]"] by simp

lemma enc_prefix_free: "enc x @ r = enc y @ s \<Longrightarrow> x = y \<and> r = s"
  by (metis dec_enc option.inject prod.inject)

lemma dec_n_enc_all: "dec_n dec (length xs) (enc_all enc xs @ rest) = Some (xs, rest)"
  by (induction xs) (simp_all add: dec_enc)

end

text \<open>A layout of fixed size, as every struct has (\<open>sizeof\<close>).\<close>

locale fixed_codec = codec +
  fixes width :: nat
  assumes enc_length: "length (enc x) = width"
begin

lemma enc_all_length: "length (enc_all enc xs) = width * length xs"
  by (induction xs) (simp_all add: enc_length)

lemma dec_take: "dec (take width (enc x @ rest)) = Some (x, [])"
  by (simp add: enc_length dec_enc_exact)

end

section \<open>Little-endian numbers\<close>

fun le_bytes :: "nat \<Rightarrow> nat \<Rightarrow> u8 list" where
  "le_bytes 0 x = []"
| "le_bytes (Suc n) x = word_of_nat (x mod 256) # le_bytes n (x div 256)"

fun le_value :: "u8 list \<Rightarrow> nat" where
  "le_value [] = 0"
| "le_value (b # bs) = unat b + 256 * le_value bs"

lemma length_le_bytes [simp]: "length (le_bytes n x) = n"
  by (induction n arbitrary: x) auto

lemma le_value_le_bytes: "x < 256 ^ n \<Longrightarrow> le_value (le_bytes n x) = x"
proof (induction n arbitrary: x)
  case 0
  then show ?case by simp
next
  case (Suc n)
  then have "x div 256 < 256 ^ n" by (simp add: less_mult_imp_div_less)
  then have "le_value (le_bytes n (x div 256)) = x div 256" by (rule Suc.IH)
  moreover have "unat (word_of_nat (x mod 256) :: u8) = x mod 256"
    by (simp add: unsigned_of_nat take_bit_nat_eq_self)
  ultimately show ?case by simp
qed

definition enc_u32 :: "u32 \<Rightarrow> u8 list" where
  "enc_u32 w = le_bytes 4 (unat w)"

definition dec_u32 :: "u8 list \<Rightarrow> (u32 \<times> u8 list) option" where
  "dec_u32 bs = (if length bs < 4 then None
                 else Some (word_of_nat (le_value (take 4 bs)), drop 4 bs))"

definition enc_u64 :: "u64 \<Rightarrow> u8 list" where
  "enc_u64 w = le_bytes 8 (unat w)"

definition dec_u64 :: "u8 list \<Rightarrow> (u64 \<times> u8 list) option" where
  "dec_u64 bs = (if length bs < 8 then None
                 else Some (word_of_nat (le_value (take 8 bs)), drop 8 bs))"

definition enc_u8 :: "u8 \<Rightarrow> u8 list" where
  "enc_u8 b = [b]"

fun dec_u8 :: "u8 list \<Rightarrow> (u8 \<times> u8 list) option" where
  "dec_u8 [] = None"
| "dec_u8 (b # bs) = Some (b, bs)"

lemma le_value_unat_u32: "le_value (le_bytes 4 (unat (w :: u32))) = unat w"
  by (rule le_value_le_bytes) (use unsigned_less [of w] in simp)

lemma le_value_unat_u64: "le_value (le_bytes 8 (unat (w :: u64))) = unat w"
  by (rule le_value_le_bytes) (use unsigned_less [of w] in simp)

interpretation u32c: fixed_codec enc_u32 dec_u32 4
  by unfold_locales (simp_all add: enc_u32_def dec_u32_def le_value_unat_u32)

interpretation u64c: fixed_codec enc_u64 dec_u64 8
  by unfold_locales (simp_all add: enc_u64_def dec_u64_def le_value_unat_u64)

interpretation u8c: fixed_codec enc_u8 dec_u8 1
  by unfold_locales (simp_all add: enc_u8_def)

lemmas word_codecs = u8c.dec_enc u32c.dec_enc u64c.dec_enc u8c.enc_length u32c.enc_length u64c.enc_length

lemmas word_codecs_exact = u8c.dec_enc_exact u32c.dec_enc_exact u64c.dec_enc_exact

section \<open>struct cwipc_point\<close>

record cwipc_point =
  pt_x :: f32
  pt_y :: f32
  pt_z :: f32
  pt_r :: u8
  pt_g :: u8
  pt_b :: u8
  pt_tile :: u8

definition sizeof_cwipc_point :: nat where
  "sizeof_cwipc_point = 16"

definition enc_point :: "cwipc_point \<Rightarrow> u8 list" where
  "enc_point p = enc_u32 (pt_x p) @ enc_u32 (pt_y p) @ enc_u32 (pt_z p)
     @ enc_u8 (pt_r p) @ enc_u8 (pt_g p) @ enc_u8 (pt_b p) @ enc_u8 (pt_tile p)"

definition dec_point :: "u8 list \<Rightarrow> (cwipc_point \<times> u8 list) option" where
  "dec_point bs =
     (case dec_u32 bs of None \<Rightarrow> None | Some (px, r1) \<Rightarrow>
      case dec_u32 r1 of None \<Rightarrow> None | Some (py, r2) \<Rightarrow>
      case dec_u32 r2 of None \<Rightarrow> None | Some (pz, r3) \<Rightarrow>
      case dec_u8 r3 of None \<Rightarrow> None | Some (pr, r4) \<Rightarrow>
      case dec_u8 r4 of None \<Rightarrow> None | Some (pg, r5) \<Rightarrow>
      case dec_u8 r5 of None \<Rightarrow> None | Some (pb, r6) \<Rightarrow>
      case dec_u8 r6 of None \<Rightarrow> None | Some (pt, r7) \<Rightarrow>
      Some (\<lparr>pt_x = px, pt_y = py, pt_z = pz, pt_r = pr, pt_g = pg, pt_b = pb, pt_tile = pt\<rparr>, r7))"

interpretation pointc: fixed_codec enc_point dec_point sizeof_cwipc_point
  by unfold_locales
    (simp_all add: enc_point_def dec_point_def word_codecs sizeof_cwipc_point_def)

section \<open>struct cwipc_cwipcdump_header and cwipc_point_packetheader\<close>

record cwipcdump_header =
  hdr_id :: "u8 list"
  hdr_magic :: u32
  hdr_timestamp :: u64
  hdr_cellsize :: f32
  hdr_unused :: u32
  hdr_size :: u64

definition sizeof_dump_header :: nat where
  "sizeof_dump_header = 32"

text \<open>\<open>"cpcd"\<close> and \<open>0x20210208\<close>.\<close>

definition CWIPC_CWIPCDUMP_HEADER :: "u8 list" where
  "CWIPC_CWIPCDUMP_HEADER = [99, 112, 99, 100]"

definition CWIPC_CWIPCDUMP_VERSION :: u32 where
  "CWIPC_CWIPCDUMP_VERSION = 0x20210208"

definition enc_dump_header :: "cwipcdump_header \<Rightarrow> u8 list" where
  "enc_dump_header h = enc_all enc_u8 (hdr_id h) @ enc_u32 (hdr_magic h) @ enc_u64 (hdr_timestamp h)
     @ enc_u32 (hdr_cellsize h) @ enc_u32 (hdr_unused h) @ enc_u64 (hdr_size h)"

definition dec_dump_header :: "u8 list \<Rightarrow> (cwipcdump_header \<times> u8 list) option" where
  "dec_dump_header bs =
     (case dec_n dec_u8 4 bs of None \<Rightarrow> None | Some (h, r1) \<Rightarrow>
      case dec_u32 r1 of None \<Rightarrow> None | Some (m, r2) \<Rightarrow>
      case dec_u64 r2 of None \<Rightarrow> None | Some (t, r3) \<Rightarrow>
      case dec_u32 r3 of None \<Rightarrow> None | Some (c, r4) \<Rightarrow>
      case dec_u32 r4 of None \<Rightarrow> None | Some (u, r5) \<Rightarrow>
      case dec_u64 r5 of None \<Rightarrow> None | Some (s, r6) \<Rightarrow>
      Some (\<lparr>hdr_id = h, hdr_magic = m, hdr_timestamp = t, hdr_cellsize = c, hdr_unused = u, hdr_size = s\<rparr>, r6))"

lemma dec_enc_dump_header:
  assumes "length (hdr_id h) = 4"
  shows "dec_dump_header (enc_dump_header h @ rest) = Some (h, rest)"
  using u8c.dec_n_enc_all [of "hdr_id h"] assms
  by (simp add: enc_dump_header_def dec_dump_header_def word_codecs)

lemma length_enc_dump_header:
  "length (hdr_id h) = 4 \<Longrightarrow> length (enc_dump_header h) = sizeof_dump_header"
  by (simp add: enc_dump_header_def word_codecs u8c.enc_all_length sizeof_dump_header_def)

record point_packetheader =
  ph_magic :: u32
  dataCount :: u32
  ph_timestamp :: u64
  ph_cellsize :: f32
  ph_unused :: u32

definition CWIPC_POINT_PACKETHEADER_MAGIC :: u32 where
  "CWIPC_POINT_PACKETHEADER_MAGIC = 0x20201016"

definition sizeof_point_packetheader :: nat where
  "sizeof_point_packetheader = 24"

definition enc_packetheader :: "point_packetheader \<Rightarrow> u8 list" where
  "enc_packetheader h = enc_u32 (ph_magic h) @ enc_u32 (dataCount h) @ enc_u64 (ph_timestamp h)
     @ enc_u32 (ph_cellsize h) @ enc_u32 (ph_unused h)"

definition dec_packetheader :: "u8 list \<Rightarrow> (point_packetheader \<times> u8 list) option" where
  "dec_packetheader bs =
     (case dec_u32 bs of None \<Rightarrow> None | Some (m, r1) \<Rightarrow>
      case dec_u32 r1 of None \<Rightarrow> None | Some (n, r2) \<Rightarrow>
      case dec_u64 r2 of None \<Rightarrow> None | Some (t, r3) \<Rightarrow>
      case dec_u32 r3 of None \<Rightarrow> None | Some (c, r4) \<Rightarrow>
      case dec_u32 r4 of None \<Rightarrow> None | Some (u, r5) \<Rightarrow>
      Some (\<lparr>ph_magic = m, dataCount = n, ph_timestamp = t, ph_cellsize = c, ph_unused = u\<rparr>, r5))"

interpretation packetheaderc: fixed_codec enc_packetheader dec_packetheader sizeof_point_packetheader
  by unfold_locales
    (simp_all add: enc_packetheader_def dec_packetheader_def word_codecs sizeof_point_packetheader_def)

end
