(* ===== verification/Logging.thy ===== *)
theory Logging
  imports Prelude
begin

text \<open>
  \<open>cwipc_util/src/logging.cpp\<close>: the process-wide logger. Its static variables are the record
  \<open>logger\<close>; every other component's state extends that record, because every component logs.
  \<open>currentErrorBuf\<close> is the address of a caller's \<open>char *errorMessage\<close> variable, so the model
  keeps those variables in a store (\<open>errorbufs\<close>): a stale address is then visible as what it
  is. What is written to stderr, to the log stream and to the callback is recorded in order.
\<close>

section \<open>State\<close>

type_synonym cwipc_log_level = int

definition CWIPC_LOG_LEVEL_NONE :: cwipc_log_level where "CWIPC_LOG_LEVEL_NONE = 0"
definition CWIPC_LOG_LEVEL_ERROR :: cwipc_log_level where "CWIPC_LOG_LEVEL_ERROR = 1"
definition CWIPC_LOG_LEVEL_WARNING :: cwipc_log_level where "CWIPC_LOG_LEVEL_WARNING = 2"
definition CWIPC_LOG_LEVEL_TRACE :: cwipc_log_level where "CWIPC_LOG_LEVEL_TRACE = 3"
definition CWIPC_LOG_LEVEL_DEBUG :: cwipc_log_level where "CWIPC_LOG_LEVEL_DEBUG = 4"

lemmas log_levels = CWIPC_LOG_LEVEL_NONE_def CWIPC_LOG_LEVEL_ERROR_def
  CWIPC_LOG_LEVEL_WARNING_def CWIPC_LOG_LEVEL_TRACE_def CWIPC_LOG_LEVEL_DEBUG_def

datatype log_stream = Cerr_stream | File_stream string

record logger =
  env_CWIPC_LOGGING :: "string option"
  clock :: int
  starttime :: int
  currentErrorBuf :: "nat option"
  currentLogLevel :: cwipc_log_level
  log_initialized :: bool
  logStream :: "log_stream option"
  logCallback :: "nat option"
  log_to_callback :: bool
  log_to_stderr :: bool
  log_to_file :: bool
  errorbufs :: "nat \<Rightarrow> string option"
  stderr_out :: "string list"
  stream_out :: "(log_stream \<times> string) list"
  callback_out :: "(nat \<times> cwipc_log_level \<times> string) list"

text \<open>The static initialisers, for a process whose environment has the given variable.\<close>

definition logger_init :: "string option \<Rightarrow> int \<Rightarrow> logger" where
  "logger_init env now =
     \<lparr>env_CWIPC_LOGGING = env, clock = now, starttime = 0,
      currentErrorBuf = None, currentLogLevel = CWIPC_LOG_LEVEL_WARNING,
      log_initialized = False, logStream = None, logCallback = None,
      log_to_callback = False, log_to_stderr = True, log_to_file = False,
      errorbufs = (\<lambda>_. None), stderr_out = [], stream_out = [], callback_out = []\<rparr>"

section \<open>Operations\<close>

definition level_to_string :: "cwipc_log_level \<Rightarrow> string" where
  "level_to_string level =
     (if level = CWIPC_LOG_LEVEL_ERROR then ''Error''
      else if level = CWIPC_LOG_LEVEL_WARNING then ''Warning''
      else if level = CWIPC_LOG_LEVEL_TRACE then ''Trace''
      else if level = CWIPC_LOG_LEVEL_DEBUG then ''Debug''
      else ''Unknown-level'')"

definition string_to_level :: "string \<Rightarrow> cwipc_log_level" where
  "string_to_level s =
     (if s = ''NONE'' then CWIPC_LOG_LEVEL_NONE
      else if s = ''ERROR'' then CWIPC_LOG_LEVEL_ERROR
      else if s = ''WARNING'' then CWIPC_LOG_LEVEL_WARNING
      else if s = ''TRACE'' then CWIPC_LOG_LEVEL_TRACE
      else if s = ''DEBUG'' then CWIPC_LOG_LEVEL_DEBUG
      else CWIPC_LOG_LEVEL_WARNING)"

text \<open>
  The value of \<open>CWIPC_LOGGING\<close> is split at the first colon: the level, and the file name
  (empty when there is no colon).
\<close>

definition split_env :: "string \<Rightarrow> string \<times> string" where
  "split_env env =
     (takeWhile (\<lambda>c. c \<noteq> CHR '':'') env, drop 1 (dropWhile (\<lambda>c. c \<noteq> CHR '':'') env))"

definition initialize :: "'a logger_scheme \<Rightarrow> 'a logger_scheme" where
  "initialize w =
     (if log_initialized w then w
      else case env_CWIPC_LOGGING w of
        None \<Rightarrow> w\<lparr>log_initialized := True\<rparr>
      | Some env \<Rightarrow>
          (let (level_s, filename_s) = split_env env
           in w\<lparr>currentLogLevel := string_to_level level_s,
                logStream := Some (if filename_s \<noteq> [] then File_stream filename_s
                                   else Cerr_stream),
                log_to_stderr := False,
                log_to_file := True,
                log_initialized := True\<rparr>))"

definition log_message :: "cwipc_log_level \<Rightarrow> string \<Rightarrow> string \<Rightarrow> string" where
  "log_message level module_s message =
     module_s @ '': '' @ level_to_string level @ '': '' @ message"

text \<open>The part of \<open>cwipc_log\<close> after the level test, in its order.\<close>

definition start_clock :: "'a logger_scheme \<Rightarrow> 'a logger_scheme" where
  "start_clock w = (if starttime w = 0 then w\<lparr>starttime := clock w\<rparr> else w)"

definition capture_error :: "cwipc_log_level \<Rightarrow> string \<Rightarrow> 'a logger_scheme \<Rightarrow> 'a logger_scheme" where
  "capture_error level full_message w =
     (case currentErrorBuf w of
        None \<Rightarrow> w
      | Some a \<Rightarrow>
          if level = CWIPC_LOG_LEVEL_ERROR \<and> errorbufs w a = None
          then w\<lparr>errorbufs := (errorbufs w)(a := Some full_message)\<rparr> else w)"

definition emit_sinks :: "cwipc_log_level \<Rightarrow> string \<Rightarrow> 'a logger_scheme \<Rightarrow> 'a logger_scheme" where
  "emit_sinks level full_message w =
     (let line = ''t='' @ to_string (clock w - starttime w) @ '': '' @ full_message;
          w1 = (if log_to_stderr w then w\<lparr>stderr_out := stderr_out w @ [line]\<rparr> else w);
          w2 = (case logStream w1 of
                  None \<Rightarrow> w1
                | Some st \<Rightarrow> if log_to_file w1
                            then w1\<lparr>stream_out := stream_out w1 @ [(st, line)]\<rparr> else w1)
      in case logCallback w2 of
           None \<Rightarrow> w2
         | Some cb \<Rightarrow> if log_to_callback w2
                     then w2\<lparr>callback_out := callback_out w2 @ [(cb, level, full_message)]\<rparr>
                     else w2)"

definition cwipc_log ::
  "cwipc_log_level \<Rightarrow> string \<Rightarrow> string \<Rightarrow> 'a logger_scheme \<Rightarrow> 'a logger_scheme" where
  "cwipc_log level module_s message w0 =
     (let w = initialize w0
      in if level > currentLogLevel w then w
         else let full_message = log_message level module_s message
              in emit_sinks level full_message
                   (capture_error level full_message (start_clock w)))"

definition cwipc_log_emit ::
  "int \<Rightarrow> string \<Rightarrow> string \<Rightarrow> 'a logger_scheme \<Rightarrow> 'a logger_scheme" where
  "cwipc_log_emit level module_s message w = cwipc_log level module_s message w"

definition cwipc_log_set_errorbuf :: "nat option \<Rightarrow> 'a logger_scheme \<Rightarrow> 'a logger_scheme" where
  "cwipc_log_set_errorbuf errorBuf w = (initialize w)\<lparr>currentErrorBuf := errorBuf\<rparr>"

definition cwipc_log_get_level :: "'a logger_scheme \<Rightarrow> cwipc_log_level \<times> 'a logger_scheme" where
  "cwipc_log_get_level w = (let w' = initialize w in (currentLogLevel w', w'))"

text \<open>A callback is its address; a null callback is \<open>None\<close> and prints as 0.\<close>

definition cwipc_log_configure ::
  "int \<Rightarrow> nat option \<Rightarrow> 'a logger_scheme \<Rightarrow> 'a logger_scheme" where
  "cwipc_log_configure level callback w0 =
     (let w1 = initialize w0;
          w2 = (if level \<noteq> CWIPC_LOG_LEVEL_NONE then w1\<lparr>currentLogLevel := level\<rparr> else w1);
          w3 = (case callback of
                  Some cb \<Rightarrow> w2\<lparr>logCallback := Some cb, log_to_callback := True,
                                log_to_stderr := False\<rparr>
                | None \<Rightarrow> w2\<lparr>logCallback := None, log_to_callback := False,
                             log_to_stderr := \<not> log_to_file w2\<rparr>)
      in if currentLogLevel w3 \<ge> CWIPC_LOG_LEVEL_DEBUG
         then cwipc_log CWIPC_LOG_LEVEL_DEBUG ''logging''
                (''Logging configured, (int)callback='' @
                 to_string (case callback of None \<Rightarrow> 0 | Some cb \<Rightarrow> int cb)) w3
         else w3)"

section \<open>The calls a client can make\<close>

datatype log_call =
    Call_log cwipc_log_level string string
  | Call_configure int "nat option"
  | Call_set_errorbuf "nat option"
  | Call_get_level

fun log_step :: "'a logger_scheme \<Rightarrow> log_call \<Rightarrow> 'a logger_scheme" where
  "log_step w (Call_log level m t) = cwipc_log level m t w"
| "log_step w (Call_configure level cb) = cwipc_log_configure level cb w"
| "log_step w (Call_set_errorbuf e) = cwipc_log_set_errorbuf e w"
| "log_step w Call_get_level = snd (cwipc_log_get_level w)"

definition log_run :: "'a logger_scheme \<Rightarrow> log_call list \<Rightarrow> 'a logger_scheme" where
  "log_run w cs = foldl log_step w cs"

section \<open>The sinks\<close>

text \<open>
  The flags and pointers agree: exactly one of "stderr" and "file or callback" is on, a
  stream exists when logging to a file, and a callback exists exactly when its flag is set.
\<close>

definition sinks_ok :: "'a logger_scheme \<Rightarrow> bool" where
  "sinks_ok w \<longleftrightarrow>
     log_to_stderr w = (\<not> log_to_file w \<and> \<not> log_to_callback w) \<and>
     log_to_file w = (logStream w \<noteq> None) \<and>
     log_to_callback w = (logCallback w \<noteq> None) \<and>
     (\<not> log_initialized w \<longrightarrow> log_to_stderr w)"

lemmas log_op_defs = cwipc_log_def cwipc_log_emit_def capture_error_def start_clock_def
  emit_sinks_def initialize_def cwipc_log_set_errorbuf_def cwipc_log_get_level_def

lemma initialize_initialized [simp]: "log_initialized (initialize w)"
  by (simp add: initialize_def Let_def split: option.splits prod.splits)

lemma initialize_idem: "log_initialized w \<Longrightarrow> initialize w = w"
  by (simp add: initialize_def)

lemma sinks_ok_initialize: "sinks_ok w \<Longrightarrow> sinks_ok (initialize w)"
  by (auto simp: initialize_def sinks_ok_def Let_def split: option.splits prod.splits)

text \<open>What a log call does not touch: the configuration of the logger.\<close>

lemma log_start_frame [world_simps]:
  "log_to_stderr (start_clock w) = log_to_stderr w"
  "log_to_file (start_clock w) = log_to_file w"
  "log_to_callback (start_clock w) = log_to_callback w"
  "logStream (start_clock w) = logStream w"
  "logCallback (start_clock w) = logCallback w"
  "currentLogLevel (start_clock w) = currentLogLevel w"
  "log_initialized (start_clock w) = log_initialized w"
  "currentErrorBuf (start_clock w) = currentErrorBuf w"
  "errorbufs (start_clock w) = errorbufs w"
  by (simp_all add: start_clock_def)

lemma capture_error_frame [world_simps]:
  "log_to_stderr (capture_error l m w) = log_to_stderr w"
  "log_to_file (capture_error l m w) = log_to_file w"
  "log_to_callback (capture_error l m w) = log_to_callback w"
  "logStream (capture_error l m w) = logStream w"
  "logCallback (capture_error l m w) = logCallback w"
  "currentLogLevel (capture_error l m w) = currentLogLevel w"
  "log_initialized (capture_error l m w) = log_initialized w"
  "currentErrorBuf (capture_error l m w) = currentErrorBuf w"
  by (simp_all add: capture_error_def split: option.splits)

lemma emit_sinks_frame [world_simps]:
  "log_to_stderr (emit_sinks l m w) = log_to_stderr w"
  "log_to_file (emit_sinks l m w) = log_to_file w"
  "log_to_callback (emit_sinks l m w) = log_to_callback w"
  "logStream (emit_sinks l m w) = logStream w"
  "logCallback (emit_sinks l m w) = logCallback w"
  "currentLogLevel (emit_sinks l m w) = currentLogLevel w"
  "log_initialized (emit_sinks l m w) = log_initialized w"
  "currentErrorBuf (emit_sinks l m w) = currentErrorBuf w"
  "errorbufs (emit_sinks l m w) = errorbufs w"
  by (simp_all add: emit_sinks_def Let_def split: option.split)

lemma cwipc_log_frame [world_simps]:
  "log_to_stderr (cwipc_log l m t w) = log_to_stderr (initialize w)"
  "log_to_file (cwipc_log l m t w) = log_to_file (initialize w)"
  "log_to_callback (cwipc_log l m t w) = log_to_callback (initialize w)"
  "logStream (cwipc_log l m t w) = logStream (initialize w)"
  "logCallback (cwipc_log l m t w) = logCallback (initialize w)"
  "currentLogLevel (cwipc_log l m t w) = currentLogLevel (initialize w)"
  "log_initialized (cwipc_log l m t w)"
  "currentErrorBuf (cwipc_log l m t w) = currentErrorBuf (initialize w)"
  by (simp_all add: cwipc_log_def Let_def world_simps)

lemma sinks_ok_cong:
  "log_to_stderr w' = log_to_stderr w \<Longrightarrow> log_to_file w' = log_to_file w \<Longrightarrow>
   log_to_callback w' = log_to_callback w \<Longrightarrow> logStream w' = logStream w \<Longrightarrow>
   logCallback w' = logCallback w \<Longrightarrow> log_initialized w' = log_initialized w \<Longrightarrow>
   sinks_ok w' = sinks_ok w"
  by (simp only: sinks_ok_def)

lemma sinks_ok_log: "sinks_ok (cwipc_log l m t w) = sinks_ok (initialize w)"
  by (rule sinks_ok_cong) (simp_all add: world_simps)

lemma sinks_ok_configure:
  assumes "sinks_ok w"
  shows "sinks_ok (cwipc_log_configure level cb w)"
proof -
  define v where "v = (let v = (if level \<noteq> CWIPC_LOG_LEVEL_NONE
      then (initialize w)\<lparr>currentLogLevel := level\<rparr> else initialize w)
    in case cb of
         Some c \<Rightarrow> v\<lparr>logCallback := Some c, log_to_callback := True, log_to_stderr := False\<rparr>
       | None \<Rightarrow> v\<lparr>logCallback := None, log_to_callback := False,
                  log_to_stderr := \<not> log_to_file v\<rparr>)"
  have i: "sinks_ok (initialize w)" using assms by (rule sinks_ok_initialize)
  have init: "log_initialized v"
    by (simp add: v_def Let_def split: option.split)
  have v: "sinks_ok v"
    using i by (cases cb) (simp_all add: v_def Let_def sinks_ok_def)
  have "cwipc_log_configure level cb w =
      (if CWIPC_LOG_LEVEL_DEBUG \<le> currentLogLevel v
       then cwipc_log CWIPC_LOG_LEVEL_DEBUG ''logging''
                (''Logging configured, (int)callback='' @
                 to_string (case cb of None \<Rightarrow> 0 | Some cb \<Rightarrow> int cb)) v
       else v)"
    by (cases cb) (simp_all add: cwipc_log_configure_def v_def Let_def)
  with v init show ?thesis by (simp add: sinks_ok_log initialize_idem)
qed

lemma sinks_ok_errorbuf: "sinks_ok (w\<lparr>currentErrorBuf := e\<rparr>) = sinks_ok w"
  by (rule sinks_ok_cong) simp_all

lemma sinks_ok_step: "sinks_ok w \<Longrightarrow> sinks_ok (log_step w c)"
  by (cases c) (simp_all add: sinks_ok_log sinks_ok_initialize sinks_ok_configure
      sinks_ok_errorbuf cwipc_log_set_errorbuf_def cwipc_log_get_level_def Let_def)

lemma sinks_ok_run: "sinks_ok w \<Longrightarrow> sinks_ok (log_run w cs)"
  unfolding log_run_def by (rule foldl_invariant) (auto intro: sinks_ok_step)

lemma sinks_ok_init: "sinks_ok (logger_init env now)"
  by (simp add: sinks_ok_def logger_init_def)

text \<open>The number of lines and callback calls an operation adds.\<close>

definition emitted :: "'a logger_scheme \<Rightarrow> nat" where
  "emitted w = length (stderr_out w) + length (stream_out w) + length (callback_out w)"

lemma emitted_frame [world_simps]:
  "emitted (start_clock w) = emitted w"
  "emitted (capture_error l m w) = emitted w"
  by (simp_all add: emitted_def start_clock_def capture_error_def split: option.splits)

lemma emitted_sinks:
  assumes "sinks_ok w"
  shows "emitted (emit_sinks l m w) =
    emitted w + (if log_to_file w \<and> log_to_callback w then 2 else 1)"
  using assms by (cases "logStream w"; cases "logCallback w")
    (simp_all add: emit_sinks_def emitted_def sinks_ok_def)

section \<open>Properties\<close>

text \<open>
  Whatever sequence of \<open>cwipc_log_configure\<close>, \<open>cwipc_log_set_errorbuf\<close>, \<open>cwipc_log\<close> and
  \<open>cwipc_log_get_level\<close> calls a process has made, a message at an enabled level is written
  to at least one sink and never to stderr together with another sink, and a message above
  the level is written nowhere.
\<close>

theorem log_message_reaches_a_sink:
  "let w = log_run (logger_init env now) cs;
       w' = cwipc_log level m t w
   in emitted w' = emitted w +
        (if currentLogLevel (initialize w) < level then 0
         else if log_to_file w' \<and> log_to_callback w' then 2 else 1)
      \<and> log_to_stderr w' = (\<not> log_to_file w' \<and> \<not> log_to_callback w')"
proof -
  define w where "w = log_run (logger_init env now) cs"
  have ok: "sinks_ok (initialize w)"
    unfolding w_def by (intro sinks_ok_initialize sinks_ok_run sinks_ok_init)
  have em: "emitted (initialize w) = emitted w"
    by (simp add: initialize_def emitted_def Let_def split: option.splits prod.splits)
  have ok': "sinks_ok (capture_error l msg (start_clock v)) = sinks_ok v" for l msg v
    by (rule sinks_ok_cong) (simp_all add: world_simps)
  have "emitted (cwipc_log level m t w) = emitted w +
        (if currentLogLevel (initialize w) < level then 0
         else if log_to_file (initialize w) \<and> log_to_callback (initialize w) then 2 else 1)"
    using ok by (simp add: cwipc_log_def Let_def emitted_sinks ok' world_simps em)
  moreover have "log_to_stderr (initialize w) =
      (\<not> log_to_file (initialize w) \<and> \<not> log_to_callback (initialize w))"
    using ok by (simp add: sinks_ok_def)
  ultimately show ?thesis
    unfolding w_def [symmetric] Let_def by (simp only: world_simps)
qed

text \<open>The error a sequence of log calls leaves in an empty error buffer.\<close>

fun first_error :: "(cwipc_log_level \<times> string \<times> string) list \<Rightarrow> string option" where
  "first_error [] = None"
| "first_error ((l, m, t) # cs) =
     (if l = CWIPC_LOG_LEVEL_ERROR then Some (log_message l m t) else first_error cs)"

definition log_all ::
  "(cwipc_log_level \<times> string \<times> string) list \<Rightarrow> 'a logger_scheme \<Rightarrow> 'a logger_scheme" where
  "log_all cs w = foldl (\<lambda>w (l, m, t). cwipc_log l m t w) w cs"

lemma cwipc_log_errorbufs:
  assumes "log_initialized w" and "currentErrorBuf w = Some a"
  shows "errorbufs (cwipc_log l m t w) a =
    (if CWIPC_LOG_LEVEL_ERROR = l \<and> l \<le> currentLogLevel w \<and> errorbufs w a = None
     then Some (log_message l m t) else errorbufs w a)"
  using assms
  by (simp add: cwipc_log_def Let_def initialize_idem world_simps capture_error_def)

lemma log_all_keeps_error:
  assumes "log_initialized w" and "currentErrorBuf w = Some a" and "errorbufs w a = Some e"
  shows "errorbufs (log_all cs w) a = Some e"
  using assms
proof (induction cs arbitrary: w)
  case Nil
  then show ?case by (simp add: log_all_def)
next
  case (Cons c cs)
  obtain l m t where c: "c = (l, m, t)" by (cases c)
  have "errorbufs (log_all cs (cwipc_log l m t w)) a = Some e"
    by (rule Cons.IH) (use Cons.prems in \<open>simp_all add: world_simps initialize_idem cwipc_log_errorbufs\<close>)
  then show ?case by (simp add: log_all_def c)
qed

text \<open>
  While an error buffer is installed and errors are enabled, the caller's error variable
  ends up with the message of the first error logged during the call, whatever is logged
  after it; without an error it stays null.
\<close>

theorem errorbuf_holds_first_error:
  assumes "log_initialized w" and "currentErrorBuf w = Some a" and "errorbufs w a = None"
    and "CWIPC_LOG_LEVEL_ERROR \<le> currentLogLevel w"
  shows "errorbufs (log_all cs w) a = first_error cs"
  using assms
proof (induction cs arbitrary: w)
  case Nil
  then show ?case by (simp add: log_all_def)
next
  case (Cons c cs)
  obtain l m t where c: "c = (l, m, t)" by (cases c)
  let ?w = "cwipc_log l m t w"
  have w': "log_initialized ?w" "currentErrorBuf ?w = Some a"
      "currentLogLevel ?w = currentLogLevel w"
    using Cons.prems by (simp_all add: world_simps initialize_idem)
  show ?case
  proof (cases "l = CWIPC_LOG_LEVEL_ERROR")
    case True
    with Cons.prems have "errorbufs ?w a = Some (log_message l m t)"
      by (simp add: cwipc_log_errorbufs)
    with w' have "errorbufs (log_all cs ?w) a = Some (log_message l m t)"
      by (intro log_all_keeps_error)
    with True show ?thesis by (simp add: log_all_def c)
  next
    case False
    with Cons.prems have "errorbufs ?w a = None"
      by (simp add: cwipc_log_errorbufs)
    with w' Cons.prems have "errorbufs (log_all cs ?w) a = first_error cs"
      by (intro Cons.IH) simp_all
    with False show ?thesis by (simp add: log_all_def c)
  qed
qed

theorem errorbuf_holds_first_error_witness:
  "errorbufs (log_all [(2, ''m'', ''w''), (1, ''m'', ''a''), (1, ''m'', ''b'')]
     (cwipc_log_set_errorbuf (Some 7) (logger_init None 5))) 7 = Some ''m: Error: a''"
proof -
  let ?w = "cwipc_log_set_errorbuf (Some 7) (logger_init None 5)"
  have "errorbufs (log_all [(2, ''m'', ''w''), (1, ''m'', ''a''), (1, ''m'', ''b'')] ?w) 7 =
      first_error [(2, ''m'', ''w''), (1, ''m'', ''a''), (1, ''m'', ''b'')]"
    by (rule errorbuf_holds_first_error)
      (simp_all add: cwipc_log_set_errorbuf_def initialize_def logger_init_def log_levels)
  then show ?thesis by (simp add: log_levels log_message_def level_to_string_def)
qed

text \<open>
  With the level set to \<open>NONE\<close> (\<open>CWIPC_LOGGING=NONE\<close>) no error message is captured at
  all: the level test in \<open>cwipc_log\<close> precedes the error buffer, so a failing call leaves the
  caller's error variable as it was.
\<close>

theorem level_none_captures_nothing:
  "errorbufs (cwipc_log CWIPC_LOG_LEVEL_ERROR m t
     (cwipc_log_set_errorbuf (Some a) (logger_init (Some ''NONE'') now))) a = None"
  by (simp add: cwipc_log_def cwipc_log_set_errorbuf_def initialize_def logger_init_def
      split_env_def string_to_level_def log_levels)

end
