(* ===== verification/Pointcloud.thy ===== *)
theory Pointcloud
  imports Bytes Logging
begin

text \<open>
  \<open>cwipc_util/src/cwipc_util.cpp\<close>, first part: metadata collections, the two point cloud
  classes with their lazy conversion, and the process-wide allocation counters. A method is
  a function from the world (logger and counters) and the object to its result, the new
  world and the new object. \<open>pcl::geometry::distance\<close> is the parameter \<open>dist\<close> and
  \<open>malloc\<close> the parameter \<open>malloc_ok\<close> (does an allocation of this size succeed).
\<close>

section \<open>State\<close>

text \<open>
  The static variables of \<open>cwipc_util.cpp\<close>, the metadata deallocations already done, the
  number of temporary buffers a call has taken from \<open>malloc\<close> and not given back, and the
  file system.
\<close>

record world = logger +
  n_cwipc_pointcloud_alloc :: int
  n_cwipc_pointcloud_dealloc :: int
  n_cwipc_uncompressed_pointcloud_alloc :: int
  n_cwipc_uncompressed_pointcloud_dealloc :: int
  metadata_deallocated :: "(nat \<times> nat) list"
  temp_buffers :: int
  files :: "string \<Rightarrow> u8 list option"

definition world_init :: "string option \<Rightarrow> int \<Rightarrow> world" where
  "world_init env now = logger.extend (logger_init env now)
     \<lparr>n_cwipc_pointcloud_alloc = 0, n_cwipc_pointcloud_dealloc = 0,
      n_cwipc_uncompressed_pointcloud_alloc = 0, n_cwipc_uncompressed_pointcloud_dealloc = 0,
      metadata_deallocated = [], temp_buffers = 0, files = (\<lambda>_. None)\<rparr>"

text \<open>\<open>PointXYZRGBMask\<close> of \<open>api_pcl.h\<close>; \<open>rgba\<close> is the packed view of the colour bytes.\<close>

record pcl_point =
  pcl_x :: f32
  pcl_y :: f32
  pcl_z :: f32
  pcl_r :: u8
  pcl_g :: u8
  pcl_b :: u8
  pcl_a :: u8

record metadata_item =
  md_name :: string
  md_description :: string
  md_pointer :: nat
  md_size :: u64
  md_dealloc :: nat

datatype pc_class = Cwipc_impl | Cwipc_uncompressed_impl

record cwipc_obj =
  pc_class :: pc_class
  m_timestamp :: u64
  m_cellsize :: f32
  m_pc :: "pcl_point list option"
  m_metadata :: "metadata_item list option"
  m_points :: "cwipc_point list option"
  m_points_size :: u64

section \<open>cwipc_metadata_impl\<close>

definition metadata_count :: "metadata_item list \<Rightarrow> int" where
  "metadata_count m_items = int_of_size (size_of_nat (length m_items))"

definition metadata_at :: "metadata_item list \<Rightarrow> int \<Rightarrow> fault + metadata_item" where
  "metadata_at m_items idx =
     (if 0 \<le> idx \<and> idx < int (length m_items) then Inr (m_items ! nat idx)
      else Inl Out_of_bounds)"

definition metadata_name :: "metadata_item list \<Rightarrow> int \<Rightarrow> fault + string" where
  "metadata_name m_items idx = map_sum id md_name (metadata_at m_items idx)"

definition metadata_description :: "metadata_item list \<Rightarrow> int \<Rightarrow> fault + string" where
  "metadata_description m_items idx = map_sum id md_description (metadata_at m_items idx)"

definition metadata_pointer :: "metadata_item list \<Rightarrow> int \<Rightarrow> fault + nat" where
  "metadata_pointer m_items idx = map_sum id md_pointer (metadata_at m_items idx)"

definition metadata_size :: "metadata_item list \<Rightarrow> int \<Rightarrow> fault + u64" where
  "metadata_size m_items idx = map_sum id md_size (metadata_at m_items idx)"

definition metadata_add ::
  "string \<Rightarrow> string \<Rightarrow> nat \<Rightarrow> u64 \<Rightarrow> nat \<Rightarrow> metadata_item list \<Rightarrow> metadata_item list" where
  "metadata_add name description pointer sz dealloc m_items =
     m_items @ [\<lparr>md_name = name, md_description = description, md_pointer = pointer,
                 md_size = sz, md_dealloc = dealloc\<rparr>]"

text \<open>\<open>_move\<close> returns the source's and the destination's items afterwards.\<close>

definition metadata_move ::
  "metadata_item list \<Rightarrow> metadata_item list \<Rightarrow> metadata_item list \<times> metadata_item list" where
  "metadata_move src dest = ([], dest @ src)"

text \<open>The destructor calls every item's own deallocator on its pointer, in order.\<close>

definition metadata_destroy :: "metadata_item list \<Rightarrow> world \<Rightarrow> world" where
  "metadata_destroy m_items w =
     w\<lparr>metadata_deallocated :=
         metadata_deallocated w @ map (\<lambda>i. (md_dealloc i, md_pointer i)) m_items\<rparr>"

section \<open>cwipc_impl\<close>

definition new_cwipc_impl :: "pcl_point list option \<Rightarrow> u64 \<Rightarrow> world \<Rightarrow> cwipc_obj \<times> world" where
  "new_cwipc_impl pc ts w =
     (\<lparr>pc_class = Cwipc_impl, m_timestamp = ts, m_cellsize = f32_zero, m_pc = pc,
       m_metadata = None, m_points = None, m_points_size = 0\<rparr>,
      (case pc of None \<Rightarrow> w
       | Some _ \<Rightarrow> w\<lparr>n_cwipc_pointcloud_alloc := n_cwipc_pointcloud_alloc w + 1\<rparr>))"

definition pcl_of_point :: "cwipc_point \<Rightarrow> pcl_point" where
  "pcl_of_point p = \<lparr>pcl_x = pt_x p, pcl_y = pt_y p, pcl_z = pt_z p,
     pcl_r = pt_r p, pcl_g = pt_g p, pcl_b = pt_b p, pcl_a = pt_tile p\<rparr>"

definition point_of_pcl :: "pcl_point \<Rightarrow> cwipc_point" where
  "point_of_pcl p = \<lparr>pt_x = pcl_x p, pt_y = pcl_y p, pt_z = pcl_z p,
     pt_r = pcl_r p, pt_g = pcl_g p, pt_b = pcl_b p, pt_tile = pcl_a p\<rparr>"

text \<open>\<open>npoint * sizeof(struct cwipc_point)\<close>, computed in \<open>size_t\<close> from an \<open>int\<close>.\<close>

definition points_bytes :: "int \<Rightarrow> u64" where
  "points_bytes npoint = size_of_int npoint * size_of_nat sizeof_cwipc_point"

text \<open>
  \<open>cwipc_impl::from_points\<close>. A negative count passes the size test only for a size above
  \<open>2^64 - 2^35\<close>, which no buffer has; the loop then runs zero times.
\<close>

definition impl_from_points ::
  "cwipc_point list \<Rightarrow> u64 \<Rightarrow> int \<Rightarrow> u64 \<Rightarrow> world \<Rightarrow> cwipc_obj \<Rightarrow> int \<times> world \<times> cwipc_obj" where
  "impl_from_points pointData sz npoint ts w ob =
     (if points_bytes npoint \<noteq> sz then (- 1, w, ob)
      else let pc = map pcl_of_point (take (nat npoint) pointData)
           in (npoint,
               w\<lparr>n_cwipc_pointcloud_alloc := n_cwipc_pointcloud_alloc w + 1\<rparr>,
               ob\<lparr>m_timestamp := ts, m_pc := Some pc\<rparr>))"

definition impl_free :: "world \<Rightarrow> cwipc_obj \<Rightarrow> world \<times> cwipc_obj" where
  "impl_free w ob =
     (let w1 = (case m_pc ob of None \<Rightarrow> w
                | Some _ \<Rightarrow> w\<lparr>n_cwipc_pointcloud_dealloc := n_cwipc_pointcloud_dealloc w + 1\<rparr>);
          w2 = (case m_metadata ob of None \<Rightarrow> w1 | Some items \<Rightarrow> metadata_destroy items w1)
      in (w2, ob\<lparr>m_pc := None, m_metadata := None\<rparr>))"

text \<open>
  The cell size heuristic for a negative argument. \<open>prevPoint\<close> is set to \<open>begin()\<close> and never
  advanced, so every later point is compared with the first one.
\<close>

definition guess_cellsize :: "(pcl_point \<Rightarrow> pcl_point \<Rightarrow> f32) \<Rightarrow> pcl_point list \<Rightarrow> f32" where
  "guess_cellsize dist pc =
     (case pc of
        [] \<Rightarrow> f32_zero
      | prevPoint # rest \<Rightarrow>
          let minDistance =
            foldl (\<lambda>m it. let distance = dist it prevPoint
                          in if f32_lt distance m then distance else m) f32_infinity rest
          in if f32_eq minDistance f32_infinity then f32_zero else minDistance)"

definition impl_set_cellsize ::
  "(pcl_point \<Rightarrow> pcl_point \<Rightarrow> f32) \<Rightarrow> f32 \<Rightarrow> cwipc_obj \<Rightarrow> cwipc_obj" where
  "impl_set_cellsize dist cs ob =
     (case m_pc ob of
        Some pc \<Rightarrow> if f32_lt cs f32_zero then ob\<lparr>m_cellsize := guess_cellsize dist pc\<rparr>
                   else ob\<lparr>m_cellsize := cs\<rparr>
      | None \<Rightarrow> ob\<lparr>m_cellsize := cs\<rparr>)"

definition null_pc_warning :: "string \<Rightarrow> world \<Rightarrow> world" where
  "null_pc_warning what w =
     cwipc_log CWIPC_LOG_LEVEL_WARNING ''cwipc_util'' (what @ '': NULL pointcloud'') w"

definition impl_count :: "world \<Rightarrow> cwipc_obj \<Rightarrow> int \<times> world" where
  "impl_count w ob =
     (case m_pc ob of
        None \<Rightarrow> (0, null_pc_warning ''count'' w)
      | Some pc \<Rightarrow> (int_of_size (size_of_nat (length pc)), w))"

definition impl_get_uncompressed_size :: "world \<Rightarrow> cwipc_obj \<Rightarrow> u64 \<times> world" where
  "impl_get_uncompressed_size w ob =
     (case m_pc ob of
        None \<Rightarrow> (0, null_pc_warning ''get_uncompressed_size'' w)
      | Some pc \<Rightarrow> (size_of_nat (length pc) * size_of_nat sizeof_cwipc_point, w))"

text \<open>The second component is what is stored through the caller's pointer.\<close>

definition impl_copy_uncompressed ::
  "u64 \<Rightarrow> world \<Rightarrow> cwipc_obj \<Rightarrow> (int \<times> cwipc_point list) \<times> world" where
  "impl_copy_uncompressed sz w ob =
     (case m_pc ob of
        None \<Rightarrow> ((0, []), null_pc_warning ''copy_uncompressed'' w)
      | Some pc \<Rightarrow>
          if sz < size_of_nat (length pc) * size_of_nat sizeof_cwipc_point
          then ((- 1, []), cwipc_log CWIPC_LOG_LEVEL_ERROR ''cwipc_util''
                             ''copy_uncompressed: buffer too small'' w)
          else let npoint = int_of_size (size_of_nat (length pc))
               in ((npoint, map point_of_pcl (take (nat npoint) pc)), w))"

section \<open>cwipc_uncompressed_impl\<close>

text \<open>
  \<open>malloc\<close> refuses every request above \<open>PTRDIFF_MAX\<close>; below that \<open>malloc_ok\<close> decides.
\<close>

definition malloc :: "(u64 \<Rightarrow> bool) \<Rightarrow> u64 \<Rightarrow> bool" where
  "malloc malloc_ok sz = (sz < 0x8000000000000000 \<and> malloc_ok sz)"

definition new_cwipc_uncompressed_impl :: cwipc_obj where
  "new_cwipc_uncompressed_impl =
     \<lparr>pc_class = Cwipc_uncompressed_impl, m_timestamp = 0, m_cellsize = f32_zero, m_pc = None,
      m_metadata = None, m_points = None, m_points_size = 0\<rparr>"

definition uncompressed_from_points ::
  "(u64 \<Rightarrow> bool) \<Rightarrow> cwipc_point list \<Rightarrow> u64 \<Rightarrow> int \<Rightarrow> u64 \<Rightarrow> world \<Rightarrow> cwipc_obj
   \<Rightarrow> int \<times> world \<times> cwipc_obj" where
  "uncompressed_from_points malloc_ok pointData sz npoint ts w ob =
     (if points_bytes npoint \<noteq> sz
      then (- 1, cwipc_log CWIPC_LOG_LEVEL_ERROR ''cwipc_util''
                   ''from_points: size and npoint inconsistent'' w, ob)
      else if \<not> malloc malloc_ok sz
      then (- 1, cwipc_log CWIPC_LOG_LEVEL_ERROR ''cwipc_util''
                   (''from_points: could not allocate memory for points, size=''
                    @ to_string (uint sz)) w,
            ob\<lparr>m_timestamp := ts, m_points := None\<rparr>)
      else
        let w1 = w\<lparr>n_cwipc_uncompressed_pointcloud_alloc :=
                     n_cwipc_uncompressed_pointcloud_alloc w + 1\<rparr>;
            w2 = (case m_pc ob of None \<Rightarrow> w1
                  | Some _ \<Rightarrow> w1\<lparr>n_cwipc_pointcloud_dealloc := n_cwipc_pointcloud_dealloc w1 + 1\<rparr>)
        in (npoint, w2,
            ob\<lparr>m_timestamp := ts, m_points_size := sz, m_pc := None,
               m_points := Some (take (nat npoint) pointData)\<rparr>))"

definition uncompressed_free :: "world \<Rightarrow> cwipc_obj \<Rightarrow> world \<times> cwipc_obj" where
  "uncompressed_free w ob =
     (let (w1, ob1) = impl_free w ob
      in case m_points ob1 of
           None \<Rightarrow> (w1, ob1\<lparr>m_points_size := 0\<rparr>)
         | Some _ \<Rightarrow>
             (w1\<lparr>n_cwipc_uncompressed_pointcloud_dealloc :=
                   n_cwipc_uncompressed_pointcloud_dealloc w1 + 1\<rparr>,
              ob1\<lparr>m_points := None, m_points_size := 0\<rparr>))"

definition points_of_size :: "u64 \<Rightarrow> int" where
  "points_of_size sz = int_of_size (sz div size_of_nat sizeof_cwipc_point)"

definition uncompressed_access_pcl ::
  "world \<Rightarrow> cwipc_obj \<Rightarrow> pcl_point list option \<times> world \<times> cwipc_obj" where
  "uncompressed_access_pcl w ob =
     (case m_pc ob of
        Some pc \<Rightarrow> (Some pc, w, ob)
      | None \<Rightarrow>
          (case impl_from_points (case m_points ob of None \<Rightarrow> [] | Some ps \<Rightarrow> ps)
                  (m_points_size ob) (points_of_size (m_points_size ob)) (m_timestamp ob) w ob of
             (_, w1, ob1) \<Rightarrow> (m_pc ob1, w1, ob1)))"

definition uncompressed_count :: "cwipc_obj \<Rightarrow> int" where
  "uncompressed_count ob = points_of_size (m_points_size ob)"

definition uncompressed_copy_uncompressed ::
  "u64 \<Rightarrow> world \<Rightarrow> cwipc_obj \<Rightarrow> (int \<times> cwipc_point list) \<times> world" where
  "uncompressed_copy_uncompressed sz w ob =
     (if sz \<noteq> m_points_size ob
      then ((- 1, []), cwipc_log CWIPC_LOG_LEVEL_ERROR ''cwipc_util''
                         ''copy_uncompressed: buffer too small'' w)
      else ((points_of_size (m_points_size ob),
             (case m_points ob of None \<Rightarrow> [] | Some ps \<Rightarrow> ps)), w))"

section \<open>The virtual methods of cwipc_pointcloud\<close>

definition access_pcl_pointcloud ::
  "world \<Rightarrow> cwipc_obj \<Rightarrow> pcl_point list option \<times> world \<times> cwipc_obj" where
  "access_pcl_pointcloud w ob =
     (case pc_class ob of
        Cwipc_impl \<Rightarrow> (m_pc ob, w, ob)
      | Cwipc_uncompressed_impl \<Rightarrow> uncompressed_access_pcl w ob)"

definition pc_free :: "world \<Rightarrow> cwipc_obj \<Rightarrow> world \<times> cwipc_obj" where
  "pc_free w ob =
     (case pc_class ob of
        Cwipc_impl \<Rightarrow> impl_free w ob
      | Cwipc_uncompressed_impl \<Rightarrow> uncompressed_free w ob)"

definition set_cellsize ::
  "(pcl_point \<Rightarrow> pcl_point \<Rightarrow> f32) \<Rightarrow> f32 \<Rightarrow> world \<Rightarrow> cwipc_obj \<Rightarrow> world \<times> cwipc_obj" where
  "set_cellsize dist cs w ob =
     (case pc_class ob of
        Cwipc_impl \<Rightarrow> (w, impl_set_cellsize dist cs ob)
      | Cwipc_uncompressed_impl \<Rightarrow>
          (case uncompressed_access_pcl w ob of
             (_, w1, ob1) \<Rightarrow> (w1, impl_set_cellsize dist cs ob1)))"

definition set_timestamp :: "u64 \<Rightarrow> cwipc_obj \<Rightarrow> cwipc_obj" where
  "set_timestamp ts ob = ob\<lparr>m_timestamp := ts\<rparr>"

definition pc_count :: "world \<Rightarrow> cwipc_obj \<Rightarrow> int \<times> world" where
  "pc_count w ob =
     (case pc_class ob of
        Cwipc_impl \<Rightarrow> impl_count w ob
      | Cwipc_uncompressed_impl \<Rightarrow> (uncompressed_count ob, w))"

definition get_uncompressed_size :: "world \<Rightarrow> cwipc_obj \<Rightarrow> u64 \<times> world" where
  "get_uncompressed_size w ob =
     (case pc_class ob of
        Cwipc_impl \<Rightarrow> impl_get_uncompressed_size w ob
      | Cwipc_uncompressed_impl \<Rightarrow> (m_points_size ob, w))"

definition copy_uncompressed ::
  "u64 \<Rightarrow> world \<Rightarrow> cwipc_obj \<Rightarrow> (int \<times> cwipc_point list) \<times> world" where
  "copy_uncompressed sz w ob =
     (case pc_class ob of
        Cwipc_impl \<Rightarrow> impl_copy_uncompressed sz w ob
      | Cwipc_uncompressed_impl \<Rightarrow> uncompressed_copy_uncompressed sz w ob)"

definition access_metadata :: "cwipc_obj \<Rightarrow> metadata_item list \<times> cwipc_obj" where
  "access_metadata ob =
     (case m_metadata ob of
        Some items \<Rightarrow> (items, ob)
      | None \<Rightarrow> ([], ob\<lparr>m_metadata := Some []\<rparr>))"

text \<open>\<open>_shallowcopy\<close>: the copy, the world and the (possibly converted) original.\<close>

definition shallowcopy ::
  "(pcl_point \<Rightarrow> pcl_point \<Rightarrow> f32) \<Rightarrow> world \<Rightarrow> cwipc_obj \<Rightarrow> cwipc_obj \<times> world \<times> cwipc_obj" where
  "shallowcopy dist w ob =
     (case access_pcl_pointcloud w ob of
        (_, w1, ob1) \<Rightarrow>
          (case new_cwipc_impl (m_pc ob1) (m_timestamp ob1) w1 of
             (rv, w2) \<Rightarrow> (impl_set_cellsize dist (m_cellsize ob1) rv, w2, ob1)))"

section \<open>cwipc_dangling_allocations\<close>

definition dangling_counts :: "world \<Rightarrow> int \<times> int" where
  "dangling_counts w =
     (n_cwipc_pointcloud_alloc w - n_cwipc_pointcloud_dealloc w,
      n_cwipc_uncompressed_pointcloud_alloc w - n_cwipc_uncompressed_pointcloud_dealloc w)"

text \<open>\<open>if (log && a != 0 || b != 0)\<close> groups as \<open>(log && a != 0) || b != 0\<close>.\<close>

definition cwipc_dangling_allocations :: "bool \<Rightarrow> world \<Rightarrow> int \<times> world" where
  "cwipc_dangling_allocations log_b w =
     (let (n_dangling, n_dangling_uncompressed) = dangling_counts w;
          msg1 = to_string n_dangling @ '' free() mismatch. nAlloc=''
                 @ to_string (n_cwipc_pointcloud_alloc w) @ '', nFree=''
                 @ to_string (n_cwipc_pointcloud_dealloc w);
          msg2 = to_string n_dangling_uncompressed @ '' free() mismatch. nAlloc=''
                 @ to_string (n_cwipc_uncompressed_pointcloud_alloc w) @ '', nFree=''
                 @ to_string (n_cwipc_uncompressed_pointcloud_dealloc w);
          w1 = (if (log_b \<and> n_dangling \<noteq> 0) \<or> n_dangling_uncompressed \<noteq> 0
                then cwipc_log_emit CWIPC_LOG_LEVEL_WARNING ''cwipc_pointcloud_uncompressed'' msg2
                       (cwipc_log_emit CWIPC_LOG_LEVEL_WARNING ''cwipc_pointcloud'' msg1 w)
                else w)
      in (\<bar>n_dangling\<bar> + \<bar>n_dangling_uncompressed\<bar>, w1))"

section \<open>Sizes\<close>

lemma uint_points_bytes: "uint (points_bytes n) = (n * 16) mod 2 ^ 64"
proof -
  have "points_bytes n = word_of_int (n * 16)"
    by (simp add: points_bytes_def size_of_int_def size_of_nat_def sizeof_cwipc_point_def)
  then show ?thesis by (simp only: uint_word_of_int) simp
qed

lemma points_bytes_nonneg: "0 \<le> n \<Longrightarrow> n < 2 ^ 31 \<Longrightarrow> uint (points_bytes n) = 16 * n"
  by (simp add: uint_points_bytes)

lemma points_bytes_negative:
  assumes "- (2 ^ 31) \<le> n" and "n < 0"
  shows "\<not> malloc malloc_ok (points_bytes n)"
proof -
  have "uint (points_bytes n) = (n * 16 + 2 ^ 64) mod 2 ^ 64"
    by (simp add: uint_points_bytes)
  also have "\<dots> = n * 16 + 2 ^ 64" using assms by (intro mod_pos_pos_trivial) simp_all
  finally have "uint (points_bytes n) \<ge> 2 ^ 63" using assms(1) by simp
  then show ?thesis by (simp add: malloc_def word_less_def)
qed

lemma int_of_size_range: "- (2 ^ 31) \<le> int_of_size n" "int_of_size n < 2 ^ 31"
  using sint_ge [of "ucast n :: u32"] sint_lt [of "ucast n :: u32"]
  by (simp_all add: int_of_size_def)

section \<open>Logging does not touch the counters\<close>

lemma initialize_world [simp]:
  "n_cwipc_pointcloud_alloc (initialize w) = n_cwipc_pointcloud_alloc w"
  "n_cwipc_pointcloud_dealloc (initialize w) = n_cwipc_pointcloud_dealloc w"
  "n_cwipc_uncompressed_pointcloud_alloc (initialize w) = n_cwipc_uncompressed_pointcloud_alloc w"
  "n_cwipc_uncompressed_pointcloud_dealloc (initialize w) = n_cwipc_uncompressed_pointcloud_dealloc w"
  "metadata_deallocated (initialize w) = metadata_deallocated w"
  "temp_buffers (initialize w) = temp_buffers w"
  "files (initialize w) = files w"
  by (simp_all add: initialize_def Let_def split: option.splits prod.splits)

lemma start_clock_world [simp]:
  "n_cwipc_pointcloud_alloc (start_clock w) = n_cwipc_pointcloud_alloc w"
  "n_cwipc_pointcloud_dealloc (start_clock w) = n_cwipc_pointcloud_dealloc w"
  "n_cwipc_uncompressed_pointcloud_alloc (start_clock w) = n_cwipc_uncompressed_pointcloud_alloc w"
  "n_cwipc_uncompressed_pointcloud_dealloc (start_clock w) = n_cwipc_uncompressed_pointcloud_dealloc w"
  "metadata_deallocated (start_clock w) = metadata_deallocated w"
  "temp_buffers (start_clock w) = temp_buffers w"
  "files (start_clock w) = files w"
  by (simp_all add: start_clock_def)

lemma capture_error_world [simp]:
  "n_cwipc_pointcloud_alloc (capture_error l m w) = n_cwipc_pointcloud_alloc w"
  "n_cwipc_pointcloud_dealloc (capture_error l m w) = n_cwipc_pointcloud_dealloc w"
  "n_cwipc_uncompressed_pointcloud_alloc (capture_error l m w) = n_cwipc_uncompressed_pointcloud_alloc w"
  "n_cwipc_uncompressed_pointcloud_dealloc (capture_error l m w) = n_cwipc_uncompressed_pointcloud_dealloc w"
  "metadata_deallocated (capture_error l m w) = metadata_deallocated w"
  "temp_buffers (capture_error l m w) = temp_buffers w"
  "files (capture_error l m w) = files w"
  by (simp_all add: capture_error_def split: option.splits)

lemma emit_sinks_world [simp]:
  "n_cwipc_pointcloud_alloc (emit_sinks l m w) = n_cwipc_pointcloud_alloc w"
  "n_cwipc_pointcloud_dealloc (emit_sinks l m w) = n_cwipc_pointcloud_dealloc w"
  "n_cwipc_uncompressed_pointcloud_alloc (emit_sinks l m w) = n_cwipc_uncompressed_pointcloud_alloc w"
  "n_cwipc_uncompressed_pointcloud_dealloc (emit_sinks l m w) = n_cwipc_uncompressed_pointcloud_dealloc w"
  "metadata_deallocated (emit_sinks l m w) = metadata_deallocated w"
  "temp_buffers (emit_sinks l m w) = temp_buffers w"
  "files (emit_sinks l m w) = files w"
  by (simp_all add: emit_sinks_def Let_def split: option.split)

lemma cwipc_log_world [simp]:
  "n_cwipc_pointcloud_alloc (cwipc_log l m t w) = n_cwipc_pointcloud_alloc w"
  "n_cwipc_pointcloud_dealloc (cwipc_log l m t w) = n_cwipc_pointcloud_dealloc w"
  "n_cwipc_uncompressed_pointcloud_alloc (cwipc_log l m t w) = n_cwipc_uncompressed_pointcloud_alloc w"
  "n_cwipc_uncompressed_pointcloud_dealloc (cwipc_log l m t w) = n_cwipc_uncompressed_pointcloud_dealloc w"
  "metadata_deallocated (cwipc_log l m t w) = metadata_deallocated w"
  "temp_buffers (cwipc_log l m t w) = temp_buffers w"
  "files (cwipc_log l m t w) = files w"
  by (simp_all add: cwipc_log_def Let_def)

lemma set_errorbuf_world [simp]:
  "n_cwipc_pointcloud_alloc (cwipc_log_set_errorbuf e w) = n_cwipc_pointcloud_alloc w"
  "n_cwipc_pointcloud_dealloc (cwipc_log_set_errorbuf e w) = n_cwipc_pointcloud_dealloc w"
  "n_cwipc_uncompressed_pointcloud_alloc (cwipc_log_set_errorbuf e w) = n_cwipc_uncompressed_pointcloud_alloc w"
  "n_cwipc_uncompressed_pointcloud_dealloc (cwipc_log_set_errorbuf e w) = n_cwipc_uncompressed_pointcloud_dealloc w"
  "metadata_deallocated (cwipc_log_set_errorbuf e w) = metadata_deallocated w"
  "temp_buffers (cwipc_log_set_errorbuf e w) = temp_buffers w"
  "files (cwipc_log_set_errorbuf e w) = files w"
  by (simp_all add: cwipc_log_set_errorbuf_def)


lemma null_pc_warning_world [simp]:
  "n_cwipc_pointcloud_alloc (null_pc_warning s w) = n_cwipc_pointcloud_alloc w"
  "n_cwipc_pointcloud_dealloc (null_pc_warning s w) = n_cwipc_pointcloud_dealloc w"
  "n_cwipc_uncompressed_pointcloud_alloc (null_pc_warning s w) =
     n_cwipc_uncompressed_pointcloud_alloc w"
  "n_cwipc_uncompressed_pointcloud_dealloc (null_pc_warning s w) =
     n_cwipc_uncompressed_pointcloud_dealloc w"
  "metadata_deallocated (null_pc_warning s w) = metadata_deallocated w"
  by (simp_all add: null_pc_warning_def)

end
