(* ===== verification/PacketIO.thy ===== *)
theory PacketIO
  imports Pointcloud
begin

text \<open>
  \<open>cwipc_util/src/cwipc_util.cpp\<close>, second part: packets, dump files, the PLY entry points and
  the other constructors. The PLY reader and writer are PCL's and enter as parameters. What
  the code does with bytes is exact, on the little-endian machines it runs on.
\<close>

section \<open>The API version test\<close>

definition CWIPC_API_VERSION :: u64 where "CWIPC_API_VERSION = 0x20260129"
definition CWIPC_API_VERSION_OLD :: u64 where "CWIPC_API_VERSION_OLD = 0x20260129"

definition api_version_bad :: "u64 \<Rightarrow> bool" where
  "api_version_bad v = (v < CWIPC_API_VERSION_OLD \<or> v > CWIPC_API_VERSION)"

text \<open>\<open>if (errorMessage) *errorMessage = msgbuf\<close>: overwrites whatever was there.\<close>

definition set_error_message :: "nat option \<Rightarrow> string \<Rightarrow> 'a logger_scheme \<Rightarrow> 'a logger_scheme" where
  "set_error_message em msg w =
     (case em of None \<Rightarrow> w | Some a \<Rightarrow> w\<lparr>errorbufs := (errorbufs w)(a := Some msg)\<rparr>)"

definition api_version_error :: "string \<Rightarrow> u64 \<Rightarrow> nat option \<Rightarrow> 'a logger_scheme \<Rightarrow> 'a logger_scheme" where
  "api_version_error fn v em w =
     set_error_message em
       (snprintf_buf 1024 (fn @ '': incorrect apiVersion 0x'' @ hex08 v @ '' expected 0x''
          @ hex08 CWIPC_API_VERSION_OLD @ ''..0x'' @ hex08 CWIPC_API_VERSION)) w"

text \<open>\<open>cwipc_log (ERROR, ...); cwipc_log_set_errorbuf (nullptr); return NULL\<close>.\<close>

definition fail_with :: "string \<Rightarrow> string \<Rightarrow> 'a logger_scheme \<Rightarrow> 'a logger_scheme" where
  "fail_with m t w =
     cwipc_log_set_errorbuf None (cwipc_log CWIPC_LOG_LEVEL_ERROR m t w)"

section \<open>Packets\<close>

definition packet_header :: "u64 \<Rightarrow> f32 \<Rightarrow> u64 \<Rightarrow> cwipcdump_header" where
  "packet_header ts cs dataSize =
     \<lparr>hdr_id = CWIPC_CWIPCDUMP_HEADER, hdr_magic = CWIPC_CWIPCDUMP_VERSION,
      hdr_timestamp = ts, hdr_cellsize = cs, hdr_unused = 0, hdr_size = dataSize\<rparr>"

text \<open>
  \<open>copy_packet\<close>: the returned size and the bytes stored into the packet. \<open>has_packet\<close> is
  \<open>packet != NULL\<close>.
\<close>

definition copy_packet ::
  "bool \<Rightarrow> u64 \<Rightarrow> world \<Rightarrow> cwipc_obj \<Rightarrow> (u64 \<times> u8 list) \<times> world \<times> cwipc_obj" where
  "copy_packet has_packet sz w ob =
     (let (w1, ob1) = (case m_pc ob of
                         None \<Rightarrow> snd (access_pcl_pointcloud w ob) | Some _ \<Rightarrow> (w, ob))
      in if m_pc ob1 = None then ((0, []), null_pc_warning ''copy_packet'' w1, ob1)
         else
           let (dataSize, w2) = get_uncompressed_size w1 ob1;
               sizeNeeded = size_of_nat sizeof_dump_header + dataSize
           in if \<not> has_packet then ((sizeNeeded, []), w2, ob1)
              else if sz \<noteq> sizeNeeded then ((0, []), w2, ob1)
              else let hdr = packet_header (m_timestamp ob1) (m_cellsize ob1) dataSize;
                       ((_, pts), w3) = copy_uncompressed dataSize w2 ob1
                   in ((sizeNeeded, enc_dump_header hdr @ enc_all enc_point pts), w3, ob1))"

text \<open>The bits of the \<open>int npoint\<close> argument are read as a signed number.\<close>

definition cwipc_from_points ::
  "(u64 \<Rightarrow> bool) \<Rightarrow> cwipc_point list \<Rightarrow> u64 \<Rightarrow> u32 \<Rightarrow> u64 \<Rightarrow> nat option \<Rightarrow> u64 \<Rightarrow> world
   \<Rightarrow> fault + cwipc_obj option \<times> world" where
  "cwipc_from_points malloc_ok points sz npoint ts em v w =
     (if api_version_bad v then Inr (None, api_version_error ''cwipc_from_points'' v em w)
      else
        let w1 = cwipc_log_set_errorbuf em w;
            (status, w2, rv) =
              uncompressed_from_points malloc_ok points sz (sint npoint) ts w1 new_cwipc_uncompressed_impl
        in if points_bytes (sint npoint) = sz \<and> malloc malloc_ok sz \<and> length points < nat (sint npoint)
           then Inl Out_of_bounds
           else if status < 0
           then Inr (None, fail_with ''cwipc_from_points'' ''cannot load points (size error?)'' w2)
           else Inr (Some rv, w2))"

text \<open>
  The tests \<open>cwipc_from_packet\<close> makes on the packet, in their order: a fault when they read
  past its end, a message when a test fails, else the header and the bytes after it.
\<close>

definition packet_check :: "u8 list \<Rightarrow> u64 \<Rightarrow> fault + string + cwipcdump_header \<times> u8 list" where
  "packet_check packet sz =
     (if length packet < 4 then Inl Out_of_bounds
      else if take 4 packet \<noteq> CWIPC_CWIPCDUMP_HEADER
      then Inr (Inl ''cwipc_from_packet: incorrect packet header or version'')
      else case dec_dump_header packet of
        None \<Rightarrow> Inl Out_of_bounds
      | Some (header, points_at) \<Rightarrow>
          if hdr_magic header \<noteq> CWIPC_CWIPCDUMP_VERSION
          then Inr (Inl ''cwipc_from_packet: incorrect packet header or version'')
          else if points_bytes (points_of_size (hdr_size header)) \<noteq> sz - size_of_nat sizeof_dump_header
          then Inr (Inl ''cwipc_from_packet: inconsistent dataSize'')
          else Inr (Inr (header, points_at)))"

text \<open>\<open>new cwipc_uncompressed_impl\<close>, \<open>from_points\<close> and \<open>_set_cellsize\<close>.\<close>

definition load_points ::
  "(pcl_point \<Rightarrow> pcl_point \<Rightarrow> f32) \<Rightarrow> (u64 \<Rightarrow> bool) \<Rightarrow> cwipc_point list \<Rightarrow> u64 \<Rightarrow> int
   \<Rightarrow> cwipcdump_header \<Rightarrow> world \<Rightarrow> cwipc_obj option \<times> world" where
  "load_points dist malloc_ok points dataSize npoint header w =
     (let (status, w2, rv) = uncompressed_from_points malloc_ok points dataSize npoint
                               (hdr_timestamp header) w new_cwipc_uncompressed_impl
      in if status < 0 then (None, w2)
         else let (w3, rv') = set_cellsize dist (hdr_cellsize header) w2 rv in (Some rv', w3))"

definition cwipc_from_packet ::
  "(pcl_point \<Rightarrow> pcl_point \<Rightarrow> f32) \<Rightarrow> (u64 \<Rightarrow> bool) \<Rightarrow> u8 list \<Rightarrow> u64 \<Rightarrow> nat option \<Rightarrow> u64
   \<Rightarrow> world \<Rightarrow> fault + cwipc_obj option \<times> world" where
  "cwipc_from_packet dist malloc_ok packet sz em v w =
     (if api_version_bad v then Inr (None, api_version_error ''cwipc_from_packet'' v em w)
      else let w1 = cwipc_log_set_errorbuf em w in
      case packet_check packet sz of
        Inl f \<Rightarrow> Inl f
      | Inr (Inl message) \<Rightarrow> Inr (None, fail_with ''cwipc_util'' message w1)
      | Inr (Inr (header, points_at)) \<Rightarrow>
          let dataSize = sz - size_of_nat sizeof_dump_header;
              npoint = points_of_size (hdr_size header) in
          case (if malloc malloc_ok dataSize then dec_n dec_point (nat npoint) points_at
                else Some ([], points_at)) of
            None \<Rightarrow> Inl Out_of_bounds
          | Some (points, _) \<Rightarrow>
              (case load_points dist malloc_ok points dataSize npoint header w1 of
                 (None, w2) \<Rightarrow> Inr (None, fail_with ''cwipc_from_packet''
                                            ''cannot load points (size error?)'' w2)
               | (Some rv, w2) \<Rightarrow> Inr (Some rv, cwipc_log_set_errorbuf None w2)))"

definition cwipc_from_pcl ::
  "pcl_point list option \<Rightarrow> u64 \<Rightarrow> nat option \<Rightarrow> u64 \<Rightarrow> world \<Rightarrow> cwipc_obj option \<times> world" where
  "cwipc_from_pcl pc ts em v w =
     (if api_version_bad v then (None, api_version_error ''cwipc_from_pcl'' v em w)
      else let (rv, w2) = new_cwipc_impl pc ts (cwipc_log_set_errorbuf em w)
           in (Some rv, cwipc_log_set_errorbuf None w2))"

section \<open>PLY files\<close>

definition cwipc_read ::
  "(string \<Rightarrow> pcl_point list option) \<Rightarrow> string \<Rightarrow> u64 \<Rightarrow> nat option \<Rightarrow> u64 \<Rightarrow> world
   \<Rightarrow> cwipc_obj option \<times> world" where
  "cwipc_read ply_read filename ts em v w =
     (if api_version_bad v then (None, api_version_error ''cwipc_read'' v em w)
      else let w1 = cwipc_log_set_errorbuf em w in
        case ply_read filename of
          None \<Rightarrow> (None, fail_with ''cwipc_read'' (''Loading of PLY file failed: '' @ filename) w1)
        | Some pc \<Rightarrow>
            let (rv, w2) = new_cwipc_impl (Some pc) ts w1
            in (Some rv, cwipc_log_set_errorbuf None w2))"

text \<open>\<open>cwipc_write\<close> and \<open>cwipc_write_ext\<close> differ in the writer call and the module name.\<close>

definition write_ply ::
  "string \<Rightarrow> (string \<Rightarrow> pcl_point list \<Rightarrow> int) \<Rightarrow> string \<Rightarrow> nat option \<Rightarrow> world \<Rightarrow> cwipc_obj
   \<Rightarrow> int \<times> world \<times> cwipc_obj" where
  "write_ply fn ply_write filename em w ob =
     (let (pc, w1, ob1) = access_pcl_pointcloud w ob;
          w2 = cwipc_log_set_errorbuf em w1
      in case pc of
           None \<Rightarrow> (- 1, fail_with fn ''Saving NULL pointcloud not implemented'' w2, ob1)
         | Some ps \<Rightarrow>
             let status = ply_write filename ps;
                 w3 = (if status < 0
                       then cwipc_log CWIPC_LOG_LEVEL_ERROR fn
                              (''Saving of PLY file failed: '' @ filename) w2 else w2)
             in (status, cwipc_log_set_errorbuf None w3, ob1))"

definition cwipc_write ::
  "(string \<Rightarrow> pcl_point list \<Rightarrow> int) \<Rightarrow> string \<Rightarrow> nat option \<Rightarrow> world \<Rightarrow> cwipc_obj
   \<Rightarrow> int \<times> world \<times> cwipc_obj" where
  "cwipc_write ply_write filename em w ob = write_ply ''cwipc_write'' ply_write filename em w ob"

definition CWIPC_FLAG_BINARY :: u32 where "CWIPC_FLAG_BINARY = 1"

definition cwipc_write_ext ::
  "(bool \<Rightarrow> string \<Rightarrow> pcl_point list \<Rightarrow> int) \<Rightarrow> string \<Rightarrow> u32 \<Rightarrow> nat option \<Rightarrow> world \<Rightarrow> cwipc_obj
   \<Rightarrow> int \<times> world \<times> cwipc_obj" where
  "cwipc_write_ext ply_write filename flag em w ob =
     write_ply ''cwipc_write_ext'' (ply_write (flag AND CWIPC_FLAG_BINARY \<noteq> 0)) filename em w ob"

section \<open>Dump files\<close>

text \<open>
  \<open>fopen (filename, "rb")\<close> and the two \<open>fread\<close> calls read the file's bytes. The temporary
  \<open>pointData\<close> is freed only after the points are copied: on a short read it is not. The code
  ignores the status of \<open>from_points\<close> here; the tests before it have already made every
  failure of it impossible (the round trips of \<open>RoundTrips\<close> rest on this).
\<close>

definition cwipc_read_debugdump ::
  "(pcl_point \<Rightarrow> pcl_point \<Rightarrow> f32) \<Rightarrow> (u64 \<Rightarrow> bool) \<Rightarrow> string \<Rightarrow> nat option \<Rightarrow> u64 \<Rightarrow> world
   \<Rightarrow> cwipc_obj option \<times> world" where
  "cwipc_read_debugdump dist malloc_ok filename em v w =
     (if api_version_bad v then (None, api_version_error ''cwipc_read_debugdump'' v em w)
      else let w1 = cwipc_log_set_errorbuf em w;
               err = fail_with ''cwipc_read_debugdump'' in
      case files w filename of
        None \<Rightarrow> (None, err (''Cannot open file: '' @ filename) w1)
      | Some bytes \<Rightarrow>
      case dec_dump_header bytes of
        None \<Rightarrow> (None, err (''Cannot read pointcloud dumpfile header: '' @ filename) w1)
      | Some (header, data) \<Rightarrow>
          if hdr_id header \<noteq> CWIPC_CWIPCDUMP_HEADER
          then (None, err (''Pointcloud dumpfile header incorrect: '' @ filename) w1)
          else if hdr_magic header \<noteq> CWIPC_CWIPCDUMP_VERSION
          then (None, err (''Pointcloud dumpfile version incorrect: '' @ filename) w1)
          else
            let dataSize = hdr_size header; npoint = points_of_size dataSize in
            if points_bytes npoint \<noteq> dataSize
            then (None, err ''Pointcloud dumpfile datasize inconsistent'' w1)
            else if \<not> malloc malloc_ok dataSize
            then (None, err ''Could not allocate memory for point data'' w1)
            else if length data < unat dataSize
            then (None, err ''Could not read point data of correct size''
                          (w1\<lparr>temp_buffers := temp_buffers w1 + 1\<rparr>))
            else
              let pointData = (case dec_n dec_point (nat npoint) data of
                                 None \<Rightarrow> [] | Some (ps, _) \<Rightarrow> ps)
              in load_points dist malloc_ok pointData dataSize npoint header w1)"

text \<open>
  \<open>disk f\<close> is \<open>None\<close> when \<open>fopen (f, "wb")\<close> fails and \<open>Some room\<close> when the file can take
  \<open>room\<close> bytes; \<open>fwrite\<close> returns the number of whole points that fitted.
\<close>

definition cwipc_write_debugdump ::
  "(u64 \<Rightarrow> bool) \<Rightarrow> (string \<Rightarrow> nat option) \<Rightarrow> string \<Rightarrow> nat option \<Rightarrow> world \<Rightarrow> cwipc_obj
   \<Rightarrow> int \<times> world" where
  "cwipc_write_debugdump malloc_ok disk filename em w ob =
     (let (dataSize, w0) = get_uncompressed_size w ob;
          w1 = cwipc_log_set_errorbuf em w0;
          err = fail_with ''cwipc_write_debugdump''
      in if \<not> malloc malloc_ok dataSize
         then (- 1, err (''Cannot allocate memory, size='' @ to_string (uint dataSize)) w1)
         else
           let ((nPoint, pts), w2) = copy_uncompressed dataSize w1 ob in
           if nPoint < 0
           then (- 1, err (''Cannot copy points, size='' @ to_string (uint dataSize)) w2)
           else case disk filename of
             None \<Rightarrow> (- 1, err (''Cannot open output file: '' @ filename) w2)
           | Some room \<Rightarrow>
               let header = enc_dump_header
                              (packet_header (m_timestamp ob) (m_cellsize ob) dataSize);
                   content = take room (header @ enc_all enc_point pts);
                   w3 = w2\<lparr>files := (files w2)(filename := Some content)\<rparr>;
                   written = (length content - length header) div sizeof_cwipc_point
               in if int written \<noteq> nPoint
                  then (- 1, err (''Cannot write point data, nPoint='' @ to_string nPoint) w3)
                  else (0, cwipc_log_set_errorbuf None w3))"

end
