(* ===== verification/Allocation.thy ===== *)
theory Allocation
  imports PacketIO "HOL-Library.Multiset"
begin

text \<open>
  The allocation counters of \<open>cwipc_util.cpp\<close> over whole client programs: a store of point
  clouds, the calls a client can make on it, and the accounting contract every operation keeps,
  stated once as the locale \<open>accounted\<close> and interpreted for each operation.
\<close>

section \<open>What an object owns\<close>

definition live_pc :: "cwipc_obj \<Rightarrow> int" where
  "live_pc ob = (if m_pc ob = None then 0 else 1)"

definition live_points :: "cwipc_obj \<Rightarrow> int" where
  "live_points ob = (if m_points ob = None then 0 else 1)"

definition metadata_of :: "cwipc_obj \<Rightarrow> (nat \<times> nat) list" where
  "metadata_of ob = (case m_metadata ob of None \<Rightarrow> []
     | Some items \<Rightarrow> map (\<lambda>i. (md_dealloc i, md_pointer i)) items)"

definition total :: "(cwipc_obj \<Rightarrow> int) \<Rightarrow> cwipc_obj list \<Rightarrow> int" where
  "total f obs = sum_list (map f obs)"

lemmas live_defs = live_pc_def live_points_def

lemma total_simps [simp]:
  "total f [] = 0" "total f (obs @ [ob]) = total f obs + f ob"
  by (simp_all add: total_def)

lemma total_update:
  "i < length obs \<Longrightarrow> total f (obs[i := ob]) = total f obs - f (obs ! i) + f ob"
  by (simp add: total_def sum_list_update)

definition pc_dangling :: "world \<Rightarrow> int" where
  "pc_dangling w = fst (dangling_counts w)"

definition points_dangling :: "world \<Rightarrow> int" where
  "points_dangling w = snd (dangling_counts w)"

lemmas dangling_defs = pc_dangling_def points_dangling_def dangling_counts_def

section \<open>The accounting contract of a meth\<close>

locale accounted =
  fixes meth :: "world \<Rightarrow> cwipc_obj \<Rightarrow> world \<times> cwipc_obj"
  assumes pc_counts: "meth w ob = (w', ob') \<Longrightarrow>
            pc_dangling w' - pc_dangling w = live_pc ob' - live_pc ob"
      and points_counts: "meth w ob = (w', ob') \<Longrightarrow>
            points_dangling w' - points_dangling w = live_points ob' - live_points ob"
      and deallocs: "meth w ob = (w', ob') \<Longrightarrow>
            mset (metadata_deallocated w') + mset (metadata_of ob') =
            mset (metadata_deallocated w) + mset (metadata_of ob)"
begin

lemma store_counts:
  assumes "pc_dangling w = total live_pc obs" and "points_dangling w = total live_points obs"
    and "i < length obs" and "meth w (obs ! i) = (w', ob')"
  shows "pc_dangling w' = total live_pc (obs[i := ob']) \<and>
    points_dangling w' = total live_points (obs[i := ob'])"
  using pc_counts [OF assms(4)] points_counts [OF assms(4)] assms(1-3)
  by (simp add: total_update)

end

lemma metadata_destroy_world [simp]:
  "n_cwipc_pointcloud_alloc (metadata_destroy items w) = n_cwipc_pointcloud_alloc w"
  "n_cwipc_pointcloud_dealloc (metadata_destroy items w) = n_cwipc_pointcloud_dealloc w"
  "n_cwipc_uncompressed_pointcloud_alloc (metadata_destroy items w) =
     n_cwipc_uncompressed_pointcloud_alloc w"
  "n_cwipc_uncompressed_pointcloud_dealloc (metadata_destroy items w) =
     n_cwipc_uncompressed_pointcloud_dealloc w"
  "metadata_deallocated (metadata_destroy items w) =
     metadata_deallocated w @ map (\<lambda>i. (md_dealloc i, md_pointer i)) items"
  by (simp_all add: metadata_destroy_def)

lemmas method_defs = impl_from_points_def impl_free_def uncompressed_free_def
  uncompressed_access_pcl_def access_pcl_pointcloud_def pc_free_def

interpretation free_acc: accounted pc_free
  by unfold_locales
    (auto simp: method_defs dangling_defs live_defs metadata_of_def Let_def
      split: pc_class.splits option.splits if_splits)

interpretation access_acc: accounted "\<lambda>w ob. snd (access_pcl_pointcloud w ob)"
  by unfold_locales
    (auto simp: method_defs dangling_defs live_defs metadata_of_def Let_def
      split: pc_class.splits option.splits if_splits)

lemma impl_set_cellsize_frame [simp]:
  "m_pc (impl_set_cellsize dist cs ob) = m_pc ob"
  "m_points (impl_set_cellsize dist cs ob) = m_points ob"
  "m_points_size (impl_set_cellsize dist cs ob) = m_points_size ob"
  "m_timestamp (impl_set_cellsize dist cs ob) = m_timestamp ob"
  "m_metadata (impl_set_cellsize dist cs ob) = m_metadata ob"
  "pc_class (impl_set_cellsize dist cs ob) = pc_class ob"
  "live_pc (impl_set_cellsize dist cs ob) = live_pc ob"
  "live_points (impl_set_cellsize dist cs ob) = live_points ob"
  "metadata_of (impl_set_cellsize dist cs ob) = metadata_of ob"
  by (simp_all add: impl_set_cellsize_def live_defs metadata_of_def split: option.splits)

lemma set_cellsize_as_access:
  "set_cellsize dist cs w ob =
     (case snd (access_pcl_pointcloud w ob) of (w', ob') \<Rightarrow> (w', impl_set_cellsize dist cs ob'))"
  by (simp add: set_cellsize_def access_pcl_pointcloud_def split: pc_class.splits prod.splits)

interpretation cellsize_acc: accounted "set_cellsize dist cs" for dist cs
  by unfold_locales
    (auto simp: set_cellsize_as_access access_acc.pc_counts access_acc.points_counts access_acc.deallocs
      split: prod.splits)

text \<open>Methods that only read the object, convert it, or log.\<close>

lemma accounted_log:
  "pc_dangling (cwipc_log l m t w) = pc_dangling w"
  "points_dangling (cwipc_log l m t w) = points_dangling w"
  "pc_dangling (cwipc_log_set_errorbuf e w) = pc_dangling w"
  "points_dangling (cwipc_log_set_errorbuf e w) = points_dangling w"
  "pc_dangling (null_pc_warning s w) = pc_dangling w"
  "points_dangling (null_pc_warning s w) = points_dangling w"
  by (simp_all add: dangling_defs)

lemma io_world:
  "pc_dangling (w\<lparr>files := fs\<rparr>) = pc_dangling w"
  "points_dangling (w\<lparr>files := fs\<rparr>) = points_dangling w"
  "pc_dangling (w\<lparr>temp_buffers := n\<rparr>) = pc_dangling w"
  "points_dangling (w\<lparr>temp_buffers := n\<rparr>) = points_dangling w"
  by (simp_all add: dangling_defs)

lemma set_error_message_world [simp]:
  "pc_dangling (set_error_message em msg w) = pc_dangling w"
  "points_dangling (set_error_message em msg w) = points_dangling w"
  "metadata_deallocated (set_error_message em msg w) = metadata_deallocated w"
  by (simp_all add: set_error_message_def dangling_defs split: option.splits)

lemma api_version_error_world [simp]:
  "pc_dangling (api_version_error fn v em w) = pc_dangling w"
  "points_dangling (api_version_error fn v em w) = points_dangling w"
  "metadata_deallocated (api_version_error fn v em w) = metadata_deallocated w"
  by (simp_all add: api_version_error_def)

lemma fail_with_world [simp]:
  "pc_dangling (fail_with m t w) = pc_dangling w"
  "points_dangling (fail_with m t w) = points_dangling w"
  "metadata_deallocated (fail_with m t w) = metadata_deallocated w"
  by (simp_all add: fail_with_def accounted_log)

lemma get_uncompressed_size_world:
  assumes "get_uncompressed_size w ob = (n, w')"
  shows "pc_dangling w' = pc_dangling w" "points_dangling w' = points_dangling w"
    "metadata_deallocated w' = metadata_deallocated w"
  using assms
  by (auto simp: get_uncompressed_size_def impl_get_uncompressed_size_def accounted_log
      split: pc_class.splits option.splits)

lemma copy_uncompressed_world:
  assumes "copy_uncompressed sz w ob = (r, w')"
  shows "pc_dangling w' = pc_dangling w" "points_dangling w' = points_dangling w"
    "metadata_deallocated w' = metadata_deallocated w"
  using assms
  by (auto simp: copy_uncompressed_def impl_copy_uncompressed_def Let_def accounted_log
      uncompressed_copy_uncompressed_def split: pc_class.splits option.splits if_splits)

definition get_uncompressed_size_method :: "world \<Rightarrow> cwipc_obj \<Rightarrow> world \<times> cwipc_obj" where
  "get_uncompressed_size_method w ob = (snd (get_uncompressed_size w ob), ob)"

definition copy_uncompressed_method :: "u64 \<Rightarrow> world \<Rightarrow> cwipc_obj \<Rightarrow> world \<times> cwipc_obj" where
  "copy_uncompressed_method sz w ob = (snd (copy_uncompressed sz w ob), ob)"

definition count_method :: "world \<Rightarrow> cwipc_obj \<Rightarrow> world \<times> cwipc_obj" where
  "count_method w ob = (snd (pc_count w ob), ob)"

interpretation size_acc: accounted get_uncompressed_size_method
  by unfold_locales
    (auto simp: get_uncompressed_size_method_def get_uncompressed_size_world [OF surjective_pairing])

interpretation copy_acc: accounted "copy_uncompressed_method sz" for sz
  by unfold_locales
    (auto simp: copy_uncompressed_method_def copy_uncompressed_world [OF surjective_pairing])

interpretation count_acc: accounted count_method
  by unfold_locales
    (auto simp: count_method_def pc_count_def impl_count_def accounted_log
      split: pc_class.splits option.splits)

interpretation timestamp_acc: accounted "\<lambda>w ob. (w, set_timestamp ts ob)" for ts
  by unfold_locales (auto simp: set_timestamp_def live_defs metadata_of_def)

definition copy_packet_method :: "bool \<Rightarrow> u64 \<Rightarrow> world \<Rightarrow> cwipc_obj \<Rightarrow> world \<times> cwipc_obj" where
  "copy_packet_method has_packet sz w ob = snd (copy_packet has_packet sz w ob)"

definition write_debugdump_method ::
  "(u64 \<Rightarrow> bool) \<Rightarrow> (string \<Rightarrow> nat option) \<Rightarrow> string \<Rightarrow> nat option \<Rightarrow> world \<Rightarrow> cwipc_obj
   \<Rightarrow> world \<times> cwipc_obj" where
  "write_debugdump_method malloc_ok disk filename em w ob =
     (snd (cwipc_write_debugdump malloc_ok disk filename em w ob), ob)"

text \<open>
  \<open>copy_packet\<close> converts the object at most once and then only reads it.
\<close>

lemma copy_packet_world:
  assumes "copy_packet hp sz w ob = (res, w', ob')"
    and "(w1, ob1) = (case m_pc ob of
           None \<Rightarrow> snd (access_pcl_pointcloud w ob) | Some _ \<Rightarrow> (w, ob))"
  shows "ob' = ob1" "pc_dangling w' = pc_dangling w1" "points_dangling w' = points_dangling w1"
    "metadata_deallocated w' = metadata_deallocated w1"
  using assms
  by (auto simp: copy_packet_def Let_def accounted_log
      get_uncompressed_size_world copy_uncompressed_world
      split: prod.splits if_splits)

lemma convert_acc:
  "accounted (\<lambda>w ob. case m_pc ob of
     None \<Rightarrow> snd (access_pcl_pointcloud w ob) | Some _ \<Rightarrow> (w, ob))"
  by unfold_locales
    (auto simp: access_acc.pc_counts access_acc.points_counts access_acc.deallocs
      split: option.splits)

interpretation packet_acc: accounted "copy_packet_method hp sz" for hp sz
proof
  fix w ob w' ob' assume m: "copy_packet_method hp sz w ob = (w', ob')"
  obtain w1 ob1 where c: "(w1, ob1) = (case m_pc ob of
      None \<Rightarrow> snd (access_pcl_pointcloud w ob) | Some _ \<Rightarrow> (w, ob))"
    by (metis surj_pair)
  from m obtain res where "copy_packet hp sz w ob = (res, w', ob')"
    by (metis copy_packet_method_def prod.collapse)
  note same = copy_packet_world [OF this c]
  note conv = accounted.pc_counts [OF convert_acc c [symmetric]]
    accounted.points_counts [OF convert_acc c [symmetric]]
    accounted.deallocs [OF convert_acc c [symmetric]]
  show "pc_dangling w' - pc_dangling w = live_pc ob' - live_pc ob"
    "points_dangling w' - points_dangling w = live_points ob' - live_points ob"
    "mset (metadata_deallocated w') + mset (metadata_of ob') =
      mset (metadata_deallocated w) + mset (metadata_of ob)"
    using conv by (simp_all add: same)
qed

lemma write_debugdump_world:
  assumes "cwipc_write_debugdump malloc_ok disk f em w ob = (res, w')"
  shows "pc_dangling w' = pc_dangling w" "points_dangling w' = points_dangling w"
    "metadata_deallocated w' = metadata_deallocated w"
  using assms
  by (auto simp: cwipc_write_debugdump_def Let_def accounted_log io_world
      get_uncompressed_size_world copy_uncompressed_world
      split: prod.splits if_splits option.splits)

interpretation write_acc: accounted "write_debugdump_method malloc_ok disk f em"
  for malloc_ok disk f em
  by unfold_locales
    (auto simp: write_debugdump_method_def write_debugdump_world [OF surjective_pairing])

section \<open>Constructors\<close>

lemma pc_free_live:
  assumes "pc_free w ob = (w', ob')" and "pc_class ob = Cwipc_impl \<Longrightarrow> m_points ob = None"
  shows "live_pc ob' = 0" "live_points ob' = 0"
  using assms
  by (auto simp: method_defs live_defs Let_def split: pc_class.splits option.splits if_splits prod.splits)

text \<open>
  A constructor returns a new object it accounts for, or none and nothing is counted. New
  objects carry no metadata.
\<close>

locale constructor =
  fixes make :: "world \<Rightarrow> fault + cwipc_obj option \<times> world"
  assumes made: "make w = Inr (Some ob, w') \<Longrightarrow>
            pc_dangling w' = pc_dangling w + live_pc ob \<and>
            points_dangling w' = points_dangling w + live_points ob \<and>
            metadata_of ob = [] \<and> metadata_deallocated w' = metadata_deallocated w"
      and failed: "make w = Inr (None, w') \<Longrightarrow>
            pc_dangling w' = pc_dangling w \<and> points_dangling w' = points_dangling w \<and>
            metadata_deallocated w' = metadata_deallocated w"
begin

lemma store_counts:
  assumes "pc_dangling w = total live_pc obs" and "points_dangling w = total live_points obs"
    and "make w = Inr (Some ob, w')"
  shows "pc_dangling w' = total live_pc (obs @ [ob]) \<and>
    points_dangling w' = total live_points (obs @ [ob])"
  using made [OF assms(3)] assms(1,2) by simp

end

lemma fresh_from_points:
  assumes "uncompressed_from_points malloc_ok ps sz n ts w new_cwipc_uncompressed_impl = (st, w', ob)"
  shows "st = - 1 \<and> pc_dangling w' = pc_dangling w \<and> points_dangling w' = points_dangling w
      \<or> st = n \<and> pc_dangling w' = pc_dangling w + live_pc ob
        \<and> points_dangling w' = points_dangling w + live_points ob"
    and "metadata_deallocated w' = metadata_deallocated w" and "metadata_of ob = []"
  using assms
  by (auto simp: uncompressed_from_points_def new_cwipc_uncompressed_impl_def Let_def
      metadata_of_def live_defs dangling_defs split: if_splits)

lemma fresh_from_points_negative:
  assumes "- (2 ^ 31) \<le> n"
    and "uncompressed_from_points malloc_ok ps sz n ts w new_cwipc_uncompressed_impl = (st, w', ob)"
    and "st < 0"
  shows "pc_dangling w' = pc_dangling w \<and> points_dangling w' = points_dangling w \<and> st = - 1"
  using assms points_bytes_negative [of n malloc_ok]
  by (auto simp: uncompressed_from_points_def Let_def accounted_log
      new_cwipc_uncompressed_impl_def split: if_splits)

interpretation from_points_new: constructor
  "cwipc_from_points malloc_ok ps sz n ts em v" for malloc_ok ps sz n ts em v
proof
  fix w ob w' assume "cwipc_from_points malloc_ok ps sz n ts em v w = Inr (Some ob, w')"
  then obtain st where "uncompressed_from_points malloc_ok ps sz (sint n) ts
      (cwipc_log_set_errorbuf em w) new_cwipc_uncompressed_impl = (st, w', ob)" and "\<not> st < 0"
    by (auto simp: cwipc_from_points_def Let_def split: if_splits prod.splits)
  from fresh_from_points [OF this(1)] this(2) show "pc_dangling w' = pc_dangling w + live_pc ob \<and>
      points_dangling w' = points_dangling w + live_points ob \<and>
      metadata_of ob = [] \<and> metadata_deallocated w' = metadata_deallocated w"
    by (auto simp: accounted_log)
next
  fix w w' assume fail: "cwipc_from_points malloc_ok ps sz n ts em v w = Inr (None, w')"
  show "pc_dangling w' = pc_dangling w \<and> points_dangling w' = points_dangling w \<and>
      metadata_deallocated w' = metadata_deallocated w"
  proof (cases "api_version_bad v")
    case True
    with fail show ?thesis by (auto simp: cwipc_from_points_def)
  next
    case False
    obtain st w2 rv where u: "uncompressed_from_points malloc_ok ps sz (sint n) ts
        (cwipc_log_set_errorbuf em w) new_cwipc_uncompressed_impl = (st, w2, rv)"
      by (metis prod_cases3)
    with False fail have w': "w' = fail_with ''cwipc_from_points''
        ''cannot load points (size error?)'' w2" and neg: "st < 0"
      by (auto simp: cwipc_from_points_def Let_def split: if_splits)
    have "st = - 1 \<and> pc_dangling w2 = pc_dangling w \<and> points_dangling w2 = points_dangling w"
      using fresh_from_points_negative [OF _ u] fresh_from_points (1) [OF u] neg
        sint_ge [of n] by (auto simp: accounted_log)
    with fresh_from_points (2) [OF u] w' show ?thesis by simp
  qed
qed

interpretation from_pcl_new: constructor "\<lambda>w. Inr (cwipc_from_pcl pc ts em v w)" for pc ts em v
  by unfold_locales
    (auto simp: cwipc_from_pcl_def new_cwipc_impl_def Let_def accounted_log dangling_defs
      live_defs metadata_of_def api_version_error_def set_error_message_def
      split: if_splits option.splits)

interpretation read_new: constructor "\<lambda>w. Inr (cwipc_read ply_read f ts em v w)"
  for ply_read f ts em v
  by unfold_locales
    (auto simp: cwipc_read_def new_cwipc_impl_def Let_def accounted_log dangling_defs fail_with_def
      live_defs metadata_of_def api_version_error_def set_error_message_def
      split: if_splits option.splits)

text \<open>
  A packet or dump file with a good header: points are copied into a fresh object and the
  cell size is set, which converts it.
\<close>

lemma fresh_points_with_cellsize:
  assumes "uncompressed_from_points malloc_ok ps sz n ts w new_cwipc_uncompressed_impl = (st, w1, ob1)"
    and "\<not> st < 0" and "set_cellsize dist cs w1 ob1 = (w2, ob2)"
  shows "pc_dangling w2 = pc_dangling w + live_pc ob2 \<and>
    points_dangling w2 = points_dangling w + live_points ob2 \<and>
    metadata_of ob2 = [] \<and> metadata_deallocated w2 = metadata_deallocated w"
proof -
  have acc: "pc_dangling w2 - pc_dangling w1 = live_pc ob2 - live_pc ob1"
    "points_dangling w2 - points_dangling w1 = live_points ob2 - live_points ob1"
    using assms(3) by (rule cellsize_acc.pc_counts, rule cellsize_acc.points_counts)
  have "metadata_of ob2 = metadata_of ob1" and "metadata_deallocated w2 = metadata_deallocated w1"
    using assms(3) by (auto simp: set_cellsize_as_access access_pcl_pointcloud_def
        uncompressed_access_pcl_def impl_from_points_def Let_def metadata_of_def
        split: prod.splits pc_class.splits option.splits if_splits)
  with acc fresh_from_points [OF assms(1)] assms(2) show ?thesis by auto
qed

lemma load_points_accounts:
  assumes "load_points dist malloc_ok ps (points_bytes n) n header w = (res, w')"
    and "- (2 ^ 31) \<le> n"
  shows "res = Some ob \<Longrightarrow> pc_dangling w' = pc_dangling w + live_pc ob \<and>
      points_dangling w' = points_dangling w + live_points ob \<and>
      metadata_of ob = [] \<and> metadata_deallocated w' = metadata_deallocated w"
    and "res = None \<Longrightarrow> pc_dangling w' = pc_dangling w \<and>
      points_dangling w' = points_dangling w \<and> metadata_deallocated w' = metadata_deallocated w"
proof -
  obtain st w2 rv where u: "uncompressed_from_points malloc_ok ps (points_bytes n) n
      (hdr_timestamp header) w new_cwipc_uncompressed_impl = (st, w2, rv)"
    by (metis prod_cases3)
  obtain w3 rv' where c: "set_cellsize dist (hdr_cellsize header) w2 rv = (w3, rv')"
    by (metis surj_pair)
  have r: "(res, w') = (if st < 0 then (None, w2) else (Some rv', w3))"
    using assms(1) by (auto simp: load_points_def u c split: if_splits)
  show "pc_dangling w' = pc_dangling w + live_pc ob \<and>
      points_dangling w' = points_dangling w + live_points ob \<and>
      metadata_of ob = [] \<and> metadata_deallocated w' = metadata_deallocated w" if "res = Some ob"
    using r that fresh_points_with_cellsize [OF u _ c] by (auto split: if_splits)
  show "pc_dangling w' = pc_dangling w \<and> points_dangling w' = points_dangling w \<and>
      metadata_deallocated w' = metadata_deallocated w" if "res = None"
    using r that fresh_from_points_negative [OF assms(2) u] fresh_from_points(2) [OF u]
    by (auto split: if_splits)
qed

lemma packet_check_size:
  "packet_check packet sz = Inr (Inr (header, points_at)) \<Longrightarrow>
   points_bytes (points_of_size (hdr_size header)) = sz - size_of_nat sizeof_dump_header"
  by (auto simp: packet_check_def split: if_splits option.splits)

lemma points_of_size_range: "- (2 ^ 31) \<le> points_of_size n"
  using int_of_size_range(1) by (simp add: points_of_size_def)

lemma load_points_Some:
  assumes "load_points dist malloc_ok ps sz (points_of_size n) header w = (Some ob, w')"
    and "points_bytes (points_of_size n) = sz"
  shows "pc_dangling w' = pc_dangling w + live_pc ob"
    "points_dangling w' = points_dangling w + live_points ob"
    "metadata_of ob = []" "metadata_deallocated w' = metadata_deallocated w"
  using load_points_accounts(1) [OF _ points_of_size_range refl] assms by blast+

lemma load_points_None:
  assumes "load_points dist malloc_ok ps sz (points_of_size n) header w = (None, w')"
    and "points_bytes (points_of_size n) = sz"
  shows "pc_dangling w' = pc_dangling w" "points_dangling w' = points_dangling w"
    "metadata_deallocated w' = metadata_deallocated w"
  using load_points_accounts(2) [OF _ points_of_size_range refl] assms by blast+

interpretation from_packet_new: constructor "cwipc_from_packet dist malloc_ok packet sz em v"
  for dist malloc_ok packet sz em v
  by unfold_locales
    (auto simp: cwipc_from_packet_def Let_def accounted_log load_points_Some load_points_None
      packet_check_size
      split: if_splits sum.splits option.splits prod.splits)

interpretation read_debugdump_new: constructor
  "\<lambda>w. Inr (cwipc_read_debugdump dist malloc_ok f em v w)" for dist malloc_ok f em v
  by unfold_locales
    (auto simp: cwipc_read_debugdump_def Let_def accounted_log io_world load_points_Some load_points_None
      split: if_splits option.splits)

end
