(* ===== verification/RoundTrips.thy ===== *)
theory RoundTrips
  imports Allocation
begin

text \<open>
  What the point cloud objects of \<open>cwipc_util.cpp\<close> promise about their contents: the shape
  every object keeps, the points a client reads back, and the round trips through packets
  and dump files.
\<close>

section \<open>The shape of an object\<close>

text \<open>
  A cloud never holds more than \<open>INT_MAX / 16\<close> points here: the sizes then fit in every type
  the code stores them in. An uncompressed object's size field is 16 times its points, and a
  PCL cloud it has been converted to holds the same points.
\<close>

definition MAX_POINTS :: nat where "MAX_POINTS = 2 ^ 31 - 1"

definition obj_points :: "cwipc_obj \<Rightarrow> cwipc_point list option" where
  "obj_points ob =
     (case pc_class ob of
        Cwipc_impl \<Rightarrow> map_option (map point_of_pcl) (m_pc ob)
      | Cwipc_uncompressed_impl \<Rightarrow> m_points ob)"

definition obj_ok :: "cwipc_obj \<Rightarrow> bool" where
  "obj_ok ob \<longleftrightarrow>
     (case m_pc ob of None \<Rightarrow> True | Some pc \<Rightarrow> length pc \<le> MAX_POINTS) \<and>
     (pc_class ob = Cwipc_uncompressed_impl \<longrightarrow>
        (case m_points ob of
           None \<Rightarrow> m_points_size ob = 0
         | Some ps \<Rightarrow> length ps \<le> MAX_POINTS \<and> m_points_size ob = size_of_nat (16 * length ps) \<and>
             (case m_pc ob of None \<Rightarrow> True | Some pc \<Rightarrow> pc = map pcl_of_point ps)))"

lemma point_pcl_inverse [simp]: "point_of_pcl (pcl_of_point p) = p"
  "pcl_of_point (point_of_pcl q) = q"
  by (simp_all add: point_of_pcl_def pcl_of_point_def)

lemma size_times_16: "size_of_nat n * size_of_nat sizeof_cwipc_point = size_of_nat (16 * n)"
  by (simp add: size_of_nat_def sizeof_cwipc_point_def)

lemma int_of_size_nat [simp]: "n \<le> MAX_POINTS \<Longrightarrow> int_of_size (size_of_nat n) = int n"
  by (subst int_of_size_small) (simp_all add: MAX_POINTS_def)

lemma points_of_size_16 [simp]:
  assumes "n \<le> MAX_POINTS"
  shows "points_of_size (size_of_nat (16 * n)) = int n"
proof -
  have b: "unat (size_of_nat (16 * n)) = 16 * n" "unat (size_of_nat 16) = 16"
    using assms by (subst unat_size_of_nat; simp add: MAX_POINTS_def)+
  have "size_of_nat (16 * n) div size_of_nat sizeof_cwipc_point = size_of_nat n"
    using assms
    by (simp add: word_unat_eq_iff unat_div b sizeof_cwipc_point_def MAX_POINTS_def)
  then show ?thesis using assms by (simp add: points_of_size_def)
qed

lemma points_bytes_nat [simp]: "points_bytes (int n) = size_of_nat (16 * n)"
  by (simp add: points_bytes_def size_times_16)

lemma malloc_points: "n \<le> MAX_POINTS \<Longrightarrow> malloc malloc_ok (size_of_nat (16 * n)) = malloc_ok (size_of_nat (16 * n))"
  by (simp add: malloc_def word_less_nat_alt MAX_POINTS_def)

section \<open>Reading the points back\<close>

text \<open>Loading \<open>n\<close> points with a consistent size into a fresh object.\<close>

lemma load_fresh:
  assumes "length ps \<le> MAX_POINTS" and "malloc_ok (size_of_nat (16 * length ps))"
  shows "uncompressed_from_points malloc_ok ps (size_of_nat (16 * length ps)) (int (length ps)) ts w
      new_cwipc_uncompressed_impl =
    (int (length ps),
     w\<lparr>n_cwipc_uncompressed_pointcloud_alloc := n_cwipc_uncompressed_pointcloud_alloc w + 1\<rparr>,
     new_cwipc_uncompressed_impl\<lparr>m_timestamp := ts, m_points_size := size_of_nat (16 * length ps),
       m_pc := None, m_points := Some ps\<rparr>)"
  using assms by (simp add: uncompressed_from_points_def malloc_points new_cwipc_uncompressed_impl_def)

lemma get_size_points:
  assumes "obj_ok ob" and "obj_points ob = Some ps"
  shows "get_uncompressed_size w ob = (size_of_nat (16 * length ps), w)"
  using assms
  by (auto simp: get_uncompressed_size_def impl_get_uncompressed_size_def obj_points_def obj_ok_def
      size_times_16 split: pc_class.splits option.splits)

lemma copy_points:
  assumes "obj_ok ob" and "obj_points ob = Some ps"
  shows "copy_uncompressed (size_of_nat (16 * length ps)) w ob = ((int (length ps), ps), w)"
  using assms
  by (auto simp: copy_uncompressed_def impl_copy_uncompressed_def uncompressed_copy_uncompressed_def
      obj_points_def obj_ok_def size_times_16 split: pc_class.splits option.splits)

text \<open>Converting on access keeps the points, the time stamp and the shape.\<close>

lemma access_points:
  assumes "obj_ok ob" and "obj_points ob = Some ps" and "access_pcl_pointcloud w ob = (r, w', ob')"
  shows "r = Some (map pcl_of_point ps)" "m_pc ob' = Some (map pcl_of_point ps)" "obj_points ob' = Some ps" "obj_ok ob'"
    "m_timestamp ob' = m_timestamp ob" "m_cellsize ob' = m_cellsize ob" "pc_class ob' = pc_class ob"
  using assms
  by (auto simp: access_pcl_pointcloud_def uncompressed_access_pcl_def impl_from_points_def Let_def
      obj_points_def obj_ok_def comp_def
      split: pc_class.splits option.splits if_splits)

section \<open>Loading points from bytes\<close>

text \<open>The cell size an object has after \<open>_set_cellsize (cs)\<close>.\<close>

definition cellsize_for :: "(pcl_point \<Rightarrow> pcl_point \<Rightarrow> f32) \<Rightarrow> f32 \<Rightarrow> cwipc_point list \<Rightarrow> f32" where
  "cellsize_for dist cs ps =
     (if f32_lt cs f32_zero then guess_cellsize dist (map pcl_of_point ps) else cs)"

definition holds :: "cwipc_obj \<Rightarrow> cwipc_point list \<Rightarrow> u64 \<Rightarrow> f32 \<Rightarrow> bool" where
  "holds ob ps ts cs \<longleftrightarrow>
     obj_ok ob \<and> obj_points ob = Some ps \<and> m_timestamp ob = ts \<and> m_cellsize ob = cs"

lemma load_points_holds:
  assumes "length ps \<le> MAX_POINTS" and "malloc_ok (size_of_nat (16 * length ps))"
  shows "\<exists>rv w'. load_points dist malloc_ok ps (size_of_nat (16 * length ps)) (int (length ps)) hdr w
      = (Some rv, w') \<and> holds rv ps (hdr_timestamp hdr) (cellsize_for dist (hdr_cellsize hdr) ps)"
  using assms(1) unfolding load_points_def load_fresh [where malloc_ok = malloc_ok, OF assms]
  by (auto simp: set_cellsize_def uncompressed_access_pcl_def
      new_cwipc_uncompressed_impl_def impl_from_points_def Let_def impl_set_cellsize_def holds_def
      obj_ok_def obj_points_def cellsize_for_def comp_def)

lemma take_id_header:
  "length (hdr_id h) = 4 \<Longrightarrow> take 4 (enc_dump_header h @ rest) = hdr_id h"
proof -
  have "enc_all enc_u8 xs = xs" for xs by (induction xs) (simp_all add: enc_all_def enc_u8_def)
  then show "length (hdr_id h) = 4 \<Longrightarrow> take 4 (enc_dump_header h @ rest) = hdr_id h"
    by (simp add: enc_dump_header_def)
qed

lemma packet_header_sel [simp]:
  "hdr_timestamp (packet_header ts cs n) = ts" "hdr_cellsize (packet_header ts cs n) = cs"
  "hdr_size (packet_header ts cs n) = n" "hdr_id (packet_header ts cs n) = CWIPC_CWIPCDUMP_HEADER"
  "hdr_magic (packet_header ts cs n) = CWIPC_CWIPCDUMP_VERSION"
  by (simp_all add: packet_header_def)

lemma packet_check_good:
  assumes "n \<le> MAX_POINTS"
  shows "packet_check (enc_dump_header (packet_header ts cs (size_of_nat (16 * n))) @ pts)
      (size_of_nat sizeof_dump_header + size_of_nat (16 * n)) =
    Inr (Inr (packet_header ts cs (size_of_nat (16 * n)), pts))"
proof -
  have h: "length (hdr_id (packet_header ts cs s)) = 4" for s
    by (simp add: packet_header_def CWIPC_CWIPCDUMP_HEADER_def)
  have l: "\<not> length (enc_dump_header (packet_header ts cs s) @ pts) < 4" for s
    using length_enc_dump_header [OF h] by (simp add: sizeof_dump_header_def)
  show ?thesis
    unfolding packet_check_def if_not_P [OF l] take_id_header [OF h] dec_enc_dump_header [OF h]
    using assms by (simp add: packet_header_def CWIPC_CWIPCDUMP_VERSION_def)
qed

text \<open>What \<open>copy_packet\<close> returns for an object holding points.\<close>

lemma copy_packet_points:
  assumes "obj_ok ob" and "obj_points ob = Some ps"
  shows "\<exists>w' ob'. copy_packet hp sz w ob =
      (let n = size_of_nat (16 * length ps); need = size_of_nat sizeof_dump_header + n in
       (if \<not> hp then (need, [])
        else if sz \<noteq> need then (0, [])
        else (need, enc_dump_header (packet_header (m_timestamp ob) (m_cellsize ob) n)
                    @ enc_all enc_point ps)), w', ob') \<and>
     holds ob' ps (m_timestamp ob) (m_cellsize ob)"
proof -
  obtain w1 ob1 where conv: "(case m_pc ob of
      None \<Rightarrow> snd (access_pcl_pointcloud w ob) | Some _ \<Rightarrow> (w, ob)) = (w1, ob1)"
    by (cases "case m_pc ob of None \<Rightarrow> snd (access_pcl_pointcloud w ob) | Some _ \<Rightarrow> (w, ob)") auto
  have ob1: "holds ob1 ps (m_timestamp ob) (m_cellsize ob)" "m_pc ob1 \<noteq> None"
  proof -
    obtain r w2 ob2 where a: "access_pcl_pointcloud w ob = (r, w2, ob2)" by (metis prod_cases3)
    note access_points [OF assms a]
    with conv a assms show "holds ob1 ps (m_timestamp ob) (m_cellsize ob)" "m_pc ob1 \<noteq> None"
      by (auto simp: holds_def split: option.splits)
  qed
  then have ok: "obj_ok ob1" "obj_points ob1 = Some ps" "m_timestamp ob1 = m_timestamp ob"
      "m_cellsize ob1 = m_cellsize ob"
    by (simp_all add: holds_def)
  show ?thesis
    using ob1
    by (auto simp: copy_packet_def conv get_size_points [OF ok(1,2)] copy_points [OF ok(1,2)] ok
        Let_def)
qed

section \<open>Short files\<close>

lemma dec_dump_header_short: "length bs < 32 \<Longrightarrow> dec_dump_header bs = None"
proof -
  have n: "dec_n dec_u8 k bs = Some (xs, r) \<Longrightarrow> length bs = k + length r" for k xs bs r
    by (induction k arbitrary: bs xs) (auto split: option.splits prod.splits list.splits elim!: dec_u8.elims)
  have 4: "dec_u32 bs = Some (x, r) \<Longrightarrow> length bs = 4 + length r" for x bs r
    by (auto simp: dec_u32_def split: if_splits)
  have 8: "dec_u64 bs = Some (x, r) \<Longrightarrow> length bs = 8 + length r" for x bs r
    by (auto simp: dec_u64_def split: if_splits)
  show "length bs < 32 \<Longrightarrow> dec_dump_header bs = None"
    by (auto simp: dec_dump_header_def dest!: n 4 8 split: option.splits)
qed

section \<open>Properties\<close>

text \<open>
  C9. A packet made the way clients make it (ask for the size with a null buffer, then fill a
  buffer of that size) is accepted by \<open>cwipc_from_packet\<close>, which returns a cloud with the same
  points, time stamp and cell size, from an uncompressed object as well as from a PCL one.
\<close>

theorem packet_round_trip:
  assumes "obj_ok ob" and "obj_points ob = Some ps"
    and "malloc_ok (size_of_nat (16 * length ps))"
    and "copy_packet False 0 w ob = ((n, ignored), w1, ob1)"
    and "copy_packet True n w1 ob1 = ((m, packet), w2, ob2)"
  shows "m = n \<and> (\<exists>rv w3. cwipc_from_packet dist malloc_ok packet n em CWIPC_API_VERSION w2 =
      Inr (Some rv, w3) \<and>
      holds rv ps (m_timestamp ob) (cellsize_for dist (m_cellsize ob) ps))"
proof -
  let ?s = "size_of_nat (16 * length ps)"
  let ?n = "size_of_nat sizeof_dump_header + ?s"
  let ?h = "packet_header (m_timestamp ob) (m_cellsize ob) ?s"
  have len: "length ps \<le> MAX_POINTS"
    using assms(1,2) by (auto simp: obj_ok_def obj_points_def split: pc_class.splits option.splits)
  have n: "n = ?n" and ob1: "holds ob1 ps (m_timestamp ob) (m_cellsize ob)"
    using copy_packet_points [OF assms(1,2), of False 0 w] assms(4) by (auto simp: Let_def)
  have ok1: "obj_ok ob1" "obj_points ob1 = Some ps" using ob1 by (simp_all add: holds_def)
  have m: "m = ?n" and p: "packet = enc_dump_header ?h @ enc_all enc_point ps"
    using copy_packet_points [OF ok1, of True n w1] assms(5) ob1 n
    by (auto simp: Let_def holds_def)
  have pts: "dec_n dec_point (length ps) (enc_all enc_point ps) = Some (ps, [])"
    using pointc.dec_n_enc_all [of ps "[]"] by simp
  obtain rv w' where "load_points dist malloc_ok ps ?s (int (length ps)) ?h
      (cwipc_log_set_errorbuf em w2) = (Some rv, w')"
    "holds rv ps (hdr_timestamp ?h) (cellsize_for dist (hdr_cellsize ?h) ps)"
    using load_points_holds [where malloc_ok = malloc_ok, OF len assms(3)] by blast
  then show ?thesis
    using len
    by (simp add: n m p cwipc_from_packet_def api_version_bad_def CWIPC_API_VERSION_def
        CWIPC_API_VERSION_OLD_def packet_check_good malloc_points assms(3) pts)
qed

definition cloud_of :: "cwipc_point list \<Rightarrow> u64 \<Rightarrow> f32 \<Rightarrow> cwipc_obj" where
  "cloud_of ps ts cs = \<lparr>pc_class = Cwipc_impl, m_timestamp = ts, m_cellsize = cs,
     m_pc = Some (map pcl_of_point ps), m_metadata = None, m_points = None, m_points_size = 0\<rparr>"

definition two_points :: "cwipc_point list" where
  "two_points =
     [\<lparr>pt_x = 0x3F800000, pt_y = 0, pt_z = 0xBF800000, pt_r = 10, pt_g = 20, pt_b = 30, pt_tile = 1\<rparr>,
      \<lparr>pt_x = 0, pt_y = 0x40000000, pt_z = 0, pt_r = 1, pt_g = 2, pt_b = 3, pt_tile = 2\<rparr>]"

lemma cloud_of_holds:
  "length ps \<le> MAX_POINTS \<Longrightarrow> holds (cloud_of ps ts cs) ps ts cs"
  by (simp add: holds_def obj_ok_def obj_points_def cloud_of_def comp_def)

lemma two_points_hold: "holds (cloud_of two_points 99 0x3C000000) two_points 99 0x3C000000"
  by (rule cloud_of_holds) (simp add: two_points_def MAX_POINTS_def)

theorem packet_round_trip_witness:
  "\<exists>packet w rv w'. cwipc_from_packet (\<lambda>_ _. 0) (\<lambda>_. True) packet 64 None CWIPC_API_VERSION w =
     Inr (Some rv, w') \<and> holds rv two_points 99 0x3C000000"
proof -
  let ?ob = "cloud_of two_points 99 0x3C000000"
  have ok: "obj_ok ?ob" "obj_points ?ob = Some two_points"
    using two_points_hold by (simp_all add: holds_def)
  obtain w1 ob1 where c1: "copy_packet False 0 (world_init None 0) ?ob = ((64, []), w1, ob1)"
    using copy_packet_points [OF ok, of False 0 "world_init None 0"]
    by (auto simp: Let_def two_points_def sizeof_dump_header_def size_of_nat_def)
  obtain m packet w2 ob2 where c2: "copy_packet True 64 w1 ob1 = ((m, packet), w2, ob2)"
    by (metis surj_pair)
  show ?thesis
    using packet_round_trip [OF ok _ c1 c2, of "\<lambda>_. True" "\<lambda>_ _. 0" None]
    by (fastforce simp: cellsize_for_def cloud_of_def f32_defs f32_zero_def)
qed

lemma write_debugdump_points:
  assumes "obj_ok ob" and "obj_points ob = Some ps"
    and "malloc_ok (size_of_nat (16 * length ps))" and "disk f = Some room" and "ps \<noteq> []"
  shows "\<exists>w'. cwipc_write_debugdump malloc_ok disk f em w ob =
      (if 32 + 16 * length ps \<le> room then 0 else - 1, w') \<and>
     files w' f = Some (take room (enc_dump_header
       (packet_header (m_timestamp ob) (m_cellsize ob) (size_of_nat (16 * length ps)))
       @ enc_all enc_point ps))"
proof -
  let ?h = "packet_header (m_timestamp ob) (m_cellsize ob) (size_of_nat (16 * length ps))"
  have len: "length ps \<le> MAX_POINTS"
    using assms(1,2) by (auto simp: obj_ok_def obj_points_def split: pc_class.splits option.splits)
  have h: "length (enc_dump_header ?h) = 32"
    using length_enc_dump_header [of ?h] by (simp add: CWIPC_CWIPCDUMP_HEADER_def sizeof_dump_header_def)
  have p: "length (enc_all enc_point ps) = 16 * length ps"
    by (simp add: pointc.enc_all_length sizeof_cwipc_point_def)
  have mr: "min 32 room + (room - 32) - 32 = room - 32" by simp
  have written: "((min (32 + 16 * length ps) room - 32) div sizeof_cwipc_point = length ps) =
      (32 + 16 * length ps \<le> room)"
    using assms(5) by (cases "32 + 16 * length ps \<le> room")
      (auto simp: min_def sizeof_cwipc_point_def neq_Nil_conv)
  show ?thesis
    using written mr
    by (auto simp: cwipc_write_debugdump_def get_size_points [OF assms(1,2)] malloc_points len
        assms(3,4) copy_points [OF assms(1,2)] h p fail_with_def Let_def)
qed

lemma read_short_dump:
  assumes "files w1 f = Some (take room (enc_dump_header h @ enc_all enc_point ps))" and "length (hdr_id h) = 4"
    and "unat (hdr_size h) = 16 * length ps" and "room < 32 + 16 * length ps"
    and "cwipc_read_debugdump dist malloc_ok f em' CWIPC_API_VERSION w1 = (res, w2)"
  shows "res = None"
proof -
  note good = cwipc_read_debugdump_def api_version_bad_def CWIPC_API_VERSION_def CWIPC_API_VERSION_OLD_def
  have lh: "length (enc_dump_header h) = 32"
    using length_enc_dump_header [OF assms(2)] by (simp add: sizeof_dump_header_def)
  have lp: "length (enc_all enc_point ps) = 16 * length ps"
    by (simp add: pointc.enc_all_length sizeof_cwipc_point_def)
  show ?thesis
  proof (cases "32 \<le> room")
    case True
    have "files w1 f = Some (enc_dump_header h @ take (room - 32) (enc_all enc_point ps))"
      using True assms(1) by (simp add: lh)
    moreover have "length (take (room - 32) (enc_all enc_point ps)) < unat (hdr_size h)"
      using True assms(3,4) by (auto simp: lp)
    ultimately show ?thesis
      using assms(5) by (auto simp: good dec_enc_dump_header [OF assms(2)] Let_def split: if_splits prod.splits option.splits)
  next
    case False
    then have "length (take room (enc_dump_header h @ enc_all enc_point ps)) < 32" by simp
    then have "dec_dump_header (take room (enc_dump_header h @ enc_all enc_point ps)) = None" by (rule dec_dump_header_short)
    with assms(1,5) show ?thesis by (simp add: good)
  qed
qed




lemma min_fold:
  fixes m0 :: f32
  defines "step m d \<equiv> if f32_lt d m then d else m"
  shows "foldl step m0 ds = m0 \<and> (\<forall>d \<in> set ds. \<not> f32_lt d m0)
    \<or> foldl step m0 ds \<in> set ds \<and> f32_lt (foldl step m0 ds) m0
      \<and> (\<forall>d \<in> set ds. \<not> f32_lt d (foldl step m0 ds))"
proof (induction ds rule: rev_induct)
  case (snoc d ds)
  let ?m = "foldl step m0 ds"
  show ?case
    using snoc by (auto simp: step_def) (meson f32_lt_trans)+
qed simp

text \<open>
  The cell size guessed for a negative argument is the smallest distance of a later point
  to the FIRST point: the code documents the distance of adjacent points, but never advances
  \<open>prevPoint\<close>.
\<close>

theorem guess_cellsize_from_first_point:
  assumes "f32_lt (dist q p) f32_infinity" and "q \<in> set rest"
  shows "guess_cellsize dist (p # rest) \<in> (\<lambda>q. dist q p) ` set rest
    \<and> (\<forall>q \<in> set rest. \<not> f32_lt (dist q p) (guess_cellsize dist (p # rest)))"
proof -
  let ?step = "\<lambda>m d. if f32_lt d m then d else m"
  let ?ds = "map (\<lambda>q. dist q p) rest"
  let ?m = "foldl ?step f32_infinity ?ds"
  have "?m \<in> set ?ds \<and> f32_lt ?m f32_infinity \<and> (\<forall>d \<in> set ?ds. \<not> f32_lt d ?m)"
    using min_fold [of f32_infinity ?ds] assms by auto
  moreover from this have "\<not> f32_eq ?m f32_infinity" by (auto simp: f32_defs)
  ultimately show ?thesis
    by (simp add: guess_cellsize_def foldl_map Let_def)
qed

definition line_point :: "u32 \<Rightarrow> pcl_point" where
  "line_point x = \<lparr>pcl_x = x, pcl_y = 0, pcl_z = 0, pcl_r = 0, pcl_g = 0, pcl_b = 0, pcl_a = 0\<rparr>"

text \<open>
  Points at 0, 2.0 and 2.5: the adjacent ones are 0.5 apart, the guess is 2.0. Distances are
  given for these points only.
\<close>

definition line_dist :: "pcl_point \<Rightarrow> pcl_point \<Rightarrow> f32" where
  "line_dist a b =
     (if pcl_x a = pcl_x b then 0
      else if pcl_x a = 0 \<or> pcl_x b = 0 then (if pcl_x a = 0 then pcl_x b else pcl_x a)
      else 0x3F000000)"

theorem guess_cellsize_from_first_point_witness:
  "guess_cellsize line_dist [line_point 0, line_point 0x40000000, line_point 0x40200000] = 0x40000000
   \<and> f32_lt (line_dist (line_point 0x40000000) (line_point 0x40200000)) 0x40000000"
proof -
  let ?rest = "[line_point 0x40000000, line_point 0x40200000]"
  let ?g = "guess_cellsize line_dist (line_point 0 # ?rest)"
  have "f32_lt (line_dist (line_point 0x40000000) (line_point 0)) f32_infinity"
    by (simp add: line_dist_def line_point_def f32_defs f32_infinity_def)
  from guess_cellsize_from_first_point [of line_dist, OF this, of ?rest]
  have "?g = 0x40000000 \<or> ?g = 0x40200000" and "\<not> f32_lt 0x40000000 ?g"
    by (simp_all add: line_dist_def line_point_def)
  then have "?g = 0x40000000" by (auto simp: f32_defs)
  then show ?thesis by (simp add: line_dist_def line_point_def f32_defs)
qed

lemma from_points_size_ok:
  assumes "length ps \<le> MAX_POINTS"
  shows "\<exists>res w'. cwipc_from_points malloc_ok ps sz (word_of_nat (length ps)) ts em CWIPC_API_VERSION w
      = Inr (res, w') \<and>
    (if sz = size_of_nat (16 * length ps) \<and> malloc_ok sz
     then \<exists>rv. res = Some rv \<and> holds rv ps ts f32_zero
     else res = None)"
proof -
  have n: "sint (word_of_nat (length ps) :: u32) = int (length ps)"
    using assms by (simp add: MAX_POINTS_def signed_of_nat signed_take_bit_int_eq_self)
  show ?thesis
  proof (cases "sz = size_of_nat (16 * length ps) \<and> malloc_ok sz")
    case True
    then have ok: "malloc_ok (size_of_nat (16 * length ps))" and sz: "sz = size_of_nat (16 * length ps)"
      by auto
    let ?rv = "new_cwipc_uncompressed_impl\<lparr>m_timestamp := ts, m_points_size := size_of_nat (16 * length ps),
       m_pc := None, m_points := Some ps\<rparr>"
    have "holds ?rv ps ts f32_zero"
      using assms by (simp add: holds_def obj_ok_def obj_points_def new_cwipc_uncompressed_impl_def)
    with ok show ?thesis
      by (simp add: cwipc_from_points_def n sz load_fresh [where malloc_ok = malloc_ok, OF assms ok]
          api_version_bad_def CWIPC_API_VERSION_def CWIPC_API_VERSION_OLD_def)
  next
    case False
    then show ?thesis
      using assms
      by (cases "sz = size_of_nat (16 * length ps)")
        (auto simp: cwipc_from_points_def n uncompressed_from_points_def malloc_points Let_def
          api_version_bad_def CWIPC_API_VERSION_def CWIPC_API_VERSION_OLD_def)
  qed
qed

text \<open>
  \<open>cwipc_from_points\<close> accepts exactly the buffers whose byte size is 16 times the point
  count (and for which memory is left); the cloud then holds the caller's points.
\<close>

theorem from_points_accepts_consistent_size:
  assumes "length ps \<le> MAX_POINTS"
  shows "\<exists>res w'. cwipc_from_points malloc_ok ps sz (word_of_nat (length ps)) ts em CWIPC_API_VERSION w
      = Inr (res, w') \<and>
    (if sz = size_of_nat (16 * length ps) \<and> malloc_ok sz
     then \<exists>rv. res = Some rv \<and> holds rv ps ts f32_zero
     else res = None)"
  using assms by (rule from_points_size_ok)

theorem from_points_accepts_consistent_size_witness:
  "\<exists>rv w'. cwipc_from_points (\<lambda>_. True) two_points 32 2 5 None CWIPC_API_VERSION (world_init None 0) =
     Inr (Some rv, w') \<and> holds rv two_points 5 f32_zero"
  using from_points_accepts_consistent_size
    [of two_points "\<lambda>_. True" 32 5 None "world_init None 0"]
  by (auto simp: two_points_def MAX_POINTS_def size_of_nat_def)

text \<open>
  \<open>cwipc_read_debugdump\<close> gives back every temporary buffer except on a short read of the
  point data, where \<open>pointData\<close> is leaked (one buffer per such call).
\<close>

theorem read_debugdump_leaks_on_short_read:
  assumes "files w f = Some (enc_dump_header hdr @ data)"
    and "hdr_id hdr = CWIPC_CWIPCDUMP_HEADER" and "hdr_magic hdr = CWIPC_CWIPCDUMP_VERSION"
    and "hdr_size hdr = size_of_nat (16 * n)" and "n \<le> MAX_POINTS" and "malloc_ok (hdr_size hdr)"
  shows "temp_buffers (snd (cwipc_read_debugdump dist malloc_ok f em CWIPC_API_VERSION w)) =
    temp_buffers w + (if length data < 16 * n then 1 else 0)"
proof -
  have us: "unat (size_of_nat (16 * n)) = 16 * n"
    using assms(5) by (subst unat_size_of_nat) (simp_all add: MAX_POINTS_def)
  have tb: "temp_buffers (snd (load_points dist malloc_ok ps s k hdr v)) = temp_buffers v" for ps s k v
    by (auto simp: load_points_def uncompressed_from_points_def set_cellsize_as_access
        access_pcl_pointcloud_def uncompressed_access_pcl_def impl_from_points_def Let_def
        split: prod.splits if_splits option.splits pc_class.splits)
  have dec: "dec_dump_header (enc_dump_header hdr @ data) = Some (hdr, data)"
    by (rule dec_enc_dump_header) (simp add: assms(2) CWIPC_CWIPCDUMP_HEADER_def)
  show ?thesis
    using assms(5,6)
    by (auto simp: cwipc_read_debugdump_def api_version_bad_def CWIPC_API_VERSION_def
        CWIPC_API_VERSION_OLD_def assms(1-4) dec malloc_points us tb fail_with_def)
qed

theorem read_debugdump_leaks_on_short_read_witness:
  "temp_buffers (snd (cwipc_read_debugdump (\<lambda>_ _. 0) (\<lambda>_. True) ''d'' None CWIPC_API_VERSION
     ((world_init None 0)\<lparr>files := [''d'' \<mapsto> enc_dump_header (packet_header 1 0 32) @ [1, 2, 3]]\<rparr>)))
   = 1"
  using read_debugdump_leaks_on_short_read
    [of "(world_init None 0)\<lparr>files := [''d'' \<mapsto> enc_dump_header (packet_header 1 0 32) @ [1, 2, 3]]\<rparr>"
      "''d''" "packet_header 1 0 32" "[1, 2, 3]" 2 "\<lambda>_. True" "\<lambda>_ _. 0" None]
  by (simp add: size_of_nat_def MAX_POINTS_def world_init_def logger.defs)

end
