(* ===== verification/CloudInterface.thy ===== *)
theory CloudInterface
  imports RoundTrips
begin

text \<open>
  The interface \<open>cwipc_pointcloud\<close> of \<open>api.h\<close> as a contract. A client of the interface sees a
  list of points with a time stamp and a cell size; which of the two classes of
  \<open>cwipc_util.cpp\<close> it talks to, and whether the cloud has been converted already, must not
  show. The locale \<open>point_store\<close> is what a class has to provide; both classes and the virtual
  dispatch are interpretations of it. The last section is the refinement: every sequence of
  client calls gives the answers of the abstract cloud.
\<close>

section \<open>The contract of a class that stores points\<close>

text \<open>
  \<open>kind ob\<close> says that \<open>ob\<close> is an object of the class; the other parameters are its methods.
\<close>

locale point_store =
  fixes kind :: "cwipc_obj \<Rightarrow> bool"
    and count_of :: "world \<Rightarrow> cwipc_obj \<Rightarrow> int \<times> world"
    and size_of :: "world \<Rightarrow> cwipc_obj \<Rightarrow> u64 \<times> world"
    and copy_to :: "u64 \<Rightarrow> world \<Rightarrow> cwipc_obj \<Rightarrow> (int \<times> cwipc_point list) \<times> world"
    and access :: "world \<Rightarrow> cwipc_obj \<Rightarrow> pcl_point list option \<times> world \<times> cwipc_obj"
  assumes count_law: "\<lbrakk>kind ob; obj_ok ob; obj_points ob = Some ps\<rbrakk>
      \<Longrightarrow> count_of w ob = (int (length ps), w)"
    and size_law: "\<lbrakk>kind ob; obj_ok ob; obj_points ob = Some ps\<rbrakk>
      \<Longrightarrow> size_of w ob = (size_of_nat (16 * length ps), w)"
    and copy_law: "\<lbrakk>kind ob; obj_ok ob; obj_points ob = Some ps\<rbrakk>
      \<Longrightarrow> copy_to (size_of_nat (16 * length ps)) w ob = ((int (length ps), ps), w)"
    and access_law: "\<lbrakk>kind ob; holds ob ps ts cs; access w ob = (r, w', ob')\<rbrakk>
      \<Longrightarrow> r = Some (map pcl_of_point ps) \<and> kind ob' \<and> holds ob' ps ts cs"
begin

text \<open>The two-call protocol of the interface: ask for the size, pass a buffer of that size.\<close>

lemma size_then_copy:
  assumes "kind ob" and "holds ob ps ts cs" and "size_of w ob = (sz, w1)"
  shows "copy_to sz w1 ob = ((int (length ps), ps), w)"
  using assms by (auto simp: holds_def size_law copy_law)

lemma count_is_copied:
  assumes "kind ob" and "holds ob ps ts cs"
    and "size_of w ob = (sz, w1)" and "copy_to sz w1 ob = ((n, ps'), w2)"
  shows "fst (count_of w2 ob) = n" and "ps' = ps"
  using size_then_copy [OF assms(1-3)] assms by (auto simp: holds_def count_law)

lemma access_then_copy:
  assumes "kind ob" and "holds ob ps ts cs" and "access w ob = (r, w1, ob1)"
    and "size_of w1 ob1 = (sz, w2)"
  shows "fst (copy_to sz w2 ob1) = (int (length ps), ps)" and "r = Some (map pcl_of_point ps)"
  using access_law [OF assms(1-3)] size_then_copy [of ob1 ps ts cs w1 sz w2] assms(4) by auto

end

lemma obj_points_bound: "obj_ok ob \<Longrightarrow> obj_points ob = Some ps \<Longrightarrow> length ps \<le> MAX_POINTS"
  by (auto simp: obj_ok_def obj_points_def split: pc_class.splits option.splits)

lemma count_points:
  assumes "obj_ok ob" and "obj_points ob = Some ps"
  shows "pc_count w ob = (int (length ps), w)"
  using assms
  by (auto simp: pc_count_def impl_count_def uncompressed_count_def obj_points_def obj_ok_def
      split: pc_class.splits option.splits)

lemma access_holds:
  assumes "holds ob ps ts cs" and "access_pcl_pointcloud w ob = (r, w', ob')"
  shows "r = Some (map pcl_of_point ps)" "holds ob' ps ts cs" "pc_class ob' = pc_class ob"
    "m_pc ob' = Some (map pcl_of_point ps)"
  using access_points [of ob ps w r w' ob'] assms by (auto simp: holds_def)

text \<open>The virtual methods keep the contract for objects of either class.\<close>

interpretation cloud_store: point_store "\<lambda>_. True" pc_count get_uncompressed_size
  copy_uncompressed access_pcl_pointcloud
  by unfold_locales (simp_all add: count_points get_size_points copy_points access_holds)

lemma impl_dispatch:
  fixes w :: world
  assumes "pc_class ob = Cwipc_impl"
  shows "impl_count w ob = pc_count w ob"
    and "impl_get_uncompressed_size w ob = get_uncompressed_size w ob"
    and "impl_copy_uncompressed sz w ob = copy_uncompressed sz w ob"
    and "(m_pc ob, w, ob) = access_pcl_pointcloud w ob"
  using assms
  by (simp_all add: pc_count_def get_uncompressed_size_def copy_uncompressed_def
      access_pcl_pointcloud_def)

lemma uncompressed_dispatch:
  fixes w :: world
  assumes "pc_class ob = Cwipc_uncompressed_impl"
  shows "(uncompressed_count ob, w) = pc_count w ob"
    and "(m_points_size ob, w) = get_uncompressed_size w ob"
    and "uncompressed_copy_uncompressed sz w ob = copy_uncompressed sz w ob"
    and "uncompressed_access_pcl w ob = access_pcl_pointcloud w ob"
  using assms
  by (simp_all add: pc_count_def get_uncompressed_size_def copy_uncompressed_def
      access_pcl_pointcloud_def)

interpretation impl_store: point_store "\<lambda>ob. pc_class ob = Cwipc_impl" impl_count
  impl_get_uncompressed_size impl_copy_uncompressed "\<lambda>w ob. (m_pc ob, w, ob)"
proof unfold_locales
  fix ob ps ts cs r ob' and w w' :: world
  assume "pc_class ob = Cwipc_impl" "holds ob ps ts cs" "(m_pc ob, w, ob) = (r, w', ob')"
  then show "r = Some (map pcl_of_point ps) \<and> pc_class ob' = Cwipc_impl \<and> holds ob' ps ts cs"
    using access_holds [of ob ps ts cs w r w' ob'] by (simp add: impl_dispatch(4))
qed (simp_all add: impl_dispatch count_points get_size_points copy_points)

interpretation uncompressed_store: point_store "\<lambda>ob. pc_class ob = Cwipc_uncompressed_impl"
  "\<lambda>w ob. (uncompressed_count ob, w)" "\<lambda>w ob. (m_points_size ob, w)"
  uncompressed_copy_uncompressed uncompressed_access_pcl
proof unfold_locales
  fix ob ps ts cs r ob' and w w' :: world
  assume "pc_class ob = Cwipc_uncompressed_impl" "holds ob ps ts cs"
    "uncompressed_access_pcl w ob = (r, w', ob')"
  then show "r = Some (map pcl_of_point ps) \<and> pc_class ob' = Cwipc_uncompressed_impl
      \<and> holds ob' ps ts cs"
    using access_holds [of ob ps ts cs w r w' ob'] by (simp add: uncompressed_dispatch(4))
qed (simp_all add: uncompressed_dispatch count_points get_size_points copy_points)

section \<open>The abstract cloud\<close>

text \<open>
  What a client may rely on: points, time stamp and cell size. \<open>cl_exact\<close> is the one visible
  difference of the classes: an uncompressed cloud copies only into a buffer of exactly its
  size, a PCL cloud into any buffer that is large enough.
\<close>

record cloud =
  cl_points :: "cwipc_point list"
  cl_timestamp :: u64
  cl_cellsize :: f32
  cl_exact :: bool

datatype cloud_call =
    Call_count
  | Call_size
  | Call_copy u64
  | Call_access
  | Call_timestamp
  | Call_cellsize
  | Call_set_timestamp u64
  | Call_set_cellsize f32
  | Call_packet bool u64

datatype cloud_answer =
    Answer_int int
  | Answer_size u64
  | Answer_points int "cwipc_point list"
  | Answer_pcl "pcl_point list option"
  | Answer_time u64
  | Answer_float f32
  | Answer_bytes u64 "u8 list"
  | Answer_void

definition cloud_bytes :: "cloud \<Rightarrow> u64" where
  "cloud_bytes c = size_of_nat (16 * length (cl_points c))"

text \<open>The answer and the next abstract cloud of a call.\<close>

fun cloud_spec ::
  "(pcl_point \<Rightarrow> pcl_point \<Rightarrow> f32) \<Rightarrow> cloud_call \<Rightarrow> cloud \<Rightarrow> cloud_answer \<times> cloud" where
  "cloud_spec dist Call_count c = (Answer_int (int (length (cl_points c))), c)"
| "cloud_spec dist Call_size c = (Answer_size (cloud_bytes c), c)"
| "cloud_spec dist (Call_copy sz) c =
     ((if sz = cloud_bytes c \<or> \<not> cl_exact c \<and> cloud_bytes c < sz
       then Answer_points (int (length (cl_points c))) (cl_points c)
       else Answer_points (- 1) []), c)"
| "cloud_spec dist Call_access c = (Answer_pcl (Some (map pcl_of_point (cl_points c))), c)"
| "cloud_spec dist Call_timestamp c = (Answer_time (cl_timestamp c), c)"
| "cloud_spec dist Call_cellsize c = (Answer_float (cl_cellsize c), c)"
| "cloud_spec dist (Call_set_timestamp ts) c = (Answer_void, c\<lparr>cl_timestamp := ts\<rparr>)"
| "cloud_spec dist (Call_set_cellsize cs) c =
     (Answer_void, c\<lparr>cl_cellsize := cellsize_for dist cs (cl_points c)\<rparr>)"
| "cloud_spec dist (Call_packet with_buffer sz) c =
     (let need = size_of_nat sizeof_dump_header + cloud_bytes c in
      ((if \<not> with_buffer then Answer_bytes need []
        else if sz \<noteq> need then Answer_bytes 0 []
        else Answer_bytes need
          (enc_dump_header (packet_header (cl_timestamp c) (cl_cellsize c) (cloud_bytes c))
           @ enc_all enc_point (cl_points c))), c))"

text \<open>The same calls on an object of the program.\<close>

fun cloud_exec ::
  "(pcl_point \<Rightarrow> pcl_point \<Rightarrow> f32) \<Rightarrow> cloud_call \<Rightarrow> world \<times> cwipc_obj
   \<Rightarrow> cloud_answer \<times> world \<times> cwipc_obj" where
  "cloud_exec dist Call_count (w, ob) = (case pc_count w ob of (n, w') \<Rightarrow> (Answer_int n, w', ob))"
| "cloud_exec dist Call_size (w, ob) =
     (case get_uncompressed_size w ob of (n, w') \<Rightarrow> (Answer_size n, w', ob))"
| "cloud_exec dist (Call_copy sz) (w, ob) =
     (case copy_uncompressed sz w ob of ((n, ps), w') \<Rightarrow> (Answer_points n ps, w', ob))"
| "cloud_exec dist Call_access (w, ob) =
     (case access_pcl_pointcloud w ob of (r, w', ob') \<Rightarrow> (Answer_pcl r, w', ob'))"
| "cloud_exec dist Call_timestamp (w, ob) = (Answer_time (m_timestamp ob), w, ob)"
| "cloud_exec dist Call_cellsize (w, ob) = (Answer_float (m_cellsize ob), w, ob)"
| "cloud_exec dist (Call_set_timestamp ts) (w, ob) = (Answer_void, w, set_timestamp ts ob)"
| "cloud_exec dist (Call_set_cellsize cs) (w, ob) = (Answer_void, set_cellsize dist cs w ob)"
| "cloud_exec dist (Call_packet with_buffer sz) (w, ob) =
     (case copy_packet with_buffer sz w ob of ((n, bs), w', ob') \<Rightarrow> (Answer_bytes n bs, w', ob'))"

primrec cloud_spec_run where
  "cloud_spec_run dist [] c = ([], c)"
| "cloud_spec_run dist (k # ks) c =
     (case cloud_spec dist k c of (a, c') \<Rightarrow>
        case cloud_spec_run dist ks c' of (as, c'') \<Rightarrow> (a # as, c''))"

primrec cloud_exec_run where
  "cloud_exec_run dist [] s = ([], s)"
| "cloud_exec_run dist (k # ks) s =
     (case cloud_exec dist k s of (a, s') \<Rightarrow>
        case cloud_exec_run dist ks s' of (as, s'') \<Rightarrow> (a # as, s''))"

definition represents :: "cwipc_obj \<Rightarrow> cloud \<Rightarrow> bool" where
  "represents ob c \<longleftrightarrow> holds ob (cl_points c) (cl_timestamp c) (cl_cellsize c)
     \<and> cl_exact c = (pc_class ob = Cwipc_uncompressed_impl)"

lemma copy_spec:
  assumes "represents ob c"
  shows "\<exists>w'. cloud_exec dist (Call_copy sz) (w, ob) = (fst (cloud_spec dist (Call_copy sz) c), w', ob)"
proof -
  have h: "obj_ok ob" "obj_points ob = Some (cl_points c)"
    using assms by (simp_all add: represents_def holds_def)
  note b = obj_points_bound [OF h]
  show ?thesis
  proof (cases "sz = cloud_bytes c")
    case True
    then show ?thesis by (simp add: cloud_bytes_def copy_points [OF h])
  next
    case ne: False
    show ?thesis
    proof (cases "pc_class ob")
      case Cwipc_impl
      then obtain pc where pc: "m_pc ob = Some pc" "cl_points c = map point_of_pcl pc"
        using h(2) by (auto simp: obj_points_def)
      have "\<not> cl_exact c" using assms Cwipc_impl by (simp add: represents_def)
      then show ?thesis
        using ne pc b Cwipc_impl
        by (cases "sz < cloud_bytes c")
          (auto simp: copy_uncompressed_def impl_copy_uncompressed_def cloud_bytes_def
            size_times_16 not_less)
    next
      case Cwipc_uncompressed_impl
      then have "m_points_size ob = cloud_bytes c" "cl_exact c"
        using get_size_points [OF h] assms
        by (simp_all add: get_uncompressed_size_def cloud_bytes_def represents_def)
      then show ?thesis
        using ne Cwipc_uncompressed_impl
        by (simp add: copy_uncompressed_def uncompressed_copy_uncompressed_def)
    qed
  qed
qed

lemma packet_spec:
  assumes "represents ob c"
  shows "\<exists>w' ob'. cloud_exec dist (Call_packet hp sz) (w, ob)
    = (fst (cloud_spec dist (Call_packet hp sz) c), w', ob') \<and> represents ob' c"
proof -
  have h: "obj_ok ob" "obj_points ob = Some (cl_points c)" "m_timestamp ob = cl_timestamp c"
    "m_cellsize ob = cl_cellsize c"
    using assms by (simp_all add: represents_def holds_def)
  obtain ans w' ob' where e: "copy_packet hp sz w ob = (ans, w', ob')"
    by (metis prod_cases3)
  obtain r w1 ob1 where a: "access_pcl_pointcloud w ob = (r, w1, ob1)" by (metis prod_cases3)
  have "pc_class ob' = pc_class ob"
    using e access_points(7) [OF h(1,2) a]
    by (auto simp: copy_packet_def Let_def a split: option.splits prod.splits if_splits)
  then show ?thesis
    using copy_packet_points [OF h(1,2), of hp sz w] e assms
    by (auto simp: h cloud_bytes_def Let_def represents_def)
qed

lemma set_cellsize_represents:
  assumes "represents ob c" and "set_cellsize dist cs w ob = (w', ob')"
  shows "represents ob' (c\<lparr>cl_cellsize := cellsize_for dist cs (cl_points c)\<rparr>)"
proof -
  obtain r w1 ob1 where a: "access_pcl_pointcloud w ob = (r, w1, ob1)" by (metis prod_cases3)
  have h: "holds ob (cl_points c) (cl_timestamp c) (cl_cellsize c)"
    using assms(1) by (simp add: represents_def)
  note a' = access_holds [OF h a]
  have e: "ob' = impl_set_cellsize dist cs ob1"
    using assms(2) a
    by (auto simp: set_cellsize_def access_pcl_pointcloud_def split: pc_class.splits prod.splits)
  show ?thesis
    using a' assms(1)
    by (auto simp: e represents_def holds_def impl_set_cellsize_def cellsize_for_def obj_ok_def
        obj_points_def split: pc_class.splits option.splits)
qed

text \<open>One call: the answer of the specification, and an object that represents its next cloud.\<close>

lemma cloud_exec_refines:
  assumes "represents ob c"
  obtains w' ob' where "cloud_exec dist k (w, ob) = (fst (cloud_spec dist k c), w', ob')"
    and "represents ob' (snd (cloud_spec dist k c))"
proof -
  have h: "holds ob (cl_points c) (cl_timestamp c) (cl_cellsize c)"
    using assms by (simp add: represents_def)
  then have h': "obj_ok ob" "obj_points ob = Some (cl_points c)" by (simp_all add: holds_def)
  have "\<exists>w' ob'. cloud_exec dist k (w, ob) = (fst (cloud_spec dist k c), w', ob')
      \<and> represents ob' (snd (cloud_spec dist k c))"
  proof (cases k)
    case (Call_copy sz)
    then show ?thesis using copy_spec [OF assms, of dist sz w] assms by auto
  next
    case Call_access
    obtain r w1 ob1 where a: "access_pcl_pointcloud w ob = (r, w1, ob1)" by (metis prod_cases3)
    show ?thesis using access_holds [OF h a] assms a by (simp add: Call_access represents_def)
  next
    case (Call_set_cellsize cs)
    then show ?thesis using set_cellsize_represents [OF assms]
      by (cases "set_cellsize dist cs w ob") auto
  next
    case (Call_packet with_buffer sz)
    then show ?thesis using packet_spec [OF assms, of dist with_buffer sz w]
      by (auto simp: Let_def)
  qed (use assms h h' in \<open>auto simp: count_points get_size_points cloud_bytes_def
      represents_def holds_def set_timestamp_def obj_ok_def obj_points_def
      split: pc_class.splits option.splits\<close>)
  then show ?thesis using that by blast
qed

section \<open>Properties\<close>

text \<open>
  C2. Seen through the interface, an object is its abstract cloud: every sequence of calls
  (count, sizes, copies into buffers of any size, conversion to PCL, time stamp and cell size,
  packets) gets the answers of the list-of-points specification, whichever of the two classes
  implements it and however often it has been converted in between.
\<close>

theorem point_cloud_refines_points:
  assumes "represents ob c"
  shows "\<exists>w' ob'. cloud_exec_run dist calls (w, ob)
      = (fst (cloud_spec_run dist calls c), w', ob')
    \<and> represents ob' (snd (cloud_spec_run dist calls c))"
  using assms
proof (induction calls arbitrary: w ob c)
  case (Cons k calls)
  obtain w1 ob1 where k: "cloud_exec dist k (w, ob) = (fst (cloud_spec dist k c), w1, ob1)"
    "represents ob1 (snd (cloud_spec dist k c))"
    using cloud_exec_refines [OF Cons.prems] .
  from Cons.IH [OF k(2), of w1] k(1) show ?case by (auto split: prod.splits)
qed auto

theorem point_cloud_refines_points_witness:
  "\<exists>w ob. cloud_exec_run (\<lambda>_ _. 0)
      [Call_size, Call_copy 40, Call_access, Call_copy 32, Call_set_timestamp 7, Call_timestamp]
      (world_init None 0, cloud_of two_points 99 0x3C000000)
    = ([Answer_size 32, Answer_points 2 two_points, Answer_pcl (Some (map pcl_of_point two_points)),
        Answer_points 2 two_points, Answer_void, Answer_time 7], w, ob)"
proof -
  let ?c = "\<lparr>cl_points = two_points, cl_timestamp = 99, cl_cellsize = 0x3C000000, cl_exact = False\<rparr>"
  have r: "represents (cloud_of two_points 99 0x3C000000) ?c"
    using two_points_hold by (simp add: represents_def cloud_of_def)
  have n: "length two_points = 2" by (simp add: two_points_def)
  show ?thesis
    using point_cloud_refines_points [OF r, of "\<lambda>_ _. 0"
        "[Call_size, Call_copy 40, Call_access, Call_copy 32, Call_set_timestamp 7, Call_timestamp]"
        "world_init None 0"]
    by (auto simp: cloud_bytes_def n size_of_nat_def)
qed

end
