(* ===== verification/ClientStore.thy ===== *)
theory ClientStore
  imports Allocation
begin

text \<open>
  Client programs over the point cloud API: a store of objects and the calls that create,
  read, convert and free them. The properties are about every sequence of calls: the
  counters \<open>cwipc_dangling_allocations\<close> reports always equal what the live objects own, and
  every metadata item is deallocated exactly once or still attached to an object.
\<close>

section \<open>Calls\<close>

record environment =
  e_dist :: "pcl_point \<Rightarrow> pcl_point \<Rightarrow> f32"
  e_malloc_ok :: "u64 \<Rightarrow> bool"
  e_disk :: "string \<Rightarrow> nat option"
  e_ply_read :: "string \<Rightarrow> pcl_point list option"

datatype api_call =
    Call_from_points "cwipc_point list" u64 u32 u64 "nat option" u64
  | Call_from_packet "u8 list" u64 "nat option" u64
  | Call_from_pcl "pcl_point list option" u64 "nat option" u64
  | Call_read string u64 "nat option" u64
  | Call_read_debugdump string "nat option" u64
  | Call_shallowcopy nat
  | Call_free nat
  | Call_access_pcl nat
  | Call_set_cellsize nat f32
  | Call_set_timestamp nat u64
  | Call_count nat
  | Call_get_uncompressed_size nat
  | Call_copy_uncompressed nat u64
  | Call_copy_packet nat bool u64
  | Call_write_debugdump nat string "nat option"
  | Call_metadata_add nat string string nat u64 nat
  | Call_metadata_move nat nat
  | Call_dangling bool

type_synonym store = "world \<times> cwipc_obj list"

text \<open>A call through a handle the client never received is a null dereference.\<close>

definition on_object ::
  "(world \<Rightarrow> cwipc_obj \<Rightarrow> world \<times> cwipc_obj) \<Rightarrow> nat \<Rightarrow> store \<Rightarrow> fault + store" where
  "on_object m i st =
     (case st of (w, obs) \<Rightarrow>
        if i < length obs
        then let (w', ob') = m w (obs ! i) in Inr (w', obs[i := ob'])
        else Inl Null_deref)"

definition create :: "(world \<Rightarrow> fault + cwipc_obj option \<times> world) \<Rightarrow> store \<Rightarrow> fault + store" where
  "create mk st =
     (case st of (w, obs) \<Rightarrow>
        case mk w of
          Inl f \<Rightarrow> Inl f
        | Inr (None, w') \<Rightarrow> Inr (w', obs)
        | Inr (Some ob, w') \<Rightarrow> Inr (w', obs @ [ob]))"

definition add_metadata_method ::
  "string \<Rightarrow> string \<Rightarrow> nat \<Rightarrow> u64 \<Rightarrow> nat \<Rightarrow> world \<Rightarrow> cwipc_obj \<Rightarrow> world \<times> cwipc_obj" where
  "add_metadata_method n d p sz dl w ob =
     (let (items, ob1) = access_metadata ob
      in (w, ob1\<lparr>m_metadata := Some (metadata_add n d p sz dl items)\<rparr>))"

text \<open>
  \<open>cwipc_metadata__move\<close> between the collections of two objects. Moving a collection into
  itself appends to the vector being iterated.
\<close>

definition move_metadata :: "nat \<Rightarrow> nat \<Rightarrow> store \<Rightarrow> fault + store" where
  "move_metadata i j st =
     (case st of (w, obs) \<Rightarrow>
        if \<not> (i < length obs \<and> j < length obs) then Inl Null_deref
        else if i = j then Inl Out_of_bounds
        else let (src, ob1) = access_metadata (obs ! i);
                 (dest, ob2) = access_metadata (obs ! j);
                 (src', dest') = metadata_move src dest
             in Inr (w, obs[i := ob1\<lparr>m_metadata := Some src'\<rparr>,
                            j := ob2\<lparr>m_metadata := Some dest'\<rparr>]))"

definition shallowcopy_call :: "(pcl_point \<Rightarrow> pcl_point \<Rightarrow> f32) \<Rightarrow> nat \<Rightarrow> store \<Rightarrow> fault + store" where
  "shallowcopy_call dist i st =
     (case st of (w, obs) \<Rightarrow>
        if i < length obs
        then let (rv, w', ob') = shallowcopy dist w (obs ! i) in Inr (w', obs[i := ob'] @ [rv])
        else Inl Null_deref)"

fun exec_call :: "environment \<Rightarrow> api_call \<Rightarrow> store \<Rightarrow> fault + store" where
  "exec_call e (Call_from_points ps sz n ts em v) st =
     create (cwipc_from_points (e_malloc_ok e) ps sz n ts em v) st"
| "exec_call e (Call_from_packet bs sz em v) st =
     create (cwipc_from_packet (e_dist e) (e_malloc_ok e) bs sz em v) st"
| "exec_call e (Call_from_pcl pc ts em v) st = create (\<lambda>w. Inr (cwipc_from_pcl pc ts em v w)) st"
| "exec_call e (Call_read f ts em v) st =
     create (\<lambda>w. Inr (cwipc_read (e_ply_read e) f ts em v w)) st"
| "exec_call e (Call_read_debugdump f em v) st =
     create (\<lambda>w. Inr (cwipc_read_debugdump (e_dist e) (e_malloc_ok e) f em v w)) st"
| "exec_call e (Call_shallowcopy i) st = shallowcopy_call (e_dist e) i st"
| "exec_call e (Call_free i) st = on_object pc_free i st"
| "exec_call e (Call_access_pcl i) st = on_object (\<lambda>w ob. snd (access_pcl_pointcloud w ob)) i st"
| "exec_call e (Call_set_cellsize i cs) st = on_object (set_cellsize (e_dist e) cs) i st"
| "exec_call e (Call_set_timestamp i ts) st = on_object (\<lambda>w ob. (w, set_timestamp ts ob)) i st"
| "exec_call e (Call_count i) st = on_object count_method i st"
| "exec_call e (Call_get_uncompressed_size i) st = on_object get_uncompressed_size_method i st"
| "exec_call e (Call_copy_uncompressed i sz) st = on_object (copy_uncompressed_method sz) i st"
| "exec_call e (Call_copy_packet i hp sz) st = on_object (copy_packet_method hp sz) i st"
| "exec_call e (Call_write_debugdump i f em) st =
     on_object (write_debugdump_method (e_malloc_ok e) (e_disk e) f em) i st"
| "exec_call e (Call_metadata_add i n d p sz dl) st = on_object (add_metadata_method n d p sz dl) i st"
| "exec_call e (Call_metadata_move i j) st = move_metadata i j st"
| "exec_call e (Call_dangling b) st =
     (case st of (w, obs) \<Rightarrow> Inr (snd (cwipc_dangling_allocations b w), obs))"

fun exec_calls :: "environment \<Rightarrow> api_call list \<Rightarrow> store \<Rightarrow> fault + store" where
  "exec_calls e [] st = Inr st"
| "exec_calls e (c # cs) st =
     (case exec_call e c st of Inl f \<Rightarrow> Inl f | Inr st' \<Rightarrow> exec_calls e cs st')"

section \<open>The ledger of a store\<close>

text \<open>
  What is true after every call: the counters equal what the objects own, and the metadata
  items \<open>added\<close> so far are those still attached plus those deallocated.
\<close>

definition attached :: "cwipc_obj list \<Rightarrow> (nat \<times> nat) multiset" where
  "attached obs = sum_list (map (\<lambda>ob. mset (metadata_of ob)) obs)"

definition ledger_ok :: "(nat \<times> nat) multiset \<Rightarrow> store \<Rightarrow> bool" where
  "ledger_ok added st \<longleftrightarrow>
     pc_dangling (fst st) = total live_pc (snd st) \<and>
     points_dangling (fst st) = total live_points (snd st) \<and>
     mset (metadata_deallocated (fst st)) + attached (snd st) = added"

definition added_by :: "api_call \<Rightarrow> (nat \<times> nat) multiset" where
  "added_by c = (case c of Call_metadata_add i n d p sz dl \<Rightarrow> {#(dl, p)#} | _ \<Rightarrow> {#})"

lemma attached_simps [simp]:
  "attached [] = {#}" "attached (obs @ [ob]) = attached obs + mset (metadata_of ob)"
  by (simp_all add: attached_def)

lemma attached_update:
  assumes "i < length obs"
  shows "attached (obs[i := ob]) + mset (metadata_of (obs ! i)) = attached obs + mset (metadata_of ob)"
  using assms unfolding attached_def
proof (induction obs arbitrary: i)
  case (Cons a obs)
  then show ?case by (cases i) (auto simp: ac_simps)
qed simp

lemma ledger_replace:
  assumes "ledger_ok added (w, obs)" and "i < length obs"
    and "pc_dangling w' - pc_dangling w = live_pc ob' - live_pc (obs ! i)"
    and "points_dangling w' - points_dangling w = live_points ob' - live_points (obs ! i)"
    and "mset (metadata_deallocated w') + mset (metadata_of ob') =
         mset (metadata_deallocated w) + mset (metadata_of (obs ! i)) + new"
  shows "ledger_ok (added + new) (w', obs[i := ob'])"
proof -
  have "mset (metadata_deallocated w') + attached (obs[i := ob']) + mset (metadata_of (obs ! i)) =
      mset (metadata_deallocated w') + mset (metadata_of ob') + attached obs"
    using attached_update [OF assms(2), of ob'] by (simp add: ac_simps)
  also have "\<dots> = added + new + mset (metadata_of (obs ! i))"
    using assms(1,5) by (simp add: ledger_ok_def ac_simps)
  finally show ?thesis
    using assms(1-4) by (simp add: ledger_ok_def total_update)
qed

lemma ledger_append:
  assumes "ledger_ok added (w, obs)"
    and "pc_dangling w' = pc_dangling w + live_pc ob"
    and "points_dangling w' = points_dangling w + live_points ob"
    and "metadata_of ob = []" "metadata_deallocated w' = metadata_deallocated w"
  shows "ledger_ok added (w', obs @ [ob])"
  using assms by (simp add: ledger_ok_def)

lemma ledger_on_object:
  assumes "accounted m" and "ledger_ok added st" and "on_object m i st = Inr st'"
  shows "ledger_ok added st'"
proof -
  obtain w obs where st: "st = (w, obs)" by (cases st)
  with assms(3) have i: "i < length obs" by (auto simp: on_object_def split: if_splits)
  obtain w' ob' where m: "m w (obs ! i) = (w', ob')" by (cases "m w (obs ! i)")
  with assms(3) i have "st' = (w', obs[i := ob'])" by (simp add: on_object_def st)
  with ledger_replace [of added w obs i w' ob' "{#}"] assms(2) i
    accounted.pc_counts [OF assms(1) m] accounted.points_counts [OF assms(1) m]
    accounted.deallocs [OF assms(1) m]
  show ?thesis by (simp add: st)
qed

lemma ledger_create:
  assumes "constructor m" and "ledger_ok added st" and "create m st = Inr st'"
  shows "ledger_ok added st'"
proof -
  obtain w obs where st: "st = (w, obs)" by (cases st)
  show ?thesis
  proof (cases "m w")
    case (Inl f)
    with assms(3) show ?thesis by (simp add: create_def st)
  next
    case (Inr r)
    obtain res w' where r: "r = (res, w')" by (cases r)
    show ?thesis
    proof (cases res)
      case None
      with Inr r have m: "m w = Inr (None, w')" by simp
      with assms(3) have "st' = (w', obs)" by (simp add: create_def st)
      with constructor.failed [OF assms(1) m] assms(2) show ?thesis by (simp add: ledger_ok_def st)
    next
      case (Some ob)
      with Inr r have m: "m w = Inr (Some ob, w')" by simp
      with assms(3) have st': "st' = (w', obs @ [ob])" by (simp add: create_def st)
      from constructor.made [OF assms(1) m] assms(2) show ?thesis
        unfolding st' st by (intro ledger_append [of _ w]) auto
    qed
  qed
qed

lemma access_metadata_frame [simp]:
  "live_pc (snd (access_metadata ob)) = live_pc ob"
  "live_points (snd (access_metadata ob)) = live_points ob"
  "metadata_of (snd (access_metadata ob)) = metadata_of ob"
  "map (\<lambda>i. (md_dealloc i, md_pointer i)) (fst (access_metadata ob)) = metadata_of ob"
  by (auto simp: access_metadata_def live_defs metadata_of_def split: option.splits)

lemma set_metadata_frame [simp]:
  "live_pc (ob\<lparr>m_metadata := m\<rparr>) = live_pc ob" "live_points (ob\<lparr>m_metadata := m\<rparr>) = live_points ob"
  "metadata_of (ob\<lparr>m_metadata := Some items\<rparr>) = map (\<lambda>i. (md_dealloc i, md_pointer i)) items"
  by (simp_all add: live_defs metadata_of_def)

lemma ledger_metadata_add:
  assumes "ledger_ok added st" and "on_object (add_metadata_method n d p sz dl) i st = Inr st'"
  shows "ledger_ok (added + {#(dl, p)#}) st'"
proof -
  obtain w obs where st: "st = (w, obs)" by (cases st)
  with assms(2) have i: "i < length obs" by (auto simp: on_object_def split: if_splits)
  obtain items ob1 where a: "access_metadata (obs ! i) = (items, ob1)" by (cases "access_metadata (obs ! i)")
  let ?ob = "ob1\<lparr>m_metadata := Some (metadata_add n d p sz dl items)\<rparr>"
  have "st' = (w, obs[i := ?ob])"
    using assms(2) i by (simp add: on_object_def st add_metadata_method_def a)
  moreover have "live_pc ob1 = live_pc (obs ! i)" "live_points ob1 = live_points (obs ! i)"
    "map (\<lambda>i. (md_dealloc i, md_pointer i)) items = metadata_of (obs ! i)"
    using access_metadata_frame [of "obs ! i"] by (simp_all add: a)
  ultimately show ?thesis
    using ledger_replace [of added w obs i w ?ob "{#(dl, p)#}"] assms(1) i
    by (simp add: st metadata_add_def)
qed

lemma ledger_metadata_move:
  assumes "ledger_ok added st" and "move_metadata i j st = Inr st'"
  shows "ledger_ok added st'"
proof -
  obtain w obs where st: "st = (w, obs)" by (cases st)
  with assms(2) have ij: "i < length obs" "j < length obs" "i \<noteq> j"
    by (auto simp: move_metadata_def split: if_splits)
  obtain src ob1 where a: "access_metadata (obs ! i) = (src, ob1)" by (cases "access_metadata (obs ! i)")
  obtain dest ob2 where b: "access_metadata (obs ! j) = (dest, ob2)" by (cases "access_metadata (obs ! j)")
  let ?x = "ob1\<lparr>m_metadata := Some []\<rparr>" and ?y = "ob2\<lparr>m_metadata := Some (dest @ src)\<rparr>"
  have st': "st' = (w, obs[i := ?x, j := ?y])"
    using assms(2) ij by (simp add: move_metadata_def st a b metadata_move_def)
  note frame = access_metadata_frame [of "obs ! i", unfolded a, simplified]
    access_metadata_frame [of "obs ! j", unfolded b, simplified]
  have "attached (obs[i := ?x, j := ?y]) + mset (metadata_of (obs ! j)) =
      attached (obs[i := ?x]) + mset (metadata_of (obs ! j)) + mset (metadata_of (obs ! i))"
    using attached_update [of j "obs[i := ?x]" ?y] ij frame by (simp add: ac_simps)
  also have "\<dots> = attached obs + mset (metadata_of (obs ! j))"
    using attached_update [of i obs ?x] ij by (simp add: ac_simps)
  finally have "attached (obs[i := ?x, j := ?y]) = attached obs" by simp
  then show ?thesis
    using assms(1) ij frame unfolding st' st ledger_ok_def by (simp add: total_update)
qed

lemma ledger_shallowcopy:
  assumes "ledger_ok added st" and "shallowcopy_call dist i st = Inr st'"
  shows "ledger_ok added st'"
proof -
  obtain w obs where st: "st = (w, obs)" by (cases st)
  with assms(2) have i: "i < length obs" by (auto simp: shallowcopy_call_def split: if_splits)
  obtain r w1 ob1 where a: "access_pcl_pointcloud w (obs ! i) = (r, w1, ob1)"
    by (metis prod_cases3)
  obtain rv w2 where n: "new_cwipc_impl (m_pc ob1) (m_timestamp ob1) w1 = (rv, w2)"
    by (metis surj_pair)
  have "on_object (\<lambda>w ob. snd (access_pcl_pointcloud w ob)) i st = Inr (w1, obs[i := ob1])"
    using i by (simp add: on_object_def st a)
  then have "ledger_ok added (w1, obs[i := ob1])"
    by (rule ledger_on_object [OF access_acc.accounted_axioms assms(1)])
  then have "ledger_ok added (w2, obs[i := ob1] @ [impl_set_cellsize dist (m_cellsize ob1) rv])"
    by (rule ledger_append)
      (use n in \<open>auto simp: new_cwipc_impl_def dangling_defs live_defs metadata_of_def
        split: option.splits\<close>)
  with assms(2) i show ?thesis
    by (simp add: shallowcopy_call_def shallowcopy_def st a n)
qed

lemma ledger_exec_call:
  assumes "ledger_ok added st" and "exec_call e c st = Inr st'"
  shows "ledger_ok (added + added_by c) st'"
proof (cases c)
  case (Call_dangling b)
  have "pc_dangling (snd (cwipc_dangling_allocations b w)) = pc_dangling w"
    "points_dangling (snd (cwipc_dangling_allocations b w)) = points_dangling w"
    "metadata_deallocated (snd (cwipc_dangling_allocations b w)) = metadata_deallocated w" for w
    by (simp_all add: cwipc_dangling_allocations_def dangling_defs Let_def cwipc_log_emit_def)
  then show ?thesis
    using assms Call_dangling by (cases st) (auto simp: ledger_ok_def added_by_def)
qed (use assms in \<open>auto simp: added_by_def
    dest: ledger_metadata_add ledger_metadata_move ledger_shallowcopy
      ledger_create [OF from_points_new.constructor_axioms]
      ledger_create [OF from_packet_new.constructor_axioms]
      ledger_create [OF from_pcl_new.constructor_axioms]
      ledger_create [OF read_new.constructor_axioms]
      ledger_create [OF read_debugdump_new.constructor_axioms]
      ledger_on_object [OF free_acc.accounted_axioms]
      ledger_on_object [OF access_acc.accounted_axioms]
      ledger_on_object [OF cellsize_acc.accounted_axioms]
      ledger_on_object [OF timestamp_acc.accounted_axioms]
      ledger_on_object [OF count_acc.accounted_axioms]
      ledger_on_object [OF size_acc.accounted_axioms]
      ledger_on_object [OF copy_acc.accounted_axioms]
      ledger_on_object [OF packet_acc.accounted_axioms]
      ledger_on_object [OF write_acc.accounted_axioms]\<close>)

definition added_metadata :: "api_call list \<Rightarrow> (nat \<times> nat) multiset" where
  "added_metadata cs = sum_list (map added_by cs)"

lemma ledger_exec_calls:
  "exec_calls e cs st = Inr st' \<Longrightarrow> ledger_ok added st \<Longrightarrow>
   ledger_ok (added + added_metadata cs) st'"
proof (induction cs arbitrary: st added)
  case (Cons c cs)
  then obtain st1 where "exec_call e c st = Inr st1" "exec_calls e cs st1 = Inr st'"
    by (auto split: sum.splits)
  from Cons.IH [OF this(2) ledger_exec_call [OF Cons.prems(2) this(1)]]
  show ?case by (simp add: added_metadata_def ac_simps)
qed (simp add: added_metadata_def)

lemma ledger_init: "ledger_ok {#} (world_init env now, [])"
  by (simp add: ledger_ok_def dangling_defs world_init_def logger.defs)

lemma total_live:
  "total live_pc obs = int (length (filter (\<lambda>ob. m_pc ob \<noteq> None) obs))"
  "total live_points obs = int (length (filter (\<lambda>ob. m_points ob \<noteq> None) obs))"
  by (induction obs) (auto simp: total_def live_defs)

section \<open>Properties\<close>

text \<open>
  C1. Whatever a client does with the API, \<open>cwipc_dangling_allocations\<close> returns exactly the
  number of PCL clouds plus the number of uncompressed buffers its objects still own: it is 0
  iff nothing is leaked, lazy conversions and shallow copies included.
\<close>

theorem dangling_allocations_counts_live:
  assumes "exec_calls e cs (world_init env now, []) = Inr (w, obs)"
  shows "fst (cwipc_dangling_allocations b w) =
    int (length (filter (\<lambda>ob. m_pc ob \<noteq> None) obs) + length (filter (\<lambda>ob. m_points ob \<noteq> None) obs))"
  using ledger_exec_calls [OF assms ledger_init]
  by (simp add: cwipc_dangling_allocations_def ledger_ok_def dangling_defs total_live Let_def)

text \<open>A small environment for the witnesses: \<open>malloc\<close> succeeds and no file exists.\<close>

definition sample_environment :: environment where
  "sample_environment = \<lparr>e_dist = (\<lambda>_ _. 0), e_malloc_ok = (\<lambda>_. True), e_disk = (\<lambda>_. None),
     e_ply_read = (\<lambda>_. None)\<rparr>"

definition sample_point :: cwipc_point where
  "sample_point = \<lparr>pt_x = 1, pt_y = 2, pt_z = 3, pt_r = 4, pt_g = 5, pt_b = 6, pt_tile = 1\<rparr>"

definition sample_client :: "api_call list" where
  "sample_client =
     [Call_from_points [sample_point] 16 1 77 None CWIPC_API_VERSION,
      Call_metadata_add 0 ''rgb'' ''png'' 4096 10 7, Call_shallowcopy 0, Call_metadata_move 0 1,
      Call_free 1]"


lemma sample_client_result:
  obtains w obs where
    "exec_calls sample_environment sample_client (world_init (Some ''0'') 0, []) = Inr (w, obs)"
    "length (filter (\<lambda>ob. m_pc ob \<noteq> None) obs) = 1"
    "length (filter (\<lambda>ob. m_points ob \<noteq> None) obs) = 1"
    "metadata_deallocated w = [(7, 4096)]"
proof -
  have "case exec_calls sample_environment sample_client (world_init (Some ''0'') 0, []) of
      Inl f \<Rightarrow> False
    | Inr (w, obs) \<Rightarrow> length (filter (\<lambda>ob. m_pc ob \<noteq> None) obs) = 1 \<and>
        length (filter (\<lambda>ob. m_points ob \<noteq> None) obs) = 1 \<and>
        metadata_deallocated w = [(7, 4096)]"
    by code_simp
  then show ?thesis
    by (cases "exec_calls sample_environment sample_client (world_init (Some ''0'') 0, [])")
      (auto intro: that)
qed

theorem dangling_allocations_counts_live_witness:
  "\<exists>w obs. exec_calls sample_environment sample_client (world_init (Some ''0'') 0, []) = Inr (w, obs)
     \<and> fst (cwipc_dangling_allocations True w) = 2"
proof -
  obtain w obs where
    "exec_calls sample_environment sample_client (world_init (Some ''0'') 0, []) = Inr (w, obs)"
    "length (filter (\<lambda>ob. m_pc ob \<noteq> None) obs) = 1"
    "length (filter (\<lambda>ob. m_points ob \<noteq> None) obs) = 1"
    by (rule sample_client_result)
  with dangling_allocations_counts_live [OF this(1), of True] show ?thesis by auto
qed

text \<open>
  C37. Every metadata item a client adds is deallocated at most once, with its own
  deallocator, and is otherwise attached to exactly one object: moving metadata, freeing,
  copying and converting clouds never lose or duplicate an item.
\<close>

theorem metadata_conserved:
  assumes "exec_calls e cs (world_init env now, []) = Inr (w, obs)"
  shows "mset (metadata_deallocated w) + attached obs = added_metadata cs"
  using ledger_exec_calls [OF assms ledger_init] by (simp add: ledger_ok_def)

theorem metadata_conserved_witness:
  "\<exists>w obs. exec_calls sample_environment sample_client (world_init (Some ''0'') 0, []) = Inr (w, obs)
     \<and> attached obs = {#} \<and> metadata_deallocated w = [(7, 4096)]"
proof -
  obtain w obs where
    "exec_calls sample_environment sample_client (world_init (Some ''0'') 0, []) = Inr (w, obs)"
    "metadata_deallocated w = [(7, 4096)]"
    by (rule sample_client_result)
  with metadata_conserved [OF this(1)] show ?thesis
    by (auto simp: added_metadata_def added_by_def sample_client_def)
qed

lemma emitted_log:
  assumes "sinks_ok w" and "log_initialized w" and "l \<le> currentLogLevel w"
  shows "emitted (cwipc_log l m t w) > emitted w"
proof -
  have ok: "sinks_ok (capture_error l msg (start_clock w)) = sinks_ok w" for msg
    by (rule sinks_ok_cong) (simp_all add: world_simps)
  show ?thesis
    using assms by (simp add: cwipc_log_def Let_def initialize_idem emitted_sinks ok world_simps)
qed

text \<open>
  \<open>cwipc_dangling_allocations(false)\<close> is documented to report without logging, but
  \<open>log && a != 0 || b != 0\<close> logs both messages whenever an uncompressed buffer is alive: with
  a stderr sink and one such buffer, one call writes two lines.
\<close>

theorem dangling_allocations_logs_unasked:
  assumes "snd (dangling_counts w) \<noteq> 0"
    and "sinks_ok w" and "log_initialized w" and "CWIPC_LOG_LEVEL_WARNING \<le> currentLogLevel w"
  shows "emitted (snd (cwipc_dangling_allocations False w)) \<ge> emitted w + 2"
proof -
  obtain m1 t1 m2 t2 where w': "snd (cwipc_dangling_allocations False w) =
      cwipc_log CWIPC_LOG_LEVEL_WARNING m2 t2 (cwipc_log CWIPC_LOG_LEVEL_WARNING m1 t1 w)"
    using assms(1) unfolding cwipc_dangling_allocations_def split_beta cwipc_log_emit_def Let_def
    by simp
  have "emitted (cwipc_log CWIPC_LOG_LEVEL_WARNING m1 t1 w) > emitted w"
    using assms(2-4) by (rule emitted_log)
  moreover have "emitted (cwipc_log CWIPC_LOG_LEVEL_WARNING m2 t2 (cwipc_log CWIPC_LOG_LEVEL_WARNING m1 t1 w))
      > emitted (cwipc_log CWIPC_LOG_LEVEL_WARNING m1 t1 w)"
    using assms(2-4) by (intro emitted_log) (simp_all add: sinks_ok_log initialize_idem world_simps)
  ultimately show ?thesis unfolding w' by linarith
qed

theorem dangling_allocations_logs_unasked_witness:
  "emitted (snd (cwipc_dangling_allocations False
     ((world_init None 5)\<lparr>log_initialized := True, n_cwipc_uncompressed_pointcloud_alloc := 1\<rparr>))) \<ge> 2"
  using dangling_allocations_logs_unasked
    [of "(world_init None 5)\<lparr>log_initialized := True, n_cwipc_uncompressed_pointcloud_alloc := 1\<rparr>"]
  by (simp add: dangling_counts_def world_init_def logger.defs logger_init_def sinks_ok_def log_levels)

end
