(* ===== verification/ClientTypes.thy ===== *)
theory ClientTypes
  imports ClientStore RoundTrips
begin

text \<open>
  What the fields of a point cloud object of \<open>cwipc_util.cpp\<close> mean for each other, and that no
  client program ever sees an object in which they disagree. The contract is two locales, one for
  the methods and one for the constructors, interpreted for every call of theory \<open>ClientStore\<close>.
\<close>

section \<open>Well-typed objects\<close>

text \<open>
  A \<open>cwipc_impl\<close> owns no uncompressed buffer. In a \<open>cwipc_uncompressed_impl\<close> the size is that of
  the buffer, 16 bytes a point, the number of points fits the \<open>int\<close> of \<open>count\<close>, and a PCL cloud it
  has been converted to holds the same points.
\<close>

definition buffer_of :: "cwipc_obj \<Rightarrow> cwipc_point list" where
  "buffer_of ob = (case m_points ob of None \<Rightarrow> [] | Some ps \<Rightarrow> ps)"

definition well_typed :: "cwipc_obj \<Rightarrow> bool" where
  "well_typed ob \<longleftrightarrow>
     (case pc_class ob of
        Cwipc_impl \<Rightarrow> m_points ob = None \<and> m_points_size ob = 0
      | Cwipc_uncompressed_impl \<Rightarrow>
          uint (m_points_size ob) = 16 * int (length (buffer_of ob)) \<and> length (buffer_of ob) < 2 ^ 31 \<and>
          (case m_pc ob of None \<Rightarrow> True | Some pc \<Rightarrow> pc = map pcl_of_point (buffer_of ob)))"

lemma points_of_buffer:
  assumes "uint sz = 16 * int n" and "n < 2 ^ 31"
  shows "points_of_size sz = int n" "points_bytes (int n) = sz"
proof -
  have "int (unat sz) = int (16 * n)" using assms(1) by simp
  moreover have "unat (size_of_nat (16 * n)) = 16 * n" by (rule unat_size_of_nat) (use assms(2) in simp)
  ultimately have "unat sz = unat (size_of_nat (16 * n))" by (simp only: of_nat_eq_iff)
  then have "sz = size_of_nat (16 * n)" by (rule word_unat_eq_iff [THEN iffD2])
  then show "points_of_size sz = int n" "points_bytes (int n) = sz"
    using assms(2) by (simp_all add: MAX_POINTS_def)
qed

lemma well_typed_frame [simp]:
  "well_typed (ob\<lparr>m_metadata := m\<rparr>) = well_typed ob" "well_typed (ob\<lparr>m_timestamp := t\<rparr>) = well_typed ob"
  "well_typed (ob\<lparr>m_cellsize := c\<rparr>) = well_typed ob"
  by (simp_all add: well_typed_def buffer_of_def cong: option.case_cong pc_class.case_cong)

lemma well_typed_cellsize [simp]: "well_typed (impl_set_cellsize dist cs ob) = well_typed ob"
  by (simp add: impl_set_cellsize_def split: option.split)

section \<open>The contract\<close>

locale typed_method =
  fixes meth :: "world \<Rightarrow> cwipc_obj \<Rightarrow> world \<times> cwipc_obj"
  assumes keeps_type: "well_typed ob \<Longrightarrow> well_typed (snd (meth w ob))"
begin

lemma store_typed:
  assumes "on_object meth i (w, obs) = Inr (w', obs')" and "list_all well_typed obs"
  shows "list_all well_typed obs'"
  using assms keeps_type [of "obs ! i" w]
  by (auto simp: on_object_def list_all_length nth_list_update split: if_splits prod.splits)

end

locale typed_constructor =
  fixes make :: "world \<Rightarrow> fault + cwipc_obj option \<times> world"
  assumes makes_type: "make w = Inr (Some ob, w') \<Longrightarrow> well_typed ob"
begin

lemma store_typed:
  assumes "create make (w, obs) = Inr (w', obs')" and "list_all well_typed obs"
  shows "list_all well_typed obs'"
  using assms makes_type [of w]
  by (auto simp: create_def split: sum.splits option.splits prod.splits)

end

section \<open>The methods\<close>

lemma access_keeps_type:
  assumes "well_typed ob"
  shows "well_typed (snd (snd (access_pcl_pointcloud w ob)))"
proof (cases "pc_class ob")
  case Cwipc_uncompressed_impl
  with assms have sz: "uint (m_points_size ob) = 16 * int (length (buffer_of ob))"
    and n: "length (buffer_of ob) < 2 ^ 31"
    by (simp_all add: well_typed_def)
  show ?thesis
    using assms Cwipc_uncompressed_impl points_of_buffer [OF sz n]
    by (cases "m_pc ob")
      (simp_all add: access_pcl_pointcloud_def uncompressed_access_pcl_def impl_from_points_def Let_def
        well_typed_def buffer_of_def [symmetric], simp_all add: buffer_of_def)
qed (use assms in \<open>simp add: access_pcl_pointcloud_def\<close>)

interpretation access_typed: typed_method "\<lambda>w ob. snd (access_pcl_pointcloud w ob)"
  by unfold_locales (rule access_keeps_type)

interpretation free_typed: typed_method pc_free
  by unfold_locales
    (auto simp: well_typed_def buffer_of_def pc_free_def impl_free_def uncompressed_free_def Let_def
      split: pc_class.splits option.splits)

interpretation cellsize_typed: typed_method "set_cellsize dist cs" for dist cs
  by unfold_locales (simp add: set_cellsize_as_access access_keeps_type split_beta)

interpretation timestamp_typed: typed_method "\<lambda>w ob. (w, set_timestamp ts ob)" for ts
  by unfold_locales (simp add: set_timestamp_def)

interpretation count_typed: typed_method count_method
  by unfold_locales (simp add: count_method_def)

interpretation size_typed: typed_method get_uncompressed_size_method
  by unfold_locales (simp add: get_uncompressed_size_method_def)

interpretation copy_typed: typed_method "copy_uncompressed_method sz" for sz
  by unfold_locales (simp add: copy_uncompressed_method_def)

interpretation write_typed: typed_method "write_debugdump_method malloc_ok disk f em"
  for malloc_ok disk f em
  by unfold_locales (simp add: write_debugdump_method_def)

interpretation packet_typed: typed_method "copy_packet_method hp sz" for hp sz
proof
  fix ob w assume "well_typed ob"
  obtain res w' ob' where p: "copy_packet hp sz w ob = (res, w', ob')" by (metis prod_cases3)
  obtain w1 ob1 where c: "(w1, ob1) = (case m_pc ob of
      None \<Rightarrow> snd (access_pcl_pointcloud w ob) | Some _ \<Rightarrow> (w, ob))"
    by (metis surj_pair)
  then have "well_typed ob1"
    using \<open>well_typed ob\<close> access_keeps_type [of ob w] by (metis option.case_eq_if snd_conv)
  with copy_packet_world(1) [OF p c] show "well_typed (snd (copy_packet_method hp sz w ob))"
    by (simp add: copy_packet_method_def p)
qed

interpretation metadata_typed: typed_method "add_metadata_method n d p sz dl" for n d p sz dl
  by unfold_locales (simp add: add_metadata_method_def access_metadata_def Let_def split: option.split)

section \<open>The constructors\<close>

lemma fresh_typed:
  assumes "uncompressed_from_points malloc_ok ps sz n ts w new_cwipc_uncompressed_impl = (st, w', ob)"
    and "\<not> st < 0" and "- (2 ^ 31) \<le> n" "n < 2 ^ 31" and "nat n \<le> length ps"
  shows "well_typed ob"
proof -
  have sz: "points_bytes n = sz" and m: "malloc malloc_ok sz"
    using assms(1,2) by (auto simp: uncompressed_from_points_def split: if_splits)
  have "0 \<le> n" using points_bytes_negative [OF assms(3), of malloc_ok] sz m by force
  then have "uint sz = 16 * int (length (take (nat n) ps))" "length (take (nat n) ps) < 2 ^ 31"
    using points_bytes_nonneg [of n] assms(4,5) sz by auto
  then show ?thesis
    using assms(1,2)
    by (auto simp: uncompressed_from_points_def Let_def well_typed_def buffer_of_def
        new_cwipc_uncompressed_impl_def split: if_splits)
qed

lemma load_typed:
  assumes "load_points dist malloc_ok ps sz (points_of_size n) header w = (Some ob, w')"
    and "malloc malloc_ok sz \<Longrightarrow> nat (points_of_size n) \<le> length ps"
  shows "well_typed ob"
proof -
  obtain st w2 rv where u: "uncompressed_from_points malloc_ok ps sz (points_of_size n)
      (hdr_timestamp header) w new_cwipc_uncompressed_impl = (st, w2, rv)"
    by (metis prod_cases3)
  with assms(1) have st: "\<not> st < 0" and ob: "ob = snd (set_cellsize dist (hdr_cellsize header) w2 rv)"
    by (auto simp: load_points_def split: if_splits prod.splits)
  have "malloc malloc_ok sz"
    using u st by (auto simp: uncompressed_from_points_def split: if_splits)
  then have "well_typed rv"
    using fresh_typed [OF u st] int_of_size_range assms(2) by (simp add: points_of_size_def)
  then show ?thesis unfolding ob by (rule cellsize_typed.keeps_type)
qed

lemma typed_dec_n_length: "dec_n dec n bs = Some (xs, r) \<Longrightarrow> length xs = n"
  by (induction n arbitrary: bs xs r) (auto split: option.splits)

lemma dec_point_enough: "16 \<le> length bs \<Longrightarrow> \<exists>p. dec_point bs = Some (p, drop 16 bs)"
  by (auto simp: dec_point_def dec_u32_def length_Suc_conv Suc_le_length_iff numeral_eq_Suc split: option.split)

lemma dec_points_enough: "16 * n \<le> length bs \<Longrightarrow> \<exists>xs r. dec_n dec_point n bs = Some (xs, r)"
proof (induction n arbitrary: bs)
  case (Suc n)
  obtain p where "dec_point bs = Some (p, drop 16 bs)" using dec_point_enough [of bs] Suc.prems by auto
  then show ?case using Suc.IH [of "drop 16 bs"] Suc.prems by fastforce
qed simp

interpretation from_points_typed: typed_constructor "cwipc_from_points malloc_ok ps sz n ts em v"
  for malloc_ok ps sz n ts em v
proof
  fix w ob w' assume c: "cwipc_from_points malloc_ok ps sz n ts em v w = Inr (Some ob, w')"
  then obtain st where u: "uncompressed_from_points malloc_ok ps sz (sint n) ts
      (cwipc_log_set_errorbuf em w) new_cwipc_uncompressed_impl = (st, w', ob)" and st: "\<not> st < 0"
    by (auto simp: cwipc_from_points_def Let_def split: if_splits prod.splits)
  then have "points_bytes (sint n) = sz" "malloc malloc_ok sz"
    by (auto simp: uncompressed_from_points_def split: if_splits)
  with c have "nat (sint n) \<le> length ps"
    by (auto simp: cwipc_from_points_def Let_def split: if_splits prod.splits)
  with fresh_typed [OF u st] sint_ge [of n] sint_lt [of n] show "well_typed ob" by simp
qed

interpretation from_pcl_typed: typed_constructor "\<lambda>w. Inr (cwipc_from_pcl pc ts em v w)" for pc ts em v
  by unfold_locales (auto simp: cwipc_from_pcl_def new_cwipc_impl_def well_typed_def split: if_splits)

interpretation read_typed: typed_constructor "\<lambda>w. Inr (cwipc_read ply_read f ts em v w)"
  for ply_read f ts em v
  by unfold_locales
    (auto simp: cwipc_read_def new_cwipc_impl_def well_typed_def Let_def split: if_splits option.splits)

interpretation from_packet_typed: typed_constructor "cwipc_from_packet dist malloc_ok packet sz em v"
  for dist malloc_ok packet sz em v
  by unfold_locales
    (auto simp: cwipc_from_packet_def Let_def typed_dec_n_length intro!: load_typed
      split: if_splits sum.splits option.splits prod.splits)

interpretation read_debugdump_typed: typed_constructor
  "\<lambda>w. Inr (cwipc_read_debugdump dist malloc_ok f em v w)" for dist malloc_ok f em v
proof
  fix w ob w' assume "Inr (cwipc_read_debugdump dist malloc_ok f em v w) = Inr (Some ob, w')"
  then obtain header data where size: "points_bytes (points_of_size (hdr_size header)) = hdr_size header"
      "malloc malloc_ok (hdr_size header)" "unat (hdr_size header) \<le> length data"
    and load: "load_points dist malloc_ok
        (case dec_n dec_point (nat (points_of_size (hdr_size header))) data of None \<Rightarrow> [] | Some (ps, _) \<Rightarrow> ps)
        (hdr_size header) (points_of_size (hdr_size header)) header (cwipc_log_set_errorbuf em w) = (Some ob, w')"
    by (auto simp: cwipc_read_debugdump_def Let_def not_less split: if_splits option.splits)
  let ?n = "points_of_size (hdr_size header)"
  have "0 \<le> ?n"
    using points_bytes_negative [of ?n malloc_ok] points_of_size_range size(1,2) by force
  moreover have "?n < 2 ^ 31" using int_of_size_range(2) by (simp add: points_of_size_def)
  ultimately have "16 * nat ?n \<le> length data"
    using points_bytes_nonneg [of ?n] size(1,3) by (simp add: unat_eq_nat_uint)
  from dec_points_enough [OF this] obtain ps r where "dec_n dec_point (nat ?n) data = Some (ps, r)" by blast
  with load typed_dec_n_length [OF this] show "well_typed ob" by (intro load_typed [OF load]) simp
qed

section \<open>Client programs\<close>

lemma shallowcopy_typed:
  assumes "shallowcopy_call dist i (w, obs) = Inr (w', obs')" and "list_all well_typed obs"
  shows "list_all well_typed obs'"
proof -
  obtain r w1 ob1 where a: "access_pcl_pointcloud w (obs ! i) = (r, w1, ob1)" by (metis prod_cases3)
  obtain rv w2 where n: "new_cwipc_impl (m_pc ob1) (m_timestamp ob1) w1 = (rv, w2)" by (metis surj_pair)
  have i: "i < length obs" and obs': "obs' = obs[i := ob1] @ [impl_set_cellsize dist (m_cellsize ob1) rv]"
    using assms(1) by (auto simp: shallowcopy_call_def shallowcopy_def a n split: if_splits)
  have "well_typed rv" using n by (auto simp: new_cwipc_impl_def well_typed_def)
  moreover have "well_typed ob1"
    using access_keeps_type [of "obs ! i" w] assms(2) i by (simp add: a list_all_length)
  ultimately show ?thesis using assms(2) using i
    by (auto simp: obs' list_all_iff dest: set_update_subset_insert [THEN subsetD])
qed

lemma move_typed:
  assumes "move_metadata i j (w, obs) = Inr (w', obs')" and "list_all well_typed obs"
  shows "list_all well_typed obs'"
  using assms
  by (auto simp: move_metadata_def access_metadata_def list_all_length nth_list_update Let_def
      split: if_splits prod.splits option.splits)

lemma exec_call_typed:
  assumes "exec_call e c (w, obs) = Inr (w', obs')" and "list_all well_typed obs"
  shows "list_all well_typed obs'"
  using assms
  by (cases c) (auto
      dest: shallowcopy_typed move_typed from_points_typed.store_typed from_pcl_typed.store_typed
      read_typed.store_typed from_packet_typed.store_typed read_debugdump_typed.store_typed
      free_typed.store_typed access_typed.store_typed cellsize_typed.store_typed
      timestamp_typed.store_typed count_typed.store_typed size_typed.store_typed copy_typed.store_typed
      packet_typed.store_typed write_typed.store_typed metadata_typed.store_typed)

lemma exec_calls_typed:
  "exec_calls e cs (w, obs) = Inr (w', obs') \<Longrightarrow> list_all well_typed obs \<Longrightarrow> list_all well_typed obs'"
  by (induction cs arbitrary: w obs) (auto split: sum.splits dest: exec_call_typed)

text \<open>
  C8. The fields of every point cloud a client program can hold agree, whatever calls it makes:
  the size of an uncompressed cloud is exactly 16 bytes for each point of its buffer and counts
  them within an \<open>int\<close>, a converted cloud has the same points in both forms, and a PCL cloud owns
  no buffer. This is what the methods rely on when they copy that many bytes.
\<close>

theorem client_objects_well_typed:
  assumes "exec_calls e cs (world_init env now, []) = Inr (w, obs)"
  shows "list_all well_typed obs"
  using exec_calls_typed [OF assms] by simp

theorem client_objects_well_typed_witness:
  "\<exists>w obs. exec_calls sample_environment sample_client (world_init (Some ''0'') 0, []) = Inr (w, obs)
     \<and> list_all well_typed obs \<and> length (filter (\<lambda>ob. m_points ob \<noteq> None) obs) = 1"
proof -
  obtain w obs where
    "exec_calls sample_environment sample_client (world_init (Some ''0'') 0, []) = Inr (w, obs)"
    "length (filter (\<lambda>ob. m_points ob \<noteq> None) obs) = 1"
    by (rule sample_client_result)
  with client_objects_well_typed [OF this(1)] show ?thesis by auto
qed

end
