(* ===== verification/FloatArith.thy ===== *)
theory FloatArith
  imports Float32
begin

text \<open>
  Single-precision arithmetic on the bit patterns of \<open>Float32\<close>, computed on integers: the exact
  result of an operation is rounded once, to nearest with ties to even, as IEEE 754 and the
  compilers the program is built with do. Every invalid operation gives the same NaN pattern;
  the code never looks at NaN payloads.
\<close>

section \<open>Decoding and rounding\<close>

definition f32_nan :: f32 where "f32_nan = 0x7FC00000"

definition f32_isinf :: "f32 \<Rightarrow> bool" where
  "f32_isinf x = (f32_mag x = 0x7F800000)"

definition f32_iszero :: "f32 \<Rightarrow> bool" where
  "f32_iszero x = (f32_mag x = 0)"

text \<open>A finite pattern is \<open>significand * 2 ^ exponent\<close>.\<close>

definition f32_significand :: "f32 \<Rightarrow> int" where
  "f32_significand x =
     (let m = uint (f32_mag x) in if m div 2 ^ 23 = 0 then m else m mod 2 ^ 23 + 2 ^ 23)"

definition f32_exponent :: "f32 \<Rightarrow> int" where
  "f32_exponent x =
     (let e = uint (f32_mag x) div 2 ^ 23 in if e = 0 then - 149 else e - 150)"

definition f32_signed :: "f32 \<Rightarrow> int" where
  "f32_signed x = (if f32_neg_bit x then - f32_significand x else f32_significand x)"

function bit_length :: "int \<Rightarrow> int" where
  "bit_length n = (if n \<le> 0 then 0 else bit_length (n div 2) + 1)"
  by pat_completeness auto
termination
  by (relation "measure nat") auto

declare bit_length.simps [simp del]

definition with_sign :: "bool \<Rightarrow> int \<Rightarrow> f32" where
  "with_sign neg mag = word_of_int (if neg then mag + 2 ^ 31 else mag)"

text \<open>\<open>m\<close> divided by \<open>2 ^ s\<close> and rounded to the nearest integer, ties to even.\<close>

definition round_quot :: "int \<Rightarrow> int \<Rightarrow> bool \<Rightarrow> int" where
  "round_quot m s sticky =
     (if s \<le> 0 then m * 2 ^ nat (- s)
      else let d = m div 2 ^ nat s; r = m mod 2 ^ nat s; half = 2 ^ nat (s - 1)
           in if half < r \<or> r = half \<and> (sticky \<or> odd d) then d + 1 else d)"

lemma round_quot_nonneg: "0 \<le> m \<Longrightarrow> 0 \<le> round_quot m s sticky"
  by (simp add: round_quot_def Let_def pos_imp_zdiv_nonneg_iff)

text \<open>
  The float nearest to \<open>m * 2 ^ e\<close>; \<open>sticky\<close> says that the exact value is a little above,
  by less than \<open>2 ^ e\<close>.
\<close>

definition f32_round :: "bool \<Rightarrow> int \<Rightarrow> int \<Rightarrow> bool \<Rightarrow> f32" where
  "f32_round neg m e sticky =
     (let e' = max (e + bit_length m - 24) (- 149);
          mag = (e' + 149) * 2 ^ 23 + round_quot m (e' - e) sticky
      in with_sign neg (if m = 0 then 0 else if 0x7F800000 \<le> mag then 0x7F800000 else mag))"

section \<open>Operations\<close>

definition f32_mul :: "f32 \<Rightarrow> f32 \<Rightarrow> f32" where
  "f32_mul x y =
     (let neg = (f32_neg_bit x \<noteq> f32_neg_bit y) in
      if f32_isnan x \<or> f32_isnan y then f32_nan
      else if f32_isinf x \<and> f32_iszero y \<or> f32_iszero x \<and> f32_isinf y then f32_nan
      else if f32_isinf x \<or> f32_isinf y then with_sign neg 0x7F800000
      else f32_round neg (f32_significand x * f32_significand y)
             (f32_exponent x + f32_exponent y) False)"

definition f32_add :: "f32 \<Rightarrow> f32 \<Rightarrow> f32" where
  "f32_add x y =
     (if f32_isnan x \<or> f32_isnan y then f32_nan
      else if f32_isinf x \<and> f32_isinf y
      then (if f32_neg_bit x = f32_neg_bit y then x else f32_nan)
      else if f32_isinf x then x
      else if f32_isinf y then y
      else let e = min (f32_exponent x) (f32_exponent y);
               s = f32_signed x * 2 ^ nat (f32_exponent x - e)
                   + f32_signed y * 2 ^ nat (f32_exponent y - e)
           in f32_round (if s = 0 then f32_neg_bit x \<and> f32_neg_bit y else s < 0) \<bar>s\<bar> e False)"

definition f32_sub :: "f32 \<Rightarrow> f32 \<Rightarrow> f32" where
  "f32_sub x y = f32_add x (if f32_isnan y then y else f32_neg y)"

definition f32_div :: "f32 \<Rightarrow> f32 \<Rightarrow> f32" where
  "f32_div x y =
     (let neg = (f32_neg_bit x \<noteq> f32_neg_bit y) in
      if f32_isnan x \<or> f32_isnan y then f32_nan
      else if f32_isinf x \<and> f32_isinf y \<or> f32_iszero x \<and> f32_iszero y then f32_nan
      else if f32_isinf x \<or> f32_iszero y then with_sign neg 0x7F800000
      else if f32_isinf y then with_sign neg 0
      else let n = f32_significand x * 2 ^ 50; d = f32_significand y
           in f32_round neg (n div d) (f32_exponent x - f32_exponent y - 50) (n mod d \<noteq> 0))"

text \<open>Conversion from an integer, and truncation towards zero of a finite value.\<close>

definition f32_of_int :: "int \<Rightarrow> f32" where
  "f32_of_int i = f32_round (i < 0) \<bar>i\<bar> 0 False"

definition f32_trunc :: "f32 \<Rightarrow> int" where
  "f32_trunc x =
     (let e = f32_exponent x; m = f32_significand x;
          a = (if 0 \<le> e then m * 2 ^ nat e else m div 2 ^ nat (- e))
      in if f32_neg_bit x then - a else a)"

section \<open>Double precision\<close>

text \<open>
  A \<open>double\<close> is its 64-bit pattern. The code adds, subtracts, multiplies, divides and compares
  doubles and converts between the two widths; each operation is rounded once.
\<close>

type_synonym f64 = u64

definition f64_mag :: "f64 \<Rightarrow> int" where "f64_mag x = uint x mod 2 ^ 63"

definition f64_neg_bit :: "f64 \<Rightarrow> bool" where "f64_neg_bit x = (2 ^ 63 \<le> uint x)"

definition f64_inf :: int where "f64_inf = 0x7FF0000000000000"

definition f64_nan :: f64 where "f64_nan = 0x7FF8000000000000"

definition f64_isnan :: "f64 \<Rightarrow> bool" where "f64_isnan x = (f64_inf < f64_mag x)"

definition f64_significand :: "f64 \<Rightarrow> int" where
  "f64_significand x = (let m = f64_mag x in if m div 2 ^ 52 = 0 then m else m mod 2 ^ 52 + 2 ^ 52)"

definition f64_exponent :: "f64 \<Rightarrow> int" where
  "f64_exponent x = (let e = f64_mag x div 2 ^ 52 in if e = 0 then - 1074 else e - 1075)"

definition f64_signed :: "f64 \<Rightarrow> int" where
  "f64_signed x = (if f64_neg_bit x then - f64_significand x else f64_significand x)"

definition with_sign64 :: "bool \<Rightarrow> int \<Rightarrow> f64" where
  "with_sign64 neg mag = word_of_int (if neg then mag + 2 ^ 63 else mag)"

definition f64_round :: "bool \<Rightarrow> int \<Rightarrow> int \<Rightarrow> bool \<Rightarrow> f64" where
  "f64_round neg m e sticky =
     (let e' = max (e + bit_length m - 53) (- 1074);
          mag = (e' + 1074) * 2 ^ 52 + round_quot m (e' - e) sticky
      in with_sign64 neg (if m = 0 then 0 else if f64_inf \<le> mag then f64_inf else mag))"

definition f64_add :: "f64 \<Rightarrow> f64 \<Rightarrow> f64" where
  "f64_add x y =
     (if f64_isnan x \<or> f64_isnan y then f64_nan
      else if f64_mag x = f64_inf \<and> f64_mag y = f64_inf
      then (if f64_neg_bit x = f64_neg_bit y then x else f64_nan)
      else if f64_mag x = f64_inf then x
      else if f64_mag y = f64_inf then y
      else let e = min (f64_exponent x) (f64_exponent y);
               s = f64_signed x * 2 ^ nat (f64_exponent x - e)
                   + f64_signed y * 2 ^ nat (f64_exponent y - e)
           in f64_round (if s = 0 then f64_neg_bit x \<and> f64_neg_bit y else s < 0) \<bar>s\<bar> e False)"

definition f64_neg :: "f64 \<Rightarrow> f64" where "f64_neg x = x XOR 0x8000000000000000"

definition f64_sub :: "f64 \<Rightarrow> f64 \<Rightarrow> f64" where
  "f64_sub x y = f64_add x (if f64_isnan y then y else f64_neg y)"

definition f64_mul :: "f64 \<Rightarrow> f64 \<Rightarrow> f64" where
  "f64_mul x y =
     (let neg = (f64_neg_bit x \<noteq> f64_neg_bit y) in
      if f64_isnan x \<or> f64_isnan y then f64_nan
      else if f64_mag x = f64_inf \<and> f64_mag y = 0 \<or> f64_mag x = 0 \<and> f64_mag y = f64_inf then f64_nan
      else if f64_mag x = f64_inf \<or> f64_mag y = f64_inf then with_sign64 neg f64_inf
      else f64_round neg (f64_significand x * f64_significand y) (f64_exponent x + f64_exponent y) False)"

definition f64_div :: "f64 \<Rightarrow> f64 \<Rightarrow> f64" where
  "f64_div x y =
     (let neg = (f64_neg_bit x \<noteq> f64_neg_bit y) in
      if f64_isnan x \<or> f64_isnan y then f64_nan
      else if f64_mag x = f64_inf \<and> f64_mag y = f64_inf \<or> f64_mag x = 0 \<and> f64_mag y = 0 then f64_nan
      else if f64_mag x = f64_inf \<or> f64_mag y = 0 then with_sign64 neg f64_inf
      else if f64_mag y = f64_inf then with_sign64 neg 0
      else let n = f64_significand x * 2 ^ 108; d = f64_significand y
           in f64_round neg (n div d) (f64_exponent x - f64_exponent y - 108) (n mod d \<noteq> 0))"

definition f64_of_int :: "int \<Rightarrow> f64" where
  "f64_of_int i = f64_round (i < 0) \<bar>i\<bar> 0 False"

text \<open>Widening is exact; narrowing rounds.\<close>

definition f64_of_f32 :: "f32 \<Rightarrow> f64" where
  "f64_of_f32 x =
     (if f32_isnan x then f64_nan
      else if f32_isinf x then with_sign64 (f32_neg_bit x) f64_inf
      else f64_round (f32_neg_bit x) (f32_significand x) (f32_exponent x) False)"

definition f32_of_f64 :: "f64 \<Rightarrow> f32" where
  "f32_of_f64 x =
     (if f64_isnan x then f32_nan
      else if f64_mag x = f64_inf then with_sign (f64_neg_bit x) 0x7F800000
      else f32_round (f64_neg_bit x) (f64_significand x) (f64_exponent x) False)"

definition f64_key :: "f64 \<Rightarrow> int" where
  "f64_key x = (if f64_neg_bit x then - f64_mag x else f64_mag x)"

definition f64_lt :: "f64 \<Rightarrow> f64 \<Rightarrow> bool" where
  "f64_lt x y = (\<not> f64_isnan x \<and> \<not> f64_isnan y \<and> f64_key x < f64_key y)"

text \<open>Truncation of a finite double.\<close>

definition f64_trunc :: "f64 \<Rightarrow> int" where
  "f64_trunc x =
     (let e = f64_exponent x; m = f64_significand x;
          a = (if 0 \<le> e then m * 2 ^ nat e else m div 2 ^ nat (- e))
      in if f64_neg_bit x then - a else a)"

end
