(* ===== verification/Filters.thy ===== *)
theory Filters
  imports RoundTrips FloatArith
begin

text \<open>
  \<open>cwipc_util/src/cwipc_filters.cpp\<close>: functions from point clouds to new point clouds. A
  \<open>cwipc_pointcloud*\<close> argument is an \<open>option\<close>; a filter returns the new object (or NULL), the
  world, and its possibly converted argument. The three PCL algorithms the file calls are
  parameters: the voxel grid, the octree and the statistical outlier removal, each of which
  may throw.
\<close>

section \<open>Exceptions and parameters\<close>

datatype exn = Pcl_exception string | Std_exception string

definition exn_message :: "string \<Rightarrow> exn \<Rightarrow> string" where
  "exn_message prefix e =
     (case e of Pcl_exception d \<Rightarrow> prefix @ ''PCL exception: '' @ d
              | Std_exception d \<Rightarrow> prefix @ ''std exception: '' @ d)"

text \<open>
  \<open>grid.filter (*dst)\<close> for a leaf size and an input cloud: the centroids and
  \<open>getCentroidIndex\<close> (which throws \<open>std::out_of_range\<close> when the grid saved no layout).
\<close>

type_synonym voxel_grid =
  "f32 \<Rightarrow> pcl_point list \<Rightarrow> exn + pcl_point list \<times> (pcl_point \<Rightarrow> exn + int)"

text \<open>The index vectors of the leaves, in iteration order, for a voxel size and a cloud.\<close>

type_synonym octree = "f32 \<Rightarrow> pcl_point list \<Rightarrow> exn + nat list list"

type_synonym outlier_removal = "int \<Rightarrow> f32 \<Rightarrow> pcl_point list \<Rightarrow> exn + pcl_point list"

type_synonym distance = "pcl_point \<Rightarrow> pcl_point \<Rightarrow> f32"

type_synonym filter_result = "cwipc_obj option \<times> world \<times> cwipc_obj option"

section \<open>The common frame of a filter\<close>

text \<open>NULL argument, access to the PCL cloud, warning when there is none.\<close>

definition on_source ::
  "string \<Rightarrow> world \<Rightarrow> cwipc_obj option
   \<Rightarrow> (pcl_point list \<Rightarrow> world \<Rightarrow> cwipc_obj \<Rightarrow> fault + cwipc_obj option \<times> world)
   \<Rightarrow> fault + filter_result" where
  "on_source name w pc body =
     (case pc of
        None \<Rightarrow> Inr (None, w, None)
      | Some ob \<Rightarrow>
          (case access_pcl_pointcloud w ob of
             (None, w1, ob1) \<Rightarrow>
               Inr (None, cwipc_log CWIPC_LOG_LEVEL_WARNING name ''pcl_pointcloud is NULL'' w1, Some ob1)
           | (Some src, w1, ob1) \<Rightarrow>
               map_sum id (\<lambda>(rv, w2). (rv, w2, Some ob1)) (body src w1 ob1)))"

text \<open>\<open>cwipc_from_pcl (dst, timestamp, NULL, CWIPC_API_VERSION)\<close> and \<open>_set_cellsize\<close>.\<close>

definition filter_result_object ::
  "distance \<Rightarrow> pcl_point list option \<Rightarrow> u64 \<Rightarrow> f32 \<Rightarrow> world \<Rightarrow> fault + cwipc_obj option \<times> world" where
  "filter_result_object dist dst ts cs w =
     (case cwipc_from_pcl dst ts None CWIPC_API_VERSION w of
        (None, w1) \<Rightarrow> Inl Null_deref
      | (Some rv, w1) \<Rightarrow> let (w2, rv') = set_cellsize dist cs w1 rv in Inr (Some rv', w2))"

section \<open>Voxel grid downsampling\<close>

text \<open>Step 3: the OR of the source tiles into the centroid each source point falls in.\<close>

fun or_tiles ::
  "(pcl_point \<Rightarrow> exn + int) \<Rightarrow> pcl_point list \<Rightarrow> pcl_point list \<Rightarrow> fault + exn + pcl_point list" where
  "or_tiles centroid [] dst = Inr (Inr dst)"
| "or_tiles centroid (srcpt # src) dst =
     (case centroid srcpt of
        Inl e \<Rightarrow> Inr (Inl e)
      | Inr dstIndex \<Rightarrow>
          if 0 \<le> dstIndex \<and> nat dstIndex < length dst
          then or_tiles centroid src
                 (dst[nat dstIndex := (dst ! nat dstIndex)
                        \<lparr>pcl_a := pcl_a (dst ! nat dstIndex) OR pcl_a srcpt\<rparr>])
          else Inl Out_of_bounds)"

definition clear_tiles :: "pcl_point list \<Rightarrow> pcl_point list" where
  "clear_tiles dst = map (\<lambda>dstpt. dstpt\<lparr>pcl_a := 0\<rparr>) dst"

text \<open>\<open>if (oldcellsize >= cellsize) cellsize = oldcellsize\<close>.\<close>

definition effective_cellsize :: "f32 \<Rightarrow> f32 \<Rightarrow> f32" where
  "effective_cellsize oldcellsize cellsize =
     (if f32_le cellsize oldcellsize then oldcellsize else cellsize)"

definition cwipc_downsample_voxelgrid ::
  "distance \<Rightarrow> voxel_grid \<Rightarrow> f32 \<Rightarrow> world \<Rightarrow> cwipc_obj option \<Rightarrow> fault + filter_result" where
  "cwipc_downsample_voxelgrid dist grid cellsize0 w pc =
     on_source ''cwipc_downsample_voxelgrid'' w pc (\<lambda>src w1 ob.
       let cellsize = effective_cellsize (m_cellsize ob) cellsize0;
           failed = (\<lambda>e. Inr (None, cwipc_log CWIPC_LOG_LEVEL_ERROR ''cwipc_downsample''
                                      (exn_message ''VoxelGrid '' e) w1))
       in case grid cellsize src of
            Inl e \<Rightarrow> failed e
          | Inr (dst, centroid) \<Rightarrow>
              if dst = []
              then Inr (None, cwipc_log CWIPC_LOG_LEVEL_ERROR ''cwipc_downsample''
                                ''VoxelGrid filter produced empty pointcloud'' w1)
              else case or_tiles centroid src (clear_tiles dst) of
                     Inl f \<Rightarrow> Inl f
                   | Inr (Inl e) \<Rightarrow> failed e
                   | Inr (Inr dst') \<Rightarrow>
                       filter_result_object dist (Some dst') (m_timestamp ob) cellsize w1)"

section \<open>Downsampling by octree and voxel grid\<close>

text \<open>\<open>src->at (point_idx)\<close> throws when the index is out of range.\<close>

fun gather :: "pcl_point list \<Rightarrow> nat list \<Rightarrow> exn + pcl_point list" where
  "gather src [] = Inr []"
| "gather src (i # is) =
     (if i < length src then map_sum id ((#) (src ! i)) (gather src is)
      else Inl (Std_exception ''vector::_M_range_check''))"

definition downsample_leaf ::
  "voxel_grid \<Rightarrow> f32 \<Rightarrow> pcl_point list \<Rightarrow> fault + exn + pcl_point list" where
  "downsample_leaf grid cellsize grid_input =
     (case grid cellsize grid_input of
        Inl e \<Rightarrow> Inr (Inl e)
      | Inr (grid_output, centroid) \<Rightarrow>
          if grid_output = [] then Inr (Inr [])
          else or_tiles centroid grid_input (clear_tiles grid_output))"

fun downsample_leaves ::
  "voxel_grid \<Rightarrow> f32 \<Rightarrow> pcl_point list \<Rightarrow> nat list list \<Rightarrow> pcl_point list
   \<Rightarrow> fault + exn + pcl_point list" where
  "downsample_leaves grid cellsize src [] dst = Inr (Inr dst)"
| "downsample_leaves grid cellsize src (indices # leaves) dst =
     (case gather src indices of
        Inl e \<Rightarrow> Inr (Inl e)
      | Inr grid_input \<Rightarrow>
          (case downsample_leaf grid cellsize grid_input of
             Inl f \<Rightarrow> Inl f
           | Inr (Inl e) \<Rightarrow> Inr (Inl e)
           | Inr (Inr grid_output) \<Rightarrow>
               downsample_leaves grid cellsize src leaves (dst @ grid_output)))"

definition octree_count :: int where "octree_count = 8 * 8"

definition cwipc_downsample ::
  "distance \<Rightarrow> voxel_grid \<Rightarrow> octree \<Rightarrow> f32 \<Rightarrow> world \<Rightarrow> cwipc_obj option \<Rightarrow> fault + filter_result" where
  "cwipc_downsample dist grid octree cellsize0 w pc =
     (if f32_lt cellsize0 f32_zero
      then cwipc_downsample_voxelgrid dist grid (f32_neg cellsize0) w pc
      else on_source ''cwipc_downsample'' w pc (\<lambda>src w1 ob.
        let cellsize = effective_cellsize (m_cellsize ob) cellsize0;
            octree_cellsize = f32_mul (f32_of_int octree_count) cellsize;
            failed = (\<lambda>e. Inr (None, cwipc_log CWIPC_LOG_LEVEL_ERROR ''cwipc_downsample''
                                       (exn_message [] e) w1))
        in case octree octree_cellsize src of
             Inl e \<Rightarrow> failed e
           | Inr leaves \<Rightarrow>
               (case downsample_leaves grid cellsize src leaves [] of
                  Inl f \<Rightarrow> Inl f
                | Inr (Inl e) \<Rightarrow> failed e
                | Inr (Inr dst) \<Rightarrow>
                    filter_result_object dist (Some dst) (m_timestamp ob) cellsize w1)))"

section \<open>Tile filter, tile map, crop, colour map\<close>

definition tile_selected :: "int \<Rightarrow> pcl_point \<Rightarrow> bool" where
  "tile_selected tile pt = (tile = 0 \<or> tile = uint (pcl_a pt))"

definition cwipc_tilefilter ::
  "distance \<Rightarrow> int \<Rightarrow> world \<Rightarrow> cwipc_obj option \<Rightarrow> fault + filter_result" where
  "cwipc_tilefilter dist tile w pc =
     on_source ''cwipc_tilefilter'' w pc (\<lambda>src w1 ob.
       filter_result_object dist (Some (filter (tile_selected tile) src))
         (m_timestamp ob) (m_cellsize ob) w1)"

text \<open>The argument is an array of 256 bytes: any byte is an index into it.\<close>

definition cwipc_tilemap ::
  "distance \<Rightarrow> (u8 \<Rightarrow> u8) \<Rightarrow> world \<Rightarrow> cwipc_obj option \<Rightarrow> fault + filter_result" where
  "cwipc_tilemap dist mapping w pc =
     on_source ''cwipc_tilemap'' w pc (\<lambda>src w1 ob.
       filter_result_object dist (Some (map (\<lambda>pt. pt\<lparr>pcl_a := mapping (pcl_a pt)\<rparr>) src))
         (m_timestamp ob) (m_cellsize ob) w1)"

record bounding_box =
  bbox0 :: f32  bbox1 :: f32  bbox2 :: f32  bbox3 :: f32  bbox4 :: f32  bbox5 :: f32

definition in_box :: "bounding_box \<Rightarrow> pcl_point \<Rightarrow> bool" where
  "in_box bbox pt \<longleftrightarrow>
     f32_le (bbox0 bbox) (pcl_x pt) \<and> f32_lt (pcl_x pt) (bbox1 bbox) \<and>
     f32_le (bbox2 bbox) (pcl_y pt) \<and> f32_lt (pcl_y pt) (bbox3 bbox) \<and>
     f32_le (bbox4 bbox) (pcl_z pt) \<and> f32_lt (pcl_z pt) (bbox5 bbox)"

definition cwipc_crop ::
  "distance \<Rightarrow> bounding_box \<Rightarrow> world \<Rightarrow> cwipc_obj option \<Rightarrow> fault + filter_result" where
  "cwipc_crop dist bbox w pc =
     on_source ''cwipc_crop'' w pc (\<lambda>src w1 ob.
       filter_result_object dist (Some (filter (in_box bbox) src))
         (m_timestamp ob) (m_cellsize ob) w1)"

text \<open>\<open>rgba\<close> is the little-endian view of the bytes \<open>b, g, r, a\<close>.\<close>

definition rgba_of :: "pcl_point \<Rightarrow> u32" where
  "rgba_of pt = push_bit 24 (ucast (pcl_a pt)) OR push_bit 16 (ucast (pcl_r pt))
     OR push_bit 8 (ucast (pcl_g pt)) OR ucast (pcl_b pt)"

definition set_rgba :: "u32 \<Rightarrow> pcl_point \<Rightarrow> pcl_point" where
  "set_rgba v pt = pt\<lparr>pcl_a := ucast (drop_bit 24 v), pcl_r := ucast (drop_bit 16 v),
     pcl_g := ucast (drop_bit 8 v), pcl_b := ucast v\<rparr>"

definition cwipc_colormap ::
  "distance \<Rightarrow> u32 \<Rightarrow> u32 \<Rightarrow> world \<Rightarrow> cwipc_obj option \<Rightarrow> fault + filter_result" where
  "cwipc_colormap dist clearBits setBits w pc =
     on_source ''cwipc_colormap'' w pc (\<lambda>src w1 ob.
       filter_result_object dist
         (Some (map (\<lambda>pt. set_rgba ((rgba_of pt AND NOT clearBits) OR setBits) pt) src))
         (m_timestamp ob) (m_cellsize ob) w1)"

section \<open>Outlier removal\<close>

text \<open>The overload that returns a PCL cloud (NULL on failure).\<close>

definition remove_outliers_pcl ::
  "outlier_removal \<Rightarrow> int \<Rightarrow> f32 \<Rightarrow> world \<Rightarrow> cwipc_obj option
   \<Rightarrow> pcl_point list option \<times> world \<times> cwipc_obj option" where
  "remove_outliers_pcl sor kNeighbors stddevMulThresh w pc =
     (case pc of
        None \<Rightarrow> (None, w, None)
      | Some ob \<Rightarrow>
          (case access_pcl_pointcloud w ob of
             (None, w1, ob1) \<Rightarrow>
               (None, cwipc_log CWIPC_LOG_LEVEL_WARNING ''cwipc_remove_outliers''
                        ''pcl_pointcloud is NULL'' w1, Some ob1)
           | (Some src, w1, ob1) \<Rightarrow>
               (case sor kNeighbors stddevMulThresh src of
                  Inl e \<Rightarrow> (None, cwipc_log CWIPC_LOG_LEVEL_ERROR ''cwipc_remove_outliers''
                                   (exn_message [] e) w1, Some ob1)
                | Inr dst \<Rightarrow> (Some dst, w1, Some ob1))))"

text \<open>The distinct tile numbers in order of first appearance.\<close>

definition tiles_of :: "pcl_point list \<Rightarrow> int list" where
  "tiles_of src =
     foldl (\<lambda>tiles pt. let tile = uint (pcl_a pt)
                       in if tile \<in> set tiles then tiles else tiles @ [tile]) [] src"

text \<open>
  The loop over the tiles. The temporary object is freed; a NULL cloud from the outlier
  removal is dereferenced by \<open>*dst += *aux_dst\<close>.
\<close>

fun outliers_per_tile ::
  "distance \<Rightarrow> outlier_removal \<Rightarrow> int \<Rightarrow> f32 \<Rightarrow> int list \<Rightarrow> pcl_point list \<Rightarrow> world \<Rightarrow> cwipc_obj
   \<Rightarrow> fault + pcl_point list \<times> world \<times> cwipc_obj" where
  "outliers_per_tile dist sor k mul [] dst w ob = Inr (dst, w, ob)"
| "outliers_per_tile dist sor k mul (tile # tiles) dst w ob =
     (case cwipc_tilefilter dist tile w (Some ob) of
        Inr (Some aux_pc, w1, Some ob1) \<Rightarrow>
          (case remove_outliers_pcl sor k mul w1 (Some aux_pc) of
             (Some aux_dst, w2, Some aux_pc') \<Rightarrow>
               outliers_per_tile dist sor k mul tiles (dst @ aux_dst) (fst (pc_free w2 aux_pc')) ob1
           | _ \<Rightarrow> Inl Null_deref)
      | _ \<Rightarrow> Inl Null_deref)"

definition cwipc_remove_outliers ::
  "distance \<Rightarrow> outlier_removal \<Rightarrow> int \<Rightarrow> f32 \<Rightarrow> bool \<Rightarrow> world \<Rightarrow> cwipc_obj option
   \<Rightarrow> fault + filter_result" where
  "cwipc_remove_outliers dist sor kNeighbors stddevMulThresh perTile w pc =
     on_source ''cwipc_remove_outliers'' w pc (\<lambda>src w1 ob.
       if perTile
       then case outliers_per_tile dist sor kNeighbors stddevMulThresh (tiles_of src) [] w1 ob of
              Inl f \<Rightarrow> Inl f
            | Inr (dst, w2, ob1) \<Rightarrow>
                filter_result_object dist (Some dst) (m_timestamp ob1) (m_cellsize ob1) w2
       else case remove_outliers_pcl sor kNeighbors stddevMulThresh w1 (Some ob) of
              (dst, w2, _) \<Rightarrow> filter_result_object dist dst (m_timestamp ob) (m_cellsize ob) w2)"

section \<open>Join\<close>

text \<open>\<open>aliased\<close>: both arguments are the same object, so the second access sees the first.\<close>

definition cwipc_join ::
  "distance \<Rightarrow> bool \<Rightarrow> world \<Rightarrow> cwipc_obj option \<Rightarrow> cwipc_obj option
   \<Rightarrow> fault + cwipc_obj option \<times> world \<times> cwipc_obj option \<times> cwipc_obj option" where
  "cwipc_join dist aliased w pc1 pc2 =
     (case (pc1, pc2) of
        (Some ob1, Some ob2) \<Rightarrow>
          (let (src1, w1, ob1a) = access_pcl_pointcloud w ob1;
               (src2, w2, ob2a) = access_pcl_pointcloud w1 (if aliased then ob1a else ob2);
               ob1b = (if aliased then ob2a else ob1a)
           in case (src1, src2) of
                (Some ps1, Some ps2) \<Rightarrow>
                  map_sum id (\<lambda>(rv, w3). (rv, w3, Some ob1b, Some ob2a))
                    (filter_result_object dist (Some (ps1 @ ps2))
                       (min (m_timestamp ob1b) (m_timestamp ob2a))
                       (f32_min (m_cellsize ob1b) (m_cellsize ob2a)) w2)
              | _ \<Rightarrow> Inr (None, cwipc_log CWIPC_LOG_LEVEL_WARNING ''cwipc_join''
                                 ''some pcl_pointcloud is NULL'' w2, Some ob1b, Some ob2a))
      | _ \<Rightarrow> Inr (None, w, pc1, pc2))"

section \<open>What a filter returns\<close>

text \<open>The object a filter builds from a PCL cloud, a time stamp and a cell size.\<close>

definition made_from :: "distance \<Rightarrow> pcl_point list option \<Rightarrow> u64 \<Rightarrow> f32 \<Rightarrow> cwipc_obj" where
  "made_from dist dst ts cs =
     impl_set_cellsize dist cs
       \<lparr>pc_class = Cwipc_impl, m_timestamp = ts, m_cellsize = f32_zero, m_pc = dst,
        m_metadata = None, m_points = None, m_points_size = 0\<rparr>"

lemma made_from_sel [simp]:
  "m_pc (made_from dist dst ts cs) = dst" "m_timestamp (made_from dist dst ts cs) = ts"
  "m_points (made_from dist dst ts cs) = None" "m_metadata (made_from dist dst ts cs) = None"
  "pc_class (made_from dist dst ts cs) = Cwipc_impl"
  by (simp_all add: made_from_def)

lemma filter_result_object_made:
  "\<exists>w'. filter_result_object dist dst ts cs w = Inr (Some (made_from dist dst ts cs), w') \<and>
     pc_dangling w' = pc_dangling w + (if dst = None then 0 else 1) \<and>
     points_dangling w' = points_dangling w"
  by (cases dst)
    (auto simp: filter_result_object_def cwipc_from_pcl_def api_version_bad_def CWIPC_API_VERSION_def
      CWIPC_API_VERSION_OLD_def new_cwipc_impl_def set_cellsize_def made_from_def dangling_defs Let_def)

lemma filter_result_objectE:
  assumes "filter_result_object dist dst ts cs w = Inr (rv, w')"
  obtains "rv = Some (made_from dist dst ts cs)"
    "pc_dangling w' = pc_dangling w + (if dst = None then 0 else 1)"
    "points_dangling w' = points_dangling w"
  using filter_result_object_made [of dist dst ts cs w] assms by auto

lemma filter_result_object_not_Inl [simp]: "filter_result_object dist dst ts cs w \<noteq> Inl f"
  using filter_result_object_made [of dist dst ts cs w] by auto

section \<open>The accounting contract of a filter\<close>

definition created :: "(cwipc_obj \<Rightarrow> int) \<Rightarrow> cwipc_obj option \<Rightarrow> int" where
  "created f rv = (case rv of None \<Rightarrow> 0 | Some ob \<Rightarrow> f ob)"

text \<open>
  A filter allocates what its result owns and what the conversion of its argument adds,
  and nothing else, on every path that returns.
\<close>

locale pc_filter =
  fixes op :: "world \<Rightarrow> cwipc_obj option \<Rightarrow> fault + filter_result"
  assumes null: "op w None = Inr (None, w, None)"
      and source: "op w (Some ob) = Inr (rv, w', pc') \<Longrightarrow>
            \<exists>ob'. pc' = Some ob' \<and> m_points ob' = m_points ob \<and> pc_class ob' = pc_class ob"
      and result: "op w (Some ob) = Inr (Some r, w', pc') \<Longrightarrow> m_points r = None"
      and pc_counts: "op w (Some ob) = Inr (rv, w', Some ob') \<Longrightarrow>
            pc_dangling w' - pc_dangling w = live_pc ob' - live_pc ob + created live_pc rv"
      and points_counts: "op w (Some ob) = Inr (rv, w', Some ob') \<Longrightarrow>
            points_dangling w' - points_dangling w =
            live_points ob' - live_points ob + created live_points rv"
begin

text \<open>Freeing the argument after the call leaves only the result.\<close>

lemma then_free_source:
  assumes "op w (Some ob) = Inr (rv, w', Some ob')" and "pc_free w' ob' = (w'', ob'')"
    and "pc_class ob = Cwipc_impl \<Longrightarrow> m_points ob = None"
  shows "pc_dangling w'' = pc_dangling w - live_pc ob + created live_pc rv"
    and "points_dangling w'' = points_dangling w - live_points ob + created live_points rv"
proof -
  have "live_pc ob'' = 0" "live_points ob'' = 0"
    using source [OF assms(1)] assms(3) by (auto intro: pc_free_live [OF assms(2)])
  then show "pc_dangling w'' = pc_dangling w - live_pc ob + created live_pc rv"
    and "points_dangling w'' = points_dangling w - live_points ob + created live_points rv"
    using pc_counts [OF assms(1)] points_counts [OF assms(1)]
      free_acc.pc_counts [OF assms(2)] free_acc.points_counts [OF assms(2)]
    by simp_all
qed

end

text \<open>Every filter over \<open>on_source\<close> whose body accounts for its result is a \<open>pc_filter\<close>.\<close>

definition body_accounts ::
  "(pcl_point list \<Rightarrow> world \<Rightarrow> cwipc_obj \<Rightarrow> fault + cwipc_obj option \<times> world) \<Rightarrow> bool" where
  "body_accounts body \<longleftrightarrow> (\<forall>src w ob rv w'. body src w ob = Inr (rv, w') \<longrightarrow>
     m_pc ob = Some src \<longrightarrow>
     pc_dangling w' = pc_dangling w + created live_pc rv \<and>
     points_dangling w' = points_dangling w + created live_points rv \<and>
     (\<forall>r. rv = Some r \<longrightarrow> m_points r = None))"

lemma access_some:
  "access_pcl_pointcloud w ob = (Some src, w1, ob1) \<Longrightarrow> m_pc ob1 = Some src"
  by (auto simp: access_pcl_pointcloud_def uncompressed_access_pcl_def impl_from_points_def Let_def
      split: pc_class.splits option.splits if_splits)

lemma access_frame:
  "access_pcl_pointcloud w ob = (s, w1, ob1) \<Longrightarrow> m_points ob1 = m_points ob \<and> pc_class ob1 = pc_class ob"
  by (auto simp: access_pcl_pointcloud_def uncompressed_access_pcl_def impl_from_points_def Let_def
      split: pc_class.splits option.splits if_splits)

lemma on_source_cases:
  assumes "on_source name w (Some ob) body = Inr (rv, w', pc')"
  obtains (null) w1 ob1 where "access_pcl_pointcloud w ob = (None, w1, ob1)" "rv = None"
      "w' = cwipc_log CWIPC_LOG_LEVEL_WARNING name ''pcl_pointcloud is NULL'' w1" "pc' = Some ob1"
    | (some) src w1 ob1 where "access_pcl_pointcloud w ob = (Some src, w1, ob1)"
      "body src w1 ob1 = Inr (rv, w')" "pc' = Some ob1" "m_pc ob1 = Some src"
proof -
  obtain s w1 ob1 where a: "access_pcl_pointcloud w ob = (s, w1, ob1)" by (metis prod_cases3)
  show ?thesis
  proof (cases s)
    case None
    with a assms show ?thesis by (auto simp: on_source_def intro: null)
  next
    case (Some src)
    with a assms access_some [of w ob src w1 ob1] show ?thesis
      by (cases "body src w1 ob1") (auto simp: on_source_def intro: some)
  qed
qed

lemma on_source_filter:
  assumes "body_accounts body"
  shows "pc_filter (\<lambda>w pc. on_source name w pc body)"
proof
  show "on_source name w None body = Inr (None, w, None)" for w by (simp add: on_source_def)
next
  fix w ob rv w' pc' assume "on_source name w (Some ob) body = Inr (rv, w', pc')"
  then show "\<exists>ob'. pc' = Some ob' \<and> m_points ob' = m_points ob \<and> pc_class ob' = pc_class ob"
    by (cases rule: on_source_cases) (auto dest: access_frame)
next
  fix w ob r w' pc' assume "on_source name w (Some ob) body = Inr (Some r, w', pc')"
  then show "m_points r = None"
    by (cases rule: on_source_cases) (use assms in \<open>auto simp: body_accounts_def\<close>)
next
  fix w ob rv w' ob' assume "on_source name w (Some ob) body = Inr (rv, w', Some ob')"
  then have "pc_dangling w' - pc_dangling w = live_pc ob' - live_pc ob + created live_pc rv \<and>
      points_dangling w' - points_dangling w =
      live_points ob' - live_points ob + created live_points rv"
  proof (cases rule: on_source_cases)
    case (null w1 ob1)
    with access_acc.pc_counts [of w ob w1 ob1] access_acc.points_counts [of w ob w1 ob1]
    show ?thesis by (simp add: accounted_log created_def)
  next
    case (some src w1 ob1)
    with access_acc.pc_counts [of w ob w1 ob1] access_acc.points_counts [of w ob w1 ob1] assms
    show ?thesis by (fastforce simp: body_accounts_def)
  qed
  then show "pc_dangling w' - pc_dangling w = live_pc ob' - live_pc ob + created live_pc rv"
    "points_dangling w' - points_dangling w =
      live_points ob' - live_points ob + created live_points rv" by simp_all
qed

lemma body_simple:
  assumes "\<And>src w ob. body src w ob = filter_result_object dist (Some (f src ob)) (ts ob) (cs ob) w"
  shows "body_accounts body"
  by (auto simp: body_accounts_def assms created_def live_defs elim!: filter_result_objectE)

interpretation tilefilter_f: pc_filter "cwipc_tilefilter dist tile" for dist tile
  unfolding cwipc_tilefilter_def [abs_def] by (rule on_source_filter, rule body_simple, rule refl)

interpretation tilemap_f: pc_filter "cwipc_tilemap dist mapping" for dist mapping
  unfolding cwipc_tilemap_def [abs_def] by (rule on_source_filter, rule body_simple, rule refl)

interpretation crop_f: pc_filter "cwipc_crop dist bbox" for dist bbox
  unfolding cwipc_crop_def [abs_def] by (rule on_source_filter, rule body_simple, rule refl)

interpretation colormap_f: pc_filter "cwipc_colormap dist clr st" for dist clr st
  unfolding cwipc_colormap_def [abs_def] by (rule on_source_filter, rule body_simple, rule refl)

lemma voxelgrid_body:
  "pc_filter (cwipc_downsample_voxelgrid dist grid cs)"
  unfolding cwipc_downsample_voxelgrid_def [abs_def]
  by (rule on_source_filter)
    (auto simp: body_accounts_def Let_def accounted_log created_def live_defs
      elim!: filter_result_objectE split: sum.splits prod.splits if_splits)

interpretation voxelgrid_f: pc_filter "cwipc_downsample_voxelgrid dist grid cs" for dist grid cs
  by (rule voxelgrid_body)

lemma octree_body:
  "pc_filter (\<lambda>w pc. on_source ''cwipc_downsample'' w pc (\<lambda>src w1 ob.
        let cellsize = effective_cellsize (m_cellsize ob) cellsize0;
            octree_cellsize = f32_mul (f32_of_int octree_count) cellsize;
            failed = (\<lambda>e. Inr (None, cwipc_log CWIPC_LOG_LEVEL_ERROR ''cwipc_downsample''
                                       (exn_message [] e) w1))
        in case octree octree_cellsize src of
             Inl e \<Rightarrow> failed e
           | Inr leaves \<Rightarrow>
               (case downsample_leaves grid cellsize src leaves [] of
                  Inl f \<Rightarrow> Inl f
                | Inr (Inl e) \<Rightarrow> failed e
                | Inr (Inr dst) \<Rightarrow>
                    filter_result_object dist (Some dst) (m_timestamp ob) cellsize w1)))"
  by (rule on_source_filter)
    (auto simp: body_accounts_def Let_def accounted_log created_def live_defs
      elim!: filter_result_objectE split: sum.splits prod.splits if_splits)

interpretation downsample_f: pc_filter "cwipc_downsample dist grid octree cs" for dist grid octree cs
  by (cases "f32_lt cs f32_zero")
    (simp_all only: cwipc_downsample_def [abs_def] octree_body voxelgrid_body if_True if_False
      not_False_eq_True)



text \<open>Outlier removal: the temporary per-tile objects are all freed again.\<close>

lemma access_converted:
  "m_pc ob = Some src \<Longrightarrow> access_pcl_pointcloud w ob = (Some src, w, ob)"
  by (simp add: access_pcl_pointcloud_def uncompressed_access_pcl_def split: pc_class.split)

lemma tilefilter_converted:
  assumes "m_pc ob = Some src"
  shows "\<exists>w'. cwipc_tilefilter dist tile w (Some ob) =
      Inr (Some (made_from dist (Some (filter (tile_selected tile) src))
             (m_timestamp ob) (m_cellsize ob)), w', Some ob) \<and>
    pc_dangling w' = pc_dangling w + 1 \<and> points_dangling w' = points_dangling w"
  using filter_result_object_made [of dist "Some (filter (tile_selected tile) src)"
      "m_timestamp ob" "m_cellsize ob" w]
  by (auto simp: cwipc_tilefilter_def on_source_def access_converted [OF assms])

lemma pc_free_made:
  "pc_dangling (fst (pc_free w (made_from dist (Some dst) ts cs))) = pc_dangling w - 1"
  "points_dangling (fst (pc_free w (made_from dist (Some dst) ts cs))) = points_dangling w"
  by (simp_all add: pc_free_def impl_free_def dangling_defs)

lemma outliers_per_tile_run:
  assumes "m_pc ob = Some src" and "\<And>tile. \<exists>d. sor k mul (filter (tile_selected tile) src) = Inr d"
  shows "\<exists>w'. outliers_per_tile dist sor k mul tiles dst w ob =
      Inr (dst @ concat (map (\<lambda>tile.
             projr (sor k mul (filter (tile_selected tile) src))) tiles), w', ob)"
proof (induction tiles arbitrary: dst w)
  case (Cons tile tiles)
  obtain w1 where t: "cwipc_tilefilter dist tile w (Some ob) =
      Inr (Some (made_from dist (Some (filter (tile_selected tile) src))
             (m_timestamp ob) (m_cellsize ob)), w1, Some ob)"
    using tilefilter_converted [OF assms(1)] by blast
  obtain d where d: "sor k mul (filter (tile_selected tile) src) = Inr d"
    using assms(2) by blast
  show ?case
    using Cons.IH [of "dst @ d" "fst (pc_free w1 (made_from dist (Some (filter (tile_selected tile) src))
      (m_timestamp ob) (m_cellsize ob)))"]
    by (simp add: t remove_outliers_pcl_def access_converted [OF made_from_sel(1)] d)
qed simp

lemma outliers_per_tile_accounts:
  assumes "m_pc ob = Some src" and "outliers_per_tile dist sor k mul tiles dst w ob = Inr (dst', w', ob')"
  shows "pc_dangling w' = pc_dangling w \<and> points_dangling w' = points_dangling w \<and> ob' = ob"
  using assms(2)
proof (induction tiles arbitrary: dst w)
  case (Cons tile tiles)
  let ?aux = "made_from dist (Some (filter (tile_selected tile) src))
     (m_timestamp ob) (m_cellsize ob)"
  obtain w1 where t: "cwipc_tilefilter dist tile w (Some ob) = Inr (Some ?aux, w1, Some ob)"
      "pc_dangling w1 = pc_dangling w + 1" "points_dangling w1 = points_dangling w"
    using tilefilter_converted [OF assms(1)] by blast
  from Cons.prems obtain d where
    "outliers_per_tile dist sor k mul tiles (dst @ d) (fst (pc_free w1 ?aux)) ob = Inr (dst', w', ob')"
    by (auto simp: t remove_outliers_pcl_def access_converted [OF made_from_sel(1)] split: sum.splits)
  from Cons.IH [OF this] t show ?case by (simp add: pc_free_made)
qed simp

interpretation remove_outliers_f: pc_filter "cwipc_remove_outliers dist sor k mul per_tile"
  for dist sor k mul per_tile
  unfolding cwipc_remove_outliers_def [abs_def]
proof (rule on_source_filter, unfold body_accounts_def, intro allI impI, goal_cases)
  case (1 src w ob rv w')
  show ?case
  proof (cases per_tile)
    case True
    then obtain dst w2 ob1 where l: "outliers_per_tile dist sor k mul (tiles_of src) [] w ob = Inr (dst, w2, ob1)"
        and r: "filter_result_object dist (Some dst) (m_timestamp ob1) (m_cellsize ob1) w2 = Inr (rv, w')"
      using 1(1) by (auto split: sum.splits prod.splits)
    from r outliers_per_tile_accounts [OF 1(2) l] show ?thesis
      by (auto simp: created_def live_defs elim!: filter_result_objectE)
  next
    case False
    with 1 show ?thesis
      by (auto simp: remove_outliers_pcl_def access_converted accounted_log created_def live_defs
          elim!: filter_result_objectE split: sum.splits)
  qed
qed


text \<open>The PCL cloud of the object a filter returns.\<close>

definition result_cloud :: "fault + filter_result \<Rightarrow> pcl_point list option" where
  "result_cloud r = (case r of Inr (Some rv, _, _) \<Rightarrow> m_pc rv | _ \<Rightarrow> None)"

section \<open>Tiles\<close>

lemma tiles_of_snoc:
  "tiles_of (src @ [pt]) = (if uint (pcl_a pt) \<in> set (tiles_of src) then tiles_of src
     else tiles_of src @ [uint (pcl_a pt)])"
  by (simp add: tiles_of_def Let_def)

lemma tiles_of_spec: "set (tiles_of src) = (\<lambda>pt. uint (pcl_a pt)) ` set src \<and> distinct (tiles_of src)"
proof (induction src rule: rev_induct)
  case Nil
  then show ?case by (simp add: tiles_of_def)
next
  case (snoc pt src)
  then show ?case by (auto simp: tiles_of_snoc)
qed

text \<open>Splitting a cloud by a list of distinct non-zero tiles that covers it loses nothing.\<close>

lemma mset_by_tiles:
  assumes "distinct tiles" and "0 \<notin> set tiles"
  shows "mset (concat (map (\<lambda>tile. filter (tile_selected tile) src) tiles)) =
    mset (filter (\<lambda>pt. uint (pcl_a pt) \<in> set tiles) src)"
  using assms
proof (induction tiles)
  case (Cons tile tiles)
  have "filter_mset (\<lambda>pt. uint (pcl_a pt) = tile \<or> uint (pcl_a pt) \<in> set tiles) (mset src) =
      filter_mset (\<lambda>pt. uint (pcl_a pt) = tile) (mset src)
      + filter_mset (\<lambda>pt. uint (pcl_a pt) \<in> set tiles) (mset src)"
    using Cons.prems by (induction src) auto
  moreover have "tile_selected tile = (\<lambda>pt. uint (pcl_a pt) = tile)"
    using Cons.prems by (auto simp: tile_selected_def)
  ultimately show ?case using Cons by (simp flip: mset_filter)
qed simp

section \<open>Properties\<close>

text \<open>
  Outlier removal per tile of a cloud without tile 0 returns only points of the cloud,
  each at most as often as it occurs there, whatever the statistical filter (which removes
  points) decides per tile.
\<close>

theorem remove_outliers_per_tile_subset:
  assumes "access_pcl_pointcloud w ob = (Some src, w1, ob1)"
    and "\<And>ps. \<exists>qs. sor k mul ps = Inr qs \<and> mset qs \<subseteq># mset ps"
    and "\<forall>pt \<in> set src. pcl_a pt \<noteq> 0"
  shows "\<exists>rv w' dst. cwipc_remove_outliers dist sor k mul True w (Some ob) = Inr (Some rv, w', Some ob1) \<and>
    m_pc rv = Some dst \<and> mset dst \<subseteq># mset src \<and> m_timestamp rv = m_timestamp ob1"
proof -
  let ?d = "concat (map (\<lambda>tile. projr (sor k mul (filter (tile_selected tile) src))) (tiles_of src))"
  have pc: "m_pc ob1 = Some src" using assms(1) by (rule access_some)
  obtain w2 where loop: "outliers_per_tile dist sor k mul (tiles_of src) [] w1 ob1 = Inr (?d, w2, ob1)"
    using outliers_per_tile_run [where sor = sor and k = k and mul = mul, OF pc, of dist "tiles_of src" "[]" w1]
      assms(2) by fastforce
  have "mset (projr (sor k mul ps)) \<subseteq># mset ps" for ps
    using assms(2) [of ps] by auto
  then have "mset (concat (map (\<lambda>tile. projr (sor k mul (filter (tile_selected tile) src))) tiles)) \<subseteq>#
      mset (concat (map (\<lambda>tile. filter (tile_selected tile) src) tiles))" for tiles
    by (induction tiles) (auto intro!: subset_mset.add_mono simp del: mset_filter)
  then have "mset ?d \<subseteq># mset (concat (map (\<lambda>tile. filter (tile_selected tile) src) (tiles_of src)))" .
  also have "\<dots> = mset src"
  proof -
    have "0 \<notin> set (tiles_of src)" using assms(3) tiles_of_spec [of src] by (auto simp: uint_0_iff)
    then show ?thesis
      using mset_by_tiles [of "tiles_of src" src] tiles_of_spec [of src]
      by (simp add: filter_all_eq)
  qed
  finally have "mset ?d \<subseteq># mset src" .
  moreover obtain w' where "filter_result_object dist (Some ?d) (m_timestamp ob1) (m_cellsize ob1) w2 =
      Inr (Some (made_from dist (Some ?d) (m_timestamp ob1) (m_cellsize ob1)), w')"
    using filter_result_object_made by blast
  ultimately show ?thesis
    by (auto simp: cwipc_remove_outliers_def on_source_def assms(1) loop)
qed


definition point_at :: "u32 \<Rightarrow> u8 \<Rightarrow> pcl_point" where
  "point_at x tile = \<lparr>pcl_x = x, pcl_y = 0, pcl_z = 0, pcl_r = 0, pcl_g = 0, pcl_b = 0, pcl_a = tile\<rparr>"

definition pcl_cloud :: "pcl_point list \<Rightarrow> cwipc_obj" where
  "pcl_cloud pc = \<lparr>pc_class = Cwipc_impl, m_timestamp = 7, m_cellsize = 0, m_pc = Some pc,
     m_metadata = None, m_points = None, m_points_size = 0\<rparr>"

lemma access_pcl_cloud [simp]:
  "access_pcl_pointcloud w (pcl_cloud pc) = (Some pc, w, pcl_cloud pc)"
  by (simp add: access_pcl_pointcloud_def pcl_cloud_def)

theorem remove_outliers_per_tile_subset_witness:
  "\<exists>rv w' dst. cwipc_remove_outliers (\<lambda>_ _. 0) (\<lambda>_ _ ps. Inr (tl ps)) 5 1 True (world_init None 0)
     (Some (pcl_cloud [point_at 1 2, point_at 2 1, point_at 3 2])) =
       Inr (Some rv, w', Some (pcl_cloud [point_at 1 2, point_at 2 1, point_at 3 2])) \<and>
     m_pc rv = Some dst \<and> mset dst \<subseteq># mset [point_at 1 2, point_at 2 1, point_at 3 2]"
proof -
  let ?src = "[point_at 1 2, point_at 2 1, point_at 3 2]"
  have a: "access_pcl_pointcloud (world_init None 0) (pcl_cloud ?src) =
      (Some ?src, world_init None 0, pcl_cloud ?src)" by simp
  have "\<exists>qs. Inr (tl ps) = (Inr qs :: exn + pcl_point list) \<and> mset qs \<subseteq># mset ps" for ps :: "pcl_point list"
    by (cases ps) auto
  from remove_outliers_per_tile_subset [OF a, where sor = "\<lambda>_ _ ps. Inr (tl ps)" and k = 5 and mul = 1
      and dist = "\<lambda>_ _. 0", OF this]
  show ?thesis by (auto simp: point_at_def)
qed

lemma length_by_tiles:
  assumes "distinct tiles"
  shows "length (concat (map (\<lambda>tile. filter (tile_selected tile) src) tiles)) =
    length (filter (\<lambda>pt. uint (pcl_a pt) \<in> set tiles - {0}) src) + (if 0 \<in> set tiles then length src else 0)"
  using assms
proof (induction tiles)
  case (Cons tile tiles)
  show ?case
  proof (cases "tile = 0")
    case True
    have "set (0 # tiles) - {0} = set tiles" "set tiles - {0} = set tiles"
      using Cons.prems True by auto
    moreover have "filter (tile_selected 0) src = src" by (rule filter_all_eq) (simp add: tile_selected_def)
    ultimately show ?thesis using Cons True by (simp split: if_splits)
  next
    case False
    then have "length (filter (\<lambda>pt. uint (pcl_a pt) \<in> set (tile # tiles) - {0}) src) =
        length (filter (\<lambda>pt. uint (pcl_a pt) = tile) src)
        + length (filter (\<lambda>pt. uint (pcl_a pt) \<in> set tiles - {0}) src)"
      using Cons.prems by (induction src) auto
    moreover have "tile_selected tile = (\<lambda>pt. uint (pcl_a pt) = tile)"
      using False by (auto simp: tile_selected_def)
    ultimately show ?thesis using Cons False by auto
  qed
qed simp

text \<open>
  With a point of tile 0 in the cloud, per-tile outlier removal duplicates points:
  \<open>cwipc_tilefilter (pc, 0)\<close> selects the whole cloud, not the points of tile 0. Even a
  statistical filter that removes nothing returns every other-tile point twice.
\<close>

theorem remove_outliers_per_tile_duplicates:
  assumes "access_pcl_pointcloud w ob = (Some src, w1, ob1)"
    and "\<And>ps. sor k mul ps = Inr ps" and "\<exists>pt \<in> set src. pcl_a pt = 0"
  shows "\<exists>rv w' dst. cwipc_remove_outliers dist sor k mul True w (Some ob) = Inr (Some rv, w', Some ob1) \<and>
    m_pc rv = Some dst \<and>
    length dst = length src + length (filter (\<lambda>pt. pcl_a pt \<noteq> 0) src)"
proof -
  let ?d = "concat (map (\<lambda>tile. filter (tile_selected tile) src) (tiles_of src))"
  have pc: "m_pc ob1 = Some src" using assms(1) by (rule access_some)
  obtain w2 where loop: "outliers_per_tile dist sor k mul (tiles_of src) [] w1 ob1 = Inr (?d, w2, ob1)"
    using outliers_per_tile_run [where sor = sor and k = k and mul = mul, OF pc, of dist "tiles_of src" "[]" w1]
      assms(2) by fastforce
  have "filter (\<lambda>pt. uint (pcl_a pt) \<in> set (tiles_of src) - {0}) src = filter (\<lambda>pt. pcl_a pt \<noteq> 0) src"
    using tiles_of_spec [of src] by (intro filter_cong) (auto simp: unsigned_eq_0_iff)
  moreover have "0 \<in> set (tiles_of src)" using assms(3) tiles_of_spec [of src] by force
  ultimately have "length ?d = length src + length (filter (\<lambda>pt. pcl_a pt \<noteq> 0) src)"
    using length_by_tiles [of "tiles_of src" src] tiles_of_spec [of src] by simp
  moreover obtain w' where "filter_result_object dist (Some ?d) (m_timestamp ob1) (m_cellsize ob1) w2 =
      Inr (Some (made_from dist (Some ?d) (m_timestamp ob1) (m_cellsize ob1)), w')"
    using filter_result_object_made by blast
  ultimately show ?thesis
    by (auto simp: cwipc_remove_outliers_def on_source_def assms(1) loop)
qed

theorem remove_outliers_per_tile_duplicates_witness:
  "\<exists>rv w' dst. cwipc_remove_outliers (\<lambda>_ _. 0) (\<lambda>_ _ ps. Inr ps) 5 1 True (world_init None 0)
     (Some (pcl_cloud [point_at 1 0, point_at 2 1])) = Inr (Some rv, w', Some (pcl_cloud [point_at 1 0, point_at 2 1]))
     \<and> m_pc rv = Some dst \<and> length dst = 3"
proof -
  let ?src = "[point_at 1 0, point_at 2 1]"
  have a: "access_pcl_pointcloud (world_init None 0) (pcl_cloud ?src) =
      (Some ?src, world_init None 0, pcl_cloud ?src)" by simp
  show ?thesis
    using remove_outliers_per_tile_duplicates [OF a, where sor = "\<lambda>_ _ ps. Inr ps" and k = 5 and mul = 1
      and dist = "\<lambda>_ _. 0"]
    by (auto simp: point_at_def)
qed


text \<open>The two parts of a box cut at \<open>c\<close> on one axis, and the bounds the cut lies between.\<close>

datatype axis = X_axis | Y_axis | Z_axis

fun cut_box :: "axis \<Rightarrow> f32 \<Rightarrow> bounding_box \<Rightarrow> bounding_box \<times> bounding_box" where
  "cut_box X_axis c bbox = (bbox\<lparr>bbox1 := c\<rparr>, bbox\<lparr>bbox0 := c\<rparr>)"
| "cut_box Y_axis c bbox = (bbox\<lparr>bbox3 := c\<rparr>, bbox\<lparr>bbox2 := c\<rparr>)"
| "cut_box Z_axis c bbox = (bbox\<lparr>bbox5 := c\<rparr>, bbox\<lparr>bbox4 := c\<rparr>)"

fun axis_bounds :: "axis \<Rightarrow> bounding_box \<Rightarrow> f32 \<times> f32" where
  "axis_bounds X_axis bbox = (bbox0 bbox, bbox1 bbox)"
| "axis_bounds Y_axis bbox = (bbox2 bbox, bbox3 bbox)"
| "axis_bounds Z_axis bbox = (bbox4 bbox, bbox5 bbox)"

lemma cut_coordinate:
  assumes "f32_le lo c" and "f32_le c hi"
  shows "\<not> (f32_lt v c \<and> f32_le c v)"
    and "f32_le lo v \<and> f32_lt v hi \<longleftrightarrow> f32_le lo v \<and> f32_lt v c \<or> f32_le c v \<and> f32_lt v hi"
  using assms by (auto simp: f32_lt_def f32_le_def)

lemma cut_box_partitions:
  assumes "axis_bounds a bbox = (lo, hi)" and "f32_le lo c" and "f32_le c hi"
    and "cut_box a c bbox = (low, high)"
  shows "\<not> (in_box low pt \<and> in_box high pt)" and "in_box bbox pt \<longleftrightarrow> in_box low pt \<or> in_box high pt"
proof -
  note cut = cut_coordinate [OF assms(2,3)]
  show "\<not> (in_box low pt \<and> in_box high pt)"
    using assms(4) cut(1) by (cases a) (auto simp: in_box_def)
  have x: "f32_le lo v \<and> f32_lt v hi \<and> P \<longleftrightarrow> f32_le lo v \<and> f32_lt v c \<and> P \<or> f32_le c v \<and> f32_lt v hi \<and> P" for v P
    using cut(2) [of v] by blast
  show "in_box bbox pt \<longleftrightarrow> in_box low pt \<or> in_box high pt"
  proof (cases a)
    case X_axis
    then show ?thesis using assms(1,4) x [of "pcl_x pt"] unfolding in_box_def by force
  next
    case Y_axis
    then show ?thesis using assms(1,4) x [of "pcl_y pt"] unfolding in_box_def by force
  next
    case Z_axis
    then show ?thesis using assms(1,4) x [of "pcl_z pt" True] unfolding in_box_def by force
  qed
qed

text \<open>
  Cropping is half-open on every axis, so cutting a box in two on any axis, at any coordinate
  inside it, partitions the points: nothing on the cut is lost or counted twice.
\<close>

theorem crop_split_partitions:
  assumes "access_pcl_pointcloud w ob = (Some src, w1, ob1)"
    and "axis_bounds a bbox = (lo, hi)" and "f32_le lo c" and "f32_le c hi"
    and "cut_box a c bbox = (low, high)"
  shows "\<exists>pl pr pa.
    result_cloud (cwipc_crop dist low w (Some ob)) = Some pl \<and>
    result_cloud (cwipc_crop dist high w (Some ob)) = Some pr \<and>
    result_cloud (cwipc_crop dist bbox w (Some ob)) = Some pa \<and> mset pl + mset pr = mset pa"
proof -
  have "mset (filter (in_box low) src) + mset (filter (in_box high) src) = mset (filter (in_box bbox) src)"
    using cut_box_partitions [OF assms(2-5)] by (induction src) auto
  moreover have "result_cloud (cwipc_crop dist bb w (Some ob)) = Some (filter (in_box bb) src)" for bb
    using filter_result_object_made [of dist "Some (filter (in_box bb) src)" "m_timestamp ob1"
        "m_cellsize ob1" w1]
    by (auto simp: cwipc_crop_def on_source_def assms(1) result_cloud_def)
  ultimately show ?thesis by simp
qed

theorem crop_split_partitions_witness:
  "\<exists>bbox src pl pr. length src = 2 \<and>
    result_cloud (cwipc_crop (\<lambda>_ _. 0) (bbox\<lparr>bbox1 := 0x3F800000\<rparr>) (world_init None 0)
      (Some (pcl_cloud src))) = Some pl \<and>
    result_cloud (cwipc_crop (\<lambda>_ _. 0) (bbox\<lparr>bbox0 := 0x3F800000\<rparr>) (world_init None 0)
      (Some (pcl_cloud src))) = Some pr"
proof -
  let ?src = "[point_at 0x3F800000 1, point_at 0 1]"
  let ?bbox = "\<lparr>bbox0 = 0, bbox1 = 0x40000000, bbox2 = 0, bbox3 = 0x40000000, bbox4 = 0, bbox5 = 0x40000000\<rparr>"
  have a: "access_pcl_pointcloud (world_init None 0) (pcl_cloud ?src) =
      (Some ?src, world_init None 0, pcl_cloud ?src)" by simp
  have "f32_le (bbox0 ?bbox) 0x3F800000" "f32_le 0x3F800000 (bbox1 ?bbox)"
    by (simp_all add: f32_defs)
  note split = crop_split_partitions [OF a axis_bounds.simps(1) this cut_box.simps(1), where dist = "\<lambda>_ _. 0"]
  show ?thesis
    by (rule exI [of _ ?bbox], rule exI [of _ ?src]) (use split in auto)
qed

lemma rgba_set_rgba [simp]: "rgba_of (set_rgba v pt) = v"
proof (rule bit_word_eqI)
  fix n assume "n < LENGTH(32)"
  then consider "n < 8" | "8 \<le> n" "n < 16" | "16 \<le> n" "n < 24" | "24 \<le> n" "n < 32"
    by fastforce
  then show "bit (rgba_of (set_rgba v pt)) n = bit v n"
    by cases (auto simp: rgba_of_def set_rgba_def bit_or_iff bit_push_bit_iff bit_unsigned_iff
        bit_drop_bit_eq bit_ucast_iff possible_bit_def)
qed

lemma set_rgba_set_rgba [simp]: "set_rgba v (set_rgba u pt) = set_rgba v pt"
  by (simp add: set_rgba_def)

definition mapped_point :: "u32 \<Rightarrow> u32 \<Rightarrow> pcl_point \<Rightarrow> pcl_point" where
  "mapped_point clr st pt = set_rgba ((rgba_of pt AND NOT clr) OR st) pt"

text \<open>
  A colour map touches exactly the bits it is asked to: every result point packs to the
  masked value of its source point and keeps its position, and mapping twice with the same
  masks changes nothing more.
\<close>

theorem colormap_masks:
  assumes "access_pcl_pointcloud w ob = (Some src, w1, ob1)"
  shows "\<exists>rv w' dst. cwipc_colormap dist clr st w (Some ob) = Inr (Some rv, w', Some ob1) \<and>
    m_pc rv = Some dst \<and> length dst = length src \<and>
    (\<forall>i < length src. rgba_of (dst ! i) = (rgba_of (src ! i) AND NOT clr) OR st \<and>
       pcl_x (dst ! i) = pcl_x (src ! i) \<and> pcl_y (dst ! i) = pcl_y (src ! i) \<and>
       pcl_z (dst ! i) = pcl_z (src ! i) \<and> mapped_point clr st (dst ! i) = dst ! i)"
proof -
  let ?dst = "map (mapped_point clr st) src"
  obtain w' where "filter_result_object dist (Some ?dst) (m_timestamp ob1) (m_cellsize ob1) w1 =
      Inr (Some (made_from dist (Some ?dst) (m_timestamp ob1) (m_cellsize ob1)), w')"
    using filter_result_object_made by blast
  then have "cwipc_colormap dist clr st w (Some ob) =
      Inr (Some (made_from dist (Some ?dst) (m_timestamp ob1) (m_cellsize ob1)), w', Some ob1)"
    by (simp add: cwipc_colormap_def on_source_def assms mapped_point_def [abs_def])
  moreover have "(v AND NOT clr OR st) AND NOT clr OR st = v AND NOT clr OR st" for v :: u32
    by (rule bit_word_eqI) (auto simp: bit_or_iff bit_and_iff bit_not_iff)
  then have "rgba_of (?dst ! i) = (rgba_of (src ! i) AND NOT clr) OR st \<and>
       pcl_x (?dst ! i) = pcl_x (src ! i) \<and> pcl_y (?dst ! i) = pcl_y (src ! i) \<and>
       pcl_z (?dst ! i) = pcl_z (src ! i) \<and> mapped_point clr st (?dst ! i) = ?dst ! i"
    if "i < length src" for i
    using that by (simp add: mapped_point_def) (simp add: set_rgba_def)
  ultimately show ?thesis by fastforce
qed

theorem colormap_masks_witness:
  "\<exists>rv w' dst. cwipc_colormap (\<lambda>_ _. 0) 0xFF000000 0x01000000 (world_init None 0)
      (Some (pcl_cloud [point_at 5 255])) = Inr (Some rv, w', Some (pcl_cloud [point_at 5 255])) \<and>
    m_pc rv = Some dst \<and> rgba_of (dst ! 0) = 0x01000000"
proof -
  have a: "access_pcl_pointcloud (world_init None 0) (pcl_cloud [point_at 5 255]) =
      (Some [point_at 5 255], world_init None 0, pcl_cloud [point_at 5 255])" by simp
  from colormap_masks [OF a, where dist = "\<lambda>_ _. 0" and clr = "0xFF000000" and st = "0x01000000"]
  show ?thesis by (auto simp: point_at_def rgba_of_def)
qed


definition or_all :: "u8 list \<Rightarrow> u8" where
  "or_all ts = foldl (OR) 0 ts"

lemma or_tiles_result:
  assumes "\<And>pt. pt \<in> set src \<Longrightarrow> \<exists>i. centroid pt = Inr i \<and> 0 \<le> i \<and> i < int (length dst)"
  shows "or_tiles centroid src dst =
    Inr (Inr (map (\<lambda>i. (dst ! i)\<lparr>pcl_a := foldl (OR) (pcl_a (dst ! i))
       (map pcl_a (filter (\<lambda>pt. centroid pt = Inr (int i)) src))\<rparr>) [0..<length dst]))"
  using assms
proof (induction src arbitrary: dst)
  case Nil
  have "map (\<lambda>i. dst ! i) [0..<length dst] = dst" by (rule map_nth)
  then show ?case by (simp cong: map_cong)
next
  case (Cons pt src)
  from Cons.prems [of pt] obtain j where j: "centroid pt = Inr (int j)" "j < length dst"
    by (auto intro: that [of "nat _"] dest: zero_le_imp_eq_int)
  let ?dst = "dst[j := (dst ! j)\<lparr>pcl_a := pcl_a (dst ! j) OR pcl_a pt\<rparr>]"
  have "or_tiles centroid (pt # src) dst = or_tiles centroid src ?dst"
    using j by simp
  also have "\<dots> = Inr (Inr (map (\<lambda>i. (?dst ! i)\<lparr>pcl_a := foldl (OR) (pcl_a (?dst ! i))
       (map pcl_a (filter (\<lambda>pt. centroid pt = Inr (int i)) src))\<rparr>) [0..<length ?dst]))"
    by (rule Cons.IH) (use Cons.prems in auto)
  also have "\<dots> = Inr (Inr (map (\<lambda>i. (dst ! i)\<lparr>pcl_a := foldl (OR) (pcl_a (dst ! i))
       (map pcl_a (filter (\<lambda>pt. centroid pt = Inr (int i)) (pt # src)))\<rparr>) [0..<length dst]))"
    using j by (auto simp: nth_list_update intro!: map_cong)
  finally show ?case .
qed

text \<open>
  Downsampling with the voxel grid: whatever centroids PCL computes, as long as it maps
  every source point to one of them, the result has those centroids' positions and the tile
  of each is exactly the OR of the tiles of the source points that fell into it.
\<close>

theorem downsample_ors_tiles:
  assumes "access_pcl_pointcloud w ob = (Some src, w1, ob1)"
    and "grid (effective_cellsize (m_cellsize ob1) cs) src = Inr (dst, centroid)" and "dst \<noteq> []"
    and "\<forall>pt \<in> set src. \<exists>i. centroid pt = Inr i \<and> 0 \<le> i \<and> i < int (length dst)"
  shows "\<exists>out. result_cloud (cwipc_downsample_voxelgrid dist grid cs w (Some ob)) = Some out \<and>
    length out = length dst \<and>
    (\<forall>i < length dst. pcl_x (out ! i) = pcl_x (dst ! i) \<and> pcl_y (out ! i) = pcl_y (dst ! i) \<and>
       pcl_z (out ! i) = pcl_z (dst ! i) \<and>
       pcl_a (out ! i) = or_all (map pcl_a (filter (\<lambda>pt. centroid pt = Inr (int i)) src)))"
proof -
  let ?cs = "effective_cellsize (m_cellsize ob1) cs"
  let ?out = "map (\<lambda>i. (clear_tiles dst ! i)\<lparr>pcl_a := foldl (OR) (pcl_a (clear_tiles dst ! i))
       (map pcl_a (filter (\<lambda>pt. centroid pt = Inr (int i)) src))\<rparr>) [0..<length (clear_tiles dst)]"
  have "or_tiles centroid src (clear_tiles dst) = Inr (Inr ?out)"
    using assms(4) by (intro or_tiles_result) (auto simp: clear_tiles_def)
  moreover obtain w' where "filter_result_object dist (Some ?out) (m_timestamp ob1) ?cs w1 =
      Inr (Some (made_from dist (Some ?out) (m_timestamp ob1) ?cs), w')"
    using filter_result_object_made by blast
  ultimately have "result_cloud (cwipc_downsample_voxelgrid dist grid cs w (Some ob)) = Some ?out"
    using assms(2,3)
    by (simp add: cwipc_downsample_voxelgrid_def on_source_def assms(1) result_cloud_def Let_def)
  then show ?thesis by (simp add: clear_tiles_def or_all_def)
qed

theorem downsample_ors_tiles_witness:
  "\<exists>out. result_cloud (cwipc_downsample_voxelgrid (\<lambda>_ _. 0)
      (\<lambda>_ ps. Inr ([point_at 9 1, point_at 7 9], \<lambda>pt. Inr (if pcl_x pt = 2 then 1 else 0))) 0x3F800000
      (world_init None 0) (Some (pcl_cloud [point_at 1 1, point_at 2 4, point_at 3 2]))) = Some out \<and>
    pcl_a (out ! 0) = 3 \<and> pcl_a (out ! 1) = 4"
proof -
  let ?src = "[point_at 1 1, point_at 2 4, point_at 3 2]"
  let ?grid = "\<lambda>_ ps. Inr ([point_at 9 1, point_at 7 9], \<lambda>pt. Inr (if pcl_x pt = 2 then 1 else 0))"
  have a: "access_pcl_pointcloud (world_init None 0) (pcl_cloud ?src) =
      (Some ?src, world_init None 0, pcl_cloud ?src)" by simp
  from downsample_ors_tiles [OF a, where grid = ?grid and cs = "0x3F800000" and dist = "\<lambda>_ _. 0", OF refl]
  show ?thesis by (auto simp: point_at_def or_all_def)
qed


section \<open>Filter pipelines\<close>

text \<open>
  What the tools do with a frame: apply filters one after the other, freeing each source
  after use, and stop at the first filter that returns NULL.
\<close>

datatype filter_call =
    Tilefilter int
  | Tilemap "u8 \<Rightarrow> u8"
  | Crop bounding_box
  | Colormap u32 u32
  | Downsample f32
  | Remove_outliers int f32 bool

record filter_env =
  fe_dist :: distance
  fe_grid :: voxel_grid
  fe_octree :: octree
  fe_sor :: outlier_removal

fun apply_filter :: "filter_env \<Rightarrow> filter_call \<Rightarrow> world \<Rightarrow> cwipc_obj option \<Rightarrow> fault + filter_result" where
  "apply_filter e (Tilefilter tile) = cwipc_tilefilter (fe_dist e) tile"
| "apply_filter e (Tilemap mapping) = cwipc_tilemap (fe_dist e) mapping"
| "apply_filter e (Crop bbox) = cwipc_crop (fe_dist e) bbox"
| "apply_filter e (Colormap clr st) = cwipc_colormap (fe_dist e) clr st"
| "apply_filter e (Downsample cs) = cwipc_downsample (fe_dist e) (fe_grid e) (fe_octree e) cs"
| "apply_filter e (Remove_outliers k mul per_tile) =
     cwipc_remove_outliers (fe_dist e) (fe_sor e) k mul per_tile"

lemma apply_filter_contract: "pc_filter (apply_filter e f)"
  by (cases f)
    (simp_all add: tilefilter_f.pc_filter_axioms tilemap_f.pc_filter_axioms crop_f.pc_filter_axioms
      colormap_f.pc_filter_axioms downsample_f.pc_filter_axioms remove_outliers_f.pc_filter_axioms)

fun run_pipeline ::
  "filter_env \<Rightarrow> filter_call list \<Rightarrow> world \<Rightarrow> cwipc_obj \<Rightarrow> fault + world \<times> cwipc_obj option" where
  "run_pipeline e [] w ob = Inr (w, Some ob)"
| "run_pipeline e (f # fs) w ob =
     (case apply_filter e f w (Some ob) of
        Inr (rv, w1, Some ob1) \<Rightarrow>
          (let w2 = fst (pc_free w1 ob1) in
           case rv of None \<Rightarrow> Inr (w2, None) | Some r \<Rightarrow> run_pipeline e fs w2 r)
      | Inr (rv, w1, None) \<Rightarrow> Inl Null_deref
      | Inl f \<Rightarrow> Inl f)"

text \<open>
  C19. No filter pipeline leaks: whatever filters run, however they fail, the counters at the
  end are those before, less what the source owned, plus what the result owns. Temporary
  objects (the per-tile clouds of the outlier filter) and lazy conversions included.
\<close>

theorem pipeline_leaks_nothing:
  assumes "run_pipeline e fs w ob = Inr (w', res)"
    and "pc_class ob = Cwipc_impl \<Longrightarrow> m_points ob = None"
  shows "pc_dangling w' = pc_dangling w - live_pc ob + created live_pc res \<and>
    points_dangling w' = points_dangling w - live_points ob + created live_points res"
  using assms
proof (induction fs arbitrary: w ob)
  case Nil
  then show ?case by (auto simp: created_def)
next
  case (Cons f fs)
  obtain rv w1 ob1 where f: "apply_filter e f w (Some ob) = Inr (rv, w1, Some ob1)"
    using Cons.prems(1) by (auto split: sum.splits prod.splits option.splits)
  obtain w2 ob2 where free: "pc_free w1 ob1 = (w2, ob2)" by (metis surj_pair)
  note step = pc_filter.then_free_source [OF apply_filter_contract f free Cons.prems(2)]
  show ?case
  proof (cases rv)
    case None
    with Cons.prems(1) f free have "w' = w2" "res = None" by auto
    with step None show ?thesis by (simp add: created_def)
  next
    case (Some r)
    with Cons.prems(1) f free have r: "run_pipeline e fs w2 r = Inr (w', res)" by simp
    have "m_points r = None" using pc_filter.result [OF apply_filter_contract] f Some by blast
    with Cons.IH [OF r] step Some show ?thesis by (simp add: created_def)
  qed
qed

definition sample_filter_env :: filter_env where
  "sample_filter_env = \<lparr>fe_dist = (\<lambda>_ _. 0), fe_grid = (\<lambda>_ ps. Inr (ps, \<lambda>pt. Inl (Std_exception []))),
     fe_octree = (\<lambda>_ ps. Inr [[0..<length ps]]), fe_sor = (\<lambda>_ _ ps. Inr ps)\<rparr>"


theorem pipeline_leaks_nothing_witness:
  "\<exists>w' res. run_pipeline sample_filter_env [Tilefilter 1, Remove_outliers 3 0 True]
      (world_init None 0) (pcl_cloud [point_at 1 1, point_at 2 2]) = Inr (w', res) \<and>
    pc_dangling w' = - 1 + created live_pc res"
proof -
  let ?run = "run_pipeline sample_filter_env [Tilefilter 1, Remove_outliers 3 0 True]
      (world_init None 0) (pcl_cloud [point_at 1 1, point_at 2 2])"
  have "isl ?run = False" by code_simp
  then obtain w' res where r: "?run = Inr (w', res)" by (meson not_isl_Inr)
  have "pc_dangling w' = - 1 + created live_pc res"
    using pipeline_leaks_nothing [OF r]
    by (simp add: pcl_cloud_def live_defs world_init_def dangling_defs logger.defs)
  with r show ?thesis by blast
qed

end
