(* ===== verification/Encoder.thy ===== *)
theory Encoder
  imports Filters
begin

text \<open>
  \<open>cwipc_codec/src/cwipc_codec.cpp\<close>, first part: \<open>cwipc_encoder_impl\<close>, the two-stage pipeline
  (tile filter, encode) with its queues, and its use without threads. The PCL-based codec is
  the parameter \<open>compress\<close>: the bytes it produces for a cloud and a time stamp, given its
  settings and everything it has coded before. Result buffers are taken to be available
  (\<open>malloc\<close> of the result is not checked by the code).
\<close>

section \<open>State\<close>

record encoder_params =
  do_inter_frame :: bool
  gop_size :: int
  exp_factor :: f32
  octree_bits :: int
  jpeg_quality :: int
  macroblock_size :: int
  tilenumber :: int
  voxelsize :: f32
  n_parallel :: int

text \<open>
  The codec object: its public \<open>octreeResolution\<close> (a power of two or a float cell size, so a
  single-precision value), its macroblock size, and the frames it has coded.
\<close>

record codec_state =
  octreeResolution :: f32
  macroblockSize :: int
  jpegQuality :: int
  coded :: "(pcl_point list \<times> u64) list"

type_synonym compressor = "codec_state \<Rightarrow> pcl_point list \<Rightarrow> u64 \<Rightarrow> u8 list"

text \<open>Where a pipeline thread stands: before testing \<open>m_alive\<close>, in \<open>wait_dequeue\<close>, or done.\<close>

datatype thread_pc = At_loop | In_wait | Finished

record encoder =
  m_encoder :: "codec_state option"
  m_params :: encoder_params
  m_result :: "u8 list option"
  m_remaining_frames_in_gop :: int
  m_alive :: bool
  m_queue_tilefilter :: "cwipc_obj option list"
  m_queue_encoder :: "cwipc_obj option list"
  m_thread_tilefilter :: "thread_pc option"
  m_thread_encoder :: "thread_pc option"
  m_use_threads :: bool

definition new_encoder_impl :: "encoder_params \<Rightarrow> encoder" where
  "new_encoder_impl params =
     \<lparr>m_encoder = None, m_params = params, m_result = None, m_remaining_frames_in_gop = 0,
      m_alive = True, m_queue_tilefilter = [], m_queue_encoder = [],
      m_thread_tilefilter = None, m_thread_encoder = None, m_use_threads = False\<rparr>"

section \<open>Queues\<close>

text \<open>
  \<open>enqueue\<close> allocates when needed; \<open>try_enqueue\<close> never does: on a queue made for one element it
  succeeds when the queue is empty, and otherwise when an earlier \<open>enqueue\<close> left it room.
\<close>

definition enqueue :: "'a \<Rightarrow> 'a list \<Rightarrow> 'a list" where
  "enqueue x q = q @ [x]"

definition try_enqueue :: "bool \<Rightarrow> 'a \<Rightarrow> 'a list \<Rightarrow> bool \<times> 'a list" where
  "try_enqueue room x q = (if q = [] \<or> room then (True, q @ [x]) else (False, q))"

section \<open>The two stages\<close>

text \<open>\<open>std::pow (2.0, -1.0 * octree_bits)\<close>, exact for every depth a tree can have.\<close>

definition resolution_of_bits :: "int \<Rightarrow> f32" where
  "resolution_of_bits bits = f32_round False 1 (- bits) False"

definition alloc_encoder :: "encoder \<Rightarrow> encoder" where
  "alloc_encoder e =
     e\<lparr>m_encoder := Some \<lparr>octreeResolution = resolution_of_bits (octree_bits (m_params e)),
                         macroblockSize = macroblock_size (m_params e),
                         jpegQuality = jpeg_quality (m_params e), coded = []\<rparr>,
       m_remaining_frames_in_gop := gop_size (m_params e)\<rparr>"

text \<open>
  \<open>_run_single_tilefilter\<close>, from the \<open>wait_dequeue\<close> on; waiting on an empty queue never ends
  when nobody else can fill it. The Boolean is the method's result.
\<close>

definition run_single_tilefilter ::
  "distance \<Rightarrow> world \<times> encoder \<Rightarrow> fault + bool \<times> world \<times> encoder" where
  "run_single_tilefilter dist s =
     (case s of (w, e) \<Rightarrow>
      case m_queue_tilefilter e of
        [] \<Rightarrow> Inl Blocks_forever
      | None # q \<Rightarrow> Inr (False, w, e\<lparr>m_queue_tilefilter := q\<rparr>)
      | Some pc # q \<Rightarrow>
          let e1 = e\<lparr>m_queue_tilefilter := q\<rparr> in
          if tilenumber (m_params e) \<noteq> 0
          then case cwipc_tilefilter dist (tilenumber (m_params e)) w (Some pc) of
                 Inl f \<Rightarrow> Inl f
               | Inr (newpc, w1, pc') \<Rightarrow>
                   let w2 = (case pc' of None \<Rightarrow> w1 | Some pc1 \<Rightarrow> fst (pc_free w1 pc1)) in
                   case newpc of
                     None \<Rightarrow>
                       Inr (False, cwipc_log CWIPC_LOG_LEVEL_ERROR ''cwipc_encoder''
                              (''tilefilter failed tile='' @ to_string (tilenumber (m_params e))) w2, e1)
                   | Some n \<Rightarrow> Inr (True, w2, e1\<lparr>m_queue_encoder := enqueue (Some n) (m_queue_encoder e1)\<rparr>)
          else Inr (True, w, e1\<lparr>m_queue_encoder := enqueue (Some pc) (m_queue_encoder e1)\<rparr>))"

definition dummyPoint :: pcl_point where
  "dummyPoint = \<lparr>pcl_x = 0, pcl_y = 0, pcl_z = 0, pcl_r = 0, pcl_g = 0, pcl_b = 0, pcl_a = 0\<rparr>"

text \<open>An empty cloud is coded as one black point at the origin.\<close>

definition frame_points :: "pcl_point list \<Rightarrow> pcl_point list" where
  "frame_points pc = (if pc = [] then [dummyPoint] else pc)"

text \<open>\<open>if (cellsize > m_encoder->octreeResolution) m_encoder->octreeResolution = cellsize\<close>.\<close>

definition adapt_resolution :: "f32 \<Rightarrow> codec_state \<Rightarrow> codec_state" where
  "adapt_resolution cellsize c =
     (if f32_lt (octreeResolution c) cellsize then c\<lparr>octreeResolution := cellsize\<rparr> else c)"

text \<open>The start of a frame: a codec if there is none yet, and the GOP counter.\<close>

definition begin_frame :: "encoder \<Rightarrow> encoder" where
  "begin_frame e =
     (let e1 = (if m_encoder e = None then alloc_encoder e else e)
      in e1\<lparr>m_remaining_frames_in_gop :=
              (if do_inter_frame (m_params e1) then gop_size (m_params e1) else 1)\<rparr>)"

text \<open>From the resolution hack to the stored result.\<close>

definition encode_frame ::
  "compressor \<Rightarrow> pcl_point list \<Rightarrow> u64 \<Rightarrow> f32 \<Rightarrow> encoder \<Rightarrow> encoder" where
  "encode_frame compress pcl_pc ts cellsize e =
     (let c = adapt_resolution cellsize (the (m_encoder e));
          pts = frame_points pcl_pc;
          comp_frame = compress c pts ts
      in e\<lparr>m_encoder := Some (c\<lparr>coded := coded c @ [(pts, ts)]\<rparr>),
           m_remaining_frames_in_gop := m_remaining_frames_in_gop e - 1,
           m_result := Some comp_frame\<rparr>)"

definition run_single_encode ::
  "compressor \<Rightarrow> world \<times> encoder \<Rightarrow> fault + bool \<times> world \<times> encoder" where
  "run_single_encode compress s =
     (case s of (w, e) \<Rightarrow>
      case m_queue_encoder e of
        [] \<Rightarrow> Inl Blocks_forever
      | None # q \<Rightarrow> Inr (False, w, e\<lparr>m_queue_encoder := q\<rparr>)
      | Some newpc # q \<Rightarrow>
          let e1 = begin_frame (e\<lparr>m_queue_encoder := q\<rparr>)
          in case access_pcl_pointcloud w newpc of
               (None, w1, newpc1) \<Rightarrow>
                 Inr (False, cwipc_log CWIPC_LOG_LEVEL_ERROR ''cwipc_encoder''
                               ''Pointcloud has NULL cwipc_pcl_pointcloud'' w1, e1)
             | (Some pcl_pc, w1, newpc1) \<Rightarrow>
                 Inr (True, fst (pc_free w1 newpc1),
                      encode_frame compress pcl_pc (m_timestamp newpc1) (m_cellsize newpc1) e1))"

section \<open>The public methods\<close>

definition encoder_eof :: "encoder \<Rightarrow> bool" where "encoder_eof e = (\<not> m_alive e)"

text \<open>Without threads, nobody can end the wait for a result.\<close>

definition encoder_available :: "bool \<Rightarrow> encoder \<Rightarrow> fault + bool" where
  "encoder_available wait_b e =
     (if wait_b \<and> m_result e = None \<and> m_alive e \<and> \<not> m_use_threads e then Inl Blocks_forever
      else Inr (m_result e \<noteq> None))"

definition at_gop_boundary :: "encoder \<Rightarrow> bool" where
  "at_gop_boundary e = (m_remaining_frames_in_gop e \<le> 0)"

definition get_encoded_size :: "encoder \<Rightarrow> u64" where
  "get_encoded_size e = (case m_result e of None \<Rightarrow> 0 | Some r \<Rightarrow> size_of_nat (length r))"

text \<open>The bytes stored into the caller's buffer are the second component.\<close>

definition copy_data :: "u64 \<Rightarrow> encoder \<Rightarrow> bool \<times> u8 list \<times> encoder" where
  "copy_data bufferSize e =
     (case m_result e of
        None \<Rightarrow> (False, [], e)
      | Some r \<Rightarrow> if bufferSize < size_of_nat (length r) then (False, [], e)
                  else (True, r, e\<lparr>m_result := None\<rparr>))"

definition log_if :: "bool \<Rightarrow> string \<Rightarrow> world \<Rightarrow> world" where
  "log_if b t w = (if b then cwipc_log CWIPC_LOG_LEVEL_ERROR ''cwipc_encoder'' t w else w)"

text \<open>\<open>feed\<close>; the third component is the caller's (possibly converted) cloud.\<close>

definition feed ::
  "distance \<Rightarrow> compressor \<Rightarrow> cwipc_obj \<Rightarrow> world \<times> encoder
   \<Rightarrow> fault + (world \<times> encoder) \<times> cwipc_obj" where
  "feed dist compress pc s =
     (case s of (w, e) \<Rightarrow>
      if \<not> m_alive e
      then Inr ((cwipc_log CWIPC_LOG_LEVEL_WARNING ''cwipc_encoder'' ''feed() called after close()'' w, e), pc)
      else
        case shallowcopy dist w pc of (copy, w1, pc1) \<Rightarrow>
        if m_use_threads e
        then Inr ((w1, e\<lparr>m_queue_tilefilter := enqueue (Some copy) (m_queue_tilefilter e)\<rparr>), pc1)
        else
          let (ok, q) = try_enqueue False (Some copy) (m_queue_tilefilter e);
              w2 = log_if (\<not> ok) ''unthreaded try_enqueue failed'' w1
          in case run_single_tilefilter dist (w2, e\<lparr>m_queue_tilefilter := q\<rparr>) of
               Inl f \<Rightarrow> Inl f
             | Inr (ok2, w3, e3) \<Rightarrow>
                 (case run_single_encode compress (log_if (\<not> ok2) ''unthreaded tilefilter failure'' w3, e3) of
                    Inl f \<Rightarrow> Inl f
                  | Inr (ok3, w4, e4) \<Rightarrow>
                      Inr ((log_if (\<not> ok3) ''unthreaded encode failure'' w4, e4), pc1)))"

definition enable_threads :: "encoder \<Rightarrow> encoder" where
  "enable_threads e =
     (if m_use_threads e then e
      else e\<lparr>m_use_threads := True, m_thread_encoder := Some At_loop, m_thread_tilefilter := Some At_loop\<rparr>)"

section \<open>Unthreaded encoding\<close>

text \<open>The cloud that reaches the codec: the client's points, filtered by tile.\<close>

definition selected :: "encoder_params \<Rightarrow> pcl_point list \<Rightarrow> pcl_point list" where
  "selected ps pc = (if tilenumber ps = 0 then pc else filter (tile_selected (tilenumber ps)) pc)"

text \<open>Cell sizes are numbers, not NaN, and never negative once stored with a cloud.\<close>

definition stored_cellsize :: "distance \<Rightarrow> f32 \<Rightarrow> pcl_point list \<Rightarrow> f32" where
  "stored_cellsize dist cs pc = (if f32_lt cs f32_zero then guess_cellsize dist pc else cs)"

lemma made_from_cellsize [simp]:
  "m_cellsize (made_from dist (Some pc) ts cs) = stored_cellsize dist cs pc"
  by (simp add: made_from_def impl_set_cellsize_def stored_cellsize_def)

definition selected_cellsize :: "distance \<Rightarrow> encoder_params \<Rightarrow> f32 \<Rightarrow> pcl_point list \<Rightarrow> f32" where
  "selected_cellsize dist ps cs pc = (if tilenumber ps = 0 then cs else stored_cellsize dist cs pc)"

text \<open>A shallow copy of a cloud with points.\<close>

lemma shallowcopy_cloud:
  assumes "access_pcl_pointcloud w ob = (Some src, w1, ob1)"
  shows "\<exists>w2. shallowcopy dist w ob = (made_from dist (Some src) (m_timestamp ob1) (m_cellsize ob1), w2, ob1) \<and>
    pc_dangling w2 = pc_dangling w1 + 1 \<and> points_dangling w2 = points_dangling w1"
  using access_some [OF assms]
  by (simp add: shallowcopy_def assms new_cwipc_impl_def made_from_def dangling_defs)

text \<open>The tile filter stage on a PCL cloud.\<close>

lemma tilefilter_stage:
  assumes "m_queue_tilefilter e = Some (made_from dist (Some src) ts cs) # q"
  shows "\<exists>w'. run_single_tilefilter dist (w, e) =
      Inr (True, w', e\<lparr>m_queue_tilefilter := q,
        m_queue_encoder := m_queue_encoder e @ [Some (made_from dist (Some (selected (m_params e) src)) ts
          (selected_cellsize dist (m_params e) cs src))]\<rparr>) \<and>
    pc_dangling w' = pc_dangling w \<and> points_dangling w' = points_dangling w"
proof (cases "tilenumber (m_params e) = 0")
  case True
  then show ?thesis
    using assms by (auto simp: run_single_tilefilter_def selected_def selected_cellsize_def enqueue_def Let_def)
next
  case False
  let ?pc = "made_from dist (Some src) ts cs"
  let ?f = "filter (tile_selected (tilenumber (m_params e))) src"
  obtain w1 where t: "cwipc_tilefilter dist (tilenumber (m_params e)) w (Some ?pc) =
      Inr (Some (made_from dist (Some ?f) ts (m_cellsize ?pc)), w1, Some ?pc)"
    and c: "pc_dangling w1 = pc_dangling w + 1" "points_dangling w1 = points_dangling w"
    using tilefilter_converted [OF made_from_sel(1), of dist "tilenumber (m_params e)" w dist src ts cs]
    by auto
  have "run_single_tilefilter dist (w, e) = Inr (True, fst (pc_free w1 ?pc), e\<lparr>m_queue_tilefilter := q,
      m_queue_encoder := m_queue_encoder e @ [Some (made_from dist (Some ?f) ts (m_cellsize ?pc))]\<rparr>)"
    unfolding run_single_tilefilter_def prod.case assms list.case option.case Let_def if_P [OF False] t sum.case
    by (simp add: enqueue_def)
  with False c show ?thesis by (simp add: selected_def selected_cellsize_def pc_free_made)
qed

text \<open>The encode stage on a PCL cloud.\<close>

definition current_codec :: "encoder \<Rightarrow> codec_state" where
  "current_codec e = (case m_encoder e of Some c \<Rightarrow> c | None \<Rightarrow> the (m_encoder (alloc_encoder e)))"

lemma begin_frame_codec:
  "\<exists>g. begin_frame (e\<lparr>m_queue_encoder := q\<rparr>) =
     e\<lparr>m_queue_encoder := q, m_encoder := Some (current_codec e), m_remaining_frames_in_gop := g\<rparr>"
  by (cases e; cases "m_encoder e") (auto simp: begin_frame_def current_codec_def alloc_encoder_def Let_def)

lemma encode_stage:
  assumes "m_queue_encoder e = Some (made_from dist (Some pc) ts cs) # q"
  shows "\<exists>w' g. run_single_encode compress (w, e) =
      (let c = adapt_resolution (stored_cellsize dist cs pc) (current_codec e) in
       Inr (True, w', e\<lparr>m_queue_encoder := q,
         m_encoder := Some (c\<lparr>coded := coded c @ [(frame_points pc, ts)]\<rparr>),
         m_remaining_frames_in_gop := g,
         m_result := Some (compress c (frame_points pc) ts)\<rparr>)) \<and>
    pc_dangling w' = pc_dangling w - 1 \<and> points_dangling w' = points_dangling w"
proof -
  let ?n = "made_from dist (Some pc) ts cs"
  obtain g where b: "begin_frame (e\<lparr>m_queue_encoder := q\<rparr>) =
      e\<lparr>m_queue_encoder := q, m_encoder := Some (current_codec e), m_remaining_frames_in_gop := g\<rparr>"
    using begin_frame_codec by blast
  have "run_single_encode compress (w, e) =
      Inr (True, fst (pc_free w ?n), encode_frame compress pc ts (stored_cellsize dist cs pc)
        (e\<lparr>m_queue_encoder := q, m_encoder := Some (current_codec e), m_remaining_frames_in_gop := g\<rparr>))"
    unfolding run_single_encode_def Let_def prod.case assms list.case option.case
      access_converted [OF made_from_sel(1)] b by simp
  then show ?thesis
    using pc_free_made [of w dist pc ts cs] by (auto simp: encode_frame_def Let_def)
qed

text \<open>An encoder a client uses without threads, between two calls.\<close>

definition idle :: "encoder \<Rightarrow> bool" where
  "idle e \<longleftrightarrow> m_alive e \<and> \<not> m_use_threads e \<and> m_queue_tilefilter e = [] \<and> m_queue_encoder e = []"

text \<open>The codec settings a frame is coded with.\<close>

definition frame_codec :: "distance \<Rightarrow> encoder \<Rightarrow> f32 \<Rightarrow> pcl_point list \<Rightarrow> codec_state" where
  "frame_codec dist e cs src =
     adapt_resolution
       (stored_cellsize dist (selected_cellsize dist (m_params e) cs src) (selected (m_params e) src))
       (current_codec e)"

lemma feed_idle:
  assumes "idle e" and "access_pcl_pointcloud w pc = (Some src, w1, pc1)"
  shows "\<exists>w' e'. feed dist compress pc (w, e) = Inr ((w', e'), pc1) \<and> idle e' \<and> m_params e' = m_params e \<and>
    pc_dangling w' = pc_dangling w1 \<and> points_dangling w' = points_dangling w1 \<and>
    (let c = frame_codec dist e (m_cellsize pc1) src; pts = frame_points (selected (m_params e) src) in
       m_result e' = Some (compress c pts (m_timestamp pc1)) \<and>
       m_encoder e' = Some (c\<lparr>coded := coded c @ [(pts, m_timestamp pc1)]\<rparr>))"
proof -
  let ?ts = "m_timestamp pc1" and ?cs = "m_cellsize pc1"
  let ?copy = "made_from dist (Some src) ?ts ?cs"
  have e: "m_alive e" "\<not> m_use_threads e" "m_queue_tilefilter e = []" "m_queue_encoder e = []"
    using assms(1) by (simp_all add: idle_def)
  obtain w2 where s: "shallowcopy dist w pc = (?copy, w2, pc1)"
    and c2: "pc_dangling w2 = pc_dangling w1 + 1" "points_dangling w2 = points_dangling w1"
    using shallowcopy_cloud [OF assms(2)] by blast
  let ?e2 = "e\<lparr>m_queue_tilefilter := [Some ?copy]\<rparr>"
  let ?sel = "selected (m_params e) src" and ?cs' = "selected_cellsize dist (m_params e) ?cs src"
  let ?e3 = "e\<lparr>m_queue_tilefilter := [], m_queue_encoder := [Some (made_from dist (Some ?sel) ?ts ?cs')]\<rparr>"
  obtain w3 where t: "run_single_tilefilter dist (w2, ?e2) = Inr (True, w3, ?e3)"
    and c3: "pc_dangling w3 = pc_dangling w2" "points_dangling w3 = points_dangling w2"
    using tilefilter_stage [of ?e2 dist src ?ts ?cs "[]" w2] e by auto
  let ?c = "frame_codec dist e ?cs src"
  have cc: "current_codec ?e3 = current_codec e"
    by (simp add: current_codec_def alloc_encoder_def split: option.split)
  obtain w4 g where f: "run_single_encode compress (w3, ?e3) = Inr (True, w4, ?e3\<lparr>m_queue_encoder := [],
         m_encoder := Some (?c\<lparr>coded := coded ?c @ [(frame_points ?sel, ?ts)]\<rparr>),
         m_remaining_frames_in_gop := g,
         m_result := Some (compress ?c (frame_points ?sel) ?ts)\<rparr>)"
    and c4: "pc_dangling w4 = pc_dangling w3 - 1" "points_dangling w4 = points_dangling w3"
    using encode_stage [of ?e3 dist ?sel ?ts ?cs' "[]" compress w3] cc
    by (auto simp: frame_codec_def Let_def)
  have "feed dist compress pc (w, e) = Inr ((w4, ?e3\<lparr>m_queue_encoder := [],
         m_encoder := Some (?c\<lparr>coded := coded ?c @ [(frame_points ?sel, ?ts)]\<rparr>),
         m_remaining_frames_in_gop := g,
         m_result := Some (compress ?c (frame_points ?sel) ?ts)\<rparr>), pc1)"
    using e by (simp add: feed_def s try_enqueue_def log_if_def t f)
  with e c2 c3 c4 show ?thesis by (simp add: idle_def)
qed

section \<open>Properties\<close>

text \<open>
  Without threads every \<open>feed\<close> of a cloud leaves its compressed form ready: \<open>available\<close>
  is true, \<open>copy_data\<close> with a buffer of the announced size returns exactly the codec's output
  for the client's points of the encoder's tile, once; and nothing is leaked on the way.
\<close>

theorem unthreaded_feed_then_copy:
  assumes "idle e" and "access_pcl_pointcloud w pc = (Some src, w1, pc1)"
    and "feed dist compress pc (w, e) = Inr ((w', e'), pc')"
    and "copy_data (get_encoded_size e') e' = (ok, bytes, e'')"
  shows "pc' = pc1 \<and> encoder_available True e' = Inr True \<and> ok \<and>
    bytes = compress (frame_codec dist e (m_cellsize pc1) src)
              (frame_points (selected (m_params e) src)) (m_timestamp pc1) \<and>
    encoder_available False e'' = Inr False \<and> idle e'' \<and>
    pc_dangling w' = pc_dangling w1 \<and> points_dangling w' = points_dangling w1"
  using feed_idle [OF assms(1,2), of dist compress] assms(3,4)
  by (auto simp: encoder_available_def get_encoded_size_def copy_data_def idle_def Let_def)

definition sample_params :: encoder_params where
  "sample_params = \<lparr>do_inter_frame = False, gop_size = 1, exp_factor = 0x3F800000, octree_bits = 9,
     jpeg_quality = 85, macroblock_size = 16, tilenumber = 1, voxelsize = 0, n_parallel = 0\<rparr>"

definition tag_compress :: compressor where
  "tag_compress c pts ts = [word_of_nat (length pts), ucast ts]"

lemma fresh_encoder_idle: "idle (new_encoder_impl ps)"
  by (simp add: idle_def new_encoder_impl_def)

theorem unthreaded_feed_then_copy_witness:
  "\<exists>w' e' pc'. feed (\<lambda>_ _. 0) tag_compress (pcl_cloud [point_at 1 1, point_at 2 2])
      (world_init None 0, new_encoder_impl sample_params) = Inr ((w', e'), pc') \<and>
    fst (snd (copy_data (get_encoded_size e') e')) = [1, 7]"
proof -
  let ?src = "[point_at 1 1, point_at 2 2]"
  let ?e = "new_encoder_impl sample_params"
  have a: "access_pcl_pointcloud (world_init None 0) (pcl_cloud ?src) =
      (Some ?src, world_init None 0, pcl_cloud ?src)" by simp
  obtain w' e' pc' where f: "feed (\<lambda>_ _. 0) tag_compress (pcl_cloud ?src) (world_init None 0, ?e) =
      Inr ((w', e'), pc')"
    using feed_idle [OF fresh_encoder_idle a] by blast
  obtain ok bytes e'' where c: "copy_data (get_encoded_size e') e' = (ok, bytes, e'')"
    by (metis prod_cases3)
  have "selected (m_params ?e) ?src = [point_at 1 1]"
    by (simp add: selected_def new_encoder_impl_def sample_params_def tile_selected_def point_at_def)
  with unthreaded_feed_then_copy [OF fresh_encoder_idle a f c] f c show ?thesis
    by (auto simp: tag_compress_def frame_points_def pcl_cloud_def)
qed

text \<open>
  The resolution sent with a frame only ever grows: the codec object outlives the frame,
  so once a coarse cloud has been coded every later frame announces at least its cell size,
  however fine it is. The comment at that line wants "a reasonable value".
\<close>

theorem resolution_is_sticky:
  assumes "idle e" and "access_pcl_pointcloud w a = (Some src, w1, a1)"
    and "feed dist compress a (w, e) = Inr ((w', e'), a')"
    and "cs = stored_cellsize dist (selected_cellsize dist (m_params e) (m_cellsize a1) src)
                (selected (m_params e) src)"
    and "\<not> f32_isnan cs" and "\<not> f32_isnan (octreeResolution (current_codec e))"
  shows "f32_le cs (octreeResolution (frame_codec dist e' cs' src'))"
proof -
  let ?c = "frame_codec dist e (m_cellsize a1) src"
  have enc: "\<exists>h. m_encoder e' = Some (?c\<lparr>coded := h\<rparr>)"
    using feed_idle [OF assms(1,2), of dist compress] assms(3) by (auto simp: Let_def)
  have c: "f32_le cs (octreeResolution ?c)" "\<not> f32_isnan (octreeResolution ?c)"
    using assms(5,6)
    by (auto simp: frame_codec_def adapt_resolution_def f32_not_lt_le simp flip: assms(4) intro: f32_le_refl)
  have "octreeResolution (current_codec e') = octreeResolution ?c"
    using enc by (auto simp: current_codec_def)
  with c show ?thesis
    by (auto simp: frame_codec_def [of dist e'] adapt_resolution_def intro: f32_le_trans f32_lt_imp_le)
qed

theorem resolution_is_sticky_witness:
  "\<exists>w' e' a'. feed (\<lambda>_ _. 0) tag_compress ((pcl_cloud [point_at 1 1])\<lparr>m_cellsize := 0x3F800000\<rparr>)
      (world_init None 0, new_encoder_impl sample_params) = Inr ((w', e'), a') \<and>
    f32_le 0x3F800000 (octreeResolution (frame_codec (\<lambda>_ _. 0) e' 0x3C000000 [point_at 2 1]))"
proof -
  let ?pc = "(pcl_cloud [point_at 1 1])\<lparr>m_cellsize := 0x3F800000\<rparr>"
  let ?e = "new_encoder_impl sample_params"
  have a: "access_pcl_pointcloud (world_init None 0) ?pc = (Some [point_at 1 1], world_init None 0, ?pc)"
    by (simp add: access_pcl_pointcloud_def pcl_cloud_def)
  obtain w' e' a' where f: "feed (\<lambda>_ _. 0) tag_compress ?pc (world_init None 0, ?e) = Inr ((w', e'), a')"
    using feed_idle [OF fresh_encoder_idle a] by blast
  have res: "octreeResolution (current_codec ?e) = 0x3B000000"
    by (simp add: current_codec_def alloc_encoder_def new_encoder_impl_def sample_params_def
        resolution_of_bits_def f32_round_def round_quot_def bit_length.simps with_sign_def Let_def)
  have cs: "0x3F800000 = stored_cellsize (\<lambda>_ _. 0) (selected_cellsize (\<lambda>_ _. 0) (m_params ?e)
      (m_cellsize ?pc) [point_at 1 1]) (selected (m_params ?e) [point_at 1 1])"
    by (simp add: stored_cellsize_def selected_cellsize_def f32_defs f32_zero_def)
  have "f32_le 0x3F800000 (octreeResolution (frame_codec (\<lambda>_ _. 0) e' 0x3C000000 [point_at 2 1]))"
    by (rule resolution_is_sticky [OF fresh_encoder_idle a f cs]) (simp_all add: res f32_defs)
  with f show ?thesis by blast
qed

text \<open>
  Feeding a cloud without points storage (a NULL PCL cloud) to an unthreaded encoder for
  one tile never returns: the tile filter fails, and \<open>feed\<close> then still waits on the encoder
  queue that nobody will fill.
\<close>

theorem unthreaded_null_cloud_blocks:
  assumes "idle e" and "pc_class pc = Cwipc_impl" and "m_pc pc = None" and "tilenumber (m_params e) \<noteq> 0"
  shows "feed dist compress pc (w, e) = Inl Blocks_forever"
proof -
  have a: "access_pcl_pointcloud v pc = (None, v, pc)" for v
    using assms(2,3) by (simp add: access_pcl_pointcloud_def)
  let ?copy = "made_from dist None (m_timestamp pc) (m_cellsize pc)"
  have s: "shallowcopy dist w pc = (?copy, w, pc)"
    using assms(3) by (simp add: shallowcopy_def a new_cwipc_impl_def made_from_def)
  have "access_pcl_pointcloud v ?copy = (None, v, ?copy)" for v
    by (simp add: access_pcl_pointcloud_def)
  then show ?thesis
    using assms(1,4)
    by (simp add: feed_def idle_def s try_enqueue_def run_single_tilefilter_def cwipc_tilefilter_def
        on_source_def log_if_def run_single_encode_def Let_def)
qed

theorem unthreaded_null_cloud_blocks_witness:
  "feed (\<lambda>_ _. 0) tag_compress ((pcl_cloud [])\<lparr>m_pc := None\<rparr>)
     (world_init None 0, new_encoder_impl sample_params) = Inl Blocks_forever"
  by (rule unthreaded_null_cloud_blocks [OF fresh_encoder_idle])
    (simp_all add: pcl_cloud_def new_encoder_impl_def sample_params_def)

end
