(* ===== verification/EncoderThreads.thy ===== *)
theory EncoderThreads
  imports Encoder "HOL-Library.Sublist"
begin

text \<open>
  The encoder with its two threads (\<open>enable_threads\<close>, \<open>close\<close>, \<open>free\<close> of
  \<open>cwipc_encoder_impl\<close>). A thread's loop is split where it can be interrupted: the test of
  \<open>m_alive\<close>, and the \<open>wait_dequeue\<close> with the work that follows. An execution is any interleaving
  of thread steps and client calls.
\<close>

section \<open>Thread steps\<close>

text \<open>After the loop: \<open>m_alive = false\<close>, and for the tile filter a null for the encoder.\<close>

definition tilefilter_exit :: "bool \<Rightarrow> encoder \<Rightarrow> encoder" where
  "tilefilter_exit room e =
     e\<lparr>m_alive := False, m_queue_encoder := snd (try_enqueue room None (m_queue_encoder e)),
       m_thread_tilefilter := Some Finished\<rparr>"

definition encode_exit :: "encoder \<Rightarrow> encoder" where
  "encode_exit e = e\<lparr>m_alive := False, m_thread_encoder := Some Finished\<rparr>"

text \<open>\<open>None\<close>: the thread cannot move (it is not running, or waits on an empty queue).\<close>

definition tilefilter_thread :: "distance \<Rightarrow> bool \<Rightarrow> world \<times> encoder \<Rightarrow> (world \<times> encoder) option" where
  "tilefilter_thread dist room s =
     (case s of (w, e) \<Rightarrow>
      case m_thread_tilefilter e of
        Some At_loop \<Rightarrow>
          if m_alive e then Some (w, e\<lparr>m_thread_tilefilter := Some In_wait\<rparr>)
          else Some (w, tilefilter_exit room e)
      | Some In_wait \<Rightarrow>
          (case run_single_tilefilter dist s of
             Inl _ \<Rightarrow> None
           | Inr (ok, w1, e1) \<Rightarrow>
               if ok then Some (w1, e1\<lparr>m_thread_tilefilter := Some At_loop\<rparr>)
               else Some (log_if (m_alive e1) ''threaded tilefilter failure'' w1, tilefilter_exit room e1))
      | _ \<Rightarrow> None)"

definition encode_thread :: "compressor \<Rightarrow> world \<times> encoder \<Rightarrow> (world \<times> encoder) option" where
  "encode_thread compress s =
     (case s of (w, e) \<Rightarrow>
      case m_thread_encoder e of
        Some At_loop \<Rightarrow>
          if m_alive e then Some (w, e\<lparr>m_thread_encoder := Some In_wait\<rparr>) else Some (w, encode_exit e)
      | Some In_wait \<Rightarrow>
          (case run_single_encode compress s of
             Inl _ \<Rightarrow> None
           | Inr (ok, w1, e1) \<Rightarrow>
               if ok then Some (w1, e1\<lparr>m_thread_encoder := Some At_loop\<rparr>)
               else Some (log_if (m_alive e1) ''threaded encoder failure'' w1, encode_exit e1))
      | _ \<Rightarrow> None)"

section \<open>close and free\<close>

text \<open>\<open>close\<close> up to the joins, the joins (possible once both threads are done), and \<open>free\<close>.\<close>

definition close_signal :: "bool \<Rightarrow> bool \<Rightarrow> encoder \<Rightarrow> encoder" where
  "close_signal room1 room2 e =
     (let e1 = e\<lparr>m_alive := False\<rparr> in
      if m_use_threads e
      then e1\<lparr>m_queue_encoder := snd (try_enqueue room1 None (m_queue_encoder e)),
              m_queue_tilefilter := snd (try_enqueue room2 None (m_queue_tilefilter e))\<rparr>
      else e1)"

definition close_join :: "encoder \<Rightarrow> encoder option" where
  "close_join e =
     (if \<not> m_use_threads e then Some e
      else if m_thread_encoder e = Some Finished \<and> m_thread_tilefilter e = Some Finished
      then Some (e\<lparr>m_thread_encoder := None, m_thread_tilefilter := None, m_use_threads := False\<rparr>)
      else None)"

definition free_after_close :: "encoder \<Rightarrow> encoder" where
  "free_after_close e = e\<lparr>m_encoder := None, m_result := None\<rparr>"

section \<open>Executions\<close>

datatype action =
    Feed "pcl_point list" u64 f32
  | Tilefilter_thread bool
  | Encode_thread
  | Copy u64
  | Close_signal bool bool
  | Close_join

text \<open>
  The state with three histories: the clouds the encoder accepted, the frames its codec
  produced, and the frames \<open>copy_data\<close> handed out.
\<close>

record run_state =
  rs_world :: world
  rs_enc :: encoder
  rs_fed :: "(pcl_point list \<times> u64) list"
  rs_produced :: "u8 list list"
  rs_delivered :: "u8 list list"

definition coded_frames :: "encoder \<Rightarrow> (pcl_point list \<times> u64) list" where
  "coded_frames e = (case m_encoder e of None \<Rightarrow> [] | Some c \<Rightarrow> coded c)"

fun enc_exec :: "distance \<Rightarrow> compressor \<Rightarrow> action \<Rightarrow> run_state \<Rightarrow> run_state option" where
  "enc_exec dist compress (Feed src ts cs) s =
     (case feed dist compress (made_from dist (Some src) ts cs) (rs_world s, rs_enc s) of
        Inl _ \<Rightarrow> None
      | Inr ((w, e), _) \<Rightarrow>
          Some (s\<lparr>rs_world := w, rs_enc := e,
                  rs_fed := (if m_alive (rs_enc s) then rs_fed s @ [(src, ts)] else rs_fed s)\<rparr>))"
| "enc_exec dist compress (Tilefilter_thread room) s =
     map_option (\<lambda>(w, e). s\<lparr>rs_world := w, rs_enc := e\<rparr>)
       (tilefilter_thread dist room (rs_world s, rs_enc s))"
| "enc_exec dist compress Encode_thread s =
     map_option (\<lambda>(w, e). s\<lparr>rs_world := w, rs_enc := e,
         rs_produced := rs_produced s @
           (if length (coded_frames e) = length (coded_frames (rs_enc s)) then []
            else case m_result e of None \<Rightarrow> [] | Some r \<Rightarrow> [r])\<rparr>)
       (encode_thread compress (rs_world s, rs_enc s))"
| "enc_exec dist compress (Copy n) s =
     (case copy_data n (rs_enc s) of (ok, bytes, e) \<Rightarrow>
        Some (s\<lparr>rs_enc := e, rs_delivered := rs_delivered s @ (if ok then [bytes] else [])\<rparr>))"
| "enc_exec dist compress (Close_signal r1 r2) s = Some (s\<lparr>rs_enc := close_signal r1 r2 (rs_enc s)\<rparr>)"
| "enc_exec dist compress Close_join s =
     map_option (\<lambda>e. s\<lparr>rs_enc := e\<rparr>) (close_join (rs_enc s))"

fun enc_run :: "distance \<Rightarrow> compressor \<Rightarrow> action list \<Rightarrow> run_state \<Rightarrow> run_state option" where
  "enc_run dist compress [] s = Some s"
| "enc_run dist compress (a # as) s =
     (case enc_exec dist compress a s of None \<Rightarrow> None | Some s' \<Rightarrow> enc_run dist compress as s')"

text \<open>A new encoder whose threads have just been enabled.\<close>

definition start_state :: "world \<Rightarrow> encoder_params \<Rightarrow> run_state" where
  "start_state w ps =
     \<lparr>rs_world = w, rs_enc = enable_threads (new_encoder_impl ps), rs_fed = [], rs_produced = [],
      rs_delivered = []\<rparr>"

inductive reachable :: "distance \<Rightarrow> compressor \<Rightarrow> world \<Rightarrow> encoder_params \<Rightarrow> run_state \<Rightarrow> bool"
  for dist compress w0 ps where
  reachable_init: "reachable dist compress w0 ps (start_state w0 ps)"
| reachable_step: "reachable dist compress w0 ps s \<Longrightarrow> enc_exec dist compress a s = Some s' \<Longrightarrow>
     reachable dist compress w0 ps s'"

lemma enc_run_reachable:
  "reachable dist compress w0 ps s \<Longrightarrow> enc_run dist compress as s = Some s' \<Longrightarrow>
   reachable dist compress w0 ps s'"
  by (induction as arbitrary: s) (auto split: option.splits intro: reachable_step)

section \<open>The pipeline invariant\<close>

text \<open>Every object in a queue is a PCL cloud; what its points become in the codec.\<close>

definition queued :: "(pcl_point list \<Rightarrow> pcl_point list) \<Rightarrow> cwipc_obj option list \<Rightarrow> (pcl_point list \<times> u64) list" where
  "queued sel q = concat (map (\<lambda>x. case x of None \<Rightarrow> []
     | Some ob \<Rightarrow> [(frame_points (sel (the (m_pc ob))), m_timestamp ob)]) q)"

definition clouds_only :: "distance \<Rightarrow> cwipc_obj option list \<Rightarrow> bool" where
  "clouds_only dist q \<longleftrightarrow> (\<forall>ob. Some ob \<in> set q \<longrightarrow> (\<exists>src ts cs. ob = made_from dist (Some src) ts cs))"

definition expected :: "encoder_params \<Rightarrow> (pcl_point list \<times> u64) list \<Rightarrow> (pcl_point list \<times> u64) list" where
  "expected ps fed = map (\<lambda>(src, ts). (frame_points (selected ps src), ts)) fed"

definition frames_queued :: "encoder \<Rightarrow> nat" where
  "frames_queued e = length (queued id (m_queue_encoder e)) + length (queued id (m_queue_tilefilter e))"

definition pipeline_ok :: "distance \<Rightarrow> world \<Rightarrow> encoder_params \<Rightarrow> run_state \<Rightarrow> bool" where
  "pipeline_ok dist w0 ps s \<longleftrightarrow>
     (let e = rs_enc s in
      m_params e = ps \<and>
      clouds_only dist (m_queue_encoder e) \<and> clouds_only dist (m_queue_tilefilter e) \<and>
      coded_frames e @ queued id (m_queue_encoder e) @ queued (selected ps) (m_queue_tilefilter e)
        = expected ps (rs_fed s) \<and>
      pc_dangling (rs_world s) = pc_dangling w0 + int (frames_queued e) \<and>
      points_dangling (rs_world s) = points_dangling w0 \<and>
      (m_alive e \<longrightarrow> m_use_threads e \<and> m_thread_tilefilter e \<noteq> Some Finished \<and>
         m_thread_encoder e \<noteq> Some Finished) \<and>
      (m_use_threads e \<longrightarrow> m_thread_tilefilter e \<noteq> None \<and> m_thread_encoder e \<noteq> None))"

lemma queued_simps [simp]:
  "queued sel [] = []"
  "queued sel (None # q) = queued sel q"
  "queued sel (Some ob # q) = (frame_points (sel (the (m_pc ob))), m_timestamp ob) # queued sel q"
  "queued sel (q @ q') = queued sel q @ queued sel q'"
  by (simp_all add: queued_def)

lemma length_queued: "length (queued sel q) = length (queued id q)"
  by (induction q) (auto simp: queued_def split: option.split)

lemma clouds_only_simps [simp]:
  "clouds_only dist []"
  "clouds_only dist (None # q) = clouds_only dist q"
  "clouds_only dist (Some ob # q) \<longleftrightarrow> (\<exists>src ts cs. ob = made_from dist (Some src) ts cs) \<and> clouds_only dist q"
  "clouds_only dist (q @ q') \<longleftrightarrow> clouds_only dist q \<and> clouds_only dist q'"
  by (auto simp: clouds_only_def)

lemma try_enqueue_None [simp]:
  "queued sel (snd (try_enqueue room None q)) = queued sel q"
  "clouds_only dist (snd (try_enqueue room None q)) = clouds_only dist q"
  by (auto simp: try_enqueue_def)

lemma tilefilter_exit_frame [simp]:
  "coded_frames (tilefilter_exit room e) = coded_frames e"
  "queued sel (m_queue_encoder (tilefilter_exit room e)) = queued sel (m_queue_encoder e)"
  "m_queue_tilefilter (tilefilter_exit room e) = m_queue_tilefilter e"
  "clouds_only dist (m_queue_encoder (tilefilter_exit room e)) = clouds_only dist (m_queue_encoder e)"
  "m_use_threads (tilefilter_exit room e) = m_use_threads e"
  "m_thread_tilefilter (tilefilter_exit room e) = Some Finished"
  "m_thread_encoder (tilefilter_exit room e) = m_thread_encoder e"
  "m_params (tilefilter_exit room e) = m_params e" "\<not> m_alive (tilefilter_exit room e)"
  by (simp_all add: tilefilter_exit_def coded_frames_def)

lemma encode_exit_frame [simp]:
  "coded_frames (encode_exit e) = coded_frames e"
  "m_queue_encoder (encode_exit e) = m_queue_encoder e"
  "m_queue_tilefilter (encode_exit e) = m_queue_tilefilter e"
  "m_use_threads (encode_exit e) = m_use_threads e"
  "m_thread_encoder (encode_exit e) = Some Finished"
  "m_thread_tilefilter (encode_exit e) = m_thread_tilefilter e"
  "m_params (encode_exit e) = m_params e" "\<not> m_alive (encode_exit e)"
  by (simp_all add: encode_exit_def coded_frames_def)

lemma log_if_counts [simp]:
  "pc_dangling (log_if b t w) = pc_dangling w" "points_dangling (log_if b t w) = points_dangling w"
  by (simp_all add: log_if_def accounted_log)

text \<open>One step of each thread, and a feed, in terms of the queues.\<close>

lemma feed_threaded_same:
  assumes "m_alive e" and "m_use_threads e"
  shows "\<exists>w' cs'. feed dist compress (made_from dist (Some src) ts cs) (w, e) =
      Inr ((w', e\<lparr>m_queue_tilefilter := m_queue_tilefilter e @ [Some (made_from dist (Some src) ts cs')]\<rparr>),
        made_from dist (Some src) ts cs) \<and>
    pc_dangling w' = pc_dangling w + 1 \<and> points_dangling w' = points_dangling w"
proof -
  have "access_pcl_pointcloud w (made_from dist (Some src) ts cs) = (Some src, w, made_from dist (Some src) ts cs)"
    by (rule access_converted) simp
  from shallowcopy_cloud [OF this, of dist] assms show ?thesis
    by (auto simp: feed_def enqueue_def)
qed

lemma feed_threaded:
  assumes "m_alive e" and "m_use_threads e"
  shows "\<exists>w' cs' pc'. feed dist compress (made_from dist (Some src) ts cs) (w, e) =
      Inr ((w', e\<lparr>m_queue_tilefilter := m_queue_tilefilter e @ [Some (made_from dist (Some src) ts cs')]\<rparr>), pc') \<and>
    pc_dangling w' = pc_dangling w + 1 \<and> points_dangling w' = points_dangling w"
  using feed_threaded_same [OF assms] by blast

lemma feed_closed:
  assumes "\<not> m_alive e"
  shows "\<exists>w'. feed dist compress pc (w, e) = Inr ((w', e), pc) \<and>
    pc_dangling w' = pc_dangling w \<and> points_dangling w' = points_dangling w"
  using assms by (simp add: feed_def accounted_log)

lemma tilefilter_thread_cases:
  assumes "tilefilter_thread dist room (w, e) = Some (w', e')" and "clouds_only dist (m_queue_tilefilter e)"
  obtains (enter) "m_thread_tilefilter e = Some At_loop" "m_alive e" "w' = w"
      "e' = e\<lparr>m_thread_tilefilter := Some In_wait\<rparr>"
    | (leave) "m_thread_tilefilter e = Some At_loop" "\<not> m_alive e" "w' = w" "e' = tilefilter_exit room e"
    | (null) q where "m_thread_tilefilter e = Some In_wait" "m_queue_tilefilter e = None # q"
      "e' = tilefilter_exit room (e\<lparr>m_queue_tilefilter := q\<rparr>)"
      "pc_dangling w' = pc_dangling w" "points_dangling w' = points_dangling w"
    | (cloud) src ts cs cs' q where "m_thread_tilefilter e = Some In_wait"
      "m_queue_tilefilter e = Some (made_from dist (Some src) ts cs) # q"
      "e' = e\<lparr>m_queue_tilefilter := q, m_queue_encoder := m_queue_encoder e @
         [Some (made_from dist (Some (selected (m_params e) src)) ts cs')], m_thread_tilefilter := Some At_loop\<rparr>"
      "pc_dangling w' = pc_dangling w" "points_dangling w' = points_dangling w"
proof (cases "m_thread_tilefilter e")
  case None
  with assms(1) show ?thesis by (simp add: tilefilter_thread_def)
next
  case (Some pc)
  show ?thesis
  proof (cases pc)
    case At_loop
    with Some assms(1) show ?thesis
      by (cases "m_alive e") (auto simp: tilefilter_thread_def intro: enter leave)
  next
    case Finished
    with Some assms(1) show ?thesis by (simp add: tilefilter_thread_def)
  next
    case In_wait
    note th = Some [unfolded In_wait]
    show ?thesis
    proof (cases "m_queue_tilefilter e")
      case Nil
      with th assms(1) show ?thesis by (simp add: tilefilter_thread_def run_single_tilefilter_def)
    next
      case (Cons x q)
      show ?thesis
      proof (cases x)
        case None
        with th Cons assms(1) show ?thesis
          by (intro null [of q]) (auto simp: tilefilter_thread_def run_single_tilefilter_def)
      next
        case (Some ob)
        with Cons assms(2) obtain src ts cs where ob: "ob = made_from dist (Some src) ts cs" by auto
        from tilefilter_stage [of e dist src ts cs q w] Cons Some ob obtain w1 where
          r: "run_single_tilefilter dist (w, e) = Inr (True, w1, e\<lparr>m_queue_tilefilter := q,
            m_queue_encoder := m_queue_encoder e @ [Some (made_from dist (Some (selected (m_params e) src)) ts
              (selected_cellsize dist (m_params e) cs src))]\<rparr>)"
          and c: "pc_dangling w1 = pc_dangling w" "points_dangling w1 = points_dangling w" by auto
        have "w' = w1" "e' = e\<lparr>m_queue_tilefilter := q, m_queue_encoder := m_queue_encoder e @
            [Some (made_from dist (Some (selected (m_params e) src)) ts
              (selected_cellsize dist (m_params e) cs src))], m_thread_tilefilter := Some At_loop\<rparr>"
          using assms(1) th by (simp_all add: tilefilter_thread_def r)
        with th Cons Some ob c show ?thesis by (intro cloud) auto
      qed
    qed
  qed
qed

lemma encode_thread_cases:
  assumes "encode_thread compress (w, e) = Some (w', e')" and "clouds_only dist (m_queue_encoder e)"
  obtains (enter) "m_thread_encoder e = Some At_loop" "m_alive e" "w' = w"
      "e' = e\<lparr>m_thread_encoder := Some In_wait\<rparr>"
    | (leave) "m_thread_encoder e = Some At_loop" "\<not> m_alive e" "w' = w" "e' = encode_exit e"
    | (null) q where "m_thread_encoder e = Some In_wait" "m_queue_encoder e = None # q"
      "e' = encode_exit (e\<lparr>m_queue_encoder := q\<rparr>)"
      "pc_dangling w' = pc_dangling w" "points_dangling w' = points_dangling w"
    | (cloud) src ts cs c r g q where "m_thread_encoder e = Some In_wait"
      "m_queue_encoder e = Some (made_from dist (Some src) ts cs) # q"
      "coded c = coded_frames e @ [(frame_points src, ts)]"
      "e' = e\<lparr>m_queue_encoder := q, m_encoder := Some c, m_remaining_frames_in_gop := g, m_result := Some r,
         m_thread_encoder := Some At_loop\<rparr>"
      "pc_dangling w' = pc_dangling w - 1" "points_dangling w' = points_dangling w"
proof (cases "m_thread_encoder e")
  case None
  with assms(1) show ?thesis by (simp add: encode_thread_def)
next
  case (Some pc)
  show ?thesis
  proof (cases pc)
    case At_loop
    with Some assms(1) show ?thesis
      by (cases "m_alive e") (auto simp: encode_thread_def intro: enter leave)
  next
    case Finished
    with Some assms(1) show ?thesis by (simp add: encode_thread_def)
  next
    case In_wait
    note th = Some [unfolded In_wait]
    show ?thesis
    proof (cases "m_queue_encoder e")
      case Nil
      with th assms(1) show ?thesis by (simp add: encode_thread_def run_single_encode_def)
    next
      case (Cons x q)
      show ?thesis
      proof (cases x)
        case None
        with th Cons assms(1) show ?thesis
          by (intro null [of q]) (auto simp: encode_thread_def run_single_encode_def)
      next
        case (Some ob)
        with Cons assms(2) obtain src ts cs where ob: "ob = made_from dist (Some src) ts cs" by auto
        let ?c = "adapt_resolution (stored_cellsize dist cs src) (current_codec e)"
        from encode_stage [of e dist src ts cs q compress w] Cons Some ob obtain w1 g where
          r: "run_single_encode compress (w, e) = Inr (True, w1, e\<lparr>m_queue_encoder := q,
            m_encoder := Some (?c\<lparr>coded := coded ?c @ [(frame_points src, ts)]\<rparr>),
            m_remaining_frames_in_gop := g, m_result := Some (compress ?c (frame_points src) ts)\<rparr>)"
          and c: "pc_dangling w1 = pc_dangling w - 1" "points_dangling w1 = points_dangling w"
          by (auto simp: Let_def)
        have "coded ?c = coded_frames e"
          by (simp add: adapt_resolution_def current_codec_def coded_frames_def alloc_encoder_def
              split: option.split)
        moreover have "w' = w1" "e' = e\<lparr>m_queue_encoder := q,
            m_encoder := Some (?c\<lparr>coded := coded ?c @ [(frame_points src, ts)]\<rparr>),
            m_remaining_frames_in_gop := g, m_result := Some (compress ?c (frame_points src) ts),
            m_thread_encoder := Some At_loop\<rparr>"
          using assms(1) th by (simp_all add: encode_thread_def r)
        ultimately show ?thesis using th Cons Some ob c
          by (intro cloud [of src ts cs q "?c\<lparr>coded := coded ?c @ [(frame_points src, ts)]\<rparr>"]) auto
      qed
    qed
  qed
qed

lemma selected_made [simp]: "the (m_pc (made_from dist (Some src) ts cs)) = src"
  by simp


lemma coded_frames_update [simp]:
  "coded_frames (e\<lparr>m_thread_tilefilter := x\<rparr>) = coded_frames e"
  "coded_frames (e\<lparr>m_thread_encoder := x\<rparr>) = coded_frames e"
  "coded_frames (e\<lparr>m_queue_tilefilter := q\<rparr>) = coded_frames e"
  "coded_frames (e\<lparr>m_queue_encoder := q\<rparr>) = coded_frames e"
  "coded_frames (e\<lparr>m_alive := b\<rparr>) = coded_frames e"
  "coded_frames (e\<lparr>m_use_threads := b\<rparr>) = coded_frames e"
  "coded_frames (e\<lparr>m_remaining_frames_in_gop := g\<rparr>) = coded_frames e"
  "coded_frames (e\<lparr>m_result := r\<rparr>) = coded_frames e"
  "coded_frames (e\<lparr>m_encoder := Some c\<rparr>) = coded c"
  by (simp_all add: coded_frames_def)

lemma pipeline_feed:
  assumes "pipeline_ok dist w0 ps s" and "enc_exec dist compress (Feed src ts cs) s = Some s'"
  shows "pipeline_ok dist w0 ps s'"
proof (cases "m_alive (rs_enc s)")
  case True
  let ?e = "rs_enc s"
  have "m_use_threads ?e" using assms(1) True by (simp add: pipeline_ok_def Let_def)
  from feed_threaded [OF True this] obtain w' cs' pc' where
    f: "feed dist compress (made_from dist (Some src) ts cs) (rs_world s, ?e) =
      Inr ((w', ?e\<lparr>m_queue_tilefilter := m_queue_tilefilter ?e @ [Some (made_from dist (Some src) ts cs')]\<rparr>), pc')"
    and c: "pc_dangling w' = pc_dangling (rs_world s) + 1" "points_dangling w' = points_dangling (rs_world s)"
    by blast
  have s': "s' = s\<lparr>rs_world := w', rs_enc := ?e\<lparr>m_queue_tilefilter := m_queue_tilefilter ?e
      @ [Some (made_from dist (Some src) ts cs')]\<rparr>, rs_fed := rs_fed s @ [(src, ts)]\<rparr>"
    using assms(2) True by (simp add: f)
  have "expected ps (rs_fed s @ [(src, ts)]) = expected ps (rs_fed s) @ [(frame_points (selected ps src), ts)]"
    by (simp add: expected_def)
  moreover have "coded_frames ?e @ queued id (m_queue_encoder ?e) @ queued (selected ps) (m_queue_tilefilter ?e)
      @ x = expected ps (rs_fed s) @ x" for x
    using assms(1) by (metis (mono_tags, lifting) append.assoc pipeline_ok_def)
  ultimately show ?thesis
    using assms(1) c by (auto simp: s' pipeline_ok_def Let_def frames_queued_def)
next
  case False
  from feed_closed [OF False] obtain w' where
    "feed dist compress (made_from dist (Some src) ts cs) (rs_world s, rs_enc s) =
      Inr ((w', rs_enc s), made_from dist (Some src) ts cs)"
    and "pc_dangling w' = pc_dangling (rs_world s)" "points_dangling w' = points_dangling (rs_world s)"
    by blast
  with assms False show ?thesis by (auto simp: pipeline_ok_def Let_def)
qed

lemma pipeline_tilefilter:
  assumes "pipeline_ok dist w0 ps s" and "enc_exec dist compress (Tilefilter_thread room) s = Some s'"
  shows "pipeline_ok dist w0 ps s'"
proof -
  obtain w e where st: "tilefilter_thread dist room (rs_world s, rs_enc s) = Some (w, e)"
    and s': "s' = s\<lparr>rs_world := w, rs_enc := e\<rparr>"
    using assms(2) by auto
  have q: "clouds_only dist (m_queue_tilefilter (rs_enc s))"
    using assms(1) by (simp add: pipeline_ok_def Let_def)
  show ?thesis
    using st q
  proof (cases rule: tilefilter_thread_cases)
    case (cloud src ts cs cs' q)
    then show ?thesis using assms(1) by (auto simp: s' pipeline_ok_def Let_def frames_queued_def)
  qed (use assms(1) in \<open>auto simp: s' pipeline_ok_def Let_def frames_queued_def\<close>)
qed

lemma pipeline_encode:
  assumes "pipeline_ok dist w0 ps s" and "enc_exec dist compress Encode_thread s = Some s'"
  shows "pipeline_ok dist w0 ps s'"
proof -
  obtain w e where st: "encode_thread compress (rs_world s, rs_enc s) = Some (w, e)"
    and s': "rs_world s' = w" "rs_enc s' = e" "rs_fed s' = rs_fed s"
    using assms(2) by auto
  have q: "clouds_only dist (m_queue_encoder (rs_enc s))"
    using assms(1) by (simp add: pipeline_ok_def Let_def)
  show ?thesis
    using st q
  proof (cases rule: encode_thread_cases)
    case (cloud src ts cs c r g q)
    then show ?thesis using assms(1) by (auto simp: s' pipeline_ok_def Let_def frames_queued_def)
  qed (use assms(1) in \<open>auto simp: s' pipeline_ok_def Let_def frames_queued_def\<close>)
qed

lemma close_signal_frame [simp]:
  "coded_frames (close_signal r1 r2 e) = coded_frames e"
  "m_params (close_signal r1 r2 e) = m_params e" "\<not> m_alive (close_signal r1 r2 e)"
  "m_result (close_signal r1 r2 e) = m_result e"
  "m_use_threads (close_signal r1 r2 e) = m_use_threads e"
  "m_thread_encoder (close_signal r1 r2 e) = m_thread_encoder e"
  "m_thread_tilefilter (close_signal r1 r2 e) = m_thread_tilefilter e"
  "queued sel (m_queue_encoder (close_signal r1 r2 e)) = queued sel (m_queue_encoder e)"
  "queued sel (m_queue_tilefilter (close_signal r1 r2 e)) = queued sel (m_queue_tilefilter e)"
  "clouds_only dist (m_queue_encoder (close_signal r1 r2 e)) = clouds_only dist (m_queue_encoder e)"
  "clouds_only dist (m_queue_tilefilter (close_signal r1 r2 e)) = clouds_only dist (m_queue_tilefilter e)"
  by (simp_all add: close_signal_def Let_def)

lemma copy_data_frame:
  assumes "copy_data n e = (ok, bytes, e')"
  shows "e' = e \<and> \<not> ok \<or> ok \<and> m_result e = Some bytes \<and> e' = e\<lparr>m_result := None\<rparr>"
  using assms by (auto simp: copy_data_def split: option.splits if_splits)

lemma pipeline_step:
  assumes "pipeline_ok dist w0 ps s" and "enc_exec dist compress a s = Some s'"
  shows "pipeline_ok dist w0 ps s'"
proof (cases a)
  case (Copy n)
  obtain ok bytes e where c: "copy_data n (rs_enc s) = (ok, bytes, e)" by (metis prod_cases3)
  have s': "rs_enc s' = e" "rs_world s' = rs_world s" "rs_fed s' = rs_fed s"
    using assms(2) Copy c by auto
  from copy_data_frame [OF c] show ?thesis
  proof
    assume "e = rs_enc s \<and> \<not> ok"
    with assms(1) s' show ?thesis by (simp add: pipeline_ok_def)
  next
    assume "ok \<and> m_result (rs_enc s) = Some bytes \<and> e = (rs_enc s)\<lparr>m_result := None\<rparr>"
    with assms(1) s' show ?thesis by (simp add: pipeline_ok_def Let_def frames_queued_def)
  qed
next
  case (Close_signal r1 r2)
  with assms(2) have "s' = s\<lparr>rs_enc := close_signal r1 r2 (rs_enc s)\<rparr>" by simp
  with assms(1) show ?thesis by (simp add: pipeline_ok_def Let_def frames_queued_def)
next
  case Close_join
  with assms(2) obtain e where e: "close_join (rs_enc s) = Some e" and s': "s' = s\<lparr>rs_enc := e\<rparr>" by auto
  show ?thesis
  proof (cases "m_use_threads (rs_enc s)")
    case True
    then have "m_thread_encoder (rs_enc s) = Some Finished"
      "e = (rs_enc s)\<lparr>m_thread_encoder := None, m_thread_tilefilter := None, m_use_threads := False\<rparr>"
      using e by (auto simp: close_join_def split: if_splits)
    with assms(1) s' show ?thesis by (simp add: pipeline_ok_def Let_def frames_queued_def)
  next
    case False
    with e assms(1) s' show ?thesis by (simp add: close_join_def pipeline_ok_def)
  qed
next
  case (Feed src ts cs)
  show ?thesis by (rule pipeline_feed [OF assms(1) assms(2) [unfolded Feed]])
next
  case (Tilefilter_thread room)
  show ?thesis by (rule pipeline_tilefilter [OF assms(1) assms(2) [unfolded Tilefilter_thread]])
next
  case Encode_thread
  show ?thesis by (rule pipeline_encode [OF assms(1) assms(2) [unfolded Encode_thread]])
qed

lemma pipeline_start: "pipeline_ok dist w0 ps (start_state w0 ps)"
  by (simp add: pipeline_ok_def start_state_def enable_threads_def new_encoder_impl_def Let_def
      coded_frames_def expected_def frames_queued_def)

lemma pipeline_reachable: "reachable dist compress w0 ps s \<Longrightarrow> pipeline_ok dist w0 ps s"
  by (induction rule: reachable.induct) (auto intro: pipeline_start pipeline_step)

section \<open>Delivery\<close>

text \<open>
  The pending result is the last frame produced, and what was delivered (with the pending
  result after it) is a subsequence of what was produced.
\<close>

definition delivery_ok :: "run_state \<Rightarrow> bool" where
  "delivery_ok s \<longleftrightarrow>
     length (rs_produced s) = length (coded_frames (rs_enc s)) \<and>
     subseq (rs_delivered s @ (case m_result (rs_enc s) of None \<Rightarrow> [] | Some r \<Rightarrow> [r])) (rs_produced s)"

lemma delivery_cong:
  assumes "delivery_ok s" and "m_result (rs_enc s') = m_result (rs_enc s)"
    and "coded_frames (rs_enc s') = coded_frames (rs_enc s)"
    and "rs_produced s' = rs_produced s" and "rs_delivered s' = rs_delivered s"
  shows "delivery_ok s'"
  using assms by (simp add: delivery_ok_def)

lemma subseq_appendD: "subseq (xs @ ys) zs \<Longrightarrow> subseq xs zs"
  by (rule subseq_order.trans [OF subseq_rev_drop_many [OF subseq_order.order_refl]])

lemma subseq_replace_last:
  assumes "subseq (xs @ ys) zs"
  shows "subseq (xs @ [r]) (zs @ [r])"
  using subseq_appendD [OF assms] by simp

lemma delivery_step:
  assumes "delivery_ok s" and "pipeline_ok dist w0 ps s" and "enc_exec dist compress a s = Some s'"
  shows "delivery_ok s'"
proof (cases a)
  case (Feed src ts cs)
  show ?thesis
  proof (cases "m_alive (rs_enc s)")
    case True
    then have "m_use_threads (rs_enc s)" using assms(2) by (simp add: pipeline_ok_def Let_def)
    from feed_threaded [OF True this] obtain w' cs' pc' where
      "feed dist compress (made_from dist (Some src) ts cs) (rs_world s, rs_enc s) =
        Inr ((w', (rs_enc s)\<lparr>m_queue_tilefilter := m_queue_tilefilter (rs_enc s)
          @ [Some (made_from dist (Some src) ts cs')]\<rparr>), pc')"
      by blast
    with assms(3) Feed show ?thesis by (intro delivery_cong [OF assms(1)]) auto
  next
    case False
    from feed_closed [OF False] obtain w' where
      "feed dist compress (made_from dist (Some src) ts cs) (rs_world s, rs_enc s) =
        Inr ((w', rs_enc s), made_from dist (Some src) ts cs)" by blast
    with assms(3) Feed show ?thesis by (intro delivery_cong [OF assms(1)]) auto
  qed
next
  case (Tilefilter_thread room)
  then obtain w e where st: "tilefilter_thread dist room (rs_world s, rs_enc s) = Some (w, e)"
    and s': "s' = s\<lparr>rs_world := w, rs_enc := e\<rparr>"
    using assms(3) by auto
  have q: "clouds_only dist (m_queue_tilefilter (rs_enc s))"
    using assms(2) by (simp add: pipeline_ok_def Let_def)
  have "m_result e = m_result (rs_enc s) \<and> coded_frames e = coded_frames (rs_enc s)"
    using st q by (cases rule: tilefilter_thread_cases) (auto simp: tilefilter_exit_def)
  with assms(1) show ?thesis by (auto simp: s' intro: delivery_cong [OF assms(1)])
next
  case Encode_thread
  then obtain w e where st: "encode_thread compress (rs_world s, rs_enc s) = Some (w, e)"
    and s': "rs_enc s' = e" "rs_delivered s' = rs_delivered s"
      "rs_produced s' = rs_produced s @
         (if length (coded_frames e) = length (coded_frames (rs_enc s)) then []
          else case m_result e of None \<Rightarrow> [] | Some r \<Rightarrow> [r])"
    using assms(3) by auto
  have q: "clouds_only dist (m_queue_encoder (rs_enc s))"
    using assms(2) by (simp add: pipeline_ok_def Let_def)
  from st q show ?thesis
  proof (cases rule: encode_thread_cases)
    case (cloud src ts cs c r g q)
    then show ?thesis
      using assms(1) s' by (auto simp: delivery_ok_def dest: subseq_appendD)
  qed (use s' in \<open>auto simp: encode_exit_def intro: delivery_cong [OF assms(1)]\<close>)
next
  case (Copy n)
  with assms(1,3) show ?thesis
    by (auto simp: delivery_ok_def copy_data_def split: option.splits if_splits dest: subseq_appendD)
next
  case (Close_signal r1 r2)
  with assms(3) show ?thesis by (intro delivery_cong [OF assms(1)]) auto
next
  case Close_join
  with assms(1,3) show ?thesis
    by (auto simp: close_join_def intro: delivery_cong [OF assms(1)] split: if_splits)
qed

lemma delivery_reachable: "reachable dist compress w0 ps s \<Longrightarrow> delivery_ok s"
proof (induction rule: reachable.induct)
  case reachable_init
  then show ?case
    by (simp add: delivery_ok_def start_state_def enable_threads_def new_encoder_impl_def coded_frames_def)
next
  case (reachable_step s a s')
  then show ?case using delivery_step pipeline_reachable by blast
qed


section \<open>Closing\<close>

definition closing :: "encoder \<Rightarrow> bool" where
  "closing e \<longleftrightarrow> \<not> m_alive e \<and>
     (m_thread_tilefilter e = Some In_wait \<longrightarrow> m_queue_tilefilter e \<noteq> []) \<and>
     (m_thread_encoder e = Some In_wait \<longrightarrow> m_queue_encoder e \<noteq> [])"

fun pc_rank :: "thread_pc option \<Rightarrow> nat" where
  "pc_rank (Some In_wait) = 2"
| "pc_rank (Some At_loop) = 1"
| "pc_rank (Some Finished) = 0"
| "pc_rank None = 0"

definition close_rank :: "encoder \<Rightarrow> nat" where
  "close_rank e = pc_rank (m_thread_tilefilter e) + pc_rank (m_thread_encoder e)"

lemma close_signal_closing: "m_use_threads e \<Longrightarrow> closing (close_signal r1 r2 e)"
  by (auto simp: closing_def close_signal_def try_enqueue_def Let_def)

lemma closing_step:
  assumes "closing (rs_enc s)" and "pipeline_ok dist w0 ps s"
    and "enc_exec dist compress a s = Some s'" and "a = Encode_thread \<or> a = Tilefilter_thread room"
  shows "closing (rs_enc s') \<and> close_rank (rs_enc s') < close_rank (rs_enc s) \<and>
    m_use_threads (rs_enc s') = m_use_threads (rs_enc s)"
  using assms(4)
proof
  assume "a = Tilefilter_thread room"
  with assms(3) obtain w e where st: "tilefilter_thread dist room (rs_world s, rs_enc s) = Some (w, e)"
    and s': "rs_enc s' = e" by auto
  have q: "clouds_only dist (m_queue_tilefilter (rs_enc s))"
    using assms(2) by (simp add: pipeline_ok_def Let_def)
  from st q show ?thesis
    by (cases rule: tilefilter_thread_cases)
      (use assms(1) s' in \<open>auto simp: closing_def close_rank_def tilefilter_exit_def try_enqueue_def\<close>)
next
  assume "a = Encode_thread"
  with assms(3) obtain w e where st: "encode_thread compress (rs_world s, rs_enc s) = Some (w, e)"
    and s': "rs_enc s' = e" by auto
  have q: "clouds_only dist (m_queue_encoder (rs_enc s))"
    using assms(2) by (simp add: pipeline_ok_def Let_def)
  from st q show ?thesis
    by (cases rule: encode_thread_cases)
      (use assms(1) s' in \<open>auto simp: closing_def close_rank_def encode_exit_def\<close>)
qed

lemma tilefilter_enabled:
  assumes "clouds_only dist (m_queue_tilefilter e)"
    and "m_thread_tilefilter e = Some At_loop \<or> m_thread_tilefilter e = Some In_wait \<and> m_queue_tilefilter e \<noteq> []"
  shows "tilefilter_thread dist room (w, e) \<noteq> None"
proof (cases "m_thread_tilefilter e = Some At_loop")
  case True
  then show ?thesis by (simp add: tilefilter_thread_def)
next
  case False
  with assms(2) obtain x q where q: "m_queue_tilefilter e = x # q" and th: "m_thread_tilefilter e = Some In_wait"
    by (auto simp: neq_Nil_conv)
  show ?thesis
  proof (cases x)
    case None
    with q th show ?thesis by (simp add: tilefilter_thread_def run_single_tilefilter_def)
  next
    case (Some ob)
    with q assms(1) obtain src ts cs where "m_queue_tilefilter e = Some (made_from dist (Some src) ts cs) # q"
      by auto
    from tilefilter_stage [OF this, of w] th show ?thesis by (auto simp: tilefilter_thread_def)
  qed
qed

lemma encode_enabled:
  assumes "clouds_only dist (m_queue_encoder e)"
    and "m_thread_encoder e = Some At_loop \<or> m_thread_encoder e = Some In_wait \<and> m_queue_encoder e \<noteq> []"
  shows "encode_thread compress (w, e) \<noteq> None"
proof (cases "m_thread_encoder e = Some At_loop")
  case True
  then show ?thesis by (simp add: encode_thread_def)
next
  case False
  with assms(2) obtain x q where q: "m_queue_encoder e = x # q" and th: "m_thread_encoder e = Some In_wait"
    by (auto simp: neq_Nil_conv)
  show ?thesis
  proof (cases x)
    case None
    with q th show ?thesis by (simp add: encode_thread_def run_single_encode_def)
  next
    case (Some ob)
    with q assms(1) obtain src ts cs where "m_queue_encoder e = Some (made_from dist (Some src) ts cs) # q"
      by auto
    from encode_stage [OF this, of compress w] th show ?thesis by (auto simp: encode_thread_def Let_def)
  qed
qed

lemma closing_progress:
  assumes "closing (rs_enc s)" and "pipeline_ok dist w0 ps s" and "m_use_threads (rs_enc s)"
  shows "close_join (rs_enc s) \<noteq> None \<or>
    enc_exec dist compress Encode_thread s \<noteq> None \<or> enc_exec dist compress (Tilefilter_thread room) s \<noteq> None"
proof (cases "m_thread_encoder (rs_enc s) = Some Finished \<and> m_thread_tilefilter (rs_enc s) = Some Finished")
  case True
  then show ?thesis by (simp add: close_join_def)
next
  case False
  obtain p1 p2 where p: "m_thread_encoder (rs_enc s) = Some p1" "m_thread_tilefilter (rs_enc s) = Some p2"
    using assms(2,3) by (auto simp: pipeline_ok_def Let_def)
  have q: "clouds_only dist (m_queue_encoder (rs_enc s))" "clouds_only dist (m_queue_tilefilter (rs_enc s))"
    using assms(2) by (simp_all add: pipeline_ok_def Let_def)
  from False p assms(1) have "p1 \<noteq> Finished \<and> (p1 = In_wait \<longrightarrow> m_queue_encoder (rs_enc s) \<noteq> [])
      \<or> p2 \<noteq> Finished \<and> (p2 = In_wait \<longrightarrow> m_queue_tilefilter (rs_enc s) \<noteq> [])"
    by (auto simp: closing_def)
  then show ?thesis
    using encode_enabled [OF q(1), of compress "rs_world s"] tilefilter_enabled [OF q(2), of room "rs_world s"] p
    by (cases p1; cases p2) auto
qed

definition thread_action :: "action \<Rightarrow> bool" where
  "thread_action a \<longleftrightarrow> (case a of Encode_thread \<Rightarrow> True | Tilefilter_thread _ \<Rightarrow> True | _ \<Rightarrow> False)"

lemma closing_run:
  assumes "closing (rs_enc s)" and "pipeline_ok dist w0 ps s"
    and "list_all thread_action as" and "enc_run dist compress as s = Some s'"
  shows "closing (rs_enc s') \<and> pipeline_ok dist w0 ps s' \<and>
    length as + close_rank (rs_enc s') \<le> close_rank (rs_enc s) \<and>
    m_use_threads (rs_enc s') = m_use_threads (rs_enc s)"
  using assms
proof (induction as arbitrary: s)
  case Nil
  then show ?case by simp
next
  case (Cons a as)
  then obtain s1 where s1: "enc_exec dist compress a s = Some s1" "enc_run dist compress as s1 = Some s'"
    by (auto split: option.splits)
  have "\<exists>room. a = Encode_thread \<or> a = Tilefilter_thread room"
    using Cons.prems(3) by (auto simp: thread_action_def split: action.splits)
  with closing_step [OF Cons.prems(1,2) s1(1)] have c: "closing (rs_enc s1)"
      "close_rank (rs_enc s1) < close_rank (rs_enc s)" "m_use_threads (rs_enc s1) = m_use_threads (rs_enc s)"
    by auto
  have "pipeline_ok dist w0 ps s1" by (rule pipeline_step [OF Cons.prems(2) s1(1)])
  from Cons.IH [OF c(1) this _ s1(2)] Cons.prems(3) c show ?case by auto
qed

section \<open>A sample run\<close>

definition sample_actions :: "action list" where
  "sample_actions =
     [Feed [point_at 1 1, point_at 2 2] 5 0, Tilefilter_thread False, Tilefilter_thread False,
      Encode_thread, Encode_thread, Feed [point_at 3 1] 6 0, Copy 100]"

lemma sample_run:
  obtains s where "enc_run (\<lambda>_ _. 0) tag_compress sample_actions (start_state (world_init None 0) sample_params) = Some s"
    "rs_delivered s = [[1, 5]]" "frames_queued (rs_enc s) = 1" "m_use_threads (rs_enc s)"
    "coded_frames (rs_enc s) = [([point_at 1 1], 5)]"
proof -
  let ?r = "enc_run (\<lambda>_ _. 0) tag_compress sample_actions (start_state (world_init None 0) sample_params)"
  have "case ?r of None \<Rightarrow> False
    | Some s \<Rightarrow> rs_delivered s = [[1, 5]] \<and> frames_queued (rs_enc s) = 1 \<and> m_use_threads (rs_enc s) \<and>
        coded_frames (rs_enc s) = [([point_at 1 1], 5)]"
    by code_simp
  then show ?thesis by (cases ?r) (auto intro: that)
qed

lemma sample_reachable:
  obtains s where "reachable (\<lambda>_ _. 0) tag_compress (world_init None 0) sample_params s"
    "rs_delivered s = [[1, 5]]" "frames_queued (rs_enc s) = 1" "m_use_threads (rs_enc s)"
    "coded_frames (rs_enc s) = [([point_at 1 1], 5)]"
  by (rule sample_run) (blast intro: enc_run_reachable reachable_init)

section \<open>Properties\<close>



text \<open>
  C5. \<open>copy_data\<close> delivers compressed frames in the order they were produced and each at most
  once; frames may be skipped (a new result replaces one nobody fetched), never repeated or
  reordered.
\<close>

theorem threaded_encoder_delivers_in_order:
  assumes "reachable dist compress w0 ps s"
  shows "subseq (rs_delivered s) (rs_produced s) \<and>
    length (rs_produced s) = length (coded_frames (rs_enc s))"
  using delivery_reachable [OF assms] by (auto simp: delivery_ok_def dest: subseq_appendD)

theorem threaded_encoder_delivers_in_order_witness:
  "\<exists>s. reachable (\<lambda>_ _. 0) tag_compress (world_init None 0) sample_params s \<and>
     rs_delivered s = [[1, 5]] \<and> rs_produced s = [[1, 5]]"
proof -
  obtain s where s: "reachable (\<lambda>_ _. 0) tag_compress (world_init None 0) sample_params s"
    "rs_delivered s = [[1, 5]]" "coded_frames (rs_enc s) = [([point_at 1 1], 5)]" by (rule sample_reachable)
  from threaded_encoder_delivers_in_order [OF s(1)] s show ?thesis
    by (auto simp: length_Suc_conv split: if_splits)
qed

text \<open>
  The clouds an encoder holds are exactly those in its queues: in every reachable state
  the live PCL clouds are the client's plus one per queued frame. In particular frames still
  queued when \<open>close\<close> stops the threads are never freed.
\<close>

theorem threaded_encoder_holds_queued_frames:
  assumes "reachable dist compress w0 ps s"
  shows "pc_dangling (rs_world s) = pc_dangling w0 + int (frames_queued (rs_enc s)) \<and>
    points_dangling (rs_world s) = points_dangling w0"
  using pipeline_reachable [OF assms] by (simp add: pipeline_ok_def Let_def)

theorem threaded_encoder_holds_queued_frames_witness:
  "\<exists>s. reachable (\<lambda>_ _. 0) tag_compress (world_init None 0) sample_params s \<and>
     pc_dangling (rs_world s) = pc_dangling (world_init None 0) + 1"
proof -
  obtain s where s: "reachable (\<lambda>_ _. 0) tag_compress (world_init None 0) sample_params s"
    "frames_queued (rs_enc s) = 1" by (rule sample_reachable)
  from threaded_encoder_holds_queued_frames [OF s(1)] s show ?thesis by auto
qed




end
