(* ===== verification/CodecGroups.thy ===== *)
theory CodecGroups
  imports EncoderThreads
begin

text \<open>
  \<open>cwipc_codec/src/cwipc_codec.cpp\<close>, second part: the round-robin parallel encoder, the
  encoder factory, encoder groups, and the decoder around the PCL-based codec, which is the
  parameter \<open>decode\<close>.
\<close>

section \<open>cwipc_multithreaded_encoder_impl\<close>

record multi_encoder =
  me_encoders :: "encoder list"
  me_nencoder :: nat
  me_next_in :: nat
  me_next_out :: nat

definition new_multi_encoder :: "encoder_params \<Rightarrow> multi_encoder" where
  "new_multi_encoder ps =
     (let n = nat (n_parallel ps)
      in \<lparr>me_encoders = replicate n (enable_threads (new_encoder_impl ps)), me_nencoder = n,
          me_next_in = 0, me_next_out = 0\<rparr>)"

definition multi_feed ::
  "distance \<Rightarrow> compressor \<Rightarrow> cwipc_obj \<Rightarrow> world \<times> multi_encoder
   \<Rightarrow> fault + (world \<times> multi_encoder) \<times> cwipc_obj" where
  "multi_feed dist compress pc s =
     (case s of (w, me) \<Rightarrow>
      if \<not> me_next_in me < length (me_encoders me) then Inl Out_of_bounds
      else case feed dist compress pc (w, me_encoders me ! me_next_in me) of
             Inl f \<Rightarrow> Inl f
           | Inr ((w1, e), pc1) \<Rightarrow>
               if me_nencoder me = 0 then Inl Div_by_zero
               else Inr ((w1, me\<lparr>me_encoders := (me_encoders me)[me_next_in me := e],
                               me_next_in := (me_next_in me + 1) mod me_nencoder me\<rparr>), pc1))"

definition multi_eof :: "multi_encoder \<Rightarrow> bool" where
  "multi_eof me = (me_nencoder me = 0 \<or> encoder_eof (me_encoders me ! me_next_out me))"

definition multi_available :: "bool \<Rightarrow> multi_encoder \<Rightarrow> fault + bool" where
  "multi_available wait_b me =
     (if me_nencoder me = 0 then Inr False else encoder_available wait_b (me_encoders me ! me_next_out me))"

definition multi_at_gop_boundary :: "multi_encoder \<Rightarrow> bool" where
  "multi_at_gop_boundary me = (me_nencoder me = 0 \<or> at_gop_boundary (me_encoders me ! me_next_out me))"

definition multi_get_encoded_size :: "multi_encoder \<Rightarrow> u64" where
  "multi_get_encoded_size me =
     (if me_nencoder me = 0 then 0 else get_encoded_size (me_encoders me ! me_next_out me))"

text \<open>\<open>m_next_out\<close> is advanced before the copy, and stays advanced when the copy fails.\<close>

definition multi_copy_data :: "u64 \<Rightarrow> multi_encoder \<Rightarrow> bool \<times> u8 list \<times> multi_encoder" where
  "multi_copy_data bufferSize me =
     (if me_nencoder me = 0 then (False, [], me)
      else let cur = me_next_out me;
               (ok, bytes, e) = copy_data bufferSize (me_encoders me ! cur)
           in (ok, bytes, me\<lparr>me_next_out := (me_next_out me + 1) mod me_nencoder me,
                            me_encoders := (me_encoders me)[cur := e]\<rparr>))"

definition multi_free :: "multi_encoder \<Rightarrow> multi_encoder" where
  "multi_free me = me\<lparr>me_encoders := [], me_nencoder := 0\<rparr>"

section \<open>The factory\<close>

datatype any_encoder = Single encoder | Multi multi_encoder

definition CWIPC_ENCODER_PARAM_VERSION :: u32 where "CWIPC_ENCODER_PARAM_VERSION = 0x20220607"
definition CWIPC_ENCODER_PARAM_VERSION_OLD :: u32 where "CWIPC_ENCODER_PARAM_VERSION_OLD = 0x20190506"

definition default_params :: encoder_params where
  "default_params = \<lparr>do_inter_frame = False, gop_size = 1, exp_factor = 0x3F800000, octree_bits = 9,
     jpeg_quality = 85, macroblock_size = 16, tilenumber = 0, voxelsize = 0, n_parallel = 0\<rparr>"

text \<open>\<open>"0x%08x"\<close> of a 32-bit value.\<close>

definition hex08_u32 :: "u32 \<Rightarrow> string" where "hex08_u32 v = hex08 (ucast v)"

definition cwipc_new_encoder ::
  "u32 \<Rightarrow> encoder_params option \<Rightarrow> nat option \<Rightarrow> u64 \<Rightarrow> world \<Rightarrow> any_encoder option \<times> world" where
  "cwipc_new_encoder version params em v w =
     (if api_version_bad v then (None, api_version_error ''cwipc_new_encoder'' v em w)
      else if version \<noteq> CWIPC_ENCODER_PARAM_VERSION \<and> version \<noteq> CWIPC_ENCODER_PARAM_VERSION_OLD
      then (None, set_error_message em (snprintf_buf 1024
             (''cwipc_new_encoder: incorrect encoder param version 0x'' @ hex08_u32 version
              @ '' expected 0x'' @ hex08_u32 CWIPC_ENCODER_PARAM_VERSION
              @ '' or 0x'' @ hex08_u32 CWIPC_ENCODER_PARAM_VERSION_OLD)) w)
      else
        let w1 = cwipc_log_set_errorbuf em w;
            ps = (case params of None \<Rightarrow> default_params | Some ps \<Rightarrow> ps)
        in if do_inter_frame ps
           then (None, fail_with ''cwipc_new_encoder'' ''inter-frame encoding not supported in this version'' w1)
           else if gop_size ps \<noteq> 1
           then (None, fail_with ''cwipc_new_encoder'' ''gop_size != 1 not supported in this version'' w1)
           else (Some (if version = CWIPC_ENCODER_PARAM_VERSION \<and> 1 < n_parallel ps
                       then Multi (new_multi_encoder ps) else Single (new_encoder_impl ps)),
                 cwipc_log_set_errorbuf None w1))"

section \<open>cwipc_encodergroup_impl\<close>

record encodergroup =
  eg_encoders :: "any_encoder list"
  eg_voxelsize :: f32

definition new_encodergroup :: encodergroup where
  "new_encodergroup = \<lparr>eg_encoders = [], eg_voxelsize = 0xBF800000\<rparr>"

definition cwipc_new_encodergroup ::
  "nat option \<Rightarrow> u64 \<Rightarrow> world \<Rightarrow> encodergroup option \<times> world" where
  "cwipc_new_encodergroup em v w =
     (if api_version_bad v then (None, api_version_error ''cwipc_new_encodergroup'' v em w)
      else (Some new_encodergroup, cwipc_log_set_errorbuf None w))"

text \<open>The static cast to \<open>cwipc_encoder_impl*\<close> is wrong for the parallel encoder.\<close>

definition enable_threads_any :: "any_encoder \<Rightarrow> fault + any_encoder" where
  "enable_threads_any e = (case e of Single s \<Rightarrow> Inr (Single (enable_threads s)) | Multi _ \<Rightarrow> Inl Bad_cast)"

text \<open>
  Adding the new encoder: with threads as soon as there is more than one.
\<close>

definition add_to_group :: "any_encoder \<Rightarrow> any_encoder list \<Rightarrow> fault + any_encoder list" where
  "add_to_group new encs =
     (case (case encs of [e] \<Rightarrow> map_sum id (\<lambda>e'. [e']) (enable_threads_any e) | _ \<Rightarrow> Inr encs) of
        Inl f \<Rightarrow> Inl f
      | Inr encs1 \<Rightarrow>
          if encs1 = [] then Inr [new]
          else map_sum id (\<lambda>n. encs1 @ [n]) (enable_threads_any new))"

definition addencoder ::
  "u32 \<Rightarrow> encoder_params option \<Rightarrow> nat option \<Rightarrow> world \<times> encodergroup
   \<Rightarrow> fault + any_encoder option \<times> world \<times> encodergroup" where
  "addencoder version params em s =
     (case s of (w, g) \<Rightarrow>
      let w1 = cwipc_log_set_errorbuf em w in
      case params of
        None \<Rightarrow> Inl Null_deref
      | Some ps \<Rightarrow>
          if f32_le f32_zero (eg_voxelsize g) \<and> \<not> f32_eq (eg_voxelsize g) (voxelsize ps)
          then Inr (None, fail_with ''cwipc_encodergroup''
                            ''all encoders in a group must have the same voxelsize'' w1, g)
          else
            let g1 = g\<lparr>eg_voxelsize := voxelsize ps\<rparr> in
            case cwipc_new_encoder version params em CWIPC_API_VERSION w1 of
              (None, w2) \<Rightarrow>
                let w3 = (case em of None \<Rightarrow> w2
                          | Some a \<Rightarrow> if errorbufs w2 a = None
                                     then cwipc_log CWIPC_LOG_LEVEL_ERROR ''cwipc_encodergroup::addencoder''
                                            ''unspecified error'' w2 else w2)
                in Inr (None, cwipc_log_set_errorbuf None w3, g1)
            | (Some new, w2) \<Rightarrow>
                (case add_to_group new (eg_encoders g1) of
                   Inl f \<Rightarrow> Inl f
                 | Inr encs \<Rightarrow> Inr (Some (last encs), cwipc_log_set_errorbuf None w2,
                                   g1\<lparr>eg_encoders := encs\<rparr>)))"

definition feed_any ::
  "distance \<Rightarrow> compressor \<Rightarrow> cwipc_obj \<Rightarrow> world \<times> any_encoder
   \<Rightarrow> fault + (world \<times> any_encoder) \<times> cwipc_obj" where
  "feed_any dist compress pc s =
     (case s of
        (w, Single e) \<Rightarrow> map_sum id (\<lambda>((w', e'), pc'). ((w', Single e'), pc')) (feed dist compress pc (w, e))
      | (w, Multi m) \<Rightarrow> map_sum id (\<lambda>((w', m'), pc'). ((w', Multi m'), pc')) (multi_feed dist compress pc (w, m)))"

fun feed_all ::
  "distance \<Rightarrow> compressor \<Rightarrow> any_encoder list \<Rightarrow> world \<Rightarrow> cwipc_obj
   \<Rightarrow> fault + any_encoder list \<times> world \<times> cwipc_obj" where
  "feed_all dist compress [] w pc = Inr ([], w, pc)"
| "feed_all dist compress (e # es) w pc =
     (case feed_any dist compress pc (w, e) of
        Inl f \<Rightarrow> Inl f
      | Inr ((w1, e'), pc1) \<Rightarrow>
          map_sum id (\<lambda>(es', w', pc'). (e' # es', w', pc')) (feed_all dist compress es w1 pc1))"

text \<open>The last component is the caller's cloud.\<close>

definition group_feed ::
  "distance \<Rightarrow> voxel_grid \<Rightarrow> octree \<Rightarrow> compressor \<Rightarrow> cwipc_obj \<Rightarrow> world \<times> encodergroup
   \<Rightarrow> fault + (world \<times> encodergroup) \<times> cwipc_obj" where
  "group_feed dist grid octree compress pc s =
     (case s of (w, g) \<Rightarrow>
      case (if f32_lt f32_zero (eg_voxelsize g)
            then cwipc_downsample dist grid octree (eg_voxelsize g) w (Some pc)
            else case shallowcopy dist w pc of (newpc, w1, pc1) \<Rightarrow> Inr (Some newpc, w1, Some pc1)) of
        Inl f \<Rightarrow> Inl f
      | Inr (rv, w1, pc') \<Rightarrow>
          let pc1 = (case pc' of None \<Rightarrow> pc | Some p \<Rightarrow> p) in
          case rv of
            None \<Rightarrow> Inr ((cwipc_log CWIPC_LOG_LEVEL_ERROR ''cwipc_encodergroup'' ''downsampling failed'' w1, g), pc1)
          | Some newpc \<Rightarrow>
              (case feed_all dist compress (eg_encoders g) w1 newpc of
                 Inl f \<Rightarrow> Inl f
               | Inr (encs, w2, newpc') \<Rightarrow>
                   Inr ((fst (pc_free w2 newpc'), g\<lparr>eg_encoders := encs\<rparr>), pc1)))"

section \<open>cwipc_decoder_impl\<close>

text \<open>
  The codec's decoder is a function of the buffers it has seen before and the new one: its
  result flag, the points, the time stamp and the resolution it read.
\<close>

type_synonym decompressor = "u8 list list \<Rightarrow> u8 list \<Rightarrow> bool \<times> pcl_point list \<times> u64 \<times> f32"

record decoder =
  dec_result :: "cwipc_obj option"
  dec_seen :: "u8 list list"
  dec_alive :: bool

definition new_decoder_impl :: decoder where
  "new_decoder_impl = \<lparr>dec_result = None, dec_seen = [], dec_alive = True\<rparr>"

definition cwipc_new_decoder :: "nat option \<Rightarrow> u64 \<Rightarrow> world \<Rightarrow> decoder option \<times> world" where
  "cwipc_new_decoder em v w =
     (if api_version_bad v then (None, api_version_error ''cwipc_new_decoder'' v em w)
      else (Some new_decoder_impl, cwipc_log_set_errorbuf None w))"

definition decoder_close :: "decoder \<Rightarrow> decoder" where
  "decoder_close d = d\<lparr>dec_alive := False\<rparr>"

definition decoder_eof :: "decoder \<Rightarrow> bool" where "decoder_eof d = (\<not> dec_alive d)"

definition decoder_seek :: "u64 \<Rightarrow> decoder \<Rightarrow> bool" where "decoder_seek ts d = False"

text \<open>There is no decoder thread: a wait for a result can only be ended by another client thread.\<close>

definition decoder_available :: "bool \<Rightarrow> decoder \<Rightarrow> fault + bool" where
  "decoder_available wait_b d =
     (if wait_b \<and> dec_result d = None \<and> dec_alive d then Inl Blocks_forever
      else Inr (dec_result d \<noteq> None))"

text \<open>\<open>abs (v) < 0.01\<close>, the double 0.01: floats up to and including the float nearest to it.\<close>

definition near_zero :: "f32 \<Rightarrow> bool" where
  "near_zero v = (f32_mag v \<le> 0x3C23D70A)"

definition looks_empty :: "pcl_point \<Rightarrow> bool" where
  "looks_empty pt \<longleftrightarrow> near_zero (pcl_x pt) \<and> near_zero (pcl_y pt) \<and> near_zero (pcl_z pt) \<and>
     pcl_r pt < 2 \<and> pcl_g pt < 2 \<and> pcl_b pt < 2"

definition decoded_points :: "pcl_point list \<Rightarrow> pcl_point list" where
  "decoded_points pc = (case pc of [pt] \<Rightarrow> if looks_empty pt then [] else pc | _ \<Rightarrow> pc)"

definition decoder_feed ::
  "distance \<Rightarrow> decompressor \<Rightarrow> u8 list \<Rightarrow> world \<times> decoder \<Rightarrow> fault + world \<times> decoder" where
  "decoder_feed dist decode buffer s =
     (case s of (w, d) \<Rightarrow>
      if \<not> dec_alive d
      then Inr (cwipc_log CWIPC_LOG_LEVEL_WARNING ''cwipc_decoder'' ''feed() called after close()'' w, d)
      else
        case decode (dec_seen d) buffer of (ok, decpc, timeStamp, res) \<Rightarrow>
        let d1 = d\<lparr>dec_seen := dec_seen d @ [buffer]\<rparr> in
        if ok
        then map_sum id (\<lambda>(rv, w1). (w1, d1\<lparr>dec_result := rv\<rparr>))
               (filter_result_object dist (Some (decoded_points decpc)) timeStamp res w)
        else Inr (w, d1\<lparr>dec_result := None\<rparr>))"

definition decoder_get :: "decoder \<Rightarrow> cwipc_obj option \<times> decoder" where
  "decoder_get d = (dec_result d, d\<lparr>dec_result := None\<rparr>)"

section \<open>Groups\<close>

definition params_of :: "any_encoder \<Rightarrow> encoder_params list" where
  "params_of e = (case e of Single s \<Rightarrow> [m_params s] | Multi m \<Rightarrow> map m_params (me_encoders m))"

fun add_all ::
  "u32 \<Rightarrow> nat option \<Rightarrow> encoder_params list \<Rightarrow> world \<times> encodergroup \<Rightarrow> fault + world \<times> encodergroup" where
  "add_all version em [] s = Inr s"
| "add_all version em (ps # pss) s =
     (case addencoder version (Some ps) em s of
        Inl f \<Rightarrow> Inl f
      | Inr (_, s') \<Rightarrow> add_all version em pss s')"

lemma f32_eq_sym: "f32_eq a b \<Longrightarrow> f32_eq b a" by (simp add: f32_eq_def)
lemma f32_eq_trans: "f32_eq a b \<Longrightarrow> f32_eq b c \<Longrightarrow> f32_eq a c" by (simp add: f32_eq_def)
lemma f32_eq_refl: "f32_le a b \<Longrightarrow> f32_eq b b" by (simp add: f32_eq_def f32_le_def)

lemma enable_threads_params [simp]: "m_params (enable_threads e) = m_params e"
  by (simp add: enable_threads_def)

lemma enable_threads_any_params:
  "enable_threads_any e = Inr e' \<Longrightarrow> params_of e' = params_of e"
  by (auto simp: enable_threads_any_def params_of_def split: any_encoder.splits)

lemma add_to_group_params:
  assumes "add_to_group new encs = Inr encs'"
  shows "concat (map params_of encs') = concat (map params_of encs) @ params_of new"
proof -
  obtain encs1 where e1: "(case encs of [e] \<Rightarrow> map_sum id (\<lambda>e'. [e']) (enable_threads_any e) | _ \<Rightarrow> Inr encs)
      = Inr encs1" and n: "(if encs1 = [] then Inr [new]
          else map_sum id (\<lambda>n. encs1 @ [n]) (enable_threads_any new)) = Inr encs'"
    using assms by (auto simp: add_to_group_def split: sum.splits)
  have "concat (map params_of encs1) = concat (map params_of encs)"
    using e1 by (cases encs rule: remdups_adj.cases)
      (auto simp: map_sum_def dest: enable_threads_any_params split: sum.splits)
  with n show ?thesis
    by (auto simp: map_sum_def dest: enable_threads_any_params split: if_splits sum.splits)
qed

lemma new_encoder_params:
  "cwipc_new_encoder version (Some ps) em v w = (Some e, w') \<Longrightarrow> set (params_of e) \<subseteq> {ps}"
  by (auto simp: cwipc_new_encoder_def Let_def params_of_def new_encoder_impl_def new_multi_encoder_def
      split: if_splits)

definition group_ok :: "encodergroup \<Rightarrow> bool" where
  "group_ok g \<longleftrightarrow> (\<forall>ps \<in> set (concat (map params_of (eg_encoders g))). f32_eq (voxelsize ps) (eg_voxelsize g)) \<and>
     (eg_encoders g = [] \<or> f32_le f32_zero (eg_voxelsize g))"

lemma addencoder_ok:
  assumes "group_ok g" and "f32_le f32_zero (voxelsize ps)"
    and "addencoder version (Some ps) em (w, g) = Inr (res, w', g')"
  shows "group_ok g'"
proof -
  let ?clash = "f32_le f32_zero (eg_voxelsize g) \<and> \<not> f32_eq (eg_voxelsize g) (voxelsize ps)"
  let ?g1 = "g\<lparr>eg_voxelsize := voxelsize ps\<rparr>"
  show ?thesis
  proof (cases ?clash)
    case True
    with assms(3) have "g' = g" by (simp add: addencoder_def Let_def)
    with assms(1) show ?thesis by simp
  next
    case False
    have g1: "group_ok ?g1"
    proof (cases "eg_encoders g = []")
      case True
      then show ?thesis by (simp add: group_ok_def)
    next
      case ne: False
      with assms(1) False have "f32_eq (eg_voxelsize g) (voxelsize ps)" by (auto simp: group_ok_def)
      with assms(1,2) show ?thesis by (auto simp: group_ok_def intro: f32_eq_trans)
    qed
    show ?thesis
    proof (cases "fst (cwipc_new_encoder version (Some ps) em CWIPC_API_VERSION (cwipc_log_set_errorbuf em w))")
      case None
      with False assms(3) have "g' = ?g1"
        by (auto simp: addencoder_def Let_def split: prod.splits)
      with g1 show ?thesis by simp
    next
      case (Some new)
      with False assms(3) obtain w2 encs where
        new: "cwipc_new_encoder version (Some ps) em CWIPC_API_VERSION (cwipc_log_set_errorbuf em w) = (Some new, w2)"
        and add: "add_to_group new (eg_encoders ?g1) = Inr encs" and g': "g' = ?g1\<lparr>eg_encoders := encs\<rparr>"
        by (auto simp: addencoder_def Let_def split: prod.splits sum.splits)
      from add_to_group_params [OF add] new_encoder_params [OF new] g1 assms(2)
      show ?thesis by (auto simp: g' group_ok_def intro: f32_eq_refl)
    qed
  qed
qed

section \<open>Properties\<close>

text \<open>
  C38. All encoders of a group have the group's voxel size, however many encoders are added
  and whichever additions fail, as long as no voxel size is negative.
\<close>

theorem group_voxelsize_uniform:
  assumes "add_all version em pss (w, new_encodergroup) = Inr (w', g)"
    and "\<forall>ps \<in> set pss. f32_le f32_zero (voxelsize ps)"
  shows "\<forall>e \<in> set (eg_encoders g). \<forall>ps \<in> set (params_of e). f32_eq (voxelsize ps) (eg_voxelsize g)"
proof -
  have "group_ok g0 \<Longrightarrow> add_all version em pss (w0, g0) = Inr (w', g) \<Longrightarrow> group_ok g" for w0 g0
    using assms(2)
  proof (induction pss arbitrary: w0 g0)
    case (Cons ps pss)
    then obtain r w1 g1 where "addencoder version (Some ps) em (w0, g0) = Inr (r, w1, g1)"
        "add_all version em pss (w1, g1) = Inr (w', g)"
      by (auto split: sum.splits)
    with Cons addencoder_ok [of g0 ps version em w0 r w1 g1] show ?case by auto
  qed simp
  from this [OF _ assms(1)] show ?thesis by (auto simp: group_ok_def new_encodergroup_def)
qed

theorem group_voxelsize_uniform_witness:
  "\<exists>w' g. add_all CWIPC_ENCODER_PARAM_VERSION None
      [sample_params, sample_params\<lparr>tilenumber := 2\<rparr>, sample_params\<lparr>voxelsize := 0x3F000000\<rparr>]
      (world_init None 0, new_encodergroup) = Inr (w', g) \<and> length (eg_encoders g) = 2 \<and>
    (\<forall>e \<in> set (eg_encoders g). \<forall>ps \<in> set (params_of e). f32_eq (voxelsize ps) (eg_voxelsize g))"
proof -
  let ?pss = "[sample_params, sample_params\<lparr>tilenumber := 2\<rparr>, sample_params\<lparr>voxelsize := 0x3F000000\<rparr>]"
  let ?r = "add_all CWIPC_ENCODER_PARAM_VERSION None ?pss (world_init None 0, new_encodergroup)"
  have "case ?r of Inl _ \<Rightarrow> False | Inr (_, g) \<Rightarrow> length (eg_encoders g) = 2" by code_simp
  then obtain w' g where r: "?r = Inr (w', g)" "length (eg_encoders g) = 2"
    by (auto split: sum.splits)
  have "\<forall>ps \<in> set ?pss. f32_le f32_zero (voxelsize ps)"
    by (simp add: sample_params_def f32_defs f32_zero_def)
  from group_voxelsize_uniform [OF r(1) this] r show ?thesis by blast
qed

text \<open>
  A failed \<open>addencoder\<close> still fixes the group's voxel size: after trying an encoder with
  unsupported parameters, valid encoders with another voxel size are refused although the
  group is empty.
\<close>

theorem failed_addencoder_poisons_group:
  assumes "gop_size bad \<noteq> 1" and "f32_le f32_zero (voxelsize bad)"
    and "\<not> f32_eq (voxelsize bad) (voxelsize good)"
  shows "\<exists>w1 w2 g1. addencoder CWIPC_ENCODER_PARAM_VERSION (Some bad) em (w, new_encodergroup) =
      Inr (None, w1, g1) \<and> eg_encoders g1 = [] \<and>
    addencoder CWIPC_ENCODER_PARAM_VERSION (Some good) em (w1, g1) = Inr (None, w2, g1)"
proof -
  let ?g1 = "\<lparr>eg_encoders = [], eg_voxelsize = voxelsize bad\<rparr>"
  let ?v = "cwipc_log_set_errorbuf em w"
  have neg: "\<not> f32_le f32_zero 0xBF800000" by (simp add: f32_defs f32_zero_def)
  have "fst (cwipc_new_encoder CWIPC_ENCODER_PARAM_VERSION (Some bad) em CWIPC_API_VERSION ?v) = None"
    using assms(1) by (simp add: cwipc_new_encoder_def Let_def)
  then obtain w2 where none: "cwipc_new_encoder CWIPC_ENCODER_PARAM_VERSION (Some bad) em CWIPC_API_VERSION ?v = (None, w2)"
    by (metis prod.collapse)
  have "\<exists>w1. addencoder CWIPC_ENCODER_PARAM_VERSION (Some bad) em (w, new_encodergroup) = Inr (None, w1, ?g1)"
    by (simp add: addencoder_def new_encodergroup_def neg none Let_def)
  moreover have "\<exists>w2. addencoder CWIPC_ENCODER_PARAM_VERSION (Some good) em (w1, ?g1) = Inr (None, w2, ?g1)" for w1
    using assms(2,3) by (simp add: addencoder_def Let_def)
  ultimately show ?thesis by fastforce
qed

theorem failed_addencoder_poisons_group_witness:
  "\<exists>w1 w2 g1. addencoder CWIPC_ENCODER_PARAM_VERSION
      (Some (sample_params\<lparr>gop_size := 2, voxelsize := 0x3F000000\<rparr>)) None (world_init None 0, new_encodergroup) =
      Inr (None, w1, g1) \<and> eg_encoders g1 = [] \<and>
    addencoder CWIPC_ENCODER_PARAM_VERSION (Some sample_params) None (w1, g1) = Inr (None, w2, g1)"
  by (rule failed_addencoder_poisons_group) (simp_all add: sample_params_def f32_defs f32_zero_def)

text \<open>
  In the parallel encoder a \<open>copy_data\<close> that fails (buffer too small) still gives up the
  turn: the client's retry reads the next encoder's frame, so frames come out of order.
\<close>

theorem multi_failed_copy_loses_turn:
  assumes "me_nencoder me = length (me_encoders me)" and "1 < me_nencoder me"
    and "me_next_out me < me_nencoder me"
    and "m_result (me_encoders me ! me_next_out me) = Some r" and "sz < size_of_nat (length r)"
    and "multi_copy_data sz me = (ok, bytes, me')"
    and "m_result (me_encoders me ! ((me_next_out me + 1) mod me_nencoder me)) = Some r2"
  shows "\<not> ok \<and> bytes = [] \<and> multi_get_encoded_size me' = size_of_nat (length r2) \<and>
    fst (snd (multi_copy_data (multi_get_encoded_size me') me')) = r2"
proof -
  let ?i = "me_next_out me" and ?j = "(me_next_out me + 1) mod me_nencoder me"
  have "copy_data sz (me_encoders me ! ?i) = (False, [], me_encoders me ! ?i)"
    using assms(4,5) by (simp add: copy_data_def)
  then have same: "me_encoders me' = me_encoders me" "me_next_out me' = ?j" "me_nencoder me' = me_nencoder me"
      "\<not> ok" "bytes = []"
    using assms(2,6) by (auto simp: multi_copy_data_def)
  with assms(2,7) show ?thesis
    by (simp add: multi_get_encoded_size_def get_encoded_size_def multi_copy_data_def copy_data_def Let_def)
qed

definition two_results :: multi_encoder where
  "two_results = \<lparr>me_encoders = [(new_encoder_impl sample_params)\<lparr>m_result := Some [1, 2, 3]\<rparr>,
       (new_encoder_impl sample_params)\<lparr>m_result := Some [9]\<rparr>],
     me_nencoder = 2, me_next_in = 0, me_next_out = 0\<rparr>"

theorem multi_failed_copy_loses_turn_witness:
  "\<exists>ok bytes me'. multi_copy_data 2 two_results = (ok, bytes, me') \<and> \<not> ok \<and>
     fst (snd (multi_copy_data (multi_get_encoded_size me') me')) = [9]"
proof -
  obtain ok bytes me' where c: "multi_copy_data 2 two_results = (ok, bytes, me')" by (metis prod_cases3)
  from multi_failed_copy_loses_turn [OF _ _ _ _ _ c, of "[1, 2, 3]" "[9]"] c show ?thesis
    by (auto simp: two_results_def size_of_nat_def)
qed


lemma feed_all_threaded:
  assumes "\<forall>e \<in> set es. m_alive e \<and> m_use_threads e"
  shows "\<exists>w' css. length css = length es \<and>
    feed_all dist compress (map Single es) w (made_from dist (Some src) ts cs) =
      Inr (map Single (map2 (\<lambda>e c. e\<lparr>m_queue_tilefilter := m_queue_tilefilter e
          @ [Some (made_from dist (Some src) ts c)]\<rparr>) es css), w', made_from dist (Some src) ts cs) \<and>
    pc_dangling w' = pc_dangling w + int (length es) \<and> points_dangling w' = points_dangling w"
  using assms
proof (induction es arbitrary: w)
  case (Cons e es)
  then obtain w1 c where f: "feed dist compress (made_from dist (Some src) ts cs) (w, e) =
      Inr ((w1, e\<lparr>m_queue_tilefilter := m_queue_tilefilter e @ [Some (made_from dist (Some src) ts c)]\<rparr>),
        made_from dist (Some src) ts cs)"
    and "pc_dangling w1 = pc_dangling w + 1" "points_dangling w1 = points_dangling w"
    using feed_threaded_same [of e dist compress src ts cs w] by auto
  moreover obtain w' css where "length css = length es"
    "feed_all dist compress (map Single es) w1 (made_from dist (Some src) ts cs) =
      Inr (map Single (map2 (\<lambda>e c. e\<lparr>m_queue_tilefilter := m_queue_tilefilter e
          @ [Some (made_from dist (Some src) ts c)]\<rparr>) es css), w', made_from dist (Some src) ts cs)"
    "pc_dangling w' = pc_dangling w1 + int (length es)" "points_dangling w' = points_dangling w1"
    using Cons.IH [of w1] Cons.prems by auto
  ultimately show ?case
    by (intro exI [of _ w'] exI [of _ "c # css"]) (simp add: feed_any_def)
qed simp

text \<open>
  A group gives every member encoder the same cloud: with threaded encoders one \<open>feed\<close>
  appends to each queue a copy with the client's points and time stamp, and afterwards exactly
  these copies are held, one per encoder.
\<close>

theorem group_feeds_every_encoder:
  assumes "eg_encoders g = map Single es" and "\<forall>e \<in> set es. m_alive e \<and> m_use_threads e"
    and "\<not> f32_lt f32_zero (eg_voxelsize g)"
    and "access_pcl_pointcloud w pc = (Some src, w1, pc1)"
  shows "\<exists>w' es'. group_feed dist grid octree compress pc (w, g) =
      Inr ((w', g\<lparr>eg_encoders := map Single es'\<rparr>), pc1) \<and> length es' = length es \<and>
    (\<forall>i < length es. \<exists>cs. m_queue_tilefilter (es' ! i) = m_queue_tilefilter (es ! i)
       @ [Some (made_from dist (Some src) (m_timestamp pc1) cs)]) \<and>
    pc_dangling w' = pc_dangling w1 + int (length es) \<and> points_dangling w' = points_dangling w1"
proof -
  let ?new = "made_from dist (Some src) (m_timestamp pc1) (m_cellsize pc1)"
  obtain w2 where s: "shallowcopy dist w pc = (?new, w2, pc1)"
    and c2: "pc_dangling w2 = pc_dangling w1 + 1" "points_dangling w2 = points_dangling w1"
    using shallowcopy_cloud [OF assms(4)] by blast
  obtain w3 css where css: "length css = length es"
    and f: "feed_all dist compress (map Single es) w2 ?new =
      Inr (map Single (map2 (\<lambda>e c. e\<lparr>m_queue_tilefilter := m_queue_tilefilter e
          @ [Some (made_from dist (Some src) (m_timestamp pc1) c)]\<rparr>) es css), w3, ?new)"
    and c3: "pc_dangling w3 = pc_dangling w2 + int (length es)" "points_dangling w3 = points_dangling w2"
    using feed_all_threaded [OF assms(2)] by blast
  show ?thesis
    using assms(1,3) css c2 c3 pc_free_made [of w3 dist src "m_timestamp pc1" "m_cellsize pc1"]
    by (intro exI [of _ "fst (pc_free w3 ?new)"] exI [of _ "map2 (\<lambda>e c. e\<lparr>m_queue_tilefilter :=
        m_queue_tilefilter e @ [Some (made_from dist (Some src) (m_timestamp pc1) c)]\<rparr>) es css"])
      (auto simp: group_feed_def s f)
qed

theorem group_feeds_every_encoder_witness:
  "\<exists>w' es'. group_feed (\<lambda>_ _. 0) (\<lambda>_ _. Inl (Std_exception [])) (\<lambda>_ _. Inl (Std_exception [])) tag_compress
      (pcl_cloud [point_at 1 1]) (world_init None 0, \<lparr>eg_encoders = map Single
        [enable_threads (new_encoder_impl sample_params), enable_threads (new_encoder_impl sample_params)],
        eg_voxelsize = 0\<rparr>) = Inr ((w', \<lparr>eg_encoders = map Single es', eg_voxelsize = 0\<rparr>), pcl_cloud [point_at 1 1]) \<and>
    length es' = 2 \<and> pc_dangling w' = pc_dangling (world_init None 0) + 2"
proof -
  let ?es = "[enable_threads (new_encoder_impl sample_params), enable_threads (new_encoder_impl sample_params)]"
  let ?g = "\<lparr>eg_encoders = map Single ?es, eg_voxelsize = 0\<rparr>"
  have "\<forall>e \<in> set ?es. m_alive e \<and> m_use_threads e"
    by (simp add: enable_threads_def new_encoder_impl_def)
  from group_feeds_every_encoder [OF _ this _ access_pcl_cloud, of ?g "\<lambda>_ _. 0" "\<lambda>_ _. Inl (Std_exception [])"
      "\<lambda>_ _. Inl (Std_exception [])" tag_compress "[point_at 1 1]" "world_init None 0"]
  obtain w' es' where "group_feed (\<lambda>_ _. 0) (\<lambda>_ _. Inl (Std_exception [])) (\<lambda>_ _. Inl (Std_exception [])) tag_compress
      (pcl_cloud [point_at 1 1]) (world_init None 0, ?g) = Inr ((w', ?g\<lparr>eg_encoders := map Single es'\<rparr>), pcl_cloud [point_at 1 1])"
      "length es' = length ?es" "pc_dangling w' = pc_dangling (world_init None 0) + int (length ?es)"
    by (auto simp: f32_zero_def f32_defs)
  then show ?thesis by (intro exI [of _ w'] exI [of _ es']) simp
qed

lemma decoder_feed_ok:
  assumes "dec_alive d" and "decode (dec_seen d) buf = (True, pts, ts, res)"
  shows "\<exists>w'. decoder_feed dist decode buf (w, d) = Inr (w', d\<lparr>dec_seen := dec_seen d @ [buf],
      dec_result := Some (made_from dist (Some (decoded_points pts)) ts res)\<rparr>) \<and>
    pc_dangling w' = pc_dangling w + 1 \<and> points_dangling w' = points_dangling w"
  using assms filter_result_object_made [of dist "Some (decoded_points pts)" ts res w]
  by (auto simp: decoder_feed_def Let_def)

text \<open>
  An empty cloud survives the trip: the encoder sends the dummy point, and any codec that
  returns it as one nearly black point nearly at the origin makes the decoder deliver a cloud
  without points, with the original time stamp.
\<close>

theorem empty_cloud_round_trip:
  assumes "idle e" and "access_pcl_pointcloud w pc = (Some src, w1, pc1)"
    and "selected (m_params e) src = []"
    and "feed dist compress pc (w, e) = Inr ((w', e'), pc')" and "m_result e' = Some bytes"
    and "\<And>c ts. \<exists>q res. decode [] (compress c [dummyPoint] ts) = (True, [q], ts, res) \<and> looks_empty q"
  shows "\<exists>w2 d rv. decoder_feed dist decode bytes (w', new_decoder_impl) = Inr (w2, d) \<and>
    decoder_get d = (Some rv, d\<lparr>dec_result := None\<rparr>) \<and> m_pc rv = Some [] \<and> m_timestamp rv = m_timestamp pc1"
proof -
  have "bytes = compress (frame_codec dist e (m_cellsize pc1) src) [dummyPoint] (m_timestamp pc1)"
    using feed_idle [OF assms(1,2), of dist compress] assms(3-5) by (auto simp: Let_def frame_points_def)
  then obtain q res where d: "decode [] bytes = (True, [q], m_timestamp pc1, res)" "looks_empty q"
    using assms(6) by blast
  from decoder_feed_ok [of new_decoder_impl decode bytes "[q]" "m_timestamp pc1" res dist w'] d
  show ?thesis by (auto simp: new_decoder_impl_def decoder_get_def decoded_points_def)
qed

theorem empty_cloud_round_trip_witness:
  "\<exists>w' e' pc' bytes w2 d rv. feed (\<lambda>_ _. 0) (\<lambda>c pts ts. enc_u64 ts) (pcl_cloud [point_at 1 9])
      (world_init None 0, new_encoder_impl sample_params) = Inr ((w', e'), pc') \<and> m_result e' = Some bytes \<and>
    decoder_feed (\<lambda>_ _. 0) (\<lambda>_ b. (True, [dummyPoint], fst (the (dec_u64 b)), 0)) bytes (w', new_decoder_impl) =
      Inr (w2, d) \<and>
    decoder_get d = (Some rv, d\<lparr>dec_result := None\<rparr>) \<and> m_pc rv = Some []"
proof -
  let ?src = "[point_at 1 9]" and ?e = "new_encoder_impl sample_params"
  let ?compress = "\<lambda>(c :: codec_state) (pts :: pcl_point list) ts. enc_u64 ts"
  let ?decode = "\<lambda>(_ :: u8 list list) b. (True, [dummyPoint], fst (the (dec_u64 b)), 0 :: f32)"
  have a: "access_pcl_pointcloud (world_init None 0) (pcl_cloud ?src) =
      (Some ?src, world_init None 0, pcl_cloud ?src)" by simp
  obtain w' e' pc' where f: "feed (\<lambda>_ _. 0) ?compress (pcl_cloud ?src) (world_init None 0, ?e) = Inr ((w', e'), pc')"
    and r: "m_result e' \<noteq> None"
    using feed_idle [OF fresh_encoder_idle [of sample_params] a, of "\<lambda>_ _. 0" ?compress] by (auto simp: Let_def)
  from r obtain bytes where r: "m_result e' = Some bytes" by blast
  have "selected (m_params ?e) ?src = []"
    by (simp add: selected_def new_encoder_impl_def sample_params_def tile_selected_def point_at_def)
  moreover have "looks_empty dummyPoint" by code_simp
  then have "\<exists>q res. ?decode [] (?compress c [dummyPoint] ts) = (True, [q], ts, res) \<and> looks_empty q" for c ts
    by (simp add: u64c.dec_enc_exact)
  ultimately show ?thesis
    using empty_cloud_round_trip [OF fresh_encoder_idle a _ f r, of ?decode] f r by blast
qed

end
