(* ===== verification/GroupClose.thy ===== *)
theory GroupClose
  imports CodecGroups
begin

text \<open>
  Closing and freeing encoders of \<open>cwipc_codec.cpp\<close>: \<open>cwipc_encoder_impl\<close> as one call, with the turns
  its two threads take until they are joined, the parallel encoder and the group, which close their
  members one after the other, and the C entry points for any kind of encoder.
\<close>

section \<open>One encoder\<close>

text \<open>A turn of the tile filter thread says whether its last \<open>try_enqueue\<close> finds room.\<close>

datatype thread_turn = Tilefilter_turn bool | Encoder_turn

fun run_turns ::
  "distance \<Rightarrow> compressor \<Rightarrow> thread_turn list \<Rightarrow> world \<times> encoder \<Rightarrow> (world \<times> encoder) option" where
  "run_turns dist compress [] s = Some s"
| "run_turns dist compress (Tilefilter_turn room # ts) s =
     (case tilefilter_thread dist room s of None \<Rightarrow> None | Some s' \<Rightarrow> run_turns dist compress ts s')"
| "run_turns dist compress (Encoder_turn # ts) s =
     (case encode_thread compress s of None \<Rightarrow> None | Some s' \<Rightarrow> run_turns dist compress ts s')"

text \<open>What \<open>close\<close> meets: the room for its two null pointers, and the turns until the joins.\<close>

record close_turns =
  room_encoder :: bool
  room_tilefilter :: bool
  turns :: "thread_turn list"

text \<open>\<open>None\<close>: the threads are not finished after these turns, or cannot take them.\<close>

definition encoder_close ::
  "distance \<Rightarrow> compressor \<Rightarrow> close_turns \<Rightarrow> world \<times> encoder \<Rightarrow> (world \<times> encoder) option" where
  "encoder_close dist compress cl s =
     (case s of (w, e) \<Rightarrow>
      case run_turns dist compress (turns cl) (w, close_signal (room_encoder cl) (room_tilefilter cl) e) of
        None \<Rightarrow> None
      | Some (w', e') \<Rightarrow> map_option (Pair w') (close_join e'))"

definition encoder_free ::
  "distance \<Rightarrow> compressor \<Rightarrow> close_turns \<Rightarrow> world \<times> encoder \<Rightarrow> (world \<times> encoder) option" where
  "encoder_free dist compress cl s =
     map_option (\<lambda>(w, e). (w, free_after_close e)) (encoder_close dist compress cl s)"

section \<open>Parallel encoders and groups\<close>

text \<open>A loop over the members, each with its own turns.\<close>

fun each_encoder ::
  "('a \<Rightarrow> world \<times> 'e \<Rightarrow> (world \<times> 'e) option) \<Rightarrow> 'a list \<Rightarrow> 'e list \<Rightarrow> world \<Rightarrow> (world \<times> 'e list) option" where
  "each_encoder act (cl # cls) (e # es) w =
     (case act cl (w, e) of
        None \<Rightarrow> None
      | Some (w1, e1) \<Rightarrow> map_option (\<lambda>(w', es'). (w', e1 # es')) (each_encoder act cls es w1))"
| "each_encoder act _ [] w = Some (w, [])"
| "each_encoder act [] (e # es) w = None"

definition multi_close ::
  "distance \<Rightarrow> compressor \<Rightarrow> close_turns list \<Rightarrow> world \<times> multi_encoder \<Rightarrow> (world \<times> multi_encoder) option" where
  "multi_close dist compress cls s =
     (case s of (w, m) \<Rightarrow>
      map_option (\<lambda>(w', es). (w', m\<lparr>me_encoders := es\<rparr>))
        (each_encoder (encoder_close dist compress) cls (me_encoders m) w))"

definition multi_free_all ::
  "distance \<Rightarrow> compressor \<Rightarrow> close_turns list \<Rightarrow> world \<times> multi_encoder \<Rightarrow> (world \<times> multi_encoder) option" where
  "multi_free_all dist compress cls s =
     (case s of (w, m) \<Rightarrow>
      map_option (\<lambda>(w', es). (w', multi_free (m\<lparr>me_encoders := es\<rparr>)))
        (each_encoder (encoder_free dist compress) cls (me_encoders m) w))"

text \<open>The C entry points: one list of turns per member, a single encoder has one.\<close>

definition cwipc_encoder_close ::
  "distance \<Rightarrow> compressor \<Rightarrow> close_turns list \<Rightarrow> world \<times> any_encoder \<Rightarrow> (world \<times> any_encoder) option" where
  "cwipc_encoder_close dist compress cls s =
     (case s of
        (w, Single e) \<Rightarrow>
          (case cls of
             cl # _ \<Rightarrow> map_option (\<lambda>(w', e'). (w', Single e')) (encoder_close dist compress cl (w, e))
           | [] \<Rightarrow> None)
      | (w, Multi m) \<Rightarrow> map_option (\<lambda>(w', m'). (w', Multi m')) (multi_close dist compress cls (w, m)))"

definition cwipc_encoder_free ::
  "distance \<Rightarrow> compressor \<Rightarrow> close_turns list \<Rightarrow> world \<times> any_encoder \<Rightarrow> (world \<times> any_encoder) option" where
  "cwipc_encoder_free dist compress cls s =
     (case s of
        (w, Single e) \<Rightarrow>
          (case cls of
             cl # _ \<Rightarrow> map_option (\<lambda>(w', e'). (w', Single e')) (encoder_free dist compress cl (w, e))
           | [] \<Rightarrow> None)
      | (w, Multi m) \<Rightarrow> map_option (\<lambda>(w', m'). (w', Multi m')) (multi_free_all dist compress cls (w, m)))"

definition encodergroup_close ::
  "distance \<Rightarrow> compressor \<Rightarrow> close_turns list list \<Rightarrow> world \<times> encodergroup \<Rightarrow> (world \<times> encodergroup) option" where
  "encodergroup_close dist compress cls s =
     (case s of (w, g) \<Rightarrow>
      map_option (\<lambda>(w', es). (w', g\<lparr>eg_encoders := es\<rparr>))
        (each_encoder (cwipc_encoder_close dist compress) cls (eg_encoders g) w))"

definition encodergroup_free ::
  "distance \<Rightarrow> compressor \<Rightarrow> close_turns list list \<Rightarrow> world \<times> encodergroup \<Rightarrow> (world \<times> encodergroup) option" where
  "encodergroup_free dist compress cls s =
     (case s of (w, g) \<Rightarrow>
      map_option (\<lambda>(w', es). (w', g\<lparr>eg_encoders := []\<rparr>))
        (each_encoder (cwipc_encoder_free dist compress) cls (eg_encoders g) w))"

section \<open>The remaining C entry points\<close>

definition cwipc_encoder_eof :: "any_encoder \<Rightarrow> bool" where
  "cwipc_encoder_eof e = (case e of Single s \<Rightarrow> encoder_eof s | Multi m \<Rightarrow> multi_eof m)"

definition cwipc_encoder_available :: "bool \<Rightarrow> any_encoder \<Rightarrow> fault + bool" where
  "cwipc_encoder_available wait_b e =
     (case e of Single s \<Rightarrow> encoder_available wait_b s | Multi m \<Rightarrow> multi_available wait_b m)"

definition cwipc_encoder_at_gop_boundary :: "any_encoder \<Rightarrow> bool" where
  "cwipc_encoder_at_gop_boundary e =
     (case e of Single s \<Rightarrow> at_gop_boundary s | Multi m \<Rightarrow> multi_at_gop_boundary m)"

definition cwipc_encoder_get_encoded_size :: "any_encoder \<Rightarrow> u64" where
  "cwipc_encoder_get_encoded_size e =
     (case e of Single s \<Rightarrow> get_encoded_size s | Multi m \<Rightarrow> multi_get_encoded_size m)"

definition cwipc_encoder_copy_data :: "u64 \<Rightarrow> any_encoder \<Rightarrow> bool \<times> u8 list \<times> any_encoder" where
  "cwipc_encoder_copy_data bufferSize e =
     (case e of
        Single s \<Rightarrow> map_prod id (map_prod id Single) (copy_data bufferSize s)
      | Multi m \<Rightarrow> map_prod id (map_prod id Multi) (multi_copy_data bufferSize m))"

text \<open>
  \<open>free\<close> of the decoder. It notifies a client that waits for a result; \<open>decoder_close\<close> does not, so a
  client that is waiting then is not woken.
\<close>

definition decoder_free :: "decoder \<Rightarrow> decoder" where "decoder_free d = d\<lparr>dec_alive := False\<rparr>"

section \<open>Every member is closed\<close>

text \<open>
  An encoder as it is between two calls: clouds in its queues, and either no threads or two threads
  somewhere in their loops.
\<close>

definition closable :: "distance \<Rightarrow> encoder \<Rightarrow> bool" where
  "closable dist e \<longleftrightarrow>
     clouds_only dist (m_queue_encoder e) \<and> clouds_only dist (m_queue_tilefilter e) \<and>
     (m_use_threads e \<longrightarrow> m_thread_encoder e \<noteq> None \<and> m_thread_tilefilter e \<noteq> None)"

lemma closed_encoder_turns:
  assumes "\<not> m_alive e" and "m_thread_encoder e = Some p" and "clouds_only dist (m_queue_encoder e)"
    and "p = In_wait \<Longrightarrow> m_queue_encoder e \<noteq> []"
  shows "\<exists>ts w' e'. run_turns dist compress ts (w, e) = Some (w', e') \<and> m_thread_encoder e' = Some Finished \<and>
    \<not> m_alive e' \<and> m_thread_tilefilter e' = m_thread_tilefilter e \<and> m_use_threads e' = m_use_threads e \<and>
    m_queue_tilefilter e' = m_queue_tilefilter e"
proof (cases p)
  case At_loop
  then have "run_turns dist compress [Encoder_turn] (w, e) = Some (w, encode_exit e)"
    using assms by (simp add: encode_thread_def)
  then show ?thesis by (intro exI conjI) (assumption | simp add: encode_exit_def)+
next
  case Finished
  then have "run_turns dist compress [] (w, e) = Some (w, e)" by simp
  with Finished assms show ?thesis by blast
next
  case In_wait
  then obtain x q where q: "m_queue_encoder e = x # q" using assms(4) by (cases "m_queue_encoder e") auto
  show ?thesis
  proof (cases x)
    case None
    then have "run_turns dist compress [Encoder_turn] (w, e) = Some (w, encode_exit (e\<lparr>m_queue_encoder := q\<rparr>))"
      using assms(1,2) In_wait q by (simp add: encode_thread_def run_single_encode_def log_if_def)
    then show ?thesis using assms(1) by (intro exI conjI) (assumption | simp add: encode_exit_def)+
  next
    case (Some ob)
    with q assms(3) obtain src ts cs where ob: "x = Some (made_from dist (Some src) ts cs)" by auto
    obtain w1 g c r where s: "run_single_encode compress (w, e) = Inr (True, w1, e\<lparr>m_queue_encoder := q,
        m_encoder := Some c, m_remaining_frames_in_gop := g, m_result := Some r\<rparr>)"
      using encode_stage [of e dist src ts cs q compress w] q ob by (auto simp: Let_def)
    let ?e1 = "e\<lparr>m_queue_encoder := q, m_encoder := Some c, m_remaining_frames_in_gop := g,
        m_result := Some r, m_thread_encoder := Some At_loop\<rparr>"
    have "run_turns dist compress [Encoder_turn, Encoder_turn] (w, e) = Some (w1, encode_exit ?e1)"
      using assms(1,2) In_wait s by (simp add: encode_thread_def)
    then show ?thesis by (intro exI conjI) (assumption | simp add: encode_exit_def)+
  qed
qed

lemma closed_tilefilter_turns:
  assumes "\<not> m_alive e" and "m_thread_tilefilter e = Some p" and "clouds_only dist (m_queue_tilefilter e)"
    and "p = In_wait \<Longrightarrow> m_queue_tilefilter e \<noteq> []"
  shows "\<exists>ts w' e'. run_turns dist compress ts (w, e) = Some (w', e') \<and> m_thread_tilefilter e' = Some Finished \<and>
    \<not> m_alive e' \<and> m_thread_encoder e' = m_thread_encoder e \<and> m_use_threads e' = m_use_threads e"
proof (cases p)
  case At_loop
  then have "run_turns dist compress [Tilefilter_turn False] (w, e) = Some (w, tilefilter_exit False e)"
    using assms by (simp add: tilefilter_thread_def)
  then show ?thesis by (intro exI conjI) (assumption | simp)+
next
  case Finished
  then have "run_turns dist compress [] (w, e) = Some (w, e)" by simp
  with Finished assms show ?thesis by blast
next
  case In_wait
  then obtain x q where q: "m_queue_tilefilter e = x # q" using assms(4) by (cases "m_queue_tilefilter e") auto
  show ?thesis
  proof (cases x)
    case None
    then have "run_turns dist compress [Tilefilter_turn False] (w, e)
        = Some (w, tilefilter_exit False (e\<lparr>m_queue_tilefilter := q\<rparr>))"
      using assms(1,2) In_wait q by (simp add: tilefilter_thread_def run_single_tilefilter_def log_if_def)
    then show ?thesis using assms(1) by (intro exI conjI) (assumption | simp)+
  next
    case (Some ob)
    with q assms(3) obtain src ts cs where ob: "x = Some (made_from dist (Some src) ts cs)" by auto
    obtain w1 qe where s: "run_single_tilefilter dist (w, e) = Inr (True, w1, e\<lparr>m_queue_tilefilter := q,
        m_queue_encoder := qe\<rparr>)"
      using tilefilter_stage [of e dist src ts cs q w] q ob by auto
    let ?e1 = "e\<lparr>m_queue_tilefilter := q, m_queue_encoder := qe, m_thread_tilefilter := Some At_loop\<rparr>"
    have "run_turns dist compress [Tilefilter_turn False, Tilefilter_turn False] (w, e)
        = Some (w1, tilefilter_exit False ?e1)"
      using assms(1,2) In_wait s by (simp add: tilefilter_thread_def)
    then show ?thesis by (intro exI conjI) (assumption | simp)+
  qed
qed

lemma run_turns_append:
  "run_turns dist compress ts s = Some s' \<Longrightarrow>
    run_turns dist compress (ts @ ts') s = run_turns dist compress ts' s'"
  by (induction ts s rule: run_turns.induct [where ?a0.0 = dist and ?a1.0 = compress]) (auto split: option.splits)

lemma try_enqueue_nonempty: "snd (try_enqueue room None q) \<noteq> []"
  by (auto simp: try_enqueue_def)

lemma encoder_closes:
  assumes "closable dist e"
  shows "\<exists>cl w' e'. encoder_close dist compress cl (w, e) = Some (w', e') \<and> \<not> m_alive e' \<and> \<not> m_use_threads e'"
proof (cases "m_use_threads e")
  case False
  then have "encoder_close dist compress \<lparr>room_encoder = False, room_tilefilter = False, turns = []\<rparr> (w, e)
      = Some (w, close_signal False False e)"
    by (simp add: encoder_close_def close_signal_def close_join_def)
  with False show ?thesis by (fastforce simp: close_signal_def)
next
  case True
  let ?e = "close_signal False False e"
  obtain p p' where p: "m_thread_encoder e = Some p" "m_thread_tilefilter e = Some p'"
    using assms True by (auto simp: closable_def)
  have e: "\<not> m_alive ?e" "m_thread_encoder ?e = Some p" "m_thread_tilefilter ?e = Some p'" "m_use_threads ?e"
    "clouds_only dist (m_queue_encoder ?e)" "clouds_only dist (m_queue_tilefilter ?e)"
    "m_queue_encoder ?e \<noteq> []" "m_queue_tilefilter ?e \<noteq> []"
    using assms True p by (simp_all add: close_signal_def closable_def Let_def try_enqueue_nonempty)
  obtain ts w1 e1 where 1: "run_turns dist compress ts (w, ?e) = Some (w1, e1)"
    "m_thread_encoder e1 = Some Finished" "\<not> m_alive e1" "m_thread_tilefilter e1 = Some p'" "m_use_threads e1"
    "m_queue_tilefilter e1 = m_queue_tilefilter ?e"
    using closed_encoder_turns [OF e(1,2,5), of compress w] e(3,4,7) by auto
  obtain ts' w2 e2 where 2: "run_turns dist compress ts' (w1, e1) = Some (w2, e2)"
    "m_thread_tilefilter e2 = Some Finished" "\<not> m_alive e2" "m_thread_encoder e2 = Some Finished" "m_use_threads e2"
    using closed_tilefilter_turns [OF 1(3,4), of dist compress w1] e(6,8) 1(2,5,6) by auto
  have "encoder_close dist compress \<lparr>room_encoder = False, room_tilefilter = False, turns = ts @ ts'\<rparr> (w, e) =
      Some (w2, e2\<lparr>m_thread_encoder := None, m_thread_tilefilter := None, m_use_threads := False\<rparr>)"
    using run_turns_append [OF 1(1)] 2 by (simp add: encoder_close_def close_join_def)
  with 2(3) show ?thesis by (intro exI conjI) (assumption | simp)+
qed

text \<open>The members of a group, also inside parallel encoders.\<close>

definition members :: "any_encoder \<Rightarrow> encoder list" where
  "members e = (case e of Single s \<Rightarrow> [s] | Multi m \<Rightarrow> me_encoders m)"

lemma each_encoder_reaches:
  assumes "\<And>e w. e \<in> set es \<Longrightarrow> \<exists>cl w' e'. act cl (w, e) = Some (w', e') \<and> P e'"
  shows "\<exists>cls w' es'. each_encoder act cls es w = Some (w', es') \<and> length es' = length es \<and> (\<forall>e \<in> set es'. P e)"
  using assms
proof (induction es arbitrary: w)
  case (Cons e es)
  obtain cl w1 e1 where 1: "act cl (w, e) = Some (w1, e1)" "P e1" using Cons.prems [of e w] by auto
  obtain cls w' es' where "each_encoder act cls es w1 = Some (w', es')" "length es' = length es" "\<forall>e \<in> set es'. P e"
    using Cons.IH [of w1] Cons.prems by auto
  with 1 have "each_encoder act (cl # cls) (e # es) w = Some (w', e1 # es')" by simp
  moreover have "length (e1 # es') = length (e # es)" "\<forall>e \<in> set (e1 # es'). P e"
    using 1 \<open>length es' = length es\<close> \<open>\<forall>e \<in> set es'. P e\<close> by simp_all
  ultimately show ?case by blast
qed simp

definition stopped :: "encoder \<Rightarrow> bool" where
  "stopped e \<longleftrightarrow> \<not> m_alive e \<and> \<not> m_use_threads e"

lemma any_encoder_closes:
  assumes "\<forall>e \<in> set (members a). closable dist e"
  shows "\<exists>cls w' a'. cwipc_encoder_close dist compress cls (w, a) = Some (w', a') \<and>
    (\<forall>e \<in> set (members a'). stopped e)"
proof (cases a)
  case (Single e)
  then obtain cl w' e' where "encoder_close dist compress cl (w, e) = Some (w', e')" "stopped e'"
    using encoder_closes [of dist e compress w] assms by (auto simp: members_def stopped_def)
  then have "cwipc_encoder_close dist compress [cl] (w, a) = Some (w', Single e')"
    using Single by (simp add: cwipc_encoder_close_def)
  with \<open>stopped e'\<close> show ?thesis by (intro exI conjI) (assumption | simp add: members_def)+
next
  case (Multi m)
  then have "\<exists>cl w' e'. encoder_close dist compress cl (w, e) = Some (w', e') \<and> stopped e'"
    if "e \<in> set (me_encoders m)" for e w
    using encoder_closes [of dist e compress w] assms that by (auto simp: members_def stopped_def)
  from each_encoder_reaches [of "me_encoders m" "encoder_close dist compress" stopped, OF this]
  obtain cls w' es' where "each_encoder (encoder_close dist compress) cls (me_encoders m) w = Some (w', es')"
    "\<forall>e \<in> set es'. stopped e" by blast
  then show ?thesis using Multi
    by (intro exI [of _ cls] exI [of _ w'] exI [of _ "Multi (m\<lparr>me_encoders := es'\<rparr>)"])
      (simp add: cwipc_encoder_close_def multi_close_def members_def)
qed


lemma enabled_closable: "closable dist (enable_threads (new_encoder_impl ps))"
  by (simp add: closable_def enable_threads_def new_encoder_impl_def)


end
