(* ===== verification/Synthetic.thy ===== *)
theory Synthetic
  imports RoundTrips FloatArith "HOL-Library.Signed_Division"
begin

text \<open>
  \<open>cwipc_util/src/cwipc_synthetic.cpp\<close>: the synthetic capturer, with the metadata requests
  it inherits from \<open>cwipc_activesource\<close> (\<open>api.h\<close>). Times are nanoseconds since the epoch. The
  libm calls that shape the figure are the parameter \<open>surface\<close>; the loops, the buffer, the
  tile numbers and the frame clock are the code's.
\<close>

section \<open>State\<close>

record synthetic =
  syn_angle :: f32
  syn_start :: int
  syn_earliest_next :: int
  syn_hsteps :: int
  syn_asteps :: int
  syn_fps :: int
  syn_has_points :: bool      \<comment> \<open>\<open>m_points\<close> is not NULL\<close>
  syn_points_size :: u64
  syn_started :: bool
  metadata_wanted :: "string set"

record tileinfo =
  ti_normal :: "int \<times> int \<times> int"
  ti_cameraName :: string
  ti_ncamera :: u8
  ti_cameraMask :: u8

section \<open>Construction\<close>

text \<open>\<open>int (sqrt (n))\<close> for \<open>n >= 0\<close>; \<open>sqrt\<close> of a negative number is NaN, which has no \<open>int\<close> value.\<close>

function isqrt :: "int \<Rightarrow> int" where
  "isqrt n =
     (if n \<le> 0 then 0
      else let r = 2 * isqrt (n div 4) in if (r + 1) * (r + 1) \<le> n then r + 1 else r)"
  by pat_completeness auto
termination
  by (relation "measure nat") auto

declare isqrt.simps [simp del]

definition new_synthetic :: "(u64 \<Rightarrow> bool) \<Rightarrow> int \<Rightarrow> int \<Rightarrow> fault + synthetic" where
  "new_synthetic malloc_ok fps npoints0 =
     (let npoints = (if npoints0 = 0 then 160000 else npoints0)
      in if npoints < 0 then Inl Bad_conversion
         else let steps = isqrt npoints; sz = points_bytes (steps * steps)
              in Inr \<lparr>syn_angle = 0, syn_start = 0, syn_earliest_next = 0, syn_hsteps = steps,
                      syn_asteps = steps, syn_fps = fps, syn_has_points = malloc malloc_ok sz,
                      syn_points_size = sz, syn_started = False, metadata_wanted = {}\<rparr>)"

definition cwipc_synthetic ::
  "(u64 \<Rightarrow> bool) \<Rightarrow> int \<Rightarrow> int \<Rightarrow> nat option \<Rightarrow> u64 \<Rightarrow> world \<Rightarrow> fault + synthetic option \<times> world" where
  "cwipc_synthetic malloc_ok fps npoints em v w =
     (if api_version_bad v then Inr (None, api_version_error ''cwipc_synthetic'' v em w)
      else case new_synthetic malloc_ok fps npoints of
             Inl f \<Rightarrow> Inl f
           | Inr rv \<Rightarrow> Inr (Some rv, cwipc_log_set_errorbuf None (cwipc_log_set_errorbuf em w)))"

section \<open>Operations\<close>

definition syn_free :: "synthetic \<Rightarrow> synthetic" where
  "syn_free st = st\<lparr>syn_has_points := False\<rparr>"

definition syn_reload_config :: "world \<Rightarrow> bool \<times> world" where
  "syn_reload_config w =
     (False, cwipc_log CWIPC_LOG_LEVEL_WARNING ''cwipc_synthetic''
               ''reload_config() not implemented (nor needed)'' w)"

definition syn_reload_config_fast :: "world \<Rightarrow> bool \<times> world" where
  "syn_reload_config_fast w =
     (False, cwipc_log CWIPC_LOG_LEVEL_WARNING ''cwipc_synthetic''
               ''reload_config_fast() not implemented (nor needed)'' w)"

definition syn_start_source :: "int \<Rightarrow> world \<times> synthetic \<Rightarrow> bool \<times> world \<times> synthetic" where
  "syn_start_source now s =
     (case s of (w, st) \<Rightarrow>
        if syn_started st
        then (True, cwipc_log CWIPC_LOG_LEVEL_WARNING ''cwipc_synthetic''
                      ''start() called when already started'' w, st)
        else (True, w, st\<lparr>syn_start := now, syn_earliest_next := now, syn_started := True\<rparr>))"

definition syn_stop :: "synthetic \<Rightarrow> synthetic" where
  "syn_stop st = st\<lparr>syn_started := False\<rparr>"

definition syn_eof :: "synthetic \<Rightarrow> bool" where "syn_eof st = False"

definition syn_seek :: "u64 \<Rightarrow> synthetic \<Rightarrow> bool" where "syn_seek ts st = False"

definition request_metadata :: "string \<Rightarrow> synthetic \<Rightarrow> synthetic" where
  "request_metadata name st = st\<lparr>metadata_wanted := insert name (metadata_wanted st)\<rparr>"

definition is_metadata_requested :: "string \<Rightarrow> synthetic \<Rightarrow> bool" where
  "is_metadata_requested name st = (name \<in> metadata_wanted st)"

definition syn_available :: "bool \<Rightarrow> int \<Rightarrow> world \<times> synthetic \<Rightarrow> bool \<times> world" where
  "syn_available wait_b now s =
     (case s of (w, st) \<Rightarrow>
        if \<not> syn_started st
        then (False, cwipc_log CWIPC_LOG_LEVEL_ERROR ''cwipc_synthetic''
                       ''available() called before start()'' w)
        else if \<not> wait_b \<and> syn_fps st \<noteq> 0 \<and> syn_earliest_next st \<noteq> 0 \<and> now < syn_earliest_next st
        then (False, w)
        else (True, w))"

text \<open>
  The figure: for a height and an angle index, \<open>surface\<close> computes the coordinates \<open>x, height,
  y\<close> and the colours before they are stored.
\<close>

type_synonym surface =
  "f32 \<Rightarrow> int \<Rightarrow> int \<Rightarrow> int \<Rightarrow> int \<Rightarrow> (f32 \<times> f32 \<times> f32) \<times> int \<times> int \<times> int"

definition surface_point :: "surface \<Rightarrow> synthetic \<Rightarrow> int \<Rightarrow> int \<Rightarrow> cwipc_point" where
  "surface_point surface st height_i angle_i =
     (case surface (syn_angle st) (syn_hsteps st) (syn_asteps st) height_i angle_i of
        ((x, height, y), rr, gg, bb) \<Rightarrow>
          \<lparr>pt_x = f32_neg x, pt_y = height, pt_z = y, pt_r = word_of_int rr, pt_g = word_of_int gg,
           pt_b = word_of_int bb, pt_tile = (if f32_lt y f32_zero then 1 else 2)\<rparr>)"

definition generate_points :: "surface \<Rightarrow> synthetic \<Rightarrow> cwipc_point list" where
  "generate_points surface st =
     concat (map (\<lambda>height_i. map (\<lambda>angle_i. surface_point surface st height_i angle_i)
                    [0 .. syn_asteps st - 1]) [0 .. syn_hsteps st - 1])"

text \<open>
  \<open>get\<close>. The clock is read three times after the sleep; \<open>d1, d2, d3\<close> are the delays between
  the readings. \<open>sleep_until\<close> returns at the wanted time or later. \<open>seconds\<close> converts the run
  time to a float; \<open>memptr\<close> is what \<open>malloc (sizeof (m_angle))\<close> returns, and \<open>::free\<close> is
  deallocator 0.
\<close>

definition NS_PER_MS :: int where "NS_PER_MS = 1000000"

definition syn_tick :: "(int \<Rightarrow> f32) \<Rightarrow> int \<Rightarrow> nat \<times> nat \<times> nat \<Rightarrow> synthetic \<Rightarrow> u64 \<times> synthetic" where
  "syn_tick seconds now delays st =
     (case delays of (d1, d2, d3) \<Rightarrow>
        let awake = (if syn_fps st \<noteq> 0 \<and> syn_earliest_next st \<noteq> 0
                     then max now (syn_earliest_next st) else now);
            t1 = awake + int d1; t2 = t1 + int d2; t3 = t2 + int d3;
            timestamp = word_of_int (t1 div NS_PER_MS);
            runtime = t2 - syn_start st;
            st1 = (if syn_fps st \<noteq> 0
                   then st\<lparr>syn_earliest_next := t3 + 1000 sdiv syn_fps st * NS_PER_MS\<rparr> else st)
        in (timestamp, st1\<lparr>syn_angle := seconds runtime\<rparr>))"

definition syn_frame ::
  "surface \<Rightarrow> (pcl_point \<Rightarrow> pcl_point \<Rightarrow> f32) \<Rightarrow> (u64 \<Rightarrow> bool) \<Rightarrow> nat \<Rightarrow> u64 \<Rightarrow> synthetic \<Rightarrow> world
   \<Rightarrow> fault + cwipc_obj option \<times> world" where
  "syn_frame surface dist malloc_ok memptr timestamp st w =
     (let n = syn_hsteps st * syn_asteps st
      in if \<not> syn_has_points st \<and> 0 < n then Inl Null_deref
         else case cwipc_from_points malloc_ok (generate_points surface st) (syn_points_size st)
                     (word_of_int n) timestamp None CWIPC_API_VERSION w of
                Inl f \<Rightarrow> Inl f
              | Inr (None, w1) \<Rightarrow> Inr (None, w1)
              | Inr (Some rv, w1) \<Rightarrow>
                  let (w2, rv1) = set_cellsize dist (f32_div 0x40000000 (f32_of_int (syn_hsteps st))) w1 rv
                  in if is_metadata_requested ''test-angle'' st
                     then let (items, rv2) = access_metadata rv1
                          in Inr (Some (rv2\<lparr>m_metadata :=
                                    Some (metadata_add ''test-angle'' [] memptr 4 0 items)\<rparr>), w2)
                     else Inr (Some rv1, w2))"

definition syn_get ::
  "surface \<Rightarrow> (int \<Rightarrow> f32) \<Rightarrow> (pcl_point \<Rightarrow> pcl_point \<Rightarrow> f32) \<Rightarrow> (u64 \<Rightarrow> bool) \<Rightarrow> nat
   \<Rightarrow> int \<Rightarrow> nat \<times> nat \<times> nat \<Rightarrow> world \<times> synthetic
   \<Rightarrow> fault + cwipc_obj option \<times> world \<times> synthetic" where
  "syn_get surface seconds dist malloc_ok memptr now delays s =
     (case s of (w, st) \<Rightarrow>
      if \<not> syn_started st
      then Inr (None, cwipc_log CWIPC_LOG_LEVEL_ERROR ''cwipc_synthetic''
                        ''get() called before start()'' w, st)
      else case syn_tick seconds now delays st of (timestamp, st2) \<Rightarrow>
             map_sum id (\<lambda>(rv, w'). (rv, w', st2))
               (syn_frame surface dist malloc_ok memptr timestamp st2 w))"

definition syn_maxtile :: "synthetic \<Rightarrow> int" where "syn_maxtile st = 3"

definition syntheticInfo :: "tileinfo list" where
  "syntheticInfo =
     [\<lparr>ti_normal = (0, 0, 0), ti_cameraName = ''synthetic'', ti_ncamera = 2, ti_cameraMask = 0\<rparr>,
      \<lparr>ti_normal = (0, 0, 1), ti_cameraName = ''synthetic-right'', ti_ncamera = 1, ti_cameraMask = 1\<rparr>,
      \<lparr>ti_normal = (0, 0, - 1), ti_cameraName = ''synthetic-left'', ti_ncamera = 1, ti_cameraMask = 2\<rparr>]"

text \<open>What is stored through the pointer, when it is not NULL.\<close>

definition syn_get_tileinfo :: "int \<Rightarrow> bool \<Rightarrow> bool \<times> tileinfo option" where
  "syn_get_tileinfo tilenum has_ptr =
     (if tilenum \<in> {0, 1, 2}
      then (True, if has_ptr then Some (syntheticInfo ! nat tilenum) else None)
      else (False, None))"

text \<open>The bytes stored into the output buffer are the third component.\<close>

definition syn_auxiliary_operation ::
  "string \<Rightarrow> u8 list option \<Rightarrow> u64 \<Rightarrow> bool \<Rightarrow> u64 \<Rightarrow> synthetic \<Rightarrow> fault + bool \<times> synthetic \<times> u8 list" where
  "syn_auxiliary_operation opn inbuf insize has_outbuf outsize st =
     (if opn \<noteq> ''test-setangle'' then Inr (False, st, [])
      else if inbuf = None \<or> insize \<noteq> 4 then Inr (False, st, [])
      else if \<not> has_outbuf \<or> outsize \<noteq> 4 then Inr (False, st, [])
      else case dec_u32 (the inbuf) of
             None \<Rightarrow> Inl Out_of_bounds
           | Some (infloat, _) \<Rightarrow> Inr (True, st\<lparr>syn_angle := infloat\<rparr>, enc_u32 infloat))"

section \<open>The buffer\<close>

lemma isqrt_spec:
  assumes "0 \<le> n"
  shows "0 \<le> isqrt n \<and> isqrt n * isqrt n \<le> n \<and> n < (isqrt n + 1) * (isqrt n + 1)"
  using assms
proof (induction n rule: isqrt.induct)
  case (1 n)
  show ?case
  proof (cases "n = 0")
    case True
    then show ?thesis by (simp add: isqrt.simps [of 0])
  next
    case False
    define q where "q = isqrt (n div 4)"
    have q: "0 \<le> q" "q * q \<le> n div 4" "n div 4 < (q + 1) * (q + 1)"
      using 1 False by (simp_all add: q_def)
    have "4 * (q * q) \<le> n" using q(2) by linarith
    moreover have "n div 4 + 1 \<le> (q + 1) * (q + 1)" using q(3) by simp
    then have "n < 4 * ((q + 1) * (q + 1))" by linarith
    moreover have "isqrt n = (if (2 * q + 1) * (2 * q + 1) \<le> n then 2 * q + 1 else 2 * q)"
      using 1 False by (simp add: isqrt.simps [of n] q_def Let_def)
    ultimately show ?thesis using q(1) by (auto simp: algebra_simps)
  qed
qed

definition syn_ok :: "synthetic \<Rightarrow> bool" where
  "syn_ok st \<longleftrightarrow> 0 \<le> syn_hsteps st \<and> syn_hsteps st \<le> 46340 \<and> syn_asteps st = syn_hsteps st \<and>
     syn_points_size st = points_bytes (syn_hsteps st * syn_hsteps st)"

lemma isqrt_range:
  assumes "0 \<le> n" and "n < 2 ^ 31"
  shows "isqrt n \<le> 46340"
proof (rule ccontr)
  assume "\<not> isqrt n \<le> 46340"
  then have "46341 * 46341 \<le> isqrt n * isqrt n" by (intro mult_mono) auto
  with isqrt_spec [OF assms(1)] assms(2) show False by simp
qed

lemma new_synthetic_ok:
  "new_synthetic malloc_ok fps n = Inr st \<Longrightarrow> n < 2 ^ 31 \<Longrightarrow> syn_ok st"
  using isqrt_spec [of 160000] isqrt_range [of 160000]
    isqrt_spec [of n] isqrt_range [of n]
  by (auto simp: new_synthetic_def Let_def syn_ok_def split: if_splits)

lemma length_generate_points:
  "0 \<le> syn_hsteps st \<Longrightarrow> 0 \<le> syn_asteps st \<Longrightarrow>
   length (generate_points surface st) = nat (syn_hsteps st * syn_asteps st)"
  by (simp add: generate_points_def length_concat comp_def sum_list_triv nat_mult_distrib)

lemma set_generate_points:
  "p \<in> set (generate_points surface st) \<Longrightarrow> pt_tile p = 1 \<or> pt_tile p = 2"
  by (auto simp: generate_points_def surface_point_def split: prod.splits if_splits)

lemma square_le: "0 \<le> (h :: int) \<Longrightarrow> h \<le> 46340 \<Longrightarrow> nat (h * h) \<le> MAX_POINTS"
proof -
  assume "0 \<le> h" "h \<le> 46340"
  then have "h * h \<le> 46340 * 46340" by (intro mult_mono) auto
  then show ?thesis by (simp add: MAX_POINTS_def)
qed

text \<open>A frame of a started source.\<close>

definition get_time :: "int \<Rightarrow> nat \<times> nat \<times> nat \<Rightarrow> synthetic \<Rightarrow> int" where
  "get_time now ds st =
     (if syn_fps st \<noteq> 0 \<and> syn_earliest_next st \<noteq> 0 then max now (syn_earliest_next st) else now)
     + int (fst ds)"

lemma set_cellsize_frame:
  assumes "set_cellsize dist cs w ob = (w', ob')" and "obj_ok ob" and "obj_points ob = Some ps"
  shows "obj_points ob' = Some ps" "m_timestamp ob' = m_timestamp ob"
proof -
  obtain r w1 ob1 where a: "access_pcl_pointcloud w ob = (r, w1, ob1)" by (metis prod_cases3)
  have "ob' = impl_set_cellsize dist cs ob1" using assms(1) by (simp add: set_cellsize_as_access a)
  with access_points [OF assms(2,3) a] show "obj_points ob' = Some ps" "m_timestamp ob' = m_timestamp ob"
    by (cases "pc_class ob"; simp add: obj_points_def)+
qed

lemma obj_points_metadata [simp]: "obj_points (ob\<lparr>m_metadata := m\<rparr>) = obj_points ob"
  by (cases "pc_class ob") (simp_all add: obj_points_def)

lemma access_metadata_obj:
  "access_metadata ob = (items, ob') \<Longrightarrow> obj_points ob' = obj_points ob \<and> m_timestamp ob' = m_timestamp ob"
  by (auto simp: access_metadata_def split: option.splits)

lemma syn_tick_frame:
  assumes "syn_tick seconds now ds st = (ts, st')"
  shows "ts = word_of_int (get_time now ds st div NS_PER_MS)"
    "syn_fps st' = syn_fps st" "syn_hsteps st' = syn_hsteps st" "syn_asteps st' = syn_asteps st"
    "syn_has_points st' = syn_has_points st" "syn_points_size st' = syn_points_size st"
    "syn_started st' = syn_started st"
    "syn_fps st \<noteq> 0 \<Longrightarrow>
       get_time now ds st + 1000 sdiv syn_fps st * NS_PER_MS \<le> syn_earliest_next st'"
  using assms by (cases "syn_fps st = 0"; auto simp: syn_tick_def get_time_def Let_def split: prod.splits)+

lemma syn_frame_points:
  assumes "syn_ok st" and "syn_has_points st" and "malloc_ok (syn_points_size st)"
  shows "\<exists>rv w'. syn_frame surface dist malloc_ok memptr ts st w = Inr (Some rv, w') \<and>
    obj_points rv = Some (generate_points surface st) \<and> m_timestamp rv = ts"
proof -
  let ?h = "syn_hsteps st"
  let ?ps = "generate_points surface st"
  have h: "0 \<le> ?h" "?h \<le> 46340" "syn_asteps st = ?h" "syn_points_size st = points_bytes (?h * ?h)"
    using assms(1) by (simp_all add: syn_ok_def)
  have len: "length ?ps = nat (?h * ?h)"
    using h by (simp add: length_generate_points)
  have max: "length ?ps \<le> MAX_POINTS" using square_le [OF h(1,2)] len by simp
  have sz: "syn_points_size st = size_of_nat (16 * length ?ps)"
    using h len by (simp flip: points_bytes_nat)
  have n: "(word_of_int (?h * ?h) :: u32) = word_of_nat (length ?ps)"
    using h len by (metis nat_0_le of_int_of_nat_eq zero_le_mult_iff)
  obtain ob w1 where mk: "cwipc_from_points malloc_ok ?ps (syn_points_size st) (word_of_int (?h * ?h)) ts
      None CWIPC_API_VERSION w = Inr (Some ob, w1)" and ob: "holds ob ?ps ts f32_zero"
    using from_points_size_ok [where malloc_ok = malloc_ok, OF max, where ts = ts and em = None and w = w
        and sz = "syn_points_size st"] assms(3) sz n by auto
  obtain w2 rv1 where cs: "set_cellsize dist (f32_div 0x40000000 (f32_of_int ?h)) w1 ob = (w2, rv1)"
    by (metis surj_pair)
  obtain items rv2 where md: "access_metadata rv1 = (items, rv2)" by (metis surj_pair)
  have "obj_points rv1 = Some ?ps" "m_timestamp rv1 = ts" "obj_points rv2 = Some ?ps" "m_timestamp rv2 = ts"
    using set_cellsize_frame [OF cs] ob access_metadata_obj [OF md] by (auto simp: holds_def)
  with assms(2) h mk cs md show ?thesis
    by (simp add: syn_frame_def Let_def del: of_int_mult)
qed

lemma syn_get_frame:
  assumes "syn_ok st" and "syn_started st" and "syn_has_points st"
    and "malloc_ok (syn_points_size st)" and "syn_tick seconds now ds st = (ts, st')"
  shows "\<exists>rv w'. syn_get surface seconds dist malloc_ok memptr now ds (w, st) = Inr (Some rv, w', st') \<and>
    obj_points rv = Some (generate_points surface st') \<and> m_timestamp rv = ts"
proof -
  have "syn_ok st'" "syn_has_points st'" "malloc_ok (syn_points_size st')"
    using assms(1,3,4) syn_tick_frame [OF assms(5)] by (simp_all add: syn_ok_def)
  from syn_frame_points [where malloc_ok = malloc_ok, OF this, of surface dist memptr ts w] assms(2)
  show ?thesis by (auto simp: syn_get_def assms(5))
qed

section \<open>Properties\<close>

text \<open>
  A started synthetic source delivers on every \<open>get\<close> a cloud of \<open>steps * steps\<close> points,
  \<open>steps\<close> being the integer square root of the wanted number (160000 when 0), and every point
  belongs to a tile that \<open>get_tileinfo\<close> describes with the same camera mask.
\<close>

theorem synthetic_delivers_frames:
  assumes "cwipc_synthetic malloc_ok fps npoints em CWIPC_API_VERSION w = Inr (Some st0, w0)"
    and "npoints < 2 ^ 31" and "\<And>sz. malloc_ok sz"
    and "syn_start_source now0 (w0, st0) = (ok, w1, st1)"
  shows "\<exists>rv w2 st2 ps. syn_get surface seconds dist malloc_ok memptr now ds (w1, st1) = Inr (Some rv, w2, st2) \<and>
    obj_points rv = Some ps \<and>
    (let n = (if npoints = 0 then 160000 else npoints); steps = isqrt n in
       int (length ps) = steps * steps \<and> steps * steps \<le> n \<and> n < (steps + 1) * (steps + 1)) \<and>
    (\<forall>p \<in> set ps. \<exists>info. syn_get_tileinfo (uint (pt_tile p)) True = (True, Some info) \<and>
       ti_cameraMask info = pt_tile p)"
proof -
  let ?n = "if npoints = 0 then 160000 else npoints"
  have new: "new_synthetic malloc_ok fps npoints = Inr st0"
    using assms(1) by (auto simp: cwipc_synthetic_def split: if_splits sum.splits)
  have n: "0 \<le> ?n" "?n < 2 ^ 31" and st0: "syn_hsteps st0 = isqrt ?n" "\<not> syn_started st0"
    using new assms(2) by (auto simp: new_synthetic_def Let_def split: if_splits)
  have sq: "isqrt ?n * isqrt ?n < 2 ^ 31" "0 \<le> isqrt ?n * isqrt ?n" using isqrt_spec [OF n(1)] n(2) by auto
  have "unat (points_bytes (isqrt ?n * isqrt ?n)) < 2 ^ 63"
    using points_bytes_nonneg [of "isqrt ?n * isqrt ?n"] sq by (simp flip: nat_uint_eq)
  then have "syn_has_points st0"
    using new assms(3) by (auto simp: new_synthetic_def Let_def malloc_def word_less_nat_alt split: if_splits)
  then have st1: "syn_ok st1" "syn_started st1" "syn_has_points st1" "syn_hsteps st1 = isqrt ?n"
    using assms(4) st0 new_synthetic_ok [OF new assms(2)] by (auto simp: syn_start_source_def syn_ok_def)
  obtain ts st2 where tick: "syn_tick seconds now ds st1 = (ts, st2)" by (metis surj_pair)
  obtain rv w2 where g: "syn_get surface seconds dist malloc_ok memptr now ds (w1, st1) = Inr (Some rv, w2, st2)"
      "obj_points rv = Some (generate_points surface st2)"
    using syn_get_frame [where malloc_ok = malloc_ok, OF st1(1-3) assms(3) tick] by blast
  have "syn_hsteps st2 = isqrt ?n" "syn_asteps st2 = isqrt ?n"
    using syn_tick_frame [OF tick] st1 by (simp_all add: syn_ok_def)
  then have "int (length (generate_points surface st2)) = isqrt ?n * isqrt ?n"
    using isqrt_spec [OF n(1)] by (simp add: length_generate_points)
  moreover have "\<exists>info. syn_get_tileinfo (uint (pt_tile p)) True = (True, Some info) \<and>
       ti_cameraMask info = pt_tile p" if "p \<in> set (generate_points surface st2)" for p
    using set_generate_points [OF that] by (auto simp: syn_get_tileinfo_def syntheticInfo_def)
  ultimately show ?thesis
    using g isqrt_spec [OF n(1)] by (auto simp: Let_def)
qed

theorem synthetic_delivers_frames_witness:
  "\<exists>st0 w0 w1 st1 rv w2 st2 ps.
    cwipc_synthetic (\<lambda>_. True) 15 10 None CWIPC_API_VERSION (world_init None 0) = Inr (Some st0, w0) \<and>
    syn_start_source 5 (w0, st0) = (True, w1, st1) \<and>
    syn_get (\<lambda>_ _ _ h a. ((0, 0, 0), h, a, 7)) (\<lambda>_. 0) (\<lambda>_ _. 0) (\<lambda>_. True) 1 9 (0, 0, 0) (w1, st1) =
      Inr (Some rv, w2, st2) \<and> obj_points rv = Some ps \<and> length ps = 9"
proof -
  have sq: "isqrt 10 = 3" by (simp add: isqrt.simps)
  obtain st0 w0 where s: "cwipc_synthetic (\<lambda>_. True) 15 10 None CWIPC_API_VERSION (world_init None 0) =
      Inr (Some st0, w0)" and "\<not> syn_started st0"
    by (simp add: cwipc_synthetic_def api_version_bad_def CWIPC_API_VERSION_def CWIPC_API_VERSION_OLD_def
        new_synthetic_def Let_def)
  then obtain w1 st1 where t: "syn_start_source 5 (w0, st0) = (True, w1, st1)"
    by (simp add: syn_start_source_def)
  from synthetic_delivers_frames [OF s _ _ t, of "\<lambda>_ _ _ h a. ((0, 0, 0), h, a, 7)" "\<lambda>_. 0" "\<lambda>_ _. 0" 1 9 "(0, 0, 0)"]
    s t sq show ?thesis by (auto simp: Let_def)
qed

text \<open>
  Pacing: two consecutive frames of a source with a positive frame rate carry time stamps
  at least \<open>1000 / fps\<close> milliseconds apart, however early the second \<open>get\<close> is called and even
  if the system clock has been set back in between.
\<close>

theorem synthetic_frame_pacing:
  assumes "syn_ok st" and "syn_started st" and "syn_has_points st" and "malloc_ok (syn_points_size st)"
    and "0 < syn_fps st" and "0 < now" and "0 \<le> syn_earliest_next st"
    and "syn_get surface seconds dist malloc_ok mp now ds (w, st) = Inr (Some a, w1, st1)"
    and "syn_get surface seconds dist malloc_ok mp' now' ds' (w1, st1) = Inr (Some b, w2, st2)"
    and "get_time now' ds' st1 < 2 ^ 63"
  shows "uint (m_timestamp a) + 1000 div syn_fps st \<le> uint (m_timestamp b)"
proof -
  obtain ts st1' where t1: "syn_tick seconds now ds st = (ts, st1')" by (metis surj_pair)
  note f1 = syn_tick_frame [OF t1]
  have st1: "st1 = st1'" and ma: "m_timestamp a = ts"
    using syn_get_frame [where malloc_ok = malloc_ok, OF assms(1-4) t1, of surface dist mp w] assms(8) by auto
  have ok1: "syn_ok st1" "syn_started st1" "syn_has_points st1" "malloc_ok (syn_points_size st1)"
    using assms(1-4) f1 by (auto simp: st1 syn_ok_def)
  obtain ts' st2' where t2: "syn_tick seconds now' ds' st1 = (ts', st2')" by (metis surj_pair)
  note f2 = syn_tick_frame [OF t2]
  have mb: "m_timestamp b = ts'"
    using syn_get_frame [where malloc_ok = malloc_ok, OF ok1 t2, of surface dist mp' w1] assms(9) by auto
  define d where "d = 1000 div syn_fps st"
  have d: "1000 sdiv syn_fps st = d" "0 \<le> d"
    using assms(5) by (simp_all add: d_def signed_divide_int_def pos_imp_zdiv_nonneg_iff)
  define t where "t = get_time now ds st"
  define t' where "t' = get_time now' ds' st1"
  have "0 < t" using assms(6) by (auto simp: t_def get_time_def max_def)
  have e: "t + d * NS_PER_MS \<le> syn_earliest_next st1"
    using f1(8) assms(5) by (simp add: st1 d t_def)
  moreover have "0 < t + d * NS_PER_MS"
    using \<open>0 < t\<close> d(2) by (simp add: NS_PER_MS_def add_pos_nonneg)
  ultimately have "syn_earliest_next st1 \<noteq> 0" by linarith
  then have "syn_earliest_next st1 \<le> t'"
    using f1(2) assms(5) by (simp add: t'_def get_time_def st1)
  with e have le: "t + d * NS_PER_MS \<le> t'" by linarith
  then have "(t + d * NS_PER_MS) div NS_PER_MS \<le> t' div NS_PER_MS"
    by (intro zdiv_mono1) (simp_all add: NS_PER_MS_def)
  then have ms: "t div NS_PER_MS + d \<le> t' div NS_PER_MS" by (simp add: NS_PER_MS_def)
  have small: "t' div NS_PER_MS < 2 ^ 63" "0 \<le> t div NS_PER_MS"
    using assms(10) \<open>0 < t\<close> by (simp_all add: t'_def NS_PER_MS_def)
  have "uint ts = t div NS_PER_MS" "uint ts' = t' div NS_PER_MS"
    using small ms d(2) f1(1) f2(1) by (simp_all add: t_def t'_def uint_word_of_int)
  with ms show ?thesis by (simp add: ma mb d_def)
qed


definition one_point_source :: synthetic where
  "one_point_source = \<lparr>syn_angle = 0, syn_start = 0, syn_earliest_next = 0, syn_hsteps = 1,
     syn_asteps = 1, syn_fps = 20, syn_has_points = True, syn_points_size = 16, syn_started = True,
     metadata_wanted = {}\<rparr>"

theorem synthetic_frame_pacing_witness:
  "\<exists>a w1 st1 b w2 st2.
    syn_get (\<lambda>_ _ _ _ _. ((0, 0, 0), 1, 2, 3)) (\<lambda>_. 0) (\<lambda>_ _. 0) (\<lambda>_. True) 1 1000000000 (3, 4, 5)
      (world_init None 0, one_point_source) = Inr (Some a, w1, st1) \<and>
    syn_get (\<lambda>_ _ _ _ _. ((0, 0, 0), 1, 2, 3)) (\<lambda>_. 0) (\<lambda>_ _. 0) (\<lambda>_. True) 1 700 (1, 0, 0)
      (w1, st1) = Inr (Some b, w2, st2) \<and>
    uint (m_timestamp a) + 50 \<le> uint (m_timestamp b)"
proof -
  let ?g = "\<lambda>now ds s. syn_get (\<lambda>_ _ _ _ _. ((0, 0, 0), 1, 2, 3)) (\<lambda>_. 0) (\<lambda>_ _. 0) (\<lambda>_. True) 1 now ds s"
  have ok: "syn_ok one_point_source" "syn_started one_point_source" "syn_has_points one_point_source"
    by (simp_all add: syn_ok_def one_point_source_def points_bytes_def size_of_int_def
        sizeof_cwipc_point_def size_of_nat_def)
  obtain ts st1 where t: "syn_tick (\<lambda>_. 0) 1000000000 (3, 4, 5) one_point_source = (ts, st1)"
    by (metis surj_pair)
  have e1: "syn_earliest_next st1 = 1050000012" "syn_fps st1 = 20"
    using t by (auto simp: syn_tick_def one_point_source_def Let_def NS_PER_MS_def signed_divide_int_def)
  obtain a w1 where a: "?g 1000000000 (3, 4, 5) (world_init None 0, one_point_source) = Inr (Some a, w1, st1)"
    using syn_get_frame [where malloc_ok = "\<lambda>_. True", OF ok TrueI t] by blast
  have ok1: "syn_ok st1" "syn_started st1" "syn_has_points st1"
    using ok syn_tick_frame [OF t] by (simp_all add: syn_ok_def)
  obtain b w2 st2 where b: "?g 700 (1, 0, 0) (w1, st1) = Inr (Some b, w2, st2)"
    using syn_get_frame [where malloc_ok = "\<lambda>_. True", OF ok1 TrueI surjective_pairing] by blast
  have "uint (m_timestamp a) + 1000 div syn_fps one_point_source \<le> uint (m_timestamp b)"
    by (rule synthetic_frame_pacing [OF ok TrueI _ _ _ a b])
      (simp_all add: one_point_source_def get_time_def e1)
  with a b show ?thesis by (auto simp: one_point_source_def)
qed

end
