(* ===== verification/Json.thy ===== *)
theory Json
  imports Prelude FloatArith "HOL-Library.AList"
begin

text \<open>
  JSON values as \<open>nlohmann::json\<close> holds them, and the ways the configuration code reads and
  writes them. Text is parsed and printed by the library, so \<open>parse\<close> and \<open>dump\<close> are parameters
  where they occur; so are the conversions of \<open>get_to\<close> (\<open>json_lib\<close>), which the library defines
  for more kinds of value than its documentation names.
\<close>

section \<open>Values\<close>

datatype json =
    Json_null
  | Json_bool bool
  | Json_int int
  | Json_float f64
  | Json_string string
  | Json_array "json list"
  | Json_object "(string \<times> json) list"

text \<open>\<open>contains\<close> and \<open>at\<close> with a key: not found in anything but an object.\<close>

definition json_lookup :: "json \<Rightarrow> string \<Rightarrow> json option" where
  "json_lookup j k = (case j of Json_object kvs \<Rightarrow> map_of kvs k | _ \<Rightarrow> None)"

text \<open>\<open>operator[]\<close> with a key, assigned to: null becomes an object, other values throw.\<close>

definition json_put :: "string \<Rightarrow> json \<Rightarrow> json \<Rightarrow> json option" where
  "json_put k v j =
     (case j of
        Json_null \<Rightarrow> Some (Json_object [(k, v)])
      | Json_object kvs \<Rightarrow> Some (Json_object (AList.update k v kvs))
      | _ \<Rightarrow> None)"

text \<open>\<open>operator[]\<close> with an index, read from: beyond the end it yields null, which no conversion accepts.\<close>

definition json_index :: "json \<Rightarrow> nat \<Rightarrow> json option" where
  "json_index j i =
     (case j of
        Json_null \<Rightarrow> Some Json_null
      | Json_array xs \<Rightarrow> Some (if i < length xs then xs ! i else Json_null)
      | _ \<Rightarrow> None)"

text \<open>What a loop from \<open>begin ()\<close> to \<open>end ()\<close> visits.\<close>

definition json_elements :: "json \<Rightarrow> json list" where
  "json_elements j =
     (case j of
        Json_null \<Rightarrow> []
      | Json_array xs \<Rightarrow> xs
      | Json_object kvs \<Rightarrow> map snd kvs
      | _ \<Rightarrow> [j])"

text \<open>The conversions of \<open>get_to\<close> (an \<open>int\<close> is its 32 bits); \<open>None\<close> is the exception for a value of the wrong kind.\<close>

record json_lib =
  to_int :: "json \<Rightarrow> u32 option"
  to_double :: "json \<Rightarrow> f64 option"
  to_bool :: "json \<Rightarrow> bool option"
  to_str :: "json \<Rightarrow> string option"

text \<open>What is documented: a value is read back as what it was stored from, and null as nothing.\<close>

definition json_lib_ok :: "json_lib \<Rightarrow> bool" where
  "json_lib_ok lib \<longleftrightarrow>
     (\<forall>i. to_int lib (Json_int (sint i)) = Some i) \<and>
     (\<forall>d. to_double lib (Json_float d) = Some d) \<and>
     (\<forall>b. to_bool lib (Json_bool b) = Some b) \<and>
     (\<forall>s. to_str lib (Json_string s) = Some s) \<and>
     to_double lib Json_null = None"

section \<open>Reading into a structure\<close>

text \<open>
  A reader updates the structure and says whether it returned (\<open>True\<close>) or threw; what it had
  stored before the exception stays stored.
\<close>

type_synonym 'c reader = "'c \<Rightarrow> bool \<times> 'c"

definition reader_then :: "'c reader \<Rightarrow> 'c reader \<Rightarrow> 'c reader" where
  "reader_then f g c = (case f c of (ok, c1) \<Rightarrow> if ok then g c1 else (False, c1))"

primrec read_all :: "'c reader list \<Rightarrow> 'c reader" where
  "read_all [] c = (True, c)"
| "read_all (f # fs) c = reader_then f (read_all fs) c"

text \<open>The macro \<open>_CWIPC_CONFIG_JSON_GET\<close>: an absent member leaves the attribute alone.\<close>

definition json_get ::
  "(json \<Rightarrow> 'v option) \<Rightarrow> json \<Rightarrow> string \<Rightarrow> ('v \<Rightarrow> 'c \<Rightarrow> 'c) \<Rightarrow> 'c reader" where
  "json_get conv j k attr c =
     (case json_lookup j k of
        None \<Rightarrow> (True, c)
      | Some v \<Rightarrow> (case conv v of None \<Rightarrow> (False, c) | Some x \<Rightarrow> (True, attr x c)))"

text \<open>Assigning a nested member.\<close>

definition json_of_int :: "u32 \<Rightarrow> json" where "json_of_int i = Json_int (sint i)"

text \<open>\<open>at (k)\<close>, which throws for an absent member, and \<open>if (contains (k))\<close>.\<close>

definition json_at :: "json \<Rightarrow> string \<Rightarrow> (json \<Rightarrow> 'c reader) \<Rightarrow> 'c reader" where
  "json_at j k f c = (case json_lookup j k of None \<Rightarrow> (False, c) | Some v \<Rightarrow> f v c)"

definition json_if_contains :: "json \<Rightarrow> string \<Rightarrow> (json \<Rightarrow> 'c reader) \<Rightarrow> 'c reader" where
  "json_if_contains j k f c = (case json_lookup j k of None \<Rightarrow> (True, c) | Some v \<Rightarrow> f v c)"

definition json_at_get ::
  "(json \<Rightarrow> 'v option) \<Rightarrow> json \<Rightarrow> string \<Rightarrow> ('v \<Rightarrow> 'c \<Rightarrow> 'c) \<Rightarrow> 'c reader" where
  "json_at_get conv j k attr =
     json_at j k (\<lambda>v c. case conv v of None \<Rightarrow> (False, c) | Some x \<Rightarrow> (True, attr x c))"

section \<open>Building an object\<close>

text \<open>A sequence of \<open>data[k] = v\<close>, from null.\<close>

primrec json_put_all :: "(string \<times> json) list \<Rightarrow> json \<Rightarrow> json option" where
  "json_put_all [] j = Some j"
| "json_put_all (kv # kvs) j =
     (case json_put (fst kv) (snd kv) j of None \<Rightarrow> None | Some j1 \<Rightarrow> json_put_all kvs j1)"

named_theorems json_simps \<open>evaluation of readers and builders\<close>

lemma read_all_append:
  "read_all (fs @ gs) c = reader_then (read_all fs) (read_all gs) c"
  by (induction fs arbitrary: c) (simp_all add: reader_then_def split: prod.split)

lemma reader_then_ok [json_simps]:
  "f c = (True, c1) \<Longrightarrow> reader_then f g c = g c1"
  by (simp add: reader_then_def)

lemma json_put_all_null [json_simps]:
  assumes "distinct (map fst kvs)" and "kvs \<noteq> []"
  shows "json_put_all kvs Json_null = Some (Json_object kvs)"
proof -
  have fresh: "AList.update k v al = al @ [(k, v)]" if "k \<notin> set (map fst al)"
    for k :: string and v :: json and al
    using that by (induction al) auto
  have obj: "json_put_all kvs (Json_object al) = Some (Json_object (al @ kvs))"
    if "distinct (map fst (al @ kvs))" for al kvs
    using that
  proof (induction kvs arbitrary: al)
    case Nil
    then show ?case by simp
  next
    case (Cons kv kvs)
    then have "AList.update (fst kv) (snd kv) al = al @ [kv]"
      using fresh [of "fst kv" al "snd kv"] by simp
    with Cons show ?case by (simp add: json_put_def)
  qed
  from assms show ?thesis
    using obj [of "[hd kvs]" "tl kvs"] by (cases kvs) (simp_all add: json_put_def)
qed

lemma json_get_object [json_simps]:
  "map_of kvs k = None \<Longrightarrow> json_get conv (Json_object kvs) k attr c = (True, c)"
  "map_of kvs k = Some v \<Longrightarrow> conv v = Some x \<Longrightarrow> json_get conv (Json_object kvs) k attr c = (True, attr x c)"
  by (simp_all add: json_get_def json_lookup_def)

lemma json_at_object [json_simps]:
  "map_of kvs k = Some v \<Longrightarrow> json_at (Json_object kvs) k f c = f v c"
  "map_of kvs k = Some v \<Longrightarrow> json_if_contains (Json_object kvs) k f c = f v c"
  "map_of kvs k = None \<Longrightarrow> json_if_contains (Json_object kvs) k f c = (True, c)"
  "map_of kvs k = Some v \<Longrightarrow> conv v = Some x \<Longrightarrow>
     json_at_get conv (Json_object kvs) k attr c = (True, attr x c)"
  by (simp_all add: json_at_def json_if_contains_def json_at_get_def json_lookup_def)

end
