(* ===== verification/Capturer.thy ===== *)
theory Capturer
  imports Synthetic Json
begin

text \<open>
  \<open>cwipc_util/src/cwipc_capturer.cpp\<close>: the registry of capturers and the factory that picks
  one from a configuration. The JSON parser is a parameter from text to a value (or an
  exception), a registered capturer's functions are part of its entry, and the file system is
  the world's.
\<close>

section \<open>The registry\<close>

type_synonym 'src factory = "string \<Rightarrow> nat option \<Rightarrow> u64 \<Rightarrow> world \<Rightarrow> 'src option \<times> world"

text \<open>\<open>countFunc\<close> is NULL for capturers without physical devices; otherwise its result.\<close>

record 'src capturer =
  cap_name :: string
  countFunc :: "int option"
  factoryFunc :: "'src factory"

definition cwipc_register_capturer ::
  "string \<Rightarrow> int option \<Rightarrow> 'src factory \<Rightarrow> 'src capturer list \<Rightarrow> int \<times> 'src capturer list" where
  "cwipc_register_capturer nm countF factoryF all_capturers =
     (1, all_capturers @ [\<lparr>cap_name = nm, countFunc = countF, factoryFunc = factoryF\<rparr>])"

section \<open>The factory\<close>

text \<open>
  The loop over the registry for \<open>"auto"\<close>: the one candidate, or the error message.
\<close>

fun find_candidate :: "'src capturer list \<Rightarrow> 'src capturer option \<Rightarrow> string + 'src capturer option" where
  "find_candidate [] candidate = Inr candidate"
| "find_candidate (c # cs) candidate =
     (case countFunc c of
        None \<Rightarrow> find_candidate cs candidate
      | Some n \<Rightarrow>
          if n = 0 then find_candidate cs candidate
          else case candidate of
                 None \<Rightarrow> find_candidate cs (Some c)
               | Some _ \<Rightarrow> Inl ''auto: multiple supported cameras found'')"

definition contains_type :: "json \<Rightarrow> bool" where
  "contains_type j = (case j of Json_object kvs \<Rightarrow> map_of kvs ''type'' \<noteq> None | _ \<Rightarrow> False)"

text \<open>\<open>json_data.at ("type").get_to (type)\<close>: a value that is not a string throws.\<close>

definition type_of_json :: "json \<Rightarrow> string option" where
  "type_of_json j =
     (case j of Json_object kvs \<Rightarrow> (case map_of kvs ''type'' of Some (Json_string s) \<Rightarrow> Some s | _ \<Rightarrow> None)
              | _ \<Rightarrow> None)"

text \<open>\<open>strrchr (s, '.')\<close>: the suffix from the last dot, or NULL.\<close>

definition strrchr_dot :: "string \<Rightarrow> string option" where
  "strrchr_dot s =
     (if CHR ''.'' \<in> set s then Some (CHR ''.'' # rev (takeWhile (\<lambda>c. c \<noteq> CHR ''.'') (rev s))) else None)"

text \<open>
  The JSON of a configuration: a literal, the contents of a \<open>.json\<close> file, or null for any
  other file name. A message is an error returned through \<open>errorMessage\<close> only.
\<close>

definition load_config ::
  "(string \<Rightarrow> json option) \<Rightarrow> (u8 list \<Rightarrow> json option) \<Rightarrow> string \<Rightarrow> world \<Rightarrow> fault + string + json" where
  "load_config parse parse_bytes configFilename w =
     (if configFilename \<noteq> [] \<and> hd configFilename = CHR ''{''
      then case parse configFilename of
             None \<Rightarrow> Inr (Inl ''cwipc_capturer: auto: JSON parse error'')
           | Some j \<Rightarrow> Inr (Inr j)
      else case strrchr_dot configFilename of
             None \<Rightarrow> Inl Null_deref
           | Some extension \<Rightarrow>
               if extension = ''.json''
               then (case files w configFilename of
                       None \<Rightarrow> Inr (Inl (''cwipc_capturer: auto: cannot open \"'' @ configFilename @ ''\"''))
                     | Some content \<Rightarrow>
                         (case parse_bytes content of
                            None \<Rightarrow> Inr (Inl ''cwipc_capturer: auto: JSON parse error'')
                          | Some j \<Rightarrow> Inr (Inr j)))
               else Inr (Inr Json_null))"

definition cwipc_capturer ::
  "(string \<Rightarrow> json option) \<Rightarrow> (u8 list \<Rightarrow> json option) \<Rightarrow> 'src capturer list
   \<Rightarrow> string option \<Rightarrow> nat option \<Rightarrow> u64 \<Rightarrow> world \<Rightarrow> fault + 'src option \<times> world" where
  "cwipc_capturer parse parse_bytes all_capturers config em v w =
     (if api_version_bad v then Inr (None, api_version_error ''cwipc_capturer'' v em w)
      else
        let w1 = cwipc_log_set_errorbuf em w;
            configFilename = (case config of
                                None \<Rightarrow> ''cameraconfig.json''
                              | Some c \<Rightarrow> if c = [] then ''cameraconfig.json'' else c);
            message = (\<lambda>t. Inr (None, set_error_message em (snprintf_buf 1024 t) w1))
        in if configFilename = ''auto''
           then case find_candidate all_capturers None of
                  Inl t \<Rightarrow> Inr (None, fail_with ''cwipc_capturer'' t w1)
                | Inr None \<Rightarrow> Inr (None, fail_with ''cwipc_capturer'' ''auto: no supported cameras found'' w1)
                | Inr (Some c) \<Rightarrow> Inr (factoryFunc c configFilename em v w1)
           else case load_config parse parse_bytes configFilename w1 of
                  Inl f \<Rightarrow> Inl f
                | Inr (Inl t) \<Rightarrow> message t
                | Inr (Inr json_data) \<Rightarrow>
                    if \<not> contains_type json_data
                    then message (''cwipc_capturer: auto: cannot determine camera type from \"''
                                  @ configFilename @ ''\"'')
                    else case type_of_json json_data of
                      None \<Rightarrow> Inl Uncaught_exception
                    | Some ty \<Rightarrow>
                        (case find (\<lambda>c. cap_name c = ty) all_capturers of
                           Some c \<Rightarrow> Inr (factoryFunc c configFilename em v w1)
                         | None \<Rightarrow> message (''cwipc_capturer: auto: camera type \"'' @ ty
                                            @ ''\" not supported'')))"

section \<open>Choosing a capturer\<close>

definition devices :: "'src capturer list \<Rightarrow> 'src capturer list" where
  "devices cs = filter (\<lambda>c. case countFunc c of None \<Rightarrow> False | Some n \<Rightarrow> n \<noteq> 0) cs"

lemma find_candidate_devices:
  "find_candidate cs cand =
     (case (case cand of None \<Rightarrow> [] | Some c \<Rightarrow> [c]) @ devices cs of
        [] \<Rightarrow> Inr None
      | [c] \<Rightarrow> Inr (Some c)
      | _ \<Rightarrow> Inl ''auto: multiple supported cameras found'')"
  by (induction cs arbitrary: cand) (auto simp: devices_def split: option.split list.split)

section \<open>Properties\<close>

text \<open>
  Automatic configuration picks a capturer exactly when one single registered capturer
  has devices, wherever it stands in the registry and whatever the others are; otherwise it
  returns NULL with an error.
\<close>

theorem capturer_auto_unique:
  assumes "errorbufs w a = None" and "log_initialized w"
    and "CWIPC_LOG_LEVEL_ERROR \<le> currentLogLevel w"
  shows "case devices cs of
     [c] \<Rightarrow> cwipc_capturer parse pb cs (Some ''auto'') (Some a) CWIPC_API_VERSION w =
       Inr (factoryFunc c ''auto'' (Some a) CWIPC_API_VERSION (w\<lparr>currentErrorBuf := Some a\<rparr>))
   | _ \<Rightarrow> \<exists>w' msg. cwipc_capturer parse pb cs (Some ''auto'') (Some a) CWIPC_API_VERSION w = Inr (None, w')
       \<and> errorbufs w' a = Some msg \<and> currentErrorBuf w' = None"
proof -
  have "\<exists>msg. errorbufs (fail_with m t (cwipc_log_set_errorbuf (Some a) w)) a = Some msg
      \<and> currentErrorBuf (fail_with m t (cwipc_log_set_errorbuf (Some a) w)) = None" for m t
    using assms cwipc_log_errorbufs [of "cwipc_log_set_errorbuf (Some a) w" a CWIPC_LOG_LEVEL_ERROR m t]
    by (simp add: fail_with_def cwipc_log_set_errorbuf_def initialize_idem world_simps)
  then show ?thesis
    using assms(2)
    by (auto simp: cwipc_capturer_def api_version_bad_def CWIPC_API_VERSION_def CWIPC_API_VERSION_OLD_def
        find_candidate_devices cwipc_log_set_errorbuf_def initialize_idem split: list.split)
qed


definition dummy_factory :: "nat factory" where
  "dummy_factory conf em v w = (Some 1, w)"

definition sample_registry :: "nat capturer list" where
  "sample_registry =
     [\<lparr>cap_name = ''synthetic'', countFunc = None, factoryFunc = (\<lambda>_ _ _ w. (Some 0, w))\<rparr>,
      \<lparr>cap_name = ''kinect'', countFunc = Some 0, factoryFunc = (\<lambda>_ _ _ w. (None, w))\<rparr>,
      \<lparr>cap_name = ''realsense'', countFunc = Some 2, factoryFunc = dummy_factory\<rparr>]"

theorem capturer_auto_unique_witness:
  "fst (projr (cwipc_capturer (\<lambda>_. None) (\<lambda>_. None) sample_registry (Some ''auto'') (Some 3) CWIPC_API_VERSION
     ((world_init None 0)\<lparr>log_initialized := True\<rparr>))) = Some 1"
  using capturer_auto_unique [of "(world_init None 0)\<lparr>log_initialized := True\<rparr>" 3 "\<lambda>_. None" "\<lambda>_. None" sample_registry]
  by (simp add: world_init_def logger.defs logger_init_def log_levels devices_def sample_registry_def
      dummy_factory_def)

text \<open>
  A JSON configuration selects the first registered capturer of its type and passes it
  the configuration unchanged; a type nobody registered gives NULL and the documented message.
\<close>

theorem capturer_config_dispatch:
  assumes "conf \<noteq> []" and "conf \<noteq> ''auto''"
    and "load_config parse pb conf (cwipc_log_set_errorbuf (Some a) w) = Inr (Inr (Json_object kvs))"
    and "map_of kvs ''type'' = Some (Json_string ty)"
  shows "cwipc_capturer parse pb cs (Some conf) (Some a) CWIPC_API_VERSION w =
    (let w1 = cwipc_log_set_errorbuf (Some a) w in
     if \<exists>c \<in> set cs. cap_name c = ty
     then Inr (factoryFunc (the (find (\<lambda>c. cap_name c = ty) cs)) conf (Some a) CWIPC_API_VERSION w1)
     else Inr (None, set_error_message (Some a)
            (take 1023 (''cwipc_capturer: auto: camera type \"'' @ ty @ ''\" not supported'')) w1))"
proof (cases "find (\<lambda>c. cap_name c = ty) cs")
  case None
  then have "\<not> (\<exists>c \<in> set cs. cap_name c = ty)" by (auto simp: find_None_iff)
  with None show ?thesis
    using assms by (simp add: cwipc_capturer_def api_version_bad_def CWIPC_API_VERSION_def
        CWIPC_API_VERSION_OLD_def contains_type_def type_of_json_def snprintf_buf_def Let_def)
next
  case (Some c)
  then have "\<exists>c \<in> set cs. cap_name c = ty" by (auto simp: find_Some_iff)
  with Some show ?thesis
    using assms by (simp add: cwipc_capturer_def api_version_bad_def CWIPC_API_VERSION_def
        CWIPC_API_VERSION_OLD_def contains_type_def type_of_json_def Let_def)
qed

theorem capturer_config_dispatch_witness:
  "fst (projr (cwipc_capturer (\<lambda>_. Some (Json_object [(''type'', Json_string ''realsense'')])) (\<lambda>_. None)
     sample_registry (Some ''{}'') (Some 3) CWIPC_API_VERSION (world_init None 0))) = Some 1"
proof -
  have "load_config (\<lambda>_. Some (Json_object [(''type'', Json_string ''realsense'')])) (\<lambda>_. None) ''{}''
      (cwipc_log_set_errorbuf (Some 3) (world_init None 0)) =
      Inr (Inr (Json_object [(''type'', Json_string ''realsense'')]))"
    by (simp add: load_config_def)
  from capturer_config_dispatch [OF _ _ this, of "''realsense''" sample_registry]
  show ?thesis by (simp add: sample_registry_def dummy_factory_def Let_def)
qed

text \<open>
  A configuration name without a dot (\<open>"kinect"\<close>) crashes: \<open>strrchr\<close> returns NULL and
  \<open>strcmp\<close> dereferences it, whatever capturers are registered.
\<close>

theorem capturer_name_without_dot_crashes:
  assumes "CHR ''.'' \<notin> set conf" and "conf \<noteq> []" and "hd conf \<noteq> CHR ''{''" and "conf \<noteq> ''auto''"
  shows "cwipc_capturer parse pb cs (Some conf) em CWIPC_API_VERSION w = Inl Null_deref"
  using assms
  by (simp add: cwipc_capturer_def api_version_bad_def CWIPC_API_VERSION_def CWIPC_API_VERSION_OLD_def
      load_config_def strrchr_dot_def Let_def)

theorem capturer_name_without_dot_crashes_witness:
  "cwipc_capturer (\<lambda>_. None) (\<lambda>_. None) sample_registry (Some ''kinect'') None CWIPC_API_VERSION
     (world_init None 0) = Inl Null_deref"
  by (rule capturer_name_without_dot_crashes) simp_all

text \<open>
  After an error in the JSON branch the logger still holds the caller's \<open>errorMessage\<close>
  pointer: unlike the \<open>auto\<close> branch it returns without \<open>cwipc_log_set_errorbuf (nullptr)\<close>.
\<close>

theorem capturer_parse_error_keeps_errorbuf:
  "\<exists>w'. cwipc_capturer (\<lambda>_. None) pb cs (Some (CHR ''{'' # text_s)) (Some a) CWIPC_API_VERSION w = Inr (None, w')
     \<and> errorbufs w' a = Some ''cwipc_capturer: auto: JSON parse error'' \<and> currentErrorBuf w' = Some a"
  by (simp add: cwipc_capturer_def api_version_bad_def CWIPC_API_VERSION_def CWIPC_API_VERSION_OLD_def
      load_config_def set_error_message_def snprintf_buf_def Let_def cwipc_log_set_errorbuf_def)

end
