(* ===== verification/Proxy.thy ===== *)
theory Proxy
  imports Synthetic
begin

text \<open>
  \<open>cwipc_util/src/cwipc_proxy.cpp\<close>: the source that receives point clouds from a TCP
  connection. The server thread is cut at every point where another thread can run: before each
  system call that may block, and before each acquisition of \<open>m_pc_mutex\<close>. What the system
  calls return is the event that goes with the step; an execution is any interleaving of server
  steps and client calls.
\<close>

section \<open>State\<close>

text \<open>
  Where a server thread is: at the test of \<open>m_running\<close>, in \<open>accept\<close>, in the two \<open>recv\<close> calls,
  before the mutex with a new cloud, in \<open>send\<close> (holding the mutex, whose guard lives to the end
  of the loop body), after the loop, before the last lock, and returned.
\<close>

datatype server_at =
    At_test
  | In_accept
  | In_recv_header
  | In_recv_points point_packetheader
  | Before_lock point_packetheader cwipc_obj
  | In_send u64
  | After_loop
  | Before_last_lock
  | Returned

text \<open>The pointer \<open>m_server_thread\<close>: the constructor leaves it uninitialised.\<close>

datatype thread_pointer = Thread_unset | Thread_null | Thread_at nat

record proxy =
  m_listen_socket :: int
  m_socket :: int
  m_server_thread :: thread_pointer
  m_running :: bool
  proxy_pc :: "cwipc_obj option"       \<comment> \<open>\<open>m_pc\<close>\<close>
  server_threads :: "server_at list"   \<comment> \<open>every thread \<open>start\<close> has created\<close>
  fds_closed :: "int list"             \<comment> \<open>the arguments of \<open>closesocket\<close>\<close>
  acks_sent :: "u64 list"              \<comment> \<open>the time stamps sent back\<close>

definition new_proxy :: "int \<Rightarrow> proxy" where
  "new_proxy sock = \<lparr>m_listen_socket = sock, m_socket = - 1, m_server_thread = Thread_unset,
     m_running = False, proxy_pc = None, server_threads = [], fds_closed = [], acks_sent = []\<rparr>"

definition close_fd :: "int \<Rightarrow> proxy \<Rightarrow> proxy" where
  "close_fd fd p = p\<lparr>fds_closed := fds_closed p @ [fd]\<rparr>"

definition move_thread :: "nat \<Rightarrow> server_at \<Rightarrow> proxy \<Rightarrow> proxy" where
  "move_thread i at p = p\<lparr>server_threads := (server_threads p)[i := at]\<rparr>"

text \<open>\<open>m_pc_mutex\<close> is held while a server thread is in \<open>send\<close>.\<close>

definition mutex_held :: "proxy \<Rightarrow> bool" where
  "mutex_held p = (\<exists>ts. In_send ts \<in> set (server_threads p))"

lemma mutex_held_code [code]:
  "mutex_held p = list_ex (\<lambda>at. case at of In_send _ \<Rightarrow> True | _ \<Rightarrow> False) (server_threads p)"
proof -
  have "list_ex (\<lambda>at. case at of In_send _ \<Rightarrow> True | _ \<Rightarrow> False) ats = (\<exists>ts. In_send ts \<in> set ats)" for ats
    by (induction ats) (auto split: server_at.splits)
  then show ?thesis by (simp add: mutex_held_def)
qed

section \<open>Construction\<close>

text \<open>What the system calls of \<open>cwipc_proxy\<close> return, up to the first failure.\<close>

datatype listen_result =
    Getaddrinfo_failed string
  | Socket_failed string
  | Bind_failed int string
  | Listen_failed int string
  | Listening int

text \<open>
  The result also names the sockets closed on the way. The address list of a successful
  \<open>getaddrinfo\<close> is never released: one more temporary buffer.
\<close>

definition cwipc_proxy ::
  "(string option \<Rightarrow> string \<Rightarrow> listen_result) \<Rightarrow> string option \<Rightarrow> int \<Rightarrow> nat option \<Rightarrow> u64 \<Rightarrow> world
   \<Rightarrow> proxy option \<times> int list \<times> world" where
  "cwipc_proxy net host port em v w =
     (if api_version_bad v
      then (None, [], api_version_error ''cwipc_proxy'' v em w)
      else
        let w1 = cwipc_log_set_errorbuf em w;
            portbuf = snprintf_buf 32 (to_string port);
            host1 = (if host = Some [] then None else host);
            w2 = w1\<lparr>temp_buffers := temp_buffers w1 + 1\<rparr>
        in case net host1 portbuf of
             Getaddrinfo_failed e \<Rightarrow> (None, [], fail_with ''cwipc_proxy'' (''getaddrinfo: '' @ e) w1)
           | Socket_failed e \<Rightarrow> (None, [], fail_with ''cwipc_proxy'' (''socket: '' @ e) w2)
           | Bind_failed sock e \<Rightarrow> (None, [sock], fail_with ''cwipc_proxy'' (''bind: '' @ e) w2)
           | Listen_failed sock e \<Rightarrow> (None, [sock], fail_with ''cwipc_proxy'' (''listen: '' @ e) w2)
           | Listening sock \<Rightarrow> (Some (new_proxy sock), [], cwipc_log_set_errorbuf None w2))"

section \<open>The client's calls\<close>

definition proxy_start :: "proxy \<Rightarrow> proxy" where
  "proxy_start p = p\<lparr>m_running := True, server_threads := server_threads p @ [At_test],
     m_server_thread := Thread_at (length (server_threads p))\<rparr>"

text \<open>\<open>stop\<close> up to the join.\<close>

definition proxy_stop_signal :: "proxy \<Rightarrow> proxy" where
  "proxy_stop_signal p =
     (let p1 = p\<lparr>m_running := False\<rparr>;
          p2 = (if 0 \<le> m_listen_socket p1 then close_fd (m_listen_socket p1) p1 else p1);
          p3 = p2\<lparr>m_listen_socket := - 1\<rparr>;
          p4 = (if 0 \<le> m_socket p3 then close_fd (m_socket p3) p3 else p3)
      in p4\<lparr>m_socket := - 1\<rparr>)"

text \<open>\<open>free\<close>, up to the join it reaches when the source was running.\<close>

definition proxy_free :: "proxy \<Rightarrow> proxy" where
  "proxy_free p = (if m_running p then proxy_stop_signal p else p)"

text \<open>\<open>None\<close>: the thread to join is still running.\<close>

definition proxy_stop_join :: "proxy \<Rightarrow> (fault + proxy) option" where
  "proxy_stop_join p =
     (case m_server_thread p of
        Thread_unset \<Rightarrow> Some (Inl Uninitialized)
      | Thread_null \<Rightarrow> Some (Inr p)
      | Thread_at i \<Rightarrow> if i < length (server_threads p) \<and> server_threads p ! i = Returned
                      then Some (Inr (p\<lparr>m_server_thread := Thread_null\<rparr>)) else None)"

definition proxy_reload_config :: "world \<Rightarrow> bool \<times> world" where
  "proxy_reload_config w =
     (False, cwipc_log CWIPC_LOG_LEVEL_WARNING ''cwipc_proxy'' ''reload_config() not implemented'' w)"

definition proxy_reload_config_fast :: "world \<Rightarrow> bool \<times> world" where
  "proxy_reload_config_fast w =
     (False, cwipc_log CWIPC_LOG_LEVEL_WARNING ''cwipc_proxy'' ''reload_config_fast() not implemented'' w)"

definition proxy_get_config :: "u64 \<Rightarrow> u64" where "proxy_get_config sz = 0"

definition proxy_seek :: "u64 \<Rightarrow> proxy \<Rightarrow> bool" where "proxy_seek ts p = False"

definition proxy_eof :: "proxy \<Rightarrow> bool" where
  "proxy_eof p = (m_listen_socket p < 0 \<and> m_socket p < 0)"

text \<open>\<open>None\<close>: the call waits, for the mutex or on \<open>m_pc_fresh\<close>.\<close>

definition proxy_available :: "bool \<Rightarrow> proxy \<Rightarrow> bool option" where
  "proxy_available wait_b p =
     (if mutex_held p then None
      else if wait_b \<and> \<not> (proxy_pc p \<noteq> None \<or> \<not> m_running p) then None
      else Some (proxy_pc p \<noteq> None))"

definition proxy_get :: "proxy \<Rightarrow> (cwipc_obj option \<times> proxy) option" where
  "proxy_get p =
     (if mutex_held p then None
      else if \<not> (proxy_pc p \<noteq> None \<or> \<not> m_running p) then None
      else Some (proxy_pc p, p\<lparr>proxy_pc := None\<rparr>))"

definition proxy_maxtile :: "proxy \<Rightarrow> int" where "proxy_maxtile p = 1"

definition proxyInfo :: tileinfo where
  "proxyInfo = \<lparr>ti_normal = (0, 0, 0), ti_cameraName = ''proxy'', ti_ncamera = 1, ti_cameraMask = 0\<rparr>"

definition proxy_get_tileinfo :: "int \<Rightarrow> bool \<Rightarrow> bool \<times> tileinfo option" where
  "proxy_get_tileinfo tilenum has_ptr =
     (if tilenum = 0 then (True, if has_ptr then Some proxyInfo else None) else (False, None))"

section \<open>The server thread\<close>

datatype net_event =
    No_call                          \<comment> \<open>the step makes no blocking system call\<close>
  | Accept_returns int
  | Recv_returns "u8 list option"    \<comment> \<open>the bytes stored, or an error\<close>
  | Send_returns bool                \<comment> \<open>did \<open>send\<close> succeed\<close>

text \<open>
  \<open>_recvall\<close>: \<open>int status = recv (...)\<close>, then \<open>status == size\<close> with the status converted to
  \<open>size_t\<close>. \<open>recv\<close> stores at most \<open>size\<close> bytes.
\<close>

definition recvall :: "u64 \<Rightarrow> u8 list option \<Rightarrow> u8 list option" where
  "recvall size_b r =
     (case r of None \<Rightarrow> None
      | Some bytes \<Rightarrow>
          if size_of_int (int_of_size (size_of_nat (length bytes))) = size_b then Some bytes else None)"

definition recv_possible :: "u64 \<Rightarrow> u8 list option \<Rightarrow> bool" where
  "recv_possible size_b r = (case r of None \<Rightarrow> True | Some bytes \<Rightarrow> length bytes \<le> unat size_b)"

definition drop_connection :: "nat \<Rightarrow> proxy \<Rightarrow> proxy" where
  "drop_connection i p = move_thread i At_test ((close_fd (m_socket p) p)\<lparr>m_socket := - 1\<rparr>)"

text \<open>
  The cloud from the received bytes; \<open>em\<close> is the address of the local \<open>errorMessage\<close>. Building
  a \<open>std::string\<close> from a null message is undefined.
\<close>

definition convert_packet ::
  "(pcl_point \<Rightarrow> pcl_point \<Rightarrow> f32) \<Rightarrow> (u64 \<Rightarrow> bool) \<Rightarrow> nat \<Rightarrow> point_packetheader \<Rightarrow> u8 list \<Rightarrow> world
   \<Rightarrow> fault + cwipc_obj option \<times> world" where
  "convert_packet dist malloc_ok em header bytes w =
     (case dec_n dec_point (unat (dataCount header) div sizeof_cwipc_point) bytes of
        None \<Rightarrow> Inl Out_of_bounds
      | Some (points, _) \<Rightarrow>
          (case cwipc_from_points malloc_ok points (ucast (dataCount header))
                  (word_of_nat (unat (dataCount header) div sizeof_cwipc_point)) (ph_timestamp header)
                  (Some em) CWIPC_API_VERSION (w\<lparr>errorbufs := (errorbufs w)(em := None)\<rparr>) of
             Inl f \<Rightarrow> Inl f
           | Inr (rv, w1) \<Rightarrow>
               let w2 = w1\<lparr>temp_buffers := temp_buffers w1 - 1\<rparr> in
               case rv of
                 None \<Rightarrow>
                   (case errorbufs w2 em of
                      None \<Rightarrow> Inl Null_deref
                    | Some errorMessage \<Rightarrow>
                        Inr (None, cwipc_log CWIPC_LOG_LEVEL_WARNING ''cwipc_proxy''
                                     (''cwipc_from_points: '' @ errorMessage) w2))
               | Some pc \<Rightarrow>
                   let (w3, pc1) = set_cellsize dist (ph_cellsize header) w2 pc
                   in Inr (Some pc1, w3)))"

definition on_header ::
  "(u64 \<Rightarrow> bool) \<Rightarrow> nat \<Rightarrow> u8 list option \<Rightarrow> world \<times> proxy \<Rightarrow> world \<times> proxy" where
  "on_header malloc_ok i r s =
     (case s of (w, p) \<Rightarrow>
      case (case recvall (size_of_nat sizeof_point_packetheader) r of
              None \<Rightarrow> None | Some bytes \<Rightarrow> dec_packetheader bytes) of
        None \<Rightarrow> (w, drop_connection i p)
      | Some (header, _) \<Rightarrow>
          if ph_magic header \<noteq> CWIPC_POINT_PACKETHEADER_MAGIC
          then (cwipc_log CWIPC_LOG_LEVEL_ERROR ''cwipc_proxy'' ''invalid magic number in packet header'' w,
                move_thread i After_loop p)
          else if \<not> malloc malloc_ok (ucast (dataCount header))
          then (cwipc_log CWIPC_LOG_LEVEL_ERROR ''cwipc_proxy'' ''malloc failed'' w, move_thread i After_loop p)
          else (w\<lparr>temp_buffers := temp_buffers w + 1\<rparr>, move_thread i (In_recv_points header) p))"

definition on_points ::
  "(pcl_point \<Rightarrow> pcl_point \<Rightarrow> f32) \<Rightarrow> (u64 \<Rightarrow> bool) \<Rightarrow> nat \<Rightarrow> nat \<Rightarrow> point_packetheader \<Rightarrow> u8 list option
   \<Rightarrow> world \<times> proxy \<Rightarrow> fault + world \<times> proxy" where
  "on_points dist malloc_ok em i header r s =
     (case s of (w, p) \<Rightarrow>
      case recvall (ucast (dataCount header)) r of
        None \<Rightarrow> Inr (w, drop_connection i p)
      | Some bytes \<Rightarrow>
          (case convert_packet dist malloc_ok em header bytes w of
             Inl f \<Rightarrow> Inl f
           | Inr (None, w1) \<Rightarrow> Inr (w1, move_thread i After_loop p)
           | Inr (Some pc, w1) \<Rightarrow> Inr (w1, move_thread i (Before_lock header pc) p)))"

text \<open>Under the mutex: an old cloud nobody fetched is freed.\<close>

definition forward_pc :: "nat \<Rightarrow> point_packetheader \<Rightarrow> cwipc_obj \<Rightarrow> world \<times> proxy \<Rightarrow> world \<times> proxy" where
  "forward_pc i header pc s =
     (case s of (w, p) \<Rightarrow>
        ((case proxy_pc p of None \<Rightarrow> w | Some old \<Rightarrow> fst (pc_free w old)),
         move_thread i (In_send (ph_timestamp header)) (p\<lparr>proxy_pc := Some pc\<rparr>)))"

definition on_send :: "nat \<Rightarrow> u64 \<Rightarrow> bool \<Rightarrow> proxy \<Rightarrow> proxy" where
  "on_send i ts ok p =
     (if ok then move_thread i At_test (p\<lparr>acks_sent := acks_sent p @ [ts]\<rparr>)
      else if 0 \<le> m_socket p then drop_connection i p
      else move_thread i At_test p)"

text \<open>One step of thread \<open>i\<close>; \<open>None\<close>: it cannot take a step with this event now.\<close>

definition server_step ::
  "(pcl_point \<Rightarrow> pcl_point \<Rightarrow> f32) \<Rightarrow> (u64 \<Rightarrow> bool) \<Rightarrow> nat \<Rightarrow> nat \<Rightarrow> net_event \<Rightarrow> world \<times> proxy
   \<Rightarrow> (fault + world \<times> proxy) option" where
  "server_step dist malloc_ok em i ev s =
     (case s of (w, p) \<Rightarrow>
      if \<not> i < length (server_threads p) then None
      else case (server_threads p ! i, ev) of
        (At_test, No_call) \<Rightarrow>
          if \<not> m_running p then Some (Inr (w, move_thread i After_loop p))
          else if m_socket p < 0
          then Some (Inr (cwipc_log CWIPC_LOG_LEVEL_TRACE ''cwipc_proxy'' ''waiting for connection...'' w,
                          move_thread i In_accept p))
          else Some (Inr (w, move_thread i In_recv_header p))
      | (In_accept, Accept_returns fd) \<Rightarrow>
          let p1 = p\<lparr>m_socket := fd\<rparr> in
          if fd < 0
          then Some (Inr (w, move_thread i After_loop ((close_fd (m_listen_socket p1) p1)\<lparr>m_running := False\<rparr>)))
          else Some (Inr (cwipc_log CWIPC_LOG_LEVEL_TRACE ''cwipc_proxy'' ''connection accepted'' w,
                          move_thread i In_recv_header p1))
      | (In_recv_header, Recv_returns r) \<Rightarrow>
          if recv_possible (size_of_nat sizeof_point_packetheader) r
          then Some (Inr (on_header malloc_ok i r s)) else None
      | (In_recv_points header, Recv_returns r) \<Rightarrow>
          if recv_possible (ucast (dataCount header)) r
          then Some (on_points dist malloc_ok em i header r s) else None
      | (Before_lock header pc, No_call) \<Rightarrow>
          if mutex_held p then None else Some (Inr (forward_pc i header pc s))
      | (In_send ts, Send_returns ok) \<Rightarrow> Some (Inr (w, on_send i ts ok p))
      | (After_loop, No_call) \<Rightarrow>
          Some (Inr (w, move_thread i Before_last_lock
            (if 0 \<le> m_socket p then (close_fd (m_socket p) p)\<lparr>m_socket := - 1\<rparr> else p)))
      | (Before_last_lock, No_call) \<Rightarrow>
          if mutex_held p then None
          else Some (Inr (w, move_thread i Returned (p\<lparr>m_running := False\<rparr>)))
      | _ \<Rightarrow> None)"

section \<open>Executions\<close>

datatype proxy_action =
    Start
  | Stop_signal
  | Stop_join
  | Free
  | Available bool
  | Get
  | Server nat net_event

text \<open>The state with the clouds \<open>get\<close> has handed out.\<close>

record proxy_run =
  pr_world :: world
  pr_proxy :: proxy
  pr_got :: "cwipc_obj list"

fun proxy_exec ::
  "(pcl_point \<Rightarrow> pcl_point \<Rightarrow> f32) \<Rightarrow> (u64 \<Rightarrow> bool) \<Rightarrow> nat \<Rightarrow> proxy_action \<Rightarrow> proxy_run
   \<Rightarrow> (fault + proxy_run) option" where
  "proxy_exec dist malloc_ok em Start s = Some (Inr (s\<lparr>pr_proxy := proxy_start (pr_proxy s)\<rparr>))"
| "proxy_exec dist malloc_ok em Stop_signal s = Some (Inr (s\<lparr>pr_proxy := proxy_stop_signal (pr_proxy s)\<rparr>))"
| "proxy_exec dist malloc_ok em Stop_join s =
     map_option (map_sum id (\<lambda>p. s\<lparr>pr_proxy := p\<rparr>)) (proxy_stop_join (pr_proxy s))"
| "proxy_exec dist malloc_ok em Free s = Some (Inr (s\<lparr>pr_proxy := proxy_free (pr_proxy s)\<rparr>))"
| "proxy_exec dist malloc_ok em (Available wait_b) s =
     map_option (\<lambda>_. Inr s) (proxy_available wait_b (pr_proxy s))"
| "proxy_exec dist malloc_ok em Get s =
     map_option (\<lambda>(rv, p). Inr (s\<lparr>pr_proxy := p, pr_got := pr_got s @ (case rv of None \<Rightarrow> [] | Some pc \<Rightarrow> [pc])\<rparr>))
       (proxy_get (pr_proxy s))"
| "proxy_exec dist malloc_ok em (Server i ev) s =
     map_option (map_sum id (\<lambda>(w, p). s\<lparr>pr_world := w, pr_proxy := p\<rparr>))
       (server_step dist malloc_ok em i ev (pr_world s, pr_proxy s))"

fun run_proxy ::
  "(pcl_point \<Rightarrow> pcl_point \<Rightarrow> f32) \<Rightarrow> (u64 \<Rightarrow> bool) \<Rightarrow> nat \<Rightarrow> proxy_action list \<Rightarrow> proxy_run
   \<Rightarrow> (fault + proxy_run) option" where
  "run_proxy dist malloc_ok em [] s = Some (Inr s)"
| "run_proxy dist malloc_ok em (a # as) s =
     (case proxy_exec dist malloc_ok em a s of
        None \<Rightarrow> None | Some (Inl f) \<Rightarrow> Some (Inl f) | Some (Inr s') \<Rightarrow> run_proxy dist malloc_ok em as s')"

section \<open>Accounting\<close>

definition held_in :: "server_at \<Rightarrow> int" where
  "held_in at = (case at of Before_lock _ pc \<Rightarrow> 1 | _ \<Rightarrow> 0)"

text \<open>The clouds in the proxy: the one to fetch, and those waiting for the mutex.\<close>

definition proxy_holds :: "proxy \<Rightarrow> int" where
  "proxy_holds p = (if proxy_pc p = None then 0 else 1) + sum_list (map held_in (server_threads p))"

lemma held_in_simps [simp]:
  "held_in At_test = 0" "held_in In_accept = 0" "held_in In_recv_header = 0"
  "held_in (In_recv_points h) = 0" "held_in (Before_lock h pc) = 1" "held_in (In_send ts) = 0"
  "held_in After_loop = 0" "held_in Before_last_lock = 0" "held_in Returned = 0"
  by (simp_all add: held_in_def)

lemma proxy_holds_move [simp]:
  "i < length (server_threads p) \<Longrightarrow>
   proxy_holds (move_thread i at p) = proxy_holds p - held_in (server_threads p ! i) + held_in at"
  by (simp add: proxy_holds_def move_thread_def sum_list_update)

lemma proxy_holds_pc [simp]:
  "proxy_holds (p\<lparr>proxy_pc := x\<rparr>) =
     proxy_holds p - (if proxy_pc p = None then 0 else 1) + (if x = None then 0 else 1)"
  by (simp add: proxy_holds_def)

lemma proxy_frame [simp]:
  "server_threads (close_fd fd p) = server_threads p" "proxy_pc (close_fd fd p) = proxy_pc p"
  "m_socket (close_fd fd p) = m_socket p" "m_listen_socket (close_fd fd p) = m_listen_socket p"
  "m_running (close_fd fd p) = m_running p" "m_server_thread (close_fd fd p) = m_server_thread p"
  "proxy_pc (move_thread i at p) = proxy_pc p" "m_socket (move_thread i at p) = m_socket p"
  "m_listen_socket (move_thread i at p) = m_listen_socket p" "m_running (move_thread i at p) = m_running p"
  "m_server_thread (move_thread i at p) = m_server_thread p"
  "server_threads (move_thread i at p) = (server_threads p)[i := at]"
  "acks_sent (move_thread i at p) = acks_sent p" "acks_sent (close_fd fd p) = acks_sent p"
  by (simp_all add: close_fd_def move_thread_def)

lemma proxy_holds_cong [simp]:
  "proxy_holds (close_fd fd p) = proxy_holds p"
  "proxy_holds (p\<lparr>m_socket := s\<rparr>) = proxy_holds p"
  "proxy_holds (p\<lparr>m_running := r\<rparr>) = proxy_holds p"
  "proxy_holds (p\<lparr>acks_sent := as\<rparr>) = proxy_holds p"
  "proxy_holds (proxy_start p) = proxy_holds p"
  "proxy_holds (proxy_stop_signal p) = proxy_holds p"
  "proxy_holds (proxy_free p) = proxy_holds p"
  by (simp_all add: proxy_holds_def proxy_start_def proxy_stop_signal_def proxy_free_def Let_def)

text \<open>What the world counts, for both kinds of allocation.\<close>

definition counts_rise :: "world \<Rightarrow> world \<Rightarrow> int \<Rightarrow> bool" where
  "counts_rise w w' a \<longleftrightarrow> pc_dangling w' = pc_dangling w + a \<and> points_dangling w' = points_dangling w + a"

lemma counts_rise_simps [simp]:
  "counts_rise w w 0"
  "counts_rise w (w'\<lparr>temp_buffers := n\<rparr>) a = counts_rise w w' a"
  "counts_rise (w\<lparr>errorbufs := eb\<rparr>) w' a = counts_rise w w' a"
  "counts_rise w (cwipc_log l m t w') a = counts_rise w w' a"
  by (simp_all add: counts_rise_def accounted_log io_world) (simp_all add: dangling_defs)

lemma counts_rise_trans: "counts_rise w w1 a \<Longrightarrow> counts_rise w1 w2 b \<Longrightarrow> counts_rise w w2 (a + b)"
  by (simp add: counts_rise_def)

text \<open>A cloud from the network: the received buffer and its conversion are both alive.\<close>

definition received_cloud :: "cwipc_obj \<Rightarrow> bool" where
  "received_cloud pc \<longleftrightarrow> pc_class pc = Cwipc_uncompressed_impl \<and> m_pc pc \<noteq> None \<and> m_points pc \<noteq> None"

lemma received_cloud_live: "received_cloud pc \<Longrightarrow> live_pc pc = 1 \<and> live_points pc = 1"
  by (simp add: received_cloud_def live_defs)

lemma free_received:
  assumes "received_cloud pc"
  shows "counts_rise w (fst (pc_free w pc)) (- 1)"
proof -
  obtain w' pc' where f: "pc_free w pc = (w', pc')" by (metis surj_pair)
  have "live_pc pc' = 0" "live_points pc' = 0"
    using pc_free_live [OF f] assms by (auto simp: received_cloud_def)
  with free_acc.pc_counts [OF f] free_acc.points_counts [OF f] received_cloud_live [OF assms] show ?thesis
    by (simp add: f counts_rise_def)
qed

lemma dec_n_length: "dec_n dec n bs = Some (xs, r) \<Longrightarrow> length xs = n"
  by (induction n arbitrary: bs xs) (auto split: option.splits)

text \<open>Setting the cell size of a cloud that holds its points converts it.\<close>

lemma set_cellsize_holds:
  assumes "holds ob ps ts c" and "set_cellsize dist cs w ob = (w', ob')"
  shows "holds ob' ps ts (cellsize_for dist cs ps)" "pc_class ob' = pc_class ob" "m_pc ob' \<noteq> None"
proof -
  obtain r w1 ob1 where a: "access_pcl_pointcloud w ob = (r, w1, ob1)" by (metis prod_cases3)
  have ob': "ob' = impl_set_cellsize dist cs ob1" using assms(2) by (simp add: set_cellsize_as_access a)
  have h: "obj_ok ob" "obj_points ob = Some ps" "m_timestamp ob = ts" using assms(1) by (simp_all add: holds_def)
  note acc = access_points [OF h(1,2) a]
  have ok: "obj_ok ob'" "obj_points ob' = Some ps"
    using acc(3,4) by (simp_all add: ob' obj_ok_def obj_points_def cong: option.case_cong pc_class.case_cong)
  with acc h(3) show "holds ob' ps ts (cellsize_for dist cs ps)" "pc_class ob' = pc_class ob" "m_pc ob' \<noteq> None"
    by (simp_all add: ob' holds_def) (simp add: impl_set_cellsize_def cellsize_for_def)
qed

lemma from_points_class:
  assumes "cwipc_from_points malloc_ok ps sz n ts em v w = Inr (Some ob, w')"
  shows "pc_class ob = Cwipc_uncompressed_impl"
  using assms by (auto simp: cwipc_from_points_def uncompressed_from_points_def new_cwipc_uncompressed_impl_def Let_def
      split: if_splits)

lemma convert_packet_result:
  assumes "convert_packet dist malloc_ok em header bytes w = Inr (rv, w')"
  shows "case rv of None \<Rightarrow> counts_rise w w' 0 | Some pc \<Rightarrow> received_cloud pc \<and> counts_rise w w' 1"
proof -
  let ?n = "unat (dataCount header) div sizeof_cwipc_point"
  let ?w0 = "w\<lparr>errorbufs := (errorbufs w)(em := None)\<rparr>"
  obtain ps rest where d: "dec_n dec_point ?n bytes = Some (ps, rest)"
    using assms by (auto simp: convert_packet_def split: option.splits)
  have len: "length ps = ?n" using d by (rule dec_n_length)
  have max: "length ps \<le> MAX_POINTS"
    using unsigned_less [of "dataCount header", where 'a = nat] len
    by (simp add: sizeof_cwipc_point_def MAX_POINTS_def)
  let ?from = "cwipc_from_points malloc_ok ps (ucast (dataCount header)) (word_of_nat (length ps))
      (ph_timestamp header) (Some em) CWIPC_API_VERSION ?w0"
  obtain res w1 where f: "?from = Inr (res, w1)"
    and res: "\<And>ob. res = Some ob \<Longrightarrow> holds ob ps (ph_timestamp header) f32_zero"
    using from_points_size_ok [where malloc_ok = malloc_ok, OF max, where ts = "ph_timestamp header"
        and em = "Some em" and w = ?w0 and sz = "ucast (dataCount header)"]
    by (auto split: if_splits)
  show ?thesis
  proof (cases res)
    case None
    then have "counts_rise ?w0 w1 0"
      using from_points_new.failed f by (auto simp: counts_rise_def)
    with f None assms show ?thesis
      by (auto simp: convert_packet_def d len Let_def split: option.splits)
  next
    case (Some ob)
    obtain w3 pc1 where c: "set_cellsize dist (ph_cellsize header) (w1\<lparr>temp_buffers := temp_buffers w1 - 1\<rparr>) ob = (w3, pc1)"
      by (metis surj_pair)
    have rv: "rv = Some pc1" "w' = w3"
      using f Some assms by (simp_all add: convert_packet_def d len c)
    have r: "received_cloud pc1"
      using set_cellsize_holds [OF res [OF Some] c] from_points_class f Some
      by (auto simp: received_cloud_def holds_def obj_points_def)
    have "pc_dangling w1 = pc_dangling ?w0 + live_pc ob" "points_dangling w1 = points_dangling ?w0 + live_points ob"
      using from_points_new.made f Some by auto
    with cellsize_acc.pc_counts [OF c] cellsize_acc.points_counts [OF c] received_cloud_live [OF r]
    have "counts_rise ?w0 w' 1" by (simp add: counts_rise_def io_world rv)
    then have "counts_rise w w' 1" by simp
    with r rv show ?thesis by simp
  qed
qed

section \<open>The proxy loses no cloud\<close>

definition clouds_received :: "proxy \<Rightarrow> bool" where
  "clouds_received p \<longleftrightarrow> (\<forall>pc. proxy_pc p = Some pc \<longrightarrow> received_cloud pc) \<and>
     (\<forall>h pc. Before_lock h pc \<in> set (server_threads p) \<longrightarrow> received_cloud pc)"

lemma clouds_received_cong [simp]:
  "clouds_received (close_fd fd p) = clouds_received p"
  "clouds_received (p\<lparr>m_socket := s\<rparr>) = clouds_received p"
  "clouds_received (p\<lparr>m_running := r\<rparr>) = clouds_received p"
  "clouds_received (p\<lparr>acks_sent := as\<rparr>) = clouds_received p"
  "clouds_received (proxy_start p) = clouds_received p"
  "clouds_received (proxy_stop_signal p) = clouds_received p"
  "clouds_received (proxy_free p) = clouds_received p"
  by (auto simp: clouds_received_def proxy_start_def proxy_stop_signal_def proxy_free_def Let_def)

lemma clouds_received_move [intro!]:
  "clouds_received p \<Longrightarrow> (\<And>h pc. at = Before_lock h pc \<Longrightarrow> received_cloud pc) \<Longrightarrow>
   clouds_received (move_thread i at p)"
  using set_update_subset_insert [of "server_threads p" i at] by (auto simp: clouds_received_def)

text \<open>What a step keeps of the clouds: they are all counted.\<close>

definition step_counts :: "world \<times> proxy \<Rightarrow> world \<times> proxy \<Rightarrow> bool" where
  "step_counts s s' \<longleftrightarrow> clouds_received (snd s') \<and>
     counts_rise (fst s) (fst s') (proxy_holds (snd s') - proxy_holds (snd s))"

lemma drop_connection_counts:
  assumes "i < length (server_threads p)" and "held_in (server_threads p ! i) = 0" and "clouds_received p"
  shows "clouds_received (drop_connection i p)" "proxy_holds (drop_connection i p) = proxy_holds p"
  using assms by (auto simp: drop_connection_def)

lemma on_header_counts:
  assumes "i < length (server_threads p)" and "server_threads p ! i = In_recv_header" and "clouds_received p"
  shows "step_counts (w, p) (on_header malloc_ok i r (w, p))"
  using assms drop_connection_counts [OF assms(1) _ assms(3)]
  by (auto simp: on_header_def step_counts_def split: option.splits prod.splits)

lemma on_points_counts:
  assumes "i < length (server_threads p)" and "server_threads p ! i = In_recv_points header"
    and "clouds_received p" and "on_points dist malloc_ok em i header r (w, p) = Inr s'"
  shows "step_counts (w, p) s'"
proof (cases "recvall (ucast (dataCount header)) r")
  case None
  with assms drop_connection_counts [OF assms(1) _ assms(3)] show ?thesis
    by (auto simp: on_points_def step_counts_def)
next
  case (Some bytes)
  with assms(4) obtain rv w1 where c: "convert_packet dist malloc_ok em header bytes w = Inr (rv, w1)"
    by (auto simp: on_points_def split: sum.splits)
  from convert_packet_result [OF c] Some assms c show ?thesis
    by (cases rv) (auto simp: on_points_def step_counts_def)
qed

lemma forward_counts:
  assumes "i < length (server_threads p)" and "server_threads p ! i = Before_lock header pc" and "clouds_received p"
  shows "step_counts (w, p) (forward_pc i header pc (w, p))"
proof -
  have "received_cloud pc" using assms nth_mem [OF assms(1)] by (auto simp: clouds_received_def)
  then have r: "clouds_received (p\<lparr>proxy_pc := Some pc\<rparr>)" using assms(3) by (auto simp: clouds_received_def)
  show ?thesis
  proof (cases "proxy_pc p")
    case None
    with r assms show ?thesis by (auto simp: forward_pc_def step_counts_def)
  next
    case (Some old)
    with assms(3) have "received_cloud old" by (simp add: clouds_received_def)
    from free_received [OF this, of w] r Some assms show ?thesis
      by (auto simp: forward_pc_def step_counts_def)
  qed
qed

lemma on_send_counts:
  assumes "i < length (server_threads p)" and "server_threads p ! i = In_send ts" and "clouds_received p"
  shows "step_counts (w, p) (w, on_send i ts ok p)"
  using assms drop_connection_counts [OF assms(1) _ assms(3)]
  by (auto simp: on_send_def step_counts_def)

lemma server_step_counts:
  assumes "server_step dist malloc_ok em i ev (w, p) = Some (Inr s')" and "clouds_received p"
  shows "step_counts (w, p) s'"
proof -
  have i: "i < length (server_threads p)" using assms(1) by (auto simp: server_step_def split: if_splits)
  show ?thesis
  proof (cases "server_threads p ! i")
    case At_test
    with assms i show ?thesis
      by (cases ev) (auto simp: server_step_def step_counts_def split: if_splits)
  next
    case In_accept
    with assms i show ?thesis
      by (cases ev) (auto simp: server_step_def step_counts_def Let_def split: if_splits)
  next
    case In_recv_header
    with assms i on_header_counts [OF i In_recv_header assms(2)] show ?thesis
      by (cases ev) (auto simp: server_step_def split: if_splits)
  next
    case (In_recv_points h)
    with assms i on_points_counts [OF i In_recv_points assms(2)] show ?thesis
      by (cases ev) (auto simp: server_step_def split: if_splits)
  next
    case (Before_lock h pc)
    with assms i forward_counts [OF i Before_lock assms(2)] show ?thesis
      by (cases ev) (auto simp: server_step_def split: if_splits)
  next
    case (In_send ts)
    with assms i on_send_counts [OF i In_send assms(2)] show ?thesis
      by (cases ev) (auto simp: server_step_def split: if_splits)
  next
    case After_loop
    with assms i show ?thesis
      by (cases ev) (auto simp: server_step_def step_counts_def split: if_splits)
  next
    case Before_last_lock
    with assms i show ?thesis
      by (cases ev) (auto simp: server_step_def step_counts_def split: if_splits)
  next
    case Returned
    with assms i show ?thesis by (cases ev) (auto simp: server_step_def split: if_splits)
  qed
qed

definition run_counts :: "world \<Rightarrow> proxy_run \<Rightarrow> bool" where
  "run_counts w0 s \<longleftrightarrow> clouds_received (pr_proxy s) \<and>
     counts_rise w0 (pr_world s) (proxy_holds (pr_proxy s) + int (length (pr_got s)))"

lemma proxy_exec_counts:
  assumes "proxy_exec dist malloc_ok em a s = Some (Inr s')" and "run_counts w0 s"
  shows "run_counts w0 s'"
proof (cases a)
  case Stop_join
  with assms show ?thesis
    by (auto simp: proxy_stop_join_def run_counts_def clouds_received_def proxy_holds_def
        split: thread_pointer.splits if_splits)
next
  case (Server i ev)
  with assms(1) obtain w p where st: "server_step dist malloc_ok em i ev (pr_world s, pr_proxy s) = Some (Inr (w, p))"
    and s': "s' = s\<lparr>pr_world := w, pr_proxy := p\<rparr>"
    by (auto simp: map_sum_Inr)
  from server_step_counts [OF st] assms(2) show ?thesis
    by (simp add: s' run_counts_def step_counts_def counts_rise_def)
next
  case Get
  with assms show ?thesis
    by (auto simp: proxy_get_def run_counts_def clouds_received_def proxy_holds_def counts_rise_def
        split: if_splits option.splits)
next
  case (Available b)
  with assms show ?thesis by auto
qed (use assms in \<open>auto simp: run_counts_def\<close>)

section \<open>Properties\<close>

definition first_run :: "world \<Rightarrow> int \<Rightarrow> proxy_run" where
  "first_run w sock = \<lparr>pr_world = w, pr_proxy = new_proxy sock, pr_got = []\<rparr>"

text \<open>
  C10. Whatever the network does and however the client's calls and the server threads interleave,
  every cloud the proxy has built is either waiting in the proxy, or was handed to the client, or
  has been freed: the two allocation counters exceed their initial values by the number of clouds
  in the proxy and with the client.
\<close>

theorem proxy_conserves_clouds:
  assumes "run_proxy dist malloc_ok em as (first_run w sock) = Some (Inr s)"
  shows "pc_dangling (pr_world s) = pc_dangling w + proxy_holds (pr_proxy s) + int (length (pr_got s)) \<and>
    points_dangling (pr_world s) = points_dangling w + proxy_holds (pr_proxy s) + int (length (pr_got s))"
proof -
  have "run_counts w s0 \<Longrightarrow> run_proxy dist malloc_ok em as s0 = Some (Inr s) \<Longrightarrow> run_counts w s" for s0
  proof (induction as arbitrary: s0)
    case (Cons a as)
    then obtain s1 where "proxy_exec dist malloc_ok em a s0 = Some (Inr s1)"
        "run_proxy dist malloc_ok em as s1 = Some (Inr s)"
      by (auto split: option.splits sum.splits)
    with Cons proxy_exec_counts show ?case by blast
  qed simp
  moreover have "run_counts w (first_run w sock)"
    by (simp add: run_counts_def first_run_def new_proxy_def clouds_received_def proxy_holds_def)
  ultimately show ?thesis using assms by (fastforce simp: run_counts_def counts_rise_def)
qed

text \<open>The packet a sender writes for a cloud.\<close>

definition packet_of :: "cwipc_point list \<Rightarrow> u64 \<Rightarrow> f32 \<Rightarrow> point_packetheader" where
  "packet_of ps ts cs = \<lparr>ph_magic = CWIPC_POINT_PACKETHEADER_MAGIC, dataCount = word_of_nat (16 * length ps),
     ph_timestamp = ts, ph_cellsize = cs, ph_unused = 0\<rparr>"

definition packet_events :: "cwipc_point list \<Rightarrow> u64 \<Rightarrow> f32 \<Rightarrow> net_event list" where
  "packet_events ps ts cs = [Recv_returns (Some (enc_packetheader (packet_of ps ts cs))),
     Recv_returns (Some (enc_all enc_point ps)), No_call, Send_returns True]"

lemma recvall_small:
  assumes "length bytes < 2 ^ 31" and "unat size_b < 2 ^ 31"
  shows "recvall size_b (Some bytes) = (if length bytes = unat size_b then Some bytes else None)"
proof -
  have "int_of_size (size_of_nat (length bytes)) = int (length bytes)"
    using assms(1) int_of_size_small [of "size_of_nat (length bytes)"] by simp
  moreover have "size_of_nat (length bytes) = size_b \<longleftrightarrow> length bytes = unat size_b"
    using assms by (simp add: word_unat_eq_iff)
  ultimately show ?thesis by (simp add: recvall_def)
qed

lemma packet_of_count:
  assumes "length ps < 2 ^ 27"
  shows "unat (dataCount (packet_of ps ts cs)) = 16 * length ps"
    "(ucast (dataCount (packet_of ps ts cs)) :: u64) = size_of_nat (16 * length ps)"
proof -
  show u: "unat (dataCount (packet_of ps ts cs)) = 16 * length ps"
    using assms by (simp add: packet_of_def unsigned_of_nat take_bit_nat_eq_self del: of_nat_mult)
  show "(ucast (dataCount (packet_of ps ts cs)) :: u64) = size_of_nat (16 * length ps)"
    using assms by (simp add: word_unat_eq_iff unsigned_ucast_eq u take_bit_nat_eq_self del: of_nat_mult)
qed

lemma from_points_buffers:
  "cwipc_from_points malloc_ok ps sz n ts em v w = Inr (rv, w') \<Longrightarrow> temp_buffers w' = temp_buffers w"
  by (auto simp: cwipc_from_points_def uncompressed_from_points_def new_cwipc_uncompressed_impl_def
      api_version_error_def set_error_message_def fail_with_def Let_def split: if_splits option.splits)

lemma set_cellsize_buffers:
  "set_cellsize dist cs w ob = (w', ob') \<Longrightarrow> temp_buffers w' = temp_buffers w"
  by (auto simp: set_cellsize_def uncompressed_access_pcl_def impl_from_points_def Let_def
      split: pc_class.splits option.splits if_splits)

lemma convert_good_packet:
  assumes "length ps < 2 ^ 27" and "malloc_ok (size_of_nat (16 * length ps))"
  shows "\<exists>pc w'. convert_packet dist malloc_ok em (packet_of ps ts cs) (enc_all enc_point ps) w = Inr (Some pc, w') \<and>
    holds pc ps ts (cellsize_for dist cs ps) \<and> temp_buffers w' = temp_buffers w - 1"
proof -
  have max: "length ps \<le> MAX_POINTS" using assms(1) by (simp add: MAX_POINTS_def)
  let ?w0 = "w\<lparr>errorbufs := (errorbufs w)(em := None)\<rparr>"
  obtain ob w1 where f: "cwipc_from_points malloc_ok ps (size_of_nat (16 * length ps)) (word_of_nat (length ps)) ts
      (Some em) CWIPC_API_VERSION ?w0 = Inr (Some ob, w1)" and h: "holds ob ps ts f32_zero"
    using from_points_size_ok [where malloc_ok = malloc_ok, OF max, where ts = ts and em = "Some em" and w = ?w0
        and sz = "size_of_nat (16 * length ps)"] assms(2) by auto
  obtain w3 pc where c: "set_cellsize dist cs (w1\<lparr>temp_buffers := temp_buffers w1 - 1\<rparr>) ob = (w3, pc)"
    by (metis surj_pair)
  have d: "dec_n dec_point (length ps) (enc_all enc_point ps) = Some (ps, [])"
    using pointc.dec_n_enc_all [of ps "[]"] by simp
  have "ph_timestamp (packet_of ps ts cs) = ts" "ph_cellsize (packet_of ps ts cs) = cs"
    by (simp_all add: packet_of_def)
  with f c d set_cellsize_holds(1) [OF h c] from_points_buffers [OF f] set_cellsize_buffers [OF c] show ?thesis
    by (simp add: convert_packet_def packet_of_count [OF assms(1)] sizeof_cwipc_point_def)
qed

lemma mutex_held_move:
  assumes "\<not> mutex_held p" and "\<And>ts. at \<noteq> In_send ts"
  shows "\<not> mutex_held (move_thread i at p)"
  using assms set_update_subset_insert [of "server_threads p" i at] by (auto simp: mutex_held_def)

lemma serve_packet:
  assumes "i < length (server_threads (pr_proxy s))" and "server_threads (pr_proxy s) ! i = In_recv_header"
    and "\<not> mutex_held (pr_proxy s)"
    and "length ps < 2 ^ 27" and "malloc_ok (size_of_nat (16 * length ps))"
  shows "\<exists>s' pc. run_proxy dist malloc_ok em (map (Server i) (packet_events ps ts cs)) s = Some (Inr s') \<and>
    proxy_pc (pr_proxy s') = Some pc \<and> holds pc ps ts (cellsize_for dist cs ps) \<and>
    acks_sent (pr_proxy s') = acks_sent (pr_proxy s) @ [ts] \<and>
    server_threads (pr_proxy s') = (server_threads (pr_proxy s))[i := At_test] \<and>
    pr_got s' = pr_got s \<and>
    (proxy_pc (pr_proxy s) = None \<longrightarrow> temp_buffers (pr_world s') = temp_buffers (pr_world s))"
proof -
  let ?p = "pr_proxy s" and ?w = "pr_world s" and ?h = "packet_of ps ts cs"
  let ?run = "run_proxy dist malloc_ok em"
  have hdr: "recvall (size_of_nat sizeof_point_packetheader) (Some (enc_packetheader ?h)) = Some (enc_packetheader ?h)"
    by (simp add: recvall_small packetheaderc.enc_length sizeof_point_packetheader_def)
  have pts: "recvall (ucast (dataCount ?h)) (Some (enc_all enc_point ps)) = Some (enc_all enc_point ps)"
    using assms(4) by (simp add: recvall_small packet_of_count pointc.enc_all_length sizeof_cwipc_point_def)
  have possible: "recv_possible (size_of_nat sizeof_point_packetheader) (Some (enc_packetheader ?h))"
      "recv_possible (ucast (dataCount ?h)) (Some (enc_all enc_point ps))"
    using assms(4) by (simp_all add: recv_possible_def packetheaderc.enc_length sizeof_point_packetheader_def
        packet_of_count pointc.enc_all_length sizeof_cwipc_point_def)
  have m: "malloc malloc_ok (ucast (dataCount ?h))"
    using assms(4,5) by (simp add: packet_of_count malloc_def word_less_nat_alt)
  have magic: "ph_magic ?h = CWIPC_POINT_PACKETHEADER_MAGIC" "ph_timestamp ?h = ts" by (simp_all add: packet_of_def)
  let ?w2 = "?w\<lparr>temp_buffers := temp_buffers ?w + 1\<rparr>" and ?p2 = "move_thread i (In_recv_points ?h) ?p"
  have 2: "server_step dist malloc_ok em i (Recv_returns (Some (enc_packetheader ?h))) (?w, ?p) = Some (Inr (?w2, ?p2))"
    using assms(1,2) m by (simp add: server_step_def possible on_header_def hdr packetheaderc.dec_enc_exact magic)
  obtain pc w3 where conv: "convert_packet dist malloc_ok em ?h (enc_all enc_point ps) ?w2 = Inr (Some pc, w3)"
      "holds pc ps ts (cellsize_for dist cs ps)" "temp_buffers w3 = temp_buffers ?w"
    using convert_good_packet [where malloc_ok = malloc_ok and w = ?w2 and dist = dist and em = em and ts = ts and cs = cs, OF assms(4,5)] by auto
  let ?p3 = "move_thread i (Before_lock ?h pc) ?p2"
  have 3: "server_step dist malloc_ok em i (Recv_returns (Some (enc_all enc_point ps))) (?w2, ?p2) = Some (Inr (w3, ?p3))"
    using assms(1) by (simp add: server_step_def possible on_points_def pts conv)
  have free: "\<not> mutex_held ?p3" using assms(3) by (intro mutex_held_move) simp_all
  obtain w4 where 4: "server_step dist malloc_ok em i No_call (w3, ?p3) =
      Some (Inr (w4, move_thread i (In_send ts) (?p3\<lparr>proxy_pc := Some pc\<rparr>)))"
    and w4: "proxy_pc ?p = None \<longrightarrow> w4 = w3"
    using assms(1) free by (auto simp: server_step_def forward_pc_def magic)
  let ?p4 = "move_thread i (In_send ts) (?p3\<lparr>proxy_pc := Some pc\<rparr>)"
  let ?p5 = "move_thread i At_test (?p4\<lparr>acks_sent := acks_sent ?p4 @ [ts]\<rparr>)"
  have 5: "server_step dist malloc_ok em i (Send_returns True) (w4, ?p4) = Some (Inr (w4, ?p5))"
    using assms(1) by (simp add: server_step_def on_send_def)
  have "?run (map (Server i) (packet_events ps ts cs)) s = Some (Inr (s\<lparr>pr_world := w4, pr_proxy := ?p5\<rparr>))"
    by (simp add: packet_events_def 2 3 4 5)
  then show ?thesis using conv(2,3) w4
    by (intro exI [of _ "s\<lparr>pr_world := w4, pr_proxy := ?p5\<rparr>"] exI [of _ pc]) auto
qed

text \<open>
  A server thread waiting for a header receives what the sender packed: after one packet
  (header, points) the proxy offers a cloud with the sent points, time stamp and cell size, the
  time stamp has been sent back, the receive buffer is released, and the thread is at its loop test.
\<close>

theorem proxy_delivers_packet:
  assumes "i < length (server_threads (pr_proxy s))" and "server_threads (pr_proxy s) ! i = In_recv_header"
    and "\<not> mutex_held (pr_proxy s)"
    and "length ps < 2 ^ 27" and "malloc_ok (size_of_nat (16 * length ps))"
  shows "\<exists>s' pc. run_proxy dist malloc_ok em (map (Server i) (packet_events ps ts cs)) s = Some (Inr s') \<and>
    proxy_pc (pr_proxy s') = Some pc \<and> holds pc ps ts (cellsize_for dist cs ps) \<and>
    acks_sent (pr_proxy s') = acks_sent (pr_proxy s) @ [ts] \<and>
    server_threads (pr_proxy s') = (server_threads (pr_proxy s))[i := At_test] \<and>
    pr_got s' = pr_got s \<and>
    (proxy_pc (pr_proxy s) = None \<longrightarrow> temp_buffers (pr_world s') = temp_buffers (pr_world s))"
  using assms by (rule serve_packet)

theorem proxy_delivers_packet_witness:
  "\<exists>s' pc. run_proxy (\<lambda>_ _. 0) (\<lambda>_. True) 9 (map (Server 0) (packet_events two_points 77 0x3C000000))
      \<lparr>pr_world = world_init None 0, pr_proxy = (new_proxy 4)\<lparr>server_threads := [In_recv_header]\<rparr>, pr_got = []\<rparr> =
      Some (Inr s') \<and>
    proxy_pc (pr_proxy s') = Some pc \<and> holds pc two_points 77 0x3C000000 \<and> acks_sent (pr_proxy s') = [77]"
proof -
  let ?s = "\<lparr>pr_world = world_init None 0, pr_proxy = (new_proxy 4)\<lparr>server_threads := [In_recv_header]\<rparr>, pr_got = []\<rparr>"
  have "cellsize_for (\<lambda>_ _. 0) 0x3C000000 two_points = 0x3C000000"
    by (simp add: cellsize_for_def f32_defs f32_zero_def)
  with proxy_delivers_packet [of 0 ?s two_points "\<lambda>_. True" "\<lambda>_ _. 0" 9 77 "0x3C000000"] show ?thesis
    by (auto simp: mutex_held_def new_proxy_def two_points_def)
qed

lemma server_step_returned:
  "i < length (server_threads p) \<Longrightarrow> server_threads p ! i = Returned \<Longrightarrow>
   server_step dist malloc_ok em i ev (w, p) = None"
  by (cases ev) (simp_all add: server_step_def)

text \<open>A proxy whose server threads have all returned, while the listening socket is open.\<close>

definition server_dead :: "proxy \<Rightarrow> bool" where
  "server_dead p \<longleftrightarrow> set (server_threads p) \<subseteq> {Returned} \<and> \<not> m_running p \<and> 0 \<le> m_listen_socket p"

lemma dead_action:
  assumes "proxy_exec dist malloc_ok em a s = Some (Inr s')" and "a \<noteq> Start" and "a \<noteq> Stop_signal"
    and "server_dead (pr_proxy s)"
  shows "server_dead (pr_proxy s')" "fds_closed (pr_proxy s') = fds_closed (pr_proxy s)"
    "(proxy_pc (pr_proxy s) = None \<or> a = Get) \<longrightarrow> proxy_pc (pr_proxy s') = None"
proof -
  have stuck: "server_step dist malloc_ok em i ev (pr_world s, pr_proxy s) = None" for i ev
  proof (cases "i < length (server_threads (pr_proxy s))")
    case True
    have "set (server_threads (pr_proxy s)) \<subseteq> {Returned}" using assms(4) by (simp add: server_dead_def)
    with nth_mem [OF True] have "server_threads (pr_proxy s) ! i = Returned" by blast
    with True show ?thesis by (rule server_step_returned)
  qed (simp add: server_step_def)
  show "server_dead (pr_proxy s')" "fds_closed (pr_proxy s') = fds_closed (pr_proxy s)"
    "(proxy_pc (pr_proxy s) = None \<or> a = Get) \<longrightarrow> proxy_pc (pr_proxy s') = None"
    using assms
    by (cases a; auto simp: stuck proxy_stop_join_def proxy_get_def proxy_free_def server_dead_def
        split: thread_pointer.splits if_splits)+
qed

lemma dead_run:
  assumes "run_proxy dist malloc_ok em as s = Some (Inr s')" and "Start \<notin> set as" and "Stop_signal \<notin> set as"
    and "server_dead (pr_proxy s)"
  shows "server_dead (pr_proxy s') \<and> fds_closed (pr_proxy s') = fds_closed (pr_proxy s) \<and>
    ((proxy_pc (pr_proxy s) = None \<or> Get \<in> set as) \<longrightarrow> proxy_pc (pr_proxy s') = None)"
  using assms
proof (induction as arbitrary: s)
  case (Cons a as)
  then obtain s1 where "proxy_exec dist malloc_ok em a s = Some (Inr s1)"
      "run_proxy dist malloc_ok em as s1 = Some (Inr s')"
    by (auto split: option.splits sum.splits)
  with Cons dead_action [of dist malloc_ok em a s s1] show ?case by auto
qed simp

lemma run_proxy_append:
  "run_proxy dist malloc_ok em (as @ bs) s =
     (case run_proxy dist malloc_ok em as s of
        Some (Inr s1) \<Rightarrow> run_proxy dist malloc_ok em bs s1 | r \<Rightarrow> r)"
  by (induction as arbitrary: s) (auto split: option.splits sum.splits)

text \<open>
  One packet with a wrong magic number ends the server for good, and the client cannot see
  it: from then on, until the client calls \<open>stop\<close> or \<open>start\<close>, \<open>eof\<close> stays false, \<open>get\<close>
  returns at once, with no cloud after the pending one, and even \<open>free\<close> leaves the listening
  socket open.
\<close>

theorem proxy_bad_magic_not_eof:
  assumes "server_threads (pr_proxy s) = [In_recv_header]" and "0 \<le> m_listen_socket (pr_proxy s)"
    and "ph_magic h \<noteq> CWIPC_POINT_PACKETHEADER_MAGIC" and "Start \<notin> set as" and "Stop_signal \<notin> set as"
    and "run_proxy dist malloc_ok em
      (map (Server 0) [Recv_returns (Some (enc_packetheader h)), No_call, No_call] @ as) s = Some (Inr s')"
  shows "\<not> proxy_eof (pr_proxy s') \<and> \<not> m_running (pr_proxy s') \<and>
    (\<exists>rv p. proxy_get (pr_proxy s') = Some (rv, p) \<and> (Get \<in> set as \<longrightarrow> rv = None)) \<and>
    fds_closed (pr_proxy s') = fds_closed (pr_proxy s) @
      (if 0 \<le> m_socket (pr_proxy s) then [m_socket (pr_proxy s)] else [])"
proof -
  let ?p = "pr_proxy s" and ?w = "pr_world s"
  have hdr: "recvall (size_of_nat sizeof_point_packetheader) (Some (enc_packetheader h)) = Some (enc_packetheader h)"
    by (simp add: recvall_small packetheaderc.enc_length sizeof_point_packetheader_def)
  have possible: "recv_possible (size_of_nat sizeof_point_packetheader) (Some (enc_packetheader h))"
    by (simp add: recv_possible_def packetheaderc.enc_length sizeof_point_packetheader_def)
  let ?w1 = "cwipc_log CWIPC_LOG_LEVEL_ERROR ''cwipc_proxy'' ''invalid magic number in packet header'' ?w"
  let ?p1 = "move_thread 0 After_loop ?p"
  define p2 where "p2 = move_thread 0 Before_last_lock
      (if 0 \<le> m_socket ?p1 then (close_fd (m_socket ?p1) ?p1)\<lparr>m_socket := - 1\<rparr> else ?p1)"
  have p2: "server_threads p2 = [Before_last_lock]" "m_listen_socket p2 = m_listen_socket ?p"
      "fds_closed p2 = fds_closed ?p @ (if 0 \<le> m_socket ?p then [m_socket ?p] else [])"
    using assms(1) by (simp_all add: p2_def) (simp add: move_thread_def close_fd_def)
  let ?p3 = "move_thread 0 Returned (p2\<lparr>m_running := False\<rparr>)"
  let ?s3 = "s\<lparr>pr_world := ?w1, pr_proxy := ?p3\<rparr>"
  have 1: "server_step dist malloc_ok em 0 (Recv_returns (Some (enc_packetheader h))) (?w, ?p) = Some (Inr (?w1, ?p1))"
    using assms(1,3) by (simp add: server_step_def possible on_header_def hdr packetheaderc.dec_enc_exact)
  have 2: "server_step dist malloc_ok em 0 No_call (?w1, ?p1) = Some (Inr (?w1, p2))"
    using assms(1) by (simp add: server_step_def p2_def)
  have 3: "server_step dist malloc_ok em 0 No_call (?w1, p2) = Some (Inr (?w1, ?p3))"
    by (simp add: server_step_def mutex_held_def p2)
  have run3: "run_proxy dist malloc_ok em
      (map (Server 0) [Recv_returns (Some (enc_packetheader h)), No_call, No_call]) s = Some (Inr ?s3)"
    by (simp add: 1 2 3)
  have run: "run_proxy dist malloc_ok em as ?s3 = Some (Inr s')"
    using assms(6) unfolding run_proxy_append run3 by simp
  have dead: "server_dead (pr_proxy ?s3)" using assms(2) p2 by (simp add: server_dead_def)
  from dead_run [OF run assms(4,5) dead] have d: "server_dead (pr_proxy s')"
    "fds_closed (pr_proxy s') = fds_closed ?p3" "Get \<in> set as \<longrightarrow> proxy_pc (pr_proxy s') = None" by auto
  have "fds_closed ?p3 = fds_closed p2" by (simp add: move_thread_def)
  moreover have "\<not> mutex_held (pr_proxy s')" using d(1) by (auto simp: mutex_held_def server_dead_def)
  ultimately show ?thesis using d p2(3) by (auto simp: proxy_eof_def server_dead_def proxy_get_def)
qed

text \<open>A client session: start, connect, one packet, \<open>get\<close>.\<close>

definition session :: "proxy_action list" where
  "session = [Start, Server 0 No_call, Server 0 (Accept_returns 5)]
     @ map (Server 0) (packet_events two_points 77 0x3C000000) @ [Get]"

theorem proxy_conserves_clouds_witness:
  "\<exists>s. run_proxy (\<lambda>_ _. 0) (\<lambda>_. True) 9 session (first_run (world_init None 0) 4) = Some (Inr s) \<and>
    length (pr_got s) = 1 \<and> pc_dangling (pr_world s) = 1"
proof -
  let ?run = "run_proxy (\<lambda>_ _. 0) (\<lambda>_. True) 9" and ?s0 = "first_run (world_init None 0) 4"
  obtain s1 where 1: "?run [Start, Server 0 No_call, Server 0 (Accept_returns 5)] ?s0 = Some (Inr s1)"
    and s1: "server_threads (pr_proxy s1) = [In_recv_header]" "proxy_pc (pr_proxy s1) = None" "pr_got s1 = []"
    by (simp add: first_run_def server_step_def proxy_start_def new_proxy_def Let_def)
  obtain s2 pc where 2: "?run (map (Server 0) (packet_events two_points 77 0x3C000000)) s1 = Some (Inr s2)"
    and s2: "proxy_pc (pr_proxy s2) = Some pc" "server_threads (pr_proxy s2) = [At_test]" "pr_got s2 = []"
    using serve_packet [of 0 s1 two_points "\<lambda>_. True" "\<lambda>_ _. 0" 9 77 "0x3C000000"] s1
    by (auto simp: mutex_held_def two_points_def)
  obtain s3 where 3: "?run [Get] s2 = Some (Inr s3)" and s3: "proxy_holds (pr_proxy s3) = 0" "length (pr_got s3) = 1"
    using s2 by (simp add: proxy_get_def mutex_held_def proxy_holds_def)
  have run: "?run session ?s0 = Some (Inr s3)"
    unfolding session_def run_proxy_append 1 by (simp add: run_proxy_append 2 3 del: run_proxy.simps)
  have "pc_dangling (world_init None 0) = 0" by (simp add: dangling_defs world_init_def logger.defs)
  with proxy_conserves_clouds [OF run] s3 run show ?thesis by auto
qed

theorem proxy_bad_magic_not_eof_witness:
  "\<exists>s'. run_proxy (\<lambda>_ _. 0) (\<lambda>_. True) 9
      (map (Server 0) [Recv_returns (Some (enc_packetheader ((packet_of [] 5 0)\<lparr>ph_magic := 1\<rparr>))), No_call, No_call]
        @ [Get, Available True, Free])
      \<lparr>pr_world = world_init None 0,
       pr_proxy = (new_proxy 4)\<lparr>server_threads := [In_recv_header], m_socket := 6, m_running := True\<rparr>, pr_got = []\<rparr> =
      Some (Inr s') \<and>
    \<not> proxy_eof (pr_proxy s') \<and> fds_closed (pr_proxy s') = [6]"
proof -
  let ?h = "(packet_of [] 5 0)\<lparr>ph_magic := 1\<rparr>"
  let ?s = "\<lparr>pr_world = world_init None 0,
       pr_proxy = (new_proxy 4)\<lparr>server_threads := [In_recv_header], m_socket := 6, m_running := True\<rparr>, pr_got = []\<rparr>"
  let ?as = "map (Server 0) [Recv_returns (Some (enc_packetheader ?h)), No_call, No_call] @ [Get, Available True, Free]"
  have "recvall (size_of_nat sizeof_point_packetheader) (Some (enc_packetheader ?h)) = Some (enc_packetheader ?h)"
    by (simp add: recvall_small packetheaderc.enc_length sizeof_point_packetheader_def)
  moreover have "recv_possible (size_of_nat sizeof_point_packetheader) (Some (enc_packetheader ?h))"
    by (simp add: recv_possible_def packetheaderc.enc_length sizeof_point_packetheader_def)
  ultimately obtain s' where r: "run_proxy (\<lambda>_ _. 0) (\<lambda>_. True) 9 ?as ?s = Some (Inr s')"
    by (simp add: server_step_def on_header_def packetheaderc.dec_enc_exact CWIPC_POINT_PACKETHEADER_MAGIC_def
        new_proxy_def mutex_held_def proxy_get_def proxy_available_def proxy_free_def)
  have "ph_magic ?h \<noteq> CWIPC_POINT_PACKETHEADER_MAGIC" by (simp add: CWIPC_POINT_PACKETHEADER_MAGIC_def)
  from proxy_bad_magic_not_eof [OF _ _ this _ _ r] r show ?thesis by (auto simp: new_proxy_def)
qed

lemma dec_point_total:
  assumes "16 \<le> length bs"
  shows "\<exists>q. dec_point bs = Some (q, drop 16 bs)"
proof -
  have "length (drop 12 bs) \<ge> 4" using assms by simp
  then obtain b1 b2 b3 b4 r where d: "drop 12 bs = b1 # b2 # b3 # b4 # r"
    by (metis One_nat_def Suc_le_length_iff numeral_3_eq_3 numeral_2_eq_2 eval_nat_numeral(2) semiring_norm(26,27))
  then have "drop 4 (drop 12 bs) = r" by (simp del: drop_drop)
  then have "r = drop 16 bs" by simp
  moreover have "\<not> length bs < 4" "\<not> length bs - 4 < 4" "\<not> length bs - 8 < 4" using assms by linarith+
  ultimately show ?thesis using d by (simp add: dec_point_def dec_u32_def)
qed

lemma dec_points_total:
  "16 * n \<le> length bs \<Longrightarrow> \<exists>qs. dec_n dec_point n bs = Some (qs, drop (16 * n) bs)"
proof (induction n arbitrary: bs)
  case (Suc n)
  from Suc.prems dec_point_total [of bs] obtain q where q: "dec_point bs = Some (q, drop 16 bs)" by auto
  have "16 * n \<le> length (drop 16 bs)" using Suc.prems by simp
  from Suc.IH [OF this] obtain qs where
    "dec_n dec_point n (drop 16 bs) = Some (qs, drop (16 * n) (drop 16 bs))" by blast
  with q show ?case by (simp add: add.commute)
qed simp

text \<open>A size error of \<open>cwipc_from_points\<close>: what the caller's error variable holds afterwards.\<close>

lemma from_points_size_error:
  assumes "points_bytes (sint n) \<noteq> sz" and "log_initialized w" and "errorbufs w em = None"
  shows "\<exists>w'. cwipc_from_points malloc_ok ps sz n ts (Some em) CWIPC_API_VERSION w = Inr (None, w') \<and>
    (errorbufs w' em = None) = (currentLogLevel w < CWIPC_LOG_LEVEL_ERROR)"
  using assms
  by (auto simp: cwipc_from_points_def api_version_bad_def CWIPC_API_VERSION_def CWIPC_API_VERSION_OLD_def
      uncompressed_from_points_def Let_def fail_with_def cwipc_log_set_errorbuf_def initialize_idem
      cwipc_log_errorbufs world_simps)

text \<open>
  Point data whose size is not a multiple of the point size ends the server; the warning
  about it needs the error message of \<open>cwipc_from_points\<close>, which is only captured when errors
  are logged: with the level \<open>NONE\<close> the thread builds a string from a null pointer.
\<close>

theorem proxy_bad_size_needs_logging:
  assumes "unat (dataCount header) mod 16 \<noteq> 0" and "length bytes = unat (dataCount header)"
    and "log_initialized w"
  shows "if CWIPC_LOG_LEVEL_ERROR \<le> currentLogLevel w
    then \<exists>w'. convert_packet dist malloc_ok em header bytes w = Inr (None, w')
    else convert_packet dist malloc_ok em header bytes w = Inl Null_deref"
proof -
  let ?n = "unat (dataCount header) div sizeof_cwipc_point"
  let ?w0 = "w\<lparr>errorbufs := (errorbufs w)(em := None)\<rparr>"
  have small: "unat (dataCount header) < 2 ^ 32" using unsigned_less [of "dataCount header", where 'a = nat] by simp
  then have n: "?n < 2 ^ 28" by (simp add: sizeof_cwipc_point_def)
  obtain qs rest where d: "dec_n dec_point ?n bytes = Some (qs, rest)"
    using dec_points_total [of ?n bytes] assms(2) by (auto simp: sizeof_cwipc_point_def)
  have "sint (word_of_nat ?n :: u32) = int ?n"
    using n by (simp add: signed_of_nat signed_take_bit_int_eq_self)
  then have pb: "points_bytes (sint (word_of_nat ?n :: u32)) = size_of_nat (16 * ?n)"
    using n by (metis points_bytes_nat)
  have "unat (size_of_nat (16 * ?n)) \<noteq> unat (ucast (dataCount header) :: u64)"
    using assms(1) n small
    by (simp add: unsigned_ucast_eq take_bit_nat_eq_self sizeof_cwipc_point_def) presburger
  then have ne: "points_bytes (sint (word_of_nat ?n :: u32)) \<noteq> ucast (dataCount header)"
    by (metis pb)
  obtain w' where f: "cwipc_from_points malloc_ok qs (ucast (dataCount header)) (word_of_nat ?n)
      (ph_timestamp header) (Some em) CWIPC_API_VERSION ?w0 = Inr (None, w')"
    and e: "(errorbufs w' em = None) = (currentLogLevel w < CWIPC_LOG_LEVEL_ERROR)"
    using from_points_size_error [OF ne, of ?w0 em malloc_ok qs "ph_timestamp header"] assms(3) by auto
  show ?thesis
  proof (cases "errorbufs w' em")
    case None
    with e f d show ?thesis by (simp add: convert_packet_def Let_def)
  next
    case (Some msg)
    with e f d show ?thesis by (simp add: convert_packet_def Let_def)
  qed
qed

theorem proxy_bad_size_needs_logging_witness:
  "convert_packet (\<lambda>_ _. 0) (\<lambda>_. True) 9 ((packet_of [] 5 0)\<lparr>dataCount := 3\<rparr>) [1, 2, 3]
     (initialize (world_init (Some ''NONE'') 0)) = Inl Null_deref"
proof -
  have "currentLogLevel (initialize (world_init (Some ''NONE'') 0)) = 0"
    by (simp add: initialize_def world_init_def logger_init_def split_env_def string_to_level_def log_levels logger.defs)
  with proxy_bad_size_needs_logging [of "(packet_of [] 5 0)\<lparr>dataCount := 3\<rparr>" "[1, 2, 3]"
      "initialize (world_init (Some ''NONE'') 0)" "\<lambda>_ _. 0" "\<lambda>_. True" 9]
  show ?thesis by (simp add: log_levels)
qed

end
