(* ===== verification/Window.thy ===== *)
theory Window
  imports Synthetic
begin

text \<open>
  \<open>cwipc_util/src/cwipc_window.cpp\<close>: the sink that shows point clouds in a window. The drawing
  calls of a frame are the list of commands it issues; window-system events reach the sink
  through \<open>glfwPollEvents\<close>, which \<open>operator bool\<close> of \<open>window_util\<close> runs at the end of each
  frame. \<open>sin\<close> and \<open>cos\<close>, the memory behind metadata pointers, and what \<open>realloc\<close> can do are
  the environment.
\<close>

section \<open>State\<close>

record skeleton_joint =
  confidence :: u32
  j_x :: f32
  j_y :: f32
  j_z :: f32
  q_w :: f32
  q_x :: f32
  q_y :: f32
  q_z :: f32

record skeleton_collection =
  n_skeletons :: u32
  n_joints :: u32
  skl_joints :: "skeleton_joint list"

text \<open>\<open>m_window\<close> after \<open>delete\<close> still holds the old address; \<open>m_points\<close> is null, a buffer, or
  the address of memory a failed \<open>realloc\<close> has released.\<close>

datatype window_pointer = Window_open | Window_deleted

datatype points_pointer = Points_null | Points_buffer "cwipc_point list" | Points_released

record window =
  win_title :: string
  win_window :: window_pointer
  win_points :: points_pointer
  win_npoints :: int
  win_pointsize :: f32
  eye_angle :: f32
  eye_distance :: f32
  eye_height :: f32
  left_mouse_pressed :: bool
  right_mouse_pressed :: bool
  mouse_x :: f32
  mouse_y :: f32
  chars_wanted :: string
  last_char :: char
  show_skeleton :: bool
  win_joints :: "skeleton_joint list"

definition NUL :: char where "NUL = CHR 0x00"

text \<open>\<open>1.8\<close> and \<open>1\<close> as floats; the mouse starts at \<open>(-1, -1)\<close>.\<close>

definition new_window :: "string \<Rightarrow> window" where
  "new_window t = \<lparr>win_title = t, win_window = Window_open, win_points = Points_null, win_npoints = 0,
     win_pointsize = 0, eye_angle = 0, eye_distance = 0x3FE66666, eye_height = 0x3F800000,
     left_mouse_pressed = False, right_mouse_pressed = False, mouse_x = 0xBF800000, mouse_y = 0xBF800000,
     chars_wanted = [], last_char = NUL, show_skeleton = True, win_joints = []\<rparr>"

section \<open>Window events\<close>

datatype win_event =
    Left_mouse bool
  | Right_mouse bool
  | Mouse_scroll f64 f64
  | Mouse_move f64 f64
  | Character int

definition on_left_mouse :: "bool \<Rightarrow> window \<Rightarrow> window" where
  "on_left_mouse pressed s = s\<lparr>left_mouse_pressed := pressed\<rparr>"

definition on_right_mouse :: "bool \<Rightarrow> window \<Rightarrow> window" where
  "on_right_mouse pressed s = s\<lparr>right_mouse_pressed := pressed\<rparr>"

definition on_mouse_scroll :: "f64 \<Rightarrow> f64 \<Rightarrow> window \<Rightarrow> window" where
  "on_mouse_scroll deltax deltay s =
     s\<lparr>eye_distance := f32_of_f64 (f64_add (f64_of_f32 (eye_distance s)) (f64_div deltay (f64_of_int 10)))\<rparr>"

definition on_mouse_move :: "f64 \<Rightarrow> f64 \<Rightarrow> window \<Rightarrow> window" where
  "on_mouse_move x y s =
     (let s1 = (if left_mouse_pressed s
                then let delta_x = f32_of_f64 (f64_sub x (f64_of_f32 (mouse_x s)))
                     in s\<lparr>eye_angle := f32_add (eye_angle s) (f32_div delta_x (f32_of_int 100))\<rparr>
                else s);
          s2 = (if right_mouse_pressed s1
                then let delta_y = f32_of_f64 (f64_sub y (f64_of_f32 (mouse_y s1)))
                     in s1\<lparr>eye_height := f32_add (eye_height s1) (f32_div delta_y (f32_of_int 100))\<rparr>
                else s1)
      in s2\<lparr>mouse_x := f32_of_f64 x, mouse_y := f32_of_f64 y\<rparr>)"

text \<open>A code point is narrowed to a \<open>char\<close>, once for the search and once for the assignment.\<close>

definition char_of_int :: "int \<Rightarrow> char" where
  "char_of_int c = char_of (nat (c mod 256))"

definition on_character :: "int \<Rightarrow> window \<Rightarrow> window" where
  "on_character c s =
     (if char_of_int c \<notin> set (chars_wanted s) then s else s\<lparr>last_char := char_of_int c\<rparr>)"

fun on_event :: "win_event \<Rightarrow> window \<Rightarrow> window" where
  "on_event (Left_mouse p) s = on_left_mouse p s"
| "on_event (Right_mouse p) s = on_right_mouse p s"
| "on_event (Mouse_scroll dx dy) s = on_mouse_scroll dx dy s"
| "on_event (Mouse_move x y) s = on_mouse_move x y s"
| "on_event (Character c) s = on_character c s"

section \<open>Skeletons\<close>

text \<open>\<open>name.find (sub) != npos\<close>.\<close>

fun starts_with :: "string \<Rightarrow> string \<Rightarrow> bool" where
  "starts_with [] s = True"
| "starts_with (c # cs) [] = False"
| "starts_with (c # cs) (d # ds) = (c = d \<and> starts_with cs ds)"

fun contains_string :: "string \<Rightarrow> string \<Rightarrow> bool" where
  "contains_string p [] = (p = [])"
| "contains_string p (d # ds) = (starts_with p (d # ds) \<or> contains_string p ds)"

text \<open>Two observations of a joint: average at equal confidence, else the more confident one.\<close>

definition fuse_joint :: "skeleton_joint \<Rightarrow> skeleton_joint \<Rightarrow> skeleton_joint" where
  "fuse_joint old new =
     (if confidence old = confidence new
      then old\<lparr>j_x := f32_div (f32_add (j_x old) (j_x new)) 0x40000000,
               j_y := f32_div (f32_add (j_y old) (j_y new)) 0x40000000,
               j_z := f32_div (f32_add (j_z old) (j_z new)) 0x40000000\<rparr>
      else if confidence old < confidence new then new else old)"

definition first_joints :: "nat \<Rightarrow> skeleton_collection \<Rightarrow> fault + skeleton_joint list" where
  "first_joints n skl = (if n \<le> length (skl_joints skl) then Inr (take n (skl_joints skl)) else Inl Out_of_bounds)"

definition fuse_skeleton :: "skeleton_collection \<Rightarrow> skeleton_joint list \<Rightarrow> fault + skeleton_joint list" where
  "fuse_skeleton skl joints =
     (let n = min (length joints) (unat (n_joints skl))
      in map_sum id (\<lambda>new. map2 fuse_joint (take n joints) new @ drop n joints) (first_joints n skl))"

text \<open>One metadata item of \<open>get_skeleton\<close>; the state is \<open>found_skeleton\<close> and \<open>joints\<close>.\<close>

definition skeleton_item ::
  "(nat \<Rightarrow> skeleton_collection option) \<Rightarrow> metadata_item \<Rightarrow> bool \<times> skeleton_joint list
   \<Rightarrow> fault + bool \<times> skeleton_joint list" where
  "skeleton_item mem item st =
     (case st of (found, joints) \<Rightarrow>
      if \<not> contains_string ''skeleton'' (md_name item) then Inr st
      else case mem (md_pointer item) of
        None \<Rightarrow> Inl Out_of_bounds
      | Some skl \<Rightarrow>
          if \<not> found
          then if 0 < sint (n_skeletons skl) \<and> 0 < n_joints skl
               then map_sum id (Pair True) (first_joints (unat (n_joints skl)) skl) else Inr st
          else map_sum id (Pair True) (fuse_skeleton skl joints))"

fun skeleton_items ::
  "(nat \<Rightarrow> skeleton_collection option) \<Rightarrow> metadata_item list \<Rightarrow> bool \<times> skeleton_joint list
   \<Rightarrow> fault + bool \<times> skeleton_joint list" where
  "skeleton_items mem [] st = Inr st"
| "skeleton_items mem (i # is) st =
     (case skeleton_item mem i st of Inl f \<Rightarrow> Inl f | Inr st' \<Rightarrow> skeleton_items mem is st')"

definition get_skeleton ::
  "(nat \<Rightarrow> skeleton_collection option) \<Rightarrow> metadata_item list \<Rightarrow> skeleton_joint list
   \<Rightarrow> fault + skeleton_joint list" where
  "get_skeleton mem items joints = map_sum id snd (skeleton_items mem items (False, joints))"

section \<open>Drawing\<close>

datatype gl_call =
    Prepare_gl f32 f32 f32 f32
  | Gl_point_size f32
  | Gl_line_width f32
  | Gl_begin_points
  | Gl_begin_lines
  | Gl_color u8 u8 u8
  | Gl_vertex f32 f32 f32
  | Gl_end
  | Cleanup_gl

definition draw_point :: "cwipc_point \<Rightarrow> gl_call list" where
  "draw_point p = [Gl_color (pt_r p) (pt_g p) (pt_b p), Gl_vertex (pt_x p) (pt_y p) (pt_z p)]"

text \<open>The loop over \<open>m_points[0 .. m_npoints - 1]\<close>.\<close>

definition draw_points :: "points_pointer \<Rightarrow> int \<Rightarrow> fault + gl_call list" where
  "draw_points ps n =
     (if n \<le> 0 then Inr []
      else case ps of
        Points_null \<Rightarrow> Inl Null_deref
      | Points_released \<Rightarrow> Inl Use_after_free
      | Points_buffer pts \<Rightarrow>
          if nat n \<le> length pts then Inr (concat (map draw_point (take (nat n) pts))) else Inl Out_of_bounds)"

definition joint_vertex :: "skeleton_joint \<Rightarrow> gl_call" where
  "joint_vertex j = Gl_vertex (j_x j) (j_y j) (j_z j)"

text \<open>\<open>glColor3ub (255, 0, (255 / 3) * confidence)\<close>: the product is unsigned, then narrowed.\<close>

definition joint_point :: "skeleton_joint \<Rightarrow> gl_call list" where
  "joint_point j = [Gl_color 255 0 (ucast (85 * confidence j)), joint_vertex j]"

definition bones :: "(nat \<times> nat) list" where
  "bones =
     [(0, 18), (18, 19), (19, 20), (20, 21),
      (0, 22), (22, 23), (23, 24), (24, 25),
      (0, 1), (1, 2), (2, 3),
      (3, 26), (26, 27), (27, 28), (28, 29), (27, 30), (30, 31),
      (2, 4), (4, 5), (5, 6), (6, 7), (7, 8), (8, 9), (7, 10),
      (2, 11), (11, 12), (12, 13), (13, 14), (14, 15), (15, 16), (14, 17)]"

definition boneline :: "skeleton_joint list \<Rightarrow> nat \<times> nat \<Rightarrow> fault + gl_call list" where
  "boneline joints b =
     (if fst b < length joints \<and> snd b < length joints
      then Inr [joint_vertex (joints ! fst b), joint_vertex (joints ! snd b)] else Inl Out_of_bounds)"

fun bonelines :: "skeleton_joint list \<Rightarrow> (nat \<times> nat) list \<Rightarrow> fault + gl_call list" where
  "bonelines joints [] = Inr []"
| "bonelines joints (b # bs) =
     (case boneline joints b of Inl f \<Rightarrow> Inl f
      | Inr vs \<Rightarrow> map_sum id (\<lambda>rest. vs @ rest) (bonelines joints bs))"

definition render_skeleton :: "skeleton_joint list \<Rightarrow> fault + gl_call list" where
  "render_skeleton joints =
     map_sum id (\<lambda>lines. [Gl_point_size 0x40C00000, Gl_begin_points] @ concat (map joint_point joints) @ [Gl_end]
         @ [Gl_line_width 0x40A00000, Gl_begin_lines, Gl_color 0 255 255] @ lines @ [Gl_end])
       (bonelines joints bones)"

section \<open>feed\<close>

text \<open>
  \<open>realloc\<close> with a positive size succeeds as \<open>we_alloc\<close> says and else keeps the old block. With
  size 0 and an old block the C library may free it and return null: \<open>we_zero_frees\<close>.
\<close>

record window_env =
  we_alloc :: "u64 \<Rightarrow> bool"
  we_zero_frees :: bool
  we_eye :: "f32 \<Rightarrow> f32 \<Rightarrow> f32 \<times> f32"     \<comment> \<open>distance and angle to \<open>distance * sin\<close>, \<open>distance * cos\<close>\<close>
  we_memory :: "nat \<Rightarrow> skeleton_collection option"

definition free_points :: "points_pointer \<Rightarrow> fault + points_pointer" where
  "free_points ps = (if ps = Points_released then Inl Use_after_free else Inr Points_null)"

datatype realloc_result = Reallocated | Realloc_failed | Realloc_released

definition realloc_points :: "window_env \<Rightarrow> points_pointer \<Rightarrow> u64 \<Rightarrow> fault + realloc_result" where
  "realloc_points env ps sz =
     (if ps = Points_released then Inl Use_after_free
      else if sz = 0 \<and> ps \<noteq> Points_null \<and> we_zero_frees env then Inr Realloc_released
      else if malloc (we_alloc env) sz then Inr Reallocated else Inr Realloc_failed)"

definition buffer_points :: "points_pointer \<Rightarrow> cwipc_point list" where
  "buffer_points ps = (case ps of Points_buffer pts \<Rightarrow> pts | _ \<Rightarrow> [])"

text \<open>
  The part of \<open>feed\<close> that takes a cloud. The result says whether \<open>feed\<close> goes on to draw.
\<close>

definition add_points ::
  "window_env \<Rightarrow> world \<Rightarrow> cwipc_obj \<Rightarrow> window \<Rightarrow> fault + bool \<times> world \<times> cwipc_obj \<times> window" where
  "add_points env w pc s =
     (case access_pcl_pointcloud w pc of
        (None, w1, pc1) \<Rightarrow>
          Inr (False, cwipc_log CWIPC_LOG_LEVEL_WARNING ''cwipc_util'' ''cwipc_window.feed: NULL pointcloud'' w1,
               pc1, s)
      | (Some _, w1, pc1) \<Rightarrow>
          (case get_uncompressed_size w1 pc1 of (bufferSize, w2) \<Rightarrow>
           case realloc_points env (win_points s) (points_bytes (win_npoints s) + bufferSize) of
             Inl f \<Rightarrow> Inl f
           | Inr Realloc_failed \<Rightarrow> Inr (False, w2, pc1, s)
           | Inr Realloc_released \<Rightarrow> Inr (False, w2, pc1, s\<lparr>win_points := Points_released\<rparr>)
           | Inr Reallocated \<Rightarrow>
               (case copy_uncompressed bufferSize w2 pc1 of ((nNewPoints, pts), w3) \<Rightarrow>
                let s1 = s\<lparr>win_points := Points_buffer (take (nat (win_npoints s)) (buffer_points (win_points s)) @ pts),
                           win_npoints := win_npoints s + nNewPoints, win_pointsize := m_cellsize pc1\<rparr>
                in if \<not> show_skeleton s1 then Inr (True, w3, pc1, s1)
                   else let (items, pc2) = access_metadata pc1
                        in if 0 < metadata_count items
                           then map_sum id (\<lambda>joints. (True, w3, pc2, s1\<lparr>win_joints := joints\<rparr>))
                                  (get_skeleton (we_memory env) items (win_joints s1))
                           else Inr (True, w3, pc2, s1))))"

text \<open>The frame: its commands, then the events polled and whether the window is still open.\<close>

definition draw_frame :: "window_env \<Rightarrow> window \<Rightarrow> fault + gl_call list" where
  "draw_frame env s =
     (if win_window s = Window_deleted then Inl Use_after_free
      else case we_eye env (eye_distance s) (eye_angle s) of (ex, ez) \<Rightarrow>
        case draw_points (win_points s) (win_npoints s) of
          Inl f \<Rightarrow> Inl f
        | Inr pts \<Rightarrow>
            map_sum id (\<lambda>skel. [Prepare_gl ex (eye_height s) ez (win_pointsize s)] @ pts @ [Gl_end] @ skel @ [Cleanup_gl])
              (if show_skeleton s \<and> win_joints s \<noteq> [] then render_skeleton (win_joints s) else Inr []))"

record frame_result =
  fr_ok :: bool
  fr_calls :: "gl_call list"
  fr_world :: world
  fr_window :: window
  fr_cloud :: "cwipc_obj option"

definition finish_feed ::
  "window_env \<Rightarrow> win_event list \<Rightarrow> bool \<Rightarrow> world \<Rightarrow> cwipc_obj option \<Rightarrow> window \<Rightarrow> fault + frame_result" where
  "finish_feed env events still_open w pc s =
     map_sum id (\<lambda>calls. \<lparr>fr_ok = still_open, fr_calls = calls, fr_world = w,
                          fr_window = fold on_event events s, fr_cloud = pc\<rparr>) (draw_frame env s)"

definition window_feed ::
  "window_env \<Rightarrow> win_event list \<Rightarrow> bool \<Rightarrow> cwipc_obj option \<Rightarrow> bool \<Rightarrow> world \<Rightarrow> window \<Rightarrow> fault + frame_result" where
  "window_feed env events still_open pc clear w s =
     (case (if clear then map_sum id (\<lambda>ps. s\<lparr>win_points := ps, win_npoints := 0\<rparr>) (free_points (win_points s))
            else Inr s) of
        Inl f \<Rightarrow> Inl f
      | Inr s1 \<Rightarrow>
          (case pc of
             None \<Rightarrow> finish_feed env events still_open w None s1
           | Some ob \<Rightarrow>
               (case add_points env w ob s1 of
                  Inl f \<Rightarrow> Inl f
                | Inr (False, w1, ob1, s2) \<Rightarrow>
                    Inr \<lparr>fr_ok = False, fr_calls = [], fr_world = w1, fr_window = s2, fr_cloud = Some ob1\<rparr>
                | Inr (True, w1, ob1, s2) \<Rightarrow> finish_feed env events still_open w1 (Some ob1) s2)))"

section \<open>free, caption and interact\<close>

definition window_free :: "window \<Rightarrow> fault + window" where
  "window_free s =
     (if win_window s = Window_deleted then Inl Use_after_free
      else map_sum id (\<lambda>ps. s\<lparr>win_window := Window_deleted, win_points := ps, win_npoints := 0\<rparr>)
             (free_points (win_points s)))"

text \<open>The title that is set.\<close>

definition caption :: "string option \<Rightarrow> window \<Rightarrow> fault + string" where
  "caption c s =
     (if win_window s = Window_deleted then Inl Use_after_free
      else Inr (case c of Some t \<Rightarrow> win_title s @ '' - '' @ t | None \<Rightarrow> win_title s))"

text \<open>
  The loop of \<open>interact\<close>: one element of the list is one turn before the time is up, with the
  events its frame polls. Events only arrive in \<open>feed\<close>, so the wait on \<open>m_last_char_cv\<close> finds
  a character only if there was one before.
\<close>

fun interact_loop ::
  "window_env \<Rightarrow> (win_event list \<times> bool) list \<Rightarrow> world \<Rightarrow> window \<Rightarrow> fault + world \<times> window" where
  "interact_loop env [] w s = Inr (w, s)"
| "interact_loop env ((events, still_open) # turns) w s =
     (if last_char s \<in> set (chars_wanted s) then Inr (w, s)
      else if last_char s \<noteq> NUL then Inr (w, s)
      else case window_feed env events still_open None False w s of
             Inl f \<Rightarrow> Inl f
           | Inr r \<Rightarrow> interact_loop env turns (fr_world r) (fr_window r))"

definition interact ::
  "window_env \<Rightarrow> string option \<Rightarrow> string option \<Rightarrow> (win_event list \<times> bool) list \<Rightarrow> world \<Rightarrow> window
   \<Rightarrow> fault + char \<times> world \<times> window" where
  "interact env prompt responses turns w s =
     (case caption prompt s of
        Inl f \<Rightarrow> Inl f
      | Inr _ \<Rightarrow>
          (case responses of
             None \<Rightarrow> Inl Null_deref
           | Some rs \<Rightarrow>
               (case interact_loop env turns w (s\<lparr>chars_wanted := rs\<rparr>) of
                  Inl f \<Rightarrow> Inl f
                | Inr (w1, s1) \<Rightarrow>
                    let rv = last_char s1; s2 = s1\<lparr>last_char := NUL\<rparr>
                    in if rv = CHR ''r''
                       then let s3 = s2\<lparr>show_skeleton := \<not> show_skeleton s2\<rparr>
                            in Inr (rv, cwipc_log CWIPC_LOG_LEVEL_TRACE ''cwipc_sink_window''
                                 (''Skeleton rendering '' @ (if show_skeleton s3 then ''enabled'' else ''disabled'')) w1, s3)
                       else Inr (rv, w1, s2))))"

section \<open>Construction\<close>

text \<open>Built with a window system: the constructor throws when no window can be opened.\<close>

definition cwipc_window ::
  "bool \<Rightarrow> string \<Rightarrow> nat option \<Rightarrow> u64 \<Rightarrow> world \<Rightarrow> fault + window option \<times> world" where
  "cwipc_window opens t em v w =
     (if api_version_bad v then Inr (None, api_version_error ''cwipc_window'' v em w)
      else if \<not> opens then Inl Uncaught_exception
      else Inr (Some (new_window t), cwipc_log_set_errorbuf None (cwipc_log_set_errorbuf em w)))"

text \<open>Built without it (\<open>CWIPC_WITH_GUI\<close> undefined).\<close>

definition cwipc_window_no_gui :: "nat option \<Rightarrow> world \<Rightarrow> window option \<times> world" where
  "cwipc_window_no_gui em w =
     (None, fail_with ''cwipc_window'' ''cwipc was built without GUI support'' (cwipc_log_set_errorbuf em w))"

section \<open>Events leave the points alone\<close>

lemma on_event_frame [simp]:
  "win_points (on_event e s) = win_points s" "win_npoints (on_event e s) = win_npoints s"
  "win_window (on_event e s) = win_window s" "chars_wanted (on_event e s) = chars_wanted s"
  "win_joints (on_event e s) = win_joints s" "show_skeleton (on_event e s) = show_skeleton s"
  by (cases e; simp add: on_left_mouse_def on_right_mouse_def on_mouse_scroll_def on_mouse_move_def
      on_character_def Let_def)+

lemma fold_on_event_frame [simp]:
  "win_points (fold on_event es s) = win_points s" "win_npoints (fold on_event es s) = win_npoints s"
  "win_window (fold on_event es s) = win_window s" "chars_wanted (fold on_event es s) = chars_wanted s"
  "win_joints (fold on_event es s) = win_joints s" "show_skeleton (fold on_event es s) = show_skeleton s"
  by (induction es arbitrary: s) simp_all

text \<open>What an open window shows: the points of the clouds fed since the last clear.\<close>

definition showing :: "window \<Rightarrow> cwipc_point list \<Rightarrow> bool" where
  "showing s pts \<longleftrightarrow> win_window s = Window_open \<and> win_npoints s = int (length pts) \<and>
     (win_points s = Points_buffer pts \<or> pts = [] \<and> win_points s = Points_null)"

lemma showing_events [simp]: "showing (fold on_event es s) pts = showing s pts"
  by (simp add: showing_def)

lemma new_window_showing: "showing (new_window t) []"
  by (simp add: showing_def new_window_def)

lemma draw_points_showing:
  "showing s pts \<Longrightarrow> draw_points (win_points s) (win_npoints s) = Inr (concat (map draw_point pts))"
  by (auto simp: showing_def draw_points_def)

lemma clear_showing:
  assumes "showing s old" and "base = (if clear then [] else old)"
  obtains s1 where "(if clear then map_sum id (\<lambda>ps. s\<lparr>win_points := ps, win_npoints := 0\<rparr>) (free_points (win_points s))
      else Inr s) = Inr s1" and "showing s1 base" and "win_joints s1 = win_joints s"
    and "show_skeleton s1 = show_skeleton s" and "eye_height s1 = eye_height s" and "eye_distance s1 = eye_distance s"
    and "eye_angle s1 = eye_angle s"
  using assms by (cases clear) (auto simp: showing_def free_points_def)

lemma points_buffer_size:
  "m + n \<le> MAX_POINTS \<Longrightarrow> points_bytes (int m) + size_of_nat (16 * n) = size_of_nat (16 * (m + n))"
  by (simp add: points_bytes_nat size_of_nat_def)

text \<open>A cloud with points and no metadata.\<close>

lemma add_points_showing:
  assumes "showing s base" and "obj_ok ob" and "obj_points ob = Some ps" and "m_metadata ob = None"
    and "length base + length ps \<le> MAX_POINTS" and "we_alloc env (size_of_nat (16 * (length base + length ps)))"
    and "base @ ps \<noteq> []"
  obtains w' ob' s' where "add_points env w ob s = Inr (True, w', ob', s')" and "showing s' (base @ ps)"
    and "win_joints s' = win_joints s" and "show_skeleton s' = show_skeleton s"
    and "win_pointsize s' = m_cellsize ob" and "eye_height s' = eye_height s" and "eye_distance s' = eye_distance s"
    and "eye_angle s' = eye_angle s"
proof -
  obtain r w1 ob1 where a: "access_pcl_pointcloud w ob = (r, w1, ob1)" by (metis prod_cases3)
  note acc = access_points [OF assms(2,3) a]
  have md: "m_metadata ob1 = None"
    using a assms(4) by (auto simp: access_pcl_pointcloud_def uncompressed_access_pcl_def impl_from_points_def Let_def
        split: pc_class.splits option.splits if_splits)
  have sz: "get_uncompressed_size w1 ob1 = (size_of_nat (16 * length ps), w1)"
    using acc(3,4) by (rule get_size_points [rotated])
  have cp: "copy_uncompressed (size_of_nat (16 * length ps)) w1 ob1 = ((int (length ps), ps), w1)"
    using acc(3,4) by (rule copy_points [rotated])
  define n where "n = length base + length ps"
  have n: "n \<le> MAX_POINTS" "we_alloc env (size_of_nat (16 * n))" "0 < n"
    using assms(5-7) by (auto simp: n_def)
  have sum: "points_bytes (win_npoints s) + size_of_nat (16 * length ps) = size_of_nat (16 * n)"
    using assms(1) points_buffer_size [OF assms(5)] by (simp add: showing_def n_def)
  have "unat (size_of_nat (16 * n)) = 16 * n" using n(1) by (simp add: MAX_POINTS_def)
  then have nz: "size_of_nat (16 * n) \<noteq> 0" using n(3) by (metis mult_is_0 not_gr0 unsigned_0 zero_neq_numeral)
  have m: "malloc (we_alloc env) (size_of_nat (16 * n))" using malloc_points [OF n(1)] n(2) by metis
  have alive: "win_points s \<noteq> Points_released" using assms(1) by (auto simp: showing_def)
  have re: "realloc_points env (win_points s) (points_bytes (win_npoints s) + size_of_nat (16 * length ps)) =
      Inr Reallocated"
    unfolding sum using alive nz m by (simp only: realloc_points_def) simp
  have buf: "take (nat (win_npoints s)) (buffer_points (win_points s)) = base"
    using assms(1) by (auto simp: showing_def buffer_points_def)
  let ?s = "s\<lparr>win_points := Points_buffer (base @ ps), win_npoints := win_npoints s + int (length ps),
      win_pointsize := m_cellsize ob1\<rparr>"
  have cnt: "metadata_count [] = 0" by (simp add: metadata_count_def int_of_size_def size_of_nat_def)
  have "add_points env w ob s = Inr (True, w1, if show_skeleton s then snd (access_metadata ob1) else ob1, ?s)"
    unfolding add_points_def a by (simp add: acc(1) sz re cp buf access_metadata_def md cnt)
  moreover have "showing ?s (base @ ps)" using assms(1) by (simp add: showing_def)
  ultimately show ?thesis
    by (rule that) (simp_all add: acc(6))
qed

section \<open>Properties\<close>

text \<open>
  What is fed is shown: a window showing some points that is fed a cloud (with or without
  clearing first) then shows the kept points followed by the cloud's, and the frame it draws has
  one colour and one vertex for each of them, in that order.
\<close>

theorem window_shows_fed_points:
  assumes "showing s old" and "win_joints s = []" and "base = (if clear then [] else old)"
    and "obj_ok ob" and "obj_points ob = Some ps" and "m_metadata ob = None"
    and "length base + length ps \<le> MAX_POINTS" and "we_alloc env (size_of_nat (16 * (length base + length ps)))"
    and "base @ ps \<noteq> []"
  shows "\<exists>r ex ez. window_feed env events still_open (Some ob) clear w s = Inr r \<and>
    fr_ok r = still_open \<and> showing (fr_window r) (base @ ps) \<and>
    fr_calls r = [Prepare_gl ex (eye_height s) ez (m_cellsize ob)] @ concat (map draw_point (base @ ps))
      @ [Gl_end, Cleanup_gl]"
proof -
  obtain s1 where c: "(if clear then map_sum id (\<lambda>ps. s\<lparr>win_points := ps, win_npoints := 0\<rparr>) (free_points (win_points s))
      else Inr s) = Inr s1" "showing s1 base" "win_joints s1 = win_joints s" "eye_height s1 = eye_height s"
    using clear_showing [OF assms(1,3)] by metis
  obtain w' ob' s2 where a: "add_points env w ob s1 = Inr (True, w', ob', s2)" "showing s2 (base @ ps)"
      "win_joints s2 = win_joints s1" "win_pointsize s2 = m_cellsize ob" "eye_height s2 = eye_height s1"
    using add_points_showing [where w = w and env = env, OF c(2) assms(4-9)] by metis
  obtain ex ez where eye: "we_eye env (eye_distance s2) (eye_angle s2) = (ex, ez)" by (metis surj_pair)
  have "draw_frame env s2 = Inr ([Prepare_gl ex (eye_height s) ez (m_cellsize ob)] @
      concat (map draw_point (base @ ps)) @ [Gl_end, Cleanup_gl])"
    using a assms(2) c(3,4) draw_points_showing [OF a(2)] by (auto simp: draw_frame_def eye showing_def)
  with a c show ?thesis by (auto simp: window_feed_def finish_feed_def)
qed

definition sample_window_env :: window_env where
  "sample_window_env = \<lparr>we_alloc = (\<lambda>_. True), we_zero_frees = True, we_eye = (\<lambda>d a. (0, d)), we_memory = (\<lambda>_. None)\<rparr>"

theorem window_shows_fed_points_witness:
  "\<exists>r. window_feed sample_window_env [] True (Some (cloud_of two_points 99 0x3C000000)) True (world_init None 0)
      (new_window ''w'') = Inr r \<and> showing (fr_window r) two_points \<and> length (fr_calls r) = 7"
proof -
  have "holds (cloud_of two_points 99 0x3C000000) two_points 99 0x3C000000" by (rule two_points_hold)
  then have "obj_ok (cloud_of two_points 99 0x3C000000)" "obj_points (cloud_of two_points 99 0x3C000000) = Some two_points"
    by (simp_all add: holds_def)
  from window_shows_fed_points [OF new_window_showing [of "''w''"] _ refl this, where env = sample_window_env
      and clear = True and events = "[]" and still_open = True and w = "world_init None 0"]
  show ?thesis
    by (auto simp: new_window_def cloud_of_def new_cwipc_uncompressed_impl_def two_points_def MAX_POINTS_def
        sample_window_env_def draw_point_def)
qed

lemma on_event_char:
  "last_char (on_event e s) = last_char s \<or> last_char (on_event e s) \<in> set (chars_wanted s)"
  by (cases e) (simp_all add: on_left_mouse_def on_right_mouse_def on_mouse_scroll_def on_mouse_move_def
      on_character_def Let_def)

lemma fold_on_event_char:
  "last_char (fold on_event es s) = last_char s \<or> last_char (fold on_event es s) \<in> set (chars_wanted s)"
proof (induction es arbitrary: s)
  case (Cons e es)
  from Cons.IH [of "on_event e s"] on_event_char [of e s] show ?case by auto
qed simp

lemma feed_nothing:
  "window_feed env events still_open None False w s = Inr r \<Longrightarrow>
   fr_window r = fold on_event events s \<and> fr_world r = w"
  by (auto simp: window_feed_def finish_feed_def map_sum_Inr)

lemma interact_loop_char:
  assumes "interact_loop env turns w s = Inr (w', s')" and "last_char s \<in> insert NUL (set (chars_wanted s))"
  shows "last_char s' \<in> insert NUL (set (chars_wanted s))"
  using assms
proof (induction turns arbitrary: w s)
  case (Cons turn turns)
  obtain es w_open where turn: "turn = (es, w_open)" by (cases turn)
  show ?case
  proof (cases "last_char s \<in> set (chars_wanted s) \<or> last_char s \<noteq> NUL")
    case True
    with Cons.prems turn show ?thesis by (auto split: if_splits)
  next
    case False
    with Cons.prems(1) turn obtain r where f: "window_feed env es w_open None False w s = Inr r"
      and l: "interact_loop env turns (fr_world r) (fr_window r) = Inr (w', s')"
      by (auto split: sum.splits)
    from Cons.IH [OF l] feed_nothing [OF f] fold_on_event_char [of es s] Cons.prems(2) show ?thesis by auto
  qed
qed simp

text \<open>
  An interaction that starts with no character pending returns one of the responses it was
  given, or the null character when the time is up, and leaves no character pending.
\<close>

theorem interact_returns_a_response:
  assumes "last_char s = NUL" and "interact env prompt (Some responses) turns w s = Inr (c, w', s')"
  shows "(c = NUL \<or> c \<in> set responses) \<and> last_char s' = NUL"
proof -
  from assms(2) obtain w1 s1 where l: "interact_loop env turns w (s\<lparr>chars_wanted := responses\<rparr>) = Inr (w1, s1)"
    and c: "c = last_char s1" "last_char s' = NUL"
    by (auto simp: interact_def Let_def split: sum.splits if_splits)
  from interact_loop_char [OF l] assms(1) c show ?thesis by auto
qed

theorem interact_returns_a_response_witness:
  "\<exists>c w' s'. interact sample_window_env None (Some ''yn'') [([Character 120], True), ([Character 121], True), ([], True)]
      (world_init None 0) (new_window ''w'') = Inr (c, w', s') \<and> c = CHR ''y'' \<and> last_char s' = NUL"
proof -
  let ?r = "interact sample_window_env None (Some ''yn'') [([Character 120], True), ([Character 121], True), ([], True)]
      (world_init None 0) (new_window ''w'')"
  have "case ?r of Inl _ \<Rightarrow> False | Inr (c, _, _) \<Rightarrow> c = CHR ''y''" by code_simp
  then obtain w' s' where r: "?r = Inr (CHR ''y'', w', s')" by (auto split: sum.splits)
  have "last_char (new_window ''w'') = NUL" by (simp add: new_window_def)
  from interact_returns_a_response [OF this r] r show ?thesis by blast
qed

text \<open>
  A key pressed between two interactions is answered to the second one, even when it is not
  among its responses: the wanted characters of the first are never withdrawn and a pending
  character ends the loop at once.
\<close>

theorem interact_returns_stale_key:
  assumes "window_feed env [Character key] still_open None False w s = Inr r"
    and "char_of_int key \<in> set (chars_wanted s)" and "char_of_int key \<noteq> NUL" and "char_of_int key \<noteq> CHR ''r''"
  shows "\<exists>s'. interact env prompt (Some responses) turns (fr_world r) (fr_window r) = Inr (char_of_int key, w, s')"
proof -
  have win: "win_window s = Window_open"
    using assms(1) by (cases "win_window s") (auto simp: window_feed_def finish_feed_def draw_frame_def)
  have r: "fr_window r = s\<lparr>last_char := char_of_int key\<rparr>" "fr_world r = w"
    using feed_nothing [OF assms(1)] assms(2) by (simp_all add: on_character_def)
  have "interact_loop env turns w (s\<lparr>last_char := char_of_int key, chars_wanted := responses\<rparr>) =
      Inr (w, s\<lparr>last_char := char_of_int key, chars_wanted := responses\<rparr>)"
    using assms(3) by (cases "(env, turns, w, s\<lparr>last_char := char_of_int key, chars_wanted := responses\<rparr>)"
        rule: interact_loop.cases) auto
  with win assms(4) show ?thesis by (simp add: interact_def caption_def r Let_def split: option.split)
qed

theorem interact_returns_stale_key_witness:
  "\<exists>r s'. window_feed sample_window_env [Character 113] True None False (world_init None 0)
      ((new_window ''w'')\<lparr>chars_wanted := ''q''\<rparr>) = Inr r \<and>
    interact sample_window_env None (Some ''yn'') [] (fr_world r) (fr_window r) = Inr (CHR ''q'', world_init None 0, s')"
proof -
  let ?f = "window_feed sample_window_env [Character 113] True None False (world_init None 0)
      ((new_window ''w'')\<lparr>chars_wanted := ''q''\<rparr>)"
  have "\<not> isl ?f" by (simp add: window_feed_def finish_feed_def draw_frame_def sample_window_env_def new_window_def
        draw_points_def)
  then obtain r where f: "?f = Inr r" by (cases ?f) auto
  have "char_of_int 113 = CHR ''q''" by code_simp
  with interact_returns_stale_key [OF f, of None "''yn''" "[]"] f show ?thesis by (auto simp: NUL_def)
qed

text \<open>
  The skeleton needs 32 joints: drawing one with fewer reads past the end of the joint vector
  (the bones name joint 31), drawing one with at least 32 never does.
\<close>

theorem skeleton_needs_32_joints:
  "isl (render_skeleton joints) = (length joints < 32)"
proof -
  have "isl (bonelines joints bs) = (\<exists>b \<in> set bs. \<not> (fst b < length joints \<and> snd b < length joints))" for bs
    by (induction bs) (auto simp: boneline_def isl_map_sum split: sum.splits)
  then have "isl (render_skeleton joints) = (\<exists>b \<in> set bones. \<not> (fst b < length joints \<and> snd b < length joints))"
    by (simp add: render_skeleton_def isl_map_sum)
  also have "\<dots> = (length joints < 32)"
    by (auto simp: bones_def)
  finally show ?thesis .
qed

text \<open>
  Feeding a second cloud without points to a window that has shown one without points releases
  the point buffer but keeps its address, where the C library frees on \<open>realloc (p, 0)\<close>: \<open>feed\<close>
  returns false, and the next \<open>feed\<close> uses released memory.
\<close>

theorem second_empty_cloud_releases_buffer:
  assumes "win_points s = Points_buffer []" and "win_npoints s = 0" and "we_zero_frees env"
    and "obj_ok ob" and "obj_points ob = Some []"
  shows "\<exists>r. window_feed env events still_open (Some ob) False w s = Inr r \<and> \<not> fr_ok r \<and>
    (\<forall>ob' w'. obj_ok ob' \<longrightarrow> obj_points ob' \<noteq> None \<longrightarrow>
       window_feed env events still_open (Some ob') clear w' (fr_window r) = Inl Use_after_free)"
proof -
  obtain r w1 ob1 where a: "access_pcl_pointcloud w ob = (r, w1, ob1)" by (metis prod_cases3)
  note acc = access_points [OF assms(4,5) a]
  have sz: "get_uncompressed_size w1 ob1 = (0, w1)"
    using get_size_points [OF acc(4,3), of w1] by (simp add: size_of_nat_def)
  let ?s = "s\<lparr>win_points := Points_released\<rparr>"
  have f: "window_feed env events still_open (Some ob) False w s =
      Inr \<lparr>fr_ok = False, fr_calls = [], fr_world = w1, fr_window = ?s, fr_cloud = Some ob1\<rparr>"
    using assms(1-3) acc(1) by (simp add: window_feed_def add_points_def a sz realloc_points_def points_bytes_def
        size_of_int_def)
  have "window_feed env events still_open (Some ob') clear w' ?s = Inl Use_after_free"
    if "obj_ok ob'" "obj_points ob' = Some ps" for ob' w' ps
  proof (cases clear)
    case True
    then show ?thesis by (simp add: window_feed_def free_points_def)
  next
    case False
    obtain r' w1' ob1' where a': "access_pcl_pointcloud w' ob' = (r', w1', ob1')" by (metis prod_cases3)
    with access_points(1) [OF that a'] False show ?thesis
      by (simp add: window_feed_def add_points_def realloc_points_def split: prod.splits)
  qed
  with f show ?thesis by (auto simp del: window_feed_def)
qed

theorem second_empty_cloud_releases_buffer_witness:
  "\<exists>r. window_feed sample_window_env [] True (Some (cloud_of [] 1 0)) False (world_init None 0)
      ((new_window ''w'')\<lparr>win_points := Points_buffer []\<rparr>) = Inr r \<and> \<not> fr_ok r"
proof -
  have "holds (cloud_of [] 1 0) [] 1 0" by (rule cloud_of_holds) simp
  then have "obj_ok (cloud_of [] 1 0)" "obj_points (cloud_of [] 1 0) = Some []" by (simp_all add: holds_def)
  from second_empty_cloud_releases_buffer [OF _ _ _ this, of "(new_window ''w'')\<lparr>win_points := Points_buffer []\<rparr>"
      sample_window_env "[]" True "world_init None 0" False]
  show ?thesis by (auto simp add: new_window_def sample_window_env_def simp del: window_feed_def)
qed

end
