(* ===== verification/Greenscreen.thy ===== *)
theory Greenscreen
  imports Pointcloud FloatArith "HOL-Library.Signed_Division"
begin

text \<open>
  \<open>cwipc_util/include/cwipc_util/internal/capturers.hpp\<close>, second part: the helpers of
  \<open>CwipcBaseCamera\<close> every capturer uses to drop points, by distance and by colour. Bytes are
  promoted to \<open>int\<close>, compared with \<open>double\<close> thresholds and converted back as the code does.
\<close>

section \<open>isPointInRadius\<close>

text \<open>
  \<open>pow (x, 2)\<close> of a float is exact in double; the sum is rounded, then narrowed to \<open>float\<close>.
\<close>

definition isPointInRadius :: "pcl_point \<Rightarrow> f32 \<Rightarrow> bool" where
  "isPointInRadius pt radius_filter =
     (let sq = (\<lambda>v. f64_mul (f64_of_f32 v) (f64_of_f32 v));
          distance_2 = f32_of_f64 (f64_add (sq (pcl_x pt)) (sq (pcl_z pt)))
      in f32_lt distance_2 (f32_mul radius_filter radius_filter))"

section \<open>rgbToHsv\<close>

record HsvColor =
  hsv_h :: u8
  hsv_s :: u8
  hsv_v :: u8

definition rgbMin :: "pcl_point \<Rightarrow> u8" where
  "rgbMin p = (if pcl_r p < pcl_g p then (if pcl_r p < pcl_b p then pcl_r p else pcl_b p)
               else (if pcl_g p < pcl_b p then pcl_g p else pcl_b p))"

definition rgbMax :: "pcl_point \<Rightarrow> u8" where
  "rgbMax p = (if pcl_g p < pcl_r p then (if pcl_b p < pcl_r p then pcl_r p else pcl_b p)
               else (if pcl_b p < pcl_g p then pcl_g p else pcl_b p))"

text \<open>One sixth of the colour circle is 43; the quotient truncates, the sum is stored in a byte.\<close>

definition hue_sector :: "int \<Rightarrow> u8 \<Rightarrow> u8 \<Rightarrow> int \<Rightarrow> u8" where
  "hue_sector base x y range_d = word_of_int (base + (43 * (uint x - uint y)) sdiv range_d)"

definition rgbToHsv :: "pcl_point \<Rightarrow> HsvColor" where
  "rgbToHsv p =
     (let v = rgbMax p; d = uint (rgbMax p) - uint (rgbMin p) in
      if v = 0 then \<lparr>hsv_h = 0, hsv_s = 0, hsv_v = v\<rparr>
      else
        let s = (word_of_int ((255 * d) sdiv uint v) :: u8) in
        if s = 0 then \<lparr>hsv_h = 0, hsv_s = s, hsv_v = v\<rparr>
        else \<lparr>hsv_h = (if rgbMax p = pcl_r p then hue_sector 0 (pcl_g p) (pcl_b p) d
                       else if rgbMax p = pcl_g p then hue_sector 85 (pcl_b p) (pcl_r p) d
                       else hue_sector 171 (pcl_r p) (pcl_g p) d),
              hsv_s = s, hsv_v = v\<rparr>)"

section \<open>isNotGreen\<close>

text \<open>The \<open>double\<close> literals 0.15, 0.3, 0.4, 1.2, 1.4 and 1.5.\<close>

definition lit_0_15 :: f64 where "lit_0_15 = 0x3FC3333333333333"
definition lit_0_3 :: f64 where "lit_0_3 = 0x3FD3333333333333"
definition lit_0_4 :: f64 where "lit_0_4 = 0x3FD999999999999A"
definition lit_1_2 :: f64 where "lit_1_2 = 0x3FF3333333333333"
definition lit_1_4 :: f64 where "lit_1_4 = 0x3FF6666666666666"
definition lit_1_5 :: f64 where "lit_1_5 = 0x3FF8000000000000"

text \<open>\<open>byte >= literal\<close>, both as \<open>double\<close>.\<close>

definition byte_ge :: "u8 \<Rightarrow> f64 \<Rightarrow> bool" where
  "byte_ge b lit = (\<not> f64_lt (f64_of_int (uint b)) lit)"

text \<open>\<open>byte *= literal\<close>: the product is truncated; one that does not fit in a byte is undefined.\<close>

definition byte_scale :: "f64 \<Rightarrow> u8 \<Rightarrow> fault + u8" where
  "byte_scale lit b =
     (let i = f64_trunc (f64_mul (f64_of_int (uint b)) lit)
      in if 0 \<le> i \<and> i < 256 then Inr (word_of_int i) else Inl Bad_conversion)"

definition scale_red_blue :: "f64 \<Rightarrow> pcl_point \<Rightarrow> fault + pcl_point" where
  "scale_red_blue lit p =
     (case byte_scale lit (pcl_r p) of
        Inl f \<Rightarrow> Inl f
      | Inr r \<Rightarrow>
          (case byte_scale lit (pcl_b p) of
             Inl f \<Rightarrow> Inl f
           | Inr b \<Rightarrow> Inr (p\<lparr>pcl_r := r, pcl_b := b\<rparr>)))"

text \<open>The quotient is that of integers.\<close>

definition much_green :: "pcl_point \<Rightarrow> bool" where
  "much_green p =
     (let rb = uint (pcl_r p) * uint (pcl_b p)
      in rb \<noteq> 0 \<and> f64_lt lit_1_5 (f64_of_int ((uint (pcl_g p) * uint (pcl_g p)) sdiv rb)))"

definition isNotGreen :: "pcl_point \<Rightarrow> fault + bool \<times> pcl_point" where
  "isNotGreen p =
     (let hsv = rgbToHsv p in
      if 60 \<le> hsv_h hsv \<and> hsv_h hsv \<le> 130
      then case (if byte_ge (hsv_s hsv) lit_0_15 \<and> byte_ge (hsv_v hsv) lit_0_15
                 then scale_red_blue (if much_green p then lit_1_4 else lit_1_2) p
                 else Inr p) of
             Inl f \<Rightarrow> Inl f
           | Inr p1 \<Rightarrow> Inr (\<not> (byte_ge (hsv_s hsv) lit_0_4 \<and> byte_ge (hsv_v hsv) lit_0_3), p1)
      else Inr (True, p))"

section \<open>What the thresholds mean for bytes\<close>

lemma bit_length_pos: "0 < m \<Longrightarrow> 1 \<le> bit_length m"
proof (induction m rule: bit_length.induct)
  case (1 n)
  then show ?case
    by (cases "0 < n div 2") (simp_all add: bit_length.simps [of n] bit_length.simps [of "n div 2"] bit_length.simps [of 0])
qed

text \<open>A positive integer is at least 1/2 as a double, and a number.\<close>

lemma f64_of_int_mag:
  assumes "0 < i"
  shows "0x3FE0000000000000 \<le> f64_mag (f64_of_int i) \<and> f64_mag (f64_of_int i) \<le> f64_inf
    \<and> \<not> f64_neg_bit (f64_of_int i)"
proof -
  define e where "e = max (bit_length i - 53) (- 1074)"
  define mag where "mag = (e + 1074) * 2 ^ 52 + round_quot i e False"
  define m1 where "m1 = (if f64_inf \<le> mag then f64_inf else mag)"
  have e: "- 52 \<le> e"
    using bit_length_pos [OF assms] by (simp add: e_def)
  have "1022 * 2 ^ 52 \<le> (e + 1074) * (2 ^ 52 :: int)"
    using e by (intro mult_right_mono) simp_all
  then have "1022 * 2 ^ 52 \<le> mag"
    using round_quot_nonneg [of i e False] assms by (simp add: mag_def)
  then have r: "0x3FE0000000000000 \<le> m1" "m1 \<le> f64_inf"
    by (simp_all add: m1_def f64_inf_def)
  have w: "f64_of_int i = word_of_int m1"
    using assms by (simp add: f64_of_int_def f64_round_def with_sign64_def m1_def mag_def e_def Let_def)
  have "m1 < 2 ^ 64" using r(2) by (simp add: f64_inf_def)
  then have "uint (word_of_int m1 :: f64) = m1"
    using r(1) by (simp add: uint_word_of_int)
  then show ?thesis
    using r by (simp add: w f64_mag_def f64_neg_bit_def f64_inf_def)
qed

lemma byte_ge_positive:
  "byte_ge b lit_0_15 = (b \<noteq> 0)" "byte_ge b lit_0_3 = (b \<noteq> 0)" "byte_ge b lit_0_4 = (b \<noteq> 0)"
proof -
  have lits: "\<not> f64_isnan l \<and> 0 < f64_key l \<and> f64_key l < 0x3FE0000000000000"
    if "l = lit_0_15 \<or> l = lit_0_3 \<or> l = lit_0_4" for l
  proof -
    have "\<not> f64_isnan lit_0_15 \<and> 0 < f64_key lit_0_15 \<and> f64_key lit_0_15 < 0x3FE0000000000000"
      "\<not> f64_isnan lit_0_3 \<and> 0 < f64_key lit_0_3 \<and> f64_key lit_0_3 < 0x3FE0000000000000"
      "\<not> f64_isnan lit_0_4 \<and> 0 < f64_key lit_0_4 \<and> f64_key lit_0_4 < 0x3FE0000000000000"
      by (simp_all add: lit_0_15_def lit_0_3_def lit_0_4_def f64_isnan_def f64_key_def f64_mag_def
          f64_neg_bit_def f64_inf_def)
    with that show ?thesis by blast
  qed
  have "f64_of_int 0 = 0"
    by (simp add: f64_of_int_def f64_round_def with_sign64_def Let_def)
  then have zero: "\<not> f64_isnan (f64_of_int 0) \<and> f64_key (f64_of_int 0) = 0"
    by (simp add: f64_isnan_def f64_key_def f64_mag_def f64_neg_bit_def f64_inf_def)
  have "byte_ge b l = (b \<noteq> 0)" if l: "l = lit_0_15 \<or> l = lit_0_3 \<or> l = lit_0_4" for l
  proof (cases "b = 0")
    case True
    then show ?thesis using zero lits [OF l] by (simp add: byte_ge_def f64_lt_def)
  next
    case False
    then have "0 < uint b"
      using uint_0_iff [of b] uint_nonnegative [of b] by linarith
    from f64_of_int_mag [OF this] show ?thesis
      using False lits [OF l] by (simp add: byte_ge_def f64_lt_def f64_key_def)
  qed
  then show "byte_ge b lit_0_15 = (b \<noteq> 0)" "byte_ge b lit_0_3 = (b \<noteq> 0)"
    "byte_ge b lit_0_4 = (b \<noteq> 0)" by simp_all
qed

lemma hue_needs_saturation: "hsv_h (rgbToHsv p) \<noteq> 0 \<Longrightarrow> hsv_s (rgbToHsv p) \<noteq> 0 \<and> hsv_v (rgbToHsv p) \<noteq> 0"
  by (simp add: rgbToHsv_def Let_def split: if_splits)

section \<open>Properties\<close>

text \<open>
  Greenscreen removal keeps exactly the points whose hue is outside 60 to 130, and never
  changes a point it keeps: the saturation and brightness thresholds (0.15, 0.3, 0.4) are compared
  with values from 0 to 255, so every coloured point passes them, and the colour correction is only
  ever applied to points that are dropped.
\<close>

theorem greenscreen_keeps_by_hue:
  assumes "isNotGreen p = Inr (keep, p')"
  shows "keep = (hsv_h (rgbToHsv p) < 60 \<or> 130 < hsv_h (rgbToHsv p)) \<and> (keep \<longrightarrow> p' = p)"
proof -
  have "hsv_h (rgbToHsv p) \<noteq> 0" if "60 \<le> hsv_h (rgbToHsv p)"
    using that by auto
  then show ?thesis
    using assms hue_needs_saturation [of p]
    by (auto simp: isNotGreen_def Let_def byte_ge_positive not_le split: if_splits sum.splits)
qed

definition sample_point :: "u8 \<Rightarrow> u8 \<Rightarrow> u8 \<Rightarrow> pcl_point" where
  "sample_point r g b = \<lparr>pcl_x = 0, pcl_y = 0, pcl_z = 0, pcl_r = r, pcl_g = g, pcl_b = b, pcl_a = 1\<rparr>"

theorem greenscreen_keeps_by_hue_witness:
  "isNotGreen (sample_point 60 100 59) = Inr (False, sample_point 84 100 82) \<and>
   (hsv_h (rgbToHsv (sample_point 60 100 59)) < 60 \<or> 130 < hsv_h (rgbToHsv (sample_point 60 100 59))) = False"
proof -
  have "isNotGreen (sample_point 60 100 59) = Inr (False, sample_point 84 100 82)" by code_simp
  from greenscreen_keeps_by_hue [OF this] this show ?thesis by simp
qed

text \<open>
  On a bright pale green the correction is undefined: 1.2 times a red or blue byte above 212
  does not fit in the \<open>unsigned char\<close> it is stored in.
\<close>

lemma pale_green_overflows:
  "isNotGreen (sample_point 230 255 229) = Inl Bad_conversion"
  by code_simp

end
