(* ===== verification/CameraConfig.thy ===== *)
theory CameraConfig
  imports Json Logging Float32
begin

text \<open>
  \<open>cwipc_util/include/cwipc_util/internal/capturers.hpp\<close>, first part: the configuration every
  camera has (\<open>CwipcBaseCameraConfig\<close>) and the colour helpers of \<open>CwipcBaseCamera\<close>. A JSON
  reader is a function on the structure that tells whether it threw (theory \<open>Json\<close>).
\<close>

section \<open>CwipcBaseCameraConfig\<close>

text \<open>\<open>trafo\<close> is a shared pointer to a 4 by 4 matrix, null until it is read.\<close>

record camera_config =
  cam_type :: string
  cam_disabled :: bool
  cam_connected :: bool
  cam_serial :: string
  cam_filename :: string
  cam_trafo :: "f64 list list option"
  cam_position :: "f32 \<times> f32 \<times> f32"

definition new_camera_config :: camera_config where
  "new_camera_config = \<lparr>cam_type = [], cam_disabled = False, cam_connected = False, cam_serial = [],
     cam_filename = [], cam_trafo = None, cam_position = (f32_zero, f32_zero, f32_zero)\<rparr>"

definition f64_one :: f64 where "f64_one = 0x3FF0000000000000"

definition identity_trafo :: "f64 list list" where
  "identity_trafo = [[f64_one, 0, 0, 0], [0, f64_one, 0, 0], [0, 0, f64_one, 0], [0, 0, 0, f64_one]]"

text \<open>
  A new matrix; every element is stored before the matrix is used, or the exception drops it.
\<close>

definition new_trafo :: "f64 list list" where "new_trafo = replicate 4 (replicate 4 0)"

text \<open>\<open>(*trafo)(x, y) = trafo_json[x][y]\<close>\<close>

definition trafo_cell :: "json_lib \<Rightarrow> json \<Rightarrow> nat \<Rightarrow> nat \<Rightarrow> camera_config reader" where
  "trafo_cell lib trafo_json x y c =
     (case (case json_index trafo_json x of None \<Rightarrow> None
            | Some row \<Rightarrow> (case json_index row y of None \<Rightarrow> None | Some v \<Rightarrow> to_double lib v)) of
        None \<Rightarrow> (False, c)
      | Some d \<Rightarrow> (True, c\<lparr>cam_trafo := map_option (\<lambda>m. m[x := (m ! x)[y := d]]) (cam_trafo c)\<rparr>))"

definition read_trafo :: "json_lib \<Rightarrow> json \<Rightarrow> camera_config reader" where
  "read_trafo lib trafo_json =
     read_all [trafo_cell lib trafo_json x y. x \<leftarrow> [0, 1, 2, 3], y \<leftarrow> [0, 1, 2, 3]]"

text \<open>\<open>-(*trafo)(i, 3)\<close>, a double, stored in a float.\<close>

definition position_of_trafo :: "f64 list list \<Rightarrow> f32 \<times> f32 \<times> f32" where
  "position_of_trafo m =
     (f32_of_f64 (f64_neg (m ! 0 ! 3)), f32_of_f64 (f64_neg (m ! 1 ! 3)), f32_of_f64 (f64_neg (m ! 2 ! 3)))"

definition camera_from_json :: "json_lib \<Rightarrow> json \<Rightarrow> camera_config reader" where
  "camera_from_json lib json_data = read_all
     [json_at_get (to_str lib) json_data ''type'' (\<lambda>v c. c\<lparr>cam_type := v\<rparr>),
      json_get (to_str lib) json_data ''serial'' (\<lambda>v c. c\<lparr>cam_serial := v\<rparr>),
      json_get (to_bool lib) json_data ''disabled'' (\<lambda>v c. c\<lparr>cam_disabled := v\<rparr>),
      (if json_lookup json_data ''filename'' \<noteq> None
       then json_get (to_str lib) json_data ''filename'' (\<lambda>v c. c\<lparr>cam_filename := v\<rparr>)
       else json_get (to_str lib) json_data ''playback_filename'' (\<lambda>v c. c\<lparr>cam_filename := v\<rparr>)),
      (\<lambda>c. (True, c\<lparr>cam_trafo := Some new_trafo\<rparr>)),
      (if json_lookup json_data ''trafo'' \<noteq> None
       then json_at json_data ''trafo'' (read_trafo lib)
       else (\<lambda>c. (True, c\<lparr>cam_trafo := Some identity_trafo\<rparr>))),
      (\<lambda>c. (True, case cam_trafo c of None \<Rightarrow> c
                  | Some m \<Rightarrow> c\<lparr>cam_position := position_of_trafo m\<rparr>))]"

definition f32_nonzero :: "f32 \<Rightarrow> bool" where "f32_nonzero x = (\<not> f32_eq x f32_zero)"

definition trafo_json :: "f64 list list \<Rightarrow> json" where
  "trafo_json m = Json_array (map (\<lambda>x. Json_array (map (\<lambda>y. Json_float (m ! x ! y)) [0, 1, 2, 3])) [0, 1, 2, 3])"

text \<open>The members written, in order: \<open>filename\<close> and \<open>_cameraposition\<close> only when they say something.\<close>

definition camera_members :: "camera_config \<Rightarrow> f64 list list \<Rightarrow> (string \<times> json) list" where
  "camera_members c m =
     [(''type'', Json_string (cam_type c)),
      (''serial'', Json_string (cam_serial c)),
      (''disabled'', Json_bool (cam_disabled c))]
     @ (if cam_filename c \<noteq> [] then [(''filename'', Json_string (cam_filename c))] else [])
     @ (let (x, y, z) = cam_position c
        in if f32_nonzero x \<or> f32_nonzero y \<or> f32_nonzero z
           then [(''_cameraposition'', Json_array (map (\<lambda>v. Json_float (f64_of_f32 v)) [x, y, z]))]
           else [])
     @ [(''trafo'', trafo_json m)]"

text \<open>Writing dereferences \<open>trafo\<close>.\<close>

definition camera_to_json :: "camera_config \<Rightarrow> json \<Rightarrow> fault + json" where
  "camera_to_json c json_data =
     (case cam_trafo c of
        None \<Rightarrow> Inl Null_deref
      | Some m \<Rightarrow>
          (case json_put_all (camera_members c m) json_data of
             None \<Rightarrow> Inl Uncaught_exception
           | Some j \<Rightarrow> Inr j))"

section \<open>Reading back what was written\<close>

definition matrix44 :: "f64 list list \<Rightarrow> bool" where
  "matrix44 m \<longleftrightarrow> length m = 4 \<and> list_all (\<lambda>r. length r = 4) m"

text \<open>A configuration as reading one leaves it: not connected, its position that of the matrix.\<close>

definition camera_config_ok :: "camera_config \<Rightarrow> bool" where
  "camera_config_ok c \<longleftrightarrow> \<not> cam_connected c \<and>
     (case cam_trafo c of None \<Rightarrow> False | Some m \<Rightarrow> matrix44 m \<and> cam_position c = position_of_trafo m)"

lemma length_4_cases: "length xs = 4 \<Longrightarrow> \<exists>a b c d. xs = [a, b, c, d]"
  by (auto simp: numeral_eq_Suc length_Suc_conv)

lemma matrix44_cases:
  assumes "matrix44 m"
  obtains a0 a1 a2 a3 b0 b1 b2 b3 c0 c1 c2 c3 d0 d1 d2 d3
  where "m = [[a0, a1, a2, a3], [b0, b1, b2, b3], [c0, c1, c2, c3], [d0, d1, d2, d3]]"
proof -
  obtain r0 r1 r2 r3 where m: "m = [r0, r1, r2, r3]"
    using assms length_4_cases [of m] by (auto simp: matrix44_def)
  then have "length r0 = 4" "length r1 = 4" "length r2 = 4" "length r3 = 4"
    using assms by (simp_all add: matrix44_def)
  then show thesis
    using m that length_4_cases [of r0] length_4_cases [of r1] length_4_cases [of r2]
      length_4_cases [of r3] by blast
qed

lemma read_trafo_written:
  assumes "matrix44 m" and "json_lib_ok lib" and "cam_trafo c = Some new_trafo"
  shows "read_trafo lib (trafo_json m) c = (True, c\<lparr>cam_trafo := Some m\<rparr>)"
proof -
  obtain a0 a1 a2 a3 b0 b1 b2 b3 c0 c1 c2 c3 d0 d1 d2 d3
    where m: "m = [[a0, a1, a2, a3], [b0, b1, b2, b3], [c0, c1, c2, c3], [d0, d1, d2, d3]]"
    using assms(1) by (rule matrix44_cases)
  have d: "to_double lib (Json_float x) = Some x" for x
    using assms(2) by (simp add: json_lib_ok_def)
  show ?thesis
    using assms(3)
    by (simp add: m d read_trafo_def trafo_json_def trafo_cell_def json_index_def reader_then_def
        new_trafo_def numeral_eq_Suc)
qed

lemma camera_written:
  assumes "cam_trafo c = Some m"
  shows "camera_to_json c Json_null = Inr (Json_object (camera_members c m))"
proof -
  obtain x y z where p: "cam_position c = (x, y, z)" by (cases "cam_position c")
  have "distinct (map fst (camera_members c m))" and "camera_members c m \<noteq> []"
    by (simp_all add: camera_members_def p)
  then show ?thesis
    using assms by (simp add: camera_to_json_def json_simps)
qed

lemma camera_retyped:
  "json_put ''type'' (Json_string t) (Json_object (camera_members c m)) =
     Some (Json_object (camera_members (c\<lparr>cam_type := t\<rparr>) m))"
  by (simp add: json_put_def camera_members_def)

lemma camera_read:
  assumes "camera_config_ok c" and "cam_trafo c = Some m" and "json_lib_ok lib"
  shows "camera_from_json lib (Json_object (camera_members c m)) new_camera_config = (True, c)"
proof -
  have m: "matrix44 m" "cam_position c = position_of_trafo m" and conn: "\<not> cam_connected c"
    using assms(1,2) by (auto simp: camera_config_ok_def)
  obtain x y z where p: "cam_position c = (x, y, z)" by (cases "cam_position c")
  define kvs where "kvs = camera_members c m"
  have look: "map_of kvs ''type'' = Some (Json_string (cam_type c))"
    "map_of kvs ''serial'' = Some (Json_string (cam_serial c))"
    "map_of kvs ''disabled'' = Some (Json_bool (cam_disabled c))"
    "map_of kvs ''filename'' = (if cam_filename c \<noteq> [] then Some (Json_string (cam_filename c)) else None)"
    "map_of kvs ''playback_filename'' = None"
    "map_of kvs ''trafo'' = Some (trafo_json m)"
    by (simp_all add: kvs_def camera_members_def p)
  have conv: "to_str lib (Json_string s) = Some s" "to_bool lib (Json_bool b) = Some b" for s b
    using assms(3) by (simp_all add: json_lib_ok_def)
  have t: "read_trafo lib (trafo_json m) d = (True, d\<lparr>cam_trafo := Some m\<rparr>)"
    if "cam_trafo d = Some new_trafo" for d
    using read_trafo_written [OF m(1) assms(3) that] .
  have "camera_from_json lib (Json_object kvs) new_camera_config = (True, c)"
    using m conn assms(2)
    by (cases c) (simp add: camera_from_json_def reader_then_def json_get_def json_at_get_def json_at_def
        json_lookup_def look conv t new_camera_config_def)
  then show ?thesis by (simp add: kvs_def)
qed

end
