(* ===== verification/KinectConfig.thy ===== *)
theory KinectConfig
  imports CameraConfig Pointcloud
begin

text \<open>
  \<open>cwipc_kinect/src/K4AConfig.hpp\<close> and \<open>K4AConfig.cpp\<close>: the configuration of a Kinect capturer,
  its reading from JSON (current and old format) and its writing. An \<open>int\<close> attribute is its 32
  bits, a \<open>double\<close> its 64.
\<close>

section \<open>The structures\<close>

record k4a_processing =
  greenscreen_removal :: bool
  depth_x_erosion :: u32
  depth_y_erosion :: u32
  height_min :: f64
  height_max :: f64
  radius_filter :: f64

record k4a_filtering =
  do_threshold :: bool
  threshold_near :: f64
  threshold_far :: f64
  map_color_to_depth :: bool

record k4a_hardware =
  color_height :: u32
  depth_height :: u32
  hw_fps :: u32
  color_exposure_time :: u32
  color_whitebalance :: u32
  color_backlight_compensation :: u32
  color_brightness :: u32
  color_contrast :: u32
  color_saturation :: u32
  color_sharpness :: u32
  color_gain :: u32
  color_powerline_frequency :: u32
  color_mjpeg :: bool

record k4a_sync =
  sync_master_serial :: string
  ignore_sync :: bool

record k4a_skeleton =
  bt_sensor_orientation :: u32
  bt_processing_mode :: u32
  bt_model_path :: string

text \<open>\<open>CwipcBaseCaptureConfig\<close>, and the vector every capturer's configuration adds to it.\<close>

record capture_config =
  cfg_type :: string
  all_camera_configs :: "camera_config list"

record k4a_config = capture_config +
  processing :: k4a_processing
  filtering :: k4a_filtering
  hardware :: k4a_hardware
  sync :: k4a_sync
  skeleton :: k4a_skeleton
  single_tile :: u32
  record_to_directory :: string
  new_timestamps :: bool
  cfg_debug :: bool
  apiDebug :: bool

definition new_k4a_processing :: k4a_processing where
  "new_k4a_processing = \<lparr>greenscreen_removal = False, depth_x_erosion = 0, depth_y_erosion = 0,
     height_min = 0, height_max = 0, radius_filter = 0\<rparr>"

text \<open>0.15 and 6.0.\<close>

definition new_k4a_filtering :: k4a_filtering where
  "new_k4a_filtering = \<lparr>do_threshold = True, threshold_near = 0x3FC3333333333333,
     threshold_far = 0x4018000000000000, map_color_to_depth = False\<rparr>"

definition new_k4a_hardware :: k4a_hardware where
  "new_k4a_hardware = \<lparr>color_height = 720, depth_height = 576, hw_fps = 30, color_exposure_time = - 1,
     color_whitebalance = - 1, color_backlight_compensation = 0, color_brightness = 128,
     color_contrast = 5, color_saturation = 32, color_sharpness = 2, color_gain = 0,
     color_powerline_frequency = 2, color_mjpeg = False\<rparr>"

definition new_k4a_sync :: k4a_sync where
  "new_k4a_sync = \<lparr>sync_master_serial = [], ignore_sync = False\<rparr>"

definition new_k4a_skeleton :: k4a_skeleton where
  "new_k4a_skeleton = \<lparr>bt_sensor_orientation = - 1, bt_processing_mode = - 1, bt_model_path = []\<rparr>"

definition new_k4a_config :: k4a_config where
  "new_k4a_config = \<lparr>cfg_type = [], all_camera_configs = [], processing = new_k4a_processing,
     filtering = new_k4a_filtering, hardware = new_k4a_hardware, sync = new_k4a_sync,
     skeleton = new_k4a_skeleton, single_tile = - 1, record_to_directory = [],
     new_timestamps = False, cfg_debug = False, apiDebug = False\<rparr>"

section \<open>Reading\<close>

definition base_config_from_json :: "json_lib \<Rightarrow> json \<Rightarrow> 'a capture_config_scheme reader" where
  "base_config_from_json lib json_data =
     json_at_get (to_str lib) json_data ''type'' (\<lambda>v c. c\<lparr>cfg_type := v\<rparr>)"

text \<open>One camera is read into a local variable and appended when nothing threw.\<close>

definition read_camera :: "json_lib \<Rightarrow> json \<Rightarrow> 'a capture_config_scheme reader" where
  "read_camera lib camera_config_json c =
     (case camera_from_json lib camera_config_json new_camera_config of
        (ok, camera_config) \<Rightarrow>
          if ok then (True, c\<lparr>all_camera_configs := all_camera_configs c @ [camera_config]\<rparr>)
          else (False, c))"

definition read_cameras :: "json_lib \<Rightarrow> json \<Rightarrow> 'a capture_config_scheme reader" where
  "read_cameras lib cameras =
     read_all ((\<lambda>c. (True, c\<lparr>all_camera_configs := []\<rparr>)) # map (read_camera lib) (json_elements cameras))"

definition read_sync :: "json_lib \<Rightarrow> json \<Rightarrow> k4a_config reader" where
  "read_sync lib sync_data = read_all
     [json_get (to_str lib) sync_data ''sync_master_serial'' (\<lambda>v. sync_update (sync_master_serial_update (\<lambda>_. v))),
      json_get (to_bool lib) sync_data ''ignore_sync'' (\<lambda>v. sync_update (ignore_sync_update (\<lambda>_. v)))]"

definition read_hardware :: "json_lib \<Rightarrow> json \<Rightarrow> k4a_config reader" where
  "read_hardware lib hardware_data = read_all
     [json_get (to_int lib) hardware_data ''color_height'' (\<lambda>v. hardware_update (color_height_update (\<lambda>_. v))),
      json_get (to_int lib) hardware_data ''depth_height'' (\<lambda>v. hardware_update (depth_height_update (\<lambda>_. v))),
      json_get (to_int lib) hardware_data ''fps'' (\<lambda>v. hardware_update (hw_fps_update (\<lambda>_. v))),
      json_get (to_int lib) hardware_data ''color_exposure_time''
        (\<lambda>v. hardware_update (color_exposure_time_update (\<lambda>_. v))),
      json_get (to_int lib) hardware_data ''color_whitebalance''
        (\<lambda>v. hardware_update (color_whitebalance_update (\<lambda>_. v))),
      json_get (to_int lib) hardware_data ''color_backlight_compensation''
        (\<lambda>v. hardware_update (color_backlight_compensation_update (\<lambda>_. v))),
      json_get (to_int lib) hardware_data ''color_brightness''
        (\<lambda>v. hardware_update (color_brightness_update (\<lambda>_. v))),
      json_get (to_int lib) hardware_data ''color_contrast'' (\<lambda>v. hardware_update (color_contrast_update (\<lambda>_. v))),
      json_get (to_int lib) hardware_data ''color_saturation''
        (\<lambda>v. hardware_update (color_saturation_update (\<lambda>_. v))),
      json_get (to_int lib) hardware_data ''color_sharpness''
        (\<lambda>v. hardware_update (color_sharpness_update (\<lambda>_. v))),
      json_get (to_int lib) hardware_data ''color_gain'' (\<lambda>v. hardware_update (color_gain_update (\<lambda>_. v))),
      json_get (to_int lib) hardware_data ''color_powerline_frequency''
        (\<lambda>v. hardware_update (color_powerline_frequency_update (\<lambda>_. v))),
      json_get (to_bool lib) hardware_data ''color_mjpeg'' (\<lambda>v. hardware_update (color_mjpeg_update (\<lambda>_. v)))]"

definition read_processing :: "json_lib \<Rightarrow> json \<Rightarrow> k4a_config reader" where
  "read_processing lib processing_data = read_all
     [json_get (to_bool lib) processing_data ''greenscreenremoval''
        (\<lambda>v. processing_update (greenscreen_removal_update (\<lambda>_. v))),
      json_get (to_int lib) processing_data ''depth_x_erosion''
        (\<lambda>v. processing_update (depth_x_erosion_update (\<lambda>_. v))),
      json_get (to_int lib) processing_data ''depth_y_erosion''
        (\<lambda>v. processing_update (depth_y_erosion_update (\<lambda>_. v))),
      json_get (to_double lib) processing_data ''height_min'' (\<lambda>v. processing_update (height_min_update (\<lambda>_. v))),
      json_get (to_double lib) processing_data ''height_max'' (\<lambda>v. processing_update (height_max_update (\<lambda>_. v))),
      json_get (to_double lib) processing_data ''radius_filter''
        (\<lambda>v. processing_update (radius_filter_update (\<lambda>_. v)))]"

definition read_filtering :: "json_lib \<Rightarrow> json \<Rightarrow> k4a_config reader" where
  "read_filtering lib filtering_data = read_all
     [json_get (to_bool lib) filtering_data ''map_color_to_depth''
        (\<lambda>v. filtering_update (map_color_to_depth_update (\<lambda>_. v))),
      json_get (to_bool lib) filtering_data ''do_threshold'' (\<lambda>v. filtering_update (do_threshold_update (\<lambda>_. v))),
      json_get (to_double lib) filtering_data ''threshold_near''
        (\<lambda>v. filtering_update (threshold_near_update (\<lambda>_. v))),
      json_get (to_double lib) filtering_data ''threshold_far''
        (\<lambda>v. filtering_update (threshold_far_update (\<lambda>_. v)))]"

definition read_skeleton :: "json_lib \<Rightarrow> json \<Rightarrow> k4a_config reader" where
  "read_skeleton lib skeleton_data = read_all
     [json_get (to_int lib) skeleton_data ''sensor_orientation''
        (\<lambda>v. skeleton_update (bt_sensor_orientation_update (\<lambda>_. v))),
      json_get (to_int lib) skeleton_data ''processing_mode''
        (\<lambda>v. skeleton_update (bt_processing_mode_update (\<lambda>_. v))),
      json_get (to_str lib) skeleton_data ''model_path'' (\<lambda>v. skeleton_update (bt_model_path_update (\<lambda>_. v)))]"

definition read_system :: "json_lib \<Rightarrow> json \<Rightarrow> k4a_config reader" where
  "read_system lib system_data = read_all
     [json_get (to_int lib) system_data ''single_tile'' (\<lambda>v c. c\<lparr>single_tile := v\<rparr>),
      json_get (to_str lib) system_data ''record_to_directory'' (\<lambda>v c. c\<lparr>record_to_directory := v\<rparr>),
      json_get (to_bool lib) system_data ''debug'' (\<lambda>v c. c\<lparr>cfg_debug := v\<rparr>),
      json_get (to_bool lib) system_data ''apiDebug'' (\<lambda>v c. c\<lparr>apiDebug := v\<rparr>),
      json_get (to_bool lib) system_data ''new_timestamps'' (\<lambda>v c. c\<lparr>new_timestamps := v\<rparr>)]"

text \<open>\<open>_from_json\<close>, with the warning it logs at its end.\<close>

definition k4a_read :: "json_lib \<Rightarrow> json \<Rightarrow> k4a_config reader" where
  "k4a_read lib json_data = read_all
     [base_config_from_json lib json_data,
      json_at json_data ''system'' (read_system lib),
      json_if_contains json_data ''sync'' (read_sync lib),
      json_if_contains json_data ''hardware'' (read_hardware lib),
      json_if_contains json_data ''processing'' (read_processing lib),
      json_if_contains json_data ''filtering'' (read_filtering lib),
      json_if_contains json_data ''skeleton'' (read_skeleton lib),
      json_at json_data ''camera'' (read_cameras lib)]"

definition k4a_from_json :: "json_lib \<Rightarrow> json \<Rightarrow> (world \<times> k4a_config) reader" where
  "k4a_from_json lib json_data s =
     (case s of (w, c) \<Rightarrow>
      case k4a_read lib json_data c of (ok, c1) \<Rightarrow>
        (ok, if ok \<and> all_camera_configs c1 = []
             then cwipc_log CWIPC_LOG_LEVEL_WARNING ''cwipc_kinect'' ''No cameras in configuration'' w else w, c1))"

text \<open>Versions 3 and 4: the same attributes in fewer, larger objects; some have no place there.\<close>

definition read_system_v4 :: "json_lib \<Rightarrow> json \<Rightarrow> k4a_config reader" where
  "read_system_v4 lib system_data = read_all
     [json_get (to_int lib) system_data ''color_height'' (\<lambda>v. hardware_update (color_height_update (\<lambda>_. v))),
      json_get (to_int lib) system_data ''depth_height'' (\<lambda>v. hardware_update (depth_height_update (\<lambda>_. v))),
      json_get (to_int lib) system_data ''fps'' (\<lambda>v. hardware_update (hw_fps_update (\<lambda>_. v))),
      json_get (to_int lib) system_data ''single_tile'' (\<lambda>v c. c\<lparr>single_tile := v\<rparr>),
      json_get (to_str lib) system_data ''sync_master_serial''
        (\<lambda>v. sync_update (sync_master_serial_update (\<lambda>_. v))),
      json_get (to_bool lib) system_data ''ignore_sync'' (\<lambda>v. sync_update (ignore_sync_update (\<lambda>_. v))),
      json_get (to_str lib) system_data ''record_to_directory'' (\<lambda>v c. c\<lparr>record_to_directory := v\<rparr>),
      json_get (to_bool lib) system_data ''debug'' (\<lambda>v c. c\<lparr>cfg_debug := v\<rparr>),
      json_get (to_bool lib) system_data ''apiDebug'' (\<lambda>v c. c\<lparr>apiDebug := v\<rparr>),
      json_get (to_bool lib) system_data ''new_timestamps'' (\<lambda>v c. c\<lparr>new_timestamps := v\<rparr>),
      json_get (to_int lib) system_data ''color_exposure_time''
        (\<lambda>v. hardware_update (color_exposure_time_update (\<lambda>_. v))),
      json_get (to_int lib) system_data ''color_whitebalance''
        (\<lambda>v. hardware_update (color_whitebalance_update (\<lambda>_. v))),
      json_get (to_int lib) system_data ''color_brightness''
        (\<lambda>v. hardware_update (color_brightness_update (\<lambda>_. v))),
      json_get (to_int lib) system_data ''color_contrast'' (\<lambda>v. hardware_update (color_contrast_update (\<lambda>_. v))),
      json_get (to_int lib) system_data ''color_saturation''
        (\<lambda>v. hardware_update (color_saturation_update (\<lambda>_. v))),
      json_get (to_int lib) system_data ''color_gain'' (\<lambda>v. hardware_update (color_gain_update (\<lambda>_. v))),
      json_get (to_int lib) system_data ''color_powerline_frequency''
        (\<lambda>v. hardware_update (color_powerline_frequency_update (\<lambda>_. v))),
      json_get (to_bool lib) system_data ''map_color_to_depth''
        (\<lambda>v. filtering_update (map_color_to_depth_update (\<lambda>_. v)))]"

definition read_depthfilterparameters :: "json_lib \<Rightarrow> json \<Rightarrow> k4a_config reader" where
  "read_depthfilterparameters lib j = read_all
     [json_get (to_bool lib) j ''do_threshold'' (\<lambda>v. filtering_update (do_threshold_update (\<lambda>_. v))),
      json_get (to_double lib) j ''threshold_near'' (\<lambda>v. filtering_update (threshold_near_update (\<lambda>_. v))),
      json_get (to_double lib) j ''threshold_far'' (\<lambda>v. filtering_update (threshold_far_update (\<lambda>_. v))),
      json_get (to_int lib) j ''depth_x_erosion'' (\<lambda>v. processing_update (depth_x_erosion_update (\<lambda>_. v))),
      json_get (to_int lib) j ''depth_y_erosion'' (\<lambda>v. processing_update (depth_y_erosion_update (\<lambda>_. v)))]"

definition read_postprocessing :: "json_lib \<Rightarrow> json \<Rightarrow> k4a_config reader" where
  "read_postprocessing lib postprocessing = read_all
     [json_get (to_bool lib) postprocessing ''greenscreenremoval''
        (\<lambda>v. processing_update (greenscreen_removal_update (\<lambda>_. v))),
      json_get (to_double lib) postprocessing ''height_min'' (\<lambda>v. processing_update (height_min_update (\<lambda>_. v))),
      json_get (to_double lib) postprocessing ''height_max'' (\<lambda>v. processing_update (height_max_update (\<lambda>_. v))),
      json_get (to_double lib) postprocessing ''radius_filter''
        (\<lambda>v. processing_update (radius_filter_update (\<lambda>_. v))),
      json_at postprocessing ''depthfilterparameters'' (read_depthfilterparameters lib)]"

definition k4a_from_json_v4 :: "json_lib \<Rightarrow> json \<Rightarrow> k4a_config reader" where
  "k4a_from_json_v4 lib json_data = read_all
     [base_config_from_json lib json_data,
      json_at json_data ''system'' (read_system_v4 lib),
      json_at json_data ''postprocessing'' (read_postprocessing lib),
      json_at json_data ''skeleton'' (read_skeleton lib),
      json_at json_data ''camera'' (read_cameras lib)]"

text \<open>
  \<open>from_string\<close>. \<open>what\<close> is the message of the exception, if one is thrown.
\<close>

definition inline_error :: "string \<Rightarrow> world \<Rightarrow> world" where
  "inline_error msg w =
     cwipc_log CWIPC_LOG_LEVEL_ERROR ''cwipc_kinect'' (''CameraConfig '' @ ''(inline buffer) '' @ msg) w"

definition get_version :: "json_lib \<Rightarrow> json \<Rightarrow> u32 option" where
  "get_version lib j = (case json_lookup j ''version'' of None \<Rightarrow> None | Some v \<Rightarrow> to_int lib v)"

definition get_type :: "json_lib \<Rightarrow> json \<Rightarrow> string option" where
  "get_type lib j = (case json_lookup j ''type'' of None \<Rightarrow> None | Some v \<Rightarrow> to_str lib v)"

definition k4a_from_string ::
  "json_lib \<Rightarrow> (string \<Rightarrow> json option) \<Rightarrow> string \<Rightarrow> string \<Rightarrow> string \<Rightarrow> (world \<times> k4a_config) reader" where
  "k4a_from_string lib parse what jsonBuffer typeWanted s =
     (let threw = (\<lambda>(w, c). (False, inline_error ('': exception '' @ what) w, c)) in
      case parse jsonBuffer of
        None \<Rightarrow> threw s
      | Some json_data \<Rightarrow>
          (case get_version lib json_data of
             None \<Rightarrow> threw s
           | Some version \<Rightarrow>
               if version \<noteq> 5 then (False, inline_error '' is not version 5'' (fst s), snd s)
               else case get_type lib json_data of
                      None \<Rightarrow> threw s
                    | Some ty \<Rightarrow>
                        if ty \<noteq> typeWanted
                        then (False, inline_error ('' type='' @ ty @ '' but expected '' @ typeWanted) (fst s), snd s)
                        else (case k4a_from_json lib json_data s of
                                (ok, s1) \<Rightarrow> if ok then (True, s1) else threw s1)))"

definition file_error :: "cwipc_log_level \<Rightarrow> string \<Rightarrow> string \<Rightarrow> world \<Rightarrow> world" where
  "file_error level filename msg w =
     cwipc_log level ''cwipc_kinect'' (''CameraConfig '' @ filename @ msg) w"

definition k4a_from_file ::
  "json_lib \<Rightarrow> (u8 list \<Rightarrow> json option) \<Rightarrow> string \<Rightarrow> string \<Rightarrow> string \<Rightarrow> (world \<times> k4a_config) reader" where
  "k4a_from_file lib parse_bytes what filename typeWanted s =
     (let err = (\<lambda>msg (w, c). (False, file_error CWIPC_LOG_LEVEL_ERROR filename msg w, c));
          threw = err ('': exception '' @ what) in
      case files (fst s) filename of
        None \<Rightarrow> err '' not found'' s
      | Some content \<Rightarrow>
          (case parse_bytes content of
             None \<Rightarrow> threw s
           | Some json_data \<Rightarrow>
               (case get_version lib json_data of
                  None \<Rightarrow> threw s
                | Some version \<Rightarrow>
                    if version \<noteq> 3 \<and> version \<noteq> 4 \<and> version \<noteq> 5
                    then err '' ignored, is not version 3, 4 or 5'' s
                    else case get_type lib json_data of
                           None \<Rightarrow> threw s
                         | Some ty0 \<Rightarrow>
                             let offline = (ty0 = ''kinect_offline'');
                                 ty = (if offline then ''kinect_playback'' else ty0);
                                 s1 = (if offline
                                       then (file_error CWIPC_LOG_LEVEL_WARNING filename
                                         '' type kinect_offline is deprecated, changing to kinect_playback'' (fst s), snd s)
                                       else s)
                             in if ty \<noteq> typeWanted
                                then err ('' ignored, is not '' @ typeWanted @ '' but '' @ ty) s1
                                else (case (if version <s 5
                                            then (case k4a_from_json_v4 lib json_data (snd s1) of
                                                    (ok, c) \<Rightarrow> (ok, fst s1, c))
                                            else k4a_from_json lib json_data s1) of
                                        (ok, s2) \<Rightarrow> if ok then (True, s2) else threw s2))))"

section \<open>Writing\<close>

text \<open>
  The array of cameras; without any, it stays the null it was created as. \<open>playback\<close> is the type a
  camera gets in the configuration of a recording.
\<close>

fun cameras_to_json :: "string \<Rightarrow> bool \<Rightarrow> camera_config list \<Rightarrow> fault + json list" where
  "cameras_to_json playback for_recording [] = Inr []"
| "cameras_to_json playback for_recording (c # cs) =
     (case camera_to_json c Json_null of
        Inl f \<Rightarrow> Inl f
      | Inr j \<Rightarrow>
          (case (if for_recording then json_put ''type'' (Json_string playback) j else Some j) of
             None \<Rightarrow> Inl Uncaught_exception
           | Some j1 \<Rightarrow>
               (case cameras_to_json playback for_recording cs of Inl f \<Rightarrow> Inl f | Inr js \<Rightarrow> Inr (j1 # js))))"

definition json_array_of :: "json list \<Rightarrow> json" where
  "json_array_of js = (if js = [] then Json_null else Json_array js)"

definition system_members :: "bool \<Rightarrow> k4a_config \<Rightarrow> (string \<times> json) list" where
  "system_members for_recording c =
     [(''single_tile'', json_of_int (single_tile c)),
      (''record_to_directory'', Json_string (if for_recording then [] else record_to_directory c)),
      (''new_timestamps'', Json_bool (new_timestamps c)),
      (''debug'', Json_bool (cfg_debug c))]"

definition sync_members :: "k4a_sync \<Rightarrow> (string \<times> json) list" where
  "sync_members s =
     [(''sync_master_serial'', Json_string (sync_master_serial s)), (''ignore_sync'', Json_bool (ignore_sync s))]"

definition hardware_members :: "k4a_hardware \<Rightarrow> (string \<times> json) list" where
  "hardware_members h =
     [(''color_height'', json_of_int (color_height h)),
      (''depth_height'', json_of_int (depth_height h)),
      (''fps'', json_of_int (hw_fps h)),
      (''color_exposure_time'', json_of_int (color_exposure_time h)),
      (''color_whitebalance'', json_of_int (color_whitebalance h)),
      (''color_brightness'', json_of_int (color_brightness h)),
      (''color_contrast'', json_of_int (color_contrast h)),
      (''color_saturation'', json_of_int (color_saturation h)),
      (''color_sharpness'', json_of_int (color_sharpness h)),
      (''color_gain'', json_of_int (color_gain h)),
      (''color_powerline_frequency'', json_of_int (color_powerline_frequency h)),
      (''color_mjpeg'', Json_bool (color_mjpeg h))]"

definition processing_members :: "k4a_processing \<Rightarrow> (string \<times> json) list" where
  "processing_members p =
     [(''greenscreenremoval'', Json_bool (greenscreen_removal p)),
      (''depth_x_erosion'', json_of_int (depth_x_erosion p)),
      (''depth_y_erosion'', json_of_int (depth_y_erosion p)),
      (''height_min'', Json_float (height_min p)),
      (''height_max'', Json_float (height_max p)),
      (''radius_filter'', Json_float (radius_filter p))]"

definition filtering_members :: "k4a_filtering \<Rightarrow> (string \<times> json) list" where
  "filtering_members f =
     [(''do_threshold'', Json_bool (do_threshold f)),
      (''threshold_near'', Json_float (threshold_near f)),
      (''threshold_far'', Json_float (threshold_far f)),
      (''map_color_to_depth'', Json_bool (map_color_to_depth f))]"

definition skeleton_members :: "k4a_skeleton \<Rightarrow> (string \<times> json) list" where
  "skeleton_members s =
     [(''sensor_orientation'', json_of_int (bt_sensor_orientation s)),
      (''processing_mode'', json_of_int (bt_processing_mode s)),
      (''model_path'', Json_string (bt_model_path s))]"

text \<open>
  \<open>_to_json\<close>: the members in the order they are assigned. An object is built by assigning to
  a new null value, so it equals its list of members; \<open>type\<close> is assigned twice for a recording.
\<close>

definition json_object_of :: "(string \<times> json) list \<Rightarrow> json" where
  "json_object_of kvs = the (json_put_all kvs Json_null)"

definition k4a_to_json :: "bool \<Rightarrow> k4a_config \<Rightarrow> json \<Rightarrow> fault + json" where
  "k4a_to_json for_recording c json_data =
     (case cameras_to_json ''kinect_playback'' for_recording (all_camera_configs c) of
        Inl f \<Rightarrow> Inl f
      | Inr cameras \<Rightarrow>
          (case json_put_all
             ([(''type'', Json_string (cfg_type c)), (''version'', Json_int 5)]
              @ (if for_recording then [(''type'', Json_string ''kinect_playback'')] else [])
              @ [(''camera'', json_array_of cameras),
                 (''system'', json_object_of (system_members for_recording c)),
                 (''sync'', json_object_of (sync_members (sync c))),
                 (''hardware'', json_object_of (hardware_members (hardware c))),
                 (''processing'', json_object_of (processing_members (processing c))),
                 (''filtering'', json_object_of (filtering_members (filtering c))),
                 (''skeleton'', json_object_of (skeleton_members (skeleton c)))]) json_data of
             None \<Rightarrow> Inl Uncaught_exception
           | Some j \<Rightarrow> Inr j))"

definition k4a_to_string :: "(json \<Rightarrow> string) \<Rightarrow> bool \<Rightarrow> k4a_config \<Rightarrow> fault + string" where
  "k4a_to_string dump for_recording c = map_sum id dump (k4a_to_json for_recording c Json_null)"

section \<open>Reading back what was written\<close>

text \<open>A recording is written to be played back: other types, and no recording of the playback.\<close>

definition as_written :: "bool \<Rightarrow> k4a_config \<Rightarrow> k4a_config" where
  "as_written for_recording c =
     (if for_recording
      then c\<lparr>cfg_type := ''kinect_playback'', record_to_directory := [],
             all_camera_configs := map (cam_type_update (\<lambda>_. ''kinect_playback'')) (all_camera_configs c)\<rparr>
      else c)"

lemma json_object_of_distinct:
  "distinct (map fst kvs) \<Longrightarrow> kvs \<noteq> [] \<Longrightarrow> json_object_of kvs = Json_object kvs"
  by (simp add: json_object_of_def json_simps)

lemma members_objects [json_simps]:
  "json_object_of (system_members r c) = Json_object (system_members r c)"
  "json_object_of (sync_members s) = Json_object (sync_members s)"
  "json_object_of (hardware_members h) = Json_object (hardware_members h)"
  "json_object_of (processing_members p) = Json_object (processing_members p)"
  "json_object_of (filtering_members f) = Json_object (filtering_members f)"
  "json_object_of (skeleton_members k) = Json_object (skeleton_members k)"
  by (simp_all add: json_object_of_distinct system_members_def sync_members_def hardware_members_def
      processing_members_def filtering_members_def skeleton_members_def)

lemma json_lib_conversions:
  assumes "json_lib_ok lib"
  shows "to_int lib (json_of_int i) = Some i" "to_double lib (Json_float d) = Some d"
    "to_bool lib (Json_bool b) = Some b" "to_str lib (Json_string s) = Some s"
  using assms by (simp_all add: json_lib_ok_def json_of_int_def)

lemma members_read:
  assumes "json_lib_ok lib"
  shows "read_system lib (Json_object (system_members r k)) c =
      (True, c\<lparr>single_tile := single_tile k, record_to_directory := if r then [] else record_to_directory k,
               new_timestamps := new_timestamps k, cfg_debug := cfg_debug k\<rparr>)"
    and "read_sync lib (Json_object (sync_members s)) c = (True, c\<lparr>sync := s\<rparr>)"
    and "read_hardware lib (Json_object (hardware_members h)) c = (True, c\<lparr>hardware :=
           h\<lparr>color_backlight_compensation := color_backlight_compensation (hardware c)\<rparr>\<rparr>)"
    and "read_processing lib (Json_object (processing_members p)) c = (True, c\<lparr>processing := p\<rparr>)"
    and "read_filtering lib (Json_object (filtering_members f)) c = (True, c\<lparr>filtering := f\<rparr>)"
    and "read_skeleton lib (Json_object (skeleton_members b)) c = (True, c\<lparr>skeleton := b\<rparr>)"
  by (simp_all add: read_system_def read_sync_def read_hardware_def read_processing_def read_filtering_def
      read_skeleton_def system_members_def sync_members_def hardware_members_def processing_members_def
      filtering_members_def skeleton_members_def reader_then_def json_get_def json_lookup_def
      json_lib_conversions [OF assms])

lemma cameras_read:
  assumes "json_lib_ok lib" and "list_all camera_config_ok cs"
  shows "\<exists>js. cameras_to_json p r cs = Inr js \<and> (js = [] \<longleftrightarrow> cs = []) \<and>
    (\<forall>k :: 'a capture_config_scheme. read_all (map (read_camera lib) js) k =
       (True, k\<lparr>all_camera_configs := all_camera_configs k
          @ (if r then map (cam_type_update (\<lambda>_. p)) cs else cs)\<rparr>))"
  using assms(2)
proof (induction cs)
  case Nil
  then show ?case by simp
next
  case (Cons c cs)
  obtain m where m: "cam_trafo c = Some m" and ok: "camera_config_ok c"
    using Cons.prems by (auto simp: camera_config_ok_def split: option.splits)
  define c' where "c' = (if r then c\<lparr>cam_type := p\<rparr> else c)"
  have ok': "camera_config_ok c'" and m': "cam_trafo c' = Some m"
    using ok m by (simp_all add: c'_def camera_config_ok_def)
  obtain js where js: "cameras_to_json p r cs = Inr js"
    "\<And>k :: 'a capture_config_scheme. read_all (map (read_camera lib) js) k =
       (True, k\<lparr>all_camera_configs := all_camera_configs k
          @ (if r then map (cam_type_update (\<lambda>_. p)) cs else cs)\<rparr>)"
    using Cons.IH Cons.prems by auto
  have "cameras_to_json p r (c # cs) = Inr (Json_object (camera_members c' m) # js)"
    using js(1) by (cases r) (simp_all add: camera_written [OF m] camera_retyped c'_def)
  moreover have "read_all (map (read_camera lib) (Json_object (camera_members c' m) # js)) k =
       (True, k\<lparr>all_camera_configs := all_camera_configs k
          @ (if r then map (cam_type_update (\<lambda>_. p)) (c # cs) else c # cs)\<rparr>)" for k :: "'a capture_config_scheme"
    using camera_read [OF ok' m' assms(1)] js(2)
    by (cases r) (simp_all add: reader_then_def read_camera_def c'_def)
  ultimately show ?case by auto
qed

lemma k4a_written:
  assumes "json_lib_ok lib" and "list_all camera_config_ok (all_camera_configs c)"
  shows "\<exists>j. k4a_to_json r c Json_null = Inr j \<and> get_version lib j = Some 5 \<and>
    get_type lib j = Some (cfg_type (as_written r c)) \<and>
    k4a_read lib j c0 = (True, (as_written r c)\<lparr>apiDebug := apiDebug c0, hardware := (hardware c)
       \<lparr>color_backlight_compensation := color_backlight_compensation (hardware c0)\<rparr>\<rparr>)"
proof -
  obtain js where js: "cameras_to_json ''kinect_playback'' r (all_camera_configs c) = Inr js"
    "js = [] \<longleftrightarrow> all_camera_configs c = []"
    "\<And>k. read_all (map (read_camera lib) js) (k :: k4a_config) =
       (True, k\<lparr>all_camera_configs := all_camera_configs k
          @ (if r then map (cam_type_update (\<lambda>_. ''kinect_playback'')) (all_camera_configs c)
             else all_camera_configs c)\<rparr>)"
    using cameras_read [OF assms] by blast
  define ty where "ty = (if r then ''kinect_playback'' else cfg_type c)"
  define kvs where "kvs = [(''type'', Json_string ty), (''version'', Json_int 5),
     (''camera'', json_array_of js), (''system'', Json_object (system_members r c)),
     (''sync'', Json_object (sync_members (sync c))), (''hardware'', Json_object (hardware_members (hardware c))),
     (''processing'', Json_object (processing_members (processing c))),
     (''filtering'', Json_object (filtering_members (filtering c))),
     (''skeleton'', Json_object (skeleton_members (skeleton c)))]"
  have w: "k4a_to_json r c Json_null = Inr (Json_object kvs)"
    by (simp add: k4a_to_json_def js(1) members_objects json_put_def kvs_def ty_def)
  have e: "json_elements (json_array_of js) = js"
    by (simp add: json_elements_def json_array_of_def)
  have five: "to_int lib (Json_int 5) = Some 5"
    using json_lib_conversions(1) [OF assms(1), of 5] by (simp add: json_of_int_def)
  have "k4a_read lib (Json_object kvs) c0 = (True, (as_written r c)\<lparr>apiDebug := apiDebug c0, hardware := (hardware c)
       \<lparr>color_backlight_compensation := color_backlight_compensation (hardware c0)\<rparr>\<rparr>)"
    by (simp add: k4a_read_def base_config_from_json_def read_cameras_def kvs_def ty_def as_written_def
        reader_then_def json_at_def json_if_contains_def json_at_get_def json_lookup_def e js(3)
        members_read [OF assms(1)] json_lib_conversions [OF assms(1)])
  then show ?thesis
    using w five
    by (simp add: get_version_def get_type_def json_lookup_def kvs_def ty_def as_written_def
        json_lib_conversions [OF assms(1)])
qed

section \<open>Properties\<close>


text \<open>
  A concrete library and configuration for the witnesses: each value is only read as what it is.
\<close>

definition sample_lib :: json_lib where
  "sample_lib = \<lparr>to_int = (\<lambda>j. case j of Json_int i \<Rightarrow> Some (word_of_int i) | _ \<Rightarrow> None),
     to_double = (\<lambda>j. case j of Json_float d \<Rightarrow> Some d | _ \<Rightarrow> None),
     to_bool = (\<lambda>j. case j of Json_bool b \<Rightarrow> Some b | _ \<Rightarrow> None),
     to_str = (\<lambda>j. case j of Json_string s \<Rightarrow> Some s | _ \<Rightarrow> None)\<rparr>"

lemma sample_lib_ok: "json_lib_ok sample_lib"
  by (simp add: json_lib_ok_def sample_lib_def)

definition sample_camera :: camera_config where
  "sample_camera = new_camera_config\<lparr>cam_type := ''kinect'', cam_serial := ''0001'',
     cam_trafo := Some identity_trafo, cam_position := position_of_trafo identity_trafo\<rparr>"

lemma sample_camera_ok: "camera_config_ok sample_camera"
  by (simp add: camera_config_ok_def sample_camera_def new_camera_config_def matrix44_def identity_trafo_def)

definition sample_config :: k4a_config where
  "sample_config = new_k4a_config\<lparr>cfg_type := ''kinect'', all_camera_configs := [sample_camera],
     record_to_directory := ''rec'', single_tile := 3\<rparr>"


text \<open>
  A text that is not JSON, is of another version or is meant for another capturer is refused,
  with an error that says so, and the configuration is not touched.
\<close>

theorem k4a_config_refused:
  assumes "case parse text_s of None \<Rightarrow> True
    | Some j \<Rightarrow> get_version lib j \<noteq> Some 5 \<or> get_type lib j \<noteq> Some typeWanted"
  shows "\<exists>msg. k4a_from_string lib parse what text_s typeWanted (w, c) = (False, inline_error msg w, c)"
  using assms
  by (auto simp: k4a_from_string_def Let_def split: option.splits)

theorem k4a_config_refused_witness:
  "\<exists>msg. k4a_from_string sample_lib (\<lambda>_. Some (Json_object [(''version'', Json_int 5),
      (''type'', Json_string ''realsense'')])) [] ''{}'' ''kinect'' (world_init None 0, sample_config) =
    (False, inline_error msg (world_init None 0), sample_config)"
  by (rule k4a_config_refused) (simp add: get_version_def get_type_def json_lookup_def sample_lib_def)

text \<open>
  A text that passes these tests and then throws is another matter: the attributes read before the
  exception stay changed. Here the hardware settings are replaced and the cameras are gone.
\<close>

lemma k4a_config_half_read:
  "snd (snd (k4a_from_string sample_lib (\<lambda>_. Some (Json_object [(''version'', Json_int 5),
      (''type'', Json_string ''kinect''), (''system'', Json_object []),
      (''hardware'', Json_object [(''fps'', Json_int 5)]),
      (''camera'', Json_array [Json_null])])) [] ''{}'' ''kinect'' (world_init None 0, sample_config))) =
    sample_config\<lparr>hardware := new_k4a_hardware\<lparr>hw_fps := 5\<rparr>, all_camera_configs := []\<rparr>"
  by (simp add: k4a_from_string_def get_version_def get_type_def k4a_from_json_def k4a_read_def
      base_config_from_json_def read_system_def read_hardware_def read_cameras_def read_camera_def
      camera_from_json_def json_elements_def json_at_def json_if_contains_def json_at_get_def json_get_def
      json_lookup_def reader_then_def sample_lib_def sample_config_def new_k4a_config_def new_k4a_hardware_def)

end
