(* ===== verification/KinectCapture.thy ===== *)
theory KinectCapture
  imports KinectConfig Capturer
begin

text \<open>
  \<open>cwipc_kinect/src/K4ABaseCapture.hpp\<close> and \<open>K4ACapture.cpp\<close>: the capturer for live Kinect
  cameras, everything but its control thread (theory \<open>KinectThread\<close>). The camera library is
  outside: what its calls return is an argument of the operation that makes them. A camera is
  known to the capturer by what it reads of it and by the calls it makes on it.
\<close>

section \<open>State\<close>

text \<open>
  A camera object is built from the configuration at its own index, whatever device it was
  opened for; \<open>camera_device\<close> is the serial number of that device. No code assigns
  \<open>pointSize\<close>.
\<close>

record camera =
  camera_index :: nat
  camera_serial :: string
  camera_device :: string
  sync_master :: bool
  camera_pointSize :: f32
  end_of_stream_reached :: bool
  current_pcl_pointcloud :: "pcl_point list option"

datatype camera_call =
    Pre_start_all | Start_camera | Post_start_all | Start_streaming | Pre_stop | Stop_camera | Delete_camera

record metadata_wants =
  want_rgb :: bool
  want_depth :: bool
  want_skeleton :: bool
  want_camera_specs :: bool

text \<open>
  Where the control thread is. \<open>Ct_before_block\<close> is inside \<open>wait\<close>, after the predicate was found
  false and before the mutex is released; in \<open>Ct_blocked\<close> only a notification (or a spurious
  wake-up) lets it go on.
\<close>

datatype control_at =
    Ct_begin
  | Ct_test
  | Ct_predicate
  | Ct_before_block
  | Ct_blocked
  | Ct_eof_check
  | Ct_capture
  | Ct_captured u64
  | Ct_new cwipc_obj
  | Ct_queued cwipc_obj
  | Ct_lock cwipc_obj
  | Ct_published
  | Ct_waiting
  | Ct_merge
  | Ct_exit
  | Ct_done

record capture =
  configuration :: k4a_config
  metadata_config :: metadata_wants
  configurationCurrentFilename :: string
  cameras :: "camera list"
  is_initialized :: bool
  stopped :: bool
  capture_eof :: bool
  mergedPC :: "cwipc_obj option"
  mergedPC_is_fresh :: bool
  mergedPC_want_new :: bool
  control_thread :: "control_at option"      \<comment> \<open>null, or the thread and where it is\<close>
  camera_calls :: "(camera_call \<times> nat) list" \<comment> \<open>calls made, with the position of the camera\<close>
  k4a_logger :: bool                          \<comment> \<open>is our callback installed\<close>
  k4a_stdout_env :: "string option"           \<comment> \<open>\<open>K4A_ENABLE_LOG_TO_STDOUT\<close>\<close>

definition new_capture :: capture where
  "new_capture = \<lparr>configuration = new_k4a_config,
     metadata_config = \<lparr>want_rgb = False, want_depth = False, want_skeleton = False, want_camera_specs = False\<rparr>,
     configurationCurrentFilename = [], cameras = [], is_initialized = False, stopped = False,
     capture_eof = False, mergedPC = None, mergedPC_is_fresh = False, mergedPC_want_new = False,
     control_thread = None, camera_calls = [], k4a_logger = False, k4a_stdout_env = None\<rparr>"

type_synonym kstate = "world \<times> capture"

definition k_log :: "cwipc_log_level \<Rightarrow> string \<Rightarrow> world \<Rightarrow> world" where
  "k_log level message w = cwipc_log level ''K4ACapture'' message w"

definition k_log_debug :: "capture \<Rightarrow> string \<Rightarrow> world \<Rightarrow> world" where
  "k_log_debug k message w =
     (if cfg_debug (configuration k) then k_log CWIPC_LOG_LEVEL_DEBUG message w else w)"

text \<open>A loop that makes one call on every camera that satisfies a test.\<close>

definition calls_on :: "camera_call \<Rightarrow> (camera \<Rightarrow> bool) \<Rightarrow> camera list \<Rightarrow> (camera_call \<times> nat) list" where
  "calls_on f P cams = map (Pair f) (filter (\<lambda>i. P (cams ! i)) [0..<length cams])"

definition call_cameras :: "camera_call \<Rightarrow> (camera \<Rightarrow> bool) \<Rightarrow> capture \<Rightarrow> capture" where
  "call_cameras f P k = k\<lparr>camera_calls := camera_calls k @ calls_on f P (cameras k)\<rparr>"

section \<open>The library's log\<close>

text \<open>\<open>_k4a_message_cb\<close>; the library's levels are 0 (critical) to 4 (trace).\<close>

definition k4a_message_cb :: "int \<Rightarrow> string \<Rightarrow> int \<Rightarrow> string \<Rightarrow> world \<Rightarrow> world" where
  "k4a_message_cb level fl line message w =
     (let (kinect_level, cwipc_level) =
        (if level = 0 then (''(critical): '', CWIPC_LOG_LEVEL_ERROR)
         else if level = 1 then ([], CWIPC_LOG_LEVEL_ERROR)
         else if level = 2 then ([], CWIPC_LOG_LEVEL_WARNING)
         else if level = 3 then ([], CWIPC_LOG_LEVEL_TRACE)
         else if level = 4 then ([], CWIPC_LOG_LEVEL_DEBUG)
         else (''(unknown-k4a-level): '', CWIPC_LOG_LEVEL_WARNING))
      in cwipc_log cwipc_level ''kinect_sdk'' (kinect_level @ fl @ '':'' @ to_string line @ '': '' @ message) w)"

definition install_k4a_logger :: "capture \<Rightarrow> capture" where
  "install_k4a_logger k = k\<lparr>k4a_logger := True\<rparr>"

definition uninstall_k4a_logger :: "capture \<Rightarrow> capture" where
  "uninstall_k4a_logger k = k\<lparr>k4a_logger := False\<rparr>"

section \<open>Small methods\<close>

definition can_start :: "capture \<Rightarrow> bool" where "can_start k = is_initialized k"

definition is_playing :: "capture \<Rightarrow> bool" where "is_playing k = (control_thread k \<noteq> None)"

definition get_camera_count :: "capture \<Rightarrow> int" where
  "get_camera_count k = int_of_size (size_of_nat (length (cameras k)))"

definition k_eof :: "capture \<Rightarrow> bool" where "k_eof k = capture_eof k"

definition k_seek :: "u64 \<Rightarrow> capture \<Rightarrow> bool" where "k_seek timestamp k = False"

definition k_request_metadata :: "bool \<Rightarrow> bool \<Rightarrow> bool \<Rightarrow> bool \<Rightarrow> bool \<Rightarrow> capture \<Rightarrow> capture" where
  "k_request_metadata rgb depth timestamps skeleton_b camera_specs k =
     k\<lparr>metadata_config := \<lparr>want_rgb = rgb, want_depth = depth, want_skeleton = skeleton_b,
         want_camera_specs = camera_specs\<rparr>\<rparr>"

text \<open>99999 and 9999.\<close>

definition f32_99999 :: f32 where "f32_99999 = 0x47C34F80"
definition f32_9999 :: f32 where "f32_9999 = 0x461C3C00"

definition get_pointSize :: "capture \<Rightarrow> f32" where
  "get_pointSize k =
     (if \<not> is_playing k then f32_zero
      else let rv = foldl (\<lambda>rv cam. if f32_lt (camera_pointSize cam) rv then camera_pointSize cam else rv)
                      f32_99999 (cameras k)
           in if f32_lt f32_9999 rv then f32_zero else rv)"

text \<open>\<open>1 << camera_index\<close> as an \<open>int\<close>; what the camera's own method returns is \<open>result\<close>.\<close>

definition map2d3d :: "(camera \<Rightarrow> 'r option) \<Rightarrow> int \<Rightarrow> capture \<Rightarrow> 'r option" where
  "map2d3d result tile k =
     (case find (\<lambda>cam. word_of_int tile = (push_bit (camera_index cam) 1 :: u32)) (cameras k) of
        Some cam \<Rightarrow> result cam
      | None \<Rightarrow> None)"

definition mapcolordepth :: "int \<Rightarrow> int \<Rightarrow> int \<Rightarrow> bool \<times> int \<times> int" where
  "mapcolordepth tile u v = (True, u, v)"

definition get_camera_config :: "string \<Rightarrow> capture \<Rightarrow> world \<Rightarrow> nat option \<times> world" where
  "get_camera_config serial k w =
     (case find (\<lambda>i. cam_serial (all_camera_configs (configuration k) ! i) = serial)
             [0..<length (all_camera_configs (configuration k))] of
        Some i \<Rightarrow> (Some i, w)
      | None \<Rightarrow> (None, k_log CWIPC_LOG_LEVEL_WARNING (''Unknown camera '' @ serial) w))"

section \<open>Stopping\<close>

text \<open>
  \<open>_post_stop_all_cameras\<close>: the configuration of a recording. A file that cannot be opened is
  not noticed; \<open>endl\<close> ends the text with a newline.
\<close>

definition post_stop_all_cameras :: "(json \<Rightarrow> string) \<Rightarrow> (string \<Rightarrow> u8 list) \<Rightarrow> kstate \<Rightarrow> fault + kstate" where
  "post_stop_all_cameras dump bytes s =
     (case s of (w, k) \<Rightarrow>
        let dir = record_to_directory (configuration k) in
        if dir = [] then Inr s
        else case k4a_to_string dump True (configuration k) of
               Inl f \<Rightarrow> Inl f
             | Inr recording_config \<Rightarrow>
                 Inr (w\<lparr>files := (files w)(dir @ ''/'' @ ''cameraconfig.json'' \<mapsto>
                          bytes (recording_config @ [CHR 0x0A]))\<rparr>, k))"

text \<open>
  \<open>_stop_cameras\<close> in three parts: the flags and the first notification (of clients that wait for a
  cloud), the second notification, and everything from the join on. A notification of
  \<open>mergedPC_want_new_cv\<close> wakes a control thread that is blocked, and no other.
\<close>

definition notify_want_new :: "capture \<Rightarrow> capture" where
  "notify_want_new k =
     (if control_thread k = Some Ct_blocked then k\<lparr>control_thread := Some Ct_predicate\<rparr> else k)"

definition stop_begin :: "capture \<Rightarrow> capture" where
  "stop_begin k =
     (if cameras k = [] then k
      else k\<lparr>stopped := True, mergedPC_is_fresh := True, mergedPC_want_new := False\<rparr>)"

definition stop_notify :: "kstate \<Rightarrow> kstate" where
  "stop_notify s =
     (case s of (w, k) \<Rightarrow>
        if cameras k = [] then s
        else (k_log_debug k ''stopping all cameras'' w, notify_want_new (k\<lparr>mergedPC_want_new := True\<rparr>)))"

definition stop_joined :: "(json \<Rightarrow> string) \<Rightarrow> (string \<Rightarrow> u8 list) \<Rightarrow> kstate \<Rightarrow> fault + kstate" where
  "stop_joined dump bytes s =
     (case s of (w, k) \<Rightarrow>
        if cameras k = [] then Inr s
        else
          let k1 = call_cameras Stop_camera (\<lambda>_. True)
                     (call_cameras Pre_stop (\<lambda>_. True) (k\<lparr>control_thread := None\<rparr>))
          in case post_stop_all_cameras dump bytes (w, k1) of
               Inl f \<Rightarrow> Inl f
             | Inr (w2, k2) \<Rightarrow>
                 let k3 = k2\<lparr>mergedPC_is_fresh := False, mergedPC_want_new := False\<rparr>;
                     w3 = k_log_debug k3 ''stopped all cameras'' w2;
                     k4 = (call_cameras Delete_camera (\<lambda>_. True) k3)\<lparr>cameras := []\<rparr>
                 in Inr (k_log_debug k4 ''deleted all cameras'' w3, k4))"

text \<open>\<open>_unload_cameras\<close> where no control thread exists, so nothing is waited for.\<close>

definition unload_cameras :: "(json \<Rightarrow> string) \<Rightarrow> (string \<Rightarrow> u8 list) \<Rightarrow> kstate \<Rightarrow> fault + kstate" where
  "unload_cameras dump bytes s =
     (case s of (w, k) \<Rightarrow> stop_joined dump bytes (stop_notify (w, stop_begin k)))"

section \<open>Configuration\<close>

text \<open>What the JSON library does, and the text of the exception it throws, if any.\<close>

record config_io =
  cio_lib :: json_lib
  cio_parse :: "string \<Rightarrow> json option"
  cio_parse_bytes :: "u8 list \<Rightarrow> json option"
  cio_what :: string

text \<open>A connected device: can it be opened, and its serial number if that can be read.\<close>

record k4a_device =
  dev_opens :: bool
  dev_serial :: "string option"

definition auto_camera_config :: "string \<Rightarrow> camera_config" where
  "auto_camera_config serial = new_camera_config\<lparr>cam_type := ''kinect'', cam_serial := serial,
     cam_trafo := Some identity_trafo, cam_position := (0, 0, 0)\<rparr>"

text \<open>The loop of \<open>_apply_auto_config\<close>; the first component is \<open>any_failure\<close>.\<close>

fun auto_config_loop :: "k4a_device list \<Rightarrow> bool \<times> kstate \<Rightarrow> bool \<times> kstate" where
  "auto_config_loop [] s = s"
| "auto_config_loop (d # ds) (any_failure, w, k) =
     (if \<not> dev_opens d
      then auto_config_loop ds (True, k_log CWIPC_LOG_LEVEL_ERROR ''k4a_device_open failed'' w, k)
      else case dev_serial d of
             None \<Rightarrow> auto_config_loop ds
               (True, k_log CWIPC_LOG_LEVEL_ERROR ''k4a_device_get_serialnum failed'' w, k)
           | Some serial \<Rightarrow> auto_config_loop ds
               (any_failure, w, k\<lparr>configuration := configuration k
                  \<lparr>all_camera_configs := all_camera_configs (configuration k) @ [auto_camera_config serial]\<rparr>\<rparr>))"

definition apply_auto_config ::
  "(json \<Rightarrow> string) \<Rightarrow> (string \<Rightarrow> u8 list) \<Rightarrow> k4a_device list \<Rightarrow> kstate \<Rightarrow> fault + bool \<times> kstate" where
  "apply_auto_config dump bytes devices_l s =
     (case auto_config_loop devices_l (False, s) of
        (any_failure, w, k) \<Rightarrow>
          if any_failure
          then map_sum id (Pair False) (unload_cameras dump bytes (w, k))
          else if all_camera_configs (configuration k) = []
          then Inr (False, k_log CWIPC_LOG_LEVEL_ERROR ''no cameras found during auto-configuration'' w, k)
          else Inr (True, w, k))"

text \<open>Running a reader of the configuration on the capturer.\<close>

definition on_configuration :: "(world \<times> k4a_config) reader \<Rightarrow> kstate \<Rightarrow> bool \<times> kstate" where
  "on_configuration rd s =
     (case s of (w, k) \<Rightarrow>
        case rd (w, configuration k) of (ok, w1, c) \<Rightarrow> (ok, w1, k\<lparr>configuration := c\<rparr>))"

definition apply_config ::
  "config_io \<Rightarrow> (json \<Rightarrow> string) \<Rightarrow> (string \<Rightarrow> u8 list) \<Rightarrow> k4a_device list \<Rightarrow> string option \<Rightarrow> kstate
   \<Rightarrow> fault + bool \<times> kstate" where
  "apply_config io dump bytes devices_l configFilename s =
     (case s of (w, k) \<Rightarrow>
      let name = (case configFilename of
                    None \<Rightarrow> ''cameraconfig.json''
                  | Some n \<Rightarrow> if n = [] then ''cameraconfig.json'' else n);
          k1 = k\<lparr>configurationCurrentFilename := name\<rparr>;
          k2 = k\<lparr>configurationCurrentFilename := []\<rparr>
      in if name = ''auto'' then apply_auto_config dump bytes devices_l (w, k2)
         else if hd name = CHR ''{''
         then Inr (on_configuration (k4a_from_string (cio_lib io) (cio_parse io) (cio_what io) name ''kinect'') (w, k2))
         else if strrchr_dot name = Some ''.json''
         then Inr (on_configuration
                (k4a_from_file (cio_lib io) (cio_parse_bytes io) (cio_what io) name ''kinect'') (w, k1))
         else Inr (False, k_log CWIPC_LOG_LEVEL_ERROR
                (''Unknown configuration file type: '' @ [CHR 0x27] @ name @ [CHR 0x27]) w, k1))"

text \<open>\<open>putenv\<close> gives the library's environment variable a value when it has none.\<close>

definition putenv_k4a :: "capture \<Rightarrow> capture" where
  "putenv_k4a k = (if k4a_stdout_env k = None then k\<lparr>k4a_stdout_env := Some ''0''\<rparr> else k)"

text \<open>The rest of \<open>config_reload\<close>, after a configuration was read.\<close>

definition reload_finish :: "kstate \<Rightarrow> bool \<times> kstate" where
  "reload_finish s =
     (case s of (w1, k1) \<Rightarrow>
      let w2 = snd (cwipc_log_get_level w1);
          k2 = (if CWIPC_LOG_LEVEL_DEBUG \<le> fst (cwipc_log_get_level w1)
                then k1\<lparr>configuration := (configuration k1)\<lparr>cfg_debug := True\<rparr>\<rparr> else k1);
          k3 = (if apiDebug (configuration k2) then install_k4a_logger k2 else uninstall_k4a_logger k2);
          some_camera = (all_camera_configs (configuration k3) \<noteq> [])
      in (some_camera, w2, k3\<lparr>is_initialized := some_camera\<rparr>))"

definition config_reload ::
  "config_io \<Rightarrow> (json \<Rightarrow> string) \<Rightarrow> (string \<Rightarrow> u8 list) \<Rightarrow> k4a_device list \<Rightarrow> string option \<Rightarrow> kstate
   \<Rightarrow> fault + bool \<times> kstate" where
  "config_reload io dump bytes devices_l configFilename s =
     (case s of (w, k) \<Rightarrow>
      if control_thread k \<noteq> None
      then Inr (False, k_log CWIPC_LOG_LEVEL_ERROR
             ''config_reload: cannot reload configuration while capturer is running'' w, k)
      else case apply_config io dump bytes devices_l configFilename (w, putenv_k4a k) of
             Inl f \<Rightarrow> Inl f
           | Inr (ok, w1, k1) \<Rightarrow>
               Inr (if ok then reload_finish (w1, k1) else (False, w1, k1\<lparr>is_initialized := False\<rparr>)))"

text \<open>
  \<open>config_reload_fast\<close> takes over the processing settings and, when the number of cameras is the
  same, where they are. The error messages build a \<open>std::string\<close> from the name, which must not
  be null.
\<close>

definition copy_trafos :: "camera_config list \<Rightarrow> camera_config list \<Rightarrow> camera_config list" where
  "copy_trafos old new =
     map2 (\<lambda>o_c n_c. o_c\<lparr>cam_trafo := cam_trafo n_c, cam_position := cam_position n_c\<rparr>) old new"

definition fast_reload_error :: "string \<Rightarrow> string \<Rightarrow> world \<Rightarrow> world" where
  "fast_reload_error what name w =
     k_log CWIPC_LOG_LEVEL_ERROR
       (''Invalid configuration for fast reload (Kinect) ('' @ what @ ''): '' @ [CHR 0x27] @ name @ [CHR 0x27]) w"

definition read_new_configuration :: "config_io \<Rightarrow> string \<Rightarrow> world \<Rightarrow> bool \<times> world \<times> k4a_config" where
  "read_new_configuration io name w =
     (if name \<noteq> [] \<and> hd name = CHR ''{''
      then k4a_from_string (cio_lib io) (cio_parse io) (cio_what io) name ''kinect'' (w, new_k4a_config)
      else if strrchr_dot name = Some ''.json''
      then k4a_from_file (cio_lib io) (cio_parse_bytes io) (cio_what io) name ''kinect'' (w, new_k4a_config)
      else (False, w, new_k4a_config))"

definition config_reload_fast :: "config_io \<Rightarrow> string option \<Rightarrow> kstate \<Rightarrow> fault + bool \<times> kstate" where
  "config_reload_fast io configFilename s =
     (case s of (w, k) \<Rightarrow>
      let k1 = putenv_k4a k in
      case configFilename of
        None \<Rightarrow> Inl Null_deref
      | Some name \<Rightarrow>
          (case read_new_configuration io name w of
             (success, w1, new_configuration) \<Rightarrow>
               if \<not> success
               then Inr (False, fast_reload_error ''either not file or invalid JSON'' name w1, k1)
               else
                 let c = (configuration k1)\<lparr>processing := processing new_configuration\<rparr>;
                     old = all_camera_configs c; new = all_camera_configs new_configuration
                 in if length old = length new
                    then Inr (True, w1, k1\<lparr>configuration := c\<lparr>all_camera_configs := copy_trafos old new\<rparr>\<rparr>)
                    else Inr (True, fast_reload_error ''size of cameras changed'' name w1,
                              k1\<lparr>configuration := c\<rparr>)))"

text \<open>The hardware parameters are those the first camera reports.\<close>

definition k_config_get :: "(json \<Rightarrow> string) \<Rightarrow> k4a_hardware \<Rightarrow> kstate \<Rightarrow> fault + string \<times> kstate" where
  "k_config_get dump curHardwareConfig s =
     (case s of (w, k) \<Rightarrow>
      if cameras k = [] then Inr ([], k_log CWIPC_LOG_LEVEL_ERROR ''Must start() before getting config'' w, k)
      else let k1 = k\<lparr>configuration := (configuration k)\<lparr>hardware := curHardwareConfig\<rparr>\<rparr>
           in case k4a_to_string dump False (configuration k1) of
                Inl f \<Rightarrow> Inl f
              | Inr text_s \<Rightarrow> Inr (text_s, w, k1))"

section \<open>Creating the cameras\<close>

text \<open>
  \<open>_create_single_camera\<close> and the constructors of \<open>K4ACamera\<close> and \<open>K4ABaseCamera\<close>: the serial number,
  the settings and the synchronisation role are those of entry \<open>camera_index\<close> of the
  configuration.
\<close>

definition create_single_camera :: "string \<Rightarrow> nat \<Rightarrow> capture \<Rightarrow> fault + camera" where
  "create_single_camera device index k =
     (let cfgs = all_camera_configs (configuration k) in
      if \<not> index < length cfgs then Inl Out_of_bounds
      else let serial = cam_serial (cfgs ! index)
           in Inr \<lparr>camera_index = index, camera_serial = serial, camera_device = device,
                sync_master = (serial = sync_master_serial (sync (configuration k))),
                camera_pointSize = f32_zero, end_of_stream_reached = False, current_pcl_pointcloud = None\<rparr>)"

definition set_connected :: "nat \<Rightarrow> capture \<Rightarrow> capture" where
  "set_connected i k =
     (let c = configuration k; cfgs = all_camera_configs c
      in k\<lparr>configuration := c\<lparr>all_camera_configs := cfgs[i := (cfgs ! i)\<lparr>cam_connected := True\<rparr>]\<rparr>\<rparr>)"

definition k_error :: "string \<Rightarrow> kstate \<Rightarrow> fault + bool \<times> kstate" where
  "k_error msg s = Inr (False, k_log CWIPC_LOG_LEVEL_ERROR msg (fst s), snd s)"

fun create_cameras :: "k4a_device list \<Rightarrow> kstate \<Rightarrow> fault + bool \<times> kstate" where
  "create_cameras [] s = Inr (True, s)"
| "create_cameras (d # ds) (w, k) =
     (if \<not> dev_opens d then k_error ''k4a_device_open failed'' (w, k)
      else case dev_serial d of
        None \<Rightarrow> k_error ''k4a_device_get_serialnum failed'' (w, k)
      | Some serial \<Rightarrow>
          (case get_camera_config serial k w of
             (None, w1) \<Rightarrow>
               k_error (''Camera with serial '' @ serial @ '' is connected but not in configuration'') (w1, k)
           | (Some i, w1) \<Rightarrow>
               let cd = all_camera_configs (configuration k) ! i in
               if cam_type cd \<noteq> ''kinect''
               then k_error (''configuration: camera with serial '' @ cam_serial cd @ '' is type '' @ cam_type cd
                             @ '' instead of kinect'') (w1, k)
               else if cam_disabled cd then create_cameras ds (w1, k)
               else case create_single_camera serial (length (cameras k)) k of
                      Inl f \<Rightarrow> Inl f
                    | Inr cam \<Rightarrow> create_cameras ds (w1, set_connected i (k\<lparr>cameras := cameras k @ [cam]\<rparr>))))"

definition check_cameras_connected :: "kstate \<Rightarrow> bool \<times> kstate" where
  "check_cameras_connected s =
     (case s of (w, k) \<Rightarrow>
        case find (\<lambda>cd. \<not> cam_connected cd \<and> \<not> cam_disabled cd) (all_camera_configs (configuration k)) of
          Some cd \<Rightarrow> (False, k_log CWIPC_LOG_LEVEL_WARNING
                       (''Camera with serial '' @ cam_serial cd @ '' is not connected'') w, k)
        | None \<Rightarrow> (True, s))"

section \<open>Starting\<close>

text \<open>
  \<open>_start_cameras\<close>; \<open>pre_ok\<close> and \<open>start_ok\<close> are what the cameras' methods return, by position.
  All cameras are told of the start; only when all agree are they started, masters last.
\<close>

definition start_cameras :: "(nat \<Rightarrow> bool) \<Rightarrow> (nat \<Rightarrow> bool) \<Rightarrow> kstate \<Rightarrow> bool \<times> kstate" where
  "start_cameras pre_ok start_ok s =
     (case s of (w, k) \<Rightarrow>
      let is = [0..<length (cameras k)];
          slave = (\<lambda>cam. \<not> sync_master cam);
          k1 = call_cameras Pre_start_all (\<lambda>_. True) k;
          start_error = (\<exists>i \<in> set is. \<not> pre_ok i);
          k2 = (if start_error then k1
                else call_cameras Start_camera sync_master (call_cameras Start_camera slave k1));
          start_error = (start_error \<or> (\<exists>i \<in> set is. \<not> start_ok i))
      in if start_error
         then (False, k_log CWIPC_LOG_LEVEL_ERROR ''Not all cameras could be started'' w, k2)
         else (True, w,
               call_cameras Post_start_all (\<lambda>_. True)
                 (call_cameras Start_streaming sync_master
                   (call_cameras Start_streaming slave
                     (call_cameras Post_start_all (\<lambda>_. True) k2)))))"

text \<open>
  \<open>start\<close>. The initialisation of the hardware and of the synchronisation does nothing for Kinect
  cameras. The result of \<open>_start_cameras\<close> is not used.
\<close>

definition k_start ::
  "(json \<Rightarrow> string) \<Rightarrow> (string \<Rightarrow> u8 list) \<Rightarrow> k4a_device list \<Rightarrow> (nat \<Rightarrow> bool) \<Rightarrow> (nat \<Rightarrow> bool) \<Rightarrow> kstate
   \<Rightarrow> fault + bool \<times> kstate" where
  "k_start dump bytes devices_l pre_ok start_ok s =
     (case s of (w, k) \<Rightarrow>
      if \<not> can_start k then k_error ''start() called but not valid()'' s
      else if is_playing k
      then Inr (False, k_log CWIPC_LOG_LEVEL_WARNING ''start() called but already started'' w, k)
      else case create_cameras devices_l s of
        Inl f \<Rightarrow> Inl f
      | Inr (created, s1) \<Rightarrow>
          if \<not> created then map_sum id (Pair False) (unload_cameras dump bytes s1)
          else case check_cameras_connected s1 of
            (connected, s2) \<Rightarrow>
              if \<not> connected then map_sum id (Pair False) (unload_cameras dump bytes s2)
              else case start_cameras pre_ok start_ok s2 of
                (_, w3, k3) \<Rightarrow> Inr (True, w3, k3\<lparr>stopped := False, control_thread := Some Ct_begin\<rparr>))"

section \<open>Fast reload\<close>

text \<open>A camera configuration without what \<open>config_reload_fast\<close> may change.\<close>

definition placeless :: "camera_config \<Rightarrow> camera_config" where
  "placeless c = c\<lparr>cam_trafo := None, cam_position := (0, 0, 0)\<rparr>"

lemma placeless_copy: "length old = length new \<Longrightarrow> map placeless (copy_trafos old new) = map placeless old"
  by (rule nth_equalityI) (simp_all add: copy_trafos_def placeless_def)

text \<open>
  A fast reload never touches anything that would need a restart: whatever the text it is given,
  of the capturer's state only the processing settings and the cameras' placement can differ
  afterwards (the cameras, the running thread, the hardware and synchronisation settings and the
  number and identity of the cameras stay), and nothing differs when it reports failure.
\<close>

theorem kinect_fast_reload_scope:
  assumes "config_reload_fast io f (w, k) = Inr (ok, w', k')"
  shows "k' = (putenv_k4a k)\<lparr>configuration := configuration k'\<rparr> \<and>
    configuration k' = (configuration k)\<lparr>processing := processing (configuration k'),
           all_camera_configs := all_camera_configs (configuration k')\<rparr> \<and>
    map placeless (all_camera_configs (configuration k')) = map placeless (all_camera_configs (configuration k)) \<and>
    (\<not> ok \<longrightarrow> configuration k' = configuration k)"
proof -
  obtain name where f: "f = Some name"
    using assms by (cases f) (simp_all add: config_reload_fast_def Let_def)
  obtain success w1 c where r: "read_new_configuration io name w = (success, w1, c)" by (metis prod.exhaust)
  have e: "configuration (putenv_k4a k) = configuration k" by (simp add: putenv_k4a_def)
  define b where "b = (configuration k)\<lparr>processing := processing c\<rparr>"
  define n where "n = all_camera_configs c"
  have "(ok, k') = (if \<not> success then (False, putenv_k4a k)
      else if length (all_camera_configs b) = length n
      then (True, (putenv_k4a k)\<lparr>configuration := b\<lparr>all_camera_configs := copy_trafos (all_camera_configs b) n\<rparr>\<rparr>)
      else (True, (putenv_k4a k)\<lparr>configuration := b\<rparr>))"
    using assms by (auto simp: config_reload_fast_def f r e Let_def b_def n_def split: if_splits)
  then consider "\<not> ok" "k' = putenv_k4a k"
    | "ok" "length (all_camera_configs b) = length n"
      "k' = (putenv_k4a k)\<lparr>configuration := b\<lparr>all_camera_configs := copy_trafos (all_camera_configs b) n\<rparr>\<rparr>"
    | "ok" "k' = (putenv_k4a k)\<lparr>configuration := b\<rparr>"
    by (auto split: if_splits)
  then show ?thesis
    by cases (simp_all add: e b_def placeless_copy)
qed

definition sample_capture :: capture where
  "sample_capture = new_capture\<lparr>configuration := sample_config\<rparr>"

definition sample_io :: config_io where
  "sample_io = \<lparr>cio_lib = sample_lib, cio_parse = (\<lambda>_. Some (Json_object [(''version'', Json_int 5),
      (''type'', Json_string ''kinect''), (''system'', Json_object []),
      (''processing'', Json_object [(''depth_x_erosion'', Json_int 2)]),
      (''camera'', Json_array [Json_object [(''type'', Json_string ''kinect'')]])])),
     cio_parse_bytes = (\<lambda>_. None), cio_what = []\<rparr>"

theorem kinect_fast_reload_scope_witness:
  "\<exists>w' k'. config_reload_fast sample_io (Some ''{}'') (world_init None 0, sample_capture) = Inr (True, w', k') \<and>
     map placeless (all_camera_configs (configuration k')) = [placeless sample_camera] \<and>
     depth_x_erosion (processing (configuration k')) = 2"
proof -
  have "case config_reload_fast sample_io (Some ''{}'') (world_init None 0, sample_capture) of
      Inr (ok, w', k') \<Rightarrow> ok \<and> depth_x_erosion (processing (configuration k')) = 2 | _ \<Rightarrow> False"
    by code_simp
  then obtain w' k' where r: "config_reload_fast sample_io (Some ''{}'') (world_init None 0, sample_capture) = Inr (True, w', k')"
    "depth_x_erosion (processing (configuration k')) = 2" by (auto split: sum.splits)
  from kinect_fast_reload_scope [OF r(1)] r show ?thesis
    by (simp add: sample_capture_def sample_config_def)
qed

section \<open>The order of starting\<close>

text \<open>The calls a start adds, and what their order must be: nobody streams before everybody is started,
  and in both phases no slave comes after a master.\<close>

definition start_order :: "camera list \<Rightarrow> camera_call \<times> nat \<Rightarrow> camera_call \<times> nat \<Rightarrow> bool" where
  "start_order cams c d \<longleftrightarrow>
     (fst c = Start_streaming \<longrightarrow> fst d \<noteq> Start_camera) \<and>
     (fst c = fst d \<longrightarrow> fst c = Start_camera \<or> fst c = Start_streaming \<longrightarrow>
        sync_master (cams ! snd c) \<longrightarrow> sync_master (cams ! snd d))"

lemma calls_on_set: "x \<in> set (calls_on f P cams) \<longleftrightarrow> fst x = f \<and> snd x < length cams \<and> P (cams ! snd x)"
  by (cases x) (auto simp: calls_on_def)

lemma count_calls_on:
  "count_list (calls_on f P cams) (g, i) = (if f = g \<and> i < length cams \<and> P (cams ! i) then 1 else 0)"
proof -
  have d: "distinct xs \<Longrightarrow> count_list xs x = (if x \<in> set xs then 1 else 0)" for xs :: "(camera_call \<times> nat) list" and x
    by (induction xs) auto
  have "distinct (calls_on f P cams)" by (simp add: calls_on_def distinct_map inj_on_def)
  from d [OF this, of "(g, i)"] show ?thesis by (auto simp: calls_on_set)
qed

lemma sorted_wrt_all: "(\<And>x y. x \<in> set xs \<Longrightarrow> y \<in> set xs \<Longrightarrow> R x y) \<Longrightarrow> sorted_wrt R xs"
  by (induction xs) auto

text \<open>
  When starting the cameras succeeds, each of them was started exactly once and began to stream
  exactly once, none streamed before all were started, and in both phases no sync master came before
  a camera that is not one.
\<close>

theorem kinect_start_order:
  assumes "start_cameras pre_ok start_ok (w, k) = (True, w', k')"
  shows "\<exists>calls. camera_calls k' = camera_calls k @ calls \<and> sorted_wrt (start_order (cameras k)) calls \<and>
    (\<forall>i < length (cameras k). pre_ok i \<and> start_ok i \<and> count_list calls (Start_camera, i) = 1 \<and>
       count_list calls (Start_streaming, i) = 1)"
proof -
  define cs where "cs = cameras k"
  define slave where "slave = (\<lambda>cam :: camera. \<not> sync_master cam)"
  define calls where "calls = calls_on Pre_start_all (\<lambda>_. True) cs @ calls_on Start_camera slave cs @
    calls_on Start_camera sync_master cs @ calls_on Post_start_all (\<lambda>_. True) cs @
    calls_on Start_streaming slave cs @ calls_on Start_streaming sync_master cs @ calls_on Post_start_all (\<lambda>_. True) cs"
  have ok: "\<forall>i < length cs. pre_ok i \<and> start_ok i"
    using assms by (auto simp: start_cameras_def cs_def Let_def split: if_splits)
  have c: "camera_calls k' = camera_calls k @ calls"
    using assms ok by (auto simp: start_cameras_def call_cameras_def calls_def cs_def slave_def Let_def split: if_splits)
  have "sorted_wrt (start_order cs) (calls_on f P cs)" if "P = slave \<or> P = sync_master \<or> f = Pre_start_all \<or> f = Post_start_all"
    for f P
    using that by (intro sorted_wrt_all) (auto simp: calls_on_set start_order_def slave_def)
  then have "sorted_wrt (start_order cs) calls"
    by (simp add: calls_def sorted_wrt_append ball_Un calls_on_set start_order_def slave_def Ball_def)
  moreover have "count_list calls (Start_camera, i) = 1 \<and> count_list calls (Start_streaming, i) = 1" if "i < length cs" for i
    using that by (cases "sync_master (cs ! i)") (simp_all add: calls_def count_calls_on slave_def)
  ultimately show ?thesis
    using ok c by (intro exI [of _ calls]) (simp add: cs_def)
qed

definition sample_two_cameras :: "camera list" where
  "sample_two_cameras = map (\<lambda>i. \<lparr>camera_index = i, camera_serial = [], camera_device = [], sync_master = (i = 0),
     camera_pointSize = 0, end_of_stream_reached = False, current_pcl_pointcloud = None\<rparr>) [0, 1]"

theorem kinect_start_order_witness:
  "\<exists>w' k'. start_cameras (\<lambda>_. True) (\<lambda>_. True) (world_init None 0, new_capture\<lparr>cameras := sample_two_cameras\<rparr>) = (True, w', k') \<and>
     (\<exists>calls. camera_calls k' = calls \<and> sorted_wrt (start_order sample_two_cameras) calls \<and>
       count_list calls (Start_streaming, 1) = 1)"
proof -
  obtain w' k' where r: "start_cameras (\<lambda>_. True) (\<lambda>_. True) (world_init None 0, new_capture\<lparr>cameras := sample_two_cameras\<rparr>)
      = (True, w', k')"
    by (simp add: start_cameras_def Let_def)
  from kinect_start_order [OF r] show ?thesis
    using r by (auto simp: new_capture_def sample_two_cameras_def)
qed

section \<open>Cameras and their configurations\<close>

lemma find_index_distinct:
  assumes "distinct (map f xs)" and "i < length xs"
  shows "find (\<lambda>j. f (xs ! j) = f (xs ! i)) [0..<length xs] = Some i"
proof -
  have "f (xs ! j) \<noteq> f (xs ! i)" if "j < i" for j
    using assms that nth_eq_iff_index_eq [OF assms(1), of j i] by simp
  then show ?thesis
    using assms(2) by (auto simp: find_Some_iff intro!: exI [of _ i])
qed

definition device_of :: "camera_config \<Rightarrow> k4a_device" where
  "device_of cd = \<lparr>dev_opens = True, dev_serial = Some (cam_serial cd)\<rparr>"

definition usable :: "camera_config \<Rightarrow> bool" where
  "usable cd \<longleftrightarrow> cam_type cd = ''kinect'' \<and> \<not> cam_disabled cd"

text \<open>After the first \<open>n\<close> devices: as many cameras, each opened for the device it is configured for.\<close>

definition made_cameras :: "nat \<Rightarrow> capture \<Rightarrow> bool" where
  "made_cameras n k \<longleftrightarrow>
     (let cfgs = all_camera_configs (configuration k) in
      n \<le> length cfgs \<and> distinct (map cam_serial cfgs) \<and> list_all usable cfgs \<and> length (cameras k) = n \<and>
      (\<forall>i < n. camera_device (cameras k ! i) = cam_serial (cfgs ! i) \<and>
               camera_serial (cameras k ! i) = cam_serial (cfgs ! i) \<and> camera_index (cameras k ! i) = i \<and>
               cam_connected (cfgs ! i)))"

lemma create_one:
  assumes "made_cameras n k" and "n < length (all_camera_configs (configuration k))"
  shows "\<exists>k1. create_cameras (device_of (all_camera_configs (configuration k) ! n) # ds) (w, k) = create_cameras ds (w, k1) \<and>
    made_cameras (Suc n) k1 \<and>
    map cam_serial (all_camera_configs (configuration k1)) = map cam_serial (all_camera_configs (configuration k))"
proof -
  define cfgs where "cfgs = all_camera_configs (configuration k)"
  note c = assms(1) [unfolded made_cameras_def Let_def, folded cfgs_def]
  have n: "n < length cfgs" using assms(2) by (simp add: cfgs_def)
  have u: "usable (cfgs ! n)" using c n by (auto simp: list_all_iff)
  have "find (\<lambda>j. cam_serial (cfgs ! j) = cam_serial (cfgs ! n)) [0..<length cfgs] = Some n"
    using c n by (intro find_index_distinct) simp_all
  then have g: "get_camera_config (cam_serial (cfgs ! n)) k w = (Some n, w)"
    by (simp add: get_camera_config_def flip: cfgs_def)
  obtain cam where cam: "create_single_camera (cam_serial (cfgs ! n)) n k = Inr cam"
    "camera_device cam = cam_serial (cfgs ! n)" "camera_serial cam = cam_serial (cfgs ! n)" "camera_index cam = n"
    using n by (simp add: create_single_camera_def Let_def flip: cfgs_def)
  define k1 where "k1 = set_connected n (k\<lparr>cameras := cameras k @ [cam]\<rparr>)"
  have cfgs1: "all_camera_configs (configuration k1) = cfgs[n := (cfgs ! n)\<lparr>cam_connected := True\<rparr>]"
    and cams1: "cameras k1 = cameras k @ [cam]"
    by (simp_all add: k1_def set_connected_def Let_def cfgs_def)
  have ser: "map cam_serial (all_camera_configs (configuration k1)) = map cam_serial cfgs"
    using n by (intro nth_equalityI) (auto simp: cfgs1 nth_list_update)
  have "create_cameras (device_of (cfgs ! n) # ds) (w, k) = create_cameras ds (w, k1)"
    using g u cam(1) c by (simp add: device_of_def usable_def k1_def Let_def flip: cfgs_def)
  moreover have "made_cameras (Suc n) k1"
    unfolding made_cameras_def Let_def
    using c n cam ser
    by (auto simp: cfgs1 cams1 nth_list_update nth_append less_Suc_eq list_all_iff usable_def
        dest!: set_update_subset_insert [THEN subsetD])
  ultimately show ?thesis using ser by (auto simp: cfgs_def)
qed

lemma create_rest:
  assumes "made_cameras n k"
  shows "\<exists>k'. create_cameras (map device_of (drop n (all_camera_configs (configuration k)))) (w, k) = Inr (True, w, k') \<and>
    made_cameras (length (all_camera_configs (configuration k))) k' \<and>
    map cam_serial (all_camera_configs (configuration k')) = map cam_serial (all_camera_configs (configuration k))"
  using assms
proof (induction "length (all_camera_configs (configuration k)) - n" arbitrary: n k)
  case 0
  then have "n = length (all_camera_configs (configuration k))"
    by (simp add: made_cameras_def Let_def)
  then show ?case using 0 by (intro exI [of _ k]) simp
next
  case (Suc d)
  define cfgs where "cfgs = all_camera_configs (configuration k)"
  have n: "n < length cfgs" using Suc.hyps(2) by (simp add: cfgs_def)
  define rest where "rest = map device_of (drop (Suc n) cfgs)"
  from create_one [OF Suc.prems, of rest w] n obtain k1 where
    k1: "create_cameras (device_of (cfgs ! n) # rest) (w, k) = create_cameras rest (w, k1)" "made_cameras (Suc n) k1"
      "map cam_serial (all_camera_configs (configuration k1)) = map cam_serial cfgs"
    by (auto simp: cfgs_def)
  have len: "length (all_camera_configs (configuration k1)) = length cfgs"
    using k1(3) by (metis length_map)
  have "map device_of (drop (Suc n) (all_camera_configs (configuration k1))) = rest"
  proof -
    have "map device_of cs = map (\<lambda>s. \<lparr>dev_opens = True, dev_serial = Some s\<rparr>) (map cam_serial cs)" for cs
      by (simp add: device_of_def)
    then show ?thesis by (simp only: rest_def drop_map [symmetric] k1(3))
  qed
  moreover have "d = length (all_camera_configs (configuration k1)) - Suc n"
    using Suc.hyps(2) len by (simp add: cfgs_def)
  ultimately obtain k' where "create_cameras rest (w, k1) = Inr (True, w, k')"
    "made_cameras (length cfgs) k'" "map cam_serial (all_camera_configs (configuration k')) = map cam_serial cfgs"
    using Suc.hyps(1) [of k1 "Suc n"] k1(2,3) len by auto
  moreover have "map device_of (drop n cfgs) = device_of (cfgs ! n) # rest"
    using n by (simp add: rest_def Cons_nth_drop_Suc [symmetric])
  ultimately show ?case using k1(1) by (auto simp: cfgs_def)
qed

text \<open>
  When the devices are found in the order of the configuration and none is disabled, a start
  creates one camera per device, and every camera serves the device its configuration is for.
\<close>

theorem kinect_cameras_match_devices:
  assumes "distinct (map cam_serial (all_camera_configs (configuration k)))"
    and "list_all usable (all_camera_configs (configuration k))" and "cameras k = []"
  shows "\<exists>k'. create_cameras (map device_of (all_camera_configs (configuration k))) (w, k) = Inr (True, w, k') \<and>
    length (cameras k') = length (all_camera_configs (configuration k)) \<and>
    (\<forall>i < length (cameras k'). camera_device (cameras k' ! i) = camera_serial (cameras k' ! i) \<and>
       camera_index (cameras k' ! i) = i) \<and>
    fst (check_cameras_connected (w, k'))"
proof -
  have "made_cameras 0 k" using assms by (simp add: made_cameras_def Let_def)
  from create_rest [OF this, of w] obtain k' where
    k': "create_cameras (map device_of (all_camera_configs (configuration k))) (w, k) = Inr (True, w, k')"
      "made_cameras (length (all_camera_configs (configuration k))) k'"
      "map cam_serial (all_camera_configs (configuration k')) = map cam_serial (all_camera_configs (configuration k))"
    by auto
  have "length (all_camera_configs (configuration k')) = length (all_camera_configs (configuration k))"
    using k'(3) by (metis length_map)
  then have "\<forall>cd \<in> set (all_camera_configs (configuration k')). cam_connected cd"
    using k'(2) by (auto simp: made_cameras_def Let_def in_set_conv_nth)
  then have "find (\<lambda>cd. \<not> cam_connected cd \<and> \<not> cam_disabled cd) (all_camera_configs (configuration k')) = None"
    by (auto simp: find_None_iff)
  then have "fst (check_cameras_connected (w, k'))" by (simp add: check_cameras_connected_def)
  with k' show ?thesis by (auto simp: made_cameras_def Let_def)
qed

theorem kinect_cameras_match_devices_witness:
  "\<exists>k'. create_cameras [\<lparr>dev_opens = True, dev_serial = Some ''0001''\<rparr>] (world_init None 0, sample_capture) =
      Inr (True, world_init None 0, k') \<and> length (cameras k') = 1"
  using kinect_cameras_match_devices [of sample_capture "world_init None 0"]
  by (auto simp: sample_capture_def sample_config_def sample_camera_def usable_def device_of_def new_camera_config_def
      new_capture_def)

text \<open>
  In any other order, or with a disabled camera before it, a camera serves one device with the serial
  number, placement and synchronisation role of another.
\<close>

lemma kinect_camera_of_disabled_neighbour:
  "(case create_cameras [\<lparr>dev_opens = True, dev_serial = Some ''A''\<rparr>, \<lparr>dev_opens = True, dev_serial = Some ''B''\<rparr>]
      (world_init None 0, new_capture\<lparr>configuration := new_k4a_config\<lparr>all_camera_configs :=
         [sample_camera\<lparr>cam_serial := ''A'', cam_disabled := True\<rparr>, sample_camera\<lparr>cam_serial := ''B''\<rparr>]\<rparr>\<rparr>) of
    Inr (ok, w', k') \<Rightarrow> ok \<and> map camera_device (cameras k') = [''B''] \<and> map camera_serial (cameras k') = [''A'']
  | _ \<Rightarrow> False)"
  by code_simp

text \<open>
  The result of starting the cameras is dropped: the capturer plays without a running camera.
\<close>

lemma kinect_start_ignores_failure:
  assumes "can_start k" and "\<not> is_playing k" and "create_cameras ds (w, k) = Inr (True, s1)"
    and "check_cameras_connected s1 = (True, s2)" and "\<not> fst (start_cameras pre_ok start_ok s2)"
  shows "\<exists>w' k'. k_start dump bytes ds pre_ok start_ok (w, k) = Inr (True, w', k') \<and> is_playing k'"
  using assms by (auto simp: k_start_def is_playing_def split: prod.split)

end
