(* ===== verification/KinectThread.thy ===== *)
theory KinectThread
  imports KinectCapture
begin

text \<open>
  The control thread of \<open>cwipc_kinect/src/K4ABaseCapture.hpp\<close> and the client calls that meet it.
  The thread is cut at every point where another thread can change what it reads next: before
  each test of \<open>stopped\<close>, before it takes \<open>mergedPC_mutex\<close>, and inside the two waits. What the
  cameras deliver is the event that goes with a step. Executions are all interleavings of thread
  steps and client actions. Assertions are compiled out, as in a release build.
\<close>

section \<open>Steps of the control thread\<close>

text \<open>
  The cameras' results: time stamp of the captured frame set and whether the stream ended while
  it was awaited, one per camera; the clock in milliseconds and the metadata the cameras add.
\<close>

datatype control_event =
    Run
  | Frames "(u64 \<times> bool) list"
  | Create u64 "metadata_item list"
  | Wake            \<comment> \<open>the condition variable wakes without a notification\<close>

text \<open>The mutex is held by the control thread in these places (client actions are atomic).\<close>

definition k_mutex_held :: "capture \<Rightarrow> bool" where
  "k_mutex_held k =
     (case control_thread k of
        None \<Rightarrow> False
      | Some at \<Rightarrow> at = Ct_predicate \<or> at = Ct_before_block \<or> at = Ct_published \<or> at = Ct_waiting \<or> at = Ct_merge)"

definition at_control :: "control_at \<Rightarrow> capture \<Rightarrow> capture" where
  "at_control at k = k\<lparr>control_thread := Some at\<rparr>"

text \<open>
  \<open>_capture_all_cameras\<close> of \<open>K4ACapture\<close>: cameras one after the other, from position \<open>i\<close>. The
  result is whether all delivered, with the first time stamp.
\<close>

fun capture_all_cameras :: "(u64 \<times> bool) list \<Rightarrow> nat \<Rightarrow> u64 \<Rightarrow> kstate \<Rightarrow> (bool \<times> u64) \<times> kstate" where
  "capture_all_cameras [] i first_timestamp s = ((True, first_timestamp), s)"
| "capture_all_cameras ((ts, ended) # fs) i first_timestamp (w, k) =
     (let k1 = (if ended \<and> i < length (cameras k)
                then k\<lparr>cameras := (cameras k)[i := (cameras k ! i)\<lparr>end_of_stream_reached := True\<rparr>]\<rparr> else k)
      in if i < length (cameras k1) \<and> end_of_stream_reached (cameras k1 ! i) then ((False, first_timestamp), w, k1)
         else if ts = 0
         then ((False, first_timestamp),
               k_log CWIPC_LOG_LEVEL_WARNING
                 (''no frameset captured from camera ''
                  @ (if i < length (cameras k1) then camera_serial (cameras k1 ! i) else [])) w, k1)
         else capture_all_cameras fs (i + 1) (if first_timestamp = 0 then ts else first_timestamp) (w, k1))"

text \<open>A new empty cloud with the metadata of all cameras.\<close>

definition create_pc :: "u64 \<Rightarrow> metadata_item list \<Rightarrow> world \<Rightarrow> fault + cwipc_obj \<times> world" where
  "create_pc timestamp items w =
     (case cwipc_from_pcl (Some []) timestamp None CWIPC_API_VERSION w of
        (None, _) \<Rightarrow> Inl Null_deref
      | (Some newPC, w1) \<Rightarrow>
          Inr (if items = [] then newPC
               else case access_metadata newPC of (old, ob) \<Rightarrow> ob\<lparr>m_metadata := Some (old @ items)\<rparr>, w1))"

text \<open>\<open>_merge_camera_pointclouds\<close>: the points of every camera that has a cloud, in order.\<close>

definition merged_points :: "camera list \<Rightarrow> pcl_point list" where
  "merged_points cams =
     concat (map (\<lambda>cam. case current_pcl_pointcloud cam of None \<Rightarrow> [] | Some ps \<Rightarrow> ps) cams)"

definition warn_null_clouds :: "camera list \<Rightarrow> world \<Rightarrow> world" where
  "warn_null_clouds cams w =
     foldl (\<lambda>w cam. if current_pcl_pointcloud cam = None
                    then k_log CWIPC_LOG_LEVEL_WARNING
                           ''_merge_camera_pointclouds: camera pointcloud is null for some camera'' w
                    else w) w cams"

definition merge_camera_pointclouds :: "kstate \<Rightarrow> fault + kstate" where
  "merge_camera_pointclouds s =
     (case s of (w, k) \<Rightarrow>
      case mergedPC k of
        None \<Rightarrow> Inl Null_deref
      | Some pc \<Rightarrow>
          (case m_pc pc of
             None \<Rightarrow> Inl Null_deref
           | Some _ \<Rightarrow>
               Inr (warn_null_clouds (cameras k) w,
                    k\<lparr>mergedPC := Some (pc\<lparr>m_pc := Some (merged_points (cameras k))\<rparr>)\<rparr>)))"

definition log_merged :: "capture \<Rightarrow> world \<Rightarrow> world" where
  "log_merged k w =
     (let n = (case mergedPC k of None \<Rightarrow> 0 | Some pc \<Rightarrow> (case m_pc pc of None \<Rightarrow> 0 | Some ps \<Rightarrow> length ps))
      in if 0 < n
         then k_log_debug k (''merged pointcloud has '' @ to_string (int n) @ '' points'') w
         else k_log CWIPC_LOG_LEVEL_WARNING ''merged pointcloud is empty'' w)"

definition free_pc :: "cwipc_obj \<Rightarrow> world \<Rightarrow> world" where
  "free_pc pc w = fst (pc_free w pc)"

text \<open>Replacing the cloud, under the mutex: only a fresh one is freed.\<close>

definition publish :: "cwipc_obj \<Rightarrow> kstate \<Rightarrow> kstate" where
  "publish newPC s =
     (case s of (w, k) \<Rightarrow>
        ((case mergedPC k of None \<Rightarrow> w | Some old \<Rightarrow> if mergedPC_is_fresh k then free_pc old w else w),
         k\<lparr>mergedPC := Some newPC\<rparr>))"

text \<open>One step; \<open>None\<close>: the thread cannot take a step with this event.\<close>

definition control_step :: "control_event \<Rightarrow> kstate \<Rightarrow> (fault + kstate) option" where
  "control_step ev s =
     (case s of (w, k) \<Rightarrow>
      case control_thread k of
        None \<Rightarrow> None
      | Some at \<Rightarrow>
          (case (at, ev) of
             (Ct_begin, Run) \<Rightarrow>
               Some (Inr (if cfg_debug (configuration k)
                          then cwipc_log CWIPC_LOG_LEVEL_DEBUG ''K4ACapture (thread)'' ''processing thread started'' w
                          else w, at_control Ct_test k))
           | (Ct_test, Run) \<Rightarrow> Some (Inr (w, at_control (if stopped k then Ct_exit else Ct_predicate) k))
           | (Ct_predicate, Run) \<Rightarrow>
               Some (Inr (w, at_control (if mergedPC_want_new k then Ct_eof_check else Ct_before_block) k))
           | (Ct_before_block, Run) \<Rightarrow> Some (Inr (w, at_control Ct_blocked k))
           | (Ct_blocked, Wake) \<Rightarrow> Some (Inr (w, at_control Ct_predicate k))
           | (Ct_eof_check, Run) \<Rightarrow>
               let k1 = (if list_ex end_of_stream_reached (cameras k)
                         then k\<lparr>capture_eof := True, stopped := True\<rparr> else k)
               in Some (Inr (w, at_control (if stopped k1 then Ct_exit else Ct_capture) k1))
           | (Ct_capture, Frames fs) \<Rightarrow>
               if length fs \<noteq> length (cameras k) then None
               else (case capture_all_cameras fs 0 0 s of
                       ((ok, timestamp), w1, k1) \<Rightarrow>
                         Some (Inr (w1, at_control (if ok then Ct_captured timestamp else Ct_test) k1)))
           | (Ct_captured timestamp, Create now items) \<Rightarrow>
               if stopped k then Some (Inr (w, at_control Ct_exit k))
               else
                 let ts = (if new_timestamps (configuration k) then now else timestamp)
                 in (case create_pc ts items
                       (k_log_debug k (''creating pc with ts='' @ to_string (uint ts)) w) of
                       Inl f \<Rightarrow> Some (Inl f)
                     | Inr (newPC, w1) \<Rightarrow> Some (Inr (w1, at_control (Ct_new newPC) k)))
           | (Ct_new newPC, Run) \<Rightarrow>
               Some (Inr (if stopped k then (free_pc newPC w, at_control Ct_exit k)
                          else (w, at_control (Ct_queued newPC) k)))
           | (Ct_queued newPC, Run) \<Rightarrow>
               Some (Inr (if stopped k then (free_pc newPC w, at_control Ct_exit k)
                          else (w, at_control (Ct_lock newPC) k)))
           | (Ct_lock newPC, Run) \<Rightarrow>
               (case publish newPC s of (w1, k1) \<Rightarrow> Some (Inr (w1, at_control Ct_published k1)))
           | (Ct_published, Run) \<Rightarrow> Some (Inr (w, at_control (if stopped k then Ct_exit else Ct_waiting) k))
           | (Ct_waiting, Run) \<Rightarrow> Some (Inr (w, at_control (if stopped k then Ct_exit else Ct_merge) k))
           | (Ct_merge, Run) \<Rightarrow>
               (case merge_camera_pointclouds s of
                  Inl f \<Rightarrow> Some (Inl f)
                | Inr (w1, k1) \<Rightarrow>
                    Some (Inr (log_merged k1 w1,
                      at_control Ct_test (k1\<lparr>mergedPC_is_fresh := True, mergedPC_want_new := False\<rparr>))))
           | (Ct_exit, Run) \<Rightarrow>
               Some (Inr (if cfg_debug (configuration k)
                          then cwipc_log CWIPC_LOG_LEVEL_DEBUG ''K4ACapture (thread)'' ''processing thread exiting'' w
                          else w, at_control Ct_done k))
           | _ \<Rightarrow> None))"

section \<open>Client calls\<close>

text \<open>\<open>_request_new_pointcloud\<close>; it waits for the mutex (\<open>None\<close>).\<close>

definition request_new_pointcloud :: "capture \<Rightarrow> capture option" where
  "request_new_pointcloud k =
     (if k_mutex_held k then None
      else Some (if \<not> mergedPC_want_new k \<and> \<not> mergedPC_is_fresh k
                 then notify_want_new (k\<lparr>mergedPC_want_new := True\<rparr>) else k))"

text \<open>
  \<open>pointcloud_available\<close>: the test, the request, and the wait with its time limit, after which the
  result is the flag at that moment.
\<close>

definition available_begin :: "kstate \<Rightarrow> bool \<times> kstate" where
  "available_begin s =
     (case s of (w, k) \<Rightarrow>
        if is_playing k then (True, s)
        else (False, k_log CWIPC_LOG_LEVEL_WARNING ''available() called but not playing'' w, k))"

definition available_result :: "capture \<Rightarrow> bool option" where
  "available_result k = (if k_mutex_held k then None else Some (mergedPC_is_fresh k))"

text \<open>
  \<open>get_pointcloud\<close>: the test, a request, the wait for a fresh cloud, another request.
\<close>

definition get_begin :: "kstate \<Rightarrow> bool \<times> kstate" where
  "get_begin s =
     (case s of (w, k) \<Rightarrow>
        if is_playing k then (True, s)
        else (False, k_log CWIPC_LOG_LEVEL_ERROR ''get_pointcloud: not playing'' w, k))"

definition get_take :: "kstate \<Rightarrow> (cwipc_obj option \<times> kstate) option" where
  "get_take s =
     (case s of (w, k) \<Rightarrow>
        if k_mutex_held k \<or> \<not> mergedPC_is_fresh k then None
        else let rv = mergedPC k
             in Some (rv,
                  (if rv = None
                   then k_log CWIPC_LOG_LEVEL_WARNING
                          ''get_pointcloud: returning NULL, even though mergedPC_is_fresh'' w else w),
                  k\<lparr>mergedPC_is_fresh := False, mergedPC := None\<rparr>))"

text \<open>The join of \<open>stop\<close> waits for the thread to end (\<open>None\<close>).\<close>

definition stop_join :: "(json \<Rightarrow> string) \<Rightarrow> (string \<Rightarrow> u8 list) \<Rightarrow> kstate \<Rightarrow> (fault + kstate) option" where
  "stop_join dump bytes s =
     (case control_thread (snd s) of
        None \<Rightarrow> Some (stop_joined dump bytes s)
      | Some at \<Rightarrow> if cameras (snd s) = [] \<or> at = Ct_done then Some (stop_joined dump bytes s) else None)"

text \<open>The destructor, once the cameras are unloaded.\<close>

definition destroy_capture :: "kstate \<Rightarrow> kstate" where
  "destroy_capture s =
     (case s of (w, k) \<Rightarrow>
        ((case mergedPC k of None \<Rightarrow> w | Some pc \<Rightarrow> free_pc pc w),
         uninstall_k4a_logger (k\<lparr>mergedPC := None\<rparr>)))"

section \<open>Executions\<close>

datatype k_action =
    K_reload "string option" "k4a_device list"
  | K_reload_fast "string option"
  | K_request_metadata bool bool bool bool bool
  | K_config_get k4a_hardware
  | K_start "k4a_device list" "nat \<Rightarrow> bool" "nat \<Rightarrow> bool"
  | K_stop_begin
  | K_stop_notify
  | K_stop_join
  | K_request
  | K_available
  | K_take
  | K_camera nat bool "pcl_point list option"  \<comment> \<open>a camera's own threads store its cloud or reach the end\<close>
  | K_control control_event

text \<open>
  The state with what has been handed out, the clouds overwritten without being freed, and the
  number of successful starts.
\<close>

record k_run =
  kr_world :: world
  kr_capture :: capture
  kr_got :: "cwipc_obj list"
  kr_lost :: nat
  kr_starts :: nat

definition kr_set :: "kstate \<Rightarrow> k_run \<Rightarrow> k_run" where
  "kr_set s r = r\<lparr>kr_world := fst s, kr_capture := snd s\<rparr>"

definition kr_state :: "k_run \<Rightarrow> kstate" where
  "kr_state r = (kr_world r, kr_capture r)"

text \<open>The next step of the control thread overwrites a cloud that is not fresh.\<close>

definition loses_cloud :: "capture \<Rightarrow> bool" where
  "loses_cloud k =
     ((case control_thread k of Some (Ct_lock pc) \<Rightarrow> True | _ \<Rightarrow> False) \<and> mergedPC k \<noteq> None \<and> \<not> mergedPC_is_fresh k)"

definition camera_update :: "nat \<Rightarrow> bool \<Rightarrow> pcl_point list option \<Rightarrow> capture \<Rightarrow> capture" where
  "camera_update i ended ps k =
     k\<lparr>cameras := (cameras k)[i := (cameras k ! i)\<lparr>end_of_stream_reached := ended, current_pcl_pointcloud := ps\<rparr>]\<rparr>"

record k_env =
  ke_io :: config_io
  ke_dump :: "json \<Rightarrow> string"
  ke_bytes :: "string \<Rightarrow> u8 list"

fun k_exec :: "k_env \<Rightarrow> k_action \<Rightarrow> k_run \<Rightarrow> (fault + k_run) option" where
  "k_exec e (K_reload f ds) r =
     Some (map_sum id (\<lambda>(_, s). kr_set s r)
       (config_reload (ke_io e) (ke_dump e) (ke_bytes e) ds f (kr_state r)))"
| "k_exec e (K_reload_fast f) r =
     Some (map_sum id (\<lambda>(_, s). kr_set s r) (config_reload_fast (ke_io e) f (kr_state r)))"
| "k_exec e (K_request_metadata a b c d f) r =
     Some (Inr (r\<lparr>kr_capture := k_request_metadata a b c d f (kr_capture r)\<rparr>))"
| "k_exec e (K_config_get h) r =
     Some (map_sum id (\<lambda>(_, s). kr_set s r) (k_config_get (ke_dump e) h (kr_state r)))"
| "k_exec e (K_start ds pre_ok start_ok) r =
     Some (map_sum id (\<lambda>(ok, s). kr_set s (r\<lparr>kr_starts := kr_starts r + (if ok then 1 else 0)\<rparr>))
       (k_start (ke_dump e) (ke_bytes e) ds pre_ok start_ok (kr_state r)))"
| "k_exec e K_stop_begin r = Some (Inr (r\<lparr>kr_capture := stop_begin (kr_capture r)\<rparr>))"
| "k_exec e K_stop_notify r = Some (Inr (kr_set (stop_notify (kr_state r)) r))"
| "k_exec e K_stop_join r =
     map_option (map_sum id (\<lambda>s. kr_set s r)) (stop_join (ke_dump e) (ke_bytes e) (kr_state r))"
| "k_exec e K_request r =
     map_option (\<lambda>k. Inr (r\<lparr>kr_capture := k\<rparr>)) (request_new_pointcloud (kr_capture r))"
| "k_exec e K_available r = map_option (\<lambda>_. Inr r) (available_result (kr_capture r))"
| "k_exec e K_take r =
     map_option (\<lambda>(rv, s). Inr (kr_set s (r\<lparr>kr_got := kr_got r @ (case rv of None \<Rightarrow> [] | Some pc \<Rightarrow> [pc])\<rparr>)))
       (get_take (kr_state r))"
| "k_exec e (K_camera i ended ps) r =
     Some (Inr (r\<lparr>kr_capture := camera_update i ended ps (kr_capture r)\<rparr>))"
| "k_exec e (K_control ev) r =
     map_option (map_sum id (\<lambda>s. kr_set s (r\<lparr>kr_lost := kr_lost r + (if loses_cloud (kr_capture r) then 1 else 0)\<rparr>)))
       (control_step ev (kr_state r))"

fun k_run_actions :: "k_env \<Rightarrow> k_action list \<Rightarrow> k_run \<Rightarrow> (fault + k_run) option" where
  "k_run_actions e [] r = Some (Inr r)"
| "k_run_actions e (a # as) r =
     (case k_exec e a r of
        None \<Rightarrow> None | Some (Inl f) \<Rightarrow> Some (Inl f) | Some (Inr r') \<Rightarrow> k_run_actions e as r')"

definition kr_init :: "world \<Rightarrow> k_run" where
  "kr_init w = \<lparr>kr_world = w, kr_capture = new_capture, kr_got = [], kr_lost = 0, kr_starts = 0\<rparr>"

section \<open>The clouds a capturer holds\<close>

definition captured_cloud :: "cwipc_obj \<Rightarrow> bool" where
  "captured_cloud pc \<longleftrightarrow> pc_class pc = Cwipc_impl \<and> m_pc pc \<noteq> None \<and> m_points pc = None"

definition carried :: "control_at \<Rightarrow> cwipc_obj option" where
  "carried at = (case at of Ct_new pc \<Rightarrow> Some pc | Ct_queued pc \<Rightarrow> Some pc | Ct_lock pc \<Rightarrow> Some pc | _ \<Rightarrow> None)"

definition carried_by :: "capture \<Rightarrow> cwipc_obj option" where
  "carried_by k = (case control_thread k of None \<Rightarrow> None | Some at \<Rightarrow> carried at)"

definition capture_holds :: "capture \<Rightarrow> int" where
  "capture_holds k = (if mergedPC k = None then 0 else 1) + (if carried_by k = None then 0 else 1)"

text \<open>Clouds are well-formed, and between publishing and merging there is one.\<close>

definition merging :: "control_at \<Rightarrow> bool" where
  "merging at \<longleftrightarrow> at = Ct_published \<or> at = Ct_waiting \<or> at = Ct_merge"

definition capture_ok :: "capture \<Rightarrow> bool" where
  "capture_ok k \<longleftrightarrow>
     (\<forall>pc. mergedPC k = Some pc \<longrightarrow> captured_cloud pc) \<and>
     (\<forall>pc. carried_by k = Some pc \<longrightarrow> captured_cloud pc) \<and>
     (\<forall>at. control_thread k = Some at \<longrightarrow> merging at \<longrightarrow> mergedPC k \<noteq> None)"

text \<open>A cloud of an earlier run that the thread will overwrite.\<close>

definition pending_loss :: "capture \<Rightarrow> bool" where
  "pending_loss k \<longleftrightarrow>
     (case control_thread k of None \<Rightarrow> False
      | Some at \<Rightarrow> \<not> merging at \<and> at \<noteq> Ct_exit \<and> at \<noteq> Ct_done) \<and> mergedPC k \<noteq> None \<and> \<not> mergedPC_is_fresh k"

lemma k_log_dangling [simp]:
  "pc_dangling (k_log l m w) = pc_dangling w" "pc_dangling (k_log_debug k m w) = pc_dangling w"
  "pc_dangling (log_merged k w) = pc_dangling w"
  by (simp_all add: k_log_def k_log_debug_def log_merged_def Let_def accounted_log)

lemma warn_null_dangling [simp]: "pc_dangling (warn_null_clouds cams w) = pc_dangling w"
  by (induction cams arbitrary: w) (simp_all add: warn_null_clouds_def)

lemma free_captured:
  "captured_cloud pc \<Longrightarrow> pc_dangling (free_pc pc w) = pc_dangling w - 1"
  by (auto simp: captured_cloud_def free_pc_def pc_free_def impl_free_def dangling_defs Let_def
      metadata_destroy_def split: option.splits)

lemma create_captured:
  assumes "create_pc ts items w = Inr (pc, w')"
  shows "captured_cloud pc" "pc_dangling w' = pc_dangling w + 1"
  using assms
  by (auto simp: create_pc_def cwipc_from_pcl_def api_version_bad_def CWIPC_API_VERSION_def
      CWIPC_API_VERSION_OLD_def new_cwipc_impl_def access_metadata_def captured_cloud_def Let_def
      dangling_defs split: if_splits)

lemma create_never_fails: "create_pc ts items w \<noteq> Inl f"
  by (simp add: create_pc_def cwipc_from_pcl_def api_version_bad_def CWIPC_API_VERSION_def
      CWIPC_API_VERSION_OLD_def new_cwipc_impl_def Let_def split: prod.split)

lemma capture_all_frame:
  "capture_all_cameras fs i t (w, k) = (r, w', k') \<Longrightarrow>
     pc_dangling w' = pc_dangling w \<and> mergedPC k' = mergedPC k \<and> control_thread k' = control_thread k \<and>
     mergedPC_is_fresh k' = mergedPC_is_fresh k \<and> mergedPC_want_new k' = mergedPC_want_new k \<and>
     stopped k' = stopped k \<and> configuration k' = configuration k \<and> length (cameras k') = length (cameras k)"
proof (induction fs arbitrary: i t w k)
  case Nil
  then show ?case by simp
next
  case (Cons f fs)
  obtain ts ended where f: "f = (ts, ended)" by (cases f)
  show ?case
    using Cons.prems unfolding f
    by (auto simp: Let_def split: if_splits dest!: Cons.IH)
qed

section \<open>What a step of the thread does to them\<close>

lemma carried_simps [simp]:
  "carried (Ct_new pc) = Some pc" "carried (Ct_queued pc) = Some pc" "carried (Ct_lock pc) = Some pc"
  "carried Ct_begin = None" "carried Ct_test = None" "carried Ct_predicate = None"
  "carried Ct_before_block = None" "carried Ct_blocked = None" "carried Ct_eof_check = None"
  "carried Ct_capture = None" "carried (Ct_captured t) = None" "carried Ct_published = None"
  "carried Ct_waiting = None" "carried Ct_merge = None" "carried Ct_exit = None" "carried Ct_done = None"
  by (simp_all add: carried_def)

lemma merging_simps [simp]:
  "\<not> merging (Ct_new pc)" "\<not> merging (Ct_queued pc)" "\<not> merging (Ct_lock pc)" "\<not> merging Ct_begin"
  "\<not> merging Ct_test" "\<not> merging Ct_predicate" "\<not> merging Ct_before_block" "\<not> merging Ct_blocked"
  "\<not> merging Ct_eof_check" "\<not> merging Ct_capture" "\<not> merging (Ct_captured t)" "\<not> merging Ct_exit"
  "\<not> merging Ct_done" "merging Ct_published" "merging Ct_waiting" "merging Ct_merge"
  by (simp_all add: merging_def)

lemma at_control_fields [simp]:
  "control_thread (at_control at k) = Some at" "mergedPC (at_control at k) = mergedPC k"
  "mergedPC_is_fresh (at_control at k) = mergedPC_is_fresh k" "carried_by (at_control at k) = carried at"
  "mergedPC_want_new (at_control at k) = mergedPC_want_new k" "stopped (at_control at k) = stopped k"
  "cameras (at_control at k) = cameras k" "configuration (at_control at k) = configuration k"
  by (simp_all add: at_control_def carried_by_def)

lemma capture_fields [simp]:
  "carried_by (k\<lparr>mergedPC := m\<rparr>) = carried_by k" "carried_by (k\<lparr>capture_eof := b\<rparr>) = carried_by k"
  "carried_by (k\<lparr>stopped := b\<rparr>) = carried_by k" "carried_by (k\<lparr>mergedPC_is_fresh := b\<rparr>) = carried_by k"
  "carried_by (k\<lparr>mergedPC_want_new := b\<rparr>) = carried_by k" "carried_by (k\<lparr>cameras := cs\<rparr>) = carried_by k"
  by (simp_all add: carried_by_def)

text \<open>
  What the accounting sees of a capturer before and after: the clouds it creates and frees, the
  one it may lose, and that a step brings no new loss on.
\<close>

definition accounted_step :: "kstate \<Rightarrow> kstate \<Rightarrow> bool" where
  "accounted_step s s' \<longleftrightarrow>
     pc_dangling (fst s') - capture_holds (snd s') =
       pc_dangling (fst s) - capture_holds (snd s) + (if loses_cloud (snd s) then 1 else 0) \<and>
     capture_ok (snd s') \<and>
     (pending_loss (snd s') \<longrightarrow> pending_loss (snd s) \<and> \<not> loses_cloud (snd s)) \<and>
     (control_thread (snd s) \<noteq> None)"

lemmas account_defs = accounted_step_def capture_holds_def capture_ok_def loses_cloud_def pending_loss_def

lemma merge_result:
  assumes "merge_camera_pointclouds (w, k) = Inr (w', k')"
  obtains pc where "mergedPC k = Some pc" and "pc_dangling w' = pc_dangling w"
    and "k' = k\<lparr>mergedPC := Some (pc\<lparr>m_pc := Some (merged_points (cameras k))\<rparr>)\<rparr>"
  using assms by (auto simp: merge_camera_pointclouds_def split: option.splits)

lemma captured_merge: "captured_cloud pc \<Longrightarrow> captured_cloud (pc\<lparr>m_pc := Some ps\<rparr>)"
  by (simp add: captured_cloud_def)

definition step_outcome :: "kstate \<Rightarrow> (fault + kstate) option \<Rightarrow> bool" where
  "step_outcome s r =
     (case r of None \<Rightarrow> True | Some (Inl f) \<Rightarrow> False | Some (Inr s') \<Rightarrow> accounted_step s s')"

lemma step_outcome_simps [simp]:
  "step_outcome s None" "\<not> step_outcome s (Some (Inl f))"
  "step_outcome s (Some (Inr s')) = accounted_step s s'"
  by (simp_all add: step_outcome_def)

lemma control_step_accounts:
  assumes "capture_ok k"
  shows "step_outcome (w, k) (control_step ev (w, k))"
proof (cases "control_thread k")
  case None
  then show ?thesis by (simp add: control_step_def)
next
  case at: (Some at)
  have c: "carried_by k = carried at" by (simp add: carried_by_def at)
  have ok: "mergedPC k = Some pc \<Longrightarrow> captured_cloud pc" "carried at = Some pc \<Longrightarrow> captured_cloud pc"
    "merging at \<Longrightarrow> mergedPC k \<noteq> None" for pc
    using assms by (simp_all add: capture_ok_def c at)
  show ?thesis
  proof (cases at)
    case Ct_eof_check
    then show ?thesis
      using ok at c
      by (cases ev; cases "list_ex end_of_stream_reached (cameras k)"; cases "stopped k")
        (simp_all add: control_step_def account_defs Let_def)
  next
    case Ct_capture
    show ?thesis
    proof (cases ev)
      case (Frames fs)
      obtain ok_b ts w1 k1 where r: "capture_all_cameras fs 0 0 (w, k) = ((ok_b, ts), w1, k1)"
        by (metis prod.exhaust)
      show ?thesis
        using ok at c Ct_capture Frames r capture_all_frame [OF r]
        by (cases ok_b) (simp_all add: control_step_def account_defs)
    qed (use at Ct_capture in \<open>simp_all add: control_step_def\<close>)
  next
    case (Ct_captured ts)
    show ?thesis
    proof (cases ev)
      case (Create now items)
      show ?thesis
      proof (cases "stopped k")
        case True
        then show ?thesis using ok at c Ct_captured Create by (simp add: control_step_def account_defs)
      next
        case False
        define ts' where "ts' = (if new_timestamps (configuration k) then now else ts)"
        define w0 where "w0 = k_log_debug k (''creating pc with ts='' @ to_string (uint ts')) w"
        obtain pc w1 where pc: "create_pc ts' items w0 = Inr (pc, w1)"
          using create_never_fails [of ts' items w0] by (cases "create_pc ts' items w0") auto
        have "control_step ev (w, k) = Some (Inr (w1, at_control (Ct_new pc) k))"
          using at Ct_captured Create False pc
          by (simp add: control_step_def Let_def ts'_def w0_def)
        then show ?thesis
          using create_captured [OF pc] ok at c Ct_captured by (simp add: account_defs w0_def)
      qed
    qed (use at Ct_captured in \<open>simp_all add: control_step_def\<close>)
  next
    case (Ct_new pc)
    then show ?thesis
      using ok at c by (cases ev; cases "stopped k") (simp_all add: control_step_def account_defs free_captured)
  next
    case (Ct_queued pc)
    then show ?thesis
      using ok at c by (cases ev; cases "stopped k") (simp_all add: control_step_def account_defs free_captured)
  next
    case (Ct_lock pc)
    then show ?thesis
      using ok at c
      by (cases ev; cases "mergedPC k"; cases "mergedPC_is_fresh k")
        (simp_all add: control_step_def account_defs publish_def free_captured)
  next
    case Ct_merge
    then obtain pc where pc: "mergedPC k = Some pc" using ok(3) by auto
    then have "captured_cloud pc" using ok by simp
    then obtain ps where ps: "m_pc pc = Some ps" by (auto simp: captured_cloud_def)
    from pc ps show ?thesis
      using at c Ct_merge \<open>captured_cloud pc\<close>
      by (cases ev) (simp_all add: control_step_def account_defs merge_camera_pointclouds_def captured_merge)
  qed (use ok at c in \<open>cases ev; simp add: control_step_def account_defs accounted_log split: if_splits\<close>)+
qed

end
