(* ===== verification/KinectRuns.thy ===== *)
theory KinectRuns
  imports KinectThread
begin

text \<open>
  Executions of a Kinect capturer (theories \<open>KinectCapture\<close> and \<open>KinectThread\<close>): where every cloud
  goes, what one round of the control thread produces, and when stopping and waiting end.
\<close>

section \<open>What the other calls do to them\<close>

definition same_clouds :: "kstate \<Rightarrow> kstate \<Rightarrow> bool" where
  "same_clouds s s' \<longleftrightarrow>
     pc_dangling (fst s') = pc_dangling (fst s) \<and> mergedPC (snd s') = mergedPC (snd s) \<and>
     control_thread (snd s') = control_thread (snd s) \<and>
     (control_thread (snd s) \<noteq> None \<longrightarrow> mergedPC_is_fresh (snd s') = mergedPC_is_fresh (snd s))"

lemma same_clouds_refl [simp]: "same_clouds s s" by (simp add: same_clouds_def)

lemma same_clouds_log: "same_clouds s (w, k) \<Longrightarrow> same_clouds s (k_log l m w, k)"
  by (simp add: same_clouds_def)

lemma same_clouds_trans: "same_clouds s s1 \<Longrightarrow> same_clouds s1 s2 \<Longrightarrow> same_clouds s s2"
  by (simp add: same_clouds_def)

lemma config_log_dangling [simp]:
  "pc_dangling (inline_error m w) = pc_dangling w" "pc_dangling (file_error l f m w) = pc_dangling w"
  "pc_dangling (snd (cwipc_log_get_level w)) = pc_dangling w" "pc_dangling (w\<lparr>files := fs\<rparr>) = pc_dangling w"
  by (simp_all add: inline_error_def file_error_def accounted_log cwipc_log_get_level_def dangling_defs Let_def)

lemma fast_reload_error_dangling [simp]: "pc_dangling (fast_reload_error a b w) = pc_dangling w"
  unfolding fast_reload_error_def by (rule k_log_dangling)

lemma from_json_dangling: "pc_dangling (fst (snd (k4a_from_json lib j (w, c)))) = pc_dangling w"
  by (simp add: k4a_from_json_def accounted_log split: prod.split)

lemma from_string_dangling:
  "pc_dangling (fst (snd (k4a_from_string lib pj what b ty (w, c)))) = pc_dangling w"
  using from_json_dangling [of lib _ w c]
  by (auto simp: k4a_from_string_def Let_def split: option.split prod.split) (metis fst_conv snd_conv)+

lemma from_file_dangling:
  "pc_dangling (fst (snd (k4a_from_file lib pj what f ty (w, c)))) = pc_dangling w"
proof -
  have j: "k4a_from_json lib j (w1, c1) = (ok, w2, c2) \<Longrightarrow> pc_dangling w2 = pc_dangling w1" for j w1 c1 ok w2 c2
    using from_json_dangling [of lib j w1 c1] by simp
  show ?thesis
    by (auto simp: k4a_from_file_def Let_def split: option.split prod.split if_splits dest: j)
qed

lemma on_configuration_same:
  assumes "\<And>w c. pc_dangling (fst (snd (rd (w, c)))) = pc_dangling w"
  shows "same_clouds s (snd (on_configuration rd s))"
proof -
  obtain w k where s: "s = (w, k)" by (cases s)
  show ?thesis
    using assms [of w "configuration k"]
    by (cases "rd (w, configuration k)") (simp add: s on_configuration_def same_clouds_def split: prod.split)
qed

lemma call_cameras_fields [simp]:
  "mergedPC (call_cameras f P k) = mergedPC k" "control_thread (call_cameras f P k) = control_thread k"
  "mergedPC_is_fresh (call_cameras f P k) = mergedPC_is_fresh k" "cameras (call_cameras f P k) = cameras k"
  "configuration (call_cameras f P k) = configuration k" "stopped (call_cameras f P k) = stopped k"
  by (simp_all add: call_cameras_def)

lemma stop_joined_result:
  assumes "stop_joined dump bytes (w, k) = Inr (w', k')"
  shows "pc_dangling w' = pc_dangling w" and "mergedPC k' = mergedPC k"
    and "k' = k \<or> control_thread k' = None"
  using assms
  by (auto simp: stop_joined_def post_stop_all_cameras_def Let_def split: if_splits sum.splits)

lemma stop_notify_result:
  "pc_dangling (fst (stop_notify (w, k))) = pc_dangling w"
  "mergedPC (snd (stop_notify (w, k))) = mergedPC k"
  "mergedPC_is_fresh (snd (stop_notify (w, k))) = mergedPC_is_fresh k"
  "control_thread k = None \<Longrightarrow> control_thread (snd (stop_notify (w, k))) = None"
  by (simp_all add: stop_notify_def notify_want_new_def)

lemma unload_same:
  assumes "unload_cameras dump bytes (w, k) = Inr s'" and "control_thread k = None"
  shows "same_clouds (w, k) s'"
proof -
  obtain w1 k1 where n: "stop_notify (w, stop_begin k) = (w1, k1)" by (cases "stop_notify (w, stop_begin k)")
  obtain w' k' where s': "s' = (w', k')" by (cases s')
  have b: "mergedPC (stop_begin k) = mergedPC k" "control_thread (stop_begin k) = control_thread k"
    by (simp_all add: stop_begin_def)
  have "stop_joined dump bytes (w1, k1) = Inr (w', k')"
    using assms(1) by (simp add: unload_cameras_def n s')
  from stop_joined_result [OF this] show ?thesis
    using stop_notify_result [where w = w and k = "stop_begin k"] b assms(2) by (auto simp: n s' same_clouds_def)
qed

lemma auto_config_same:
  "same_clouds s (snd (auto_config_loop ds (b, s)))"
proof (induction ds arbitrary: b s)
  case Nil
  then show ?case by simp
next
  case (Cons d ds)
  obtain w k where s: "s = (w, k)" by (cases s)
  have "same_clouds s (snd (auto_config_loop ds (b', w', k')))" if "same_clouds s (w', k')" for b' w' k'
    using Cons.IH [of "(w', k')" b'] that same_clouds_trans by blast
  then show ?case by (simp add: s same_clouds_def split: option.split)
qed

lemma apply_config_same:
  assumes "apply_config io dump bytes ds f (w, k) = Inr (ok, s')" and "control_thread k = None"
  shows "same_clouds (w, k) s'"
proof -
  define name where "name = (case f of None \<Rightarrow> ''cameraconfig.json''
                  | Some n \<Rightarrow> if n = [] then ''cameraconfig.json'' else n)"
  define k1 where "k1 = k\<lparr>configurationCurrentFilename := name\<rparr>"
  define k2 where "k2 = k\<lparr>configurationCurrentFilename := []\<rparr>"
  have s: "same_clouds (w, k) (w, k1)" "same_clouds (w, k) (w, k2)"
    by (simp_all add: same_clouds_def k1_def k2_def)
  have auto_c: "same_clouds (w, k) s'" if "apply_auto_config dump bytes ds (w, k2) = Inr (ok, s')"
  proof -
    obtain b w3 k3 where l: "auto_config_loop ds (False, w, k2) = (b, w3, k3)"
      by (metis prod.exhaust)
    have l3: "same_clouds (w, k) (w3, k3)"
      using auto_config_same [of "(w, k2)" ds False] s(2) same_clouds_trans unfolding l by auto
    then have "control_thread k3 = None" using assms(2) by (simp add: same_clouds_def)
    then show ?thesis
      using that l3 unload_same [of dump bytes w3 k3] same_clouds_trans [OF l3]
      by (auto simp: apply_auto_config_def l map_sum_Inr same_clouds_def split: if_splits)
  qed
  have str: "same_clouds (w, k) (snd (on_configuration (k4a_from_string lib pj what b ty) (w, k2)))"
    for lib pj what b ty
    using same_clouds_trans [OF s(2) on_configuration_same [OF from_string_dangling]] .
  have fil: "same_clouds (w, k) (snd (on_configuration (k4a_from_file lib pj what b ty) (w, k1)))"
    for lib pj what b ty
    using same_clouds_trans [OF s(1) on_configuration_same [OF from_file_dangling]] .
  note r = assms(1) [unfolded apply_config_def Let_def prod.case, folded name_def, folded k1_def k2_def]
  show ?thesis
  proof (cases "name = ''auto''")
    case True
    with r auto_c show ?thesis by simp
  next
    case auto_f: False
    show ?thesis
    proof (cases "hd name = CHR ''{''")
      case True
      then have "on_configuration (k4a_from_string (cio_lib io) (cio_parse io) (cio_what io) name ''kinect'') (w, k2)
          = (ok, s')"
        using r auto_f by simp
      then show ?thesis
        using str [of "cio_lib io" "cio_parse io" "cio_what io" name "''kinect''"] by (metis snd_conv)
    next
      case lit_f: False
      show ?thesis
      proof (cases "strrchr_dot name = Some ''.json''")
        case True
        then have "on_configuration (k4a_from_file (cio_lib io) (cio_parse_bytes io) (cio_what io) name ''kinect'')
            (w, k1) = (ok, s')"
          using r auto_f lit_f by simp
        then show ?thesis
          using fil [of "cio_lib io" "cio_parse_bytes io" "cio_what io" name "''kinect''"] by (metis snd_conv)
      next
        case False
        then have "s' = (k_log CWIPC_LOG_LEVEL_ERROR
            (''Unknown configuration file type: '' @ [CHR 0x27] @ name @ [CHR 0x27]) w, k1)"
          using r auto_f lit_f by (simp only: if_False sum.inject prod.inject)
        then show ?thesis using same_clouds_log [OF s(1)] by (simp only:)
      qed
    qed
  qed
qed

lemma reload_finish_same: "same_clouds s (snd (reload_finish s))"
  by (simp add: reload_finish_def same_clouds_def install_k4a_logger_def uninstall_k4a_logger_def Let_def
      split: prod.split)

lemma config_reload_same:
  assumes "config_reload io dump bytes ds f (w, k) = Inr (ok, s')"
  shows "same_clouds (w, k) s'"
proof (cases "control_thread k = None")
  case True
  obtain ok1 w1 k1 where a: "apply_config io dump bytes ds f (w, putenv_k4a k) = Inr (ok1, w1, k1)"
    using assms True by (auto simp: config_reload_def split: sum.splits)
  have "same_clouds (w, putenv_k4a k) (w1, k1)"
    by (rule apply_config_same [OF a]) (simp add: putenv_k4a_def True)
  then have s1: "same_clouds (w, k) (w1, k1)" by (simp add: same_clouds_def putenv_k4a_def True)
  have "same_clouds (w1, k1) s'"
    using assms True reload_finish_same [of "(w1, k1)"]
    by (cases ok1) (auto simp: config_reload_def a same_clouds_def)
  with s1 show ?thesis by (rule same_clouds_trans)
next
  case False
  then have "s' = (k_log CWIPC_LOG_LEVEL_ERROR
      ''config_reload: cannot reload configuration while capturer is running'' w, k)"
    using assms unfolding config_reload_def by (simp only: prod.case if_True sum.inject prod.inject not_False_eq_True)
  then show ?thesis using same_clouds_log [OF same_clouds_refl] by (simp only:)
qed

lemma config_reload_fast_same:
  assumes "config_reload_fast io f (w, k) = Inr (ok, s')"
  shows "same_clouds (w, k) s'"
proof -
  obtain name where f: "f = Some name"
    using assms by (cases f) (simp_all add: config_reload_fast_def Let_def)
  obtain success w1 c1 where r: "read_new_configuration io name w = (success, w1, c1)" by (metis prod.exhaust)
  have "pc_dangling (fst (snd (read_new_configuration io name w))) = pc_dangling w"
    by (simp add: read_new_configuration_def from_string_dangling from_file_dangling)
  then have "pc_dangling w1 = pc_dangling w" by (simp add: r)
  moreover have "pc_dangling (fst s') = pc_dangling w1 \<and> mergedPC (snd s') = mergedPC k \<and>
      control_thread (snd s') = control_thread k \<and> mergedPC_is_fresh (snd s') = mergedPC_is_fresh k"
    using assms by (auto simp: config_reload_fast_def f r Let_def putenv_k4a_def split: if_splits)
  ultimately show ?thesis by (simp add: same_clouds_def)
qed

lemma get_camera_config_world:
  "get_camera_config s k w = (i, w') \<Longrightarrow> pc_dangling w' = pc_dangling w"
  by (auto simp: get_camera_config_def split: option.splits)

lemma create_cameras_same:
  "create_cameras ds (w, k) = Inr (b, s') \<Longrightarrow> same_clouds (w, k) s'"
proof (induction ds arbitrary: w k)
  case Nil
  then show ?case by simp
next
  case (Cons d ds)
  show ?case
  proof (cases "dev_serial d")
    case None
    then show ?thesis
      using Cons.prems by (auto simp: k_error_def same_clouds_def split: if_splits)
  next
    case (Some serial)
    obtain i w1 where g: "get_camera_config serial k w = (i, w1)"
      by (metis prod.exhaust)
    note w1 = get_camera_config_world [OF g]
    have IH: "create_cameras ds (w1, k1) = Inr (b, s') \<Longrightarrow> mergedPC k1 = mergedPC k \<Longrightarrow>
       control_thread k1 = control_thread k \<Longrightarrow> mergedPC_is_fresh k1 = mergedPC_is_fresh k \<Longrightarrow>
       same_clouds (w, k) s'" for k1
      using Cons.IH [of w1 k1] w1 by (simp add: same_clouds_def)
    have err: "same_clouds (w, k) s'" if "k_error msg (w', k) = Inr (b, s')" "pc_dangling w' = pc_dangling w" for msg w'
      using that by (auto simp: k_error_def same_clouds_def)
    have sc: "mergedPC (set_connected j k1) = mergedPC k1" "control_thread (set_connected j k1) = control_thread k1"
      "mergedPC_is_fresh (set_connected j k1) = mergedPC_is_fresh k1" for j k1
      by (simp_all add: set_connected_def Let_def)
    show ?thesis
    proof (cases i)
      case None
      then show ?thesis
        using Cons.prems Some g err w1 by (simp split: if_splits)
    next
      case i: (Some j)
      then show ?thesis
        using Cons.prems Some g err w1 IH sc by (simp add: Let_def split: if_splits sum.splits)
    qed
  qed
qed

lemma k_start_result:
  assumes "k_start dump bytes ds pre_ok start_ok (w, k) = Inr (ok, w', k')"
  shows "pc_dangling w' = pc_dangling w \<and> mergedPC k' = mergedPC k \<and>
    (if ok then control_thread k = None \<and> control_thread k' = Some Ct_begin
     else same_clouds (w, k) (w', k'))"
proof (cases "can_start k \<and> \<not> is_playing k")
  case False
  then show ?thesis
    using assms by (auto simp: k_start_def k_error_def same_clouds_def split: if_splits)
next
  case True
  then have n: "control_thread k = None" by (simp add: is_playing_def)
  obtain created w1 k1 where c: "create_cameras ds (w, k) = Inr (created, w1, k1)"
    using assms True by (auto simp: k_start_def split: sum.splits)
  note s1 = create_cameras_same [OF c]
  then have n1: "control_thread k1 = None" using n by (simp add: same_clouds_def)
  obtain connected w2 k2 where h: "check_cameras_connected (w1, k1) = (connected, w2, k2)"
    by (metis prod.exhaust)
  have s2: "pc_dangling w2 = pc_dangling w1" "k2 = k1"
    using h by (auto simp: check_cameras_connected_def split: option.splits)
  obtain b w3 k3 where t: "start_cameras pre_ok start_ok (w2, k2) = (b, w3, k3)"
    by (metis prod.exhaust)
  have s3: "pc_dangling w3 = pc_dangling w2" "mergedPC k3 = mergedPC k2"
    using t by (auto simp: start_cameras_def Let_def split: if_splits)
  have start: "k_start dump bytes ds pre_ok start_ok (w, k) =
      (if \<not> created then map_sum id (Pair False) (unload_cameras dump bytes (w1, k1))
       else if \<not> connected then map_sum id (Pair False) (unload_cameras dump bytes (w2, k2))
       else Inr (True, w3, k3\<lparr>stopped := False, control_thread := Some Ct_begin\<rparr>))"
    using True by (simp add: k_start_def c h t)
  have fail: "\<not> ok \<and> same_clouds (w, k) (w', k')"
    if "map_sum id (Pair False) (unload_cameras dump bytes (wx, k1)) = Inr (ok, w', k')"
      "pc_dangling wx = pc_dangling w1" for wx
  proof -
    from that(1) have u: "unload_cameras dump bytes (wx, k1) = Inr (w', k')" "\<not> ok"
      by (auto simp: map_sum_Inr)
    from unload_same [OF u(1) n1] show ?thesis
      using u(2) s1 that(2) by (simp add: same_clouds_def n n1)
  qed
  consider "\<not> created" | "created" "\<not> connected" | "created" "connected" by blast
  then show ?thesis
  proof cases
    case 1
    then show ?thesis using assms start fail [of w1] by (simp add: same_clouds_def)
  next
    case 2
    then show ?thesis using assms start fail [of w2] s2 by (simp add: same_clouds_def)
  next
    case 3
    then have "ok \<and> w' = w3 \<and> k' = k3\<lparr>stopped := False, control_thread := Some Ct_begin\<rparr>"
      using assms start by simp
    then show ?thesis using s1 s2 s3 n by (simp add: same_clouds_def)
  qed
qed

section \<open>The invariant of an execution\<close>

text \<open>\<open>D\<close> is the number of clouds in the process that are not the capturer's.\<close>

definition kr_inv :: "int \<Rightarrow> k_run \<Rightarrow> bool" where
  "kr_inv D r \<longleftrightarrow>
     pc_dangling (kr_world r) = D + capture_holds (kr_capture r) + int (length (kr_got r)) + int (kr_lost r) \<and>
     capture_ok (kr_capture r) \<and>
     (kr_starts r = 0 \<longrightarrow> mergedPC (kr_capture r) = None \<and> control_thread (kr_capture r) = None) \<and>
     (if pending_loss (kr_capture r) then kr_lost r + 2 \<le> kr_starts r
      else kr_lost r = 0 \<or> kr_lost r + 1 \<le> kr_starts r)"

lemma kr_inv_init: "kr_inv (pc_dangling w) (kr_init w)"
  by (simp add: kr_inv_def kr_init_def new_capture_def capture_holds_def capture_ok_def pending_loss_def
      carried_by_def)

lemma carried_by_cong: "control_thread k' = control_thread k \<Longrightarrow> carried_by k' = carried_by k"
  by (simp add: carried_by_def)

lemma kr_inv_same:
  assumes "kr_inv D r" and "same_clouds (kr_state r) (w', k')"
  shows "kr_inv D (r\<lparr>kr_world := w', kr_capture := k'\<rparr>)"
proof -
  have s: "pc_dangling w' = pc_dangling (kr_world r)" "mergedPC k' = mergedPC (kr_capture r)"
    "control_thread k' = control_thread (kr_capture r)"
    "control_thread (kr_capture r) \<noteq> None \<Longrightarrow> mergedPC_is_fresh k' = mergedPC_is_fresh (kr_capture r)"
    using assms(2) by (simp_all add: same_clouds_def kr_state_def)
  have "pending_loss k' = pending_loss (kr_capture r)"
    using s by (cases "control_thread (kr_capture r)") (simp_all add: pending_loss_def)
  moreover have "capture_holds k' = capture_holds (kr_capture r)" "capture_ok k' = capture_ok (kr_capture r)"
    using s carried_by_cong [OF s(3)] by (simp_all add: capture_holds_def capture_ok_def)
  ultimately show ?thesis
    using assms(1) s(1-3) by (cases "pending_loss (kr_capture r)") (auto simp: kr_inv_def)
qed

lemma same_worlds:
  "mergedPC k' = mergedPC k \<Longrightarrow> control_thread k' = control_thread k \<Longrightarrow>
   mergedPC_is_fresh k' = mergedPC_is_fresh k \<Longrightarrow> same_clouds (w, k) (w, k')"
  by (simp add: same_clouds_def)

text \<open>A notification only moves a blocked thread; raising the fresh flag or emptying the slot ends a pending loss.\<close>

lemma kr_inv_thread_move:
  assumes "kr_inv D r" and "mergedPC k' = mergedPC (kr_capture r)"
    and "pc_dangling w' = pc_dangling (kr_world r)"
    and "control_thread k' = control_thread (kr_capture r) \<or>
         control_thread (kr_capture r) = Some Ct_blocked \<and> control_thread k' = Some Ct_predicate \<or>
         control_thread k' = None \<and> carried_by (kr_capture r) = None"
    and "mergedPC_is_fresh k' = mergedPC_is_fresh (kr_capture r) \<or> mergedPC_is_fresh k' \<or> control_thread k' = None"
  shows "kr_inv D (r\<lparr>kr_world := w', kr_capture := k'\<rparr>)"
proof -
  have c: "carried_by k' = carried_by (kr_capture r)"
    using assms(4) by (auto simp: carried_by_def)
  have "capture_ok (kr_capture r)" using assms(1) by (simp add: kr_inv_def)
  then have ok: "capture_ok k'"
    using assms(4) by (auto simp: capture_ok_def assms(2) c)
  have p: "pending_loss k' \<longrightarrow> pending_loss (kr_capture r)"
    using assms(4,5) by (auto simp: pending_loss_def assms(2))
  have n: "control_thread (kr_capture r) = None \<longrightarrow> control_thread k' = None"
    using assms(4) by auto
  show ?thesis
    using assms(1) ok p n
    by (cases "pending_loss (kr_capture r)"; cases "pending_loss k'")
      (simp_all add: kr_inv_def capture_holds_def assms(2,3) c)
qed

lemma kr_inv_control:
  assumes "kr_inv D r" and "control_step ev (kr_state r) = Some x"
  shows "\<exists>w' k'. x = Inr (w', k') \<and> kr_inv D (r\<lparr>kr_world := w', kr_capture := k',
    kr_lost := kr_lost r + (if loses_cloud (kr_capture r) then 1 else 0)\<rparr>)"
proof -
  have "capture_ok (kr_capture r)" using assms(1) by (simp add: kr_inv_def)
  from control_step_accounts [OF this, of "kr_world r" ev]
  have o: "step_outcome (kr_state r) (Some x)" using assms(2) by (simp add: kr_state_def)
  then obtain w' k' where x: "x = Inr (w', k')" by (cases x) auto
  have a: "accounted_step (kr_state r) (w', k')" using o x by simp
  have lp: "loses_cloud (kr_capture r) \<Longrightarrow> pending_loss (kr_capture r)"
    by (auto simp: loses_cloud_def pending_loss_def split: option.splits control_at.splits)
  have "control_thread (kr_capture r) \<noteq> None" using a by (simp add: accounted_step_def kr_state_def)
  then have "kr_starts r \<noteq> 0" using assms(1) by (auto simp: kr_inv_def)
  then have "kr_inv D (r\<lparr>kr_world := w', kr_capture := k',
    kr_lost := kr_lost r + (if loses_cloud (kr_capture r) then 1 else 0)\<rparr>)"
    using assms(1) a lp
    by (cases "loses_cloud (kr_capture r)"; cases "pending_loss (kr_capture r)"; cases "pending_loss k'")
      (simp_all add: kr_inv_def accounted_step_def kr_state_def)
  with x show ?thesis by blast
qed

lemma kr_inv_exec:
  assumes "kr_inv D r" and "k_exec e a r = Some (Inr r')"
  shows "kr_inv D r'"
proof -
  define w k where wk: "w = kr_world r" "k = kr_capture r"
  have st: "kr_state r = (w, k)" by (simp add: kr_state_def wk)
  have same: "kr_inv D (kr_set s r)" if "same_clouds (w, k) s" for s
    using kr_inv_same [OF assms(1), of "fst s" "snd s"] that by (simp add: st kr_set_def)
  have same_k: "kr_inv D (r\<lparr>kr_capture := k'\<rparr>)" if "same_clouds (w, k) (w, k')" for k'
    using kr_inv_same [OF assms(1), of w k'] that by (simp add: st wk)
  show ?thesis
  proof (cases a)
    case (K_reload f ds)
    then show ?thesis
      using assms(2) config_reload_same same by (fastforce simp: st map_sum_Inr)
  next
    case (K_reload_fast f)
    then show ?thesis
      using assms(2) config_reload_fast_same same by (fastforce simp: st map_sum_Inr)
  next
    case (K_request_metadata b1 b2 b3 b4 b5)
    then show ?thesis
      using assms(2) same_k [OF same_worlds] by (auto simp: k_request_metadata_def wk)
  next
    case (K_config_get h)
    then obtain t w' k' where g: "k_config_get (ke_dump e) h (w, k) = Inr (t, w', k')" "r' = kr_set (w', k') r"
      using assms(2) by (auto simp: st map_sum_Inr)
    then have "same_clouds (w, k) (w', k')"
      by (auto simp: k_config_get_def same_clouds_def Let_def split: if_splits sum.splits)
    with same g(2) show ?thesis by simp
  next
    case (K_start ds pre_ok start_ok)
    then obtain ok w' k' where g: "k_start (ke_dump e) (ke_bytes e) ds pre_ok start_ok (w, k) = Inr (ok, w', k')"
      "r' = kr_set (w', k') (r\<lparr>kr_starts := kr_starts r + (if ok then 1 else 0)\<rparr>)"
      using assms(2) by (auto simp: st map_sum_Inr)
    from k_start_result [OF g(1)] show ?thesis
    proof (cases ok)
      case False
      with k_start_result [OF g(1)] g(2) same [of "(w', k')"] show ?thesis by (simp add: kr_set_def)
    next
      case True
      then have f: "pc_dangling w' = pc_dangling w" "mergedPC k' = mergedPC k" "control_thread k = None"
        "control_thread k' = Some Ct_begin"
        using k_start_result [OF g(1)] by simp_all
      then have c: "carried_by k' = None" "carried_by k = None" "\<not> pending_loss k"
        by (simp_all add: carried_by_def pending_loss_def)
      have "pending_loss k' \<Longrightarrow> mergedPC k \<noteq> None"
        using f(2) by (simp add: pending_loss_def)
      then show ?thesis
        using assms(1) f c g(2) True
        by (cases "pending_loss k'") (auto simp: kr_inv_def kr_set_def capture_holds_def capture_ok_def simp flip: wk)
    qed
  next
    case K_stop_begin
    then show ?thesis
      using assms(2) kr_inv_thread_move [OF assms(1), of "stop_begin k" w]
      by (simp add: stop_begin_def wk)
  next
    case K_stop_notify
    then show ?thesis
      using assms(2) kr_inv_thread_move [OF assms(1), of "snd (stop_notify (w, k))" "fst (stop_notify (w, k))"]
      by (auto simp: st stop_notify_def notify_want_new_def kr_set_def simp flip: wk)
  next
    case K_stop_join
    then obtain w' k' where j: "stop_joined (ke_dump e) (ke_bytes e) (w, k) = Inr (w', k')" "r' = kr_set (w', k') r"
      and d: "cameras k = [] \<or> control_thread k = None \<or> control_thread k = Some Ct_done"
      using assms(2) by (auto simp: st stop_join_def map_sum_Inr split: option.splits if_splits)
    note f = stop_joined_result [OF j(1)]
    show ?thesis
    proof (cases "cameras k = []")
      case True
      then have "w' = w" "k' = k" using j(1) by (simp_all add: stop_joined_def)
      then show ?thesis using assms(1) j(2) by (simp add: kr_set_def wk)
    next
      case False
      then have "carried_by k = None" using d by (auto simp: carried_by_def)
      then show ?thesis
        using kr_inv_thread_move [OF assms(1), of k' w'] f j(2) by (auto simp: kr_set_def wk)
    qed
  next
    case K_request
    then show ?thesis
      using assms(2) assms(1) kr_inv_thread_move [OF assms(1), of "notify_want_new (k\<lparr>mergedPC_want_new := True\<rparr>)" w]
      by (auto simp: request_new_pointcloud_def notify_want_new_def wk split: if_splits)
  next
    case K_available
    then show ?thesis using assms by auto
  next
    case K_take
    then obtain rv s where g: "get_take (w, k) = Some (rv, s)"
      "r' = kr_set s (r\<lparr>kr_got := kr_got r @ (case rv of None \<Rightarrow> [] | Some pc \<Rightarrow> [pc])\<rparr>)"
      using assms(2) by (auto simp: st)
    have m: "\<not> k_mutex_held k" using g(1) by (auto simp: get_take_def split: if_splits)
    have s: "rv = mergedPC k" "snd s = k\<lparr>mergedPC_is_fresh := False, mergedPC := None\<rparr>"
      "pc_dangling (fst s) = pc_dangling w"
      using g(1) by (auto simp: get_take_def Let_def split: if_splits)
    have "\<forall>at. control_thread k = Some at \<longrightarrow> \<not> merging at"
      using m by (auto simp: k_mutex_held_def merging_def)
    then show ?thesis
      using assms(1) s g(2)
      by (cases "mergedPC k")
        (auto simp: kr_inv_def kr_set_def capture_holds_def capture_ok_def pending_loss_def carried_by_def
          simp flip: wk split: if_splits)
  next
    case (K_camera i ended ps)
    then show ?thesis
      using assms(2) same_k [OF same_worlds] by (auto simp: camera_update_def wk)
  next
    case (K_control ev)
    then obtain x where x: "control_step ev (kr_state r) = Some x" using assms(2) by auto
    from kr_inv_control [OF assms(1) x] obtain w' k' where y: "x = Inr (w', k')"
      "kr_inv D (r\<lparr>kr_world := w', kr_capture := k',
         kr_lost := kr_lost r + (if loses_cloud (kr_capture r) then 1 else 0)\<rparr>)" by blast
    have "r' = r\<lparr>kr_world := w', kr_capture := k',
         kr_lost := kr_lost r + (if loses_cloud (kr_capture r) then 1 else 0)\<rparr>"
      using assms(2) x y(1) K_control by (cases r) (auto simp: kr_set_def)
    with y(2) show ?thesis by simp
  qed
qed

lemma kr_inv_run:
  "kr_inv D r \<Longrightarrow> k_run_actions e as r = Some (Inr r') \<Longrightarrow> kr_inv D r'"
proof (induction as arbitrary: r)
  case Nil
  then show ?case by simp
next
  case (Cons a as)
  then show ?case
    by (auto split: option.splits sum.splits dest: kr_inv_exec)
qed

section \<open>Properties\<close>

text \<open>
  C15. Every cloud a Kinect capturer makes is freed, handed to the client, still held, or lost, and
  no more clouds are lost than the capturer was restarted: a cloud nobody fetched when the capturer
  was stopped is overwritten without being freed by the next run. This holds for every order of
  client calls (of any number of client threads), camera events and steps of the control thread,
  and the control thread never dereferences a null cloud.
\<close>

theorem kinect_clouds_accounted:
  assumes "k_run_actions e as (kr_init w) = Some (Inr r)"
  shows "pc_dangling (kr_world r) = pc_dangling w + capture_holds (kr_capture r) + int (length (kr_got r)) + int (kr_lost r) \<and>
    kr_lost r \<le> kr_starts r - 1 \<and> control_step ev (kr_state r) \<noteq> Some (Inl f)"
proof (intro conjI)
  have inv: "kr_inv (pc_dangling w) r"
    using kr_inv_run [OF kr_inv_init assms] .
  then show "pc_dangling (kr_world r) = pc_dangling w + capture_holds (kr_capture r) + int (length (kr_got r)) + int (kr_lost r)"
    by (simp add: kr_inv_def)
  show "kr_lost r \<le> kr_starts r - 1"
    using inv by (auto simp: kr_inv_def split: if_splits)
  show "control_step ev (kr_state r) \<noteq> Some (Inl f)"
    using kr_inv_control [OF inv, of ev "Inl f"] by auto
qed

section \<open>One round\<close>

lemma run_append:
  "k_run_actions e (as @ bs) r =
     (case k_run_actions e as r of Some (Inr r') \<Rightarrow> k_run_actions e bs r' | x \<Rightarrow> x)"
  by (induction as arbitrary: r) (auto split: option.split sum.split)

lemma capture_all_delivers:
  assumes "\<forall>cam \<in> set (cameras k). \<not> end_of_stream_reached cam"
    and "\<forall>f \<in> set fs. fst f \<noteq> 0 \<and> \<not> snd f" and "i + length fs \<le> length (cameras k)"
  shows "capture_all_cameras fs i t (w, k) =
    ((True, if t = 0 then (if fs = [] then 0 else fst (hd fs)) else t), w, k)"
  using assms(2,3)
proof (induction fs arbitrary: i t)
  case Nil
  then show ?case by simp
next
  case (Cons f fs)
  obtain ts ended where f: "f = (ts, ended)" by (cases f)
  have "\<not> end_of_stream_reached (cameras k ! i)" using assms(1) Cons.prems(2) by simp
  then show ?case using Cons.prems Cons.IH [of "i + 1"] by (simp add: f Let_def)
qed

definition camera_actions :: "pcl_point list list \<Rightarrow> k_action list" where
  "camera_actions clouds = map (\<lambda>i. K_camera i False (Some (clouds ! i))) [0..<length clouds]"

definition round_actions ::
  "(u64 \<times> bool) list \<Rightarrow> u64 \<Rightarrow> metadata_item list \<Rightarrow> pcl_point list list \<Rightarrow> k_action list" where
  "round_actions fs now items clouds =
     map K_control [Run, Run, Run, Frames fs, Create now items, Run, Run, Run, Run]
     @ camera_actions clouds @ map K_control [Run, Run]"

lemma camera_actions_run:
  assumes "length clouds \<le> length (cameras (kr_capture r))"
  shows "\<exists>cams. k_run_actions e (camera_actions clouds) r = Some (Inr (r\<lparr>kr_capture := (kr_capture r)\<lparr>cameras := cams\<rparr>\<rparr>)) \<and>
    length cams = length (cameras (kr_capture r)) \<and>
    (\<forall>i < length clouds. current_pcl_pointcloud (cams ! i) = Some (clouds ! i)) \<and>
    (\<forall>i. length clouds \<le> i \<longrightarrow> cams ! i = cameras (kr_capture r) ! i)"
  using assms
proof (induction clouds rule: rev_induct)
  case Nil
  then show ?case by (intro exI [of _ "cameras (kr_capture r)"]) (simp add: camera_actions_def)
next
  case (snoc c clouds)
  then obtain cams where cams: "k_run_actions e (camera_actions clouds) r =
      Some (Inr (r\<lparr>kr_capture := (kr_capture r)\<lparr>cameras := cams\<rparr>\<rparr>))"
    "length cams = length (cameras (kr_capture r))"
    "\<forall>i < length clouds. current_pcl_pointcloud (cams ! i) = Some (clouds ! i)"
    "\<forall>i. length clouds \<le> i \<longrightarrow> cams ! i = cameras (kr_capture r) ! i" by auto
  have a: "camera_actions (clouds @ [c]) = camera_actions clouds @ [K_camera (length clouds) False (Some c)]"
    by (simp add: camera_actions_def nth_append)
  define n where "n = length clouds"
  let ?cams = "cams[n := (cams ! n)\<lparr>end_of_stream_reached := False, current_pcl_pointcloud := Some c\<rparr>]"
  show ?case
    using snoc.prems cams
    by (intro exI [of _ ?cams]) (auto simp: a run_append camera_update_def n_def nth_list_update nth_append)
qed

lemma merged_all:
  assumes "length cams = length clouds" and "\<forall>i < length clouds. current_pcl_pointcloud (cams ! i) = Some (clouds ! i)"
  shows "merged_points cams = concat clouds"
proof -
  have "map (\<lambda>cam. case current_pcl_pointcloud cam of None \<Rightarrow> [] | Some ps \<Rightarrow> ps) cams = clouds"
    using assms by (intro nth_equalityI) simp_all
  then show ?thesis by (simp add: merged_points_def)
qed

definition new_cloud :: "u64 \<Rightarrow> metadata_item list \<Rightarrow> pcl_point list \<Rightarrow> cwipc_obj" where
  "new_cloud ts items ps = \<lparr>pc_class = Cwipc_impl, m_timestamp = ts, m_cellsize = f32_zero, m_pc = Some ps,
     m_metadata = (if items = [] then None else Some items), m_points = None, m_points_size = 0\<rparr>"

lemma create_new_cloud: "\<exists>w'. create_pc ts items w = Inr (new_cloud ts items [], w')"
  by (simp add: create_pc_def cwipc_from_pcl_def api_version_bad_def CWIPC_API_VERSION_def
      CWIPC_API_VERSION_OLD_def new_cwipc_impl_def access_metadata_def new_cloud_def Let_def)

fun control_run :: "control_event list \<Rightarrow> kstate \<Rightarrow> (fault + kstate) option" where
  "control_run [] s = Some (Inr s)"
| "control_run (ev # evs) s =
     (case control_step ev s of
        None \<Rightarrow> None | Some (Inl f) \<Rightarrow> Some (Inl f) | Some (Inr s') \<Rightarrow> control_run evs s')"

lemma control_run_append:
  "control_run es s = Some (Inr s1) \<Longrightarrow> control_run (es @ fs) s = control_run fs s1"
  by (induction es arbitrary: s) (auto split: option.splits sum.splits)

lemma control_run_actions:
  "control_run evs (kr_state r) = Some (Inr s) \<Longrightarrow>
     \<exists>l. k_run_actions e (map K_control evs) r = Some (Inr (kr_set s (r\<lparr>kr_lost := l\<rparr>)))"
proof (induction evs arbitrary: r)
  case Nil
  then show ?case by (intro exI [of _ "kr_lost r"]) (auto simp: kr_state_def kr_set_def)
next
  case (Cons ev evs)
  then obtain s1 where s1: "control_step ev (kr_state r) = Some (Inr s1)" "control_run evs s1 = Some (Inr s)"
    by (auto split: option.splits sum.splits)
  let ?r = "kr_set s1 (r\<lparr>kr_lost := kr_lost r + (if loses_cloud (kr_capture r) then 1 else 0)\<rparr>)"
  have "kr_state ?r = s1" by (simp add: kr_state_def kr_set_def)
  with Cons.IH [of ?r] s1 show ?case by (auto simp: kr_set_def)
qed

lemma take_fresh:
  assumes "\<not> k_mutex_held (kr_capture r)" and "mergedPC_is_fresh (kr_capture r)"
    and "mergedPC (kr_capture r) = Some pc"
  shows "\<exists>r'. k_exec e K_take r = Some (Inr r') \<and> kr_got r' = kr_got r @ [pc] \<and>
    control_thread (kr_capture r') = control_thread (kr_capture r)"
  using assms by (simp add: get_take_def kr_state_def kr_set_def Let_def)

text \<open>The control thread up to the point where it waits for the cameras.\<close>

lemma round_published:
  assumes "control_thread (kr_capture r) = Some Ct_test" and "\<not> stopped (kr_capture r)"
    and "mergedPC_want_new (kr_capture r)"
    and "\<forall>cam \<in> set (cameras (kr_capture r)). \<not> end_of_stream_reached cam"
    and "\<forall>f \<in> set fs. fst f \<noteq> 0 \<and> \<not> snd f" and "fs \<noteq> []"
    and "length fs = length (cameras (kr_capture r))"
    and "pc = new_cloud (if new_timestamps (configuration (kr_capture r)) then now else fst (hd fs)) items []"
  shows "\<exists>w2 l. k_run_actions e (map K_control [Run, Run, Run, Frames fs, Create now items, Run, Run, Run, Run]) r =
    Some (Inr (kr_set (w2, at_control Ct_waiting ((kr_capture r)\<lparr>mergedPC := Some pc\<rparr>)) (r\<lparr>kr_lost := l\<rparr>)))"
proof -
  define k w where kw: "k = kr_capture r" "w = kr_world r"
  note a = assms(1-7) [folded kw]
  have ne: "\<not> list_ex end_of_stream_reached (cameras k)" using a(4) by (auto simp: list_ex_iff)
  have cap: "capture_all_cameras fs 0 0 (w1, at_control Ct_capture k) =
      ((True, fst (hd fs)), w1, at_control Ct_capture k)" for w1
    using capture_all_delivers [of "at_control Ct_capture k" fs 0 0 w1] a(4-7) by simp
  define ts where "ts = (if new_timestamps (configuration k) then now else fst (hd fs))"
  have pc: "pc = new_cloud ts items []" using assms(8) by (simp add: ts_def kw)
  obtain w1 where c: "create_pc ts items (k_log_debug k (''creating pc with ts='' @ to_string (uint ts)) w)
      = Inr (pc, w1)"
    using create_new_cloud unfolding pc by blast
  have dbg: "k_log_debug (at_control at k) = k_log_debug k" for at
    by (intro ext) (simp add: k_log_debug_def)
  obtain w2 where p: "publish pc (w1, at_control (Ct_lock pc) k) =
     (w2, (at_control (Ct_lock pc) k)\<lparr>mergedPC := Some pc\<rparr>)"
    by (simp add: publish_def)
  have at_at: "at_control a (at_control b k') = at_control a k'" for a b k'
    by (simp add: at_control_def)
  have s1: "control_run [Run, Run, Run] (w, k) = Some (Inr (w, at_control Ct_capture k))"
    using a ne by (simp add: control_step_def at_at)
  have s2: "control_run [Frames fs, Create now items] (w, at_control Ct_capture k) =
      Some (Inr (w1, at_control (Ct_new pc) k))"
    using a cap c by (simp add: control_step_def at_at dbg ts_def Let_def cong: if_cong)
  have s3: "control_run [Run, Run, Run, Run] (w1, at_control (Ct_new pc) k) =
      Some (Inr (w2, at_control Ct_waiting (k\<lparr>mergedPC := Some pc\<rparr>)))"
    using a p by (simp add: control_step_def at_at) (simp add: at_control_def)
  have "control_run ([Run, Run, Run] @ [Frames fs, Create now items] @ [Run, Run, Run, Run]) (w, k) =
      Some (Inr (w2, at_control Ct_waiting (k\<lparr>mergedPC := Some pc\<rparr>)))"
    unfolding control_run_append [OF s1] control_run_append [OF s2] by (rule s3)
  then have "control_run [Run, Run, Run, Frames fs, Create now items, Run, Run, Run, Run] (kr_state r) =
      Some (Inr (w2, at_control Ct_waiting (k\<lparr>mergedPC := Some pc\<rparr>)))"
    by (simp only: append_Cons append_Nil kr_state_def kw)
  from control_run_actions [OF this] show ?thesis unfolding kw by blast
qed

text \<open>
  C24. A round of the control thread, whatever state the capturer was left in: when a cloud is wanted
  and every camera delivers a frame set, the client gets one new cloud with the points of all
  cameras in their order, the time stamp of the first camera (or the current time when the
  configuration asks for it) and the metadata of the cameras.
\<close>

theorem kinect_round_merges_cameras:
  assumes "control_thread (kr_capture r) = Some Ct_test" and "\<not> stopped (kr_capture r)"
    and "mergedPC_want_new (kr_capture r)"
    and "\<forall>cam \<in> set (cameras (kr_capture r)). \<not> end_of_stream_reached cam"
    and "\<forall>f \<in> set fs. fst f \<noteq> 0 \<and> \<not> snd f" and "fs \<noteq> []"
    and "length fs = length (cameras (kr_capture r))" and "length clouds = length (cameras (kr_capture r))"
  shows "\<exists>r' pc. k_run_actions e (round_actions fs now items clouds @ [K_take]) r = Some (Inr r') \<and>
    kr_got r' = kr_got r @ [pc] \<and> m_pc pc = Some (concat clouds) \<and>
    m_timestamp pc = (if new_timestamps (configuration (kr_capture r)) then now else fst (hd fs)) \<and>
    m_metadata pc = (if items = [] then None else Some items) \<and>
    control_thread (kr_capture r') = Some Ct_test"
proof -
  define k where "k = kr_capture r"
  note a = assms [folded k_def]
  define pc where "pc = new_cloud (if new_timestamps (configuration k) then now else fst (hd fs)) items []"
  define k1 where "k1 = at_control Ct_waiting (k\<lparr>mergedPC := Some pc\<rparr>)"
  define evs where "evs = [Run, Run, Run, Frames fs, Create now items, Run, Run, Run, Run]"
  obtain w2 l where r1: "k_run_actions e (map K_control evs) r =
      Some (Inr (kr_set (w2, k1) (r\<lparr>kr_lost := l\<rparr>)))"
    using round_published [OF assms(1-7), of pc now items e] by (auto simp: evs_def k1_def k_def pc_def)
  define r1 where "r1 = kr_set (w2, k1) (r\<lparr>kr_lost := l\<rparr>)"
  have len: "length (cameras k1) = length clouds" using a by (simp add: k1_def)
  obtain cams where cams: "k_run_actions e (camera_actions clouds) r1 =
      Some (Inr (r1\<lparr>kr_capture := k1\<lparr>cameras := cams\<rparr>\<rparr>))" "length cams = length clouds"
    "\<forall>i < length clouds. current_pcl_pointcloud (cams ! i) = Some (clouds ! i)"
    using camera_actions_run [of clouds r1 e] len by (auto simp: r1_def kr_set_def)
  define pc2 where "pc2 = pc\<lparr>m_pc := Some (concat clouds)\<rparr>"
  define r2 where "r2 = r1\<lparr>kr_capture := k1\<lparr>cameras := cams\<rparr>\<rparr>"
  obtain w3 where "control_run [Run, Run] (w2, k1\<lparr>cameras := cams\<rparr>) = Some (Inr (w3, at_control Ct_test
      (k1\<lparr>cameras := cams, mergedPC := Some pc2, mergedPC_is_fresh := True, mergedPC_want_new := False\<rparr>)))"
    using a merged_all [OF cams(2,3)]
    by (simp add: control_step_def k1_def at_control_def merge_camera_pointclouds_def pc_def new_cloud_def pc2_def)
  moreover have "kr_state r2 = (w2, k1\<lparr>cameras := cams\<rparr>)"
    by (simp add: r2_def r1_def kr_state_def kr_set_def)
  ultimately obtain l2 where r3: "k_run_actions e (map K_control [Run, Run]) r2 = Some (Inr (kr_set (w3, at_control Ct_test
      (k1\<lparr>cameras := cams, mergedPC := Some pc2, mergedPC_is_fresh := True, mergedPC_want_new := False\<rparr>))
      (r2\<lparr>kr_lost := l2\<rparr>)))"
    using control_run_actions [of "[Run, Run]" r2 _ e] by auto
  define r3 where "r3 = kr_set (w3, at_control Ct_test
      (k1\<lparr>cameras := cams, mergedPC := Some pc2, mergedPC_is_fresh := True, mergedPC_want_new := False\<rparr>))
      (r2\<lparr>kr_lost := l2\<rparr>)"
  have all: "k_run_actions e (round_actions fs now items clouds) r = Some (Inr r3)"
    unfolding round_actions_def evs_def [symmetric] run_append r1
    by (simp only: option.case sum.case r1_def [symmetric] cams(1) r2_def [symmetric] r3 r3_def [symmetric])
  have "\<not> k_mutex_held (kr_capture r3) \<and> mergedPC_is_fresh (kr_capture r3) \<and>
      mergedPC (kr_capture r3) = Some pc2 \<and> kr_got r3 = kr_got r \<and> control_thread (kr_capture r3) = Some Ct_test"
    by (simp add: r3_def r2_def r1_def kr_set_def k_mutex_held_def)
  with take_fresh [of r3 pc2 e] obtain r' where "k_exec e K_take r3 = Some (Inr r')"
    "kr_got r' = kr_got r @ [pc2]" "control_thread (kr_capture r') = Some Ct_test" by auto
  then have "k_run_actions e (round_actions fs now items clouds @ [K_take]) r = Some (Inr r')
      \<and> kr_got r' = kr_got r @ [pc2] \<and> control_thread (kr_capture r') = Some Ct_test"
    unfolding run_append all by (simp only: option.case sum.case k_run_actions.simps simp_thms)
  then show ?thesis
    by (intro exI [of _ r'] exI [of _ pc2]) (simp add: pc2_def pc_def new_cloud_def k_def)
qed

section \<open>Stopping\<close>

text \<open>The flags are set, and the thread is not (about to be) waiting for a notification.\<close>

definition stopping :: "capture \<Rightarrow> bool" where
  "stopping k \<longleftrightarrow> stopped k \<and> capture_ok k \<and>
     (case control_thread k of None \<Rightarrow> False
      | Some at \<Rightarrow> at \<noteq> Ct_before_block \<and> at \<noteq> Ct_blocked \<and> (at = Ct_predicate \<longrightarrow> mergedPC_want_new k))"

text \<open>The steps that are left.\<close>

definition steps_left :: "capture \<Rightarrow> nat" where
  "steps_left k =
     (case control_thread k of
        None \<Rightarrow> 0
      | Some at \<Rightarrow>
          (case at of
             Ct_done \<Rightarrow> 0 | Ct_exit \<Rightarrow> 1 | Ct_begin \<Rightarrow> 3 | Ct_predicate \<Rightarrow> 3 | Ct_capture \<Rightarrow> 3
           | Ct_lock _ \<Rightarrow> 3 | Ct_merge \<Rightarrow> 3 | _ \<Rightarrow> 2))"

lemma stopping_step:
  assumes "stopping k" and "control_step ev (w, k) = Some x"
  shows "\<exists>w' k'. x = Inr (w', k') \<and> stopping k' \<and> steps_left k' < steps_left k"
proof -
  have ok: "capture_ok k" and st: "stopped k" using assms(1) by (simp_all add: stopping_def)
  from control_step_accounts [OF ok, of w ev] obtain w' k' where x: "x = Inr (w', k')" and ok': "capture_ok k'"
    using assms(2) by (cases x) (auto simp: accounted_step_def)
  obtain at where at: "control_thread k = Some at" "at \<noteq> Ct_before_block" "at \<noteq> Ct_blocked"
    "at = Ct_predicate \<Longrightarrow> mergedPC_want_new k"
    using assms(1) by (auto simp: stopping_def split: option.splits)
  have "stopped k' \<and> (\<exists>at'. control_thread k' = Some at' \<and> at' \<noteq> Ct_before_block \<and> at' \<noteq> Ct_blocked \<and> at' \<noteq> Ct_predicate
      \<and> steps_left k' < steps_left k)"
  proof (cases at)
    case Ct_capture
    then obtain fs where fs: "ev = Frames fs" "length fs = length (cameras k)"
      using assms(2) at by (cases ev) (simp_all add: control_step_def split: if_splits)
    obtain ok_b ts w1 k1 where r: "capture_all_cameras fs 0 0 (w, k) = ((ok_b, ts), w1, k1)"
      by (metis prod.exhaust)
    show ?thesis
      using assms(2) at Ct_capture fs r capture_all_frame [OF r] st x
      by (cases ok_b) (auto simp: control_step_def steps_left_def)
  next
    case Ct_merge
    then obtain w1 k1 where m: "merge_camera_pointclouds (w, k) = Inr (w1, k1)"
      using assms(2) at x by (cases ev) (auto simp: control_step_def split: sum.splits)
    obtain pc where "k1 = k\<lparr>mergedPC := Some (pc\<lparr>m_pc := Some (merged_points (cameras k))\<rparr>)\<rparr>"
      using merge_result [OF m] by blast
    then show ?thesis
      using assms(2) at Ct_merge x st m
      by (cases ev) (auto simp: control_step_def steps_left_def)
  qed (use assms(2) at st x in \<open>cases ev; auto simp: control_step_def steps_left_def publish_def Let_def
         split: if_splits prod.splits sum.splits\<close>)+
  then show ?thesis using x ok' by (auto simp: stopping_def)
qed

lemma stopping_enabled:
  assumes "stopping k" and "control_thread k \<noteq> Some Ct_done"
  shows "\<exists>ev x. control_step ev (w, k) = Some x"
proof -
  obtain at where at: "control_thread k = Some at" "at \<noteq> Ct_before_block" "at \<noteq> Ct_blocked" "at \<noteq> Ct_done"
    using assms by (auto simp: stopping_def split: option.splits)
  define ev where "ev = (case at of Ct_capture \<Rightarrow> Frames (replicate (length (cameras k)) (0, False))
      | Ct_captured _ \<Rightarrow> Create 0 [] | _ \<Rightarrow> Run)"
  have "control_step ev (w, k) \<noteq> None"
    using at assms(1) by (cases at) (auto simp: ev_def control_step_def stopping_def Let_def split: prod.split sum.split)
  then show ?thesis by auto
qed

lemma stopping_run:
  assumes "stopping k"
  shows "\<exists>evs w' k'. length evs \<le> steps_left k \<and> control_run evs (w, k) = Some (Inr (w', k')) \<and>
    control_thread k' = Some Ct_done"
  using assms
proof (induction "steps_left k" arbitrary: w k rule: less_induct)
  case less
  show ?case
  proof (cases "control_thread k = Some Ct_done")
    case True
    then show ?thesis by (intro exI [of _ "[]"]) simp
  next
    case False
    from stopping_enabled [OF less.prems this] obtain ev x where x: "control_step ev (w, k) = Some x" by blast
    from stopping_step [OF less.prems this] obtain w1 k1 where s1: "x = Inr (w1, k1)" "stopping k1"
      "steps_left k1 < steps_left k" by blast
    from less.hyps [OF s1(3,2), of w1] obtain evs w' k' where "length evs \<le> steps_left k1"
      "control_run evs (w1, k1) = Some (Inr (w', k'))" "control_thread k' = Some Ct_done" by blast
    then show ?thesis
      using x s1 by (intro exI [of _ "ev # evs"]) simp
  qed
qed

lemma stopping_bound:
  "stopping k \<Longrightarrow> control_run evs (w, k) = Some (Inr s') \<Longrightarrow> length evs \<le> steps_left k"
proof (induction evs arbitrary: w k)
  case Nil
  then show ?case by simp
next
  case (Cons ev evs)
  then obtain x where x: "control_step ev (w, k) = Some x" by (auto split: option.splits)
  from stopping_step [OF Cons.prems(1) this] obtain w1 k1 where s1: "x = Inr (w1, k1)" "stopping k1"
    "steps_left k1 < steps_left k" by blast
  then show ?case using Cons.IH [OF s1(2), of w1] Cons.prems(2) x by simp
qed

lemma steps_left_le: "steps_left k \<le> 3"
  by (simp add: steps_left_def split: option.split control_at.split)


text \<open>What no call changes while the control thread exists.\<close>

definition untouched :: "capture \<Rightarrow> capture \<Rightarrow> bool" where
  "untouched k k' \<longleftrightarrow> control_thread k' = control_thread k \<and> mergedPC_want_new k' = mergedPC_want_new k \<and>
     mergedPC_is_fresh k' = mergedPC_is_fresh k \<and> length (cameras k') = length (cameras k)"

definition quiet :: "k_action \<Rightarrow> bool" where
  "quiet a = (case a of K_stop_begin \<Rightarrow> False | K_stop_notify \<Rightarrow> False | K_stop_join \<Rightarrow> False
     | K_take \<Rightarrow> False | K_request \<Rightarrow> False | K_control _ \<Rightarrow> False | _ \<Rightarrow> True)"

lemma quiet_untouched:
  assumes "quiet a" and "control_thread (kr_capture r) \<noteq> None" and "k_exec e a r = Some (Inr r')"
  shows "untouched (kr_capture r) (kr_capture r')"
proof -
  obtain w k where wk: "kr_state r = (w, k)" "kr_capture r = k" by (simp add: kr_state_def)
  have n: "control_thread k \<noteq> None" using assms(2) wk by simp
  show ?thesis
  proof (cases a)
    case (K_reload f ds)
    then show ?thesis
      using assms(3) n by (auto simp: wk config_reload_def kr_set_def untouched_def)
  next
    case (K_reload_fast f)
    then obtain name where f: "f = Some name"
      using assms(3) by (cases f) (auto simp: wk config_reload_fast_def Let_def)
    obtain ok w1 c where "read_new_configuration (ke_io e) name w = (ok, w1, c)" by (metis prod.exhaust)
    then show ?thesis
      using assms(3) K_reload_fast f
      by (auto simp: wk config_reload_fast_def putenv_k4a_def kr_set_def untouched_def Let_def split: if_splits)
  next
    case (K_config_get h)
    then show ?thesis
      using assms(3) by (auto simp: wk k_config_get_def kr_set_def untouched_def Let_def map_sum_Inr
          split: if_splits sum.splits)
  next
    case (K_start ds pre_ok start_ok)
    then show ?thesis
      using assms(3) n
      by (auto simp: wk k_start_def is_playing_def k_error_def kr_set_def untouched_def split: if_splits)
  qed (use assms wk in \<open>auto simp: quiet_def untouched_def k_request_metadata_def camera_update_def\<close>)+
qed

text \<open>
  The wake-up of \<open>stop\<close> can be lost: it sets the flags and notifies without holding the mutex, so
  a control thread that has just found nothing to do and is about to wait sleeps through both. From
  then on, whatever the clients and the cameras do, the thread stays blocked and \<open>stop\<close> stays in its
  join, unless somebody calls \<open>stop\<close> a second time or the condition variable wakes spuriously.
\<close>

theorem kinect_stop_wakeup_lost:
  assumes "control_thread (kr_capture r) = Some Ct_before_block" and "cameras (kr_capture r) \<noteq> []"
    and "k_run_actions e ([K_stop_begin, K_stop_notify, K_control Run] @ as) r = Some (Inr r')"
    and "\<forall>a \<in> set as. a \<noteq> K_stop_begin \<and> a \<noteq> K_stop_notify \<and> a \<noteq> K_control Wake"
  shows "control_thread (kr_capture r') = Some Ct_blocked \<and> k_exec e K_stop_join r' = None"
proof -
  define asleep where "asleep = (\<lambda>k :: capture. control_thread k = Some Ct_blocked \<and> mergedPC_want_new k \<and> cameras k \<noteq> [])"
  have step: "asleep (kr_capture r2)"
    if "asleep (kr_capture r1)" and "k_exec e a r1 = Some (Inr r2)"
      and "a \<noteq> K_stop_begin \<and> a \<noteq> K_stop_notify \<and> a \<noteq> K_control Wake" for a r1 r2
  proof (cases "quiet a")
    case True
    with that quiet_untouched [OF True _ that(2)] show ?thesis
      by (auto simp: asleep_def untouched_def)
  next
    case False
    obtain w k where wk: "kr_state r1 = (w, k)" "kr_capture r1 = k" by (simp add: kr_state_def)
    from False that wk show ?thesis
      by (cases a) (auto simp: quiet_def asleep_def stop_join_def request_new_pointcloud_def get_take_def
          control_step_def kr_set_def Let_def split: if_splits control_event.splits)
  qed
  have run: "asleep (kr_capture r2)"
    if "asleep (kr_capture r1)" and "k_run_actions e as r1 = Some (Inr r2)"
      and "\<forall>a \<in> set as. a \<noteq> K_stop_begin \<and> a \<noteq> K_stop_notify \<and> a \<noteq> K_control Wake" for r1 r2 as
    using that by (induction as arbitrary: r1) (auto split: option.splits sum.splits dest: step)
  obtain r1 where r1: "k_run_actions e [K_stop_begin, K_stop_notify, K_control Run] r = Some (Inr r1)"
    "asleep (kr_capture r1)"
    using assms(1,2) by (simp add: stop_begin_def stop_notify_def notify_want_new_def control_step_def kr_state_def
        kr_set_def asleep_def)
  have "k_run_actions e as r1 = Some (Inr r')"
    using assms(3) unfolding run_append r1(1) by simp
  with run [OF r1(2) _ assms(4)] have a: "asleep (kr_capture r')" by simp
  then show ?thesis by (simp add: asleep_def stop_join_def kr_state_def)
qed

text \<open>
  The end of a recording is not announced: once the control thread has ended on it with no fresh
  cloud, a client waiting in \<open>get_pointcloud\<close> is never served, whatever else happens, until somebody
  stops the capturer.
\<close>

theorem kinect_get_after_eof_blocks:
  assumes "control_thread (kr_capture r) = Some Ct_done" and "\<not> mergedPC_is_fresh (kr_capture r)"
    and "k_run_actions e as r = Some (Inr r')"
    and "\<forall>a \<in> set as. a \<noteq> K_stop_begin \<and> a \<noteq> K_stop_join"
  shows "k_exec e K_take r' = None"
proof -
  define over where "over = (\<lambda>k :: capture. control_thread k = Some Ct_done \<and> \<not> mergedPC_is_fresh k)"
  have step: "over (kr_capture r2)"
    if "over (kr_capture r1)" and "k_exec e a r1 = Some (Inr r2)" and "a \<noteq> K_stop_begin \<and> a \<noteq> K_stop_join" for a r1 r2
  proof (cases "quiet a")
    case True
    with that quiet_untouched [OF True _ that(2)] show ?thesis
      by (auto simp: over_def untouched_def)
  next
    case False
    obtain w k where wk: "kr_state r1 = (w, k)" "kr_capture r1 = k" by (simp add: kr_state_def)
    from False that wk show ?thesis
      by (cases a) (auto simp: quiet_def over_def stop_notify_def request_new_pointcloud_def get_take_def
          control_step_def notify_want_new_def kr_set_def Let_def split: if_splits control_event.splits)
  qed
  have "over (kr_capture r')"
    using assms
  proof (induction as arbitrary: r)
    case Nil
    then show ?case by (simp add: over_def)
  next
    case (Cons a as)
    then obtain r1 where r1: "k_exec e a r = Some (Inr r1)" "k_run_actions e as r1 = Some (Inr r')"
      by (auto split: option.splits sum.splits)
    have "over (kr_capture r1)" using step [OF _ r1(1)] Cons.prems by (simp add: over_def)
    with Cons.IH [OF _ _ r1(2)] Cons.prems(4) show ?case by (simp add: over_def)
  qed
  then show ?thesis by (simp add: over_def get_take_def kr_state_def)
qed

section \<open>A concrete capturer\<close>

definition sample_merge_point :: pcl_point where
  "sample_merge_point = \<lparr>pcl_x = 1, pcl_y = 2, pcl_z = 3, pcl_r = 4, pcl_g = 5, pcl_b = 6, pcl_a = 1\<rparr>"

definition sample_device :: k4a_device where
  "sample_device = \<lparr>dev_opens = True, dev_serial = Some ''0001''\<rparr>"

definition sample_env :: k_env where
  "sample_env = \<lparr>ke_io = \<lparr>cio_lib = sample_lib, cio_parse = (\<lambda>_. None), cio_parse_bytes = (\<lambda>_. None), cio_what = []\<rparr>,
     ke_dump = (\<lambda>_. []), ke_bytes = (\<lambda>_. [])\<rparr>"

definition all_ok :: "nat \<Rightarrow> bool" where "all_ok i = True"

definition sample_setup :: "k_action list" where
  "sample_setup = [K_reload (Some ''auto'') [sample_device], K_start [sample_device] all_ok all_ok, K_request,
     K_control Run]"

definition sample_stop :: "k_action list" where
  "sample_stop = [K_stop_begin, K_stop_notify, K_control Run, K_control Run, K_stop_join]"

text \<open>Two runs; the cloud of the first is not fetched before the capturer is stopped.\<close>

definition sample_session :: "k_action list" where
  "sample_session = sample_setup @ round_actions [(5, False)] 0 [] [[]] @ sample_stop
     @ tl sample_setup @ round_actions [(6, False)] 0 [] [[]] @ [K_take]"

definition outcome :: "k_action list \<Rightarrow> (k_run \<Rightarrow> bool) \<Rightarrow> bool" where
  "outcome as P = (case k_run_actions sample_env as (kr_init (world_init None 0)) of Some (Inr r) \<Rightarrow> P r | _ \<Rightarrow> False)"

lemma outcomeE:
  assumes "outcome as P"
  obtains r where "k_run_actions sample_env as (kr_init (world_init None 0)) = Some (Inr r)" and "P r"
  using assms by (auto simp: outcome_def split: option.splits sum.splits)

lemma sample_setup_runs:
  "outcome sample_setup (\<lambda>r. let k = kr_capture r in control_thread k = Some Ct_test \<and> \<not> stopped k \<and>
     mergedPC_want_new k \<and> length (cameras k) = 1 \<and> list_all (\<lambda>cam. \<not> end_of_stream_reached cam) (cameras k) \<and>
     \<not> new_timestamps (configuration k) \<and> kr_got r = [])"
  by code_simp

lemma sample_session_runs:
  "outcome sample_session (\<lambda>r. length (kr_got r) = 1 \<and> kr_lost r = 1 \<and> kr_starts r = 2)"
  by code_simp

theorem kinect_clouds_accounted_witness:
  "\<exists>r. k_run_actions sample_env sample_session (kr_init (world_init None 0)) = Some (Inr r) \<and>
     pc_dangling (kr_world r) = pc_dangling (world_init None 0) + capture_holds (kr_capture r) + 1 + 1 \<and>
     kr_lost r \<le> 2 - 1 \<and> control_step Run (kr_state r) \<noteq> Some (Inl Null_deref)"
proof -
  obtain r where r: "k_run_actions sample_env sample_session (kr_init (world_init None 0)) = Some (Inr r)"
    "length (kr_got r) = 1 \<and> kr_lost r = 1 \<and> kr_starts r = 2"
    using sample_session_runs by (rule outcomeE)
  from kinect_clouds_accounted [OF r(1), of Run Null_deref] r show ?thesis
    by (intro exI [of _ r]) simp
qed

theorem kinect_round_merges_cameras_witness:
  "\<exists>r r' pc. k_run_actions sample_env sample_setup (kr_init (world_init None 0)) = Some (Inr r) \<and>
     k_run_actions sample_env (round_actions [(5, False)] 0 [] [[sample_merge_point]] @ [K_take]) r = Some (Inr r') \<and>
     kr_got r' = [pc] \<and> m_pc pc = Some [sample_merge_point] \<and> m_timestamp pc = 5"
proof -
  obtain r where r: "k_run_actions sample_env sample_setup (kr_init (world_init None 0)) = Some (Inr r)"
    and k: "control_thread (kr_capture r) = Some Ct_test" "\<not> stopped (kr_capture r)" "mergedPC_want_new (kr_capture r)"
      "length (cameras (kr_capture r)) = 1" "list_all (\<lambda>cam. \<not> end_of_stream_reached cam) (cameras (kr_capture r))"
      "\<not> new_timestamps (configuration (kr_capture r))" "kr_got r = []"
    using sample_setup_runs by (auto simp: Let_def elim!: outcomeE)
  from kinect_round_merges_cameras [OF k(1-3), of "[(5, False)]" "[[sample_merge_point]]" sample_env 0 "[]"]
  show ?thesis using r k by (auto simp: list_all_iff)
qed


definition sample_asleep :: "k_action list" where
  "sample_asleep = [K_reload (Some ''auto'') [sample_device], K_start [sample_device] all_ok all_ok,
     K_control Run, K_control Run, K_control Run]"

lemma sample_asleep_runs:
  "outcome sample_asleep (\<lambda>r. control_thread (kr_capture r) = Some Ct_before_block \<and> length (cameras (kr_capture r)) = 1)"
  by code_simp

theorem kinect_stop_wakeup_lost_witness:
  "\<exists>r r'. k_run_actions sample_env sample_asleep (kr_init (world_init None 0)) = Some (Inr r) \<and>
     k_run_actions sample_env ([K_stop_begin, K_stop_notify, K_control Run] @ [K_available]) r = Some (Inr r') \<and>
     k_exec sample_env K_stop_join r' = None"
proof -
  obtain r where r: "k_run_actions sample_env sample_asleep (kr_init (world_init None 0)) = Some (Inr r)"
    and k: "control_thread (kr_capture r) = Some Ct_before_block" "length (cameras (kr_capture r)) = 1"
    using sample_asleep_runs by (auto elim!: outcomeE)
  have c: "cameras (kr_capture r) \<noteq> []" using k(2) by auto
  obtain r' where r': "k_run_actions sample_env ([K_stop_begin, K_stop_notify, K_control Run] @ [K_available]) r
      = Some (Inr r')"
    using k c by (simp add: stop_begin_def stop_notify_def notify_want_new_def control_step_def kr_state_def
        kr_set_def available_result_def k_mutex_held_def)
  from kinect_stop_wakeup_lost [OF k(1) c r'] r r' show ?thesis by auto
qed

definition sample_eof :: "k_action list" where
  "sample_eof = sample_setup @ [K_camera 0 True None, K_control Run, K_control Run, K_control Run, K_control Run]"

lemma sample_eof_runs:
  "outcome sample_eof (\<lambda>r. control_thread (kr_capture r) = Some Ct_done \<and> \<not> mergedPC_is_fresh (kr_capture r) \<and>
     k_eof (kr_capture r))"
  by code_simp

theorem kinect_get_after_eof_blocks_witness:
  "\<exists>r. k_run_actions sample_env sample_eof (kr_init (world_init None 0)) = Some (Inr r) \<and> k_eof (kr_capture r) \<and>
     k_exec sample_env K_take r = None"
proof -
  obtain r where r: "k_run_actions sample_env sample_eof (kr_init (world_init None 0)) = Some (Inr r)"
    and k: "control_thread (kr_capture r) = Some Ct_done" "\<not> mergedPC_is_fresh (kr_capture r)" "k_eof (kr_capture r)"
    using sample_eof_runs by (auto elim!: outcomeE)
  from kinect_get_after_eof_blocks [OF k(1,2), of sample_env "[]" r] r k show ?thesis by simp
qed

end
