(* ===== verification/KinectSource.thy ===== *)
theory KinectSource
  imports KinectRuns
begin

text \<open>
  The Kinect source as clients see it: \<open>cwipc_capturer_impl_base\<close> of
  \<open>cwipc_util/include/cwipc_util/internal/capturers.hpp\<close> over the capturer of theory
  \<open>KinectCapture\<close>, with \<open>cwipc_kinect/src/cwipc_kinect.cpp\<close>. \<open>free\<close> deletes the capturer and
  leaves a null pointer; some methods test it and others follow it.
\<close>

section \<open>The source\<close>

record kinect_source =
  m_grabber :: "capture option"
  wanted_metadata :: "string set"

record camera_tileinfo =
  ct_normal :: "f32 \<times> f32 \<times> f32"
  ct_cameraName :: "string option"
  ct_ncamera :: u8
  ct_cameraMask :: u8

text \<open>A method that follows the pointer without a test.\<close>

definition with_grabber :: "kinect_source \<Rightarrow> (capture \<Rightarrow> 'a) \<Rightarrow> fault + 'a" where
  "with_grabber src f = (case m_grabber src of None \<Rightarrow> Inl Null_deref | Some k \<Rightarrow> Inr (f k))"

definition ks_can_start :: "kinect_source \<Rightarrow> fault + bool" where
  "ks_can_start src = with_grabber src can_start"

definition ks_is_playing :: "kinect_source \<Rightarrow> fault + bool" where
  "ks_is_playing src = with_grabber src is_playing"

definition ks_eof :: "kinect_source \<Rightarrow> fault + bool" where
  "ks_eof src = with_grabber src k_eof"

definition ks_seek :: "u64 \<Rightarrow> kinect_source \<Rightarrow> bool" where "ks_seek timestamp src = False"

text \<open>What \<open>available\<close> and \<open>get\<close> return without a capturer; with one they are its methods.\<close>

definition ks_available :: "kinect_source \<Rightarrow> kstate \<Rightarrow> bool \<times> kstate" where
  "ks_available src s = (if m_grabber src = None then (False, s) else available_begin s)"

definition ks_get :: "kinect_source \<Rightarrow> kstate \<Rightarrow> bool \<times> kstate" where
  "ks_get src s = (if m_grabber src = None then (False, s) else get_begin s)"

text \<open>\<open>get_config\<close>: the result and the bytes stored in the buffer, if there is one.\<close>

definition ks_get_config ::
  "(json \<Rightarrow> string) \<Rightarrow> k4a_hardware \<Rightarrow> bool \<Rightarrow> u64 \<Rightarrow> world \<times> kinect_source
   \<Rightarrow> fault + (u64 \<times> string) \<times> world \<times> kinect_source" where
  "ks_get_config dump hw has_buffer sz s =
     (case s of (w, src) \<Rightarrow>
      case m_grabber src of
        None \<Rightarrow> Inl Null_deref
      | Some k \<Rightarrow>
          (case k_config_get dump hw (w, k) of
             Inl f \<Rightarrow> Inl f
           | Inr (config, w1, k1) \<Rightarrow>
               let n = size_of_nat (length config); src1 = src\<lparr>m_grabber := Some k1\<rparr>
               in if \<not> has_buffer then Inr ((n, []), w1, src1)
                  else if sz < n then Inr ((0, []), w1, src1)
                  else Inr ((n, config), w1, src1)))"

definition ks_maxtile :: "kinect_source \<Rightarrow> int" where
  "ks_maxtile src =
     (case m_grabber src of
        None \<Rightarrow> 0
      | Some k \<Rightarrow>
          let nCamera = int_of_size (size_of_nat (length (all_camera_configs (configuration k))))
          in if nCamera \<le> 1 then nCamera else nCamera + 1)"

text \<open>The mask is an \<open>int\<close> cut to a byte.\<close>

definition ks_get_tileinfo :: "int \<Rightarrow> bool \<Rightarrow> kinect_source \<Rightarrow> bool \<times> camera_tileinfo option" where
  "ks_get_tileinfo tilenum has_ptr src =
     (case m_grabber src of
        None \<Rightarrow> (False, None)
      | Some k \<Rightarrow>
          let cfgs = all_camera_configs (configuration k);
              nCamera = int_of_size (size_of_nat (length cfgs));
              store = (\<lambda>info. (True, if has_ptr then Some info else None))
          in if nCamera = 0 then (False, None)
             else if tilenum < 0 \<or> tilenum \<ge> nCamera + 1 then (False, None)
             else if tilenum = 0
             then store \<lparr>ct_normal = (0, 0, 0), ct_cameraName = None, ct_ncamera = word_of_int nCamera,
                         ct_cameraMask = 0\<rparr>
             else let cameraConfig = cfgs ! nat (tilenum - 1)
                  in store \<lparr>ct_normal = cam_position cameraConfig, ct_cameraName = Some (cam_serial cameraConfig),
                            ct_ncamera = 1, ct_cameraMask = ucast (push_bit (nat (tilenum - 1)) 1 :: u32)\<rparr>)"

definition ks_request_metadata :: "string \<Rightarrow> kinect_source \<Rightarrow> fault + kinect_source" where
  "ks_request_metadata name src =
     (let wanted = insert name (wanted_metadata src); src1 = src\<lparr>wanted_metadata := wanted\<rparr>
      in case m_grabber src1 of
           None \<Rightarrow> Inl Null_deref
         | Some k \<Rightarrow> Inr (src1\<lparr>m_grabber := Some (k_request_metadata (''rgb'' \<in> wanted) (''depth'' \<in> wanted) False
                             (''skeleton'' \<in> wanted) (''camera'' \<in> wanted) k)\<rparr>))"

text \<open>
  \<open>auxiliary_operation\<close>. \<open>(int)\<close> of a float that has no \<open>int\<close> value is undefined. What the camera's
  \<open>map2d3d\<close> stores is \<open>cam_map\<close>; the depth goes through an \<open>int\<close> parameter.
\<close>

definition int_of_float :: "f32 \<Rightarrow> fault + int" where
  "int_of_float x =
     (if f32_isnan x \<or> f32_isinf x \<or> f32_trunc x < - (2 ^ 31) \<or> 2 ^ 31 \<le> f32_trunc x then Inl Bad_conversion
      else Inr (f32_trunc x))"

fun ints_of_floats :: "f32 list \<Rightarrow> fault + int list" where
  "ints_of_floats [] = Inr []"
| "ints_of_floats (x # xs) =
     (case int_of_float x of Inl f \<Rightarrow> Inl f
      | Inr i \<Rightarrow> (case ints_of_floats xs of Inl f \<Rightarrow> Inl f | Inr is \<Rightarrow> Inr (i # is)))"

definition ks_auxiliary_operation ::
  "(camera \<Rightarrow> int \<Rightarrow> int \<Rightarrow> int \<Rightarrow> u8 list option) \<Rightarrow> string \<Rightarrow> u8 list option \<Rightarrow> u64 \<Rightarrow> bool \<Rightarrow> u64 \<Rightarrow> kinect_source
   \<Rightarrow> fault + bool \<times> u8 list" where
  "ks_auxiliary_operation cam_map opn inbuf insize has_outbuf outsize src =
     (if opn = ''map2d3d'' then
        if inbuf = None \<or> insize \<noteq> 16 then Inr (False, [])
        else if \<not> has_outbuf \<or> outsize \<noteq> 12 then Inr (False, [])
        else (case dec_n dec_u32 4 (the inbuf) of
                None \<Rightarrow> Inl Out_of_bounds
              | Some (infloat, _) \<Rightarrow>
                  (case ints_of_floats infloat of
                     Inl f \<Rightarrow> Inl f
                   | Inr is \<Rightarrow>
                       (case m_grabber src of
                          None \<Rightarrow> Inl Null_deref
                        | Some k \<Rightarrow>
                            (case map2d3d (\<lambda>cam. cam_map cam (is ! 1) (is ! 2) (is ! 3)) (is ! 0) k of
                               None \<Rightarrow> Inr (False, [])
                             | Some out \<Rightarrow> Inr (True, out)))))
      else if opn = ''mapcolordepth'' then
        if inbuf = None \<or> insize \<noteq> 12 then Inr (False, [])
        else if \<not> has_outbuf \<or> outsize \<noteq> 8 then Inr (False, [])
        else (case dec_n dec_u32 3 (the inbuf) of
                None \<Rightarrow> Inl Out_of_bounds
              | Some (inint, _) \<Rightarrow>
                  if m_grabber src = None then Inl Null_deref
                  else (case mapcolordepth (sint (inint ! 0)) (sint (inint ! 1)) (sint (inint ! 2)) of
                          (b, u, v) \<Rightarrow> Inr (b, enc_all enc_u32 [word_of_int u, word_of_int v])))
      else Inr (False, []))"

section \<open>Making one\<close>

definition kinect_version_message :: "u64 \<Rightarrow> string" where
  "kinect_version_message v =
     snprintf_buf 1024 (''cwipc_kinect: incorrect apiVersion 0x'' @ hex08 v @ '' expected 0x''
       @ hex08 CWIPC_API_VERSION_OLD @ ''..0x'' @ hex08 CWIPC_API_VERSION)"

text \<open>The text after the first 13 characters goes to the log as well.\<close>

definition kinect_versioncheck :: "nat option \<Rightarrow> u64 \<Rightarrow> world \<Rightarrow> bool \<times> world" where
  "kinect_versioncheck em v w =
     (if api_version_bad v
      then (False, cwipc_log CWIPC_LOG_LEVEL_ERROR ''cwipc_kinect'' (drop 13 (kinect_version_message v))
                     (set_error_message em (kinect_version_message v) w))
      else (True, w))"

definition unspecified_error :: "nat option \<Rightarrow> world \<Rightarrow> world" where
  "unspecified_error em w =
     (case em of
        None \<Rightarrow> w
      | Some a \<Rightarrow> if errorbufs w a = None then set_error_message em ''cwipc_kinect: unspecified error'' w else w)"

text \<open>
  \<open>cwipc_kinect\<close>. The result of the constructor's \<open>config_reload\<close> is asked back with \<open>can_start\<close>.
\<close>

definition cwipc_kinect ::
  "k_env \<Rightarrow> k4a_device list \<Rightarrow> string option \<Rightarrow> nat option \<Rightarrow> u64 \<Rightarrow> world \<Rightarrow> fault + kinect_source option \<times> world" where
  "cwipc_kinect e devices_l configFilename em v w =
     (case kinect_versioncheck em v w of
        (False, w1) \<Rightarrow> Inr (None, w1)
      | (True, w1) \<Rightarrow>
          (case config_reload (ke_io e) (ke_dump e) (ke_bytes e) devices_l configFilename
                  (cwipc_log_set_errorbuf em w1, new_capture) of
             Inl f \<Rightarrow> Inl f
           | Inr (_, w2, k) \<Rightarrow>
               if can_start k
               then Inr (Some \<lparr>m_grabber = Some k, wanted_metadata = {}\<rparr>, cwipc_log_set_errorbuf None w2)
               else Inr (None, unspecified_error em (cwipc_log_set_errorbuf None (fst (destroy_capture (w2, k)))))))"

section \<open>Properties\<close>

text \<open>
  The tiles of a Kinect source with one to eight cameras: exactly tile 0 and one tile per camera
  are described; tile 0 stands for all cameras, and tile \<open>i\<close> for camera \<open>i - 1\<close> alone, with the bit
  \<open>2 ^ (i - 1)\<close>, its serial number and its position. (From the ninth camera on the mask is 0.)
\<close>

theorem kinect_tiles:
  assumes "m_grabber src = Some k" and "all_camera_configs (configuration k) = cfgs"
    and "1 \<le> length cfgs" and "length cfgs \<le> 8"
  shows "fst (ks_get_tileinfo t b src) = (0 \<le> t \<and> t \<le> int (length cfgs)) \<and>
    ks_get_tileinfo 0 True src = (True, Some \<lparr>ct_normal = (0, 0, 0), ct_cameraName = None,
           ct_ncamera = of_nat (length cfgs), ct_cameraMask = 0\<rparr>) \<and>
    (i < length cfgs \<longrightarrow> ks_get_tileinfo (int i + 1) True src = (True, Some \<lparr>ct_normal = cam_position (cfgs ! i),
           ct_cameraName = Some (cam_serial (cfgs ! i)), ct_ncamera = 1, ct_cameraMask = 2 ^ i\<rparr>))"
proof (intro conjI impI)
  have n: "int_of_size (size_of_nat (length cfgs)) = int (length cfgs)"
    using assms(4) int_of_size_small [of "size_of_nat (length cfgs)"] by simp
  have ne: "cfgs \<noteq> []" using assms(3) by auto
  show "fst (ks_get_tileinfo t b src) = (0 \<le> t \<and> t \<le> int (length cfgs))"
    using assms ne by (auto simp: ks_get_tileinfo_def n Let_def)
  show "ks_get_tileinfo 0 True src = (True, Some \<lparr>ct_normal = (0, 0, 0), ct_cameraName = None,
           ct_ncamera = of_nat (length cfgs), ct_cameraMask = 0\<rparr>)"
    using assms ne by (simp add: ks_get_tileinfo_def n Let_def)
  show "ks_get_tileinfo (int i + 1) True src = (True, Some \<lparr>ct_normal = cam_position (cfgs ! i),
           ct_cameraName = Some (cam_serial (cfgs ! i)), ct_ncamera = 1, ct_cameraMask = 2 ^ i\<rparr>)"
    if "i < length cfgs"
  proof -
    have "i = 0 \<or> i = 1 \<or> i = 2 \<or> i = 3 \<or> i = 4 \<or> i = 5 \<or> i = 6 \<or> i = 7"
      using that assms(4) by linarith
    then have "(ucast (push_bit i 1 :: u32) :: u8) = 2 ^ i"
      by (elim disjE) simp_all
    with that assms ne show ?thesis by (simp add: ks_get_tileinfo_def n Let_def)
  qed
qed

definition sample_source :: kinect_source where
  "sample_source = \<lparr>m_grabber = Some sample_capture, wanted_metadata = {}\<rparr>"

theorem kinect_tiles_witness:
  "ks_get_tileinfo 1 True sample_source = (True, Some \<lparr>ct_normal = cam_position sample_camera,
     ct_cameraName = Some ''0001'', ct_ncamera = 1, ct_cameraMask = 1\<rparr>)"
  using kinect_tiles [of sample_source sample_capture "[sample_camera]" _ _ 0]
  by (simp add: sample_source_def sample_capture_def sample_config_def sample_camera_def)

lemma log_keeps_message: "errorbufs w a \<noteq> None \<Longrightarrow> errorbufs (cwipc_log l m t w) a \<noteq> None"
  by (auto simp: cwipc_log_def Let_def world_simps capture_error_def initialize_def split: option.splits prod.splits)

lemma reload_initialized:
  assumes "config_reload io dump bytes ds f (w, new_capture) = Inr (ok, w', k)" and "is_initialized k"
  shows "all_camera_configs (configuration k) \<noteq> []"
  using assms
  by (auto simp: config_reload_def new_capture_def reload_finish_def install_k4a_logger_def
      uninstall_k4a_logger_def Let_def split: sum.splits if_splits prod.splits)

text \<open>
  A Kinect source is only made when its configuration was accepted: what \<open>cwipc_kinect\<close> returns can
  be started, is not playing and has at least one camera configured. When it returns NULL there is
  always an error message for the caller, whatever failed.
\<close>

theorem kinect_factory:
  assumes "cwipc_kinect e ds conf (Some a) v w = Inr (rv, w')"
  shows "case rv of
      None \<Rightarrow> errorbufs w' a \<noteq> None
    | Some src \<Rightarrow> ks_can_start src = Inr True \<and> ks_is_playing src = Inr False \<and>
        (\<exists>k. m_grabber src = Some k \<and> all_camera_configs (configuration k) \<noteq> [])"
proof (cases "fst (kinect_versioncheck (Some a) v w)")
  case False
  then have bad: "api_version_bad v" by (auto simp: kinect_versioncheck_def split: if_splits)
  then have "rv = None" and "w' = snd (kinect_versioncheck (Some a) v w)"
    using assms False by (auto simp: cwipc_kinect_def split: prod.splits bool.splits)
  moreover have "errorbufs (set_error_message (Some a) (kinect_version_message v) w) a \<noteq> None"
    by (simp add: set_error_message_def)
  ultimately show ?thesis
    using bad log_keeps_message by (simp add: kinect_versioncheck_def)
next
  case True
  then obtain w1 where v: "kinect_versioncheck (Some a) v w = (True, w1)"
    by (cases "kinect_versioncheck (Some a) v w") simp
  obtain ok w2 k where r: "config_reload (ke_io e) (ke_dump e) (ke_bytes e) ds conf
      (cwipc_log_set_errorbuf (Some a) w1, new_capture) = Inr (ok, w2, k)"
    using assms by (auto simp: cwipc_kinect_def v split: sum.splits)
  have n: "control_thread k = None"
    using config_reload_same [OF r] by (simp add: same_clouds_def new_capture_def)
  show ?thesis
  proof (cases "can_start k")
    case True
    then have rv: "rv = Some \<lparr>m_grabber = Some k, wanted_metadata = {}\<rparr>"
      using assms by (simp add: cwipc_kinect_def v r)
    have "all_camera_configs (configuration k) \<noteq> []"
      using reload_initialized [OF r] True by (simp add: can_start_def)
    then show ?thesis
      using True n by (simp add: rv ks_can_start_def ks_is_playing_def with_grabber_def is_playing_def)
  next
    case False
    then have "rv = None" and "w' = unspecified_error (Some a) (cwipc_log_set_errorbuf None (fst (destroy_capture (w2, k))))"
      using assms by (simp_all add: cwipc_kinect_def v r)
    then show ?thesis by (simp add: unspecified_error_def set_error_message_def)
  qed
qed

theorem kinect_factory_witness:
  "\<exists>src w'. cwipc_kinect sample_env [sample_device] (Some ''auto'') (Some 3) CWIPC_API_VERSION (world_init None 0) =
      Inr (Some src, w') \<and> ks_can_start src = Inr True"
proof -
  have "case cwipc_kinect sample_env [sample_device] (Some ''auto'') (Some 3) CWIPC_API_VERSION (world_init None 0) of
      Inr (Some src, w') \<Rightarrow> True | _ \<Rightarrow> False"
    by code_simp
  then obtain src w' where r: "cwipc_kinect sample_env [sample_device] (Some ''auto'') (Some 3) CWIPC_API_VERSION
      (world_init None 0) = Inr (Some src, w')"
    by (auto split: sum.splits option.splits)
  from kinect_factory [OF r] r show ?thesis by auto
qed

text \<open>After \<open>free\<close> the methods that do not test the pointer are undefined.\<close>

lemma kinect_freed_source:
  assumes "m_grabber src = None"
  shows "ks_can_start src = Inl Null_deref" and "ks_eof src = Inl Null_deref"
    and "ks_request_metadata name src = Inl Null_deref"
    and "ks_maxtile src = 0" and "ks_available src s = (False, s)"
  using assms
  by (simp_all add: ks_can_start_def ks_eof_def with_grabber_def ks_request_metadata_def ks_maxtile_def
      ks_available_def Let_def)

end
