(* ===== verification/SnakeGrid.thy ===== *)
theory SnakeGrid
  imports Prelude
begin

text \<open>
  \<open>cwipc_codec/cloud_codec_v2/include/pcl/cloud_codec_v2/snake_grid_mapping.h\<close>: the zigzag
  iterator that lays a list of colours out over an image in blocks of 8 by 8 pixels, and the
  two mappings that use it. Positions and dimensions are \<open>int\<close>s in the code; the images of the
  codec are far from their limits.
\<close>

section \<open>SnakeGridIterator\<close>

record snake_it =
  dim_w :: int
  dim_h :: int
  w_pos :: int
  h_pos :: int
  macro_block_pos_w :: int
  macro_block_pos_h :: int
  to_right :: bool

definition new_snake_it :: "int \<Rightarrow> int \<Rightarrow> snake_it" where
  "new_snake_it w h =
     \<lparr>dim_w = w, dim_h = h, w_pos = 0, h_pos = 0, macro_block_pos_w = 0, macro_block_pos_h = 0,
      to_right = True\<rparr>"

definition reset_snake_it :: "snake_it \<Rightarrow> snake_it" where
  "reset_snake_it it =
     it\<lparr>w_pos := 0, h_pos := 0, macro_block_pos_w := 0, macro_block_pos_h := 0, to_right := True\<rparr>"

text \<open>
  \<open>updatePos\<close>. The remainder by \<open>dim_w_ / 8\<close> is undefined for an image less than 8 pixels wide.
\<close>

definition updatePos :: "snake_it \<Rightarrow> fault + snake_it" where
  "updatePos it =
     (let w = (if to_right it then w_pos it + 1 else w_pos it - 1) in
      if (w mod 8 = 0 \<and> to_right it) \<or> w < 0
      then
        let h = h_pos it + 1;
            r = (\<not> to_right it);
            it1 = it\<lparr>w_pos := (if r then 0 else 7), h_pos := h, to_right := r\<rparr>
        in if h mod 8 = 0 \<or> h + macro_block_pos_h it * 8 = dim_h it
           then
             let m = macro_block_pos_w it + 1 in
             if dim_w it div 8 = 0 then Inl Div_by_zero
             else if m mod (dim_w it div 8) = 0
             then Inr (it1\<lparr>h_pos := 0, macro_block_pos_w := 0,
                           macro_block_pos_h := macro_block_pos_h it + 1\<rparr>)
             else Inr (it1\<lparr>h_pos := 0, macro_block_pos_w := m\<rparr>)
           else Inr it1
      else Inr (it\<lparr>w_pos := w\<rparr>))"

text \<open>The position the iterator stands on, and \<open>operator++ (int)\<close>, which returns it and moves on.\<close>

definition snake_here :: "snake_it \<Rightarrow> int" where
  "snake_here it =
     w_pos it + (h_pos it + 8 * macro_block_pos_h it) * dim_w it + macro_block_pos_w it * 8"

definition snake_next :: "snake_it \<Rightarrow> fault + int \<times> snake_it" where
  "snake_next it = map_sum id (\<lambda>it'. (snake_here it, it')) (updatePos it)"

section \<open>The mappings\<close>

text \<open>\<open>std::vector::resize\<close>: the old elements stay, new ones are zero.\<close>

definition resize :: "nat \<Rightarrow> 'a::zero list \<Rightarrow> 'a list" where
  "resize n xs = take n xs @ replicate (n - length xs) 0"

text \<open>Copy the three colour bytes of pixel \<open>i\<close> of one buffer to pixel \<open>j\<close> of another.\<close>

definition copy_pixel :: "int \<Rightarrow> int \<Rightarrow> 'a list \<Rightarrow> 'a list \<Rightarrow> fault + 'a list" where
  "copy_pixel i j from to =
     (if 0 \<le> i \<and> 3 * i + 2 < int (length from) \<and> 0 \<le> j \<and> 3 * j + 2 < int (length to)
      then Inr (to[nat (3 * j) := from ! nat (3 * i), nat (3 * j + 1) := from ! nat (3 * i + 1),
                   nat (3 * j + 2) := from ! nat (3 * i + 2)])
      else Inl Out_of_bounds)"

fun doMapping_loop :: "nat \<Rightarrow> nat \<Rightarrow> snake_it \<Rightarrow> 'a list \<Rightarrow> 'a list \<Rightarrow> fault + 'a list" where
  "doMapping_loop 0 i it inp out = Inr out"
| "doMapping_loop (Suc n) i it inp out =
     (case snake_next it of
        Inl f \<Rightarrow> Inl f
      | Inr (l_pos, it') \<Rightarrow>
          (case copy_pixel (int i) l_pos inp out of
             Inl f \<Rightarrow> Inl f
           | Inr out' \<Rightarrow> doMapping_loop n (Suc i) it' inp out'))"

fun undoMapping_loop :: "nat \<Rightarrow> nat \<Rightarrow> snake_it \<Rightarrow> 'a list \<Rightarrow> 'a list \<Rightarrow> fault + 'a list" where
  "undoMapping_loop 0 i it inp out = Inr out"
| "undoMapping_loop (Suc n) i it inp out =
     (case snake_next it of
        Inl f \<Rightarrow> Inl f
      | Inr (l_pos, it') \<Rightarrow>
          (case copy_pixel l_pos (int i) inp out of
             Inl f \<Rightarrow> Inl f
           | Inr out' \<Rightarrow> undoMapping_loop n (Suc i) it' inp out'))"

text \<open>\<open>result\<close> is what the member \<open>result_\<close> held before; the codec makes a new mapping every time.\<close>

definition doMapping :: "int \<Rightarrow> int \<Rightarrow> 'a::zero list \<Rightarrow> 'a list \<Rightarrow> fault + 'a list" where
  "doMapping w h result inp =
     doMapping_loop (nat (w * h)) 0 (reset_snake_it (new_snake_it w h)) inp (resize (nat (3 * w * h)) result)"

definition undoSnakeGridMapping :: "int \<Rightarrow> int \<Rightarrow> 'a::zero list \<Rightarrow> 'a list \<Rightarrow> fault + 'a list" where
  "undoSnakeGridMapping w h result inp =
     undoMapping_loop (nat (w * h)) 0 (reset_snake_it (new_snake_it w h)) inp (resize (nat (3 * w * h)) result)"

section \<open>Where the iterator is after i steps\<close>

text \<open>
  The reference: pixel rows of 8 are numbered in the order they are visited (\<open>r = i div 8\<close>); an
  image \<open>8 * m\<close> pixels wide has \<open>8 * m\<close> of them in every full row of blocks. A block in the last
  row of blocks may be lower than 8. Rows are walked to the right and to the left in turn.
\<close>

definition block_row :: "nat \<Rightarrow> nat \<Rightarrow> nat" where
  "block_row m r = r div (8 * m)"

definition block_height :: "nat \<Rightarrow> nat \<Rightarrow> nat \<Rightarrow> nat" where
  "block_height m h r = min 8 (h - 8 * block_row m r)"

definition block_column :: "nat \<Rightarrow> nat \<Rightarrow> nat \<Rightarrow> nat" where
  "block_column m h r = (r mod (8 * m)) div block_height m h r"

definition row_in_block :: "nat \<Rightarrow> nat \<Rightarrow> nat \<Rightarrow> nat" where
  "row_in_block m h r = (r mod (8 * m)) mod block_height m h r"

definition column_in_block :: "nat \<Rightarrow> nat" where
  "column_in_block i = (if even (i div 8) then i mod 8 else 7 - i mod 8)"

definition snake_state :: "nat \<Rightarrow> nat \<Rightarrow> nat \<Rightarrow> snake_it" where
  "snake_state m h i =
     \<lparr>dim_w = int (8 * m), dim_h = int h, w_pos = int (column_in_block i),
      h_pos = int (row_in_block m h (i div 8)),
      macro_block_pos_w = int (block_column m h (i div 8)),
      macro_block_pos_h = int (block_row m (i div 8)), to_right = even (i div 8)\<rparr>"

definition snake_index :: "nat \<Rightarrow> nat \<Rightarrow> nat \<Rightarrow> nat" where
  "snake_index m h i =
     column_in_block i + 8 * block_column m h (i div 8)
     + (row_in_block m h (i div 8) + 8 * block_row m (i div 8)) * (8 * m)"

lemma snake_here_state [simp]: "snake_here (snake_state m h i) = int (snake_index m h i)"
  by (simp add: snake_here_def snake_state_def snake_index_def algebra_simps)

lemma block_bounds:
  assumes "r < m * h" and "0 < m"
  shows "8 * block_row m r < h" "0 < block_height m h r" "block_column m h r < m"
    "row_in_block m h r < block_height m h r" "row_in_block m h r + 8 * block_row m r < h"
    "r = 8 * m * block_row m r + block_height m h r * block_column m h r + row_in_block m h r"
proof -
  have "(8 * m) * block_row m r \<le> r" by (simp add: block_row_def)
  moreover have "m * (8 * block_row m r) = (8 * m) * block_row m r" by simp
  ultimately have "m * (8 * block_row m r) < m * h" using assms(1) by linarith
  then show b: "8 * block_row m r < h" by simp
  then show p: "0 < block_height m h r" by (simp add: block_height_def)
  show "row_in_block m h r < block_height m h r" using p by (simp add: row_in_block_def)
  then show "row_in_block m h r + 8 * block_row m r < h" unfolding block_height_def by linarith
  show "r = 8 * m * block_row m r + block_height m h r * block_column m h r + row_in_block m h r"
    by (simp add: block_row_def block_column_def row_in_block_def add.assoc)
  have "r mod (8 * m) < m * block_height m h r"
  proof (cases "8 \<le> h - 8 * block_row m r")
    case True
    then show ?thesis using assms(2) by (simp add: block_height_def mult.commute)
  next
    case False
    then have h: "h = block_height m h r + 8 * block_row m r" using b by (simp add: block_height_def)
    have "r = 8 * m * block_row m r + r mod (8 * m)" by (simp add: block_row_def)
    then have "8 * m * block_row m r + r mod (8 * m) < m * (block_height m h r + 8 * block_row m r)"
      using assms(1) h by simp
    then show ?thesis by (simp add: algebra_simps)
  qed
  then show "block_column m h r < m" using p by (simp add: block_column_def div_less_iff_less_mult)
qed

text \<open>The next row: in the same block, in the block to the right, or in the next row of blocks.\<close>

lemma next_row:
  assumes "Suc r < m * h" and "0 < m"
  shows "row_in_block m h r + 1 < block_height m h r \<Longrightarrow>
      block_row m (Suc r) = block_row m r \<and> block_column m h (Suc r) = block_column m h r
      \<and> row_in_block m h (Suc r) = row_in_block m h r + 1"
    and "row_in_block m h r + 1 = block_height m h r \<Longrightarrow> block_column m h r + 1 < m \<Longrightarrow>
      block_row m (Suc r) = block_row m r \<and> block_column m h (Suc r) = block_column m h r + 1
      \<and> row_in_block m h (Suc r) = 0"
    and "row_in_block m h r + 1 = block_height m h r \<Longrightarrow> block_column m h r + 1 = m \<Longrightarrow>
      block_row m (Suc r) = block_row m r + 1 \<and> block_column m h (Suc r) = 0
      \<and> row_in_block m h (Suc r) = 0"
proof -
  have r: "r < m * h" using assms(1) by simp
  note b = block_bounds [OF r assms(2)]
  let ?H = "block_height m h r" and ?q = "r mod (8 * m)"
  have q: "?q = ?H * block_column m h r + row_in_block m h r"
    by (simp add: block_column_def row_in_block_def)
  have H8: "?H \<le> 8" by (simp add: block_height_def)
  have stay: "block_row m (Suc r) = block_row m r \<and> Suc r mod (8 * m) = Suc ?q" if "Suc ?q < 8 * m"
    using that by (simp add: block_row_def mod_Suc div_Suc)
  have same: "block_height m h (Suc r) = ?H" if "block_row m (Suc r) = block_row m r"
    using that by (simp add: block_height_def)
  have col: "?H * (block_column m h r + 1) \<le> 8 * m"
    using mult_le_mono [OF H8, of "block_column m h r + 1" m] b(3) by simp
  show "block_row m (Suc r) = block_row m r \<and> block_column m h (Suc r) = block_column m h r
      \<and> row_in_block m h (Suc r) = row_in_block m h r + 1"
    if "row_in_block m h r + 1 < ?H"
  proof -
    have "Suc ?q < ?H * (block_column m h r + 1)" using that q by simp
    then have s: "block_row m (Suc r) = block_row m r" "Suc r mod (8 * m) = Suc ?q"
      using stay col by auto
    have "Suc ?q div ?H = block_column m h r \<and> Suc ?q mod ?H = row_in_block m h r + 1"
      using that by (simp add: block_column_def row_in_block_def div_Suc mod_Suc)
    with s same show ?thesis by (simp add: block_column_def row_in_block_def)
  qed
  show "block_row m (Suc r) = block_row m r \<and> block_column m h (Suc r) = block_column m h r + 1
      \<and> row_in_block m h (Suc r) = 0"
    if "row_in_block m h r + 1 = ?H" and "block_column m h r + 1 < m"
  proof -
    have "Suc ?q = ?H * (block_column m h r + 1)" using that(1) q by simp
    also have "\<dots> < 8 * m" using that(2) H8 b(2)
      by (metis mult_le_mono1 mult_less_mono2 order_le_less_trans zero_less_numeral mult.commute not_less)
    finally have s: "block_row m (Suc r) = block_row m r" "Suc r mod (8 * m) = Suc ?q"
      using stay by auto
    have "Suc ?q div ?H = block_column m h r + 1 \<and> Suc ?q mod ?H = 0"
      using that b(2) by (simp add: block_column_def row_in_block_def div_Suc mod_Suc)
    with s same show ?thesis by (simp add: block_column_def row_in_block_def)
  qed
  show "block_row m (Suc r) = block_row m r + 1 \<and> block_column m h (Suc r) = 0
      \<and> row_in_block m h (Suc r) = 0"
    if "row_in_block m h r + 1 = ?H" and "block_column m h r + 1 = m"
  proof -
    have sq: "Suc ?q = ?H * m" using that q by (metis Suc_eq_plus1 add_Suc_right mult_Suc_right add.commute)
    have "?H = 8"
    proof (rule ccontr)
      assume "?H \<noteq> 8"
      then have "m * h = m * (?H + 8 * block_row m r)" using b(1) by (simp add: block_height_def)
      also have "\<dots> = Suc ?q + 8 * m * block_row m r" unfolding sq by (simp add: algebra_simps)
      also have "\<dots> = Suc r" by (simp add: block_row_def)
      finally have "m * h = Suc r" .
      with assms(1) show False by simp
    qed
    then have "Suc ?q = 8 * m" using sq by simp
    then have "Suc r mod (8 * m) = 0" "block_row m (Suc r) = block_row m r + 1"
      by (simp_all add: block_row_def mod_Suc div_Suc)
    then show ?thesis by (simp add: block_column_def row_in_block_def)
  qed
qed

text \<open>One step of the iterator moves the reference state to the next one.\<close>

lemma updatePos_state:
  assumes "Suc i < 8 * m * h" and "0 < m"
  shows "updatePos (snake_state m h i) = Inr (snake_state m h (Suc i))"
proof (cases "i mod 8 = 7")
  case False
  then have s: "Suc i div 8 = i div 8" "Suc i mod 8 = Suc (i mod 8)" by (auto simp: div_Suc mod_Suc)
  from False have "i mod 8 = 0 \<or> i mod 8 = 1 \<or> i mod 8 = 2 \<or> i mod 8 = 3 \<or> i mod 8 = 4 \<or>
      i mod 8 = 5 \<or> i mod 8 = 6" by presburger
  then show ?thesis
    by (elim disjE) (simp_all add: updatePos_def snake_state_def column_in_block_def s)
next
  case True
  then have s: "Suc i div 8 = Suc (i div 8)" "Suc i mod 8 = 0" by (simp_all add: div_Suc mod_Suc)
  let ?r = "i div 8"
  have sr: "Suc ?r < m * h" using assms(1) s by linarith
  note b = block_bounds [of ?r m h] and n = next_row [OF sr assms(2)]
  have r: "?r < m * h" using sr by simp
  have h: "0 < block_height m h ?r" "row_in_block m h ?r < block_height m h ?r" "block_height m h ?r \<le> 8"
    "block_column m h ?r < m"
    using b r assms(2) by (simp_all add: block_height_def)
  have last: "((int (row_in_block m h ?r) + 1) mod 8 = 0
        \<or> int (row_in_block m h ?r) + 1 + int (block_row m ?r) * 8 = int h)
      = (row_in_block m h ?r + 1 = block_height m h ?r)"
  proof -
    have "(int p + 1) mod 8 = 0 \<longleftrightarrow> p + 1 = 8" if "p < 8" for p :: nat
      using that by presburger
    moreover have "int p + 1 + int b * 8 = int h \<longleftrightarrow> p + 1 + 8 * b = h" for p b by linarith
    ultimately show ?thesis
      using h b(1) [OF r assms(2)] by (auto simp: block_height_def min_def split: if_splits)
        linarith
  qed
  have col: "(int (block_column m h ?r) + 1) mod int m = 0 \<longleftrightarrow> block_column m h ?r + 1 = m"
  proof -
    have "(int (block_column m h ?r) + 1) mod int m = int ((block_column m h ?r + 1) mod m)"
      by (simp add: zmod_int add.commute)
    then show ?thesis using h(4) by (auto simp: mod_Suc)
  qed
  consider "row_in_block m h ?r + 1 < block_height m h ?r"
    | "row_in_block m h ?r + 1 = block_height m h ?r" "block_column m h ?r + 1 < m"
    | "row_in_block m h ?r + 1 = block_height m h ?r" "block_column m h ?r + 1 = m"
    using h by linarith
  then show ?thesis
  proof cases
    case 1
    with n(1) last show ?thesis
      by (simp add: updatePos_def snake_state_def Let_def s column_in_block_def True)
  next
    case 2
    with n(2) last col assms(2) show ?thesis
      by (simp add: updatePos_def snake_state_def Let_def s column_in_block_def True)
  next
    case 3
    with n(3) last col assms(2) show ?thesis
      by (simp add: updatePos_def snake_state_def Let_def s column_in_block_def True)
  qed
qed

lemma updatePos_total: "0 < m \<Longrightarrow> \<exists>it'. updatePos (snake_state m h i) = Inr it'"
  by (simp add: updatePos_def snake_state_def Let_def)

section \<open>Every pixel is visited exactly once\<close>

definition snake_inverse :: "nat \<Rightarrow> nat \<Rightarrow> nat \<Rightarrow> nat" where
  "snake_inverse m h p =
     (let x = p mod (8 * m); y = p div (8 * m);
          r = 8 * m * (y div 8) + min 8 (h - 8 * (y div 8)) * (x div 8) + y mod 8
      in 8 * r + (if even r then x mod 8 else 7 - x mod 8))"

lemma column_in_block_less: "column_in_block i < 8"
proof -
  have "7 - i mod 8 < 8" "i mod 8 < 8" by linarith+
  then show ?thesis by (simp add: column_in_block_def)
qed

lemma snake_index_parts:
  assumes "i < 8 * m * h" and "0 < m"
  shows "snake_index m h i mod (8 * m) = column_in_block i + 8 * block_column m h (i div 8)"
    and "snake_index m h i div (8 * m) = row_in_block m h (i div 8) + 8 * block_row m (i div 8)"
    and "snake_index m h i < 8 * m * h"
proof -
  have r: "i div 8 < m * h" using assms(1) by (simp add: div_less_iff_less_mult mult.commute mult.left_commute)
  note b = block_bounds [OF r assms(2)]
  let ?x = "column_in_block i + 8 * block_column m h (i div 8)"
  let ?y = "row_in_block m h (i div 8) + 8 * block_row m (i div 8)"
  have x: "?x < 8 * m" using column_in_block_less [of i] b(3) by linarith
  have i: "snake_index m h i = ?x + ?y * (8 * m)" by (simp add: snake_index_def)
  show "snake_index m h i mod (8 * m) = ?x" "snake_index m h i div (8 * m) = ?y"
    unfolding i using x by simp_all
  have "?x + ?y * (8 * m) < Suc ?y * (8 * m)" using x by simp
  also have "\<dots> \<le> h * (8 * m)" using b(5) by (intro mult_right_mono) simp_all
  finally show "snake_index m h i < 8 * m * h" by (simp add: i mult.commute)
qed

lemma snake_inverse_index:
  assumes "i < 8 * m * h" and "0 < m"
  shows "snake_inverse m h (snake_index m h i) = i"
proof -
  have r: "i div 8 < m * h" using assms(1) by (simp add: div_less_iff_less_mult mult.commute mult.left_commute)
  note b = block_bounds [OF r assms(2)] and s = snake_index_parts [OF assms]
  have hp: "row_in_block m h (i div 8) < 8" using b(4) by (simp add: block_height_def)
  let ?y = "row_in_block m h (i div 8) + 8 * block_row m (i div 8)"
  have y: "?y div 8 = block_row m (i div 8)" "?y mod 8 = row_in_block m h (i div 8)"
    using hp by simp_all
  let ?x = "column_in_block i + 8 * block_column m h (i div 8)"
  have x: "?x div 8 = block_column m h (i div 8)" "?x mod 8 = column_in_block i"
    using column_in_block_less [of i] by simp_all
  have r': "8 * m * block_row m (i div 8)
      + min 8 (h - 8 * block_row m (i div 8)) * block_column m h (i div 8)
      + row_in_block m h (i div 8) = i div 8"
    using b(6) by (simp add: block_height_def)
  have "8 * (i div 8) + (if even (i div 8) then column_in_block i else 7 - column_in_block i) = i"
    by (simp add: column_in_block_def)
  then show ?thesis
    unfolding snake_inverse_def Let_def s y x r' .
qed

lemma snake_index_inj: "0 < m \<Longrightarrow> inj_on (snake_index m h) {..<8 * m * h}"
  by (rule inj_on_inverseI [where g = "snake_inverse m h"]) (simp add: snake_inverse_index)

lemma snake_index_bij: "0 < m \<Longrightarrow> bij_betw (snake_index m h) {..<8 * m * h} {..<8 * m * h}"
  using snake_index_inj [of m h] snake_index_parts(3) [of _ m h]
  by (intro bij_betw_imageI endo_inj_surj) auto

section \<open>Copying pixels\<close>

definition pixel :: "'a list \<Rightarrow> nat \<Rightarrow> 'a \<times> 'a \<times> 'a" where
  "pixel xs i = (xs ! (3 * i), xs ! (3 * i + 1), xs ! (3 * i + 2))"

lemma pixels_eqI:
  assumes "length xs = 3 * n" and "length ys = 3 * n" and "\<And>i. i < n \<Longrightarrow> pixel xs i = pixel ys i"
  shows "xs = ys"
proof (rule nth_equalityI)
  fix k assume "k < length xs"
  then have k: "k div 3 < n" using assms(1) by (simp add: div_less_iff_less_mult mult.commute)
  have "k = 3 * (k div 3) \<or> k = 3 * (k div 3) + 1 \<or> k = 3 * (k div 3) + 2" by presburger
  with assms(3) [OF k] show "xs ! k = ys ! k" by (auto simp: pixel_def)
qed (simp add: assms)

lemma copy_pixel_spec:
  assumes "3 * i + 2 < length from" and "3 * j + 2 < length to"
  obtains to' where "copy_pixel (int i) (int j) from to = Inr to'" and "length to' = length to"
    and "pixel to' j = pixel from i" and "\<And>p. p \<noteq> j \<Longrightarrow> pixel to' p = pixel to p"
proof
  let ?to = "to[3 * j := from ! (3 * i), 3 * j + 1 := from ! (3 * i + 1), 3 * j + 2 := from ! (3 * i + 2)]"
  have n: "nat (3 * int k) = 3 * k" "nat (3 * int k + 1) = 3 * k + 1" "nat (3 * int k + 2) = 3 * k + 2"
    for k by linarith+
  have "3 * int i + 2 < int (length from)" "3 * int j + 2 < int (length to)" using assms by linarith+
  then show "copy_pixel (int i) (int j) from to = Inr ?to" by (simp add: copy_pixel_def n)
  show "pixel ?to j = pixel from i" using assms by (simp add: pixel_def nth_list_update)
  show "pixel ?to p = pixel to p" if "p \<noteq> j" for p
  proof -
    have "3 * p + a \<noteq> 3 * j + b" if "a \<le> 2" "b \<le> 2" for a b using that \<open>p \<noteq> j\<close> by presburger
    from this [of 0 0] this [of 0 1] this [of 0 2] this [of 1 0] this [of 1 1] this [of 1 2]
      this [of 2 0] this [of 2 1] this [of 2 2] show ?thesis
      by (simp add: pixel_def)
  qed
qed simp

primrec copy_pixels :: "(nat \<times> nat) list \<Rightarrow> 'a list \<Rightarrow> 'a list \<Rightarrow> fault + 'a list" where
  "copy_pixels [] inp out = Inr out"
| "copy_pixels (p # ps) inp out =
     (case copy_pixel (int (fst p)) (int (snd p)) inp out of
        Inl f \<Rightarrow> Inl f
      | Inr out' \<Rightarrow> copy_pixels ps inp out')"

lemma copy_pixels_spec:
  assumes "\<forall>(i, j) \<in> set ps. 3 * i + 2 < length inp \<and> 3 * j + 2 < length out"
    and "distinct (map snd ps)"
  shows "\<exists>out'. copy_pixels ps inp out = Inr out' \<and> length out' = length out
    \<and> (\<forall>(i, j) \<in> set ps. pixel out' j = pixel inp i)
    \<and> (\<forall>p. p \<notin> snd ` set ps \<longrightarrow> pixel out' p = pixel out p)"
  using assms
proof (induction ps arbitrary: out)
  case (Cons ij ps)
  obtain i j where ij: "ij = (i, j)" by (cases ij)
  have "3 * i + 2 < length inp" "3 * j + 2 < length out" using Cons.prems(1) by (auto simp: ij)
  then obtain out1 where o: "copy_pixel (int i) (int j) inp out = Inr out1" "length out1 = length out"
    "pixel out1 j = pixel inp i" "\<And>p. p \<noteq> j \<Longrightarrow> pixel out1 p = pixel out p"
    by (rule copy_pixel_spec) blast
  have "\<forall>(i, j) \<in> set ps. 3 * i + 2 < length inp \<and> 3 * j + 2 < length out1"
    using Cons.prems(1) o(2) by auto
  then obtain out2 where o2: "copy_pixels ps inp out1 = Inr out2" "length out2 = length out1"
    "\<forall>(i, j) \<in> set ps. pixel out2 j = pixel inp i"
    "\<forall>p. p \<notin> snd ` set ps \<longrightarrow> pixel out2 p = pixel out1 p"
    using Cons.IH [of out1] Cons.prems(2) by auto
  have "j \<notin> snd ` set ps" using Cons.prems(2) by (simp add: ij)
  with o o2 show ?case
    by (intro exI [of _ out2]) (auto simp: ij)
qed simp

text \<open>Both mappings copy along the reference positions, in opposite directions.\<close>

lemma doMapping_loop_copies:
  assumes "0 < m" and "i + n \<le> 8 * m * h"
  shows "n = 0 \<or> it = snake_state m h i \<Longrightarrow>
    doMapping_loop n i it inp out = copy_pixels (map (\<lambda>k. (k, snake_index m h k)) [i..<i + n]) inp out"
  using assms(2)
proof (induction n arbitrary: i it out)
  case (Suc n)
  obtain it' where u: "updatePos (snake_state m h i) = Inr it'"
    using updatePos_total [OF assms(1)] by blast
  have "n = 0 \<or> it' = snake_state m h (Suc i)"
    using updatePos_state [of i m h] Suc.prems(2) assms(1) u by (cases n) auto
  moreover have "[i..<i + Suc n] = i # [Suc i..<Suc i + n]" by (simp add: upt_rec)
  ultimately show ?case
    using Suc.prems u Suc.IH [of it' "Suc i"] by (auto simp: snake_next_def split: sum.split)
qed simp

lemma undoMapping_loop_copies:
  assumes "0 < m" and "i + n \<le> 8 * m * h"
  shows "n = 0 \<or> it = snake_state m h i \<Longrightarrow>
    undoMapping_loop n i it inp out = copy_pixels (map (\<lambda>k. (snake_index m h k, k)) [i..<i + n]) inp out"
  using assms(2)
proof (induction n arbitrary: i it out)
  case (Suc n)
  obtain it' where u: "updatePos (snake_state m h i) = Inr it'"
    using updatePos_total [OF assms(1)] by blast
  have "n = 0 \<or> it' = snake_state m h (Suc i)"
    using updatePos_state [of i m h] Suc.prems(2) assms(1) u by (cases n) auto
  moreover have "[i..<i + Suc n] = i # [Suc i..<Suc i + n]" by (simp add: upt_rec)
  ultimately show ?case
    using Suc.prems u Suc.IH [of it' "Suc i"] by (auto simp: snake_next_def split: sum.split)
qed simp

lemma length_resize [simp]: "length (resize n xs) = n"
  by (simp add: resize_def)

lemma snake_start: "reset_snake_it (new_snake_it (8 * int m) (int h)) = snake_state m h 0"
  by (simp add: reset_snake_it_def new_snake_it_def snake_state_def column_in_block_def
      row_in_block_def block_column_def block_row_def)

lemma nat_size:
  "nat (8 * int m * int h) = 8 * m * h" "nat (24 * int m * int h) = 24 * (m * h)"
  by (simp_all add: nat_mult_distrib)

lemma doMapping_spec:
  assumes "0 < m" and "3 * (8 * m * h) \<le> length colors"
  obtains img where "doMapping (8 * int m) (int h) result colors = Inr img"
    and "length img = 3 * (8 * m * h)"
    and "\<And>i. i < 8 * m * h \<Longrightarrow> pixel img (snake_index m h i) = pixel colors i"
proof -
  let ?n = "8 * m * h" and ?out = "resize (3 * (8 * m * h)) result"
  let ?ps = "map (\<lambda>k. (k, snake_index m h k)) [0..<?n]"
  have "\<forall>(i, j) \<in> set ?ps. 3 * i + 2 < length colors \<and> 3 * j + 2 < length ?out"
    using assms snake_index_parts(3) [of _ m h] by fastforce
  moreover have "distinct (map snd ?ps)"
    using snake_index_inj [OF assms(1)] by (simp add: distinct_map comp_def lessThan_atLeast0)
  ultimately obtain img where "copy_pixels ?ps colors ?out = Inr img" "length img = length ?out"
    "\<forall>(i, j) \<in> set ?ps. pixel img j = pixel colors i"
    using copy_pixels_spec [of ?ps colors ?out] by blast
  moreover have "doMapping (8 * int m) (int h) result colors = copy_pixels ?ps colors ?out"
    using doMapping_loop_copies [OF assms(1), of 0 ?n h "snake_state m h 0" colors ?out]
    by (simp add: doMapping_def snake_start nat_size)
  ultimately show ?thesis using that [of img] by auto
qed

lemma undoMapping_spec:
  assumes "0 < m" and "3 * (8 * m * h) \<le> length img"
  obtains colors where "undoSnakeGridMapping (8 * int m) (int h) result img = Inr colors"
    and "length colors = 3 * (8 * m * h)"
    and "\<And>i. i < 8 * m * h \<Longrightarrow> pixel colors i = pixel img (snake_index m h i)"
proof -
  let ?n = "8 * m * h" and ?out = "resize (3 * (8 * m * h)) result"
  let ?ps = "map (\<lambda>k. (snake_index m h k, k)) [0..<?n]"
  have "\<forall>(i, j) \<in> set ?ps. 3 * i + 2 < length img \<and> 3 * j + 2 < length ?out"
    using assms snake_index_parts(3) [of _ m h] by fastforce
  moreover have "distinct (map snd ?ps)" by (simp add: comp_def)
  ultimately obtain colors where "copy_pixels ?ps img ?out = Inr colors" "length colors = length ?out"
    "\<forall>(i, j) \<in> set ?ps. pixel colors j = pixel img i"
    using copy_pixels_spec [of ?ps img ?out] by blast
  moreover have "undoSnakeGridMapping (8 * int m) (int h) result img = copy_pixels ?ps img ?out"
    using undoMapping_loop_copies [OF assms(1), of 0 ?n h "snake_state m h 0" img ?out]
    by (simp add: undoSnakeGridMapping_def snake_start nat_size)
  ultimately show ?thesis using that [of colors] by auto
qed

section \<open>Properties\<close>

text \<open>
  C14. For every image whose width is a multiple of 8 the zigzag scan is the closed form
  \<open>snake_index\<close>, which visits every pixel of the image exactly once: the state machine of the
  iterator never leaves the image, skips no pixel and uses none twice, in blocks of 8 rows and in
  a last, lower row of blocks, and \<open>doMapping\<close> puts the \<open>i\<close>-th colour at the \<open>i\<close>-th position of it.
\<close>

theorem snake_mapping_is_permutation:
  assumes "0 < m" and "3 * (8 * m * h) \<le> length colors"
  shows "bij_betw (snake_index m h) {..<8 * m * h} {..<8 * m * h} \<and>
    (\<exists>img. doMapping (8 * int m) (int h) result colors = Inr img \<and> length img = 3 * (8 * m * h) \<and>
       (\<forall>i < 8 * m * h. pixel img (snake_index m h i) = pixel colors i))"
  using snake_index_bij [OF assms(1), of h] doMapping_spec [OF assms, of result] by metis

theorem snake_mapping_is_permutation_witness:
  "\<exists>img. doMapping (8 * int 2) (int 3) [] (map word_of_nat [0..<144]) = Inr (img :: 8 word list) \<and>
     pixel img (snake_index 2 3 29) = (87, 88, 89) \<and> snake_index 2 3 29 = 10"
proof -
  have "snake_index 2 3 29 = 10"
    by (simp add: snake_index_def column_in_block_def block_column_def block_row_def row_in_block_def
        block_height_def)
  moreover have "pixel (map word_of_nat [0..<144]) 29 = (87, 88, 89 :: 8 word)"
    by (simp add: pixel_def)
  ultimately show ?thesis
    using snake_mapping_is_permutation [of 2 3 "map word_of_nat [0..<144] :: 8 word list" "[]"]
    by (auto dest: spec [of _ 29])
qed

text \<open>
  \<open>undoSnakeGridMapping\<close> is the inverse of \<open>doMapping\<close>: for an image whose width is a multiple
  of 8 the colours come back in their order, whatever the result buffers held before.
\<close>

theorem snake_round_trip:
  assumes "8 dvd w" and "0 < w" and "0 \<le> h" and "3 * (w * h) \<le> int (length colors)"
  shows "\<exists>img. doMapping w h result1 colors = Inr img \<and>
    undoSnakeGridMapping w h result2 img = Inr (take (nat (3 * (w * h))) colors)"
proof -
  obtain m k where w: "w = 8 * int m" "0 < m" and h: "h = int k"
    using assms(1-3) by (metis dvdE int_nat_eq nonneg_int_cases of_nat_0_less_iff zero_less_mult_pos
        zero_less_numeral less_imp_le zero_le_imp_eq_int)
  have n: "nat (3 * (w * h)) = 3 * (8 * m * k)" by (simp add: w h nat_mult_distrib)
  have len: "3 * (8 * m * k) \<le> length colors" using assms(4) n by linarith
  obtain img where i: "doMapping w h result1 colors = Inr img" "length img = 3 * (8 * m * k)"
    "\<And>i. i < 8 * m * k \<Longrightarrow> pixel img (snake_index m k i) = pixel colors i"
    using doMapping_spec [OF w(2) len] w(1) h by metis
  obtain colors' where c: "undoSnakeGridMapping w h result2 img = Inr colors'"
    "length colors' = 3 * (8 * m * k)"
    "\<And>i. i < 8 * m * k \<Longrightarrow> pixel colors' i = pixel img (snake_index m k i)"
    using undoMapping_spec [of m k img] w h i(2) by (metis order_refl)
  have "colors' = take (nat (3 * (w * h))) colors"
  proof (rule pixels_eqI [of _ "8 * m * k"])
    fix j assume j: "j < 8 * m * k"
    then have "3 * j < 3 * (8 * m * k)" "3 * j + 1 < 3 * (8 * m * k)" "3 * j + 2 < 3 * (8 * m * k)"
      by linarith+
    then have "pixel (take (nat (3 * (w * h))) colors) j = pixel colors j"
      unfolding n by (simp add: pixel_def)
    with i(3) [OF j] c(3) [OF j] show "pixel colors' j = pixel (take (nat (3 * (w * h))) colors) j"
      by simp
  qed (use c len n in simp_all)
  with i c show ?thesis by simp
qed

theorem snake_round_trip_witness:
  "\<exists>img. doMapping 8 2 [] (replicate 50 (7 :: 8 word)) = Inr img \<and>
     undoSnakeGridMapping 8 2 [1] img = Inr (replicate 48 7)"
  using snake_round_trip [of 8 2 "replicate 50 (7 :: 8 word)" "[]" "[1]"] by simp

text \<open>The decoder takes the width from the image it is given: one less than 8 wide divides by zero.\<close>

lemma narrow_image_divides_by_zero:
  "undoSnakeGridMapping 4 16 [] (replicate 192 (0 :: 8 word)) = Inl Div_by_zero"
  by code_simp

end
