(* ===== verification/JpegColors.thy ===== *)
theory JpegColors
  imports SnakeGrid Bytes
begin

text \<open>
  The colour coding of \<open>cwipc_codec/cloud_codec_v2\<close>: \<open>src/jpeg_io.cpp\<close> (an image to JPEG bytes in
  memory and back) and \<open>color_coding_jpeg.h\<close> (the colours of a frame as one zigzag image or as a
  list of lines). The JPEG library is the parameter \<open>lib\<close>; what the code relies on is
  \<open>jpeg_ok\<close>: an image it has compressed is decompressed to one of the same size whose samples are
  related to the original ones by \<open>close\<close>.
\<close>

section \<open>jpeg\_io.cpp\<close>

text \<open>\<open>pcl::PCLImage\<close>, and what \<open>libjpeg\<close> says of an image it decompresses.\<close>

record pcl_image =
  im_width :: u32
  im_height :: u32
  im_encoding :: string
  im_step :: u32
  im_data :: "u8 list"

definition empty_image :: pcl_image where
  "empty_image = \<lparr>im_width = 0, im_height = 0, im_encoding = '''', im_step = 0, im_data = []\<rparr>"

datatype jcs = JCS_GRAYSCALE | JCS_RGB | JCS_YCbCr | JCS_OTHER

record jpeg_header =
  image_width :: u32
  image_height :: u32
  output_width :: u32
  output_height :: u32
  output_components :: nat
  out_color_space :: jcs

text \<open>An error can be signalled while the header is read or after some scan lines.\<close>

datatype jpeg_decoded =
    Jpeg_bad_header
  | Jpeg_bad_scan jpeg_header "u8 list list"
  | Jpeg_good jpeg_header "u8 list list"

record jpeg_lib =
  jpeg_compress :: "u32 \<Rightarrow> u32 \<Rightarrow> jcs \<Rightarrow> int \<Rightarrow> u8 list list \<Rightarrow> u8 list option"
  jpeg_decompress :: "u8 list \<Rightarrow> jpeg_decoded"

definition encoding_of :: "jcs \<Rightarrow> string" where
  "encoding_of c = (case c of JCS_GRAYSCALE \<Rightarrow> ''MONO'' | JCS_RGB \<Rightarrow> ''RGB'' | JCS_YCbCr \<Rightarrow> ''YUV''
     | JCS_OTHER \<Rightarrow> ''unknown'')"

definition color_space_of :: "string \<Rightarrow> jcs \<times> nat" where
  "color_space_of enc =
     (if enc = ''YUV'' then (JCS_YCbCr, 3) else if enc = ''RGB'' then (JCS_RGB, 3)
      else if enc = ''MONO'' then (JCS_GRAYSCALE, 1) else if enc = ''GRAY'' then (JCS_GRAYSCALE, 1)
      else (JCS_RGB, 3))"

text \<open>The scan lines that have been read replace the front of the resized data.\<close>

definition read_scanlines :: "jpeg_header \<Rightarrow> u8 list list \<Rightarrow> u8 list \<Rightarrow> u8 list" where
  "read_scanlines hdr rows data =
     (let row_stride = unat (output_width hdr) * output_components hdr;
          old = resize (row_stride * unat (output_height hdr)) data;
          new = concat rows
      in new @ drop (length new) old)"

text \<open>\<open>readJPEG\<close> from memory; the result is the return value and the image afterwards.\<close>

definition readJPEG :: "jpeg_lib \<Rightarrow> u8 list \<Rightarrow> pcl_image \<Rightarrow> bool \<times> pcl_image" where
  "readJPEG lib jpeg_in_dat im_out =
     (if jpeg_in_dat = [] then (False, im_out)
      else case jpeg_decompress lib jpeg_in_dat of
             Jpeg_bad_header \<Rightarrow> (False, im_out)
           | Jpeg_bad_scan hdr rows \<Rightarrow>
               (False, im_out\<lparr>im_data := read_scanlines hdr rows (im_data im_out)\<rparr>)
           | Jpeg_good hdr rows \<Rightarrow>
               (True, im_out\<lparr>im_data := read_scanlines hdr rows (im_data im_out),
                             im_width := image_width hdr, im_height := image_height hdr,
                             im_step := word_of_nat (output_components hdr),
                             im_encoding := encoding_of (out_color_space hdr)\<rparr>))"

text \<open>
  \<open>writeJPEG\<close> to memory: the return value and the output vector, which keeps its contents when the
  library signals an error. The library reads \<open>row_stride\<close> samples for every scan line, also
  beyond the end of the data.
\<close>

definition writeJPEG :: "jpeg_lib \<Rightarrow> pcl_image \<Rightarrow> u8 list \<Rightarrow> int \<Rightarrow> fault + bool \<times> u8 list" where
  "writeJPEG lib im_in cdat quality =
     (if im_data im_in = [] \<or> im_width im_in = 0 \<or> im_height im_in = 0 then Inr (False, cdat)
      else
        let (space, input_components) = color_space_of (im_encoding im_in);
            row_stride = unat (im_width im_in) * input_components
        in if length (im_data im_in) < row_stride * unat (im_height im_in) then Inl Out_of_bounds
           else
             let rows = map (\<lambda>next_scanline. take row_stride (drop (next_scanline * row_stride) (im_data im_in)))
                            [0..<unat (im_height im_in)]
             in case jpeg_compress lib (im_width im_in) (im_height im_in) space quality rows of
                  None \<Rightarrow> Inr (False, cdat)
                | Some out_buffer \<Rightarrow> Inr (True, out_buffer))"

section \<open>JPEGLineData\<close>

record line_data =
  line_count :: u32
  clines :: "u8 list list"

definition enc_line :: "u8 list \<Rightarrow> u8 list" where
  "enc_line cline = enc_u32 (word_of_nat (length cline)) @ cline"

definition serialize_lines :: "line_data \<Rightarrow> fault + u8 list" where
  "serialize_lines d =
     (if length (clines d) < unat (line_count d) then Inl Out_of_bounds
      else Inr (enc_u32 (line_count d) @ enc_all enc_line (take (unat (line_count d)) (clines d))))"

text \<open>
  \<open>deserialize\<close> does not look at the state of the stream: a size that could not be read is an
  uninitialised variable, and a line that is cut off is filled up with zeros.
\<close>

fun dec_lines :: "nat \<Rightarrow> u8 list \<Rightarrow> fault + u8 list list" where
  "dec_lines 0 ss = Inr []"
| "dec_lines (Suc n) ss =
     (case dec_u32 ss of
        None \<Rightarrow> Inl Uninitialized
      | Some (line_size, r) \<Rightarrow>
          map_sum id (\<lambda>ls. resize (unat line_size) (take (unat line_size) r) # ls)
            (dec_lines n (drop (unat line_size) r)))"

definition deserialize_lines :: "u8 list \<Rightarrow> fault + line_data" where
  "deserialize_lines ss =
     (case dec_u32 ss of
        None \<Rightarrow> Inl Uninitialized
      | Some (n, r) \<Rightarrow> map_sum id (\<lambda>ls. \<lparr>line_count = n, clines = ls\<rparr>) (dec_lines (unat n) r))"

section \<open>The colours as lines\<close>

definition line_image :: "u32 \<Rightarrow> u8 list \<Rightarrow> pcl_image" where
  "line_image w line_dat =
     \<lparr>im_width = w, im_height = 1, im_encoding = ''RGB'', im_step = 0, im_data = line_dat\<rparr>"

text \<open>
  The images \<open>encodeJPEGLines\<close> cuts the colours into: lines of 2048 pixels, the last one with all
  that is left. A frame of less than 2048 pixels is one image that still has the width 2048.
\<close>

definition color_lines :: "u8 list \<Rightarrow> pcl_image list" where
  "color_lines in_vec =
     (let pixel_count = length in_vec div 3;
          num_lines = pixel_count div 2048
      in if num_lines = 0 then [line_image 2048 (take (3 * pixel_count) in_vec)]
         else map (\<lambda>i. if i \<noteq> num_lines - 1
                       then line_image 2048 (take (3 * 2048) (drop (3 * 2048 * i) in_vec))
                       else let line_dat = drop (3 * 2048 * i) in_vec
                            in line_image (word_of_nat (length line_dat div 3)) line_dat)
                  [0..<num_lines])"

primrec write_lines :: "jpeg_lib \<Rightarrow> int \<Rightarrow> pcl_image list \<Rightarrow> fault + u8 list list" where
  "write_lines lib quality [] = Inr []"
| "write_lines lib quality (im # ims) =
     (case writeJPEG lib im [] quality of
        Inl f \<Rightarrow> Inl f
      | Inr (_, cline) \<Rightarrow> map_sum id ((#) cline) (write_lines lib quality ims))"

definition encodeJPEGLines :: "jpeg_lib \<Rightarrow> int \<Rightarrow> u8 list \<Rightarrow> fault + u8 list" where
  "encodeJPEGLines lib quality in_vec =
     (case write_lines lib quality (color_lines in_vec) of
        Inl f \<Rightarrow> Inl f
      | Inr cls \<Rightarrow> serialize_lines \<lparr>line_count = word_of_nat (length cls), clines = cls\<rparr>)"

definition decodeJPEGLines :: "jpeg_lib \<Rightarrow> u8 list \<Rightarrow> fault + u8 list" where
  "decodeJPEGLines lib in_vec =
     map_sum id (\<lambda>cdat. concat (map (\<lambda>cline. im_data (snd (readJPEG lib cline empty_image))) (clines cdat)))
       (deserialize_lines in_vec)"

section \<open>The colours as one zigzag image\<close>

text \<open>
  \<open>encodeJPEGSnake\<close> pads the vector it is given with its last colour up to full rows of 256 pixels;
  the size of an empty vector minus three is a very large index.
\<close>

definition snake_padding :: "u8 list \<Rightarrow> u8 list" where
  "snake_padding in_vec =
     (let pixel_count = length in_vec div 3;
          padded_pixels = 256 * (pixel_count div 256 + 1) - pixel_count
      in concat (replicate padded_pixels (drop (length in_vec - 3) in_vec)))"

definition encodeJPEGSnake :: "jpeg_lib \<Rightarrow> int \<Rightarrow> u8 list \<Rightarrow> fault + u8 list" where
  "encodeJPEGSnake lib quality in_vec =
     (if length in_vec < 3 then Inl Out_of_bounds
      else
        let height = length in_vec div 3 div 256 + 1 in
        case doMapping 256 (int height) [] (in_vec @ snake_padding in_vec) of
          Inl f \<Rightarrow> Inl f
        | Inr res \<Rightarrow>
            map_sum id snd
              (writeJPEG lib \<lparr>im_width = 256, im_height = word_of_nat height, im_encoding = ''RGB'',
                              im_step = 0, im_data = res\<rparr> [] quality))"

text \<open>The width and the height of the grid are those of the image that was read.\<close>

definition decodeJPEGSnake :: "jpeg_lib \<Rightarrow> u8 list \<Rightarrow> fault + u8 list" where
  "decodeJPEGSnake lib in_vec =
     (case readJPEG lib in_vec empty_image of
        (_, im_out) \<Rightarrow> undoSnakeGridMapping (uint (im_width im_out)) (uint (im_height im_out)) [] (im_data im_out))"

section \<open>ColorCodingJPEG\<close>

datatype mappingTypes = ORIGINAL | SNAKE | LINES | GRID

text \<open>The two vectors and their iterators belong to the base class of PCL.\<close>

record color_coder =
  needs_jpeg_encoding_avg :: bool
  mapping_mode :: mappingTypes
  jp_quality :: int
  avgColorData :: "u8 list"
  avgColorIterator :: nat
  diffColorData :: "u8 list"
  diffColorIterator :: nat

definition new_color_coder :: "int \<Rightarrow> mappingTypes \<Rightarrow> color_coder" where
  "new_color_coder quality mode =
     \<lparr>needs_jpeg_encoding_avg = False, mapping_mode = mode, jp_quality = quality,
      avgColorData = [], avgColorIterator = 0, diffColorData = [], diffColorIterator = 0\<rparr>"

definition initializeEncoding :: "color_coder \<Rightarrow> color_coder" where
  "initializeEncoding c =
     c\<lparr>avgColorData := [], diffColorData := [], needs_jpeg_encoding_avg := True\<rparr>"

text \<open>The vector it returns is the member, which holds the JPEG data from then on.\<close>

definition getAverageDataVector :: "jpeg_lib \<Rightarrow> color_coder \<Rightarrow> fault + u8 list \<times> color_coder" where
  "getAverageDataVector lib c =
     map_sum id (\<lambda>v. (v, c\<lparr>avgColorData := v\<rparr>))
       (if needs_jpeg_encoding_avg c
        then (case mapping_mode c of
                SNAKE \<Rightarrow> encodeJPEGSnake lib (jp_quality c) (avgColorData c)
              | LINES \<Rightarrow> encodeJPEGLines lib (jp_quality c) (avgColorData c)
              | _ \<Rightarrow> Inr (avgColorData c))
        else Inr (avgColorData c))"

definition initializeDecoding :: "jpeg_lib \<Rightarrow> color_coder \<Rightarrow> fault + color_coder" where
  "initializeDecoding lib c =
     map_sum id (\<lambda>v. c\<lparr>avgColorData := v, avgColorIterator := 0, diffColorIterator := 0\<rparr>)
       (case mapping_mode c of
          SNAKE \<Rightarrow> decodeJPEGSnake lib (avgColorData c)
        | LINES \<Rightarrow> decodeJPEGLines lib (avgColorData c)
        | _ \<Rightarrow> Inr (avgColorData c))"

section \<open>What the code relies on\<close>

text \<open>
  An RGB image of at most \<open>JPEG_MAX_DIMENSION\<close> in both directions and less than \<open>2 ^ 30\<close> samples is
  compressed to some bytes, less than \<open>2 ^ 32\<close> of them, which are decompressed to an image of the
  same size with related samples.
\<close>

definition jpeg_ok :: "jpeg_lib \<Rightarrow> int \<Rightarrow> (u8 \<Rightarrow> u8 \<Rightarrow> bool) \<Rightarrow> bool" where
  "jpeg_ok lib quality close \<longleftrightarrow>
     (\<forall>w h rows. 0 < w \<and> w \<le> 65500 \<and> 0 < h \<and> h \<le> 65500 \<and> 3 * unat w * unat h < 2 ^ 30 \<and>
        length rows = unat h \<and> (\<forall>row \<in> set rows. length row = 3 * unat w) \<longrightarrow>
        (\<exists>bytes rows'. jpeg_compress lib w h JCS_RGB quality rows = Some bytes \<and>
           bytes \<noteq> [] \<and> length bytes < 2 ^ 32 \<and>
           jpeg_decompress lib bytes = Jpeg_good
             \<lparr>image_width = w, image_height = h, output_width = w, output_height = h,
              output_components = 3, out_color_space = JCS_RGB\<rparr> rows' \<and>
           list_all2 (list_all2 close) rows rows'))"

lemma list_all2_concat:
  "list_all2 (list_all2 P) xss yss \<Longrightarrow> list_all2 P (concat xss) (concat yss)"
  by (induction rule: list_all2_induct) (auto intro: list_all2_appendI)

lemma concat_chunks:
  "length xs = n * k \<Longrightarrow> concat (map (\<lambda>i. take k (drop (i * k) xs)) [0..<n]) = xs"
proof (induction n arbitrary: xs)
  case (Suc n)
  have "map (\<lambda>i. take k (drop (i * k) xs)) [0..<Suc n]
      = take k xs # map (\<lambda>i. take k (drop (i * k) (drop k xs))) [0..<n]"
    by (simp add: upt_conv_Cons map_Suc_upt [symmetric] add.commute del: upt_Suc)
  with Suc.IH [of "drop k xs"] Suc.prems show ?case by simp
qed simp

text \<open>An RGB image that is written and read again.\<close>

lemma write_then_read:
  assumes "jpeg_ok lib quality close" and "im_encoding im = ''RGB''"
    and "0 < im_width im" "im_width im \<le> 65500" "0 < im_height im" "im_height im \<le> 65500"
    and "length (im_data im) = 3 * unat (im_width im) * unat (im_height im)"
    and "length (im_data im) < 2 ^ 30"
  obtains bytes im' where "writeJPEG lib im cdat quality = Inr (True, bytes)"
    and "length bytes < 2 ^ 32" and "readJPEG lib bytes empty_image = (True, im')"
    and "im_width im' = im_width im" "im_height im' = im_height im"
    and "list_all2 close (im_data im) (im_data im')"
proof -
  let ?s = "unat (im_width im) * 3" and ?h = "unat (im_height im)"
  define scanlines where "scanlines = map (\<lambda>i. take ?s (drop (i * ?s) (im_data im))) [0..<?h]"
  have len: "length (im_data im) = ?h * ?s" using assms(7) by simp
  then have c: "concat scanlines = im_data im" unfolding scanlines_def by (rule concat_chunks)
  have rows: "\<forall>row \<in> set scanlines. length row = 3 * unat (im_width im)"
  proof
    fix row assume "row \<in> set scanlines"
    then obtain i where i: "row = take ?s (drop (i * ?s) (im_data im))" "i < ?h"
      by (auto simp: scanlines_def)
    then have "(i + 1) * ?s \<le> ?h * ?s" by (intro mult_le_mono1) simp
    then show "length row = 3 * unat (im_width im)" by (simp add: i(1) len)
  qed
  have pre: "0 < im_width im \<and> im_width im \<le> 65500 \<and> 0 < im_height im \<and> im_height im \<le> 65500 \<and>
      3 * unat (im_width im) * unat (im_height im) < 2 ^ 30 \<and> length scanlines = unat (im_height im) \<and>
      (\<forall>row \<in> set scanlines. length row = 3 * unat (im_width im))"
  proof -
    have "length scanlines = ?h" by (simp add: scanlines_def)
    with assms(3-8) rows show ?thesis by metis
  qed
  obtain bytes rows' where b: "jpeg_compress lib (im_width im) (im_height im) JCS_RGB quality scanlines = Some bytes"
    "bytes \<noteq> []" "length bytes < 2 ^ 32"
    "jpeg_decompress lib bytes = Jpeg_good
       \<lparr>image_width = im_width im, image_height = im_height im, output_width = im_width im,
        output_height = im_height im, output_components = 3, out_color_space = JCS_RGB\<rparr> rows'"
    "list_all2 (list_all2 close) scanlines rows'"
    using assms(1) [unfolded jpeg_ok_def, THEN spec, THEN spec, THEN spec, THEN mp, OF pre] by blast
  have "im_data im \<noteq> []" using assms(3,5,7) by (auto simp: word_gt_0 unat_eq_zero)
  then have w: "writeJPEG lib im cdat quality = Inr (True, bytes)"
    using assms(2,3,5) b(1) [unfolded scanlines_def] len
    by (auto simp: writeJPEG_def color_space_of_def Let_def word_gt_0)
  have cl: "list_all2 close (im_data im) (concat rows')"
    using list_all2_concat [OF b(5)] c by simp
  then have "length (concat rows') = ?h * ?s" using len by (simp add: list_all2_lengthD)
  then have "readJPEG lib bytes empty_image = (True, \<lparr>im_width = im_width im, im_height = im_height im,
      im_encoding = ''RGB'', im_step = 3, im_data = concat rows'\<rparr>)"
    using b(2,4) by (simp add: readJPEG_def empty_image_def read_scanlines_def Let_def encoding_of_def
        mult.commute mult.left_commute)
  with that [OF w b(3)] cl show ?thesis by simp
qed

section \<open>Lines\<close>

lemma resize_full [simp]: "length xs = n \<Longrightarrow> resize n xs = xs"
  by (simp add: resize_def)

lemma unat_word_length: "n < 2 ^ 32 \<Longrightarrow> unat (word_of_nat n :: u32) = n"
  by (simp add: unsigned_of_nat take_bit_nat_eq_self)

lemma dec_lines_enc:
  "\<forall>l \<in> set ls. length l < 2 ^ 32 \<Longrightarrow> dec_lines (length ls) (enc_all enc_line ls) = Inr ls"
  by (induction ls) (simp_all add: enc_line_def u32c.dec_enc unat_word_length)

lemma deserialize_serialize:
  assumes "\<forall>l \<in> set cls. length l < 2 ^ 32" and "length cls < 2 ^ 32"
  shows "\<exists>ss. serialize_lines \<lparr>line_count = word_of_nat (length cls), clines = cls\<rparr> = Inr ss \<and>
    deserialize_lines ss = Inr \<lparr>line_count = word_of_nat (length cls), clines = cls\<rparr>"
  using assms
  by (simp add: serialize_lines_def deserialize_lines_def u32c.dec_enc unat_word_length dec_lines_enc)

definition survives :: "jpeg_lib \<Rightarrow> int \<Rightarrow> (u8 \<Rightarrow> u8 \<Rightarrow> bool) \<Rightarrow> pcl_image \<Rightarrow> bool" where
  "survives lib quality close im \<longleftrightarrow>
     (\<exists>bytes im'. writeJPEG lib im [] quality = Inr (True, bytes) \<and> length bytes < 2 ^ 32 \<and>
        readJPEG lib bytes empty_image = (True, im') \<and> list_all2 close (im_data im) (im_data im'))"

lemma write_lines_read:
  assumes "\<forall>im \<in> set ims. survives lib quality close im"
  shows "\<exists>cls. write_lines lib quality ims = Inr cls \<and> length cls = length ims \<and>
    (\<forall>c \<in> set cls. length c < 2 ^ 32) \<and>
    list_all2 close (concat (map im_data ims))
      (concat (map (\<lambda>c. im_data (snd (readJPEG lib c empty_image))) cls))"
  using assms
proof (induction ims)
  case (Cons im ims)
  then obtain bytes im' where im: "writeJPEG lib im [] quality = Inr (True, bytes)" "length bytes < 2 ^ 32"
    "readJPEG lib bytes empty_image = (True, im')" "list_all2 close (im_data im) (im_data im')"
    by (auto simp: survives_def)
  obtain cls where cls: "write_lines lib quality ims = Inr cls" "length cls = length ims"
    "\<forall>c \<in> set cls. length c < 2 ^ 32"
    "list_all2 close (concat (map im_data ims))
      (concat (map (\<lambda>c. im_data (snd (readJPEG lib c empty_image))) cls))"
    using Cons by auto
  show ?case
    using im cls by (intro exI [of _ "bytes # cls"]) (auto intro: list_all2_appendI)
qed simp

lemma color_lines_concat:
  assumes "length v = 3 * n" and "2048 \<le> n"
  shows "concat (map im_data (color_lines v)) = v"
proof -
  define k where "k = n div 2048 - 1"
  have N: "length v div 3 div 2048 = Suc k" using assms by (simp add: k_def div_greater_zero_iff)
  have kn: "6144 * k \<le> length v" using assms k_def by simp
  have split: "map f [0..<Suc k] = map f [0..<k] @ [f k]" for f :: "nat \<Rightarrow> pcl_image" by simp
  have "concat (map (\<lambda>i. take 6144 (drop (i * 6144) (take (6144 * k) v))) [0..<k]) = take (6144 * k) v"
    by (rule concat_chunks) (use kn in simp)
  moreover have "map (\<lambda>i. take 6144 (drop (i * 6144) (take (6144 * k) v))) [0..<k]
      = map (\<lambda>i. take 6144 (drop (6144 * i) v)) [0..<k]"
  proof (rule map_cong [OF refl])
    fix i assume "i \<in> set [0..<k]"
    then have "6144 + 6144 * i \<le> 6144 * k" by simp
    then show "take 6144 (drop (i * 6144) (take (6144 * k) v)) = take 6144 (drop (6144 * i) v)"
      by (simp add: drop_take mult.commute)
  qed
  ultimately have first: "concat (map (\<lambda>i. take 6144 (drop (6144 * i) v)) [0..<k]) = take (6144 * k) v"
    by simp
  have ds: "map im_data (color_lines v) = map (\<lambda>i. take 6144 (drop (6144 * i) v)) [0..<k] @ [drop (6144 * k) v]"
    unfolding color_lines_def Let_def N by (simp add: line_image_def)
  show ?thesis unfolding ds using first by simp
qed

lemma color_lines_images:
  assumes "length v = 3 * n" and "2048 \<le> n" and "im \<in> set (color_lines v)"
  shows "im_encoding im = ''RGB'' \<and> im_height im = 1 \<and> 0 < im_width im \<and> im_width im \<le> 4095 \<and>
    length (im_data im) = 3 * unat (im_width im)"
proof -
  define N where "N = n div 2048"
  have n: "length v div 3 div 2048 = N" "N \<noteq> 0" using assms(1,2) by (simp_all add: N_def div_greater_zero_iff)
  have b: "2048 * N \<le> n" "n < 2048 * N + 2048"
    using div_mult_mod_eq [of n 2048] mod_less_divisor [of 2048 n] by (simp_all add: N_def)
  from assms(3) consider i where "i < N" "i \<noteq> N - 1" "im = line_image 2048 (take 6144 (drop (6144 * i) v))"
    | "im = line_image (word_of_nat (length (drop (6144 * (N - 1)) v) div 3)) (drop (6144 * (N - 1)) v)"
    unfolding color_lines_def Let_def n(1) using n(2) by (auto split: if_splits)
  then show ?thesis
  proof cases
    case 1
    then have "6144 * (i + 2) \<le> 6144 * N" by simp
    then show ?thesis using 1 assms(1) b by (simp add: line_image_def)
  next
    case 2
    define r where "r = n - 2048 * (N - 1)"
    define line_dat where "line_dat = drop (6144 * (N - 1)) v"
    have r: "length line_dat = 3 * r" using assms(1) by (simp add: r_def line_dat_def)
    have im: "im = line_image (word_of_nat r) line_dat" using 2 unfolding line_dat_def [symmetric] r by simp
    have "2048 \<le> r" "r \<le> 4095" using b n(2) by (auto simp: r_def diff_mult_distrib2)
    moreover from this have "unat (word_of_nat r :: u32) = r" by (simp add: unat_word_length)
    ultimately show ?thesis
      by (auto simp: im r line_image_def word_gt_0 word_le_nat_alt)
  qed
qed

lemma jpeg_lines_survive:
  assumes "jpeg_ok lib quality close" and "length v = 3 * n" and "2048 \<le> n" and "im \<in> set (color_lines v)"
  shows "survives lib quality close im"
proof -
  note im = color_lines_images [OF assms(2-4)]
  have w: "unat (im_width im) \<le> 4095" using im by (simp add: word_le_nat_alt)
  then have "im_width im \<le> 65500" "im_height im \<le> 65500" "length (im_data im) < 2 ^ 30"
    using im by (simp_all add: word_le_nat_alt)
  with im obtain bytes im' where "writeJPEG lib im [] quality = Inr (True, bytes)" "length bytes < 2 ^ 32"
    "readJPEG lib bytes empty_image = (True, im')" "list_all2 close (im_data im) (im_data im')"
    using write_then_read [OF assms(1), of im "[]"] by (metis less_numeral_extra(1) mult.right_neutral
        unat_1 word_less_1)
  then show ?thesis by (auto simp: survives_def)
qed

section \<open>Properties\<close>


text \<open>
  A frame of fewer than 2048 pixels (but at least one) is handed to the library as an image 2048
  pixels wide: the library then reads past the end of the colours.
\<close>

theorem jpeg_lines_short_frame:
  assumes "length colors = 3 * n" and "0 < n" and "n < 2048"
  shows "encodeJPEGLines lib quality colors = Inl Out_of_bounds"
proof -
  have "color_lines colors = [line_image 2048 colors]"
    using assms by (simp add: color_lines_def Let_def)
  moreover have "colors \<noteq> []" using assms(1,2) by auto
  ultimately show ?thesis
    using assms by (simp add: encodeJPEGLines_def writeJPEG_def line_image_def color_space_of_def)
qed

theorem jpeg_lines_short_frame_witness:
  "\<forall>lib. encodeJPEGLines lib 75 [1, 2, 3] = Inl Out_of_bounds"
  by (intro allI jpeg_lines_short_frame [of _ 1]) simp_all

lemma length_snake_padding:
  assumes "length colors = 3 * n" and "0 < n"
  shows "length (colors @ snake_padding colors) = 3 * (8 * 32 * (n div 256 + 1))"
proof -
  have "length (concat (replicate k xs)) = k * length xs" for k and xs :: "u8 list"
    by (induction k) simp_all
  moreover have "n \<le> 256 * (n div 256 + 1)"
    using mod_less_divisor [of 256 n] mult_div_mod_eq [of 256 n] by simp
  ultimately show ?thesis using assms by (simp add: snake_padding_def Let_def)
qed

lemma pixels_related:
  assumes "length xs = 3 * n" and "length ys = 3 * n"
    and "\<And>i. i < n \<Longrightarrow> rel_prod R (rel_prod R R) (pixel xs i) (pixel ys i)"
  shows "list_all2 R xs ys"
proof (rule list_all2_all_nthI)
  fix k assume "k < length xs"
  then have k: "k div 3 < n" using assms(1) by (simp add: div_less_iff_less_mult mult.commute)
  have "k = 3 * (k div 3) \<or> k = 3 * (k div 3) + 1 \<or> k = 3 * (k div 3) + 2"
    using mod_less_divisor [of 3 k] mult_div_mod_eq [of 3 k] by linarith
  with assms(3) [OF k] show "R (xs ! k) (ys ! k)" by (auto simp: pixel_def)
qed (simp add: assms)

text \<open>
  The colours of a frame survive the zigzag coding the encoder of this library uses: the decoder
  gets the samples of the frame in their order, each related to its original by whatever the JPEG
  library does to a sample, followed by the samples the encoder padded the image with.
\<close>

lemma jpeg_snake_round_trip:
  assumes "jpeg_ok lib quality close"
    and "length colors = 3 * n" and "0 < n" and "n < 256 * 65500"
  shows "\<exists>bytes colors'. encodeJPEGSnake lib quality colors = Inr bytes \<and> length bytes < 2 ^ 32 \<and>
    decodeJPEGSnake lib bytes = Inr colors' \<and> list_all2 close (colors @ snake_padding colors) colors'"
proof -
  define h where "h = n div 256 + 1"
  define padded where "padded = colors @ snake_padding colors"
  have h: "0 < h" "h \<le> 65500" using assms(4) by (simp_all add: h_def div_less_iff_less_mult less_imp_Suc_add
      Suc_le_eq)
  have uh: "unat (word_of_nat h :: u32) = h" using h(2) by (simp add: unat_word_length)
  have len: "length padded = 3 * (8 * 32 * h)"
    using length_snake_padding [OF assms(2,3)] by (simp add: padded_def h_def)
  obtain img where img: "doMapping (8 * int 32) (int h) [] padded = Inr img" "length img = 3 * (8 * 32 * h)"
    "\<And>i. i < 8 * 32 * h \<Longrightarrow> pixel img (snake_index 32 h i) = pixel padded i"
    using doMapping_spec [of 32 h padded "[]"] len by auto
  define im where "im = \<lparr>im_width = 256, im_height = word_of_nat h, im_encoding = ''RGB'', im_step = 0, im_data = img\<rparr>"
  have "0 < im_height im" "im_height im \<le> 65500"
    using h uh by (simp_all add: im_def word_gt_0 word_le_nat_alt) (metis unat_0 not_gr_zero)
  then obtain bytes im' where w: "writeJPEG lib im [] quality = Inr (True, bytes)" "length bytes < 2 ^ 32"
    and r: "readJPEG lib bytes empty_image = (True, im')" "im_width im' = 256" "im_height im' = word_of_nat h"
    and c: "list_all2 close img (im_data im')"
    using write_then_read [OF assms(1), of im "[]"] img(2) h(2) uh
    by (simp add: im_def word_le_nat_alt) blast
  have enc: "encodeJPEGSnake lib quality colors = Inr bytes"
    using assms(2,3) img(1) w by (simp add: encodeJPEGSnake_def Let_def h_def im_def padded_def)
  have len': "length (im_data im') = 3 * (8 * 32 * h)" using c img(2) by (simp add: list_all2_lengthD)
  obtain colors' where d: "undoSnakeGridMapping (8 * int 32) (int h) [] (im_data im') = Inr colors'"
    "length colors' = 3 * (8 * 32 * h)"
    "\<And>i. i < 8 * 32 * h \<Longrightarrow> pixel colors' i = pixel (im_data im') (snake_index 32 h i)"
    using undoMapping_spec [of 32 h "im_data im'" "[]", OF zero_less_numeral eq_refl [OF len' [symmetric]]]
    by blast
  have "uint (im_height im') = int h" using r(3) uh by (metis of_nat_unat)
  moreover have "uint (im_width im') = 8 * int 32" using r(2) by simp
  ultimately have "decodeJPEGSnake lib bytes = Inr colors'"
    unfolding decodeJPEGSnake_def r(1) prod.case using d(1) by simp
  moreover have "list_all2 close padded colors'"
  proof (rule pixels_related [of _ "8 * 32 * h"])
    fix i assume i: "i < 8 * 32 * h"
    then have "snake_index 32 h i < 8 * 32 * h" by (rule snake_index_parts(3)) simp
    then have b: "3 * snake_index 32 h i + 2 < length img" using img(2) by linarith
    then have "rel_prod close (rel_prod close close) (pixel img (snake_index 32 h i))
        (pixel (im_data im') (snake_index 32 h i))"
      using list_all2_nthD [OF c, of "3 * snake_index 32 h i"] list_all2_nthD [OF c, of "3 * snake_index 32 h i + 1"]
        list_all2_nthD [OF c, of "3 * snake_index 32 h i + 2"] by (simp add: pixel_def)
    then show "rel_prod close (rel_prod close close) (pixel padded i) (pixel colors' i)"
      using img(3) [OF i] d(3) [OF i] by simp
  qed (use len d in simp_all)
  ultimately show ?thesis using enc w(2) by (auto simp: padded_def)
qed

section \<open>A library that keeps the samples\<close>

definition raw_lib :: jpeg_lib where
  "raw_lib = \<lparr>jpeg_compress = (\<lambda>w h c q rows. Some (enc_u32 w @ enc_u32 h @ concat rows)),
     jpeg_decompress = (\<lambda>bytes.
       case dec_u32 bytes of None \<Rightarrow> Jpeg_bad_header | Some (w, r1) \<Rightarrow>
       case dec_u32 r1 of None \<Rightarrow> Jpeg_bad_header | Some (h, r2) \<Rightarrow>
       Jpeg_good \<lparr>image_width = w, image_height = h, output_width = w, output_height = h,
          output_components = 3, out_color_space = JCS_RGB\<rparr>
         (map (\<lambda>i. take (3 * unat w) (drop (i * (3 * unat w)) r2)) [0..<unat h]))\<rparr>"

lemma chunks_concat:
  "\<forall>row \<in> set rows. length row = k \<Longrightarrow> map (\<lambda>i. take k (drop (i * k) (concat rows))) [0..<length rows] = rows"
proof (induction rows)
  case (Cons row rows)
  have "map (\<lambda>i. take k (drop (i * k) (concat (row # rows)))) [0..<length (row # rows)]
      = row # map (\<lambda>i. take k (drop (i * k) (concat rows))) [0..<length rows]"
    using Cons.prems by (simp add: upt_conv_Cons map_Suc_upt [symmetric] del: upt_Suc)
  with Cons show ?case by simp
qed simp

lemma length_concat_rows: "\<forall>row \<in> set rows. length row = k \<Longrightarrow> length (concat rows) = k * length rows"
  by (induction rows) simp_all

lemma raw_lib_ok: "jpeg_ok raw_lib q (=)"
  unfolding jpeg_ok_def
proof (intro allI impI)
  fix w h :: u32 and rows :: "u8 list list"
  assume a: "0 < w \<and> w \<le> 65500 \<and> 0 < h \<and> h \<le> 65500 \<and> 3 * unat w * unat h < 2 ^ 30 \<and>
    length rows = unat h \<and> (\<forall>row \<in> set rows. length row = 3 * unat w)"
  then have "length (concat rows) = 3 * unat w * unat h" using length_concat_rows [of rows "3 * unat w"] by simp
  then have l: "length (enc_u32 w @ enc_u32 h @ concat rows) < 2 ^ 32" using a by (simp add: u32c.enc_length)
  have c: "map (\<lambda>i. take (3 * unat w) (drop (i * (3 * unat w)) (concat rows))) [0..<unat h] = rows"
    using chunks_concat [of rows "3 * unat w"] a by simp
  have ne: "enc_u32 w @ enc_u32 h @ concat rows \<noteq> []" using u32c.enc_length [of w] by auto
  show "\<exists>bytes rows'. jpeg_compress raw_lib w h JCS_RGB q rows = Some bytes \<and> bytes \<noteq> [] \<and>
      length bytes < 2 ^ 32 \<and> jpeg_decompress raw_lib bytes = Jpeg_good
        \<lparr>image_width = w, image_height = h, output_width = w, output_height = h,
         output_components = 3, out_color_space = JCS_RGB\<rparr> rows' \<and> list_all2 (list_all2 (=)) rows rows'"
    by (intro exI [of _ "enc_u32 w @ enc_u32 h @ concat rows"] exI [of _ rows])
      (use l ne in \<open>simp add: raw_lib_def u32c.dec_enc c list.rel_eq\<close>)
qed


lemma jpeg_snake_example:
  "\<exists>bytes. encodeJPEGSnake raw_lib 75 (replicate 9 7) = Inr bytes \<and>
     decodeJPEGSnake raw_lib bytes = Inr (replicate 9 7 @ snake_padding (replicate 9 7))"
  using jpeg_snake_round_trip [OF raw_lib_ok, of "replicate 9 7" 3 75] by (auto simp: list.rel_eq)

end
