(* ===== verification/FrameStream.thy ===== *)
theory FrameStream
  imports JpegColors FloatArith
begin

text \<open>
  The byte stream of a coded frame, from
  \<open>cwipc_codec/cloud_codec_v2/include/pcl/cloud_codec_v2/impl/point_cloud_codec_v2_impl.hpp\<close>: the
  frame header with the fields of the second version, the search for its identifier, and the
  entropy-coded vectors behind it. The base class of PCL and its entropy coder are parameters; the
  laws the code relies on are \<open>base_ok\<close> and \<open>entropy_ok\<close>.
\<close>

section \<open>The codec object\<close>

text \<open>The members of \<open>OctreePointCloudCompression\<close> the code uses.\<close>

record base_coder =
  frame_ID :: u32
  i_frame :: bool
  i_frame_counter :: u32
  i_frame_rate :: u32
  do_voxel_grid :: bool
  do_color_encoding :: bool
  cloud_with_color :: bool
  data_with_color :: bool
  oct_resolution :: f64
  point_compression_resolution :: f32
  min_xyz :: "f64 \<times> f64 \<times> f64"

text \<open>The members that are written into the header of the second version.\<close>

record v2_params =
  v2_octreeResolution :: f64
  v2_colorBitResolution :: u8
  v2_jpeg_quality :: u32
  do_voxel_centroid :: bool
  do_connectivity :: bool
  create_scalable :: bool
  color_coding_type :: u32
  v2_macroblock_size :: u32
  do_icp_color_offset :: bool

text \<open>The vectors a frame is made of, and the two colour coders (the one of PCL has two vectors).\<close>

record octree_codec =
  base :: base_coder
  v2 :: v2_params
  binary_tree_data :: "u8 list"
  point_count_data :: "u32 list"
  centroid_diffs :: "u8 list"
  point_diffs :: "u8 list"
  pcl_avg :: "u8 list"
  pcl_avg_iterator :: nat
  pcl_diff :: "u8 list"
  jp :: color_coder
  metrics :: "u64 \<times> u64 \<times> u64"

record base_lib =
  bl_header :: "base_coder \<Rightarrow> u8 list"
  bl_sync :: "u8 list \<Rightarrow> u8 list"
  bl_read :: "base_coder \<Rightarrow> u8 list \<Rightarrow> base_coder \<times> u8 list"

text \<open>
  The entropy coder writes a vector and says how many bytes that took; it reads as many elements
  as the vector has been resized to.
\<close>

record entropy_lib =
  el_enc :: "u8 list \<Rightarrow> u8 list"
  el_dec :: "nat \<Rightarrow> u8 list \<Rightarrow> u8 list \<times> u8 list"
  el_enc_int :: "u32 list \<Rightarrow> u8 list"
  el_dec_int :: "nat \<Rightarrow> u8 list \<Rightarrow> u32 list \<times> u8 list"

section \<open>Synchronising to the header\<close>

definition frame_header_identifier :: "u8 list" where
  "frame_header_identifier = map (\<lambda>c. of_char c) ''<PCL-OCT-CODECV2-COMPRESSED>''"

text \<open>
  The loop of \<open>syncToHeader\<close>. At the end of the stream \<open>read\<close> fails and leaves \<open>readChar\<close>, a local
  variable without initial value, as it is: \<open>garbage\<close>. Only the next iteration sees the end.
\<close>

definition header_id_next :: "u8 list \<Rightarrow> nat \<Rightarrow> u8 \<Rightarrow> nat" where
  "header_id_next ident header_id_pos readChar =
     (if readChar \<noteq> ident ! header_id_pos then (if ident ! 0 = readChar then 1 else 0)
      else header_id_pos + 1)"

fun sync_loop :: "u8 list \<Rightarrow> u8 \<Rightarrow> nat \<Rightarrow> u8 list \<Rightarrow> u8 list option" where
  "sync_loop ident garbage header_id_pos [] =
     (if length ident \<le> header_id_pos then Some []
      else if length ident \<le> header_id_next ident header_id_pos garbage then Some [] else None)"
| "sync_loop ident garbage header_id_pos (readChar # s) =
     (if length ident \<le> header_id_pos then Some (readChar # s)
      else sync_loop ident garbage (header_id_next ident header_id_pos readChar) s)"

definition syncToHeader :: "base_lib \<Rightarrow> u8 \<Rightarrow> u8 list \<Rightarrow> u8 list option" where
  "syncToHeader bl garbage s =
     map_option (bl_sync bl) (sync_loop frame_header_identifier garbage 0 s)"

text \<open>The reference: what is left behind the first occurrence of a word.\<close>

fun find_after :: "'a list \<Rightarrow> 'a list \<Rightarrow> 'a list option" where
  "find_after w [] = (if w = [] then Some [] else None)"
| "find_after w (x # xs) =
     (if take (length w) (x # xs) = w then Some (drop (length w) (x # xs)) else find_after w xs)"

lemma find_after_none: "length s < length w \<Longrightarrow> find_after w s = None"
proof (induction s)
  case (Cons x s)
  have "take (length w) (x # s) \<noteq> w"
  proof
    assume "take (length w) (x # s) = w"
    then have "length (take (length w) (x # s)) = length w" by simp
    with Cons.prems show False by simp
  qed
  with Cons show ?case by simp
qed auto

lemma find_after_here: "find_after w (w @ s) = Some s"
proof (cases "w @ s")
  case (Cons x xs)
  then show ?thesis by (metis append_eq_conv_conj find_after.simps(2))
qed simp

lemma find_after_skip:
  assumes "\<forall>x \<in> set xs. x \<noteq> w ! 0" and "w \<noteq> []"
  shows "find_after w (xs @ s) = find_after w s"
  using assms(1)
proof (induction xs)
  case (Cons x xs)
  have "take (length w) (x # xs @ s) \<noteq> w"
    using Cons.prems assms(2) by (cases w) auto
  with Cons show ?case by simp
qed simp

text \<open>
  The first character of the word appears nowhere else in it, so falling back to position 1 or 0
  after a mismatch never skips an occurrence.
\<close>

lemma sync_loop_finds:
  assumes "1 < length ident" and "\<forall>k. 0 < k \<and> k < length ident \<longrightarrow> ident ! k \<noteq> ident ! 0"
    and "garbage \<noteq> last ident"
  shows "p < length ident \<Longrightarrow> sync_loop ident garbage p s = find_after ident (take p ident @ s)"
proof (induction s arbitrary: p)
  case Nil
  have "garbage = ident ! p \<Longrightarrow> p + 1 < length ident"
  proof -
    assume g: "garbage = ident ! p"
    have "last ident = ident ! (length ident - 1)" using assms(1) by (intro last_conv_nth) auto
    with g assms(3) have "p \<noteq> length ident - 1" by auto
    with Nil show ?thesis by simp
  qed
  then have "header_id_next ident p garbage < length ident"
    using assms(1) by (auto simp: header_id_next_def)
  with Nil show ?case by (simp add: find_after_none)
next
  case (Cons b s)
  show ?case
  proof (cases "b = ident ! p")
    case True
    then have t: "take p ident @ b # s = take (p + 1) ident @ s"
      using Cons.prems by (simp add: take_Suc_conv_app_nth)
    show ?thesis
    proof (cases "p + 1 = length ident")
      case True
      then have "find_after ident (take p ident @ b # s) = Some s"
        unfolding t by (simp add: find_after_here)
      moreover have "sync_loop ident garbage p (b # s) = Some s"
        using True Cons.prems \<open>b = ident ! p\<close> by (cases s) (simp_all add: header_id_next_def)
      ultimately show ?thesis by simp
    next
      case False
      then show ?thesis
        unfolding t using Cons.IH [of "p + 1"] Cons.prems \<open>b = ident ! p\<close> by (simp add: header_id_next_def)
    qed
  next
    case False
    have "take (length ident) (take p ident @ b # s) \<noteq> ident"
    proof
      assume "take (length ident) (take p ident @ b # s) = ident"
      then have "take (length ident) (take p ident @ b # s) ! p = ident ! p" by simp
      with Cons.prems False show False by (simp add: nth_append)
    qed
    have skip: "find_after ident (take p ident @ b # s) = find_after ident (b # s)"
    proof (cases p)
      case (Suc k)
      then have d: "\<forall>x \<in> set (drop 1 (take p ident)). x \<noteq> ident ! 0"
        using assms(2) Cons.prems by (auto simp: in_set_conv_nth)
      have "take p ident = ident ! 0 # drop 1 (take p ident)"
        using assms(1) Suc by (cases ident) auto
      then have "find_after ident (take p ident @ b # s)
          = find_after ident (drop 1 (take p ident) @ b # s)"
        using \<open>take (length ident) (take p ident @ b # s) \<noteq> ident\<close>
        by (metis append_Cons find_after.simps(2))
      also have "\<dots> = find_after ident (b # s)"
        using d assms(1) by (intro find_after_skip) auto
      finally show ?thesis .
    qed simp
    moreover have "find_after ident (b # s) = find_after ident (take (header_id_next ident p b) ident @ s)"
    proof (cases "b = ident ! 0")
      case True
      then have "take (header_id_next ident p b) ident = [b]"
        using False assms(1) by (cases ident) (auto simp: header_id_next_def)
      then show ?thesis by simp
    next
      case ne: False
      have "ident \<noteq> []" using assms(1) by auto
      with ne have "find_after ident ([b] @ s) = find_after ident s" by (intro find_after_skip) auto
      with ne False show ?thesis by (simp add: header_id_next_def)
    qed
    ultimately have "find_after ident (take p ident @ b # s) = find_after ident (take (header_id_next ident p b) ident @ s)"
      by simp
    moreover have "header_id_next ident p b < length ident"
      using assms(1) False by (auto simp: header_id_next_def)
    ultimately show ?thesis using Cons False by simp
  qed
qed

section \<open>The frame header\<close>

text \<open>
  \<open>read\<close> into a variable of \<open>n\<close> bytes: what the stream still has replaces the first bytes of the
  variable, so a stream that ends early leaves the rest of the old value.
\<close>

definition read_bytes :: "nat \<Rightarrow> u8 list \<Rightarrow> u8 list \<Rightarrow> u8 list \<times> u8 list" where
  "read_bytes n old s = (take n s @ drop (length s) old, drop n s)"

definition enc_bool :: "bool \<Rightarrow> u8 list" where
  "enc_bool b = [if b then 1 else 0]"

definition read_u64 :: "u64 \<Rightarrow> u8 list \<Rightarrow> u64 \<times> u8 list" where
  "read_u64 old s = (case read_bytes 8 (enc_u64 old) s of (v, r) \<Rightarrow> (word_of_nat (le_value v), r))"

definition read_u32 :: "u32 \<Rightarrow> u8 list \<Rightarrow> u32 \<times> u8 list" where
  "read_u32 old s = (case read_bytes 4 (enc_u32 old) s of (v, r) \<Rightarrow> (word_of_nat (le_value v), r))"

definition read_u8 :: "u8 \<Rightarrow> u8 list \<Rightarrow> u8 \<times> u8 list" where
  "read_u8 old s = (case read_bytes 1 [old] s of (v, r) \<Rightarrow> (hd v, r))"

text \<open>A byte that is neither 0 nor 1 is no value of type \<open>bool\<close>; it is taken to be true.\<close>

definition read_bool :: "bool \<Rightarrow> u8 list \<Rightarrow> bool \<times> u8 list" where
  "read_bool old s = (case read_bytes 1 (enc_bool old) s of (v, r) \<Rightarrow> (hd v \<noteq> 0, r))"

lemma read_u64_enc [codec_simps]: "read_u64 old (enc_u64 x @ r) = (x, r)"
  using le_value_unat_u64 [of x]
  by (simp add: read_u64_def read_bytes_def enc_u64_def)

lemma read_u32_enc [codec_simps]: "read_u32 old (enc_u32 x @ r) = (x, r)"
  using le_value_unat_u32 [of x]
  by (simp add: read_u32_def read_bytes_def enc_u32_def)

lemma read_u8_enc [codec_simps]: "read_u8 old (enc_u8 x @ r) = (x, r)"
  by (simp add: read_u8_def read_bytes_def enc_u8_def)

lemma read_bool_enc [codec_simps]: "read_bool old (enc_bool x @ r) = (x, r)"
  by (simp add: read_bool_def read_bytes_def enc_bool_def)

definition writeFrameHeader :: "base_lib \<Rightarrow> octree_codec \<Rightarrow> u64 \<Rightarrow> u8 list" where
  "writeFrameHeader bl c timeStamp =
     frame_header_identifier @ bl_header bl (base c) @ enc_u64 timeStamp
     @ enc_u64 (v2_octreeResolution (v2 c)) @ enc_u8 (v2_colorBitResolution (v2 c))
     @ enc_u32 (v2_jpeg_quality (v2 c)) @ enc_bool (do_voxel_centroid (v2 c))
     @ enc_bool (do_connectivity (v2 c)) @ enc_bool (create_scalable (v2 c))
     @ enc_u32 (color_coding_type (v2 c)) @ enc_u32 (v2_macroblock_size (v2 c))
     @ enc_bool (do_icp_color_offset (v2 c))"

definition readFrameHeader ::
  "base_lib \<Rightarrow> octree_codec \<Rightarrow> u64 \<Rightarrow> u8 list \<Rightarrow> octree_codec \<times> u64 \<times> u8 list" where
  "readFrameHeader bl c timeStamp s =
     (let (b, s0) = bl_read bl (base c) s; p = v2 c;
          (ts, s1) = read_u64 timeStamp s0;
          (res, s2) = read_u64 (v2_octreeResolution p) s1;
          (bits, s3) = read_u8 (v2_colorBitResolution p) s2;
          (quality, s4) = read_u32 (v2_jpeg_quality p) s3;
          (centroid, s5) = read_bool (do_voxel_centroid p) s4;
          (connectivity, s6) = read_bool (do_connectivity p) s5;
          (scalable, s7) = read_bool (create_scalable p) s6;
          (coding, s8) = read_u32 (color_coding_type p) s7;
          (mbsize, s9) = read_u32 (v2_macroblock_size p) s8;
          (icp, s10) = read_bool (do_icp_color_offset p) s9
      in (c\<lparr>base := b,
            v2 := \<lparr>v2_octreeResolution = res, v2_colorBitResolution = bits, v2_jpeg_quality = quality,
                   do_voxel_centroid = centroid, do_connectivity = connectivity,
                   create_scalable = scalable, color_coding_type = coding, v2_macroblock_size = mbsize,
                   do_icp_color_offset = icp\<rparr>\<rparr>, ts, s10))"

text \<open>
  What the base class promises: the header of an intra frame is found again by its own search and
  read back into the members it holds; \<open>data_with_color\<close> is the encoder's \<open>cloud_with_color\<close>.
\<close>

definition received_base :: "base_coder \<Rightarrow> base_coder \<Rightarrow> base_coder" where
  "received_base sent b =
     b\<lparr>frame_ID := frame_ID sent, i_frame := i_frame sent, do_voxel_grid := do_voxel_grid sent,
       data_with_color := cloud_with_color sent,
       oct_resolution := oct_resolution sent,
       point_compression_resolution := point_compression_resolution sent, min_xyz := min_xyz sent\<rparr>"

definition base_ok :: "base_lib \<Rightarrow> bool" where
  "base_ok bl \<longleftrightarrow>
     (\<forall>sent b rest. i_frame sent \<longrightarrow>
        bl_read bl b (bl_sync bl (bl_header bl sent @ rest)) = (received_base sent b, rest))"

section \<open>The vectors of a frame\<close>

definition enc_vector :: "(nat \<Rightarrow> u8 list) \<Rightarrow> ('a list \<Rightarrow> u8 list) \<Rightarrow> 'a list \<Rightarrow> u8 list" where
  "enc_vector enc_size enc v = enc_size (length v) @ enc v"

definition size64 :: "nat \<Rightarrow> u8 list" where "size64 n = enc_u64 (size_of_nat n)"

definition size32 :: "nat \<Rightarrow> u8 list" where "size32 n = enc_u32 (word_of_nat n)"

text \<open>The vector of averages the entropy coder gets: the JPEG coder encodes it on this call.\<close>

definition average_vector :: "jpeg_lib \<Rightarrow> octree_codec \<Rightarrow> fault + u8 list \<times> octree_codec" where
  "average_vector lib c =
     (if color_coding_type (v2 c) \<noteq> 0
      then map_sum id (\<lambda>(v, j). (v, c\<lparr>jp := j\<rparr>)) (getAverageDataVector lib (jp c))
      else Inr (pcl_avg c, c))"

definition length64 :: "u8 list \<Rightarrow> u64" where "length64 bs = size_of_nat (length bs)"

text \<open>
  \<open>entropyEncoding\<close> with one stream for both arguments, as \<open>encodePointCloud\<close> calls it: first the
  tree, the centroids and the average colours, then, unless the frame has one point per voxel, the
  details. The byte counts are kept as performance metrics.
\<close>

definition entropyEncoding ::
  "jpeg_lib \<Rightarrow> entropy_lib \<Rightarrow> octree_codec \<Rightarrow> fault + u8 list \<times> octree_codec" where
  "entropyEncoding lib el c =
     (let tree = el_enc el (binary_tree_data c);
          cent = (if do_voxel_centroid (v2 c) then el_enc el (centroid_diffs c) else []);
          out1 = size64 (length (binary_tree_data c)) @ tree
                 @ (if do_voxel_centroid (v2 c) then size32 (length (centroid_diffs c)) @ cent else [])
      in case (if cloud_with_color (base c)
               then map_sum id (\<lambda>(avg, c'). (size64 (length avg) @ el_enc el avg, length64 (el_enc el avg), c'))
                      (average_vector lib c)
               else Inr ([], 0, c)) of
           Inl f \<Rightarrow> Inl f
         | Inr (out2, color_len, c1) \<Rightarrow>
             let diff = (if color_coding_type (v2 c) \<noteq> 0 then diffColorData (jp c1) else pcl_diff c1);
                 out3 = (if do_voxel_grid (base c) then []
                         else size64 (length (point_count_data c)) @ el_enc_int el (point_count_data c)
                              @ size64 (length (point_diffs c)) @ el_enc el (point_diffs c)
                              @ (if cloud_with_color (base c) then size64 (length diff) @ el_enc el diff else []))
             in Inr (out1 @ out2 @ out3,
                     c1\<lparr>metrics := (length64 tree, length64 cent, color_len)\<rparr>))"

text \<open>
  \<open>entropyDecoding\<close>. The sizes of the tree and of the averages start as 0, the others have no
  initial value. Whether details follow is decided by looking whether the stream goes on. Their
  colours always go to the coder of PCL.
\<close>

definition read_size :: "u8 list \<Rightarrow> fault + nat \<times> u8 list" where
  "read_size s = (if length s < 8 then Inl Uninitialized else Inr (case read_u64 0 s of (n, r) \<Rightarrow> (unat n, r)))"

definition decode_details :: "entropy_lib \<Rightarrow> octree_codec \<Rightarrow> u8 list \<Rightarrow> fault + octree_codec \<times> u8 list" where
  "decode_details el c s =
     (case read_size s of Inl f \<Rightarrow> Inl f | Inr (n1, s1) \<Rightarrow>
      case el_dec_int el n1 s1 of (counts, s2) \<Rightarrow>
      case read_size s2 of Inl f \<Rightarrow> Inl f | Inr (n2, s3) \<Rightarrow>
      case el_dec el n2 s3 of (diffs, s4) \<Rightarrow>
      let c1 = c\<lparr>point_count_data := counts, point_diffs := diffs\<rparr> in
      if data_with_color (base c)
      then (case read_size s4 of Inl f \<Rightarrow> Inl f | Inr (n3, s5) \<Rightarrow>
            case el_dec el n3 s5 of (cdiffs, s6) \<Rightarrow> Inr (c1\<lparr>pcl_diff := cdiffs\<rparr>, s6))
      else Inr (c1, s4))"

definition decode_centroids :: "entropy_lib \<Rightarrow> octree_codec \<Rightarrow> u8 list \<Rightarrow> fault + octree_codec \<times> u8 list" where
  "decode_centroids el c s =
     (if \<not> do_voxel_centroid (v2 c) then Inr (c, s)
      else if length s < 4 then Inl Uninitialized
      else case read_u32 0 s of (n, s1) \<Rightarrow>
           case el_dec el (unat n) s1 of (v, s2) \<Rightarrow> Inr (c\<lparr>centroid_diffs := v\<rparr>, s2))"

definition decode_averages :: "entropy_lib \<Rightarrow> octree_codec \<Rightarrow> u8 list \<Rightarrow> octree_codec \<times> u8 list" where
  "decode_averages el c s =
     (if \<not> data_with_color (base c) then (c, s)
      else case read_u64 0 s of (n, s1) \<Rightarrow>
           case el_dec el (unat n) s1 of (v, s2) \<Rightarrow>
             ((if color_coding_type (v2 c) \<noteq> 0 then c\<lparr>jp := (jp c)\<lparr>avgColorData := v\<rparr>\<rparr>
               else c\<lparr>pcl_avg := v\<rparr>), s2))"

definition entropyDecoding :: "entropy_lib \<Rightarrow> octree_codec \<Rightarrow> u8 list \<Rightarrow> fault + octree_codec \<times> u8 list" where
  "entropyDecoding el c s =
     (case read_u64 0 s of (n, s1) \<Rightarrow>
      case el_dec el (unat n) s1 of (tree, s2) \<Rightarrow>
      case decode_centroids el (c\<lparr>binary_tree_data := tree\<rparr>) s2 of Inl f \<Rightarrow> Inl f | Inr (c1, s3) \<Rightarrow>
      case decode_averages el c1 s3 of (c2, s4) \<Rightarrow>
      let c3 = c2\<lparr>base := (base c2)\<lparr>do_voxel_grid := (s4 = [])\<rparr>\<rparr> in
      if s4 = [] then Inr (c3, s4) else decode_details el c3 s4)"

definition entropy_ok :: "entropy_lib \<Rightarrow> bool" where
  "entropy_ok el \<longleftrightarrow>
     (\<forall>v rest. el_dec el (length v) (el_enc el v @ rest) = (v, rest)) \<and>
     (\<forall>v rest. el_dec_int el (length v) (el_enc_int el v @ rest) = (v, rest))"

section \<open>Properties\<close>

lemma length_identifier: "length frame_header_identifier = 28"
  by (simp add: frame_header_identifier_def)

lemma identifier_first: "\<forall>k. 0 < k \<and> k < length frame_header_identifier \<longrightarrow>
    frame_header_identifier ! k \<noteq> frame_header_identifier ! 0"
proof -
  have "\<forall>k \<in> set [1..<28]. frame_header_identifier ! k \<noteq> frame_header_identifier ! 0"
    by code_simp
  then show ?thesis by (simp add: length_identifier)
qed

text \<open>
  C16. \<open>syncToHeader\<close> is an exact search: it stops right behind the first occurrence of the frame
  identifier in the stream, however much data and however many broken identifiers come before it,
  and fails when there is none. (Unless the uninitialised character it looks at when the stream ends
  happens to be the one the identifier ends with: then an identifier cut off by one is accepted.)
\<close>

theorem sync_is_search:
  assumes "garbage \<noteq> last frame_header_identifier"
  shows "syncToHeader bl garbage s = map_option (bl_sync bl) (find_after frame_header_identifier s)"
  using sync_loop_finds [OF _ identifier_first assms, of 0 s]
  by (simp add: syncToHeader_def length_identifier)

lemma last_identifier: "last frame_header_identifier = 62"
  by code_simp

theorem sync_is_search_witness:
  "syncToHeader \<lparr>bl_header = \<lambda>_. [], bl_sync = id, bl_read = Pair\<rparr> 0
     ([60, 80, 67] @ frame_header_identifier @ [1, 2]) = Some [1, 2]"
  using sync_is_search [of 0 "\<lparr>bl_header = \<lambda>_. [], bl_sync = id, bl_read = Pair\<rparr>"
      "[60, 80, 67] @ frame_header_identifier @ [1, 2]"]
  by (simp add: last_identifier) code_simp

lemma sync_accepts_cut_identifier:
  "syncToHeader bl 62 (butlast frame_header_identifier) = Some (bl_sync bl [])"
proof -
  have "sync_loop frame_header_identifier 62 0 (butlast frame_header_identifier) = Some []"
    by code_simp
  then show ?thesis by (simp add: syncToHeader_def)
qed

lemma sync_header:
  "syncToHeader bl garbage (frame_header_identifier @ s) = Some (bl_sync bl s)"
proof -
  have "sync_loop ident garbage p (drop p ident @ s) = Some s" if "p \<le> length ident" for ident p
    using that
  proof (induction "length ident - p" arbitrary: p)
    case 0
    then show ?case by (cases s) simp_all
  next
    case (Suc n)
    then have "p < length ident" by simp
    then have "drop p ident = ident ! p # drop (p + 1) ident" by (simp add: Cons_nth_drop_Suc)
    with Suc \<open>p < length ident\<close> show ?case by (simp add: header_id_next_def)
  qed
  from this [of 0 frame_header_identifier] show ?thesis by (simp add: syncToHeader_def)
qed

text \<open>
  The header a codec writes in front of an intra frame is found and read back by another codec:
  every field of the second version (time stamp, resolution, bit depth, quality, coding modes,
  macroblock size) and what the base class transmits arrive, and the stream is left exactly at the
  first byte behind the header.
\<close>

lemma frame_header_round_trip:
  assumes "base_ok bl" and "i_frame (base sender)"
  shows "\<exists>s. syncToHeader bl garbage (writeFrameHeader bl sender ts @ rest) = Some s \<and>
    readFrameHeader bl receiver ts0 s =
      (receiver\<lparr>base := received_base (base sender) (base receiver), v2 := v2 sender\<rparr>, ts, rest)"
proof -
  have b: "bl_read bl b (bl_sync bl (bl_header bl (base sender) @ r)) = (received_base (base sender) b, r)" for b r
    using assms by (simp add: base_ok_def)
  show ?thesis
    unfolding writeFrameHeader_def append_assoc sync_header
    by (simp add: readFrameHeader_def b codec_simps)
qed

lemma read_size_size64: "n < 2 ^ 64 \<Longrightarrow> read_size (size64 n @ s) = Inr (n, s)"
  by (simp add: read_size_def size64_def codec_simps u64c.enc_length)

lemma read_u64_size64: "n < 2 ^ 64 \<Longrightarrow> read_u64 old (size64 n @ s) = (size_of_nat n, s)"
  by (simp add: size64_def codec_simps)

text \<open>
  The vectors of a frame with one point per voxel survive the entropy coding: the decoder gets
  the octree, the centroids when they are coded and the average colours (as the JPEG coder has
  encoded them), in the vectors its later steps read from, and sees by the end of the stream that no
  details follow.
\<close>

lemma frame_vectors_round_trip:
  assumes "entropy_ok el" and "do_voxel_grid (base sender)"
    and "cloud_with_color (base sender)" and "data_with_color (base receiver)"
    and "v2 receiver = v2 sender" and "color_coding_type (v2 sender) \<noteq> 0"
    and "length (binary_tree_data sender) < 2 ^ 64" and "length (centroid_diffs sender) < 2 ^ 32"
    and "getAverageDataVector lib (jp sender) = Inr (avg, jp')" and "length avg < 2 ^ 64"
  shows "\<exists>bytes sender'. entropyEncoding lib el sender = Inr (bytes, sender') \<and>
    entropyDecoding el receiver bytes =
      Inr (receiver\<lparr>binary_tree_data := binary_tree_data sender,
             centroid_diffs := (if do_voxel_centroid (v2 sender) then centroid_diffs sender
                                else centroid_diffs receiver),
             jp := (jp receiver)\<lparr>avgColorData := avg\<rparr>,
             base := (base receiver)\<lparr>do_voxel_grid := True\<rparr>\<rparr>, [])"
proof -
  have e: "el_dec el (length v) (el_enc el v @ r) = (v, r)" "el_dec el (length v) (el_enc el v) = (v, [])" for v r
    using assms(1) by (auto simp: entropy_ok_def) (metis append_Nil2)
  have n: "unat (size_of_nat k) = k" if "k < 2 ^ 64" for k using that by simp
  have l: "read_u32 old (size32 (length (centroid_diffs sender)) @ s) = (word_of_nat (length (centroid_diffs sender)), s)"
    "length (size32 k) = 4" for old s k
    by (simp_all add: size32_def codec_simps u32c.enc_length)
  have avg: "average_vector lib sender = Inr (avg, sender\<lparr>jp := jp'\<rparr>)"
    using assms(6,9) by (simp add: average_vector_def)
  show ?thesis
    using assms(2-8,10)
    by (auto simp: entropyEncoding_def entropyDecoding_def Let_def avg decode_centroids_def decode_averages_def
        read_u64_size64 n e l unat_word_length)
qed

section \<open>A base class and an entropy coder that keep everything\<close>

definition plain_base :: base_lib where
  "plain_base =
     \<lparr>bl_header = (\<lambda>b. enc_u32 (frame_ID b) @ enc_bool (i_frame b) @ enc_bool (do_voxel_grid b)
         @ enc_bool (cloud_with_color b) @ enc_u64 (oct_resolution b)
         @ enc_u32 (point_compression_resolution b) @ enc_u64 (fst (min_xyz b))
         @ enc_u64 (fst (snd (min_xyz b))) @ enc_u64 (snd (snd (min_xyz b)))),
      bl_sync = id,
      bl_read = (\<lambda>b s.
        let (fid, s1) = read_u32 0 s; (ifr, s2) = read_bool False s1; (vox, s3) = read_bool False s2;
            (col, s4) = read_bool False s3; (res, s6) = read_u64 0 s4;
            (pcr, s7) = read_u32 0 s6; (x, s8) = read_u64 0 s7; (y, s9) = read_u64 0 s8;
            (z, s10) = read_u64 0 s9
        in (b\<lparr>frame_ID := fid, i_frame := ifr, do_voxel_grid := vox, data_with_color := col,
              oct_resolution := res, point_compression_resolution := pcr,
              min_xyz := (x, y, z)\<rparr>, s10))\<rparr>"

lemma plain_base_ok: "base_ok plain_base"
  by (simp add: base_ok_def plain_base_def received_base_def codec_simps)

definition plain_entropy :: entropy_lib where
  "plain_entropy =
     \<lparr>el_enc = id, el_dec = (\<lambda>n s. (take n s, drop n s)), el_enc_int = enc_all enc_u32,
      el_dec_int = (\<lambda>n s. case dec_n dec_u32 n s of None \<Rightarrow> ([], []) | Some r \<Rightarrow> r)\<rparr>"

lemma plain_entropy_ok: "entropy_ok plain_entropy"
  by (simp add: entropy_ok_def plain_entropy_def u32c.dec_n_enc_all)

definition sample_base :: base_coder where
  "sample_base =
     \<lparr>frame_ID = 1, i_frame = True, i_frame_counter = 0, i_frame_rate = 1, do_voxel_grid = True,
      do_color_encoding = True, cloud_with_color = True, data_with_color = True, 
      oct_resolution = 0x3F60000000000000, point_compression_resolution = 0x3B000000, min_xyz = (0, 0, 0)\<rparr>"

definition sample_codec :: octree_codec where
  "sample_codec =
     \<lparr>base = sample_base,
      v2 = \<lparr>v2_octreeResolution = 0x3F60000000000000, v2_colorBitResolution = 8, v2_jpeg_quality = 85,
            do_voxel_centroid = False, do_connectivity = False, create_scalable = False,
            color_coding_type = 1, v2_macroblock_size = 16, do_icp_color_offset = False\<rparr>,
      binary_tree_data = [3, 5], point_count_data = [], centroid_diffs = [], point_diffs = [],
      pcl_avg = [], pcl_avg_iterator = 0, pcl_diff = [],
      jp = (new_color_coder 85 SNAKE)\<lparr>avgColorData := [1, 2, 3]\<rparr>, metrics = (0, 0, 0)\<rparr>"

lemma sample_codec_base: "base sample_codec = sample_base" "i_frame sample_base"
  by (simp_all add: sample_codec_def sample_base_def)

lemma frame_header_example:
  "\<exists>s. syncToHeader plain_base 0 (writeFrameHeader plain_base sample_codec 99 @ [7]) = Some s \<and>
     readFrameHeader plain_base sample_codec 0 s =
       (sample_codec\<lparr>base := received_base sample_base sample_base\<rparr>, 99, [7])"
  using frame_header_round_trip [OF plain_base_ok, of sample_codec 0 99 "[7]" sample_codec 0]
  unfolding sample_codec_base by (auto simp: sample_codec_base)

lemma frame_vectors_example:
  "\<exists>bytes c r. entropyEncoding raw_lib plain_entropy sample_codec = Inr (bytes, c) \<and>
     entropyDecoding plain_entropy sample_codec bytes = Inr (r, []) \<and> binary_tree_data r = [3, 5] \<and>
     avgColorData (jp r) = [1, 2, 3]"
  using frame_vectors_round_trip [OF plain_entropy_ok, of sample_codec sample_codec raw_lib "[1, 2, 3]"
      "(new_color_coder 85 SNAKE)\<lparr>avgColorData := [1, 2, 3]\<rparr>"]
  by (auto simp: sample_codec_def sample_base_def getAverageDataVector_def new_color_coder_def)

end
