(* ===== verification/FrameCodec.thy ===== *)
theory FrameCodec
  imports FrameStream Encoder
begin

text \<open>
  Coding a frame: \<open>point_coding_v2.h\<close> and, of \<open>point_cloud_codec_v2_impl.hpp\<close>, the callbacks for the
  leaves of the octree and \<open>encodePointCloud\<close> and \<open>decodePointCloud\<close>. The octree of PCL and its point
  and colour coders are parameters. Statistics output is off in this library and left out.
\<close>

section \<open>PointCodingV2\<close>

text \<open>
  One coordinate, relative to a reference: the quotient is truncated, clipped to -127 .. 127 and
  stored in a byte. A quotient that is no \<open>int\<close> has no conversion.
\<close>

definition encode_diff :: "f32 \<Rightarrow> f64 \<Rightarrow> f32 \<Rightarrow> fault + u8" where
  "encode_diff x reference res =
     (let q = f64_div (f64_sub (f64_of_f32 x) reference) (f64_of_f32 res);
          i = f64_trunc q
      in if f64_inf \<le> f64_mag q \<or> i < - (2 ^ 31) \<or> 2 ^ 31 \<le> i then Inl Bad_conversion
         else Inr (word_of_int (max (- 127) (min 127 i))))"

text \<open>The byte is read back as an unsigned number.\<close>

definition decode_diff :: "u8 \<Rightarrow> f64 \<Rightarrow> f32 \<Rightarrow> f32" where
  "decode_diff d reference res =
     f32_of_f64 (f64_add reference (f64_of_f32 (f32_mul (f32_of_int (uint d)) res)))"

type_synonym 'a vec3 = "'a \<times> 'a \<times> 'a"

definition encodePoint :: "f64 vec3 \<Rightarrow> f32 vec3 \<Rightarrow> f32 \<Rightarrow> u8 list \<Rightarrow> fault + u8 list" where
  "encodePoint reference p res diffs =
     (case (reference, p) of ((rx, ry, rz), (x, y, z)) \<Rightarrow>
      case encode_diff x rx res of Inl f \<Rightarrow> Inl f | Inr diffX \<Rightarrow>
      case encode_diff y ry res of Inl f \<Rightarrow> Inl f | Inr diffY \<Rightarrow>
      case encode_diff z rz res of Inl f \<Rightarrow> Inl f | Inr diffZ \<Rightarrow>
      Inr (diffs @ [diffX, diffY, diffZ]))"

definition decodePoint :: "f64 vec3 \<Rightarrow> f32 \<Rightarrow> u8 list \<Rightarrow> fault + f32 vec3 \<times> u8 list" where
  "decodePoint reference res diffs =
     (case diffs of
        diffX # diffY # diffZ # rest \<Rightarrow>
          (case reference of (rx, ry, rz) \<Rightarrow>
             Inr ((decode_diff diffX rx res, decode_diff diffY ry res, decode_diff diffZ rz res), rest))
      | _ \<Rightarrow> Inl Out_of_bounds)"

section \<open>PCL\<close>

text \<open>
  A leaf of the octree is its key and the indices of its points. \<open>ol_add\<close> is what
  \<open>setInputCloud\<close> and \<open>addPointsFromInputCloud\<close> make of the tree (deleted before, where the
  configuration says so); \<open>ol_keys\<close> are the leaves an intra frame's tree data are read back as,
  in the order the callbacks see them, \<open>ol_keys_delta\<close> those of a predicted frame.
\<close>

type_synonym leaf = "nat vec3 \<times> nat list"

record 't octree_lib =
  ol_depth :: "'t \<Rightarrow> nat"
  ol_add :: "pcl_point list \<Rightarrow> 't \<Rightarrow> 't"
  ol_leaves :: "'t \<Rightarrow> leaf list"
  ol_serialize :: "bool \<Rightarrow> 't \<Rightarrow> u8 list"
  ol_min :: "'t \<Rightarrow> f64 vec3"
  ol_switch :: "'t \<Rightarrow> 't"
  ol_keys :: "u8 list \<Rightarrow> nat vec3 list"
  ol_keys_delta :: "u8 list \<Rightarrow> nat vec3 list"

text \<open>
  The point and colour coders: what is appended to their vectors for the points of a leaf, and the
  points made of the unread rest of the vectors (\<open>None\<close>: they end too early).
\<close>

record pcl_coders =
  pc_average :: "pcl_point list \<Rightarrow> u8 list"
  pc_centroid :: "pcl_point list \<Rightarrow> f32 vec3"
  pc_encode_points :: "f64 vec3 \<Rightarrow> pcl_point list \<Rightarrow> u8 list"
  pc_encode_colors :: "pcl_point list \<Rightarrow> u8 list \<times> u8 list"
  pc_decode_points :: "f64 vec3 \<Rightarrow> nat \<Rightarrow> u8 list \<Rightarrow> (pcl_point list \<times> u8 list) option"
  pc_decode_colors :: "pcl_point list \<Rightarrow> u8 list \<Rightarrow> u8 list \<Rightarrow> (pcl_point list \<times> nat \<times> nat) option"
  pc_default_color :: "pcl_point \<Rightarrow> pcl_point"

section \<open>Leaves\<close>

definition key_coordinate :: "nat \<Rightarrow> f64 \<Rightarrow> f64 \<Rightarrow> f64" where
  "key_coordinate k resolution m = f64_add (f64_mul (f64_of_int (int k)) resolution) m"

definition lowerVoxelCorner :: "base_coder \<Rightarrow> nat vec3 \<Rightarrow> f64 vec3" where
  "lowerVoxelCorner b key =
     (case (key, min_xyz b) of ((kx, ky, kz), (mx, my, mz)) \<Rightarrow>
        (key_coordinate kx (oct_resolution b) mx, key_coordinate ky (oct_resolution b) my,
         key_coordinate kz (oct_resolution b) mz))"

definition f64_half :: f64 where "f64_half = 0x3FE0000000000000"

definition center_coordinate :: "f64 \<Rightarrow> f64 \<Rightarrow> f32" where
  "center_coordinate corner resolution = f32_of_f64 (f64_add corner (f64_mul f64_half resolution))"

definition point_xyz :: "f32 vec3 \<Rightarrow> pcl_point" where
  "point_xyz p = (case p of (x, y, z) \<Rightarrow> dummyPoint\<lparr>pcl_x := x, pcl_y := y, pcl_z := z\<rparr>)"

text \<open>\<open>(key + 0.5) * resolution_ + min\<close>, the centre as the decoder computes it.\<close>

definition voxel_center :: "base_coder \<Rightarrow> nat vec3 \<Rightarrow> pcl_point" where
  "voxel_center b key =
     (case (key, min_xyz b) of ((kx, ky, kz), (mx, my, mz)) \<Rightarrow>
      let c = (\<lambda>k m. f32_of_f64 (f64_add (f64_mul (f64_add (f64_of_int (int k)) f64_half) (oct_resolution b)) m))
      in point_xyz (c kx mx, c ky my, c kz mz))"

text \<open>Appending to the vectors of the colour coder in use.\<close>

definition add_colors :: "u8 list \<Rightarrow> u8 list \<Rightarrow> octree_codec \<Rightarrow> octree_codec" where
  "add_colors avg diff c =
     (if color_coding_type (v2 c) = 0
      then c\<lparr>pcl_avg := pcl_avg c @ avg, pcl_diff := pcl_diff c @ diff\<rparr>
      else c\<lparr>jp := (jp c)\<lparr>avgColorData := avgColorData (jp c) @ avg,
                         diffColorData := diffColorData (jp c) @ diff\<rparr>\<rparr>)"

definition average_colors :: "octree_codec \<Rightarrow> u8 list" where
  "average_colors c = (if color_coding_type (v2 c) = 0 then pcl_avg c else avgColorData (jp c))"

text \<open>
  \<open>serializeTreeCallback\<close>; the last component is the simplified cloud \<open>output_\<close>, when it is kept.
  Its colours are the last three bytes of the averages, in reverse.
\<close>

definition serializeTreeCallback ::
  "pcl_coders \<Rightarrow> pcl_point list \<Rightarrow> leaf \<Rightarrow> octree_codec \<times> pcl_point list option
   \<Rightarrow> fault + octree_codec \<times> pcl_point list option" where
  "serializeTreeCallback pc input lf s =
     (case (lf, s) of ((key, leafIdx), (c, output)) \<Rightarrow>
      let pts = map (\<lambda>i. input ! i) leafIdx;
          corner = lowerVoxelCorner (base c) key
      in if \<not> do_voxel_grid (base c)
         then
           let c1 = c\<lparr>point_count_data := point_count_data c @ [word_of_nat (length leafIdx)],
                      point_diffs := point_diffs c @ pc_encode_points pc corner pts\<rparr>;
               c2 = (if cloud_with_color (base c)
                     then (case pc_encode_colors pc pts of (avg, diff) \<Rightarrow> add_colors avg diff c1) else c1)
           in Inr (c2, output)
         else
           let c1 = (if cloud_with_color (base c) then add_colors (pc_average pc pts) [] c else c);
               cols = average_colors c1; n = length cols;
               paint = (\<lambda>p. if cloud_with_color (base c)
                            then p\<lparr>pcl_r := cols ! (n - 1), pcl_g := cols ! (n - 2), pcl_b := cols ! (n - 3)\<rparr>
                            else p)
           in if cloud_with_color (base c) \<and> n < 3 then Inl Out_of_bounds
              else if \<not> do_voxel_centroid (v2 c)
              then
                let p = (case corner of (x, y, z) \<Rightarrow>
                           point_xyz (center_coordinate x (oct_resolution (base c)),
                                      center_coordinate y (oct_resolution (base c)),
                                      center_coordinate z (oct_resolution (base c))))
                in Inr (c1, map_option (\<lambda>out. out @ [paint p]) output)
              else
                let cent = pc_centroid pc pts in
                case encodePoint corner cent (point_compression_resolution (base c)) (centroid_diffs c1) of
                  Inl f \<Rightarrow> Inl f
                | Inr diffs \<Rightarrow> Inr (c1\<lparr>centroid_diffs := diffs\<rparr>,
                                  map_option (\<lambda>out. out @ [paint (point_xyz cent)]) output))"

primrec serialize_leaves ::
  "pcl_coders \<Rightarrow> pcl_point list \<Rightarrow> leaf list \<Rightarrow> octree_codec \<times> pcl_point list option
   \<Rightarrow> fault + octree_codec \<times> pcl_point list option" where
  "serialize_leaves pc input [] s = Inr s"
| "serialize_leaves pc input (lf # lfs) s =
     (case serializeTreeCallback pc input lf s of
        Inl f \<Rightarrow> Inl f
      | Inr s' \<Rightarrow> serialize_leaves pc input lfs s')"

section \<open>encodePointCloud\<close>

text \<open>The choice of the frame type: once \<open>i_frame_\<close> is set nothing clears it.\<close>

definition choose_frame_type :: "bool \<Rightarrow> base_coder \<Rightarrow> base_coder" where
  "choose_frame_type depth_changed b =
     (let i = (i_frame b \<or> depth_changed) in
      if i_frame_counter b = i_frame_rate b
      then b\<lparr>i_frame_counter := 0, i_frame := True\<rparr>
      else b\<lparr>i_frame_counter := i_frame_counter b + 1, i_frame := i\<rparr>)"

text \<open>The coders start with empty vectors, the colour coder not in use keeps its own.\<close>

definition initialize_vectors :: "octree_codec \<Rightarrow> octree_codec" where
  "initialize_vectors c =
     (let c1 = (if do_voxel_grid (base c) then c else c\<lparr>point_count_data := []\<rparr>);
          c2 = (if color_coding_type (v2 c) = 0 then c1\<lparr>pcl_avg := [], pcl_diff := []\<rparr>
                else c1\<lparr>jp := initializeEncoding (jp c1)\<rparr>)
      in c2\<lparr>point_diffs := [], centroid_diffs := []\<rparr>)"

definition encodePointCloud ::
  "jpeg_lib \<Rightarrow> base_lib \<Rightarrow> entropy_lib \<Rightarrow> 't octree_lib \<Rightarrow> pcl_coders \<Rightarrow> pcl_point list \<Rightarrow> u64
   \<Rightarrow> octree_codec \<times> 't \<Rightarrow> fault + u8 list \<times> octree_codec \<times> 't" where
  "encodePointCloud lib bl el ol pc cloud timeStamp s =
     (case s of (c, tree) \<Rightarrow>
      let recent_tree_depth = word_of_nat (ol_depth ol tree) :: u8;
          tree1 = ol_add ol cloud tree;
          output = (if 1 < i_frame_rate (base c) then Some [] else None);
          leaves = ol_leaves ol tree1
      in if leaves = [] then Inr ([], c\<lparr>base := (base c)\<lparr>i_frame_counter := 0, i_frame := True\<rparr>\<rparr>, tree1)
         else
           let b1 = (base c)\<lparr>cloud_with_color := do_color_encoding (base c), min_xyz := ol_min ol tree1\<rparr>;
               b2 = choose_frame_type (unat recent_tree_depth \<noteq> ol_depth ol tree1) b1;
               b3 = b2\<lparr>frame_ID := frame_ID b2 + 1\<rparr>;
               c1 = initialize_vectors (c\<lparr>base := b3\<rparr>);
               c2 = c1\<lparr>binary_tree_data := ol_serialize ol (\<not> i_frame b3) tree1\<rparr>
           in case serialize_leaves pc cloud leaves (c2, output) of
                Inl f \<Rightarrow> Inl f
              | Inr (c3, _) \<Rightarrow>
                  (case entropyEncoding lib el c3 of
                     Inl f \<Rightarrow> Inl f
                   | Inr (body, c4) \<Rightarrow> Inr (writeFrameHeader bl c3 timeStamp @ body, c4, ol_switch ol tree1)))"

section \<open>decodePointCloud\<close>

definition mapping_mode_of :: "u32 \<Rightarrow> mappingTypes" where
  "mapping_mode_of n = (if n = 0 then ORIGINAL else if n = 1 then SNAKE else if n = 2 then LINES else GRID)"

text \<open>What is left of a coder's vectors, and how far its iterators move.\<close>

definition decode_colors :: "pcl_coders \<Rightarrow> pcl_point list \<Rightarrow> octree_codec \<Rightarrow> fault + pcl_point list \<times> octree_codec" where
  "decode_colors pc pts c =
     (if color_coding_type (v2 c) = 0
      then (case pc_decode_colors pc pts (drop (pcl_avg_iterator c) (pcl_avg c)) (pcl_diff c) of
              None \<Rightarrow> Inl Out_of_bounds
            | Some (pts', n, m) \<Rightarrow> Inr (pts', c\<lparr>pcl_avg_iterator := pcl_avg_iterator c + n, pcl_diff := drop m (pcl_diff c)\<rparr>))
      else (case pc_decode_colors pc pts (drop (avgColorIterator (jp c)) (avgColorData (jp c)))
                   (drop (diffColorIterator (jp c)) (diffColorData (jp c))) of
              None \<Rightarrow> Inl Out_of_bounds
            | Some (pts', n, m) \<Rightarrow>
                Inr (pts', c\<lparr>jp := (jp c)\<lparr>avgColorIterator := avgColorIterator (jp c) + n,
                                        diffColorIterator := diffColorIterator (jp c) + m\<rparr>\<rparr>)))"

text \<open>\<open>deserializeTreeCallback\<close>: the points of the leaf, then their colours.\<close>

definition deserializeTreeCallback ::
  "pcl_coders \<Rightarrow> nat vec3 \<Rightarrow> octree_codec \<times> pcl_point list \<Rightarrow> fault + octree_codec \<times> pcl_point list" where
  "deserializeTreeCallback pc key s =
     (case s of (c, output) \<Rightarrow>
      let corner = lowerVoxelCorner (base c) key in
      case (if \<not> do_voxel_grid (base c)
            then (case point_count_data c of
                    [] \<Rightarrow> Inl Out_of_bounds
                  | n # ns \<Rightarrow>
                      (case pc_decode_points pc corner (unat n) (point_diffs c) of
                         None \<Rightarrow> Inl Out_of_bounds
                       | Some (pts, diffs) \<Rightarrow> Inr (pts, c\<lparr>point_count_data := ns, point_diffs := diffs\<rparr>)))
            else if do_voxel_centroid (v2 c)
            then (case decodePoint corner (point_compression_resolution (base c)) (centroid_diffs c) of
                    Inl f \<Rightarrow> Inl f
                  | Inr (p, diffs) \<Rightarrow> Inr ([point_xyz p], c\<lparr>centroid_diffs := diffs\<rparr>))
            else Inr ([voxel_center (base c) key], c)) of
        Inl f \<Rightarrow> Inl f
      | Inr (pts, c1) \<Rightarrow>
          if \<not> cloud_with_color (base c) then Inr (c1, output @ pts)
          else if data_with_color (base c)
          then map_sum id (\<lambda>(pts', c2). (c2, output @ pts')) (decode_colors pc pts c1)
          else Inr (c1, output @ map (pc_default_color pc) pts))"

primrec deserialize_keys ::
  "pcl_coders \<Rightarrow> nat vec3 list \<Rightarrow> octree_codec \<times> pcl_point list \<Rightarrow> fault + octree_codec \<times> pcl_point list" where
  "deserialize_keys pc [] s = Inr s"
| "deserialize_keys pc (key # keys) s =
     (case deserializeTreeCallback pc key s of
        Inl f \<Rightarrow> Inl f
      | Inr s' \<Rightarrow> deserialize_keys pc keys s')"

text \<open>
  The result, the cloud, the time stamp and the codec; \<open>cloud\<close> and \<open>timeStamp\<close> are what the caller's
  variables hold before.
\<close>

definition decodePointCloud ::
  "jpeg_lib \<Rightarrow> base_lib \<Rightarrow> entropy_lib \<Rightarrow> 't octree_lib \<Rightarrow> pcl_coders \<Rightarrow> u8 \<Rightarrow> u8 list \<Rightarrow> pcl_point list \<Rightarrow> u64
   \<Rightarrow> octree_codec \<Rightarrow> fault + bool \<times> pcl_point list \<times> u64 \<times> octree_codec" where
  "decodePointCloud lib bl el ol pc garbage s cloud timeStamp c =
     (case syncToHeader bl garbage s of
        None \<Rightarrow> Inr (False, cloud, timeStamp, c)
      | Some s1 \<Rightarrow>
          (case readFrameHeader bl (c\<lparr>base := (base c)\<lparr>cloud_with_color := True\<rparr>\<rparr>) timeStamp s1 of
             (c1, ts, s2) \<Rightarrow>
          (case entropyDecoding el (c1\<lparr>jp := new_color_coder 75 (mapping_mode_of (color_coding_type (v2 c1)))\<rparr>) s2 of
             Inl f \<Rightarrow> Inl f
           | Inr (c2, s3) \<Rightarrow>
          (case (if color_coding_type (v2 c2) = 0 then Inr (c2\<lparr>pcl_avg_iterator := 0\<rparr>)
                 else map_sum id (\<lambda>j. c2\<lparr>jp := j\<rparr>) (initializeDecoding lib (jp c2))) of
             Inl f \<Rightarrow> Inl f
           | Inr c3 \<Rightarrow>
               let keys = (if i_frame (base c3) then ol_keys ol (binary_tree_data c3)
                           else ol_keys_delta ol (binary_tree_data c3))
               in map_sum id (\<lambda>(c4, output). (True, output, ts, c4)) (deserialize_keys pc keys (c3, []))))))"

end
