(* ===== verification/FrameRuns.thy ===== *)
theory FrameRuns
  imports FrameCodec
begin

text \<open>
  A frame from the encoder of \<open>point_cloud_codec_v2_impl.hpp\<close> to the decoder: what is decoded from
  the bytes of \<open>encodePointCloud\<close>, which frames are intra frames, and the precision of a centroid.
\<close>

section \<open>What the code relies on\<close>

text \<open>
  The tree data of an intra frame are read back as the leaves they were written for, in the same
  order.
\<close>

definition tree_ok :: "'t octree_lib \<Rightarrow> bool" where
  "tree_ok ol \<longleftrightarrow>
     (\<forall>t. ol_keys ol (ol_serialize ol False t) = map fst (ol_leaves ol t))"

text \<open>The average colour of a leaf is three bytes, blue first, and a single point is painted with it.\<close>

definition paint :: "u8 \<Rightarrow> u8 \<Rightarrow> u8 \<Rightarrow> pcl_point \<Rightarrow> pcl_point" where
  "paint a b c p = p\<lparr>pcl_b := a, pcl_g := b, pcl_r := c\<rparr>"

definition colors_ok :: "pcl_coders \<Rightarrow> bool" where
  "colors_ok pc \<longleftrightarrow>
     (\<forall>pts. length (pc_average pc pts) = 3) \<and>
     (\<forall>p a b c rest diff. pc_decode_colors pc [p] (a # b # c # rest) diff = Some ([paint a b c p], 3, 0))"

section \<open>The leaves of a frame with one point per voxel\<close>

definition leaf_colors :: "pcl_coders \<Rightarrow> pcl_point list \<Rightarrow> leaf list \<Rightarrow> u8 list" where
  "leaf_colors pc input lfs = concat (map (\<lambda>lf. pc_average pc (map ((!) input) (snd lf))) lfs)"

lemma length_leaf_colors: "colors_ok pc \<Longrightarrow> length (leaf_colors pc input lfs) = 3 * length lfs"
  by (induction lfs) (simp_all add: leaf_colors_def colors_ok_def)

definition voxel_frame :: "octree_codec \<Rightarrow> bool" where
  "voxel_frame c \<longleftrightarrow> do_voxel_grid (base c) \<and> cloud_with_color (base c) \<and>
     \<not> do_voxel_centroid (v2 c) \<and> color_coding_type (v2 c) = 1"

lemma serialize_leaves_voxel:
  assumes "colors_ok pc"
  shows "voxel_frame c \<Longrightarrow> \<exists>out'. serialize_leaves pc input lfs (c, out) =
    Inr (c\<lparr>jp := (jp c)\<lparr>avgColorData := avgColorData (jp c) @ leaf_colors pc input lfs\<rparr>\<rparr>, out')"
proof (induction lfs arbitrary: c out)
  case (Cons lf lfs)
  define c1 where "c1 = c\<lparr>jp := (jp c)\<lparr>avgColorData :=
      avgColorData (jp c) @ pc_average pc (map ((!) input) (snd lf))\<rparr>\<rparr>"
  have a: "add_colors (pc_average pc (map ((!) input) (snd lf))) [] c = c1"
    using Cons.prems by (simp add: add_colors_def c1_def voxel_frame_def)
  have "3 \<le> length (average_colors c1)"
    using Cons.prems assms by (simp add: average_colors_def c1_def voxel_frame_def colors_ok_def)
  then have "\<exists>out1. serializeTreeCallback pc input lf (c, out) = Inr (c1, out1)"
    using Cons.prems a
    by (cases lf) (simp add: serializeTreeCallback_def voxel_frame_def Let_def)
  then obtain out1 where s: "serializeTreeCallback pc input lf (c, out) = Inr (c1, out1)" ..
  have "voxel_frame c1" using Cons.prems by (simp add: voxel_frame_def c1_def)
  from Cons.IH [OF this, of out1] s show ?case
    by (simp add: c1_def leaf_colors_def)
qed (simp add: leaf_colors_def)

text \<open>The points a decoder makes of the keys and the colours.\<close>

fun painted :: "base_coder \<Rightarrow> nat vec3 list \<Rightarrow> u8 list \<Rightarrow> pcl_point list" where
  "painted b (key # keys) (r # g # b' # rest) = paint r g b' (voxel_center b key) # painted b keys rest"
| "painted b _ _ = []"

lemma three_bytes: "3 * Suc n \<le> length xs \<Longrightarrow> \<exists>r g b rest. xs = r # g # b # rest"
  by (cases xs; cases "tl xs"; cases "tl (tl xs)") auto

lemma drop_three: "drop i xs = r # g # b # rest \<Longrightarrow> drop (i + 3) xs = rest"
  by (simp add: drop_drop [symmetric] add.commute [of i] del: drop_drop)

lemma deserialize_keys_voxel:
  assumes "colors_ok pc"
  shows "voxel_frame c \<Longrightarrow> data_with_color (base c) \<Longrightarrow>
    3 * length keys \<le> length (drop (avgColorIterator (jp c)) (avgColorData (jp c))) \<Longrightarrow>
    \<exists>c'. deserialize_keys pc keys (c, out) =
      Inr (c', out @ painted (base c) keys (drop (avgColorIterator (jp c)) (avgColorData (jp c)))) \<and> v2 c' = v2 c"
proof (induction keys arbitrary: c out)
  case (Cons key keys)
  let ?rest = "drop (avgColorIterator (jp c)) (avgColorData (jp c))"
  obtain r g b rest where rest: "?rest = r # g # b # rest"
    using Cons.prems(3) three_bytes [of "length keys" ?rest] by auto
  define c1 where "c1 = c\<lparr>jp := (jp c)\<lparr>avgColorIterator := avgColorIterator (jp c) + 3\<rparr>\<rparr>"
  have "decode_colors pc [voxel_center (base c) key] c = Inr ([paint r g b (voxel_center (base c) key)], c1)"
    using Cons.prems(1) assms rest by (simp add: decode_colors_def voxel_frame_def colors_ok_def c1_def)
  then have s: "deserializeTreeCallback pc key (c, out)
      = Inr (c1, out @ [paint r g b (voxel_center (base c) key)])"
    using Cons.prems(1,2) by (simp add: deserializeTreeCallback_def voxel_frame_def)
  have d: "drop (avgColorIterator (jp c1)) (avgColorData (jp c1)) = rest"
    using drop_three [OF rest] by (simp add: c1_def)
  have p: "voxel_frame c1" "data_with_color (base c1)" "3 * length keys \<le> length rest"
    using Cons.prems rest by (simp_all add: voxel_frame_def c1_def)
  have "\<exists>c'. deserialize_keys pc keys (c1, out @ [paint r g b (voxel_center (base c) key)])
      = Inr (c', (out @ [paint r g b (voxel_center (base c) key)]) @ painted (base c1) keys rest) \<and> v2 c' = v2 c1"
    using Cons.IH [OF p(1,2), unfolded d, OF p(3)] .
  then show ?case using s rest by (simp add: c1_def)
qed simp

section \<open>A frame from the encoder to the decoder\<close>

text \<open>
  The settings of the encoder of this library: intra frames, and colours averaged per voxel and coded
  as a zigzag image. (The base class codes one point per voxel when, as there, the point and the octree
  resolution are equal.)
\<close>

definition voxel_encoder :: "octree_codec \<Rightarrow> bool" where
  "voxel_encoder c \<longleftrightarrow> i_frame (base c) \<and> do_voxel_grid (base c) \<and> do_color_encoding (base c) \<and>
     \<not> do_voxel_centroid (v2 c) \<and> color_coding_type (v2 c) = 1 \<and> mapping_mode (jp c) = SNAKE"

lemma choose_frame_type_base [simp]:
  "do_voxel_grid (choose_frame_type d b) = do_voxel_grid b"
  "do_color_encoding (choose_frame_type d b) = do_color_encoding b"
  "cloud_with_color (choose_frame_type d b) = cloud_with_color b"
  "oct_resolution (choose_frame_type d b) = oct_resolution b"
  "min_xyz (choose_frame_type d b) = min_xyz b"
  by (simp_all add: choose_frame_type_def Let_def)

lemma choose_frame_type_intra: "i_frame b \<Longrightarrow> i_frame (choose_frame_type d b)"
  by (simp add: choose_frame_type_def)

lemma painted_base: "oct_resolution b = oct_resolution b' \<Longrightarrow> min_xyz b = min_xyz b' \<Longrightarrow>
    painted b keys cols = painted b' keys cols"
  by (induction b keys cols rule: painted.induct) (simp_all add: voxel_center_def)

text \<open>The bytes: header, vectors, and the state they are made from.\<close>

lemma encode_voxel_frame:
  assumes "colors_ok pc" and "voxel_encoder c" and "ol_leaves ol (ol_add ol cloud tree) \<noteq> []"
  obtains sender where "voxel_frame sender" and "voxel_encoder sender"
    and "oct_resolution (base sender) = oct_resolution (base c)"
    and "min_xyz (base sender) = ol_min ol (ol_add ol cloud tree)"
    and "binary_tree_data sender = ol_serialize ol False (ol_add ol cloud tree)"
    and "centroid_diffs sender = []" and "v2 sender = v2 c" and "jp_quality (jp sender) = jp_quality (jp c)"
    and "getAverageDataVector lib (jp sender) = map_sum id (\<lambda>v. (v, (jp sender)\<lparr>avgColorData := v\<rparr>))
      (encodeJPEGSnake lib (jp_quality (jp c)) (leaf_colors pc cloud (ol_leaves ol (ol_add ol cloud tree))))"
    and "encodePointCloud lib bl el ol pc cloud ts (c, tree) =
      map_sum id (\<lambda>(body, c'). (writeFrameHeader bl sender ts @ body, c', ol_switch ol (ol_add ol cloud tree)))
        (entropyEncoding lib el sender)"
proof -
  define t where "t = ol_add ol cloud tree"
  define b where "b = choose_frame_type (unat (word_of_nat (ol_depth ol tree) :: u8) \<noteq> ol_depth ol t)
      ((base c)\<lparr>cloud_with_color := do_color_encoding (base c), min_xyz := ol_min ol t\<rparr>)"
  define c2 where "c2 = (initialize_vectors (c\<lparr>base := b\<lparr>frame_ID := frame_ID b + 1\<rparr>\<rparr>))
      \<lparr>binary_tree_data := ol_serialize ol False t\<rparr>"
  define sender where "sender = c2\<lparr>jp := (jp c2)\<lparr>avgColorData := avgColorData (jp c2) @ leaf_colors pc cloud (ol_leaves ol t)\<rparr>\<rparr>"
  have v: "do_voxel_grid b" "cloud_with_color b" "i_frame b" "do_color_encoding b"
    using assms(2) by (simp_all add: b_def voxel_encoder_def choose_frame_type_intra)
  have c2: "base c2 = b\<lparr>frame_ID := frame_ID b + 1\<rparr>" "v2 c2 = v2 c" "jp c2 = initializeEncoding (jp c)"
    "binary_tree_data c2 = ol_serialize ol False t" "centroid_diffs c2 = []"
    using v assms(2) by (simp_all add: c2_def initialize_vectors_def voxel_encoder_def Let_def)
  then have f: "voxel_frame c2" using v assms(2) by (simp add: voxel_frame_def voxel_encoder_def)
  have s: "\<exists>out'. serialize_leaves pc cloud (ol_leaves ol t) (c2, out) = Inr (sender, out')" for out
    using serialize_leaves_voxel [OF assms(1) f] by (simp add: sender_def)
  show ?thesis
  proof (rule that [of sender])
    show "voxel_frame sender" "v2 sender = v2 c" "centroid_diffs sender = []"
      "binary_tree_data sender = ol_serialize ol False (ol_add ol cloud tree)"
      using f c2 v(3) by (simp_all add: sender_def voxel_frame_def t_def)
    show "voxel_encoder sender" "jp_quality (jp sender) = jp_quality (jp c)"
      using assms(2) c2 v by (simp_all add: sender_def voxel_encoder_def initializeEncoding_def)
    show "oct_resolution (base sender) = oct_resolution (base c)"
      "min_xyz (base sender) = ol_min ol (ol_add ol cloud tree)"
      by (simp_all add: sender_def c2(1)) (simp_all add: b_def t_def)
    show "getAverageDataVector lib (jp sender) = map_sum id (\<lambda>v. (v, (jp sender)\<lparr>avgColorData := v\<rparr>))
      (encodeJPEGSnake lib (jp_quality (jp c)) (leaf_colors pc cloud (ol_leaves ol (ol_add ol cloud tree))))"
      using assms(2) by (simp add: getAverageDataVector_def sender_def c2(3) initializeEncoding_def
          voxel_encoder_def t_def)
    obtain out' where o: "serialize_leaves pc cloud (ol_leaves ol t)
        (c2, if 1 < i_frame_rate (base c) then Some [] else None) = Inr (sender, out')" using s by blast
    show "encodePointCloud lib bl el ol pc cloud ts (c, tree) =
      map_sum id (\<lambda>(body, c'). (writeFrameHeader bl sender ts @ body, c', ol_switch ol (ol_add ol cloud tree)))
        (entropyEncoding lib el sender)"
      using assms(3) o v(3)
      by (simp add: encodePointCloud_def Let_def t_def [symmetric] b_def [symmetric] c2_def [symmetric]
          split: sum.split)
  qed
qed

text \<open>Once the settings are those of this library they stay: every frame is an intra frame.\<close>

lemma entropyEncoding_keeps:
  assumes "entropyEncoding lib el c = Inr (bytes, c')" and "voxel_encoder c"
  shows "voxel_encoder c' \<and> v2 c' = v2 c \<and> jp_quality (jp c') = jp_quality (jp c) \<and> base c' = base c"
  using assms
  by (cases "encodeJPEGSnake lib (jp_quality (jp c)) (avgColorData (jp c))")
    (auto simp: entropyEncoding_def Let_def average_vector_def getAverageDataVector_def voxel_encoder_def
      split: sum.splits if_splits)

lemma encode_keeps:
  assumes "colors_ok pc" and "voxel_encoder c"
    and "encodePointCloud lib bl el ol pc cloud ts (c, tree) = Inr (bytes, c', tree')"
  shows "voxel_encoder c' \<and> v2 c' = v2 c \<and> jp_quality (jp c') = jp_quality (jp c) \<and>
    oct_resolution (base c') = oct_resolution (base c)"
proof (cases "ol_leaves ol (ol_add ol cloud tree) = []")
  case True
  with assms(2,3) show ?thesis by (auto simp: encodePointCloud_def voxel_encoder_def)
next
  case False
  obtain sender where s: "voxel_encoder sender" "v2 sender = v2 c" "jp_quality (jp sender) = jp_quality (jp c)"
      "oct_resolution (base sender) = oct_resolution (base c)"
    and "encodePointCloud lib bl el ol pc cloud ts (c, tree) =
      map_sum id (\<lambda>(body, c'). (writeFrameHeader bl sender ts @ body, c', ol_switch ol (ol_add ol cloud tree)))
        (entropyEncoding lib el sender)"
    by (rule encode_voxel_frame [OF assms(1,2) False, of lib bl el ts])
  then obtain body where "entropyEncoding lib el sender = Inr (body, c')"
    using assms(3) by (cases "entropyEncoding lib el sender") auto
  from entropyEncoding_keeps [OF this s(1)] s show ?thesis by simp
qed

lemma painted_short: "length cols < 3 \<Longrightarrow> painted b keys cols = []"
  by (induction b keys cols rule: painted.induct) auto

lemma painted_take:
  "length keys \<le> n \<Longrightarrow> painted b keys (take (3 * n) cols) = painted b keys cols"
proof (induction b keys cols arbitrary: n rule: painted.induct)
  case (1 b key keys r g b' rest)
  then obtain m where m: "n = Suc m" "length keys \<le> m" by (cases n) auto
  with 1 show ?case by (simp add: eval_nat_numeral)
qed (simp_all add: painted_short)

lemma received_base_simps [simp]:
  "cloud_with_color (received_base sent b) = cloud_with_color b"
  "data_with_color (received_base sent b) = cloud_with_color sent"
  "i_frame (received_base sent b) = i_frame sent"
  "do_voxel_grid (received_base sent b) = do_voxel_grid sent"
  "oct_resolution (received_base sent b) = oct_resolution sent"
  "min_xyz (received_base sent b) = min_xyz sent"
  by (simp_all add: received_base_def)

lemma decode_voxel_frame:
  assumes "base_ok bl" and "entropy_ok el" and "colors_ok pc"
    and "voxel_frame sender" and "i_frame (base sender)"
    and "length (binary_tree_data sender) < 2 ^ 64" and "length (centroid_diffs sender) < 2 ^ 32"
    and "getAverageDataVector lib (jp sender) = Inr (avg, jp')" and "length avg < 2 ^ 64"
    and "decodeJPEGSnake lib avg = Inr colors"
    and "3 * length (ol_keys ol (binary_tree_data sender)) \<le> length colors"
  obtains bytes sender' receiver' where "entropyEncoding lib el sender = Inr (bytes, sender')"
    and "decodePointCloud lib bl el ol pc garbage (writeFrameHeader bl sender ts @ bytes) cloud0 ts0 receiver =
      Inr (True, painted (base sender) (ol_keys ol (binary_tree_data sender)) colors, ts, receiver')"
    and "v2 receiver' = v2 sender"
proof -
  define r0 where "r0 = receiver\<lparr>base := (base receiver)\<lparr>cloud_with_color := True\<rparr>\<rparr>"
  define r1 where "r1 = r0\<lparr>base := received_base (base sender) (base r0), v2 := v2 sender,
      jp := new_color_coder 75 SNAKE\<rparr>"
  define r2 where "r2 = r1\<lparr>binary_tree_data := binary_tree_data sender,
      jp := (jp r1)\<lparr>avgColorData := avg\<rparr>, base := (base r1)\<lparr>do_voxel_grid := True\<rparr>\<rparr>"
  define r3 where "r3 = r2\<lparr>jp := (jp r2)\<lparr>avgColorData := colors, avgColorIterator := 0, diffColorIterator := 0\<rparr>\<rparr>"
  note f = assms(4) [unfolded voxel_frame_def]
  have r1: "data_with_color (base r1)" "v2 r1 = v2 sender" using f by (simp_all add: r1_def)
  obtain bytes sender' where e: "entropyEncoding lib el sender = Inr (bytes, sender')"
    and d: "entropyDecoding el r1 bytes = Inr (r2, [])"
    using frame_vectors_round_trip [OF assms(2), of sender r1 lib avg jp'] f r1 assms(6-9)
    by (auto simp: r2_def)
  obtain s1 where s1: "syncToHeader bl garbage (writeFrameHeader bl sender ts @ bytes) = Some s1"
    "readFrameHeader bl r0 ts0 s1 =
      (r0\<lparr>base := received_base (base sender) (base r0), v2 := v2 sender\<rparr>, ts, bytes)"
    using frame_header_round_trip [OF assms(1,5)] by blast
  have i: "initializeDecoding lib (jp r2) = Inr (jp r3)"
    using assms(10) by (simp add: initializeDecoding_def r3_def r2_def r1_def new_color_coder_def)
  have r3: "voxel_frame r3" "data_with_color (base r3)" "i_frame (base r3)"
    "binary_tree_data r3 = binary_tree_data sender" "avgColorData (jp r3) = colors" "avgColorIterator (jp r3) = 0"
    using f assms(5) by (simp_all add: r3_def r2_def r1_def r0_def voxel_frame_def)
  obtain c' where k: "deserialize_keys pc (ol_keys ol (binary_tree_data sender)) (r3, []) =
      Inr (c', painted (base r3) (ol_keys ol (binary_tree_data sender)) colors)" "v2 c' = v2 r3"
    using deserialize_keys_voxel [OF assms(3) r3(1,2), of "ol_keys ol (binary_tree_data sender)" "[]"] assms(11)
    unfolding r3(5,6) by auto
  have "painted (base r3) keys cs = painted (base sender) keys cs" for keys cs
    by (rule painted_base) (simp_all add: r3_def r2_def r1_def)
  moreover have "color_coding_type (v2 r2) = 1" "r2\<lparr>jp := jp r3\<rparr> = r3"
    using f by (simp_all add: r3_def r2_def r1_def)
  moreover have "r0\<lparr>base := received_base (base sender) (base r0), v2 := v2 sender,
      jp := new_color_coder 75 (mapping_mode_of (color_coding_type (v2 sender)))\<rparr> = r1"
    using f by (simp add: r1_def mapping_mode_of_def)
  ultimately have "decodePointCloud lib bl el ol pc garbage (writeFrameHeader bl sender ts @ bytes) cloud0 ts0 receiver =
      Inr (True, painted (base sender) (ol_keys ol (binary_tree_data sender)) colors, ts, c')"
    using s1 d i k(1) r3(3,4) by (simp add: decodePointCloud_def r0_def [symmetric])
  moreover have "v2 c' = v2 sender" using k(2) by (simp add: r3_def r2_def r1_def)
  ultimately show ?thesis using that e by blast
qed

text \<open>
  An intra frame of the encoder of this library, with one point per voxel and average colours,
  is decoded from its bytes: the decoder, whatever it decoded before, finds the header, returns true,
  the time stamp and one point for every leaf of the encoder's octree, in the order of the leaves, at
  the centre of the leaf's voxel, painted with the average colour of the leaf's points up to what
  the JPEG library changes a sample by. The decoder has taken over the encoder's parameters.
\<close>

lemma frame_round_trip:
  assumes "jpeg_ok lib (jp_quality (jp c)) close" and "base_ok bl" and "entropy_ok el"
    and "tree_ok ol" and "colors_ok pc" and "voxel_encoder c"
    and "leaves = ol_leaves ol (ol_add ol cloud tree)" and "leaves \<noteq> []" and "length leaves < 256 * 65500"
    and "length (ol_serialize ol False (ol_add ol cloud tree)) < 2 ^ 64"
  shows "\<exists>bytes c' tree' colors receiver'.
    encodePointCloud lib bl el ol pc cloud ts (c, tree) = Inr (bytes, c', tree') \<and>
    list_all2 close (leaf_colors pc cloud leaves) colors \<and>
    decodePointCloud lib bl el ol pc garbage bytes cloud0 ts0 receiver =
      Inr (True, painted ((base c)\<lparr>min_xyz := ol_min ol (ol_add ol cloud tree)\<rparr>) (map fst leaves) colors,
           ts, receiver') \<and>
    v2 receiver' = v2 c"
proof -
  have len: "length (leaf_colors pc cloud leaves) = 3 * length leaves"
    by (rule length_leaf_colors [OF assms(5)])
  obtain avg colors where j: "encodeJPEGSnake lib (jp_quality (jp c)) (leaf_colors pc cloud leaves) = Inr avg"
    "length avg < 2 ^ 32" "decodeJPEGSnake lib avg = Inr colors"
    and cl: "list_all2 close (leaf_colors pc cloud leaves @ snake_padding (leaf_colors pc cloud leaves)) colors"
    using jpeg_snake_round_trip [OF assms(1) len] assms(8,9) by auto
  have enough: "3 * length leaves \<le> length colors"
    using list_all2_lengthD [OF cl] len by simp
  have close: "list_all2 close (leaf_colors pc cloud leaves) (take (3 * length leaves) colors)"
    using list_all2_takeI [OF cl, of "3 * length leaves"] len by simp
  obtain sender where s: "voxel_frame sender" "voxel_encoder sender"
    "oct_resolution (base sender) = oct_resolution (base c)"
    "min_xyz (base sender) = ol_min ol (ol_add ol cloud tree)"
    "binary_tree_data sender = ol_serialize ol False (ol_add ol cloud tree)"
    "centroid_diffs sender = []" "v2 sender = v2 c"
    and g: "getAverageDataVector lib (jp sender) = map_sum id (\<lambda>v. (v, (jp sender)\<lparr>avgColorData := v\<rparr>))
      (encodeJPEGSnake lib (jp_quality (jp c)) (leaf_colors pc cloud leaves))"
    and enc: "encodePointCloud lib bl el ol pc cloud ts (c, tree) =
      map_sum id (\<lambda>(body, c'). (writeFrameHeader bl sender ts @ body, c', ol_switch ol (ol_add ol cloud tree)))
        (entropyEncoding lib el sender)"
    by (rule encode_voxel_frame [OF assms(5,6), of ol cloud tree lib bl el ts]) (use assms(7,8) in auto)
  have i: "i_frame (base sender)" using s(2) by (simp add: voxel_encoder_def)
  have avg: "getAverageDataVector lib (jp sender) = Inr (avg, (jp sender)\<lparr>avgColorData := avg\<rparr>)"
    using g j(1) by simp
  have keys: "ol_keys ol (binary_tree_data sender) = map fst leaves"
    using assms(4,7) s(5) by (simp add: tree_ok_def)
  have "length (binary_tree_data sender) < 2 ^ 64" using assms(10) s(5) by simp
  then obtain bytes sender' receiver' where e: "entropyEncoding lib el sender = Inr (bytes, sender')"
    and d: "decodePointCloud lib bl el ol pc garbage (writeFrameHeader bl sender ts @ bytes) cloud0 ts0 receiver =
      Inr (True, painted (base sender) (map fst leaves) colors, ts, receiver')"
    and v: "v2 receiver' = v2 c"
    using decode_voxel_frame [OF assms(2,3,5) s(1) i _ _ avg, of colors ol garbage ts cloud0 ts0 receiver]
      s(6,7) j(2,3) enough keys by auto
  moreover have "painted (base sender) (map fst leaves) colors
      = painted ((base c)\<lparr>min_xyz := ol_min ol (ol_add ol cloud tree)\<rparr>) (map fst leaves) (take (3 * length leaves) colors)"
    unfolding painted_take [OF eq_refl [OF length_map]] by (rule painted_base) (simp_all add: s)
  moreover have "encodePointCloud lib bl el ol pc cloud ts (c, tree) =
      Inr (writeFrameHeader bl sender ts @ bytes, sender', ol_switch ol (ol_add ol cloud tree))"
    using enc e by simp
  ultimately show ?thesis using close v by metis
qed

section \<open>An octree and coders that keep the law\<close>

text \<open>One voxel per point, side by side; the first point of a voxel gives it its colour.\<close>

definition row_octree :: "nat octree_lib" where
  "row_octree =
     \<lparr>ol_depth = id, ol_add = (\<lambda>pts _. length pts), ol_leaves = (\<lambda>t. map (\<lambda>i. ((i, 0, 0), [i])) [0..<t]),
      ol_serialize = (\<lambda>_ t. replicate t 1), ol_min = (\<lambda>_. (0, 0, 0)), ol_switch = id,
      ol_keys = (\<lambda>bs. map (\<lambda>i. (i, 0, 0)) [0..<length bs]), ol_keys_delta = (\<lambda>_. [])\<rparr>"

lemma row_octree_ok: "tree_ok row_octree"
  by (simp add: tree_ok_def row_octree_def)

definition first_coders :: pcl_coders where
  "first_coders =
     \<lparr>pc_average = (\<lambda>pts. case pts of [] \<Rightarrow> [0, 0, 0] | p # _ \<Rightarrow> [pcl_b p, pcl_g p, pcl_r p]),
      pc_centroid = (\<lambda>_. (0, 0, 0)), pc_encode_points = (\<lambda>_ _. []), pc_encode_colors = (\<lambda>_. ([], [])),
      pc_decode_points = (\<lambda>_ _ _. None),
      pc_decode_colors = (\<lambda>pts avg _.
        case (pts, avg) of ([p], a # b # c # _) \<Rightarrow> Some ([paint a b c p], 3, 0) | _ \<Rightarrow> None),
      pc_default_color = id\<rparr>"

lemma first_coders_ok: "colors_ok first_coders"
  by (auto simp: colors_ok_def first_coders_def split: list.split)

definition sample_points :: "pcl_point list" where
  "sample_points = [dummyPoint\<lparr>pcl_r := 10, pcl_g := 20, pcl_b := 30\<rparr>, dummyPoint\<lparr>pcl_r := 40\<rparr>]"

section \<open>The precision of a centroid\<close>

text \<open>
  A coordinate is stored as a number of steps from the corner of its voxel. Up to 127 steps are read
  back as they are, more as 127; a coordinate below the corner is read back 256 steps too far, as the
  decoder takes the byte to be unsigned.
\<close>

lemma centroid_offset_read_back:
  assumes "encode_diff x reference res = Inr d"
    and "i = f64_trunc (f64_div (f64_sub (f64_of_f32 x) reference) (f64_of_f32 res))"
  shows "decode_diff d reference res = f32_of_f64 (f64_add reference (f64_of_f32 (f32_mul
    (f32_of_int (if 0 \<le> i then min 127 i else 256 + max (- 127) i)) res)))"
proof -
  have d: "d = word_of_int (max (- 127) (min 127 i))"
    using assms by (auto simp: encode_diff_def Let_def split: if_splits)
  have "uint d = (if 0 \<le> i then min 127 i else 256 + max (- 127) i)"
  proof (cases "0 \<le> i")
    case True
    then show ?thesis by (simp add: d uint_word_of_int)
  next
    case False
    have "(max (- 127) i) mod 256 = (256 + max (- 127) i) mod 256" by simp
    also have "\<dots> = 256 + max (- 127) i" by (rule mod_pos_pos_trivial) (use False in auto)
    finally show ?thesis using False by (simp add: d uint_word_of_int)
  qed
  then show ?thesis by (simp add: decode_diff_def)
qed

lemma empty_frame_is_no_bytes:
  "ol_leaves ol (ol_add ol cloud tree) = [] \<Longrightarrow>
    encodePointCloud lib bl el ol pc cloud ts (c, tree) =
      Inr ([], c\<lparr>base := (base c)\<lparr>i_frame_counter := 0, i_frame := True\<rparr>\<rparr>, ol_add ol cloud tree)"
  by (simp add: encodePointCloud_def)

end
