(* ===== verification/CodecPipeline.thy ===== *)
theory CodecPipeline
  imports FrameRuns CodecGroups
begin

text \<open>
  The encoder and the decoder of \<open>cwipc_codec.cpp\<close> around the codec of
  \<open>point_cloud_codec_v2.h\<close>: the objects they make with its constructor, and what becomes of a
  client's cloud that is fed to the one and whose bytes are fed to the other.
\<close>

section \<open>The codec objects\<close>

text \<open>The constructor; the arguments the base class gets are in \<open>b\<close>.\<close>

definition new_octree_codec :: "base_coder \<Rightarrow> f64 \<Rightarrow> u8 \<Rightarrow> u8 \<Rightarrow> bool \<Rightarrow> bool \<Rightarrow> bool \<Rightarrow> int \<Rightarrow> octree_codec" where
  "new_octree_codec b resolution bits coding centroid scalable connectivity quality =
     \<lparr>base = b,
      v2 = \<lparr>v2_octreeResolution = resolution, v2_colorBitResolution = bits,
            v2_jpeg_quality = word_of_int quality, do_voxel_centroid = centroid,
            do_connectivity = connectivity, create_scalable = scalable,
            color_coding_type = ucast coding, v2_macroblock_size = 16, do_icp_color_offset = False\<rparr>,
      binary_tree_data = [], point_count_data = [], centroid_diffs = [], point_diffs = [],
      pcl_avg = [], pcl_avg_iterator = 0, pcl_diff = [],
      jp = new_color_coder quality (mapping_mode_of (ucast coding)), metrics = (0, 0, 0)\<rparr>"

definition setMacroblockSize :: "int \<Rightarrow> octree_codec \<Rightarrow> octree_codec" where
  "setMacroblockSize mb c = c\<lparr>v2 := (v2 c)\<lparr>v2_macroblock_size := word_of_int mb\<rparr>\<rparr>"

text \<open>The next setter is meant for the colour variance threshold and sets the macroblock size.\<close>

definition setColorVarThreshold :: "int \<Rightarrow> octree_codec \<Rightarrow> octree_codec" where
  "setColorVarThreshold mb c = c\<lparr>v2 := (v2 c)\<lparr>v2_macroblock_size := word_of_int mb\<rparr>\<rparr>"

definition setDoICPColorOffset :: "bool \<Rightarrow> octree_codec \<Rightarrow> octree_codec" where
  "setDoICPColorOffset doit c = c\<lparr>v2 := (v2 c)\<lparr>do_icp_color_offset := doit\<rparr>\<rparr>"

text \<open>
  The codec of an encoder: \<open>alloc_encoder\<close>, and the public member \<open>octreeResolution\<close> as the encoder
  has set it since.
\<close>

definition encoder_codec :: "base_coder \<Rightarrow> codec_state \<Rightarrow> octree_codec" where
  "encoder_codec b c =
     setMacroblockSize (macroblockSize c)
       (new_octree_codec b (f64_of_f32 (octreeResolution c)) 8 1 False False False (jpegQuality c))"

text \<open>The codec of a decoder, \<open>alloc_decoder\<close>: eight octree bits.\<close>

definition decoder_codec :: "base_coder \<Rightarrow> octree_codec" where
  "decoder_codec b = new_octree_codec b 0x3F70000000000000 8 1 False False False 85"

text \<open>The state after the frames before; a frame whose coding is undefined behaviour leaves it alone.\<close>

definition encode_step ::
  "jpeg_lib \<Rightarrow> base_lib \<Rightarrow> entropy_lib \<Rightarrow> 't octree_lib \<Rightarrow> pcl_coders
   \<Rightarrow> octree_codec \<times> 't \<Rightarrow> pcl_point list \<times> u64 \<Rightarrow> octree_codec \<times> 't" where
  "encode_step lib bl el ol pc s frame =
     (case encodePointCloud lib bl el ol pc (fst frame) (snd frame) s of
        Inl _ \<Rightarrow> s
      | Inr (_, s') \<Rightarrow> s')"

definition codec_compress ::
  "jpeg_lib \<Rightarrow> base_lib \<Rightarrow> entropy_lib \<Rightarrow> 't octree_lib \<Rightarrow> pcl_coders \<Rightarrow> base_coder \<times> 't \<Rightarrow> compressor" where
  "codec_compress lib bl el ol pc fresh c pts ts =
     (case encodePointCloud lib bl el ol pc pts ts
             (foldl (encode_step lib bl el ol pc) (encoder_codec (fst fresh) c, snd fresh) (coded c)) of
        Inl _ \<Rightarrow> []
      | Inr (bytes, _) \<Rightarrow> bytes)"

definition decode_step ::
  "jpeg_lib \<Rightarrow> base_lib \<Rightarrow> entropy_lib \<Rightarrow> 't octree_lib \<Rightarrow> pcl_coders \<Rightarrow> u8
   \<Rightarrow> octree_codec \<Rightarrow> u8 list \<Rightarrow> octree_codec" where
  "decode_step lib bl el ol pc garbage r buf =
     (case decodePointCloud lib bl el ol pc garbage buf [] 0 r of
        Inl _ \<Rightarrow> r
      | Inr (_, _, _, r') \<Rightarrow> r')"

definition codec_decompress ::
  "jpeg_lib \<Rightarrow> base_lib \<Rightarrow> entropy_lib \<Rightarrow> 't octree_lib \<Rightarrow> pcl_coders \<Rightarrow> u8 \<Rightarrow> base_coder \<Rightarrow> decompressor" where
  "codec_decompress lib bl el ol pc garbage b seen buf =
     (case decodePointCloud lib bl el ol pc garbage buf [] 0
             (foldl (decode_step lib bl el ol pc garbage) (decoder_codec b) seen) of
        Inl _ \<Rightarrow> (False, [], 0, 0)
      | Inr (ok, pts, ts, r) \<Rightarrow> (ok, pts, ts, f32_of_f64 (v2_octreeResolution (v2 r))))"

section \<open>Laws\<close>

text \<open>
  A tree is made of the points alone, the one before is deleted; points fall into at least one and at
  most as many leaves as there are points.
\<close>

definition tree_of_points :: "'t octree_lib \<Rightarrow> bool" where
  "tree_of_points ol \<longleftrightarrow>
     (\<forall>pts t t'. ol_leaves ol (ol_add ol pts t) = ol_leaves ol (ol_add ol pts t') \<and>
        ol_min ol (ol_add ol pts t) = ol_min ol (ol_add ol pts t')) \<and>
     (\<forall>pts t. pts \<noteq> [] \<longrightarrow> ol_leaves ol (ol_add ol pts t) \<noteq> [] \<and>
        length (ol_leaves ol (ol_add ol pts t)) \<le> length pts) \<and>
     (\<forall>pts t. length pts < 256 * 65500 \<longrightarrow> length (ol_serialize ol False (ol_add ol pts t)) < 2 ^ 64)"

text \<open>A new object of the base class with equal resolutions, and everything else the codec relies on.\<close>

definition fresh_base :: "base_coder \<Rightarrow> bool" where
  "fresh_base b \<longleftrightarrow> i_frame b \<and> do_voxel_grid b \<and> do_color_encoding b"

definition codec_ok ::
  "jpeg_lib \<Rightarrow> base_lib \<Rightarrow> entropy_lib \<Rightarrow> 't octree_lib \<Rightarrow> pcl_coders \<Rightarrow> bool" where
  "codec_ok lib bl el ol pc \<longleftrightarrow> base_ok bl \<and> entropy_ok el \<and> tree_ok ol \<and> colors_ok pc \<and> tree_of_points ol"

section \<open>From the client to the client\<close>

lemma encoder_codec_settings:
  assumes "fresh_base b"
  shows "voxel_encoder (encoder_codec b c)" and "base (encoder_codec b c) = b"
    and "jp_quality (jp (encoder_codec b c)) = jpegQuality c"
    and "v2_octreeResolution (v2 (encoder_codec b c)) = f64_of_f32 (octreeResolution c)"
  using assms
  by (simp_all add: encoder_codec_def setMacroblockSize_def new_octree_codec_def voxel_encoder_def
      new_color_coder_def mapping_mode_of_def fresh_base_def)

lemma encode_step_keeps:
  assumes "colors_ok pc" and "voxel_encoder (fst s)"
  shows "voxel_encoder (fst (encode_step lib bl el ol pc s frame)) \<and>
    v2 (fst (encode_step lib bl el ol pc s frame)) = v2 (fst s) \<and>
    jp_quality (jp (fst (encode_step lib bl el ol pc s frame))) = jp_quality (jp (fst s)) \<and>
    oct_resolution (base (fst (encode_step lib bl el ol pc s frame))) = oct_resolution (base (fst s))"
proof (cases "encodePointCloud lib bl el ol pc (fst frame) (snd frame) s")
  case (Inr r)
  obtain c t bytes c' t' where "s = (c, t)" "r = (bytes, c', t')" by (metis prod_cases3 surj_pair)
  with Inr encode_keeps [OF assms(1), of c lib bl el ol "fst frame" "snd frame" t bytes c' t'] assms(2)
  show ?thesis by (simp add: encode_step_def)
qed (use assms in \<open>simp add: encode_step_def\<close>)

lemma encode_steps_keep:
  assumes "colors_ok pc" and "voxel_encoder (fst s)"
  shows "voxel_encoder (fst (foldl (encode_step lib bl el ol pc) s frames)) \<and>
    v2 (fst (foldl (encode_step lib bl el ol pc) s frames)) = v2 (fst s) \<and>
    jp_quality (jp (fst (foldl (encode_step lib bl el ol pc) s frames))) = jp_quality (jp (fst s)) \<and>
    oct_resolution (base (fst (foldl (encode_step lib bl el ol pc) s frames))) = oct_resolution (base (fst s))"
  using assms(2)
proof (induction frames arbitrary: s)
  case (Cons frame frames)
  from encode_step_keeps [OF assms(1) Cons.prems, of lib bl el ol frame]
    Cons.IH [of "encode_step lib bl el ol pc s frame"]
  show ?case by simp
qed simp

text \<open>What a codec's output for some points is decoded to, whatever the two objects have coded before.\<close>

lemma compressed_points_decode:
  assumes "codec_ok lib bl el ol pc" and "jpeg_ok lib (jpegQuality c) close" and "fresh_base b"
    and "pts \<noteq> []" and "length pts < 256 * 65500"
    and "leaves = ol_leaves ol (ol_add ol pts t)"
  shows "\<exists>colors. list_all2 close (leaf_colors pc pts leaves) colors \<and>
    codec_decompress lib bl el ol pc garbage b' seen (codec_compress lib bl el ol pc (b, t) c pts ts) =
      (True, painted (b\<lparr>min_xyz := ol_min ol (ol_add ol pts t)\<rparr>) (map fst leaves) colors, ts,
       f32_of_f64 (f64_of_f32 (octreeResolution c)))"
proof -
  define s where "s = foldl (encode_step lib bl el ol pc) (encoder_codec b c, t) (coded c)"
  obtain c1 t1 where s1: "s = (c1, t1)" by (cases s)
  have k: "base_ok bl" "entropy_ok el" "tree_ok ol" "colors_ok pc" "tree_of_points ol"
    using assms(1) by (simp_all add: codec_ok_def)
  note e = encoder_codec_settings [OF assms(3), of c]
  have c1: "voxel_encoder c1" "v2 c1 = v2 (encoder_codec b c)" "jp_quality (jp c1) = jpegQuality c"
    "oct_resolution (base c1) = oct_resolution b"
    using encode_steps_keep [OF k(4), of "(encoder_codec b c, t)" lib bl el ol "coded c"] e
    by (simp_all add: s_def [symmetric] s1)
  have same: "leaves = ol_leaves ol (ol_add ol pts t1)" "ol_min ol (ol_add ol pts t1) = ol_min ol (ol_add ol pts t)"
    and n: "leaves \<noteq> []" "length leaves \<le> length pts"
    and l: "length (ol_serialize ol False (ol_add ol pts t1)) < 2 ^ 64"
    using k(5) assms(4-6) unfolding tree_of_points_def by metis+
  have "length leaves < 256 * 65500" using n(2) assms(5) by simp
  from frame_round_trip [OF _ k(1-4) c1(1) same(1) n(1) this l, of lib close ts garbage "[]" 0
      "foldl (decode_step lib bl el ol pc garbage) (decoder_codec b') seen"] assms(2) c1(3)
  obtain bytes c' tree' colors receiver' where
      "encodePointCloud lib bl el ol pc pts ts (c1, t1) = Inr (bytes, c', tree')"
    and cl: "list_all2 close (leaf_colors pc pts leaves) colors"
    and d: "decodePointCloud lib bl el ol pc garbage bytes [] 0
        (foldl (decode_step lib bl el ol pc garbage) (decoder_codec b') seen) =
      Inr (True, painted ((base c1)\<lparr>min_xyz := ol_min ol (ol_add ol pts t1)\<rparr>) (map fst leaves) colors, ts, receiver')"
    and v: "v2 receiver' = v2 c1"
    by auto
  then have "codec_compress lib bl el ol pc (b, t) c pts ts = bytes"
    by (simp add: codec_compress_def s_def [symmetric] s1)
  moreover have "painted ((base c1)\<lparr>min_xyz := ol_min ol (ol_add ol pts t1)\<rparr>) (map fst leaves) colors =
      painted (b\<lparr>min_xyz := ol_min ol (ol_add ol pts t)\<rparr>) (map fst leaves) colors"
    by (rule painted_base) (simp_all add: c1(4) same(2))
  ultimately show ?thesis using cl d v c1(2) e(4) by (auto simp: codec_decompress_def)
qed

lemma frame_codec_quality:
  "jpegQuality (frame_codec dist e cs src) = jpegQuality (current_codec e)"
  by (simp add: frame_codec_def adapt_resolution_def)

text \<open>
  C3. The codec delivers the client's cloud: a cloud fed to an unthreaded encoder and its bytes fed to
  a decoder, whatever the two have coded before, make the decoder hold a cloud with the time stamp of
  the original and one point for every leaf of the octree over the points of the encoder's tile, at
  the centre of the leaf and painted with the leaf's average colour up to the error of the JPEG
  library; its cell size is the resolution the encoder announced. (A tile without points is coded as
  one black point at the origin, and what looks like it is made a cloud without points again.)
\<close>

theorem coded_cloud_delivered:
  assumes "codec_ok lib bl el ol pc" and "jpeg_ok lib (jpegQuality (current_codec e)) close" and "fresh_base b"
    and "idle e" and "access_pcl_pointcloud w ob = (Some src, w1, ob1)"
    and "feed dist (codec_compress lib bl el ol pc (b, t)) ob (w, e) = Inr ((w', e'), ob')"
    and "m_result e' = Some bytes" and "dec_alive d"
    and "pts = frame_points (selected (m_params e) src)" and "length pts < 256 * 65500"
    and "leaves = ol_leaves ol (ol_add ol pts t)"
  shows "\<exists>w2 colors. list_all2 close (leaf_colors pc pts leaves) colors \<and>
    decoder_feed dist (codec_decompress lib bl el ol pc garbage b') bytes (w', d) =
      Inr (w2, d\<lparr>dec_seen := dec_seen d @ [bytes],
        dec_result := Some (made_from dist
          (Some (decoded_points (painted (b\<lparr>min_xyz := ol_min ol (ol_add ol pts t)\<rparr>) (map fst leaves) colors)))
          (m_timestamp ob1)
          (f32_of_f64 (f64_of_f32 (octreeResolution (frame_codec dist e (m_cellsize ob1) src)))))\<rparr>)"
proof -
  let ?c = "frame_codec dist e (m_cellsize ob1) src"
  have bytes: "bytes = codec_compress lib bl el ol pc (b, t) ?c pts (m_timestamp ob1)"
    using feed_idle [OF assms(4,5), of dist "codec_compress lib bl el ol pc (b, t)"] assms(6,7,9)
    by (auto simp: Let_def)
  have "pts \<noteq> []" by (simp add: assms(9) frame_points_def)
  from compressed_points_decode [OF assms(1) _ assms(3) this assms(10,11), of ?c close garbage b'
      "dec_seen d" "m_timestamp ob1"] assms(2)
  obtain colors where "list_all2 close (leaf_colors pc pts leaves) colors"
    "codec_decompress lib bl el ol pc garbage b' (dec_seen d) bytes =
      (True, painted (b\<lparr>min_xyz := ol_min ol (ol_add ol pts t)\<rparr>) (map fst leaves) colors, m_timestamp ob1,
       f32_of_f64 (f64_of_f32 (octreeResolution ?c)))"
    by (auto simp: frame_codec_quality bytes)
  with decoder_feed_ok [where decode = "codec_decompress lib bl el ol pc garbage b'" and buf = bytes and d = d
      and dist = dist and w = w'] assms(8)
  show ?thesis by blast
qed

lemma row_codec_ok: "codec_ok raw_lib plain_base plain_entropy row_octree first_coders"
  using plain_base_ok plain_entropy_ok row_octree_ok first_coders_ok
  by (auto simp: codec_ok_def tree_of_points_def row_octree_def)

lemma sample_base_fresh: "fresh_base sample_base"
  by (simp add: fresh_base_def sample_base_def)

theorem coded_cloud_delivered_witness:
  "\<exists>w' e' ob' bytes w2 d rv.
     feed (\<lambda>_ _. 0) (codec_compress raw_lib plain_base plain_entropy row_octree first_coders (sample_base, 0))
       (pcl_cloud [point_at 1 1, point_at 2 1]) (world_init None 0, new_encoder_impl sample_params)
       = Inr ((w', e'), ob') \<and> m_result e' = Some bytes \<and>
     decoder_feed (\<lambda>_ _. 0) (codec_decompress raw_lib plain_base plain_entropy row_octree first_coders 0 sample_base)
       bytes (w', new_decoder_impl) = Inr (w2, d) \<and> dec_result d = Some rv \<and>
     m_pc rv = Some [paint 0 0 0 (voxel_center sample_base (0, 0, 0)), paint 0 0 0 (voxel_center sample_base (1, 0, 0))]"
proof -
  let ?src = "[point_at 1 1, point_at 2 1]" and ?e = "new_encoder_impl sample_params"
  let ?compress = "codec_compress raw_lib plain_base plain_entropy row_octree first_coders (sample_base, 0)"
  have a: "access_pcl_pointcloud (world_init None 0) (pcl_cloud ?src) =
      (Some ?src, world_init None 0, pcl_cloud ?src)" by simp
  obtain w' e' ob' bytes where f: "feed (\<lambda>_ _. 0) ?compress (pcl_cloud ?src) (world_init None 0, ?e) = Inr ((w', e'), ob')"
    and r: "m_result e' = Some bytes"
    using feed_idle [OF fresh_encoder_idle [of sample_params] a, of "\<lambda>_ _. 0" ?compress] by (auto simp: Let_def)
  have pts: "?src = frame_points (selected (m_params ?e) ?src)"
    by (simp add: selected_def new_encoder_impl_def sample_params_def tile_selected_def point_at_def frame_points_def)
  have l: "[((0, 0, 0), [0]), ((1, 0, 0), [1])] = ol_leaves row_octree (ol_add row_octree ?src 0)"
    "leaf_colors first_coders ?src [((0, 0, 0), [0]), ((Suc 0, 0, 0), [Suc 0])] = [0, 0, 0, 0, 0, 0]"
    "sample_base\<lparr>min_xyz := ol_min row_octree (ol_add row_octree ?src 0)\<rparr> = sample_base"
    by (simp_all add: row_octree_def leaf_colors_def first_coders_def point_at_def upt_rec sample_base_def)
  have "dec_alive new_decoder_impl" by (simp add: new_decoder_impl_def)
  from coded_cloud_delivered [OF row_codec_ok raw_lib_ok sample_base_fresh fresh_encoder_idle a f r this pts _ l(1),
      of 0 sample_base]
  show ?thesis
    using f r by (auto simp: l(2,3) list.rel_eq decoded_points_def new_decoder_impl_def)
qed

end
