(* ===== verification/KinectImages.thy ===== *)
theory KinectImages
  imports Greenscreen KinectConfig "HOL-Library.Sublist"
begin

text \<open>
  \<open>cwipc_kinect/src/K4ABaseCamera.hpp\<close>, first part: from the depth and colour image of a camera to its
  points. The depth filter, the ray table, the transformations to the colour camera and to the world,
  and the loop that makes and filters the points. The image functions of the Kinect SDK and of OpenCV
  are parameters. Rotation and translation are arithmetic on single and double precision as written.
\<close>

section \<open>Images and the SDK\<close>

record depth_image =
  di_width :: nat
  di_height :: nat
  di_data :: "u16 list"

text \<open>\<open>cwi_bgra_t\<close>: blue, green, red, alpha.\<close>

type_synonym bgra = "u8 \<times> u8 \<times> u8 \<times> u8"

datatype color_format = Color_MJPG | Color_BGRA32 | Color_other

record color_image =
  ci_format :: color_format
  ci_width :: nat
  ci_height :: nat
  ci_data :: "bgra list"
  ci_jpeg :: "u8 list"

text \<open>
  \<open>k4l_color_to_depth\<close> and \<open>k4l_depth_to_color\<close> make an image in the geometry of the other camera,
  \<open>None\<close> when it cannot be created or computed; \<open>k4l_table\<close> says whether the image of the ray
  table can be created; \<open>k4l_ray\<close> is \<open>k4a_calibration_2d_to_3d\<close> at depth one
  for the depth or the colour camera, \<open>None\<close> where it is not valid. \<open>cv_erode\<close> erodes a mask of
  the given width and height with an ellipse; \<open>None\<close> is an exception of OpenCV.
\<close>

record k4a_images =
  k4l_color_to_depth :: "depth_image \<Rightarrow> color_image \<Rightarrow> color_image option"
  k4l_depth_to_color :: "depth_image \<Rightarrow> nat \<times> nat \<Rightarrow> depth_image option"
  k4l_depth_size :: "nat \<times> nat"
  k4l_color_size :: "nat \<times> nat"
  k4l_table :: bool
  k4l_ray :: "bool \<Rightarrow> f32 \<times> f32 \<Rightarrow> (f32 \<times> f32) option"
  k4l_jpeg :: "color_image \<Rightarrow> bgra list option"
  cv_erode :: "int \<times> int \<Rightarrow> nat \<times> nat \<Rightarrow> bool list \<Rightarrow> bool list option"

text \<open>What the points of a camera depend on; the ray table is null until the camera is started.\<close>

record k4a_view =
  view_index :: nat
  view_trafo :: "f64 list list option"
  view_rotation :: "f32 list"
  view_translation :: "f32 list"
  view_uv :: "((nat \<times> nat) \<times> (f32 \<times> f32) list) option"
  view_processing :: k4a_processing
  view_filtering :: k4a_filtering

section \<open>The depth filter\<close>

text \<open>\<open>(int16_t)(metres * 1000)\<close>.\<close>

definition f64_1000 :: f64 where "f64_1000 = 0x408F400000000000"

definition millimetres :: "f64 \<Rightarrow> fault + int" where
  "millimetres m =
     (let v = f64_mul m f64_1000; i = f64_trunc v
      in if f64_inf \<le> f64_mag v \<or> i < - 32768 \<or> 32767 < i then Inl Bad_conversion else Inr i)"

definition depth_range :: "k4a_filtering \<Rightarrow> fault + int \<times> int" where
  "depth_range fl =
     (case millimetres (threshold_near fl) of
        Inl f \<Rightarrow> Inl f
      | Inr n \<Rightarrow>
          (case millimetres (threshold_far fl) of
             Inl f \<Rightarrow> Inl f
           | Inr m \<Rightarrow>
               let min_depth = (if 1 < n then n else 1);
                   max_depth = (if min_depth < m then m else 5460)
               in Inr (min_depth, max_depth)))"

definition range_mask :: "int \<times> int \<Rightarrow> u16 list \<Rightarrow> bool list" where
  "range_mask r data = map (\<lambda>d. fst r \<le> uint d \<and> uint d \<le> snd r) data"

definition apply_mask :: "bool list \<Rightarrow> u16 list \<Rightarrow> u16 list" where
  "apply_mask msk data = map2 (\<lambda>b d. if b then d else 0) msk data"

definition apply_filters_to_depth_image ::
  "k4a_images \<Rightarrow> 'a k4a_view_scheme \<Rightarrow> depth_image \<Rightarrow> fault + depth_image" where
  "apply_filters_to_depth_image sdk cam im =
     (let fl = view_filtering cam; pr = view_processing cam in
      if \<not> do_threshold fl then Inr im
      else
        case depth_range fl of
          Inl f \<Rightarrow> Inl f
        | Inr r \<Rightarrow>
            let msk = range_mask r (di_data im);
                x_delta = sint (depth_x_erosion pr); y_delta = sint (depth_y_erosion pr)
            in case (if x_delta \<noteq> 0 \<or> y_delta \<noteq> 0
                     then cv_erode sdk (x_delta * 2 + 1, y_delta * 2 + 1) (di_width im, di_height im) msk
                     else Some msk) of
                 None \<Rightarrow> Inl Uncaught_exception
               | Some msk' \<Rightarrow> Inr (im\<lparr>di_data := apply_mask msk' (di_data im)\<rparr>))"

section \<open>Coordinates\<close>

text \<open>\<open>(*camera_config.trafo)(i,0)*x + ...\<close>, in double precision from the left, stored in a float.\<close>

definition trafo_row :: "f64 list list \<Rightarrow> nat \<Rightarrow> f32 \<times> f32 \<times> f32 \<Rightarrow> f32" where
  "trafo_row m i p =
     (case p of (x, y, z) \<Rightarrow>
        f32_of_f64 (f64_add (f64_add (f64_add (f64_mul (m ! i ! 0) (f64_of_f32 x))
          (f64_mul (m ! i ! 1) (f64_of_f32 y))) (f64_mul (m ! i ! 2) (f64_of_f32 z))) (m ! i ! 3)))"

definition metres :: "f32 \<Rightarrow> f32" where
  "metres v = f32_of_f64 (f64_div (f64_of_f32 v) f64_1000)"

definition transform_point_cam_to_world :: "'a k4a_view_scheme \<Rightarrow> pcl_point \<Rightarrow> fault + pcl_point" where
  "transform_point_cam_to_world cam pt =
     (case view_trafo cam of
        None \<Rightarrow> Inl Null_deref
      | Some m \<Rightarrow>
          let p = (metres (pcl_x pt), metres (pcl_y pt), metres (pcl_z pt))
          in Inr (pt\<lparr>pcl_x := trafo_row m 0 p, pcl_y := trafo_row m 1 p, pcl_z := trafo_row m 2 p\<rparr>))"

definition extrinsics_row :: "'a k4a_view_scheme \<Rightarrow> nat \<Rightarrow> f32 \<times> f32 \<times> f32 \<Rightarrow> f32" where
  "extrinsics_row cam i p =
     (case p of (x, y, z) \<Rightarrow>
        f32_add (f32_add (f32_add (f32_mul (view_rotation cam ! (3 * i)) x)
          (f32_mul (view_rotation cam ! (3 * i + 1)) y)) (f32_mul (view_rotation cam ! (3 * i + 2)) z))
          (view_translation cam ! i))"

definition transform_point_depth_to_color :: "'a k4a_view_scheme \<Rightarrow> pcl_point \<Rightarrow> pcl_point" where
  "transform_point_depth_to_color cam pt =
     (let p = (pcl_x pt, pcl_y pt, pcl_z pt)
      in pt\<lparr>pcl_x := extrinsics_row cam 0 p, pcl_y := extrinsics_row cam 1 p, pcl_z := extrinsics_row cam 2 p\<rparr>)"

text \<open>The ray of a pixel times its depth, carried on to the world.\<close>

definition point_to_world :: "'a k4a_view_scheme \<Rightarrow> pcl_point \<Rightarrow> fault + pcl_point" where
  "point_to_world cam pt =
     transform_point_cam_to_world cam
       (if map_color_to_depth (view_filtering cam) then transform_point_depth_to_color cam pt else pt)"

definition blank_point :: pcl_point where
  "blank_point = \<lparr>pcl_x = 0, pcl_y = 0, pcl_z = 0, pcl_r = 0, pcl_g = 0, pcl_b = 0, pcl_a = 0\<rparr>"

definition ray_point :: "f32 \<times> f32 \<Rightarrow> int \<Rightarrow> pcl_point \<Rightarrow> pcl_point" where
  "ray_point uv depth pt =
     pt\<lparr>pcl_x := f32_mul (fst uv) (f32_of_int depth), pcl_y := f32_mul (snd uv) (f32_of_int depth),
        pcl_z := f32_of_int depth\<rparr>"

section \<open>The ray table\<close>

definition table_entry :: "k4a_images \<Rightarrow> bool \<Rightarrow> nat \<Rightarrow> nat \<Rightarrow> f32 \<times> f32" where
  "table_entry sdk depth x y =
     (case k4l_ray sdk depth (f32_of_int (int x), f32_of_int (int y)) of
        Some ray \<Rightarrow> ray
      | None \<Rightarrow> (f32_nan, f32_nan))"

definition create_depth_uv_mapping :: "k4a_images \<Rightarrow> 'a k4a_view_scheme \<Rightarrow> 'a k4a_view_scheme" where
  "create_depth_uv_mapping sdk cam =
     (if \<not> k4l_table sdk then cam else
      let depth = map_color_to_depth (view_filtering cam);
          (width, height) = (if depth then k4l_depth_size sdk else k4l_color_size sdk)
      in cam\<lparr>view_uv := Some ((width, height),
               [table_entry sdk depth x y. y \<leftarrow> [0..<height], x \<leftarrow> [0..<width]])\<rparr>)"

section \<open>The points of an image\<close>

definition point_color :: "bgra \<Rightarrow> pcl_point \<Rightarrow> pcl_point" where
  "point_color c pt = (case c of (b, g, r, _) \<Rightarrow> pt\<lparr>pcl_b := b, pcl_g := g, pcl_r := r\<rparr>)"

text \<open>\<open>(uint8_t)1 << camera_index\<close>, an \<open>int\<close> that is stored in a byte.\<close>

definition camera_tile :: "nat \<Rightarrow> u8" where
  "camera_tile i = word_of_int (2 ^ i)"

definition too_low_or_high :: "k4a_processing \<Rightarrow> pcl_point \<Rightarrow> bool" where
  "too_low_or_high pr pt =
     (let lo = f32_of_f64 (height_min pr); hi = f32_of_f64 (height_max pr)
      in f32_lt lo hi \<and> (f32_lt (pcl_y pt) lo \<or> f32_lt hi (pcl_y pt)))"

text \<open>One pixel: \<open>None\<close> when it gives no point.\<close>

definition pixel_point ::
  "'a k4a_view_scheme \<Rightarrow> u16 \<Rightarrow> f32 \<times> f32 \<Rightarrow> bgra \<Rightarrow> fault + pcl_point option" where
  "pixel_point cam depth uv color =
     (let pr = view_processing cam in
      if depth = 0 \<or> f32_isnan (fst uv) \<or> f32_isnan (snd uv) then Inr None
      else
        let point = point_color color (ray_point uv (uint depth) blank_point)
        in case point_to_world cam (point\<lparr>pcl_a := camera_tile (view_index cam)\<rparr>) of
             Inl f \<Rightarrow> Inl f
           | Inr pt \<Rightarrow>
               if too_low_or_high pr pt then Inr None
               else if f64_lt 0 (radius_filter pr) \<and> \<not> isPointInRadius pt (f32_of_f64 (radius_filter pr))
               then Inr None
               else if greenscreen_removal pr
               then map_sum id (\<lambda>(ok, pt'). if ok then Some pt' else None) (isNotGreen pt)
               else Inr (Some pt))"

fun generate_loop ::
  "'a k4a_view_scheme \<Rightarrow> u16 list \<Rightarrow> (f32 \<times> f32) list \<Rightarrow> bgra list \<Rightarrow> nat list \<Rightarrow> pcl_point list
   \<Rightarrow> fault + pcl_point list" where
  "generate_loop cam depths uvs colors [] new_cloud = Inr new_cloud"
| "generate_loop cam depths uvs colors (i # is) new_cloud =
     (if length depths \<le> i \<or> length uvs \<le> i \<or> length colors \<le> i then Inl Out_of_bounds
      else case pixel_point cam (depths ! i) (uvs ! i) (colors ! i) of
             Inl f \<Rightarrow> Inl f
           | Inr None \<Rightarrow> generate_loop cam depths uvs colors is new_cloud
           | Inr (Some pt) \<Rightarrow> generate_loop cam depths uvs colors is (new_cloud @ [pt]))"

definition generate_point_cloud_common ::
  "'a k4a_view_scheme \<Rightarrow> depth_image \<Rightarrow> color_image \<Rightarrow> fault + pcl_point list" where
  "generate_point_cloud_common cam depth color =
     (case view_uv cam of
        None \<Rightarrow> if di_width depth * di_height depth = 0 then Inr [] else Inl Null_deref
      | Some (_, uvs) \<Rightarrow>
          generate_loop cam (di_data depth) uvs (ci_data color) [0..<di_width depth * di_height depth] [])"

text \<open>\<open>nullptr\<close> when the SDK fails.\<close>

definition generate_point_cloud_color_to_depth ::
  "k4a_images \<Rightarrow> 'a k4a_view_scheme \<Rightarrow> depth_image \<Rightarrow> color_image \<Rightarrow> fault + pcl_point list option" where
  "generate_point_cloud_color_to_depth sdk cam depth color =
     (case k4l_color_to_depth sdk depth color of
        None \<Rightarrow> Inr None
      | Some color' \<Rightarrow> map_sum id Some (generate_point_cloud_common cam depth color'))"

definition generate_point_cloud_depth_to_color ::
  "k4a_images \<Rightarrow> 'a k4a_view_scheme \<Rightarrow> depth_image \<Rightarrow> color_image \<Rightarrow> fault + pcl_point list option" where
  "generate_point_cloud_depth_to_color sdk cam depth color =
     (case k4l_depth_to_color sdk depth (ci_width color, ci_height color) of
        None \<Rightarrow> Inr None
      | Some depth' \<Rightarrow> map_sum id Some (generate_point_cloud_common cam depth' color))"

section \<open>Requests of the client\<close>

definition camera_mapcolordepth :: "int \<Rightarrow> int \<Rightarrow> bool \<times> int \<times> int" where
  "camera_mapcolordepth x_c y_c = (True, x_c, y_c)"

text \<open>\<open>None\<close> is \<open>false\<close>, the pixel is out of bounds.\<close>

definition camera_map2d3d :: "'a k4a_view_scheme \<Rightarrow> int \<Rightarrow> int \<Rightarrow> int \<Rightarrow> fault + (f32 \<times> f32 \<times> f32) option" where
  "camera_map2d3d cam x_2d y_2d d_2d =
     (case view_uv cam of
        None \<Rightarrow> Inr None
      | Some ((width, height), uvs) \<Rightarrow>
          if y_2d < 0 \<or> int height \<le> y_2d \<or> x_2d < 0 \<or> int width \<le> x_2d then Inr None
          else
            let idx = nat y_2d * width + nat x_2d in
            if length uvs \<le> idx then Inl Out_of_bounds
            else map_sum id (\<lambda>p. Some (pcl_x p, pcl_y p, pcl_z p))
                   (point_to_world cam (ray_point (uvs ! idx) d_2d blank_point)))"

definition match_camera_hardware_parameters :: "k4a_hardware \<Rightarrow> k4a_hardware \<Rightarrow> bool" where
  "match_camera_hardware_parameters hw inp \<longleftrightarrow>
     color_backlight_compensation inp = color_backlight_compensation hw \<and>
     color_brightness inp = color_brightness hw \<and>
     color_contrast inp = color_contrast hw \<and>
     color_exposure_time inp = color_exposure_time hw \<and>
     color_gain inp = color_gain hw \<and>
     color_height inp = color_height hw \<and>
     color_powerline_frequency inp = color_powerline_frequency hw \<and>
     color_saturation inp = color_saturation hw \<and>
     color_sharpness inp = color_sharpness hw \<and>
     color_whitebalance inp = color_whitebalance hw \<and>
     depth_height inp = depth_height hw \<and>
     hw_fps inp = hw_fps hw"

section \<open>uncompress\_color\_image\<close>

text \<open>
  An image that is no JPEG is returned as it is; without memory, so is a compressed one. When it cannot
  be decompressed the new image is returned with whatever its memory held, \<open>garbage\<close>. The messages
  are returned with the image.
\<close>

definition uncompress_color_image ::
  "k4a_images \<Rightarrow> bool \<Rightarrow> bgra list \<Rightarrow> color_image \<Rightarrow> color_image \<times> string list" where
  "uncompress_color_image sdk created garbage color =
     (if ci_format color \<noteq> Color_MJPG
      then (color, if ci_format color \<noteq> Color_BGRA32
                   then [''Color image format is not MJPG or BGRA32, cannot decompress''] else [])
      else if \<not> created then (color, [''Failed to create image buffer for image decompression''])
      else case k4l_jpeg sdk color of
             Some data \<Rightarrow> (color\<lparr>ci_format := Color_BGRA32, ci_data := data, ci_jpeg := []\<rparr>, [])
           | None \<Rightarrow> (color\<lparr>ci_format := Color_BGRA32, ci_data := garbage, ci_jpeg := []\<rparr>,
                      [''Failed to decompress color frame'']))"

section \<open>The depth filter only removes\<close>

text \<open>Erosion with a kernel that contains its centre never adds a pixel to the mask.\<close>

definition erode_ok :: "k4a_images \<Rightarrow> bool" where
  "erode_ok sdk \<longleftrightarrow>
     (\<forall>k dim msk msk'. cv_erode sdk k dim msk = Some msk' \<longrightarrow>
        length msk' = length msk \<and> (\<forall>i < length msk. msk' ! i \<longrightarrow> msk ! i))"

lemma depth_range_positive:
  "depth_range fl = Inr (near, far) \<Longrightarrow> 0 < near \<and> (near < far \<or> far = 5460)"
  by (auto simp: depth_range_def Let_def split: sum.splits if_splits)

lemma apply_range_mask:
  assumes "length msk = length data" and "\<forall>i < length data. msk ! i \<longrightarrow> range_mask r data ! i"
  shows "\<forall>i < length data. apply_mask msk data ! i = 0 \<or>
    apply_mask msk data ! i = data ! i \<and> fst r \<le> uint (data ! i) \<and> uint (data ! i) \<le> snd r"
  using assms by (auto simp: apply_mask_def range_mask_def)

text \<open>
  The depth filter only removes measurements: the filtered image has the size of the original,
  every pixel keeps its depth or becomes 0 (no data), and what is left lies in the range the
  configured thresholds stand for, which starts above 0; an empty range ends at 5460 millimetres
  instead. The erosion around the pixels that were removed can only remove more.
\<close>

theorem depth_filter_keeps_range:
  assumes "erode_ok sdk" and "do_threshold (view_filtering cam)"
    and "apply_filters_to_depth_image sdk cam im = Inr im'"
  shows "\<exists>near far. depth_range (view_filtering cam) = Inr (near, far) \<and> 0 < near \<and> (near < far \<or> far = 5460) \<and>
    length (di_data im') = length (di_data im) \<and> di_width im' = di_width im \<and> di_height im' = di_height im \<and>
    (\<forall>i < length (di_data im). di_data im' ! i = 0 \<or>
       di_data im' ! i = di_data im ! i \<and> near \<le> uint (di_data im ! i) \<and> uint (di_data im ! i) \<le> far)"
proof -
  obtain near far where r: "depth_range (view_filtering cam) = Inr (near, far)"
    using assms(2,3) by (auto simp: apply_filters_to_depth_image_def Let_def split: sum.splits)
  obtain msk where m: "im' = im\<lparr>di_data := apply_mask msk (di_data im)\<rparr>" "length msk = length (di_data im)"
    "\<forall>i < length (di_data im). msk ! i \<longrightarrow> range_mask (near, far) (di_data im) ! i"
  proof (cases "sint (depth_x_erosion (view_processing cam)) \<noteq> 0 \<or> sint (depth_y_erosion (view_processing cam)) \<noteq> 0")
    case False
    then have "im' = im\<lparr>di_data := apply_mask (range_mask (near, far) (di_data im)) (di_data im)\<rparr>"
      using assms(2,3) r by (simp add: apply_filters_to_depth_image_def)
    then show ?thesis using that by (simp add: range_mask_def)
  next
    case True
    then obtain msk where "cv_erode sdk (sint (depth_x_erosion (view_processing cam)) * 2 + 1,
        sint (depth_y_erosion (view_processing cam)) * 2 + 1) (di_width im, di_height im)
        (range_mask (near, far) (di_data im)) = Some msk"
      and im': "im' = im\<lparr>di_data := apply_mask msk (di_data im)\<rparr>"
      using assms(2,3) r by (auto simp: apply_filters_to_depth_image_def Let_def split: option.splits)
    with assms(1) have "length msk = length (range_mask (near, far) (di_data im))"
      "\<forall>i < length (range_mask (near, far) (di_data im)). msk ! i \<longrightarrow> range_mask (near, far) (di_data im) ! i"
      unfolding erode_ok_def by metis+
    with that im' show ?thesis by (simp add: range_mask_def)
  qed
  show ?thesis
    using r depth_range_positive [OF r] apply_range_mask [OF m(2,3)] m(2)
    by (intro exI [of _ near] exI [of _ far]) (simp add: m(1) apply_mask_def)
qed

section \<open>Every point has passed every filter\<close>

text \<open>
  What the code promises of a point made of pixel \<open>i\<close>: there is a depth and a ray, the coordinates are
  the world coordinates of the pixel, the tile is the camera's, and no filter objects.
\<close>

definition pixel_gives :: "'a k4a_view_scheme \<Rightarrow> u16 \<Rightarrow> f32 \<times> f32 \<Rightarrow> pcl_point \<Rightarrow> bool" where
  "pixel_gives cam depth uv pt \<longleftrightarrow>
     depth \<noteq> 0 \<and> \<not> f32_isnan (fst uv) \<and> \<not> f32_isnan (snd uv) \<and> pcl_a pt = camera_tile (view_index cam) \<and>
     map_sum id (\<lambda>p. (pcl_x p, pcl_y p, pcl_z p)) (point_to_world cam (ray_point uv (uint depth) blank_point))
       = Inr (pcl_x pt, pcl_y pt, pcl_z pt) \<and>
     \<not> too_low_or_high (view_processing cam) pt \<and>
     (f64_lt 0 (radius_filter (view_processing cam)) \<longrightarrow>
        isPointInRadius pt (f32_of_f64 (radius_filter (view_processing cam))))"

lemma isNotGreen_position:
  "isNotGreen p = Inr (ok, p') \<Longrightarrow>
    pcl_x p' = pcl_x p \<and> pcl_y p' = pcl_y p \<and> pcl_z p' = pcl_z p \<and> pcl_a p' = pcl_a p"
  by (auto simp: isNotGreen_def scale_red_blue_def Let_def split: if_splits sum.splits)

text \<open>The position of a point does not depend on its colour and its tile.\<close>

lemma point_to_world_position:
  assumes "pcl_x p = pcl_x q" and "pcl_y p = pcl_y q" and "pcl_z p = pcl_z q"
  shows "map_sum id (\<lambda>p. (pcl_x p, pcl_y p, pcl_z p)) (point_to_world cam p) =
    map_sum id (\<lambda>p. (pcl_x p, pcl_y p, pcl_z p)) (point_to_world cam q)"
  using assms
  by (auto simp: point_to_world_def transform_point_cam_to_world_def transform_point_depth_to_color_def Let_def
      split: option.splits)

lemma point_to_world_tile:
  "point_to_world cam p = Inr q \<Longrightarrow> pcl_a q = pcl_a p"
  by (auto simp: point_to_world_def transform_point_cam_to_world_def transform_point_depth_to_color_def Let_def
      split: option.splits if_splits)

lemma pixel_gives_tile: "pixel_gives cam depth uv p \<Longrightarrow> pcl_a p = camera_tile (view_index cam)"
  by (simp add: pixel_gives_def)

lemma kept_point:
  "map_sum id (\<lambda>(ok, p). if ok then Some p else None) r = Inr (Some pt) \<Longrightarrow> r = Inr (True, pt)"
  by (cases r) (auto split: if_splits)

lemma pixel_point_gives:
  assumes "pixel_point cam depth uv color = Inr (Some pt)"
  shows "pixel_gives cam depth uv pt"
proof -
  let ?q = "(point_color color (ray_point uv (uint depth) blank_point))\<lparr>pcl_a := camera_tile (view_index cam)\<rparr>"
  obtain p where p: "point_to_world cam ?q = Inr p" and ne: "depth \<noteq> 0" "\<not> f32_isnan (fst uv)" "\<not> f32_isnan (snd uv)"
    and f: "\<not> too_low_or_high (view_processing cam) p"
      "f64_lt 0 (radius_filter (view_processing cam)) \<longrightarrow> isPointInRadius p (f32_of_f64 (radius_filter (view_processing cam)))"
    and pt: "p = pt \<or> isNotGreen p = Inr (True, pt)"
    using assms by (auto simp: pixel_point_def Let_def split: if_splits sum.splits dest: kept_point)
  have same: "pcl_x pt = pcl_x p" "pcl_y pt = pcl_y p" "pcl_z pt = pcl_z p" "pcl_a pt = pcl_a p"
    using pt isNotGreen_position by auto
  have "map_sum id (\<lambda>p. (pcl_x p, pcl_y p, pcl_z p)) (point_to_world cam (ray_point uv (uint depth) blank_point))
      = Inr (pcl_x p, pcl_y p, pcl_z p)"
    using point_to_world_position [of "ray_point uv (uint depth) blank_point" ?q cam] p
    by (cases color) (simp add: point_color_def)
  moreover have "pcl_a p = camera_tile (view_index cam)" using point_to_world_tile [OF p] by simp
  ultimately show ?thesis
    using ne f same by (simp add: pixel_gives_def too_low_or_high_def isPointInRadius_def Let_def)
qed

lemma subseq_set_subset: "subseq xs ys \<Longrightarrow> set xs \<subseteq> set ys"
  by (auto elim: list_emb_set)

lemma subseq_sorted_wrt_less: "subseq xs ys \<Longrightarrow> sorted_wrt (<) ys \<Longrightarrow> sorted_wrt (<) xs"
  for xs ys :: "nat list"
  by (induction rule: list_emb.induct) (auto dest: list_emb_set)

lemma generate_loop_spec:
  "generate_loop cam depths uvs colors is acc = Inr cloud \<Longrightarrow>
    \<exists>js new. cloud = acc @ new \<and> subseq js is \<and>
      list_all2 (\<lambda>j p. j < length uvs \<and> pixel_point cam (depths ! j) (uvs ! j) (colors ! j) = Inr (Some p)) js new \<and>
      (\<forall>j \<in> set is. j \<in> set js \<or> pixel_point cam (depths ! j) (uvs ! j) (colors ! j) = Inr None)"
proof (induction "is" arbitrary: acc)
  case (Cons i "is")
  have i: "i < length uvs" using Cons.prems by (simp split: if_splits)
  consider (none) "pixel_point cam (depths ! i) (uvs ! i) (colors ! i) = Inr None"
      "generate_loop cam depths uvs colors is acc = Inr cloud"
    | (point) pt where "pixel_point cam (depths ! i) (uvs ! i) (colors ! i) = Inr (Some pt)"
      "generate_loop cam depths uvs colors is (acc @ [pt]) = Inr cloud"
    using Cons.prems by (auto split: if_splits sum.splits option.splits)
  then show ?case
  proof cases
    case none
    with Cons.IH [OF none(2)] show ?thesis by (auto intro: subseq_Cons')
  next
    case point
    from Cons.IH [OF point(2)] obtain js new where "cloud = (acc @ [pt]) @ new" "subseq js is"
      "list_all2 (\<lambda>j p. j < length uvs \<and> pixel_point cam (depths ! j) (uvs ! j) (colors ! j) = Inr (Some p)) js new"
      "\<forall>j \<in> set is. j \<in> set js \<or> pixel_point cam (depths ! j) (uvs ! j) (colors ! j) = Inr None" by blast
    with point(1) i show ?thesis by (intro exI [of _ "i # js"] exI [of _ "pt # new"]) simp
  qed
qed simp

lemma generate_spec:
  assumes "generate_point_cloud_common cam depth color = Inr cloud" and "view_uv cam = Some (dim, uvs)"
  obtains js where "subseq js [0..<di_width depth * di_height depth]"
    and "list_all2 (\<lambda>j p. j < length uvs \<and>
      pixel_point cam (di_data depth ! j) (uvs ! j) (ci_data color ! j) = Inr (Some p)) js cloud"
    and "\<forall>j < di_width depth * di_height depth. j \<in> set js \<or>
      pixel_point cam (di_data depth ! j) (uvs ! j) (ci_data color ! j) = Inr None"
  using assms generate_loop_spec [of cam "di_data depth" uvs "ci_data color" "[0..<di_width depth * di_height depth]" "[]" cloud]
  by (auto simp: generate_point_cloud_common_def)


text \<open>
  C25. \<open>map2d3d\<close> and the cloud agree: asked for a pixel of the depth image with its depth, it returns
  the position of the point the cloud has for that pixel. Every point of a cloud is found this way.
\<close>

theorem map2d3d_finds_every_point:
  assumes "generate_point_cloud_common cam depth color = Inr cloud"
    and "view_uv cam = Some ((di_width depth, di_height depth), uvs)" and "p \<in> set cloud"
  shows "\<exists>x y. x < di_width depth \<and> y < di_height depth \<and>
    camera_map2d3d cam (int x) (int y) (uint (di_data depth ! (y * di_width depth + x))) =
      Inr (Some (pcl_x p, pcl_y p, pcl_z p))"
proof -
  obtain js where js: "subseq js [0..<di_width depth * di_height depth]"
    "list_all2 (\<lambda>j p. j < length uvs \<and>
      pixel_point cam (di_data depth ! j) (uvs ! j) (ci_data color ! j) = Inr (Some p)) js cloud"
    by (rule generate_spec [OF assms(1,2)])
  obtain k where k: "k < length cloud" "p = cloud ! k" using assms(3) by (auto simp: in_set_conv_nth)
  let ?j = "js ! k" and ?w = "di_width depth"
  have len: "length js = length cloud" using js(2) by (rule list_all2_lengthD)
  have j: "?j < length uvs" "pixel_gives cam (di_data depth ! ?j) (uvs ! ?j) p"
    using list_all2_nthD2 [OF js(2) k(1)] k(2) by (auto dest: pixel_point_gives)
  have "?j < ?w * di_height depth"
    using subseq_set_subset [OF js(1)] k(1) len by (auto simp: subset_iff)
  then have xy: "?j mod ?w < ?w" "?j div ?w < di_height depth" "?j div ?w * ?w + ?j mod ?w = ?j"
    by (auto simp: less_mult_imp_div_less mult.commute intro!: mod_less_divisor gr0I)
  have "camera_map2d3d cam (int (?j mod ?w)) (int (?j div ?w)) (uint (di_data depth ! ?j)) =
      Inr (Some (pcl_x p, pcl_y p, pcl_z p))"
    using assms(2) xy j
    by (cases "point_to_world cam (ray_point (uvs ! ?j) (uint (di_data depth ! ?j)) blank_point)")
      (auto simp: camera_map2d3d_def Let_def pixel_gives_def)
  with xy show ?thesis by (intro exI [of _ "?j mod ?w"] exI [of _ "?j div ?w"]) simp
qed

section \<open>A camera looking at four pixels\<close>

definition sample_view :: k4a_view where
  "sample_view =
     \<lparr>view_index = 1, view_trafo = Some identity_trafo, view_rotation = [], view_translation = [],
      view_uv = Some ((2, 2), replicate 4 (0x3F800000, 0x3F800000)),
      view_processing = new_k4a_processing, view_filtering = new_k4a_filtering\<rparr>"

definition sample_depth :: depth_image where
  "sample_depth = \<lparr>di_width = 2, di_height = 2, di_data = [0, 1000, 7000, 2000]\<rparr>"

definition sample_color :: color_image where
  "sample_color = \<lparr>ci_format = Color_BGRA32, ci_width = 2, ci_height = 2,
     ci_data = replicate 4 (10, 20, 30, 0), ci_jpeg = []\<rparr>"

definition plain_sdk :: k4a_images where
  "plain_sdk = \<lparr>k4l_color_to_depth = (\<lambda>_ c. Some c), k4l_depth_to_color = (\<lambda>d _. Some d),
     k4l_depth_size = (2, 2), k4l_color_size = (2, 2), k4l_table = True, k4l_ray = (\<lambda>_ _. Some (0x3F800000, 0x3F800000)),
     k4l_jpeg = (\<lambda>_. None), cv_erode = (\<lambda>_ _ msk. Some msk)\<rparr>"

lemma plain_sdk_ok: "erode_ok plain_sdk"
  by (simp add: erode_ok_def plain_sdk_def)

theorem depth_filter_keeps_range_witness:
  "\<exists>im near far. apply_filters_to_depth_image plain_sdk sample_view sample_depth = Inr im \<and>
     di_data im = [0, 1000, 0, 2000] \<and> depth_range new_k4a_filtering = Inr (near, far) \<and> near \<le> 1000 \<and> 2000 \<le> far"
proof -
  have a: "apply_filters_to_depth_image plain_sdk sample_view sample_depth =
      Inr (sample_depth\<lparr>di_data := [0, 1000, 0, 2000]\<rparr>)"
    by code_simp
  have "do_threshold (view_filtering sample_view)" "view_filtering sample_view = new_k4a_filtering"
    by (simp_all add: sample_view_def new_k4a_filtering_def)
  with depth_filter_keeps_range [OF plain_sdk_ok _ a] obtain near far where
      "depth_range new_k4a_filtering = Inr (near, far)"
    and r: "\<forall>i < Suc (Suc (Suc (Suc 0))). [0, 1000, 0, 2000 :: u16] ! i = 0 \<or> near \<le> uint ([0, 1000, 7000, 2000 :: u16] ! i) \<and>
       uint ([0, 1000, 7000, 2000 :: u16] ! i) \<le> far"
    by (auto simp: sample_depth_def)
  moreover have "near \<le> 1000" "2000 \<le> far"
    using r [THEN spec, of 1] r [THEN spec, of 3] by (simp_all add: numeral_3_eq_3)
  ultimately show ?thesis using a by (auto simp: sample_depth_def)
qed

lemma sample_cloud:
  obtains cloud where "generate_point_cloud_common sample_view sample_depth sample_color = Inr cloud"
    and "length cloud = 3"
proof -
  have "\<exists>pt. pixel_point sample_view d (0x3F800000, 0x3F800000) c = Inr (Some pt)" if "d \<noteq> 0" for d c
    using that by (simp add: pixel_point_def sample_view_def new_k4a_processing_def point_to_world_def
        transform_point_cam_to_world_def too_low_or_high_def f32_isnan_def f32_mag_def f64_lt_def f32_lt_def
        new_k4a_filtering_def Let_def)
  then obtain f where f: "\<And>d c. d \<noteq> 0 \<Longrightarrow> pixel_point sample_view d (0x3F800000, 0x3F800000) c = Inr (Some (f d c))"
    by metis
  have fs: "pixel_point sample_view 1000 (0x3F800000, 0x3F800000) c = Inr (Some (f 1000 c))"
    "pixel_point sample_view 7000 (0x3F800000, 0x3F800000) c = Inr (Some (f 7000 c))"
    "pixel_point sample_view 2000 (0x3F800000, 0x3F800000) c = Inr (Some (f 2000 c))" for c
    by (rule f, simp)+
  have none: "pixel_point sample_view 0 uv c = Inr None" for uv c by (simp add: pixel_point_def)
  have "generate_point_cloud_common sample_view sample_depth sample_color =
      generate_loop sample_view [0, 1000, 7000, 2000] (replicate 4 (0x3F800000, 0x3F800000))
        (replicate 4 (10, 20, 30, 0)) [0, 1, 2, 3] []"
    by (simp add: generate_point_cloud_common_def sample_view_def sample_depth_def sample_color_def upt_rec
        numeral_eq_Suc)
  then have "\<exists>cloud. generate_point_cloud_common sample_view sample_depth sample_color = Inr cloud \<and> length cloud = 3"
    using fs by (simp add: none numeral_eq_Suc)
  with that show ?thesis by blast
qed

lemma sample_view_uv:
  "view_uv sample_view = Some ((di_width sample_depth, di_height sample_depth), replicate 4 (0x3F800000, 0x3F800000))"
  by (simp add: sample_view_def sample_depth_def)

lemma sample_tile: "camera_tile (view_index sample_view) = 2"
  by (simp add: camera_tile_def sample_view_def)


theorem map2d3d_finds_every_point_witness:
  "\<exists>cloud x y. generate_point_cloud_common sample_view sample_depth sample_color = Inr cloud \<and>
     camera_map2d3d sample_view (int x) (int y) (uint (di_data sample_depth ! (y * 2 + x))) =
       Inr (Some (pcl_x (cloud ! 0), pcl_y (cloud ! 0), pcl_z (cloud ! 0)))"
proof -
  obtain cloud where c: "generate_point_cloud_common sample_view sample_depth sample_color = Inr cloud"
    "length cloud = 3" by (rule sample_cloud)
  then have "cloud ! 0 \<in> set cloud" by simp
  from map2d3d_finds_every_point [OF c(1) sample_view_uv this] c(1) show ?thesis
    by (auto simp: sample_depth_def)
qed

end
