(* ===== verification/KinectDevice.thy ===== *)
theory KinectDevice
  imports KinectImages
begin

text \<open>
  \<open>cwipc_kinect/src/K4ACamera.cpp\<close>, first part: the device configuration of a camera, setting its
  hardware parameters and reading them back. The device is a parameter: which settings it accepts,
  and what it answers when it is asked for one.
\<close>

section \<open>The device configuration\<close>

datatype color_resolution = Color_off | Color_720p | Color_1080p | Color_1440p | Color_1536p | Color_2160p | Color_3072p

datatype depth_mode = Depth_off | Nfov_2x2binned | Nfov_unbinned | Wfov_2x2binned | Wfov_unbinned

datatype camera_rate = Fps_5 | Fps_15 | Fps_30

datatype wired_sync = Standalone | Master | Subordinate

record device_config =
  dc_mjpeg :: bool
  dc_color_resolution :: color_resolution
  dc_depth_mode :: depth_mode
  dc_camera_fps :: camera_rate
  dc_synchronized_images_only :: bool
  dc_wired_sync_mode :: wired_sync
  dc_subordinate_delay :: u32

text \<open>\<open>K4A_DEVICE_CONFIG_INIT_DISABLE_ALL\<close> of the SDK.\<close>

definition device_config_disable_all :: device_config where
  "device_config_disable_all =
     \<lparr>dc_mjpeg = True, dc_color_resolution = Color_off, dc_depth_mode = Depth_off, dc_camera_fps = Fps_30,
      dc_synchronized_images_only = False, dc_wired_sync_mode = Standalone, dc_subordinate_delay = 0\<rparr>"

definition color_resolution_of :: "u32 \<Rightarrow> color_resolution option" where
  "color_resolution_of h =
     (if h = 720 then Some Color_720p else if h = 1080 then Some Color_1080p else if h = 1440 then Some Color_1440p
      else if h = 1536 then Some Color_1536p else if h = 2160 then Some Color_2160p
      else if h = 3072 then Some Color_3072p else None)"

definition depth_mode_of :: "u32 \<Rightarrow> depth_mode option" where
  "depth_mode_of h =
     (if h = 288 then Some Nfov_2x2binned else if h = 576 then Some Nfov_unbinned
      else if h = 512 then Some Wfov_2x2binned else if h = 1024 then Some Wfov_unbinned else None)"

definition camera_rate_of :: "u32 \<Rightarrow> camera_rate option" where
  "camera_rate_of n = (if n = 5 then Some Fps_5 else if n = 15 then Some Fps_15 else if n = 30 then Some Fps_30 else None)"

text \<open>The configuration, or the message of the first invalid setting.\<close>

definition init_config_for_this_camera :: "k4a_hardware \<Rightarrow> bool \<Rightarrow> bool \<Rightarrow> nat \<Rightarrow> string + device_config" where
  "init_config_for_this_camera hw ismaster inuse index =
     (case color_resolution_of (color_height hw) of
        None \<Rightarrow> Inl (''invalid color_height: '' @ to_string (sint (color_height hw)))
      | Some color \<Rightarrow>
     (case depth_mode_of (depth_height hw) of
        None \<Rightarrow> Inl (''invalid depth_height: '' @ to_string (sint (depth_height hw)))
      | Some depth \<Rightarrow>
     (case camera_rate_of (hw_fps hw) of
        None \<Rightarrow> Inl (''invalid camera_fps: '' @ to_string (sint (hw_fps hw)))
      | Some fps \<Rightarrow>
          let c = device_config_disable_all\<lparr>dc_mjpeg := color_mjpeg hw, dc_color_resolution := color,
                    dc_depth_mode := depth, dc_camera_fps := fps, dc_synchronized_images_only := True\<rparr>
          in Inr (if ismaster then c\<lparr>dc_wired_sync_mode := Master\<rparr>
                  else if inuse then c\<lparr>dc_wired_sync_mode := Subordinate,
                                      dc_subordinate_delay := word_of_nat (160 * (index + 1))\<rparr>
                  else c))))"

section \<open>Hardware parameters\<close>

datatype color_control =
    Exposure_time | Whitebalance | Backlight_compensation | Brightness | Contrast | Saturation | Sharpness
  | Gain | Powerline_frequency

text \<open>A setting: the control, whether it is left to the camera, and the value.\<close>

type_synonym setting = "color_control \<times> bool \<times> u32"

text \<open>
  One parameter: whether the code asks the device at all, what it sets, and whether a refusal ends the
  initialisation.
\<close>

definition auto_setting :: "color_control \<Rightarrow> u32 \<Rightarrow> bool \<times> setting \<times> bool" where
  "auto_setting c v = (if 0 \<le> sint v then (True, (c, False, v), True) else (True, (c, True, 0), False))"

definition manual_setting :: "color_control \<Rightarrow> u32 \<Rightarrow> bool \<times> setting \<times> bool" where
  "manual_setting c v = (0 \<le> sint v, (c, False, v), True)"

definition settings_of :: "k4a_hardware \<Rightarrow> (bool \<times> setting \<times> bool) list" where
  "settings_of hw =
     [auto_setting Exposure_time (color_exposure_time hw),
      auto_setting Whitebalance (color_whitebalance hw),
      manual_setting Backlight_compensation (color_backlight_compensation hw),
      manual_setting Brightness (color_brightness hw),
      manual_setting Contrast (color_contrast hw),
      manual_setting Saturation (color_saturation hw),
      manual_setting Sharpness (color_sharpness hw),
      manual_setting Gain (color_gain hw),
      manual_setting Powerline_frequency (color_powerline_frequency hw)]"

text \<open>The result and the settings made; \<open>accepts\<close> is the device.\<close>

fun make_settings :: "(setting \<Rightarrow> bool) \<Rightarrow> (bool \<times> setting \<times> bool) list \<Rightarrow> bool \<times> setting list" where
  "make_settings accepts [] = (True, [])"
| "make_settings accepts ((wanted, s, needed) # ss) =
     (if \<not> wanted then make_settings accepts ss
      else if accepts s then map_prod id ((#) s) (make_settings accepts ss)
      else if needed then (False, [])
      else make_settings accepts ss)"

definition init_hardware_for_this_camera :: "(setting \<Rightarrow> bool) \<Rightarrow> k4a_hardware \<Rightarrow> bool \<times> setting list" where
  "init_hardware_for_this_camera accepts hw = make_settings accepts (settings_of hw)"

text \<open>What the device answers: whether the control is automatic, and its value.\<close>

type_synonym answers = "color_control \<Rightarrow> (bool \<times> u32) option"

definition read_exposure :: "answers \<Rightarrow> k4a_hardware \<Rightarrow> k4a_hardware \<Rightarrow> k4a_hardware" where
  "read_exposure get hw out =
     (case get Exposure_time of
        Some (auto, v) \<Rightarrow> out\<lparr>color_exposure_time := (if auto then - v else v)\<rparr>
      | None \<Rightarrow> out\<lparr>color_exposure_time := color_exposure_time hw\<rparr>)"

text \<open>When the white balance cannot be read, the code sets the exposure time instead.\<close>

definition read_whitebalance :: "answers \<Rightarrow> k4a_hardware \<Rightarrow> k4a_hardware \<Rightarrow> k4a_hardware" where
  "read_whitebalance get hw out =
     (case get Whitebalance of
        Some (auto, v) \<Rightarrow> out\<lparr>color_whitebalance := (if auto then - v else v)\<rparr>
      | None \<Rightarrow> out\<lparr>color_exposure_time := color_exposure_time hw\<rparr>)"

definition read_value :: "answers \<Rightarrow> color_control \<Rightarrow> u32 \<Rightarrow> u32" where
  "read_value get c v = (case get c of Some (_, v') \<Rightarrow> v' | None \<Rightarrow> v)"

definition get_camera_hardware_parameters :: "answers \<Rightarrow> k4a_hardware \<Rightarrow> k4a_hardware \<Rightarrow> k4a_hardware" where
  "get_camera_hardware_parameters get hw out =
     (let out1 = out\<lparr>color_height := color_height hw, depth_height := depth_height hw, hw_fps := hw_fps hw\<rparr>;
          out2 = read_exposure get hw (read_whitebalance get hw (read_exposure get hw out1))
      in out2\<lparr>color_backlight_compensation := read_value get Backlight_compensation (color_backlight_compensation hw),
              color_brightness := read_value get Brightness (color_brightness hw),
              color_contrast := read_value get Contrast (color_contrast hw),
              color_saturation := read_value get Saturation (color_saturation hw),
              color_sharpness := read_value get Sharpness (color_sharpness hw),
              color_gain := read_value get Gain (color_gain hw),
              color_powerline_frequency := read_value get Powerline_frequency (color_powerline_frequency hw)\<rparr>)"

section \<open>Reading back what was set\<close>

lemma make_settings_made:
  "make_settings accepts ss = (True, made) \<Longrightarrow> (True, s, True) \<in> set ss \<Longrightarrow> s \<in> set made"
proof (induction ss arbitrary: made)
  case (Cons p ss)
  obtain wanted s' needed where p: "p = (wanted, s', needed)" by (cases p)
  obtain ok rest where r: "make_settings accepts ss = (ok, rest)" by (cases "make_settings accepts ss")
  show ?case using Cons p r by (auto split: if_splits)
qed simp

text \<open>A camera set by hand: no parameter is left to the camera or to the device.\<close>

definition all_manual :: "k4a_hardware \<Rightarrow> bool" where
  "all_manual hw \<longleftrightarrow>
     (\<forall>v \<in> {color_exposure_time hw, color_whitebalance hw, color_backlight_compensation hw, color_brightness hw,
        color_contrast hw, color_saturation hw, color_sharpness hw, color_gain hw, color_powerline_frequency hw}.
        0 \<le> sint v)"

text \<open>
  A camera whose parameters are all set by hand reports them back: when the initialisation succeeds,
  and the device answers with what it was set to, the parameters read from it match the configured
  ones in every field that is compared, whatever the output structure held before.
\<close>

theorem hardware_read_back:
  assumes "init_hardware_for_this_camera accepts hw = (True, made)" and "all_manual hw"
    and "\<forall>(c, auto, v) \<in> set made. get c = Some (auto, v)"
  shows "match_camera_hardware_parameters hw (get_camera_hardware_parameters get hw out)"
proof -
  have g: "get c = Some (auto, v)" if "(True, (c, auto, v), True) \<in> set (settings_of hw)" for c auto v
    using make_settings_made [OF assms(1) [unfolded init_hardware_for_this_camera_def] that] assms(3) by auto
  have m: "0 \<le> sint (color_exposure_time hw)" "0 \<le> sint (color_whitebalance hw)"
    "0 \<le> sint (color_backlight_compensation hw)" "0 \<le> sint (color_brightness hw)" "0 \<le> sint (color_contrast hw)"
    "0 \<le> sint (color_saturation hw)" "0 \<le> sint (color_sharpness hw)" "0 \<le> sint (color_gain hw)"
    "0 \<le> sint (color_powerline_frequency hw)"
    using assms(2) by (simp_all add: all_manual_def)
  have "get Exposure_time = Some (False, color_exposure_time hw)" "get Whitebalance = Some (False, color_whitebalance hw)"
    "get Backlight_compensation = Some (False, color_backlight_compensation hw)"
    "get Brightness = Some (False, color_brightness hw)" "get Contrast = Some (False, color_contrast hw)"
    "get Saturation = Some (False, color_saturation hw)" "get Sharpness = Some (False, color_sharpness hw)"
    "get Gain = Some (False, color_gain hw)"
    "get Powerline_frequency = Some (False, color_powerline_frequency hw)"
    by (rule g, use m in \<open>simp add: settings_of_def auto_setting_def manual_setting_def\<close>)+
  then show ?thesis
    by (simp add: match_camera_hardware_parameters_def get_camera_hardware_parameters_def read_exposure_def
        read_whitebalance_def read_value_def Let_def)
qed

text \<open>
  A camera in automatic mode answers with the negated value it uses at the moment, the configuration
  holds any negative number: they match only by chance.
\<close>

lemma automatic_exposure_differs:
  "get Exposure_time = Some (True, v) \<Longrightarrow> - v \<noteq> color_exposure_time hw \<Longrightarrow>
    \<not> match_camera_hardware_parameters hw (get_camera_hardware_parameters get hw out)"
  by (simp add: match_camera_hardware_parameters_def get_camera_hardware_parameters_def read_exposure_def Let_def)

lemma unreadable_whitebalance:
  "get Whitebalance = None \<Longrightarrow>
    color_whitebalance (get_camera_hardware_parameters get hw out) = color_whitebalance out"
  by (simp add: get_camera_hardware_parameters_def read_exposure_def read_whitebalance_def Let_def
      split: option.split prod.split)

text \<open>The JPEG setting is not read back at all; \<open>config_get\<close> stores its default over the configured one.\<close>

lemma mjpeg_not_read: "color_mjpeg (get_camera_hardware_parameters get hw out) = color_mjpeg out"
  by (simp add: get_camera_hardware_parameters_def read_exposure_def read_whitebalance_def Let_def
      split: option.split prod.split)

text \<open>
  The cameras of one synchronised set start at different times: the delays of two subordinates differ by
  at least 160 microseconds, for any number of cameras whose delay fits in 32 bits.
\<close>

lemma subordinate_delay:
  assumes "init_config_for_this_camera hw False True i = Inr c" and "160 * (i + 1) < 2 ^ 32"
  shows "unat (dc_subordinate_delay c) = 160 * (i + 1)"
proof -
  have "dc_subordinate_delay c = word_of_nat (160 * (i + 1))"
    using assms(1) by (auto simp: init_config_for_this_camera_def Let_def split: option.splits)
  then show ?thesis
    using assms(2) by (simp only: unat_of_nat) (simp add: take_bit_nat_eq_self)
qed

lemma subordinate_delays_apart:
  assumes "init_config_for_this_camera hw False True i = Inr c" and "init_config_for_this_camera hw' False True j = Inr d"
    and "i < j" and "160 * (j + 1) < 2 ^ 32"
  shows "unat (dc_subordinate_delay c) + 160 \<le> unat (dc_subordinate_delay d)"
  using subordinate_delay [OF assms(1)] subordinate_delay [OF assms(2)] assms(3,4) by simp

theorem hardware_read_back_witness:
  "match_camera_hardware_parameters (new_k4a_hardware\<lparr>color_exposure_time := 500, color_whitebalance := 2500\<rparr>)
     (get_camera_hardware_parameters
        (\<lambda>c. map_of (snd (init_hardware_for_this_camera (\<lambda>_. True)
           (new_k4a_hardware\<lparr>color_exposure_time := 500, color_whitebalance := 2500\<rparr>))) c)
        (new_k4a_hardware\<lparr>color_exposure_time := 500, color_whitebalance := 2500\<rparr>) new_k4a_hardware)"
proof (rule hardware_read_back)
  show "init_hardware_for_this_camera (\<lambda>_. True) (new_k4a_hardware\<lparr>color_exposure_time := 500, color_whitebalance := 2500\<rparr>)
      = (True, snd (init_hardware_for_this_camera (\<lambda>_. True)
          (new_k4a_hardware\<lparr>color_exposure_time := 500, color_whitebalance := 2500\<rparr>)))"
    by code_simp
  show "all_manual (new_k4a_hardware\<lparr>color_exposure_time := 500, color_whitebalance := 2500\<rparr>)" by code_simp
qed code_simp

end
