(* ===== verification/KinectCamera.thy ===== *)
theory KinectCamera
  imports KinectDevice Encoder
begin

text \<open>
  One running Kinect camera (\<open>K4ABaseCamera.hpp\<close>, \<open>K4ACamera.cpp\<close>): starting and stopping, the
  thread that grabs captures, the thread that makes point clouds of them, and the calls the capturer's
  control thread makes in between. The SDK's capture objects are handles that have to be released;
  which ones exist is part of the state, and a released handle that is used is a fault. A capture
  carries its two images, since the device is configured to deliver only complete ones. The messages
  of debug mode are left out.
\<close>

section \<open>State\<close>

record frameset =
  fs_handle :: nat
  fs_depth :: depth_image
  fs_color :: color_image

text \<open>Where the two threads are: between the test of the loop, the calls that wait, and the work.\<close>

datatype capture_at = Cap_test | Cap_create | Cap_grab nat | Cap_enqueue frameset | Cap_done
datatype process_at = Proc_test | Proc_wait | Proc_frame frameset | Proc_done

text \<open>
  Where the control thread of the capturer is in this camera: in \<open>wait_for_captured_frameset\<close>, or
  between \<open>process_pointcloud_from_frameset\<close> and the end of \<open>wait_for_pointcloud_processed\<close>.
\<close>

datatype control_pc = Ctl_idle | Ctl_capture u64 | Ctl_submitted "frameset option"

text \<open>
  \<open>kc_running\<close> is the device: streaming since \<open>k4a_device_start_cameras\<close>. \<open>kc_live\<close> holds the
  capture handles that exist, \<open>kc_next\<close> is the next one the SDK gives out. \<open>kc_recorder\<close> is the file
  of a recording.
\<close>

record k4a_camera = k4a_view +
  kc_hardware :: k4a_hardware
  kc_serial :: string
  kc_ismaster :: bool
  kc_inuse :: bool
  kc_record_to_file :: string
  kc_handle :: bool
  kc_running :: bool
  kc_transformation :: bool
  kc_recorder :: "nat list option"
  kc_stopped :: bool
  kc_started :: bool
  kc_capturer :: "capture_at option"
  kc_processor :: "process_at option"
  kc_captured_queue :: "frameset option list"
  kc_processing_queue :: "frameset option list"
  kc_current_frameset :: "frameset option"
  kc_current_cloud :: "pcl_point list option"
  kc_processing_done :: bool
  kc_waiting :: bool
  kc_eof :: bool
  kc_control :: control_pc
  kc_live :: "nat set"
  kc_next :: nat
  kc_log :: "string list"

text \<open>The constructor; the parts of the configuration it keeps references to are arguments.\<close>

definition new_k4a_camera ::
  "nat \<Rightarrow> string \<Rightarrow> string \<Rightarrow> string \<Rightarrow> k4a_hardware \<Rightarrow> k4a_processing \<Rightarrow> k4a_filtering \<Rightarrow> f64 list list option
   \<Rightarrow> k4a_camera" where
  "new_k4a_camera index serial master record_dir hw pr fl trafo =
     \<lparr>view_index = index, view_trafo = trafo, view_rotation = [], view_translation = [], view_uv = None,
      view_processing = pr, view_filtering = fl, kc_hardware = hw, kc_serial = serial,
      kc_ismaster = (serial = master), kc_inuse = (master \<noteq> []),
      kc_record_to_file = (if record_dir \<noteq> [] then record_dir @ ''/'' @ serial @ ''.mkv'' else []),
      kc_handle = True, kc_running = False, kc_transformation = False, kc_recorder = None, kc_stopped = True,
      kc_started = False, kc_capturer = None, kc_processor = None, kc_captured_queue = [],
      kc_processing_queue = [], kc_current_frameset = None, kc_current_cloud = None, kc_processing_done = False,
      kc_waiting = False, kc_eof = False, kc_control = Ctl_idle, kc_live = {}, kc_next = 0, kc_log = []\<rparr>"

definition kc_say :: "string \<Rightarrow> k4a_camera \<Rightarrow> k4a_camera" where
  "kc_say t cam = cam\<lparr>kc_log := kc_log cam @ [t]\<rparr>"

definition kc_say_if :: "bool \<Rightarrow> string \<Rightarrow> k4a_camera \<Rightarrow> k4a_camera" where
  "kc_say_if b t cam = (if b then kc_say t cam else cam)"

section \<open>Capture handles\<close>

definition capture_create :: "k4a_camera \<Rightarrow> nat \<times> k4a_camera" where
  "capture_create cam = (kc_next cam, cam\<lparr>kc_live := insert (kc_next cam) (kc_live cam), kc_next := kc_next cam + 1\<rparr>)"

definition capture_release :: "nat \<Rightarrow> k4a_camera \<Rightarrow> fault + k4a_camera" where
  "capture_release h cam =
     (if h \<in> kc_live cam then Inr (cam\<lparr>kc_live := kc_live cam - {h}\<rparr>) else Inl Use_after_free)"

text \<open>\<open>if (frameset) k4a_capture_release (frameset)\<close>.\<close>

definition release_frameset :: "frameset option \<Rightarrow> k4a_camera \<Rightarrow> fault + k4a_camera" where
  "release_frameset fs cam = (case fs of None \<Rightarrow> Inr cam | Some f \<Rightarrow> capture_release (fs_handle f) cam)"

section \<open>Starting\<close>

text \<open>What the SDK answers while a camera is started.\<close>

record start_answers =
  sa_sdk :: k4a_images
  sa_extrinsics :: "(f32 list \<times> f32 list) option"
  sa_start_ok :: bool
  sa_record_ok :: bool
  sa_header_ok :: bool

definition pre_start_all_cameras :: "(setting \<Rightarrow> bool) \<Rightarrow> bool \<Rightarrow> bool \<Rightarrow> k4a_camera \<Rightarrow> bool" where
  "pre_start_all_cameras accepts want_skeleton tracker_ok cam \<longleftrightarrow>
     fst (init_hardware_for_this_camera accepts (kc_hardware cam)) \<and> (want_skeleton \<longrightarrow> tracker_ok)"

definition start_recorder :: "start_answers \<Rightarrow> k4a_camera \<Rightarrow> bool \<times> k4a_camera" where
  "start_recorder sa cam =
     (if kc_record_to_file cam = [] then (True, cam)
      else
        let cam1 = kc_say (''starting recording to '' @ kc_record_to_file cam) cam in
        if \<not> sa_record_ok sa then (False, kc_say (''k4a_record_create failed for file '' @ kc_record_to_file cam) cam1)
        else if \<not> sa_header_ok sa
        then (False, kc_say (''k4a_record_write_header failed for file '' @ kc_record_to_file cam) cam1)
        else (True, cam1\<lparr>kc_recorder := Some []\<rparr>))"

text \<open>\<open>start_camera\<close>. The device streams as soon as it is started, whatever becomes of the recording.\<close>

definition start_camera :: "start_answers \<Rightarrow> k4a_camera \<Rightarrow> bool \<times> k4a_camera" where
  "start_camera sa cam =
     (case init_config_for_this_camera (kc_hardware cam) (kc_ismaster cam) (kc_inuse cam) (view_index cam) of
        Inl t \<Rightarrow> (False, kc_say t cam)
      | Inr device_config \<Rightarrow>
     (case sa_extrinsics sa of
        None \<Rightarrow> (False, kc_say ''k4a_device_get_calibration failed'' cam)
      | Some (rotation, translation) \<Rightarrow>
          let cam1 = cam\<lparr>view_rotation := rotation, view_translation := translation, kc_transformation := True\<rparr>;
              cam2 = (if view_uv cam1 = None then create_depth_uv_mapping (sa_sdk sa) cam1 else cam1)
          in if \<not> sa_start_ok sa then (False, kc_say ''k4a_device_start_cameras failed'' cam2)
             else
               let (ok, cam3) = start_recorder sa (cam2\<lparr>kc_running := True\<rparr>)
               in if ok then (True, cam3\<lparr>kc_started := True\<rparr>) else (False, cam3)))"

definition start_camera_streaming :: "k4a_camera \<Rightarrow> k4a_camera" where
  "start_camera_streaming cam =
     (if \<not> kc_started cam then cam
      else cam\<lparr>kc_stopped := False, kc_capturer := Some Cap_test, kc_processor := Some Proc_test\<rparr>)"

section \<open>The capture thread\<close>

text \<open>
  The handle that \<open>k4a_capture_create\<close> made is given to \<open>k4a_device_get_capture\<close> as its result
  parameter: a successful call stores the handle of the captured frame, or null, over it.
\<close>

datatype capture_event =
    Cap_go
  | Cap_created bool
  | Cap_got "(depth_image \<times> color_image) option option" bool
  | Cap_room bool

definition record_capture :: "bool \<Rightarrow> nat \<Rightarrow> k4a_camera \<Rightarrow> k4a_camera" where
  "record_capture ok h cam =
     (case kc_recorder cam of
        None \<Rightarrow> cam
      | Some hs \<Rightarrow> if ok then cam\<lparr>kc_recorder := Some (hs @ [h])\<rparr> else kc_say ''k4a_record_write_capture failed'' cam)"

definition at_capturer :: "capture_at \<Rightarrow> k4a_camera \<Rightarrow> k4a_camera" where
  "at_capturer pc cam = cam\<lparr>kc_capturer := Some pc\<rparr>"

definition deposit_capture :: "bool \<Rightarrow> frameset \<Rightarrow> k4a_camera \<Rightarrow> fault + k4a_camera" where
  "deposit_capture room f cam =
     (let (ok, q) = try_enqueue room (Some f) (kc_captured_queue cam)
      in if ok then Inr (cam\<lparr>kc_captured_queue := q\<rparr>) else capture_release (fs_handle f) cam)"

fun grab_capture :: "(depth_image \<times> color_image) option option \<Rightarrow> bool \<Rightarrow> nat \<Rightarrow> k4a_camera \<Rightarrow> fault + k4a_camera" where
  "grab_capture None _ h cam =
     map_sum id (at_capturer Cap_test) (capture_release h (kc_say ''k4a_device_get_capture failed'' cam))"
| "grab_capture (Some None) _ h cam =
     Inr (if kc_stopped cam then at_capturer Cap_done cam
          else at_capturer Cap_test (kc_say ''k4a_device_get_capture return success, but capture is NULL'' cam))"
| "grab_capture (Some (Some (depth, color))) written h cam =
     (let (h', cam1) = capture_create cam
      in Inr (at_capturer (Cap_enqueue \<lparr>fs_handle = h', fs_depth = depth, fs_color = color\<rparr>)
                (record_capture written h' cam1)))"

definition capture_thread_step :: "capture_event \<Rightarrow> k4a_camera \<Rightarrow> (fault + k4a_camera) option" where
  "capture_thread_step ev cam =
     (case kc_capturer cam of
        None \<Rightarrow> None
      | Some at \<Rightarrow>
          (case (at, ev) of
             (Cap_test, Cap_go) \<Rightarrow> Some (Inr (at_capturer (if kc_stopped cam then Cap_done else Cap_create) cam))
           | (Cap_create, Cap_created ok) \<Rightarrow>
               Some (Inr (if ok
                          then (let (h, cam1) = capture_create cam
                                in at_capturer (Cap_grab h) (cam1\<lparr>kc_waiting := True\<rparr>))
                          else at_capturer Cap_done (kc_say ''k4a_capture_create failed'' cam)))
           | (Cap_grab h, Cap_got result written) \<Rightarrow> Some (grab_capture result written h cam)
           | (Cap_enqueue f, Cap_room room) \<Rightarrow>
               Some (map_sum id (at_capturer Cap_test) (deposit_capture room f cam))
           | _ \<Rightarrow> None))"

section \<open>The control thread\<close>

text \<open>
  One turn of the loop of \<open>wait_for_captured_frameset\<close>: what it returns, if it does. \<open>now\<close> is the
  system clock. A frameset that is too early is dropped, its handle is not released.
\<close>

definition captured_turn :: "u64 \<Rightarrow> u64 \<Rightarrow> k4a_camera \<Rightarrow> fault + u64 option \<times> k4a_camera" where
  "captured_turn minimum_timestamp now cam =
     (if kc_stopped cam then Inr (Some 0, cam)
      else case kc_captured_queue cam of
        [] \<Rightarrow> Inr (Some 0, kc_say ''No frameset captured in 5 seconds'' cam)
      | new_frameset # q \<Rightarrow>
          let cam1 = kc_say_if (new_frameset = None) ''wait_for_captured_frameset: got nullptr''
                       (cam\<lparr>kc_captured_queue := q\<rparr>)
          in if now < minimum_timestamp
             then Inr (None, kc_say (''Frameset skipped, ts='' @ to_string (uint now) @ '', earlier than ''
                                     @ to_string (uint minimum_timestamp)) cam1)
             else map_sum id (\<lambda>cam2. (Some now, cam2\<lparr>kc_current_frameset := new_frameset\<rparr>))
                    (release_frameset (kc_current_frameset cam1) cam1))"

definition process_pointcloud_from_frameset :: "bool \<Rightarrow> k4a_camera \<Rightarrow> fault + k4a_camera" where
  "process_pointcloud_from_frameset room cam =
     (let (ok, q) = try_enqueue room (kc_current_frameset cam) (kc_processing_queue cam)
      in if ok then Inr (cam\<lparr>kc_processing_queue := q, kc_current_frameset := None\<rparr>)
         else map_sum id (\<lambda>cam1. cam1\<lparr>kc_current_frameset := None\<rparr>)
                (release_frameset (kc_current_frameset cam) (kc_say ''processing frame queue full, dropping frame'' cam)))"

text \<open>\<open>None\<close> while it waits.\<close>

definition wait_for_pointcloud_processed :: "k4a_camera \<Rightarrow> k4a_camera option" where
  "wait_for_pointcloud_processed cam =
     (if kc_processing_done cam then Some (cam\<lparr>kc_processing_done := False\<rparr>) else None)"

definition access_current_pcl_pointcloud :: "k4a_camera \<Rightarrow> pcl_point list option" where
  "access_current_pcl_pointcloud cam = kc_current_cloud cam"

section \<open>The processing thread\<close>

text \<open>
  The point cloud of a frameset. \<open>created\<close> and \<open>garbage\<close> are the memory for a decompressed colour
  image.
\<close>

definition frameset_cloud ::
  "k4a_images \<Rightarrow> bool \<times> bgra list \<Rightarrow> k4a_view \<Rightarrow> frameset \<Rightarrow> fault + pcl_point list option" where
  "frameset_cloud sdk mem cam f =
     (case apply_filters_to_depth_image sdk cam (fs_depth f) of
        Inl e \<Rightarrow> Inl e
      | Inr depth \<Rightarrow>
          let color = fst (uncompress_color_image sdk (fst mem) (snd mem) (fs_color f))
          in if map_color_to_depth (view_filtering cam)
             then generate_point_cloud_color_to_depth sdk cam depth color
             else generate_point_cloud_depth_to_color sdk cam depth color)"

text \<open>What the image functions see of a camera.\<close>

definition camera_view :: "k4a_camera \<Rightarrow> k4a_view" where
  "camera_view cam = k4a_view.truncate cam"

definition cloud_made :: "pcl_point list option \<Rightarrow> k4a_camera \<Rightarrow> k4a_camera" where
  "cloud_made pc cam =
     (case pc of
        None \<Rightarrow> cam
      | Some ps \<Rightarrow> kc_say_if (ps = []) ''Captured empty pointcloud from camera''
                    (cam\<lparr>kc_current_cloud := Some ps, kc_processing_done := True\<rparr>))"

definition process_frameset ::
  "k4a_images \<Rightarrow> bool \<times> bgra list \<Rightarrow> frameset \<Rightarrow> k4a_camera \<Rightarrow> fault + k4a_camera" where
  "process_frameset sdk mem f cam =
     (if fs_handle f \<notin> kc_live cam then Inl Use_after_free
      else case frameset_cloud sdk mem (camera_view cam) f of
        Inl e \<Rightarrow> Inl e
      | Inr pc \<Rightarrow>
          let said = snd (uncompress_color_image sdk (fst mem) (snd mem) (fs_color f))
          in capture_release (fs_handle f) (cloud_made pc (cam\<lparr>kc_log := kc_log cam @ said\<rparr>)))"

datatype process_event = Proc_go | Proc_dequeue | Proc_timeout | Proc_images "bool \<times> bgra list"

definition at_processor :: "process_at \<Rightarrow> k4a_camera \<Rightarrow> k4a_camera" where
  "at_processor pc cam = cam\<lparr>kc_processor := Some pc\<rparr>"

text \<open>After \<open>wait_dequeue_timed\<close>: the frameset it took, or \<open>None\<close> for a timeout.\<close>

definition dequeued :: "frameset option option \<Rightarrow> k4a_camera \<Rightarrow> k4a_camera" where
  "dequeued r cam =
     (if kc_eof cam then at_processor Proc_done cam
      else case r of
        None \<Rightarrow> at_processor Proc_test (kc_say_if (kc_waiting cam) ''processing thread dequeue timeout'' cam)
      | Some None \<Rightarrow>
          at_processor Proc_done
            (kc_say_if (\<not> kc_stopped cam) ''processing thread dequeue produced NULL pointer'' (cam\<lparr>kc_waiting := False\<rparr>))
      | Some (Some f) \<Rightarrow> at_processor (Proc_frame f) (cam\<lparr>kc_waiting := False\<rparr>))"

definition processing_thread_step :: "k4a_images \<Rightarrow> process_event \<Rightarrow> k4a_camera \<Rightarrow> (fault + k4a_camera) option" where
  "processing_thread_step sdk ev cam =
     (case kc_processor cam of
        None \<Rightarrow> None
      | Some at \<Rightarrow>
          (case (at, ev) of
             (Proc_test, Proc_go) \<Rightarrow> Some (Inr (at_processor (if kc_stopped cam then Proc_done else Proc_wait) cam))
           | (Proc_wait, Proc_dequeue) \<Rightarrow>
               (case kc_processing_queue cam of
                  [] \<Rightarrow> None
                | r # q \<Rightarrow> Some (Inr (dequeued (Some r) (cam\<lparr>kc_processing_queue := q\<rparr>))))
           | (Proc_wait, Proc_timeout) \<Rightarrow>
               if kc_processing_queue cam = [] then Some (Inr (dequeued None cam)) else None
           | (Proc_frame f, Proc_images mem) \<Rightarrow>
               Some (map_sum id (at_processor Proc_test) (process_frameset sdk mem f cam))
           | _ \<Rightarrow> None))"

section \<open>Stopping\<close>

text \<open>\<open>stop_camera\<close> up to the joins, and from there, once both threads have ended.\<close>

definition stop_camera_signal :: "bool \<Rightarrow> k4a_camera \<Rightarrow> k4a_camera" where
  "stop_camera_signal room cam =
     (if kc_stopped cam then kc_say ''Camera already stopped'' cam
      else cam\<lparr>kc_stopped := True,
               kc_processing_queue := snd (try_enqueue room None (kc_processing_queue cam))\<rparr>)"

definition threads_ended :: "k4a_camera \<Rightarrow> bool" where
  "threads_ended cam \<longleftrightarrow> kc_capturer cam \<in> {None, Some Cap_done} \<and> kc_processor cam \<in> {None, Some Proc_done}"

definition stop_camera_joined :: "bool \<Rightarrow> k4a_camera \<Rightarrow> fault + k4a_camera" where
  "stop_camera_joined flushed cam =
     (let cam1 = cam\<lparr>kc_capturer := None, kc_processor := None\<rparr>;
          cam2 = (if kc_started cam1 then cam1\<lparr>kc_running := False, kc_started := False\<rparr> else cam1);
          cam3 = (if kc_recorder cam2 \<noteq> None
                  then (kc_say_if (\<not> flushed) ''k4a_record_flush failed'' cam2)\<lparr>kc_recorder := None\<rparr> else cam2)
      in map_sum id
           (\<lambda>cam4. cam4\<lparr>kc_current_frameset := None, kc_transformation := False, kc_processing_done := True\<rparr>)
           (release_frameset (kc_current_frameset cam3) (cam3\<lparr>kc_handle := False\<rparr>)))"

end
