(* ===== verification/KinectCameraRuns.thy ===== *)
theory KinectCameraRuns
  imports KinectCamera
begin

text \<open>
  Executions of one Kinect camera: any interleaving of its two threads, the capturer's control thread
  and a stop, from the moment the camera streams. Which capture handles exist and who holds them, which
  frame the point cloud comes from, and that a stop ends the threads.
\<close>

section \<open>Messages and recordings change nothing else\<close>

lemma camera_view_simps [simp]:
  "camera_view (cam\<lparr>kc_stopped := x0\<rparr>) = camera_view cam"
  "camera_view (cam\<lparr>kc_started := x1\<rparr>) = camera_view cam"
  "camera_view (cam\<lparr>kc_capturer := x2\<rparr>) = camera_view cam"
  "camera_view (cam\<lparr>kc_processor := x3\<rparr>) = camera_view cam"
  "camera_view (cam\<lparr>kc_captured_queue := x4\<rparr>) = camera_view cam"
  "camera_view (cam\<lparr>kc_processing_queue := x5\<rparr>) = camera_view cam"
  "camera_view (cam\<lparr>kc_current_frameset := x6\<rparr>) = camera_view cam"
  "camera_view (cam\<lparr>kc_current_cloud := x7\<rparr>) = camera_view cam"
  "camera_view (cam\<lparr>kc_processing_done := x8\<rparr>) = camera_view cam"
  "camera_view (cam\<lparr>kc_waiting := x9\<rparr>) = camera_view cam"
  "camera_view (cam\<lparr>kc_eof := x10\<rparr>) = camera_view cam"
  "camera_view (cam\<lparr>kc_control := x11\<rparr>) = camera_view cam"
  "camera_view (cam\<lparr>kc_live := x12\<rparr>) = camera_view cam"
  "camera_view (cam\<lparr>kc_next := x13\<rparr>) = camera_view cam"
  "camera_view (cam\<lparr>kc_log := x14\<rparr>) = camera_view cam"
  "camera_view (cam\<lparr>kc_recorder := x15\<rparr>) = camera_view cam"
  "camera_view (cam\<lparr>kc_running := x16\<rparr>) = camera_view cam"
  by (simp_all add: camera_view_def k4a_view.defs)

lemma kc_say_fields [simp]:
  "kc_stopped (kc_say t cam) = kc_stopped cam" "kc_started (kc_say t cam) = kc_started cam"
  "kc_capturer (kc_say t cam) = kc_capturer cam" "kc_processor (kc_say t cam) = kc_processor cam"
  "kc_captured_queue (kc_say t cam) = kc_captured_queue cam" "kc_processing_queue (kc_say t cam) = kc_processing_queue cam"
  "kc_current_frameset (kc_say t cam) = kc_current_frameset cam" "kc_current_cloud (kc_say t cam) = kc_current_cloud cam"
  "kc_processing_done (kc_say t cam) = kc_processing_done cam" "kc_waiting (kc_say t cam) = kc_waiting cam"
  "kc_eof (kc_say t cam) = kc_eof cam" "kc_control (kc_say t cam) = kc_control cam"
  "kc_live (kc_say t cam) = kc_live cam" "kc_next (kc_say t cam) = kc_next cam"
  "camera_view (kc_say t cam) = camera_view cam"
  by (simp_all add: kc_say_def camera_view_simps)

lemma kc_say_if_fields [simp]:
  "kc_stopped (kc_say_if b t cam) = kc_stopped cam" "kc_started (kc_say_if b t cam) = kc_started cam"
  "kc_capturer (kc_say_if b t cam) = kc_capturer cam" "kc_processor (kc_say_if b t cam) = kc_processor cam"
  "kc_captured_queue (kc_say_if b t cam) = kc_captured_queue cam" "kc_processing_queue (kc_say_if b t cam) = kc_processing_queue cam"
  "kc_current_frameset (kc_say_if b t cam) = kc_current_frameset cam" "kc_current_cloud (kc_say_if b t cam) = kc_current_cloud cam"
  "kc_processing_done (kc_say_if b t cam) = kc_processing_done cam" "kc_waiting (kc_say_if b t cam) = kc_waiting cam"
  "kc_eof (kc_say_if b t cam) = kc_eof cam" "kc_control (kc_say_if b t cam) = kc_control cam"
  "kc_live (kc_say_if b t cam) = kc_live cam" "kc_next (kc_say_if b t cam) = kc_next cam"
  "camera_view (kc_say_if b t cam) = camera_view cam"
  by (simp_all add: kc_say_if_def)

lemma record_capture_fields [simp]:
  "kc_stopped (record_capture b h cam) = kc_stopped cam" "kc_started (record_capture b h cam) = kc_started cam"
  "kc_capturer (record_capture b h cam) = kc_capturer cam" "kc_processor (record_capture b h cam) = kc_processor cam"
  "kc_captured_queue (record_capture b h cam) = kc_captured_queue cam" "kc_processing_queue (record_capture b h cam) = kc_processing_queue cam"
  "kc_current_frameset (record_capture b h cam) = kc_current_frameset cam" "kc_current_cloud (record_capture b h cam) = kc_current_cloud cam"
  "kc_processing_done (record_capture b h cam) = kc_processing_done cam" "kc_waiting (record_capture b h cam) = kc_waiting cam"
  "kc_eof (record_capture b h cam) = kc_eof cam" "kc_control (record_capture b h cam) = kc_control cam"
  "kc_live (record_capture b h cam) = kc_live cam" "kc_next (record_capture b h cam) = kc_next cam"
  "camera_view (record_capture b h cam) = camera_view cam"
  by (simp_all add: record_capture_def camera_view_simps split: option.split)

lemma cloud_made_fields [simp]:
  "kc_stopped (cloud_made pc cam) = kc_stopped cam" "kc_started (cloud_made pc cam) = kc_started cam"
  "kc_capturer (cloud_made pc cam) = kc_capturer cam" "kc_processor (cloud_made pc cam) = kc_processor cam"
  "kc_captured_queue (cloud_made pc cam) = kc_captured_queue cam" "kc_processing_queue (cloud_made pc cam) = kc_processing_queue cam"
  "kc_current_frameset (cloud_made pc cam) = kc_current_frameset cam" "kc_waiting (cloud_made pc cam) = kc_waiting cam"
  "kc_eof (cloud_made pc cam) = kc_eof cam" "kc_control (cloud_made pc cam) = kc_control cam"
  "kc_live (cloud_made pc cam) = kc_live cam" "kc_next (cloud_made pc cam) = kc_next cam"
  "camera_view (cloud_made pc cam) = camera_view cam"
  by (simp_all add: cloud_made_def camera_view_simps split: option.split)

lemma start_recorder_fields [simp]:
  "kc_stopped (snd (start_recorder sa cam)) = kc_stopped cam" "kc_capturer (snd (start_recorder sa cam)) = kc_capturer cam"
  "kc_processor (snd (start_recorder sa cam)) = kc_processor cam" "kc_captured_queue (snd (start_recorder sa cam)) = kc_captured_queue cam"
  "kc_processing_queue (snd (start_recorder sa cam)) = kc_processing_queue cam"
  "kc_current_frameset (snd (start_recorder sa cam)) = kc_current_frameset cam"
  "kc_processing_done (snd (start_recorder sa cam)) = kc_processing_done cam" "kc_eof (snd (start_recorder sa cam)) = kc_eof cam"
  "kc_control (snd (start_recorder sa cam)) = kc_control cam" "kc_live (snd (start_recorder sa cam)) = kc_live cam"
  "kc_next (snd (start_recorder sa cam)) = kc_next cam" "kc_running (snd (start_recorder sa cam)) = kc_running cam"
  by (simp_all add: start_recorder_def Let_def kc_say_def)

section \<open>Runs\<close>

text \<open>
  The control thread asks a camera for a frameset, submits it and waits for its cloud, in this order.
  Both queues are made for one element.
\<close>

datatype camera_action =
    Ca_capture capture_event
  | Ca_process process_event
  | Ca_ask u64
  | Ca_look u64
  | Ca_submit bool
  | Ca_wait
  | Ca_stop bool

definition control_returned :: "u64 option \<times> k4a_camera \<Rightarrow> k4a_camera" where
  "control_returned r = (case r of (None, cam) \<Rightarrow> cam | (Some _, cam) \<Rightarrow> cam\<lparr>kc_control := Ctl_idle\<rparr>)"

fun camera_step :: "k4a_images \<Rightarrow> camera_action \<Rightarrow> k4a_camera \<Rightarrow> (fault + k4a_camera) option" where
  "camera_step sdk (Ca_capture ev) cam = capture_thread_step ev cam"
| "camera_step sdk (Ca_process ev) cam = processing_thread_step sdk ev cam"
| "camera_step sdk (Ca_ask minimum) cam =
     (if kc_control cam = Ctl_idle then Some (Inr (cam\<lparr>kc_control := Ctl_capture minimum\<rparr>)) else None)"
| "camera_step sdk (Ca_look now) cam =
     (case kc_control cam of
        Ctl_capture minimum \<Rightarrow> Some (map_sum id control_returned (captured_turn minimum now cam))
      | _ \<Rightarrow> None)"
| "camera_step sdk (Ca_submit room) cam =
     (if kc_control cam = Ctl_idle \<and> kc_current_frameset cam \<noteq> None
      then Some (map_sum id (\<lambda>cam1. cam1\<lparr>kc_control := Ctl_submitted (kc_current_frameset cam)\<rparr>)
                   (process_pointcloud_from_frameset room cam))
      else None)"
| "camera_step sdk Ca_wait cam =
     (case kc_control cam of
        Ctl_submitted _ \<Rightarrow>
          map_option (\<lambda>cam1. Inr (cam1\<lparr>kc_control := Ctl_idle\<rparr>)) (wait_for_pointcloud_processed cam)
      | _ \<Rightarrow> None)"
| "camera_step sdk (Ca_stop room) cam = Some (Inr (stop_camera_signal room cam))"

inductive camera_run :: "k4a_images \<Rightarrow> k4a_camera \<Rightarrow> camera_action list \<Rightarrow> k4a_camera \<Rightarrow> bool"
  for sdk cam0 where
  camera_run_start: "camera_run sdk cam0 [] (start_camera_streaming cam0)"
| camera_run_step: "camera_run sdk cam0 as cam \<Longrightarrow> camera_step sdk a cam = Some (Inr cam') \<Longrightarrow>
     camera_run sdk cam0 (as @ [a]) cam'"

text \<open>A camera that was made and started, before its threads exist.\<close>

definition freshly_started :: "k4a_camera \<Rightarrow> bool" where
  "freshly_started cam \<longleftrightarrow>
     kc_started cam \<and> kc_stopped cam \<and> kc_capturer cam = None \<and> kc_processor cam = None \<and>
     kc_captured_queue cam = [] \<and> kc_processing_queue cam = [] \<and> kc_current_frameset cam = None \<and>
     \<not> kc_processing_done cam \<and> \<not> kc_eof cam \<and> kc_control cam = Ctl_idle \<and> kc_live cam = {} \<and> kc_next cam = 0"

lemma uv_mapping_keeps: "\<exists>u. create_depth_uv_mapping sdk cam = cam\<lparr>view_uv := u\<rparr>"
  by (auto simp: create_depth_uv_mapping_def Let_def split: prod.split intro: exI [of _ "view_uv cam"])

lemma start_camera_result:
  assumes "start_camera sa c = (True, cam)"
  shows "\<exists>r t u. cam = (snd (start_recorder sa
    (c\<lparr>view_rotation := r, view_translation := t, kc_transformation := True, view_uv := u, kc_running := True\<rparr>)))
    \<lparr>kc_started := True\<rparr>"
proof -
  obtain device_config rotation translation where d: "init_config_for_this_camera (kc_hardware c) (kc_ismaster c) (kc_inuse c) (view_index c) = Inr device_config"
    "sa_extrinsics sa = Some (rotation, translation)"
    using assms by (auto simp: start_camera_def split: sum.splits option.splits)
  define c1 where "c1 = c\<lparr>view_rotation := rotation, view_translation := translation, kc_transformation := True\<rparr>"
  define c2 where "c2 = (if view_uv c1 = None then create_depth_uv_mapping (sa_sdk sa) c1 else c1)\<lparr>kc_running := True\<rparr>"
  have "cam = (snd (start_recorder sa c2))\<lparr>kc_started := True\<rparr>"
    using assms d by (simp add: start_camera_def Let_def c1_def c2_def split: prod.splits if_splits)
  moreover have "\<exists>u. c2 = c1\<lparr>view_uv := u, kc_running := True\<rparr>"
    using uv_mapping_keeps [of "sa_sdk sa" c1] by (auto simp: c2_def intro: exI [of _ "view_uv c1"])
  ultimately show ?thesis unfolding c1_def by metis
qed

lemma start_freshly_started:
  assumes "start_camera sa (new_k4a_camera index serial master dir hw pr fl trafo) = (True, cam)"
  shows "freshly_started cam"
  using start_camera_result [OF assms] by (auto simp: freshly_started_def new_k4a_camera_def)

section \<open>Who holds which handle\<close>

definition capturer_holds :: "capture_at option \<Rightarrow> nat list" where
  "capturer_holds pc = (case pc of Some (Cap_grab h) \<Rightarrow> [h] | Some (Cap_enqueue f) \<Rightarrow> [fs_handle f] | _ \<Rightarrow> [])"

definition processor_holds :: "process_at option \<Rightarrow> nat list" where
  "processor_holds pc = (case pc of Some (Proc_frame f) \<Rightarrow> [fs_handle f] | _ \<Rightarrow> [])"

definition frameset_holds :: "frameset option \<Rightarrow> nat list" where
  "frameset_holds r = (case r of Some f \<Rightarrow> [fs_handle f] | None \<Rightarrow> [])"

definition held_captures :: "k4a_camera \<Rightarrow> nat list" where
  "held_captures cam =
     capturer_holds (kc_capturer cam) @ concat (map frameset_holds (kc_captured_queue cam))
     @ frameset_holds (kc_current_frameset cam) @ concat (map frameset_holds (kc_processing_queue cam))
     @ processor_holds (kc_processor cam)"

definition handles_ok :: "k4a_camera \<Rightarrow> bool" where
  "handles_ok cam \<longleftrightarrow>
     distinct (held_captures cam) \<and> set (held_captures cam) \<subseteq> kc_live cam \<and> kc_live cam \<subseteq> {..<kc_next cam}"

text \<open>The handles that exist and that nothing in the program refers to any more.\<close>

definition leaked_captures :: "k4a_camera \<Rightarrow> nat set" where
  "leaked_captures cam = kc_live cam - set (held_captures cam)"

lemmas hold_defs = capturer_holds_def processor_holds_def frameset_holds_def

lemma holds_simps [simp]:
  "capturer_holds None = []" "capturer_holds (Some Cap_test) = []" "capturer_holds (Some Cap_create) = []"
  "capturer_holds (Some Cap_done) = []" "capturer_holds (Some (Cap_grab h)) = [h]"
  "capturer_holds (Some (Cap_enqueue f)) = [fs_handle f]"
  "processor_holds None = []" "processor_holds (Some Proc_test) = []" "processor_holds (Some Proc_wait) = []"
  "processor_holds (Some Proc_done) = []" "processor_holds (Some (Proc_frame f)) = [fs_handle f]"
  "frameset_holds None = []" "frameset_holds (Some f) = [fs_handle f]"
  by (simp_all add: hold_defs)

text \<open>
  What a step can do to the handles: hand them on, release one, lose one, or make one. The bag of held
  handles says which.
\<close>

definition held_bag :: "k4a_camera \<Rightarrow> nat multiset" where
  "held_bag cam = mset (held_captures cam)"

definition handles_step :: "k4a_camera \<Rightarrow> k4a_camera \<Rightarrow> bool" where
  "handles_step cam cam' \<longleftrightarrow> handles_ok cam' \<and> leaked_captures cam \<subseteq> leaked_captures cam'"

lemmas handle_defs = handles_step_def handles_ok_def leaked_captures_def held_bag_def

lemma handles_moved:
  assumes "handles_ok cam" and "held_bag cam' = held_bag cam" and "kc_live cam' = kc_live cam" and "kc_next cam' = kc_next cam"
  shows "handles_step cam cam'"
  using assms mset_eq_imp_distinct_iff [of "held_captures cam'" "held_captures cam"]
    mset_eq_setD [of "held_captures cam'" "held_captures cam"]
  by (simp add: handle_defs)

lemma held_bag_add:
  "held_bag cam = add_mset h (held_bag cam') \<Longrightarrow>
    (distinct (held_captures cam) \<longleftrightarrow> h \<notin> set (held_captures cam') \<and> distinct (held_captures cam')) \<and>
    set (held_captures cam) = insert h (set (held_captures cam'))"
  using mset_eq_imp_distinct_iff [of "held_captures cam" "h # held_captures cam'"]
    mset_eq_setD [of "held_captures cam" "h # held_captures cam'"]
  by (simp add: held_bag_def)

lemma handles_released:
  assumes "handles_ok cam" and "held_bag cam = add_mset h (held_bag cam')"
    and "kc_live cam' = kc_live cam - {h}" and "kc_next cam' = kc_next cam"
  shows "handles_step cam cam'"
  using assms held_bag_add [OF assms(2)] by (auto simp: handle_defs)

lemma handles_lost:
  assumes "handles_ok cam" and "held_bag cam = add_mset h (held_bag cam')"
    and "kc_live cam' = kc_live cam" and "kc_next cam' = kc_next cam"
  shows "handles_step cam cam'" and "h \<in> leaked_captures cam'" and "h \<notin> leaked_captures cam"
  using assms held_bag_add [OF assms(2)] by (auto simp: handle_defs)

lemma handles_created:
  assumes "handles_ok cam" and "held_bag cam' = add_mset (kc_next cam) (held_bag cam)"
    and "kc_live cam' = insert (kc_next cam) (kc_live cam)" and "kc_next cam' = kc_next cam + 1"
  shows "handles_step cam cam'"
  using assms held_bag_add [OF assms(2)] by (auto simp: handle_defs)

lemma handles_step_trans: "handles_step c1 c2 \<Longrightarrow> handles_step c2 c3 \<Longrightarrow> handles_step c1 c3"
  by (auto simp: handles_step_def)

text \<open>The bag, holder by holder.\<close>

definition queue_bag :: "frameset option list \<Rightarrow> nat multiset" where
  "queue_bag q = mset (concat (map frameset_holds q))"

lemma queue_bag_simps [simp]:
  "queue_bag [] = {#}" "queue_bag (r # q) = mset (frameset_holds r) + queue_bag q"
  "queue_bag (q @ q') = queue_bag q + queue_bag q'"
  by (simp_all add: queue_bag_def)

lemma held_bag_parts:
  "held_bag cam = mset (capturer_holds (kc_capturer cam)) + queue_bag (kc_captured_queue cam)
     + mset (frameset_holds (kc_current_frameset cam)) + queue_bag (kc_processing_queue cam)
     + mset (processor_holds (kc_processor cam))"
  by (simp add: held_bag_def held_captures_def queue_bag_def)

lemma held_live: "handles_ok cam \<Longrightarrow> h \<in># held_bag cam \<Longrightarrow> h \<in> kc_live cam"
  by (auto simp: handle_defs)

text \<open>A step goes well: no fault, and the handles stay in order.\<close>

definition step_well :: "k4a_camera \<Rightarrow> (fault + k4a_camera) \<Rightarrow> bool" where
  "step_well cam r \<longleftrightarrow> (\<exists>cam'. r = Inr cam' \<and> handles_step cam cam')"

lemma try_enqueue_cases:
  "try_enqueue room x q = (ok, q') \<Longrightarrow> ok \<and> q' = q @ [x] \<or> \<not> ok \<and> q' = q \<and> q \<noteq> []"
  by (auto simp: try_enqueue_def split: if_splits)

lemma release_held:
  "h \<in> kc_live cam \<Longrightarrow> capture_release h cam = Inr (cam\<lparr>kc_live := kc_live cam - {h}\<rparr>)"
  by (simp add: capture_release_def)

lemma grab_handles:
  assumes "handles_ok cam" and "kc_capturer cam = Some (Cap_grab h)"
  shows "step_well cam (grab_capture result written h cam)"
proof -
  have bag: "held_bag cam = add_mset h (held_bag (at_capturer pc cam))" if "pc \<in> {Cap_test, Cap_done}" for pc
    using assms(2) that by (auto simp: held_bag_parts at_capturer_def)
  have live: "h \<in> kc_live cam" by (rule held_live [OF assms(1)]) (simp add: held_bag_parts assms(2))
  consider "result = None" | "result = Some None" | depth color where "result = Some (Some (depth, color))"
    by (cases result) (auto, metis option.exhaust surj_pair)
  then show ?thesis
  proof cases
    case 1
    have "handles_step cam (at_capturer Cap_test (cam\<lparr>kc_live := kc_live cam - {h}\<rparr>))"
      by (rule handles_released [OF assms(1), of h]) (simp_all add: held_bag_parts at_capturer_def assms(2))
    then have "handles_step cam (at_capturer Cap_test ((kc_say t cam)\<lparr>kc_live := kc_live cam - {h}\<rparr>))" for t
      by (simp add: handle_defs held_captures_def at_capturer_def)
    then show ?thesis using 1 live by (simp add: step_well_def release_held)
  next
    case 2
    have "handles_step cam (at_capturer pc cam)" if "pc \<in> {Cap_test, Cap_done}" for pc
      by (rule handles_lost(1) [OF assms(1) bag [OF that]]) (simp_all add: at_capturer_def)
    moreover from this have "handles_step cam (at_capturer pc (kc_say t cam))" if "pc \<in> {Cap_test, Cap_done}" for pc t
      using that by (simp add: handle_defs held_captures_def at_capturer_def)
    ultimately show ?thesis using 2 by (simp add: step_well_def)
  next
    case 3
    define f where "f = \<lparr>fs_handle = kc_next cam, fs_depth = depth, fs_color = color\<rparr>"
    define cam1 where "cam1 = at_capturer Cap_test cam"
    define cam' where "cam' = at_capturer (Cap_enqueue f) (record_capture written (kc_next cam) (snd (capture_create cam)))"
    have l: "handles_step cam cam1" unfolding cam1_def
      by (rule handles_lost(1) [OF assms(1) bag]) (simp_all add: at_capturer_def)
    have "handles_step cam1 cam'"
      by (rule handles_created)
        (use l in \<open>auto simp: handles_step_def cam1_def cam'_def f_def held_bag_parts at_capturer_def capture_create_def\<close>)
    with l have "handles_step cam cam'" by (rule handles_step_trans)
    then show ?thesis using 3 by (simp add: step_well_def cam'_def f_def capture_create_def Let_def)
  qed
qed

text \<open>Messages hold no handles.\<close>

lemma handles_step_say:
  "handles_step cam cam' \<Longrightarrow> handles_step cam (cam'\<lparr>kc_log := l\<rparr>)"
  by (simp add: handle_defs held_captures_def)

lemma deposit_handles:
  assumes "handles_ok cam" and "kc_capturer cam = Some (Cap_enqueue f)"
  shows "step_well cam (map_sum id (at_capturer Cap_test) (deposit_capture room f cam))"
proof -
  have live: "fs_handle f \<in> kc_live cam" by (rule held_live [OF assms(1)]) (simp add: held_bag_parts assms(2))
  obtain ok q where t: "try_enqueue room (Some f) (kc_captured_queue cam) = (ok, q)" by fastforce
  show ?thesis
  proof (cases ok)
    case True
    then have q: "q = kc_captured_queue cam @ [Some f]" using try_enqueue_cases [OF t] by simp
    have "handles_step cam (at_capturer Cap_test (cam\<lparr>kc_captured_queue := q\<rparr>))"
      by (rule handles_moved [OF assms(1)]) (simp_all add: held_bag_parts at_capturer_def assms(2) q)
    then show ?thesis by (simp add: step_well_def deposit_capture_def t True)
  next
    case False
    have "handles_step cam (at_capturer Cap_test (cam\<lparr>kc_live := kc_live cam - {fs_handle f}\<rparr>))"
      by (rule handles_released [OF assms(1)]) (simp_all add: held_bag_parts at_capturer_def assms(2))
    then show ?thesis using live by (simp add: step_well_def deposit_capture_def t False release_held)
  qed
qed

lemma capture_thread_handles:
  assumes "handles_ok cam" and "capture_thread_step ev cam = Some r"
  shows "step_well cam r"
proof -
  obtain pc where pc: "kc_capturer cam = Some pc" using assms(2) by (auto simp: capture_thread_step_def split: option.splits)
  note step = assms(2) [unfolded capture_thread_step_def pc option.case]
  have idle: "handles_step cam (at_capturer pc' (cam\<lparr>kc_log := l\<rparr>))"
    if "capturer_holds (Some pc) = []" "capturer_holds (Some pc') = []" for pc' l
    by (rule handles_moved [OF assms(1)]) (simp_all add: held_bag_parts at_capturer_def pc that)
  show ?thesis
  proof (cases pc)
    case Cap_test
    then show ?thesis
      using step idle [of Cap_done "kc_log cam"] idle [of Cap_create "kc_log cam"]
      by (cases ev) (auto simp: step_well_def)
  next
    case Cap_create
    then obtain ok where e: "ev = Cap_created ok" using step by (cases ev) auto
    have "handles_step cam (at_capturer (Cap_grab (kc_next cam)) ((snd (capture_create cam))\<lparr>kc_waiting := True\<rparr>))"
      by (rule handles_created [OF assms(1)]) (simp_all add: held_bag_parts at_capturer_def pc Cap_create capture_create_def)
    then show ?thesis
      using step e Cap_create idle [of Cap_done]
      by (auto simp: step_well_def capture_create_def Let_def kc_say_def)
  next
    case (Cap_grab h)
    then obtain result written where "ev = Cap_got result written" using step by (cases ev) auto
    then show ?thesis using grab_handles [OF assms(1), of h result written] step pc Cap_grab by simp
  next
    case (Cap_enqueue f)
    then obtain room where "ev = Cap_room room" using step by (cases ev) auto
    then show ?thesis using deposit_handles [OF assms(1), of f room] step pc Cap_enqueue by simp
  qed (use step in \<open>cases ev; simp\<close>)
qed

lemma processing_thread_handles:
  assumes "handles_ok cam" and "processing_thread_step sdk ev cam = Some (Inr cam')"
  shows "handles_step cam cam'"
proof -
  obtain pc where pc: "kc_processor cam = Some pc" using assms(2) by (auto simp: processing_thread_step_def split: option.splits)
  note step = assms(2) [unfolded processing_thread_step_def pc option.case]
  have idle: "handles_step cam (at_processor pc' (cam\<lparr>kc_log := l\<rparr>))"
    if "processor_holds (Some pc) = []" "processor_holds (Some pc') = []" for pc' l
    by (rule handles_moved [OF assms(1)]) (simp_all add: held_bag_parts at_processor_def pc that)
  show ?thesis
  proof (cases pc)
    case Proc_test
    then show ?thesis
      using step idle [of Proc_done "kc_log cam"] idle [of Proc_wait "kc_log cam"] by (cases ev) auto
  next
    case Proc_wait
    show ?thesis
    proof (cases "ev = Proc_dequeue")
      case True
      then obtain r q where q: "kc_processing_queue cam = r # q" and c: "cam' = dequeued (Some r) (cam\<lparr>kc_processing_queue := q\<rparr>)"
        using step Proc_wait by (auto split: list.splits)
      show ?thesis
      proof (cases r)
        case None
        have "handles_step cam (at_processor Proc_done (cam\<lparr>kc_processing_queue := q, kc_waiting := w, kc_log := l\<rparr>))" for w l
          by (rule handles_moved [OF assms(1)]) (simp_all add: held_bag_parts at_processor_def pc Proc_wait q None)
        from this [where w = "kc_waiting cam" and l = "kc_log cam"] this [where w = False and l = "kc_log cam"]
          this [where w = False]
        show ?thesis
          by (auto simp: c dequeued_def None kc_say_if_def kc_say_def at_processor_def)
      next
        case (Some f)
        have "handles_step cam (at_processor Proc_done (cam\<lparr>kc_processing_queue := q\<rparr>))"
          by (rule handles_lost(1) [OF assms(1), of "fs_handle f"])
            (simp_all add: held_bag_parts at_processor_def pc Proc_wait q Some)
        moreover have "handles_step cam (at_processor (Proc_frame f) (cam\<lparr>kc_processing_queue := q, kc_waiting := False\<rparr>))"
          by (rule handles_moved [OF assms(1)]) (simp_all add: held_bag_parts at_processor_def pc Proc_wait q Some)
        ultimately show ?thesis by (simp add: c dequeued_def Some)
      qed
    next
      case False
      then show ?thesis
        using step Proc_wait idle [of Proc_test] idle [of Proc_done "kc_log cam"] idle [of Proc_test "kc_log cam"]
        by (cases ev) (auto simp: dequeued_def kc_say_if_def kc_say_def split: if_splits)
    qed
  next
    case (Proc_frame f)
    then obtain mem c1 where p: "process_frameset sdk mem f cam = Inr c1" and c: "cam' = at_processor Proc_test c1"
      using step by (cases ev) (auto simp: map_sum_Inr)
    define cam1 where "cam1 = cam\<lparr>kc_log := kc_log cam @ snd (uncompress_color_image sdk (fst mem) (snd mem) (fs_color f))\<rparr>"
    obtain pc1 where c1: "capture_release (fs_handle f) (cloud_made pc1 cam1) = Inr c1"
      using p by (auto simp: process_frameset_def Let_def cam1_def split: if_splits sum.splits)
    then have "c1 = (cloud_made pc1 cam1)\<lparr>kc_live := kc_live cam - {fs_handle f}\<rparr>"
      by (auto simp: capture_release_def cam1_def split: if_splits)
    then show ?thesis
      by (intro handles_released [OF assms(1), of "fs_handle f"])
        (simp_all add: held_bag_parts at_processor_def pc Proc_frame c cam1_def)
  qed (use step in \<open>cases ev; simp\<close>)
qed

lemma captured_turn_handles:
  assumes "handles_ok cam"
  shows "\<exists>r cam'. captured_turn minimum now cam = Inr (r, cam') \<and> handles_step cam cam'"
proof (cases "kc_stopped cam \<or> kc_captured_queue cam = []")
  case True
  have "handles_step cam (cam\<lparr>kc_log := l\<rparr>)" for l
    by (rule handles_moved [OF assms]) (simp_all add: held_bag_parts)
  from this [of "kc_log cam"] this True show ?thesis
    by (auto simp: captured_turn_def kc_say_def)
next
  case False
  then obtain r q where q: "kc_captured_queue cam = r # q" by (cases "kc_captured_queue cam") auto
  define l where "l = kc_log (kc_say_if (r = None) ''wait_for_captured_frameset: got nullptr'' cam)"
  define cam1 where "cam1 = cam\<lparr>kc_captured_queue := q, kc_log := l\<rparr>"
  have e: "kc_say_if (r = None) ''wait_for_captured_frameset: got nullptr'' (cam\<lparr>kc_captured_queue := q\<rparr>) = cam1"
    by (simp add: cam1_def l_def kc_say_if_def kc_say_def)
  show ?thesis
  proof (cases "now < minimum")
    case True
    have "handles_step cam (cam\<lparr>kc_captured_queue := q, kc_log := l'\<rparr>)" for l'
    proof (cases r)
      case None
      show ?thesis by (rule handles_moved [OF assms]) (simp_all add: held_bag_parts q None)
    next
      case (Some f)
      show ?thesis by (rule handles_lost(1) [OF assms, of "fs_handle f"]) (simp_all add: held_bag_parts q Some)
    qed
    then show ?thesis using False True by (simp add: captured_turn_def q e Let_def) (simp add: kc_say_def cam1_def)
  next
    case late: False
    show ?thesis
    proof (cases "kc_current_frameset cam")
      case None
      have "handles_step cam (cam1\<lparr>kc_current_frameset := r\<rparr>)"
        by (rule handles_moved [OF assms]) (simp_all add: held_bag_parts q None cam1_def)
      then show ?thesis using False late by (simp add: captured_turn_def q e release_frameset_def None Let_def cam1_def)
    next
      case (Some f)
      have live: "fs_handle f \<in> kc_live cam" by (rule held_live [OF assms]) (simp add: held_bag_parts Some)
      have "handles_step cam (cam1\<lparr>kc_live := kc_live cam - {fs_handle f}, kc_current_frameset := r\<rparr>)"
        by (rule handles_released [OF assms, of "fs_handle f"]) (simp_all add: held_bag_parts q Some cam1_def)
      then show ?thesis using False late live
        by (simp add: captured_turn_def q e release_frameset_def release_held Some Let_def cam1_def)
    qed
  qed
qed

lemma submit_handles:
  assumes "handles_ok cam"
  shows "step_well cam (process_pointcloud_from_frameset room cam)"
proof -
  obtain ok q where t: "try_enqueue room (kc_current_frameset cam) (kc_processing_queue cam) = (ok, q)" by fastforce
  show ?thesis
  proof (cases ok)
    case True
    then have q: "q = kc_processing_queue cam @ [kc_current_frameset cam]" using try_enqueue_cases [OF t] by simp
    have "handles_step cam (cam\<lparr>kc_processing_queue := q, kc_current_frameset := None\<rparr>)"
      by (rule handles_moved [OF assms]) (simp_all add: held_bag_parts q)
    then show ?thesis by (simp add: step_well_def process_pointcloud_from_frameset_def t True)
  next
    case full: False
    show ?thesis
    proof (cases "kc_current_frameset cam")
      case None
      have "handles_step cam (cam\<lparr>kc_log := l, kc_current_frameset := None\<rparr>)" for l
        by (rule handles_moved [OF assms]) (simp_all add: held_bag_parts None)
      then show ?thesis
        using t full None by (simp add: step_well_def process_pointcloud_from_frameset_def release_frameset_def kc_say_def)
    next
      case (Some f)
      have live: "fs_handle f \<in> kc_live cam" by (rule held_live [OF assms]) (simp add: held_bag_parts Some)
      have "handles_step cam (cam\<lparr>kc_log := l, kc_live := kc_live cam - {fs_handle f}, kc_current_frameset := None\<rparr>)" for l
        by (rule handles_released [OF assms, of "fs_handle f"]) (simp_all add: held_bag_parts Some)
      then show ?thesis
        using t full Some live
        by (simp add: step_well_def process_pointcloud_from_frameset_def release_frameset_def release_held)
          (simp add: kc_say_def)
    qed
  qed
qed

lemma stop_signal_handles:
  assumes "handles_ok cam"
  shows "handles_step cam (stop_camera_signal room cam)"
proof -
  have "handles_step cam (cam\<lparr>kc_log := l\<rparr>)" for l
    by (rule handles_moved [OF assms]) (simp_all add: held_bag_parts)
  moreover have "handles_step cam (cam\<lparr>kc_stopped := True, kc_processing_queue := snd (try_enqueue room None (kc_processing_queue cam))\<rparr>)"
    by (rule handles_moved [OF assms]) (simp_all add: held_bag_parts try_enqueue_def)
  ultimately show ?thesis by (simp add: stop_camera_signal_def kc_say_def)
qed

lemma control_handles:
  "handles_step cam cam' \<Longrightarrow> handles_step cam (cam'\<lparr>kc_control := pc\<rparr>)"
  by (simp add: handle_defs held_captures_def)

lemma camera_step_handles:
  assumes "handles_ok cam" and "camera_step sdk a cam = Some (Inr cam')"
  shows "handles_step cam cam'"
proof -
  have same: "handles_step cam (cam\<lparr>kc_control := pc\<rparr>)" "handles_step cam (cam\<lparr>kc_processing_done := d, kc_control := pc\<rparr>)" for pc d
    by (rule handles_moved [OF assms(1)]; simp add: held_bag_parts)+
  show ?thesis
  proof (cases a)
    case (Ca_capture ev)
    then show ?thesis using capture_thread_handles [OF assms(1)] assms(2) by (auto simp: step_well_def)
  next
    case (Ca_process ev)
    then show ?thesis using processing_thread_handles [OF assms(1)] assms(2) by simp
  next
    case (Ca_look now)
    then obtain minimum where "map_sum id control_returned (captured_turn minimum now cam) = Inr cam'"
      using assms(2) by (auto split: control_pc.splits)
    moreover obtain r c1 where "captured_turn minimum now cam = Inr (r, c1)" "handles_step cam c1"
      using captured_turn_handles [OF assms(1)] by blast
    ultimately show ?thesis
      using control_handles [of cam c1 Ctl_idle] by (simp add: control_returned_def split: option.splits)
  next
    case (Ca_submit room)
    then show ?thesis
      using assms(2) submit_handles [OF assms(1), of room] control_handles
      by (auto simp: step_well_def split: if_splits)
  next
    case Ca_wait
    then show ?thesis using assms(2) same by (auto simp: wait_for_pointcloud_processed_def split: control_pc.splits if_splits)
  next
    case (Ca_stop room)
    then show ?thesis using assms(2) stop_signal_handles [OF assms(1), of room] by simp
  qed (use assms(2) same in \<open>auto split: if_splits\<close>)
qed

lemma streaming_handles: "freshly_started cam \<Longrightarrow> handles_ok (start_camera_streaming cam)"
  by (simp add: freshly_started_def start_camera_streaming_def handle_defs held_captures_def)

lemma camera_run_handles:
  "camera_run sdk cam0 as cam \<Longrightarrow> freshly_started cam0 \<Longrightarrow> handles_ok cam"
proof (induction rule: camera_run.induct)
  case camera_run_start
  then show ?case by (rule streaming_handles)
next
  case (camera_run_step as cam a cam')
  then show ?case using camera_step_handles by (auto simp: handles_step_def)
qed

text \<open>The only fault a step can have is one of the image computation.\<close>

lemma camera_step_fault:
  assumes "handles_ok cam" and "camera_step sdk a cam = Some (Inl e)"
  shows "\<exists>f mem. kc_processor cam = Some (Proc_frame f) \<and> frameset_cloud sdk mem (camera_view cam) f = Inl e"
proof (cases a)
  case (Ca_capture ev)
  then show ?thesis using capture_thread_handles [OF assms(1), of ev "Inl e"] assms(2) by (auto simp: step_well_def)
next
  case (Ca_process ev)
  then obtain pc where pc: "kc_processor cam = Some pc" using assms(2)
    by (auto simp: processing_thread_step_def split: option.splits)
  note step = assms(2) [unfolded Ca_process camera_step.simps processing_thread_step_def pc option.case]
  obtain f where f: "pc = Proc_frame f" using step by (cases pc; cases ev) (auto split: list.splits if_splits)
  then obtain mem where p: "process_frameset sdk mem f cam = Inl e"
    using step by (cases ev) (auto simp: map_sum_Inl)
  have live: "fs_handle f \<in> kc_live cam" by (rule held_live [OF assms(1)]) (simp add: held_bag_parts pc f)
  then have "frameset_cloud sdk mem (camera_view cam) f = Inl e"
    using p by (auto simp: process_frameset_def Let_def capture_release_def split: sum.splits)
  with pc f show ?thesis by blast
next
  case (Ca_look now)
  then show ?thesis
    using assms(2) captured_turn_handles [OF assms(1)]
    by (auto simp: map_sum_Inl split: control_pc.splits) (metis Inl_Inr_False)
next
  case (Ca_submit room)
  then show ?thesis using assms(2) submit_handles [OF assms(1), of room] by (auto simp: step_well_def split: if_splits)
qed (use assms(2) in \<open>auto simp: wait_for_pointcloud_processed_def split: if_splits control_pc.splits\<close>)

text \<open>
  C13. In every execution of a streaming camera, a capture handle is held in one place at most, whatever
  is held has not been released, and no step of any thread uses or releases a handle that is gone: the only
  fault a step can have is one of the point cloud computation itself.
\<close>

theorem captures_never_dangle:
  assumes "camera_run sdk cam0 as cam" and "freshly_started cam0"
  shows "distinct (held_captures cam) \<and> set (held_captures cam) \<subseteq> kc_live cam \<and>
    (\<forall>a e. camera_step sdk a cam = Some (Inl e) \<longrightarrow>
       (\<exists>f mem. kc_processor cam = Some (Proc_frame f) \<and> frameset_cloud sdk mem (camera_view cam) f = Inl e))"
  using camera_run_handles [OF assms] camera_step_fault by (auto simp: handles_ok_def)

section \<open>Every grab leaks a capture\<close>

fun is_grab :: "camera_action \<Rightarrow> bool" where
  "is_grab (Ca_capture (Cap_got (Some _) _)) = True"
| "is_grab _ = False"

definition grabs :: "camera_action list \<Rightarrow> nat" where
  "grabs as = length (filter is_grab as)"

lemma grab_leaks:
  assumes "handles_ok cam" and "camera_step sdk a cam = Some (Inr cam')" and "is_grab a"
  shows "\<exists>h. h \<in> leaked_captures cam' \<and> h \<notin> leaked_captures cam"
proof -
  obtain result written where a: "a = Ca_capture (Cap_got (Some result) written)"
    using assms(3) by (cases a rule: is_grab.cases) auto
  obtain h where h: "kc_capturer cam = Some (Cap_grab h)" and g: "grab_capture (Some result) written h cam = Inr cam'"
    using assms(2) unfolding a by (auto simp: capture_thread_step_def split: option.splits capture_at.splits)
  have d: "distinct (held_captures cam)" "set (held_captures cam) \<subseteq> kc_live cam" "kc_live cam \<subseteq> {..<kc_next cam}"
    using assms(1) by (simp_all add: handles_ok_def)
  have "h \<in> kc_live cam'" "h \<notin> set (held_captures cam')"
    using g d h by (cases result; auto simp: held_captures_def at_capturer_def capture_create_def Let_def split: prod.splits if_splits)+
  moreover have "h \<in> set (held_captures cam)" using h by (simp add: held_captures_def)
  ultimately show ?thesis by (auto simp: leaked_captures_def)
qed

lemma leaked_finite: "handles_ok cam \<Longrightarrow> finite (leaked_captures cam)"
  by (auto simp: handles_ok_def leaked_captures_def intro: finite_subset [OF _ finite_lessThan [of "kc_next cam"]])

text \<open>
  C33. The capture thread leaks one capture object for every frame it grabs: the handle made by
  \<open>k4a_capture_create\<close> is overwritten by the one \<open>k4a_device_get_capture\<close> returns. After n successful
  calls at least n captures exist that nothing refers to, in every execution.
\<close>

theorem every_grab_leaks:
  assumes "camera_run sdk cam0 as cam" and "freshly_started cam0"
  shows "grabs as \<le> card (leaked_captures cam)"
  using assms
proof (induction rule: camera_run.induct)
  case camera_run_start
  then show ?case by (simp add: grabs_def)
next
  case (camera_run_step as cam a cam')
  then have IH: "grabs as \<le> card (leaked_captures cam)" by simp
  have ok: "handles_ok cam" by (rule camera_run_handles) (use camera_run_step in simp_all)
  have s: "handles_step cam cam'" by (rule camera_step_handles [OF ok camera_run_step.hyps(2)])
  then have f: "finite (leaked_captures cam')" by (simp add: handles_step_def leaked_finite)
  show ?case
  proof (cases "is_grab a")
    case True
    then obtain h where "h \<in> leaked_captures cam'" "h \<notin> leaked_captures cam"
      using grab_leaks [OF ok camera_run_step.hyps(2)] by blast
    then have "card (leaked_captures cam) < card (leaked_captures cam')"
      using s f by (auto simp: handles_step_def intro: psubset_card_mono)
    with IH True show ?thesis by (simp add: grabs_def)
  next
    case False
    have "card (leaked_captures cam) \<le> card (leaked_captures cam')"
      by (rule card_mono [OF f]) (use s in \<open>simp add: handles_step_def\<close>)
    with IH False show ?thesis by (simp add: grabs_def)
  qed
qed

section \<open>The cloud is made of the frame that was submitted\<close>

definition processor_ready :: "k4a_camera \<Rightarrow> bool" where
  "processor_ready cam \<longleftrightarrow> kc_processor cam \<in> {Some Proc_test, Some Proc_wait}"

text \<open>Between submission and wait: queued, in work, done, or failed.\<close>

definition frame_progress :: "k4a_images \<Rightarrow> k4a_view \<Rightarrow> frameset \<Rightarrow> k4a_camera \<Rightarrow> bool" where
  "frame_progress sdk view f cam \<longleftrightarrow>
     processor_ready cam \<and> kc_processing_queue cam = [Some f] \<and> \<not> kc_processing_done cam
   \<or> kc_processor cam = Some (Proc_frame f) \<and> kc_processing_queue cam = [] \<and> \<not> kc_processing_done cam
   \<or> processor_ready cam \<and> kc_processing_queue cam = [] \<and> kc_processing_done cam \<and>
       (\<exists>mem ps. frameset_cloud sdk mem view f = Inr (Some ps) \<and> kc_current_cloud cam = Some ps)
   \<or> processor_ready cam \<and> kc_processing_queue cam = [] \<and> \<not> kc_processing_done cam \<and>
       (\<exists>mem. frameset_cloud sdk mem view f = Inr None)"

definition pipeline_ok :: "k4a_images \<Rightarrow> k4a_view \<Rightarrow> k4a_camera \<Rightarrow> bool" where
  "pipeline_ok sdk view cam \<longleftrightarrow>
     \<not> kc_eof cam \<and> camera_view cam = view \<and>
     (case kc_control cam of
        Ctl_submitted fs \<Rightarrow> \<exists>f. fs = Some f \<and> frame_progress sdk view f cam
      | _ \<Rightarrow> processor_ready cam \<and> kc_processing_queue cam = [] \<and> \<not> kc_processing_done cam)"

lemmas pipeline_defs = pipeline_ok_def frame_progress_def processor_ready_def

text \<open>What the invariant reads.\<close>

definition same_pipeline :: "k4a_camera \<Rightarrow> k4a_camera \<Rightarrow> bool" where
  "same_pipeline cam cam' \<longleftrightarrow>
     kc_processor cam' = kc_processor cam \<and> kc_processing_queue cam' = kc_processing_queue cam \<and>
     kc_processing_done cam' = kc_processing_done cam \<and> kc_current_cloud cam' = kc_current_cloud cam \<and>
     kc_eof cam' = kc_eof cam \<and> camera_view cam' = camera_view cam"

lemma pipeline_same:
  "pipeline_ok sdk view cam \<Longrightarrow> same_pipeline cam cam' \<Longrightarrow> kc_control cam' = kc_control cam \<Longrightarrow>
    pipeline_ok sdk view cam'"
  by (cases "kc_control cam") (simp_all add: pipeline_defs same_pipeline_def)

lemma capture_release_same: "capture_release h cam = Inr cam' \<Longrightarrow> same_pipeline cam cam' \<and> kc_control cam' = kc_control cam \<and> kc_stopped cam' = kc_stopped cam"
  by (auto simp: capture_release_def same_pipeline_def split: if_splits)

lemma at_capturer_same [simp]: "same_pipeline cam (at_capturer pc cam') \<longleftrightarrow> same_pipeline cam cam'"
  "kc_control (at_capturer pc cam) = kc_control cam" "kc_stopped (at_capturer pc cam) = kc_stopped cam"
  by (simp_all add: same_pipeline_def at_capturer_def)

lemma grab_same:
  "grab_capture result written h cam = Inr cam' \<Longrightarrow>
     same_pipeline cam cam' \<and> kc_control cam' = kc_control cam \<and> kc_stopped cam' = kc_stopped cam"
  by (cases "(result, written, h, cam)" rule: grab_capture.cases)
    (auto simp: map_sum_Inr same_pipeline_def at_capturer_def capture_create_def capture_release_def Let_def split: if_splits)

lemma capture_thread_same:
  assumes "capture_thread_step ev cam = Some (Inr cam')"
  shows "same_pipeline cam cam' \<and> kc_control cam' = kc_control cam \<and> kc_stopped cam' = kc_stopped cam"
proof -
  obtain pc where pc: "kc_capturer cam = Some pc" using assms by (auto simp: capture_thread_step_def split: option.splits)
  note step = assms [unfolded capture_thread_step_def pc option.case]
  show ?thesis
  proof (cases pc)
    case (Cap_enqueue f)
    then obtain room c1 where "deposit_capture room f cam = Inr c1" "cam' = at_capturer Cap_test c1"
      using step by (cases ev) (auto simp: map_sum_Inr)
    then show ?thesis
      by (auto simp: deposit_capture_def Let_def same_pipeline_def capture_release_def at_capturer_def split: prod.splits if_splits)
  next
    case (Cap_grab h)
    then obtain result written where "grab_capture result written h cam = Inr cam'" using step by (cases ev) auto
    then show ?thesis by (rule grab_same)
  next
    case Cap_create
    then obtain ok where "ev = Cap_created ok" using step by (cases ev) auto
    then show ?thesis using step Cap_create
      by (cases ok) (auto simp: same_pipeline_def at_capturer_def capture_create_def Let_def)
  next
    case Cap_test
    then have "cam' \<in> {at_capturer Cap_done cam, at_capturer Cap_create cam}" using step by (cases ev) auto
    then show ?thesis by (auto simp: same_pipeline_def at_capturer_def)
  qed (use step in \<open>cases ev; simp\<close>)
qed

lemma processing_thread_pipeline:
  assumes p: "pipeline_ok sdk view cam" and step: "processing_thread_step sdk ev cam = Some (Inr cam')"
    and run: "\<not> kc_stopped cam"
  shows "pipeline_ok sdk view cam' \<and> \<not> kc_stopped cam'"
proof -
  obtain pc where pc: "kc_processor cam = Some pc" using step by (auto simp: processing_thread_step_def split: option.splits)
  note step = step [unfolded processing_thread_step_def pc option.case]
  show ?thesis
  proof (cases pc)
    case Proc_test
    then have "cam' = at_processor Proc_wait cam" using step run by (cases ev) auto
    then show ?thesis using p pc Proc_test run
      by (auto simp: pipeline_defs at_processor_def split: control_pc.splits)
  next
    case Proc_wait
    show ?thesis
    proof (cases "ev = Proc_dequeue")
      case True
      then obtain r q where q: "kc_processing_queue cam = r # q" and c: "cam' = dequeued (Some r) (cam\<lparr>kc_processing_queue := q\<rparr>)"
        using step Proc_wait by (auto split: list.splits)
      obtain f where f: "kc_control cam = Ctl_submitted (Some f)" "r = Some f" "q = []" "\<not> kc_processing_done cam"
        using p q pc Proc_wait by (auto simp: pipeline_defs split: control_pc.splits)
      then show ?thesis using p run by (simp add: c dequeued_def pipeline_defs at_processor_def)
    next
      case False
      then have "kc_processing_queue cam = []" and c: "cam' = dequeued None cam"
        using step Proc_wait by (cases ev; auto split: if_splits)+
      then show ?thesis using p run pc Proc_wait
        by (auto simp: pipeline_defs dequeued_def at_processor_def split: control_pc.splits)
    qed
  next
    case (Proc_frame f)
    then obtain mem c1 where m: "process_frameset sdk mem f cam = Inr c1" and c: "cam' = at_processor Proc_test c1"
      using step by (cases ev) (auto simp: map_sum_Inr)
    have k: "kc_control cam = Ctl_submitted (Some f)" "kc_processing_queue cam = []" "\<not> kc_processing_done cam"
      using p pc Proc_frame by (auto simp: pipeline_defs split: control_pc.splits)
    have v: "camera_view cam = view" "\<not> kc_eof cam" using p by (simp_all add: pipeline_ok_def)
    obtain pc1 where cl0: "frameset_cloud sdk mem view f = Inr pc1"
      and r: "capture_release (fs_handle f) (cloud_made pc1 (cam\<lparr>kc_log := kc_log cam @ snd (uncompress_color_image sdk (fst mem) (snd mem) (fs_color f))\<rparr>)) = Inr c1"
      using m v by (auto simp: process_frameset_def Let_def split: if_splits sum.splits)
    have cl: "\<exists>mem. frameset_cloud sdk mem view f = Inr pc1" using cl0 by blast
    show ?thesis
      using capture_release_same [OF r] k v cl run
      by (cases pc1) (auto simp: c pipeline_defs same_pipeline_def at_processor_def cloud_made_def)
  qed (use step in \<open>cases ev; simp\<close>)
qed

lemma captured_turn_same:
  assumes "captured_turn minimum now cam = Inr (r, cam')"
  shows "same_pipeline cam cam' \<and> kc_control cam' = kc_control cam \<and> kc_stopped cam' = kc_stopped cam"
proof (cases "kc_stopped cam \<or> kc_captured_queue cam = []")
  case True
  then show ?thesis using assms by (cases "kc_stopped cam") (auto simp: captured_turn_def same_pipeline_def)
next
  case False
  then obtain fr q where q: "kc_captured_queue cam = fr # q" by (cases "kc_captured_queue cam") auto
  define cam1 where "cam1 = kc_say_if (fr = None) ''wait_for_captured_frameset: got nullptr'' (cam\<lparr>kc_captured_queue := q\<rparr>)"
  have s1: "same_pipeline cam cam1 \<and> kc_control cam1 = kc_control cam \<and> kc_stopped cam1 = kc_stopped cam"
    by (simp add: cam1_def same_pipeline_def)
  show ?thesis
  proof (cases "now < minimum")
    case True
    then show ?thesis
      using assms False s1 by (auto simp: captured_turn_def q cam1_def [symmetric] Let_def same_pipeline_def)
  next
    case late: False
    then obtain c2 where "release_frameset (kc_current_frameset cam) cam1 = Inr c2" "cam' = c2\<lparr>kc_current_frameset := fr\<rparr>"
      using assms False by (auto simp: captured_turn_def q cam1_def [symmetric] Let_def map_sum_Inr)
    then show ?thesis using s1
      by (auto simp: release_frameset_def same_pipeline_def capture_release_def split: option.splits if_splits)
  qed
qed

lemma processing_thread_stopped:
  "processing_thread_step sdk ev cam = Some (Inr cam') \<Longrightarrow> kc_stopped cam' = kc_stopped cam"
  by (auto simp: processing_thread_step_def at_processor_def dequeued_def process_frameset_def Let_def map_sum_Inr capture_release_def
      split: option.splits process_at.splits process_event.splits list.splits if_splits sum.splits)

lemma camera_step_pipeline:
  assumes p: "pipeline_ok sdk view cam" and step: "camera_step sdk a cam = Some (Inr cam')"
    and run: "\<not> kc_stopped cam'"
  shows "pipeline_ok sdk view cam'"
proof (cases a)
  case (Ca_capture ev)
  then show ?thesis using capture_thread_same [of ev cam cam'] step pipeline_same [OF p] run by simp
next
  case (Ca_process ev)
  have "kc_stopped cam' = kc_stopped cam" using step unfolding Ca_process by (simp add: processing_thread_stopped)
  with run have r: "\<not> kc_stopped cam" by simp
  then show ?thesis using processing_thread_pipeline [OF p _ r] step Ca_process by auto
next
  case (Ca_ask minimum)
  then show ?thesis using step p run by (auto simp: pipeline_ok_def processor_ready_def split: if_splits)
next
  case (Ca_look now)
  then obtain minimum r c1 where k: "kc_control cam = Ctl_capture minimum"
    and c: "captured_turn minimum now cam = Inr (r, c1)" "cam' = control_returned (r, c1)"
    using step by (auto simp: map_sum_Inr split: control_pc.splits)
  have s: "same_pipeline cam c1 \<and> kc_control c1 = kc_control cam \<and> kc_stopped c1 = kc_stopped cam"
    by (rule captured_turn_same [OF c(1)])
  then have "pipeline_ok sdk view c1" using pipeline_same [OF p] by blast
  then show ?thesis using s k run
    by (auto simp: c(2) control_returned_def pipeline_ok_def processor_ready_def split: option.splits)
next
  case (Ca_submit room)
  then obtain f where k: "kc_control cam = Ctl_idle" "kc_current_frameset cam = Some f"
    using step by (auto split: if_splits)
  have q: "processor_ready cam" "kc_processing_queue cam = []" "\<not> kc_processing_done cam" "\<not> kc_eof cam" "camera_view cam = view"
    using p k by (simp_all add: pipeline_ok_def)
  have "cam' = cam\<lparr>kc_processing_queue := [Some f], kc_current_frameset := None, kc_control := Ctl_submitted (Some f)\<rparr>"
    using step k q Ca_submit by (simp add: process_pointcloud_from_frameset_def try_enqueue_def)
  then show ?thesis using q run by (simp add: pipeline_defs)
next
  case Ca_wait
  then obtain fs where k: "kc_control cam = Ctl_submitted fs" and d: "kc_processing_done cam"
    and c: "cam' = cam\<lparr>kc_processing_done := False, kc_control := Ctl_idle\<rparr>"
    using step by (auto simp: wait_for_pointcloud_processed_def split: control_pc.splits if_splits)
  then show ?thesis using p run by (auto simp: pipeline_defs)
next
  case (Ca_stop room)
  then show ?thesis using step run by (auto simp: stop_camera_signal_def split: if_splits)
qed

lemma stopped_stays:
  assumes "camera_step sdk a cam = Some (Inr cam')" and "kc_stopped cam"
  shows "kc_stopped cam'"
proof (cases a)
  case (Ca_look now)
  then obtain minimum r c1 where "captured_turn minimum now cam = Inr (r, c1)" "cam' = control_returned (r, c1)"
    using assms(1) by (auto simp: map_sum_Inr split: control_pc.splits)
  then show ?thesis using captured_turn_same assms(2) by (auto simp: control_returned_def split: option.split)
next
  case (Ca_submit room)
  then obtain c1 where "process_pointcloud_from_frameset room cam = Inr c1" "kc_stopped cam' = kc_stopped c1"
    using assms(1) by (auto simp: map_sum_Inr split: if_splits)
  then show ?thesis using assms(2)
    by (auto simp: process_pointcloud_from_frameset_def map_sum_Inr Let_def release_frameset_def capture_release_def
        split: prod.splits if_splits option.splits)
qed (use assms capture_thread_same processing_thread_stopped in
  \<open>auto simp: wait_for_pointcloud_processed_def stop_camera_signal_def split: control_pc.splits if_splits\<close>)

lemma camera_run_pipeline:
  "camera_run sdk cam0 as cam \<Longrightarrow> freshly_started cam0 \<Longrightarrow> \<not> kc_stopped cam \<Longrightarrow>
    pipeline_ok sdk (camera_view cam0) cam"
proof (induction rule: camera_run.induct)
  case camera_run_start
  then show ?case by (auto simp: freshly_started_def start_camera_streaming_def pipeline_defs)
next
  case (camera_run_step as cam a cam')
  have run: "\<not> kc_stopped cam"
    using stopped_stays [OF camera_run_step.hyps(2)] camera_run_step.prems(2) by blast
  show ?case
    by (rule camera_step_pipeline [OF camera_run_step.IH [OF camera_run_step.prems(1) run]
          camera_run_step.hyps(2) camera_run_step.prems(2)])
qed

text \<open>
  C6. The cloud of a camera is the cloud of the frame that was submitted to it: in every execution, as long
  as the camera is not stopped, the control thread's wait for a cloud returns only after a
  frame was submitted, and the current cloud is then the one the image functions make of that frame with the
  camera's configuration, whatever the two threads did in between.
\<close>

theorem cloud_is_of_submitted_frame:
  assumes "camera_run sdk cam0 as cam" and "freshly_started cam0" and "\<not> kc_stopped cam"
    and "camera_step sdk Ca_wait cam = Some (Inr cam')"
  shows "\<exists>f mem ps. kc_control cam = Ctl_submitted (Some f) \<and>
    frameset_cloud sdk mem (camera_view cam0) f = Inr (Some ps) \<and> access_current_pcl_pointcloud cam' = Some ps"
proof -
  have p: "pipeline_ok sdk (camera_view cam0) cam" by (rule camera_run_pipeline [OF assms(1-3)])
  obtain fs where k: "kc_control cam = Ctl_submitted fs" and d: "kc_processing_done cam"
    and c: "cam' = cam\<lparr>kc_processing_done := False, kc_control := Ctl_idle\<rparr>"
    using assms(4) by (auto simp: wait_for_pointcloud_processed_def split: control_pc.splits if_splits)
  then show ?thesis using p
    by (simp add: pipeline_ok_def frame_progress_def access_current_pcl_pointcloud_def) blast
qed

text \<open>
  C34. A frame the SDK cannot transform is never reported: when the point cloud of the submitted frame is
  null, the processing thread does not set \<open>processing_done\<close>, and the control thread waits for it in every
  reachable state until the camera is stopped.
\<close>

theorem failed_frame_blocks_control:
  assumes "camera_run sdk cam0 as cam" and "freshly_started cam0" and "\<not> kc_stopped cam"
    and "kc_control cam = Ctl_submitted (Some f)"
    and "\<forall>mem. frameset_cloud sdk mem (camera_view cam0) f = Inr None"
  shows "camera_step sdk Ca_wait cam = None"
  using camera_run_pipeline [OF assms(1-3)] assms(4,5)
  by (auto simp: pipeline_ok_def frame_progress_def wait_for_pointcloud_processed_def)

section \<open>A stop ends the threads\<close>

fun thread_action :: "camera_action \<Rightarrow> bool" where
  "thread_action (Ca_capture _) = True"
| "thread_action (Ca_process _) = True"
| "thread_action _ = False"

text \<open>A thread step that does not wait for the queue's timeout of ten seconds.\<close>

definition prompt_action :: "camera_action \<Rightarrow> bool" where
  "prompt_action a \<longleftrightarrow> thread_action a \<and> a \<noteq> Ca_process Proc_timeout"

fun camera_exec :: "k4a_images \<Rightarrow> camera_action list \<Rightarrow> k4a_camera \<Rightarrow> k4a_camera option" where
  "camera_exec sdk [] cam = Some cam"
| "camera_exec sdk (a # as) cam =
     (case camera_step sdk a cam of Some (Inr cam') \<Rightarrow> camera_exec sdk as cam' | _ \<Rightarrow> None)"

fun capturer_left :: "capture_at option \<Rightarrow> nat" where
  "capturer_left (Some Cap_test) = 1"
| "capturer_left (Some Cap_create) = 4"
| "capturer_left (Some (Cap_grab _)) = 3"
| "capturer_left (Some (Cap_enqueue _)) = 2"
| "capturer_left _ = 0"

fun processor_left :: "process_at option \<Rightarrow> nat" where
  "processor_left (Some Proc_test) = 1"
| "processor_left (Some Proc_wait) = 3"
| "processor_left (Some (Proc_frame _)) = 2"
| "processor_left _ = 0"

definition steps_left :: "k4a_camera \<Rightarrow> nat" where
  "steps_left cam = capturer_left (kc_capturer cam) + processor_left (kc_processor cam)"

text \<open>What a stop establishes: nobody waits on an empty queue.\<close>

definition stopping :: "k4a_camera \<Rightarrow> bool" where
  "stopping cam \<longleftrightarrow> kc_stopped cam \<and> (kc_processor cam = Some Proc_wait \<longrightarrow> kc_processing_queue cam \<noteq> [])"

lemma capture_step_left:
  assumes "capture_thread_step ev cam = Some (Inr cam')" and "kc_stopped cam"
  shows "capturer_left (kc_capturer cam') < capturer_left (kc_capturer cam)"
proof -
  obtain pc where pc: "kc_capturer cam = Some pc" using assms by (auto simp: capture_thread_step_def split: option.splits)
  note step = assms(1) [unfolded capture_thread_step_def pc option.case]
  show ?thesis
  proof (cases pc)
    case (Cap_grab h)
    then obtain result written where "grab_capture result written h cam = Inr cam'" using step by (cases ev) auto
    then show ?thesis using pc Cap_grab
      by (cases "(result, written, h, cam)" rule: grab_capture.cases)
        (auto simp: at_capturer_def map_sum_Inr capture_create_def Let_def split: if_splits)
  qed (use step pc assms(2) in \<open>cases ev; auto simp: at_capturer_def map_sum_Inr capture_create_def Let_def split: if_splits\<close>)+
qed

lemma process_step_left:
  assumes "processing_thread_step sdk ev cam = Some (Inr cam')" and "kc_stopped cam"
  shows "processor_left (kc_processor cam') < processor_left (kc_processor cam) \<and> kc_processor cam' \<noteq> Some Proc_wait"
proof -
  obtain pc where pc: "kc_processor cam = Some pc" using assms by (auto simp: processing_thread_step_def split: option.splits)
  note step = assms(1) [unfolded processing_thread_step_def pc option.case]
  show ?thesis
    using step assms(2) pc
    by (cases pc; cases ev)
      (auto simp: at_processor_def dequeued_def map_sum_Inr split: list.splits option.splits if_splits)
qed

lemma capture_step_processor:
  assumes "processing_thread_step sdk ev cam = Some (Inr cam')"
  shows "kc_capturer cam' = kc_capturer cam"
  using assms
  by (auto simp: processing_thread_step_def at_processor_def dequeued_def process_frameset_def Let_def map_sum_Inr capture_release_def
      split: option.splits process_at.splits process_event.splits list.splits if_splits sum.splits)

lemma thread_step_stopping:
  assumes "stopping cam" and "thread_action a" and "camera_step sdk a cam = Some (Inr cam')"
  shows "stopping cam' \<and> steps_left cam' < steps_left cam"
proof (cases a)
  case (Ca_capture ev)
  then show ?thesis
    using assms capture_step_left capture_thread_same by (auto simp: stopping_def steps_left_def same_pipeline_def)
next
  case (Ca_process ev)
  then show ?thesis
    using assms process_step_left capture_step_processor processing_thread_stopped
    by (auto simp: stopping_def steps_left_def)
qed (use assms(2) in simp_all)

lemma camera_stopping_run:
  "camera_exec sdk as cam = Some cam' \<Longrightarrow> stopping cam \<Longrightarrow> list_all thread_action as \<Longrightarrow>
    stopping cam' \<and> length as + steps_left cam' \<le> steps_left cam"
proof (induction as arbitrary: cam)
  case (Cons a as)
  then obtain c1 where c: "camera_step sdk a cam = Some (Inr c1)" "camera_exec sdk as c1 = Some cam'"
    by (auto split: option.splits sum.splits)
  then show ?case
    using thread_step_stopping [of cam a sdk c1] Cons.IH [of c1] Cons.prems by force
qed simp

lemma prompt_step:
  assumes "stopping cam" and "\<not> threads_ended cam"
  shows "\<exists>a r. prompt_action a \<and> camera_step sdk a cam = Some r"
proof (cases "kc_capturer cam \<in> {None, Some Cap_done}")
  case False
  then obtain pc where pc: "kc_capturer cam = Some pc" "pc \<noteq> Cap_done" by auto
  have "\<exists>ev r. capture_thread_step ev cam = Some r"
  proof (cases pc)
    case Cap_test
    then show ?thesis using pc by (intro exI [of _ Cap_go]) (simp add: capture_thread_step_def)
  next
    case Cap_create
    then show ?thesis using pc by (intro exI [of _ "Cap_created False"]) (simp add: capture_thread_step_def)
  next
    case (Cap_grab h)
    then show ?thesis using pc by (intro exI [of _ "Cap_got None False"]) (simp add: capture_thread_step_def)
  next
    case (Cap_enqueue f)
    then show ?thesis using pc by (intro exI [of _ "Cap_room False"]) (simp add: capture_thread_step_def)
  qed (use pc in simp)
  then obtain ev r where "camera_step sdk (Ca_capture ev) cam = Some r" by auto
  then show ?thesis by (intro exI [of _ "Ca_capture ev"]) (simp add: prompt_action_def)
next
  case True
  then obtain pc where pc: "kc_processor cam = Some pc" "pc \<noteq> Proc_done" using assms(2) by (auto simp: threads_ended_def)
  have "\<exists>ev r. ev \<noteq> Proc_timeout \<and> processing_thread_step sdk ev cam = Some r"
  proof (cases pc)
    case Proc_test
    then show ?thesis using pc by (intro exI [of _ Proc_go]) (simp add: processing_thread_step_def)
  next
    case Proc_wait
    then obtain r q where "kc_processing_queue cam = r # q"
      using assms(1) pc by (cases "kc_processing_queue cam") (auto simp: stopping_def)
    then show ?thesis using pc Proc_wait by (intro exI [of _ Proc_dequeue]) (simp add: processing_thread_step_def)
  next
    case (Proc_frame f)
    then show ?thesis using pc by (intro exI [of _ "Proc_images (False, [])"]) (simp add: processing_thread_step_def)
  qed (use pc in simp)
  then obtain ev r where "ev \<noteq> Proc_timeout" "camera_step sdk (Ca_process ev) cam = Some r" by auto
  then show ?thesis by (intro exI [of _ "Ca_process ev"]) (simp add: prompt_action_def)
qed

text \<open>
  C23. A stop ends both threads of a camera: after \<open>stop_camera\<close> has set its flag, the threads make at most
  seven more steps between them, in any order, and as long as one of them has not ended there is a
  step to make that does not wait for the timeout of the processing queue. So the joins return.
\<close>

theorem camera_stop_terminates:
  assumes "\<not> kc_stopped cam" and "camera_exec sdk as (stop_camera_signal room cam) = Some cam'"
    and "list_all thread_action as"
  shows "length as \<le> 7 \<and> (threads_ended cam' \<or> (\<exists>a r. prompt_action a \<and> camera_step sdk a cam' = Some r))"
proof -
  have "stopping (stop_camera_signal room cam)"
    using assms(1) by (auto simp: stopping_def stop_camera_signal_def try_enqueue_def)
  then have r: "stopping cam'" "length as + steps_left cam' \<le> steps_left (stop_camera_signal room cam)"
    using camera_stopping_run [OF assms(2) _ assms(3)] by simp_all
  have "capturer_left pc \<le> 4" "processor_left pc' \<le> 3" for pc pc'
    by (cases pc rule: capturer_left.cases; simp) (cases pc' rule: processor_left.cases; simp)
  then have "steps_left c \<le> 7" for c
    unfolding steps_left_def using add_mono by fastforce
  with r have "length as \<le> 7" by (meson add_leD1 order_trans)
  with prompt_step [OF r(1)] show ?thesis by blast
qed

section \<open>After a stop\<close>

text \<open>What is left of the captures once the threads are joined: those in the queues, and the leaked ones.\<close>

lemma stopped_camera_captures:
  assumes "handles_ok cam" and "threads_ended cam" and "stop_camera_joined flushed cam = Inr cam'"
  shows "kc_live cam' = leaked_captures cam \<union>
      set (concat (map frameset_holds (kc_captured_queue cam @ kc_processing_queue cam)))"
proof -
  have ends: "capturer_holds (kc_capturer cam) = []" "processor_holds (kc_processor cam) = []"
    using assms(2) by (auto simp: threads_ended_def)
  have live: "kc_live cam' = kc_live cam - set (frameset_holds (kc_current_frameset cam))"
    using assms(3)
    by (cases "kc_current_frameset cam"; cases "kc_started cam"; cases "kc_recorder cam")
      (auto simp: stop_camera_joined_def Let_def release_frameset_def capture_release_def split: if_splits)
  then show ?thesis
    using assms(1) ends by (auto simp: handles_ok_def leaked_captures_def held_captures_def)
qed

text \<open>
  A camera that was started but never streamed, because another one failed to start, is not stopped:
  \<open>stop_camera\<close> takes it for stopped already, and its device keeps running.
\<close>

lemma started_camera_not_stopped:
  assumes "start_camera sa cam = (True, cam1)" and "kc_stopped cam"
  shows "kc_running (stop_camera_signal room cam1) \<and> threads_ended cam1 = threads_ended cam"
proof -
  have "kc_running cam1 \<and> kc_stopped cam1 \<and> kc_capturer cam1 = kc_capturer cam \<and> kc_processor cam1 = kc_processor cam"
    using start_camera_result [OF assms(1)] assms(2) by auto
  then show ?thesis by (simp add: stop_camera_signal_def kc_say_def threads_ended_def)
qed

section \<open>Witnesses\<close>

text \<open>A camera at 720 lines and 30 frames, and a device that accepts everything.\<close>

definition sample_answers :: start_answers where
  "sample_answers = \<lparr>sa_sdk = plain_sdk, sa_extrinsics = Some ([], []), sa_start_ok = True, sa_record_ok = True,
     sa_header_ok = True\<rparr>"

definition sample_new :: k4a_camera where
  "sample_new = new_k4a_camera 0 ''A'' [] [] new_k4a_hardware new_k4a_processing (new_k4a_filtering\<lparr>do_threshold := False\<rparr>)
     (Some identity_trafo)"

definition sample_started :: k4a_camera where
  "sample_started = snd (start_camera sample_answers sample_new)"

lemma sample_starts: "start_camera sample_answers sample_new = (True, sample_started)"
proof -
  have "fst (start_camera sample_answers sample_new)"
    by (simp add: start_camera_def sample_answers_def sample_new_def new_k4a_camera_def init_config_for_this_camera_def
        new_k4a_hardware_def color_resolution_of_def depth_mode_of_def camera_rate_of_def Let_def start_recorder_def
        split: prod.split)
  then show ?thesis by (metis prod.collapse sample_started_def)
qed

lemma sample_fresh: "freshly_started sample_started"
  using sample_starts unfolding sample_new_def by (rule start_freshly_started)

lemma camera_exec_run:
  "camera_run sdk cam0 as cam \<Longrightarrow> camera_exec sdk bs cam = Some cam' \<Longrightarrow> camera_run sdk cam0 (as @ bs) cam'"
proof (induction bs arbitrary: as cam)
  case (Cons b bs)
  then obtain c where "camera_step sdk b cam = Some (Inr c)" "camera_exec sdk bs c = Some cam'"
    by (auto split: option.splits sum.splits)
  then show ?case using Cons.IH [of "as @ [b]" c] Cons.prems(1) camera_run_step by fastforce
qed simp

text \<open>One frame without pixels, from the device to the control thread.\<close>

definition no_depth :: depth_image where "no_depth = \<lparr>di_width = 0, di_height = 0, di_data = []\<rparr>"
definition no_color :: color_image where
  "no_color = \<lparr>ci_format = Color_BGRA32, ci_width = 0, ci_height = 0, ci_data = [], ci_jpeg = []\<rparr>"

definition sample_frame :: frameset where
  "sample_frame = \<lparr>fs_handle = 1, fs_depth = no_depth, fs_color = no_color\<rparr>"

definition sample_grab :: "camera_action list" where
  "sample_grab = [Ca_capture Cap_go, Ca_capture (Cap_created True), Ca_capture (Cap_got (Some (Some (no_depth, no_color))) True),
     Ca_capture (Cap_room True), Ca_ask 0, Ca_look 5, Ca_submit True, Ca_process Proc_go, Ca_process Proc_dequeue]"

lemma sample_grab_run:
  assumes "freshly_started c" and "kc_recorder c = None"
  shows "\<exists>cam. camera_exec sdk sample_grab (start_camera_streaming c) = Some cam \<and> kc_processor cam = Some (Proc_frame sample_frame) \<and>
    kc_control cam = Ctl_submitted (Some sample_frame) \<and> kc_live cam = {0, 1} \<and> \<not> kc_stopped cam \<and>
    camera_view cam = camera_view c \<and> kc_capturer cam = Some Cap_test"
  using assms
  by (simp add: freshly_started_def start_camera_streaming_def sample_grab_def capture_thread_step_def at_capturer_def
      capture_create_def record_capture_def deposit_capture_def try_enqueue_def captured_turn_def control_returned_def
      release_frameset_def process_pointcloud_from_frameset_def processing_thread_step_def at_processor_def dequeued_def
      kc_say_if_def sample_frame_def Let_def insert_commute)

lemma sample_recorder: "kc_recorder sample_started = None"
proof -
  obtain r t u where "sample_started = (snd (start_recorder sample_answers
      (sample_new\<lparr>view_rotation := r, view_translation := t, kc_transformation := True, view_uv := u, kc_running := True\<rparr>)))
      \<lparr>kc_started := True\<rparr>"
    using start_camera_result [OF sample_starts] by blast
  then have "kc_recorder sample_started = kc_recorder (snd (start_recorder sample_answers
      (sample_new\<lparr>view_rotation := r, view_translation := t, kc_transformation := True, view_uv := u, kc_running := True\<rparr>)))"
    by (elim ssubst) simp
  then show ?thesis by (simp add: start_recorder_def sample_new_def new_k4a_camera_def)
qed

lemma sample_filtering: "view_filtering (camera_view sample_started) = new_k4a_filtering\<lparr>do_threshold := False\<rparr>"
proof -
  obtain r t u where "sample_started = (snd (start_recorder sample_answers
      (sample_new\<lparr>view_rotation := r, view_translation := t, kc_transformation := True, view_uv := u, kc_running := True\<rparr>)))
      \<lparr>kc_started := True\<rparr>"
    using start_camera_result [OF sample_starts] by blast
  then have "camera_view sample_started = camera_view (snd (start_recorder sample_answers
      (sample_new\<lparr>view_rotation := r, view_translation := t, kc_transformation := True, view_uv := u, kc_running := True\<rparr>)))"
    by (elim ssubst) simp
  then show ?thesis by (simp add: start_recorder_def sample_new_def new_k4a_camera_def camera_view_def k4a_view.defs)
qed

lemma sample_cloud_empty:
  "frameset_cloud plain_sdk mem (camera_view sample_started) sample_frame = Inr (Some [])"
  by (simp add: sample_filtering frameset_cloud_def apply_filters_to_depth_image_def uncompress_color_image_def sample_frame_def
        no_color_def no_depth_def generate_point_cloud_color_to_depth_def generate_point_cloud_depth_to_color_def
        generate_point_cloud_common_def plain_sdk_def Let_def split: option.split)

lemma sample_failed_cloud:
  "frameset_cloud (plain_sdk\<lparr>k4l_color_to_depth := \<lambda>_ _. None, k4l_depth_to_color := \<lambda>_ _. None\<rparr>) mem
     (camera_view sample_started) sample_frame = Inr None"
  by (simp add: sample_filtering frameset_cloud_def apply_filters_to_depth_image_def
        generate_point_cloud_color_to_depth_def generate_point_cloud_depth_to_color_def Let_def)

text \<open>The run from the start of the camera up to the processing of its first frame.\<close>

lemma sample_grabbed:
  "\<exists>cam. camera_run sdk sample_started sample_grab cam \<and> kc_processor cam = Some (Proc_frame sample_frame) \<and>
    kc_control cam = Ctl_submitted (Some sample_frame) \<and> kc_live cam = {0, 1} \<and> \<not> kc_stopped cam \<and>
    camera_view cam = camera_view sample_started \<and> kc_capturer cam = Some Cap_test"
  using sample_grab_run [OF sample_fresh sample_recorder, of sdk]
    camera_exec_run [OF camera_run_start, of sdk sample_grab sample_started] by auto

theorem captures_never_dangle_witness:
  "\<exists>cam. camera_run plain_sdk sample_started sample_grab cam \<and> kc_live cam = {0, 1} \<and> distinct (held_captures cam) \<and>
     set (held_captures cam) \<subseteq> {0, 1}"
  using sample_grabbed [of plain_sdk] captures_never_dangle [OF _ sample_fresh, of plain_sdk sample_grab] by metis

theorem every_grab_leaks_witness:
  "\<exists>cam. camera_run plain_sdk sample_started sample_grab cam \<and> 1 \<le> card (leaked_captures cam)"
proof -
  have "grabs sample_grab = 1" by (simp add: grabs_def sample_grab_def)
  then show ?thesis
    using sample_grabbed [of plain_sdk] every_grab_leaks [OF _ sample_fresh, of plain_sdk sample_grab] by auto
qed

theorem cloud_is_of_submitted_frame_witness:
  "\<exists>cam cam'. camera_run plain_sdk sample_started (sample_grab @ [Ca_process (Proc_images (False, []))]) cam \<and>
     camera_step plain_sdk Ca_wait cam = Some (Inr cam') \<and>
     (\<exists>f mem ps. frameset_cloud plain_sdk mem (camera_view sample_started) f = Inr (Some ps) \<and>
        access_current_pcl_pointcloud cam' = Some ps)"
proof -
  obtain cam where c: "camera_run plain_sdk sample_started sample_grab cam" "kc_processor cam = Some (Proc_frame sample_frame)"
    "kc_control cam = Ctl_submitted (Some sample_frame)" "kc_live cam = {0, 1}" "\<not> kc_stopped cam"
    "camera_view cam = camera_view sample_started"
    using sample_grabbed by blast
  have "\<exists>cam1. camera_step plain_sdk (Ca_process (Proc_images (False, []))) cam = Some (Inr cam1) \<and>
      kc_processing_done cam1 \<and> kc_control cam1 = Ctl_submitted (Some sample_frame) \<and> \<not> kc_stopped cam1"
    using c(2-6) sample_cloud_empty [of "(False, [])"]
    by (simp add: processing_thread_step_def process_frameset_def sample_frame_def Let_def capture_release_def
        at_processor_def cloud_made_def)
  then obtain cam1 where d: "camera_step plain_sdk (Ca_process (Proc_images (False, []))) cam = Some (Inr cam1)"
    "kc_processing_done cam1" "kc_control cam1 = Ctl_submitted (Some sample_frame)" "\<not> kc_stopped cam1" by blast
  have r: "camera_run plain_sdk sample_started (sample_grab @ [Ca_process (Proc_images (False, []))]) cam1"
    by (rule camera_run_step [OF c(1) d(1)])
  obtain cam' where w: "camera_step plain_sdk Ca_wait cam1 = Some (Inr cam')"
    using d(2,3) by (simp add: wait_for_pointcloud_processed_def)
  show ?thesis using r w cloud_is_of_submitted_frame [OF r sample_fresh d(4) w] by blast
qed

theorem failed_frame_blocks_control_witness:
  "\<exists>cam. kc_control cam = Ctl_submitted (Some sample_frame) \<and>
     camera_step (plain_sdk\<lparr>k4l_color_to_depth := \<lambda>_ _. None, k4l_depth_to_color := \<lambda>_ _. None\<rparr>) Ca_wait cam = None"
proof -
  define sdk where "sdk = plain_sdk\<lparr>k4l_color_to_depth := \<lambda>_ _. None, k4l_depth_to_color := \<lambda>_ _. None\<rparr>"
  obtain cam where c: "camera_run sdk sample_started sample_grab cam" "kc_control cam = Ctl_submitted (Some sample_frame)"
    "\<not> kc_stopped cam"
    using sample_grabbed by blast
  have "camera_step sdk Ca_wait cam = None"
    by (rule failed_frame_blocks_control [OF c(1) sample_fresh c(3) c(2)]) (simp add: sdk_def sample_failed_cloud)
  with c(2) show ?thesis unfolding sdk_def by blast
qed

theorem camera_stop_terminates_witness:
  "\<exists>cam cam'. \<not> kc_stopped cam \<and>
     camera_exec plain_sdk [Ca_capture Cap_go] (stop_camera_signal True cam) = Some cam' \<and>
     (threads_ended cam' \<or> (\<exists>a r. prompt_action a \<and> camera_step plain_sdk a cam' = Some r))"
proof -
  obtain cam :: k4a_camera where c: "\<not> kc_stopped cam" "kc_capturer cam = Some Cap_test"
    using sample_grabbed [of plain_sdk] by blast
  define c1 where "c1 = stop_camera_signal True cam"
  have "kc_capturer c1 = Some Cap_test" "kc_stopped c1" using c by (simp_all add: c1_def stop_camera_signal_def)
  then have e: "camera_exec plain_sdk [Ca_capture Cap_go] (stop_camera_signal True cam) = Some (at_capturer Cap_done c1)"
    unfolding c1_def [symmetric] by (simp add: capture_thread_step_def)
  have "threads_ended (at_capturer Cap_done c1) \<or>
      (\<exists>a r. prompt_action a \<and> camera_step plain_sdk a (at_capturer Cap_done c1) = Some r)"
    using camera_stop_terminates [OF c(1) e] by simp
  with c(1) e show ?thesis by blast
qed

end
