(* ===== verification/KinectPlayback.thy ===== *)
theory KinectPlayback
  imports KinectCameraRuns
begin

text \<open>
  Playing back Kinect recordings (\<open>K4APlaybackCamera.cpp\<close>, \<open>K4APlaybackCapture.cpp\<close>): opening the
  files of a configuration, reading the next complete frame of a file, finding the frame of a file that
  goes with the master's, capturing one frame from every file, seeking and stopping. A file is the list
  of what \<open>k4a_playback_get_next_capture\<close> still delivers. The processing thread and the rest of a
  camera are those of KinectCamera. The messages of debug mode are left out.
\<close>

section \<open>State\<close>

text \<open>
  One read of a recording: a capture, with the device timestamp of its colour image and either image
  missing, or a failure.
\<close>

datatype recorded = Recorded "(u64 \<times> color_image) option" "depth_image option" | Unreadable

record playback_camera =
  pb_base :: k4a_camera
  pb_frames :: "recorded list"
  pb_capture_id :: int
  pb_timestamp :: u64
  pb_max_delay :: u64
  pb_start_offset :: u64
  pb_length :: u64

definition new_playback_camera :: "k4a_camera \<Rightarrow> recorded list \<Rightarrow> u64 \<Rightarrow> u64 \<Rightarrow> playback_camera" where
  "new_playback_camera base frames start len =
     \<lparr>pb_base = base, pb_frames = frames, pb_capture_id = - 1, pb_timestamp = 0, pb_max_delay = 0,
      pb_start_offset = start, pb_length = len\<rparr>"

definition pb_say :: "string \<Rightarrow> playback_camera \<Rightarrow> playback_camera" where
  "pb_say t pb = pb\<lparr>pb_base := kc_say t (pb_base pb)\<rparr>"

section \<open>The next complete frame\<close>

text \<open>An image that is not there; a capture that has one is never used.\<close>

definition missing_depth :: depth_image where
  "missing_depth = \<lparr>di_width = 0, di_height = 0, di_data = []\<rparr>"

definition missing_color :: color_image where
  "missing_color = \<lparr>ci_format = Color_other, ci_width = 0, ci_height = 0, ci_data = [], ci_jpeg = []\<rparr>"

definition release_current :: "playback_camera \<Rightarrow> fault + playback_camera" where
  "release_current pb =
     map_sum id (\<lambda>cam. pb\<lparr>pb_base := cam\<lparr>kc_current_frameset := None\<rparr>\<rparr>)
       (release_frameset (kc_current_frameset (pb_base pb)) (pb_base pb))"

text \<open>\<open>k4a_playback_get_next_capture\<close> has delivered a capture, which is the current one now.\<close>

definition take_capture :: "(u64 \<times> color_image) option \<Rightarrow> depth_image option \<Rightarrow> playback_camera \<Rightarrow> playback_camera" where
  "take_capture c d pb =
     (let (h, cam) = capture_create (pb_base pb);
          f = \<lparr>fs_handle = h, fs_depth = (case d of Some im \<Rightarrow> im | None \<Rightarrow> missing_depth),
               fs_color = (case c of Some (_, im) \<Rightarrow> im | None \<Rightarrow> missing_color)\<rparr>
      in pb\<lparr>pb_base := cam\<lparr>kc_current_frameset := Some f\<rparr>, pb_frames := tl (pb_frames pb),
            pb_capture_id := pb_capture_id pb + 1\<rparr>)"

definition missing_image :: "string \<Rightarrow> playback_camera \<Rightarrow> playback_camera" where
  "missing_image what pb = pb_say (what @ '' is missing in frame '' @ to_string (pb_capture_id pb)) pb"

definition at_end_of_file :: "playback_camera \<Rightarrow> playback_camera" where
  "at_end_of_file pb =
     pb_say (if pb_timestamp pb = 0 then ''Recording file is empty.''
             else ''Recording file reached EOF at frame '' @ to_string (pb_capture_id pb))
       (pb\<lparr>pb_base := (pb_base pb)\<lparr>kc_eof := True\<rparr>\<rparr>)"

definition waiting_for_file :: "playback_camera \<Rightarrow> playback_camera" where
  "waiting_for_file pb = pb\<lparr>pb_base := (pb_base pb)\<lparr>kc_waiting := True\<rparr>\<rparr>"

text \<open>The loop of \<open>_capture_next_valid_frame\<close>, over the reads that are left.\<close>

fun next_valid_frame :: "recorded list \<Rightarrow> playback_camera \<Rightarrow> fault + bool \<times> playback_camera" where
  "next_valid_frame fs pb =
     (if kc_stopped (pb_base pb) then Inr (False, pb)
      else case release_current pb of
        Inl e \<Rightarrow> Inl e
      | Inr pb1 \<Rightarrow>
          let pb2 = waiting_for_file pb1 in
          (case fs of
             [] \<Rightarrow> Inr (False, at_end_of_file pb2)
           | Unreadable # rest \<Rightarrow> Inr (False, pb_say ''First capture failed'' (pb2\<lparr>pb_frames := rest\<rparr>))
           | Recorded c d # rest \<Rightarrow>
               let pb3 = take_capture c d pb2 in
               (case (c, d) of
                  (Some (ts, _), Some _) \<Rightarrow> Inr (True, pb3\<lparr>pb_timestamp := ts\<rparr>)
                | (None, _) \<Rightarrow> next_valid_frame rest (missing_image ''Color'' pb3)
                | (Some _, None) \<Rightarrow> next_valid_frame rest (missing_image ''Depth'' pb3))))"

declare next_valid_frame.simps [simp del]

definition capture_next_valid_frame :: "playback_camera \<Rightarrow> fault + bool \<times> playback_camera" where
  "capture_next_valid_frame pb = next_valid_frame (pb_frames pb) pb"

section \<open>The frame for a timestamp\<close>

text \<open>The loop of \<open>_capture_frame_no_earlier_than_timestamp\<close>. Every turn reads at least one capture.\<close>

lemma release_current_frames:
  "release_current pb = Inr pb' \<Longrightarrow> pb_frames pb' = pb_frames pb"
  by (auto simp: release_current_def map_sum_Inr)

lemma playback_frames_simps [simp]:
  "pb_frames (pb_say t pb) = pb_frames pb" "pb_frames (missing_image t pb) = pb_frames pb"
  "pb_frames (at_end_of_file pb) = pb_frames pb" "pb_frames (waiting_for_file pb) = pb_frames pb"
  "pb_frames (take_capture c d pb) = tl (pb_frames pb)"
  by (simp_all add: pb_say_def missing_image_def at_end_of_file_def waiting_for_file_def take_capture_def capture_create_def)

lemma next_valid_frame_shortens:
  "next_valid_frame fs pb = Inr (True, pb') \<Longrightarrow> fs = pb_frames pb \<Longrightarrow> length (pb_frames pb') < length fs"
proof (induction fs arbitrary: pb)
  case Nil
  then show ?case by (subst (asm) next_valid_frame.simps) (auto simp: Let_def split: sum.splits if_splits)
next
  case (Cons r rest)
  obtain pb1 where r1: "release_current pb = Inr pb1"
    using Cons.prems(1) by (subst (asm) next_valid_frame.simps) (auto split: sum.splits if_splits)
  have f: "pb_frames (take_capture c d (waiting_for_file pb1)) = rest" for c d
    using release_current_frames [OF r1] Cons.prems(2) by (metis list.sel(3) playback_frames_simps(4,5))
  show ?case
  proof (cases r)
    case Unreadable
    then show ?thesis using Cons.prems(1) r1 by (subst (asm) next_valid_frame.simps) (auto simp: Let_def split: if_splits)
  next
    case (Recorded c d)
    then consider ts im im' where "c = Some (ts, im)" "d = Some im'" | "c = None" | x where "c = Some x" "d = None"
      by (cases c; cases d) auto
    then show ?thesis
    proof cases
      case 1
      then have "pb_frames pb' = rest"
        using Cons.prems(1) r1 Recorded f by (subst (asm) next_valid_frame.simps) (auto simp: Let_def split: if_splits)
      then show ?thesis by simp
    next
      case 2
      then have r: "next_valid_frame rest (missing_image ''Color'' (take_capture c d (waiting_for_file pb1))) = Inr (True, pb')"
        using Cons.prems(1) r1 Recorded by (subst (asm) next_valid_frame.simps) (auto simp: Let_def split: if_splits)
      have "rest = pb_frames (missing_image ''Color'' (take_capture c d (waiting_for_file pb1)))"
        by (simp only: playback_frames_simps(2) f)
      from Cons.IH [OF r this] show ?thesis by simp
    next
      case 3
      then have r: "next_valid_frame rest (missing_image ''Depth'' (take_capture c d (waiting_for_file pb1))) = Inr (True, pb')"
        using Cons.prems(1) r1 Recorded by (subst (asm) next_valid_frame.simps) (auto simp: Let_def split: if_splits)
      have "rest = pb_frames (missing_image ''Depth'' (take_capture c d (waiting_for_file pb1)))"
        by (simp only: playback_frames_simps(2) f)
      from Cons.IH [OF r this] show ?thesis by simp
    qed
  qed
qed

function frame_loop :: "u64 \<Rightarrow> playback_camera \<Rightarrow> fault + bool \<times> playback_camera" where
  "frame_loop master_timestamp pb =
     (case capture_next_valid_frame pb of
        Inl e \<Rightarrow> Inl e
      | Inr (ok, pb1) \<Rightarrow>
          if \<not> ok then Inr (False, pb1)
          else if master_timestamp < pb_timestamp pb1
          then Inr (True, if master_timestamp + pb_max_delay pb1 < pb_timestamp pb1
                          then pb_say (''Using frame with timestamp '' @ to_string (uint (pb_timestamp pb1))
                                 @ '', too early by '' @ to_string (uint (pb_timestamp pb1 - master_timestamp))) pb1
                          else pb1)
          else frame_loop master_timestamp pb1)"
  by pat_completeness auto
termination
  by (relation "measure (\<lambda>(_, pb). length (pb_frames pb))")
    (auto simp: capture_next_valid_frame_def dest: next_valid_frame_shortens)

declare frame_loop.simps [simp del]

definition capture_frame_no_earlier_than_timestamp :: "u64 \<Rightarrow> playback_camera \<Rightarrow> fault + bool \<times> playback_camera" where
  "capture_frame_no_earlier_than_timestamp master_timestamp pb =
     (if kc_current_frameset (pb_base pb) \<noteq> None \<and> master_timestamp < pb_timestamp pb
      then Inr (True, pb_say (''Reusing frame with timestamp '' @ to_string (uint (pb_timestamp pb))
                        @ '' for master timestamp '' @ to_string (uint master_timestamp)) pb)
      else frame_loop master_timestamp pb)"

text \<open>\<open>wait_for_captured_frameset\<close>: the timestamp of the frame, zero when there is none.\<close>

definition playback_wait :: "u64 \<Rightarrow> playback_camera \<Rightarrow> fault + u64 \<times> playback_camera" where
  "playback_wait earliest_timestamp pb =
     (if kc_stopped (pb_base pb) then Inr (0, pb)
      else map_sum id (\<lambda>(ok, pb1). (if ok then pb_timestamp pb1 else 0, pb1))
             (if 0 < earliest_timestamp then capture_frame_no_earlier_than_timestamp earliest_timestamp pb
              else capture_next_valid_frame pb))"

section \<open>Starting, seeking, stopping\<close>

text \<open>\<open>configured\<close>: whether the configuration of the recording could be read.\<close>

definition playback_start_camera :: "start_answers \<Rightarrow> bool \<Rightarrow> playback_camera \<Rightarrow> bool \<times> playback_camera" where
  "playback_start_camera sa configured pb =
     (case sa_extrinsics sa of
        None \<Rightarrow>
          (False, pb_say ''Failed to k4a_device_get_calibration'' (pb\<lparr>pb_base := (pb_base pb)\<lparr>kc_started := False\<rparr>\<rparr>))
      | Some (rotation, translation) \<Rightarrow>
          let cam1 = (pb_base pb)\<lparr>view_rotation := rotation, view_translation := translation, kc_transformation := True\<rparr>;
              cam2 = (if view_uv cam1 = None then create_depth_uv_mapping (sa_sdk sa) cam1 else cam1);
              pb2 = pb\<lparr>pb_base := cam2\<rparr>
          in if \<not> configured then (False, pb_say ''Failed to get record configuration'' pb2)
             else (True, pb2\<lparr>pb_base := cam2\<lparr>kc_started := True\<rparr>, pb_max_delay := 10 * 160\<rparr>))"

text \<open>\<open>file\<close> is the recording: what it delivers from a timestamp on, \<open>None\<close> when it cannot seek there.\<close>

definition playback_seek :: "(u64 \<Rightarrow> recorded list option) \<Rightarrow> u64 \<Rightarrow> playback_camera \<Rightarrow> bool \<times> playback_camera" where
  "playback_seek recording timestamp pb =
     (let first_t = pb_start_offset pb; last_t = first_t + pb_length pb
      in if last_t < timestamp
         then (False, pb_say (''seek timestamp '' @ to_string (uint timestamp) @ '' out of range start=''
                        @ to_string (uint first_t) @ '', stop='' @ to_string (uint last_t)) pb)
         else case recording timestamp of
                None \<Rightarrow> (False, pb)
              | Some frames \<Rightarrow> (True, pb\<lparr>pb_frames := frames\<rparr>))"

text \<open>\<open>stop_camera\<close> up to the join and after it; there is no capture thread.\<close>

definition playback_stop_signal :: "bool \<Rightarrow> playback_camera \<Rightarrow> playback_camera" where
  "playback_stop_signal room pb =
     (if kc_stopped (pb_base pb) then pb
      else pb\<lparr>pb_base := (pb_base pb)\<lparr>kc_stopped := True,
             kc_processing_queue := snd (try_enqueue room None (kc_processing_queue (pb_base pb)))\<rparr>\<rparr>)"

definition playback_stop_joined :: "playback_camera \<Rightarrow> fault + playback_camera" where
  "playback_stop_joined pb =
     map_sum id (\<lambda>pb1. pb1\<lparr>pb_base := (pb_base pb1)\<lparr>kc_handle := False, kc_transformation := False,
                                kc_processing_done := True\<rparr>\<rparr>)
       (release_current (pb\<lparr>pb_base := (pb_base pb)\<lparr>kc_processor := None, kc_started := False\<rparr>\<rparr>))"

section \<open>All cameras\<close>

text \<open>One camera of the vector is asked for a frame.\<close>

definition ask_camera :: "u64 \<Rightarrow> nat \<Rightarrow> playback_camera list \<Rightarrow> fault + u64 \<times> playback_camera list" where
  "ask_camera timestamp i cams =
     map_sum id (\<lambda>(ts, pb). (ts, cams[i := pb])) (playback_wait timestamp (cams ! i))"

definition pb_master :: "playback_camera \<Rightarrow> bool" where
  "pb_master pb = kc_ismaster (pb_base pb)"

text \<open>The second loop of \<open>_capture_all_cameras\<close>; the messages are the capturer's.\<close>

fun capture_others ::
  "nat list \<Rightarrow> u64 \<Rightarrow> playback_camera list \<times> string list \<Rightarrow> fault + bool \<times> u64 \<times> playback_camera list \<times> string list" where
  "capture_others [] timestamp (cams, log) = Inr (True, timestamp, cams, log)"
| "capture_others (i # is) timestamp (cams, log) =
     (if pb_master (cams ! i) then capture_others is timestamp (cams, log)
      else case ask_camera timestamp i cams of
        Inl e \<Rightarrow> Inl e
      | Inr (ts, cams1) \<Rightarrow>
          if ts = 0
          then Inr (False, timestamp, cams1,
                 log @ [''failed to capture frameset for camera '' @ kc_serial (pb_base (cams1 ! i))])
          else capture_others is (if timestamp = 0 then ts else timestamp) (cams1, log))"

definition playback_capture_all ::
  "u64 \<Rightarrow> playback_camera list \<times> string list \<Rightarrow> fault + bool \<times> u64 \<times> playback_camera list \<times> string list" where
  "playback_capture_all timestamp s =
     (case s of (cams, log) \<Rightarrow>
      case find (\<lambda>i. pb_master (cams ! i)) [0..<length cams] of
        None \<Rightarrow> capture_others [0..<length cams] timestamp (cams, log)
      | Some m \<Rightarrow>
          (case ask_camera timestamp m cams of
             Inl e \<Rightarrow> Inl e
           | Inr (ts, cams1) \<Rightarrow>
               if ts = 0 then Inr (False, 0, cams1, log)
               else capture_others [0..<length cams] ts (cams1, log)))"

text \<open>\<open>seek\<close> of the capturer stops at the first camera that fails.\<close>

fun seek_all ::
  "(nat \<Rightarrow> u64 \<Rightarrow> recorded list option) \<Rightarrow> u64 \<Rightarrow> nat \<Rightarrow> playback_camera list \<Rightarrow> bool \<times> playback_camera list \<times> string list" where
  "seek_all recordings timestamp i [] = (True, [], [])"
| "seek_all recordings timestamp i (pb # pbs) =
     (let (ok, pb1) = playback_seek (recordings i) timestamp pb
      in if \<not> ok
         then (False, pb1 # pbs, [''Camera '' @ kc_serial (pb_base pb1) @ '' failed to seek to timestamp ''
                                  @ to_string (uint timestamp)])
         else (case seek_all recordings timestamp (i + 1) pbs of (r, pbs1, log) \<Rightarrow> (r, pb1 # pbs1, log)))"

section \<open>Opening the files\<close>

text \<open>What the SDK finds: whether a file opens, its synchronisation mode, its serial number, its content.\<close>

record recording_files =
  rf_opens :: "string \<Rightarrow> bool"
  rf_mode :: "string \<Rightarrow> wired_sync option"
  rf_serial :: "string \<Rightarrow> string option"
  rf_frames :: "string \<Rightarrow> recorded list"
  rf_start :: "string \<Rightarrow> u64"
  rf_length :: "string \<Rightarrow> u64"

text \<open>A file name that is not absolute is relative to the directory of the configuration file.\<close>

definition directory_of :: "string \<Rightarrow> string" where
  "directory_of path = rev (dropWhile (\<lambda>c. c \<noteq> CHR ''/'' \<and> c \<noteq> CHR 0x5C) (rev path))"

definition recording_path :: "string \<Rightarrow> camera_config \<Rightarrow> string" where
  "recording_path current cd =
     (let camerafile = (if cam_filename cd = [] then cam_serial cd @ ''.mkv'' else cam_filename cd)
      in if take 1 camerafile \<noteq> ''/'' then directory_of current @ camerafile else camerafile)"

text \<open>The loop's state: the camera configurations, \<open>master_id\<close>, \<open>master_found\<close>, the open files, the messages.\<close>

record file_opening =
  op_configs :: "camera_config list"
  op_master :: int
  op_found :: bool
  op_opened :: "string list"
  op_log :: "string list"

definition op_say :: "string \<Rightarrow> file_opening \<Rightarrow> file_opening" where
  "op_say t st = st\<lparr>op_log := op_log st @ [t]\<rparr>"

text \<open>The check of the synchronisation mode of file \<open>i\<close>.\<close>

definition check_mode :: "nat \<Rightarrow> string \<Rightarrow> wired_sync \<Rightarrow> file_opening \<Rightarrow> bool \<times> file_opening" where
  "check_mode i camerafile mode st =
     (case mode of
        Master \<Rightarrow>
          let st1 = op_say (''Opened master recording file: '' @ camerafile) st
          in if op_found st1 then (False, op_say ''Multiple master recording recs'' st1)
             else (True, st1\<lparr>op_found := True, op_master := int i\<rparr>)
      | Subordinate \<Rightarrow> (True, op_say (''Opened subordinate recording file: '' @ camerafile) st)
      | Standalone \<Rightarrow> (False, op_say (''Recording file was not recorded in master/sub mode: '' @ camerafile) st))"

definition open_one :: "recording_files \<Rightarrow> bool \<Rightarrow> string \<Rightarrow> nat \<Rightarrow> file_opening \<Rightarrow> bool \<times> file_opening" where
  "open_one recs synced current i st =
     (let camerafile = recording_path current (op_configs st ! i) in
      if \<not> rf_opens recs camerafile then (False, op_say (''Failed to open recording file: '' @ camerafile) st)
      else
        let st1 = st\<lparr>op_opened := op_opened st @ [camerafile]\<rparr> in
        case rf_mode recs camerafile of
          None \<Rightarrow> (False, op_say (''Failed to get recording file configuration: '' @ camerafile) st1)
        | Some mode \<Rightarrow>
            let (ok, st2) = (if synced then check_mode i camerafile mode st1 else (True, st1)) in
            if \<not> ok then (False, st2)
            else case rf_serial recs camerafile of
              None \<Rightarrow> (False, op_say (''Failed to get device serial number from recording file: '' @ camerafile) st2)
            | Some serial \<Rightarrow>
                (True, st2\<lparr>op_configs := (op_configs st2)[i := (op_configs st2 ! i)
                   \<lparr>cam_serial := serial, cam_position := (f32_zero, f32_zero, f32_zero)\<rparr>]\<rparr>))"

fun open_loop :: "recording_files \<Rightarrow> bool \<Rightarrow> string \<Rightarrow> nat list \<Rightarrow> file_opening \<Rightarrow> bool \<times> file_opening" where
  "open_loop recs synced current [] st = (True, st)"
| "open_loop recs synced current (i # is) st =
     (case open_one recs synced current i st of
        (False, st1) \<Rightarrow> (False, st1)
      | (True, st1) \<Rightarrow> open_loop recs synced current is st1)"

text \<open>
  \<open>_open_recording_files\<close> with the capturer's \<open>master_id\<close>, which an earlier configuration may have
  set. A serial number that the configuration gives for the master is kept.
\<close>

definition open_recording_files ::
  "recording_files \<Rightarrow> string \<Rightarrow> int \<Rightarrow> k4a_config \<Rightarrow> fault + bool \<times> file_opening \<times> k4a_config" where
  "open_recording_files recs current master_id c =
     (let n = length (all_camera_configs c);
          st0 = \<lparr>op_configs = all_camera_configs c, op_master = master_id, op_found = False, op_opened = [], op_log = []\<rparr>
      in if n = 0 then Inr (False, st0, c)
         else
           let (ok, st) = open_loop recs (1 < n \<and> \<not> ignore_sync (sync c)) current [0..<n] st0;
               c1 = c\<lparr>all_camera_configs := op_configs st\<rparr>
           in if \<not> ok then Inr (False, st, c1)
              else if sync_master_serial (sync c1) = [] \<and> 0 \<le> op_master st
              then (if int n \<le> op_master st then Inl Out_of_bounds
                    else Inr (True, st, c1\<lparr>sync := (sync c1)\<lparr>sync_master_serial :=
                                              cam_serial (op_configs st ! nat (op_master st))\<rparr>\<rparr>))
              else Inr (True, st, c1))"

text \<open>\<open>_create_cameras\<close>. A camera of a wrong type is reported and used.\<close>

definition playback_type :: "camera_config \<Rightarrow> camera_config \<times> string list" where
  "playback_type cd =
     (let (cd1, log) =
        (if cam_type cd = ''kinect_offline''
         then (cd\<lparr>cam_type := ''kinect_playback''\<rparr>,
               [''camera with serial '' @ cam_serial cd
                @ '' has deprecated type '' @ [CHR 0x27] @ ''kinect_offline'' @ [CHR 0x27] @ '', changing to ''
                @ [CHR 0x27] @ ''kinect_playback'' @ [CHR 0x27]])
         else (cd, []))
      in (cd1, log @ (if cam_type cd1 \<noteq> ''kinect_playback''
                      then [''camera with serial '' @ cam_serial cd1 @ '' has wrong type '' @ cam_type cd1] else [])))"

definition playback_camera_of :: "recording_files \<Rightarrow> k4a_config \<Rightarrow> string \<Rightarrow> nat \<Rightarrow> playback_camera" where
  "playback_camera_of recs c camerafile i =
     (let cd = all_camera_configs c ! i
      in new_playback_camera
           (new_k4a_camera i (cam_serial cd) (sync_master_serial (sync c)) (record_to_directory c) (hardware c)
              (processing c) (filtering c) (cam_trafo cd))
           (rf_frames recs camerafile) (rf_start recs camerafile) (rf_length recs camerafile))"

definition playback_create_cameras ::
  "recording_files \<Rightarrow> string \<Rightarrow> int \<Rightarrow> k4a_config
   \<Rightarrow> fault + bool \<times> k4a_config \<times> playback_camera list \<times> string list" where
  "playback_create_cameras recs current master_id c =
     (case open_recording_files recs current master_id c of
        Inl e \<Rightarrow> Inl e
      | Inr (ok, st, c1) \<Rightarrow>
          if \<not> ok then Inr (False, c1, [], op_log st)
          else
            let typed = map playback_type (all_camera_configs c1);
                c2 = c1\<lparr>all_camera_configs := map fst typed\<rparr>
            in Inr (True, c2, map2 (playback_camera_of recs c2) (op_opened st) [0..<length (op_opened st)],
                    op_log st @ concat (map snd typed)))"

section \<open>Reading a file\<close>

text \<open>The reference: a read that gives no frame, and the first read that does.\<close>

fun incomplete :: "recorded \<Rightarrow> bool" where
  "incomplete (Recorded (Some _) (Some _)) = False"
| "incomplete (Recorded _ _) = True"
| "incomplete Unreadable = False"

text \<open>
  What a read that stopped at \<open>fs\<close> leaves: the frame that was found is the current one and the file goes
  on after it, or there was none.
\<close>

definition read_up_to :: "recorded list \<Rightarrow> bool \<Rightarrow> playback_camera \<Rightarrow> bool" where
  "read_up_to fs ok pb \<longleftrightarrow>
     (case fs of
        Recorded (Some (ts, color)) (Some depth) # rest \<Rightarrow>
          ok \<and> pb_timestamp pb = ts \<and> pb_frames pb = rest \<and>
          (\<exists>h. kc_current_frameset (pb_base pb) = Some \<lparr>fs_handle = h, fs_depth = depth, fs_color = color\<rparr>)
      | [] \<Rightarrow> \<not> ok \<and> pb_frames pb = [] \<and> kc_eof (pb_base pb)
      | _ # rest \<Rightarrow> \<not> ok \<and> pb_frames pb = rest)"

text \<open>What reading keeps: the handles in order and none leaked, and the settings of the camera.\<close>

definition reading_keeps :: "playback_camera \<Rightarrow> playback_camera \<Rightarrow> bool" where
  "reading_keeps pb pb' \<longleftrightarrow>
     handles_ok (pb_base pb') \<and> leaked_captures (pb_base pb') = leaked_captures (pb_base pb) \<and>
     kc_stopped (pb_base pb') = kc_stopped (pb_base pb) \<and> pb_max_delay pb' = pb_max_delay pb \<and>
     kc_ismaster (pb_base pb') = kc_ismaster (pb_base pb)"

lemma reading_keeps_trans: "reading_keeps a b \<Longrightarrow> reading_keeps b c \<Longrightarrow> reading_keeps a c"
  by (simp add: reading_keeps_def)

lemma reading_keeps_say [simp]: "reading_keeps pb (pb_say t pb') \<longleftrightarrow> reading_keeps pb pb'"
  by (simp add: reading_keeps_def pb_say_def handle_defs held_captures_def kc_say_def)

lemma released_leaks_same:
  assumes "handles_ok cam" and "held_bag cam = add_mset h (held_bag cam')" and "kc_live cam' = kc_live cam - {h}"
  shows "leaked_captures cam' = leaked_captures cam"
  using assms held_bag_add [OF assms(2)] by (auto simp: handle_defs)

lemma created_leaks_same:
  assumes "handles_ok cam" and "held_bag cam' = add_mset (kc_next cam) (held_bag cam)"
    and "kc_live cam' = insert (kc_next cam) (kc_live cam)"
  shows "leaked_captures cam' = leaked_captures cam"
  using assms held_bag_add [OF assms(2)] by (auto simp: handle_defs)

lemma release_current_result:
  assumes "handles_ok (pb_base pb)"
  shows "\<exists>pb'. release_current pb = Inr pb' \<and> reading_keeps pb pb' \<and> kc_current_frameset (pb_base pb') = None \<and>
    pb_frames pb' = pb_frames pb"
proof (cases "kc_current_frameset (pb_base pb)")
  case None
  then have "release_current pb = Inr (pb\<lparr>pb_base := (pb_base pb)\<lparr>kc_current_frameset := None\<rparr>\<rparr>)"
    by (simp add: release_current_def release_frameset_def)
  then show ?thesis using assms None by (simp add: reading_keeps_def handle_defs held_captures_def)
next
  case (Some f)
  define cam where "cam = pb_base pb"
  define cam' where "cam' = cam\<lparr>kc_live := kc_live cam - {fs_handle f}, kc_current_frameset := None\<rparr>"
  have live: "fs_handle f \<in> kc_live cam" unfolding cam_def by (rule held_live [OF assms]) (simp add: held_bag_parts Some)
  have bag: "held_bag cam = add_mset (fs_handle f) (held_bag cam')"
    using Some by (simp add: cam'_def cam_def held_bag_parts)
  have "handles_step cam cam'" "leaked_captures cam' = leaked_captures cam"
    using handles_released [OF _ bag] released_leaks_same [OF _ bag] assms by (simp_all add: cam'_def cam_def)
  moreover have "release_current pb = Inr (pb\<lparr>pb_base := cam'\<rparr>)"
    using live Some by (simp add: release_current_def release_frameset_def release_held cam'_def cam_def)
  ultimately show ?thesis by (simp add: reading_keeps_def handles_step_def cam'_def cam_def)
qed

lemma take_capture_keeps:
  assumes "handles_ok (pb_base pb)" and "kc_current_frameset (pb_base pb) = None"
  shows "reading_keeps pb (take_capture c d pb)"
proof -
  define cam where "cam = pb_base pb"
  define cam' where "cam' = pb_base (take_capture c d pb)"
  have bag: "held_bag cam' = add_mset (kc_next cam) (held_bag cam)"
    using assms(2) by (simp add: cam'_def cam_def take_capture_def capture_create_def Let_def held_bag_parts)
  have "handles_step cam cam'" "leaked_captures cam' = leaked_captures cam"
    using handles_created [OF _ bag] created_leaks_same [OF _ bag] assms(1)
    by (simp_all add: cam'_def cam_def take_capture_def capture_create_def Let_def)
  then show ?thesis
    by (simp add: reading_keeps_def handles_step_def cam'_def cam_def take_capture_def capture_create_def Let_def)
qed

lemma waiting_keeps: "handles_ok (pb_base pb) \<Longrightarrow> reading_keeps pb (waiting_for_file pb)"
  by (simp add: reading_keeps_def waiting_for_file_def handle_defs held_captures_def)

lemma waiting_current [simp]:
  "kc_current_frameset (pb_base (waiting_for_file pb)) = kc_current_frameset (pb_base pb)"
  by (simp add: waiting_for_file_def)

lemma read_up_to_say [simp]: "read_up_to fs ok (pb_say t pb) = read_up_to fs ok pb"
  by (cases "(fs, ok)" rule: prod.exhaust)
    (simp add: read_up_to_def pb_say_def kc_say_def split: list.split recorded.split option.split)

lemma next_valid_spec:
  assumes "handles_ok (pb_base pb)" and "\<not> kc_stopped (pb_base pb)" and "fs = pb_frames pb"
  shows "\<exists>ok pb'. next_valid_frame fs pb = Inr (ok, pb') \<and> reading_keeps pb pb' \<and>
    read_up_to (dropWhile incomplete fs) ok pb'"
  using assms
proof (induction fs arbitrary: pb)
  case Nil
  obtain pb1 where r: "release_current pb = Inr pb1" "reading_keeps pb pb1" "pb_frames pb1 = []"
    using release_current_result [OF Nil(1)] Nil(3) by auto
  have k: "reading_keeps pb (waiting_for_file pb1)"
    using waiting_keeps r(2) reading_keeps_trans by (auto simp: reading_keeps_def)
  have "reading_keeps pb (at_end_of_file (waiting_for_file pb1))"
    using k by (simp add: at_end_of_file_def) (simp add: reading_keeps_def handle_defs held_captures_def)
  moreover have "read_up_to [] False (at_end_of_file (waiting_for_file pb1))"
    using r(3) by (simp add: read_up_to_def) (simp add: at_end_of_file_def pb_say_def kc_say_def)
  moreover have "next_valid_frame [] pb = Inr (False, at_end_of_file (waiting_for_file pb1))"
    using Nil(2) r(1) by (subst next_valid_frame.simps) (simp add: Let_def)
  ultimately show ?case by fastforce
next
  case (Cons e rest)
  obtain pb1 where r: "release_current pb = Inr pb1" "reading_keeps pb pb1" "pb_frames pb1 = e # rest"
    "kc_current_frameset (pb_base pb1) = None"
    using release_current_result [OF Cons.prems(1)] Cons.prems(3) by auto
  define pb2 where "pb2 = waiting_for_file pb1"
  have k: "reading_keeps pb pb2"
    using waiting_keeps r(2) reading_keeps_trans unfolding pb2_def by (auto simp: reading_keeps_def)
  then have ok2: "handles_ok (pb_base pb2)" "kc_current_frameset (pb_base pb2) = None" "pb_frames pb2 = e # rest"
    using r by (simp_all add: reading_keeps_def pb2_def)
  show ?case
  proof (cases e)
    case Unreadable
    have "reading_keeps pb (pb2\<lparr>pb_frames := rest\<rparr>)" using k by (simp add: reading_keeps_def)
    moreover have "read_up_to (Unreadable # rest) False (pb2\<lparr>pb_frames := rest\<rparr>)" by (simp add: read_up_to_def)
    moreover have "next_valid_frame (e # rest) pb = Inr (False, pb_say ''First capture failed'' (pb2\<lparr>pb_frames := rest\<rparr>))"
      using Cons.prems(2) r(1) Unreadable by (subst next_valid_frame.simps) (simp add: Let_def pb2_def)
    ultimately show ?thesis using Unreadable by fastforce
  next
    case (Recorded c d)
    define pb3 where "pb3 = take_capture c d pb2"
    have k3: "reading_keeps pb pb3"
      using reading_keeps_trans [OF k take_capture_keeps [OF ok2(1,2)]] unfolding pb3_def .
    have f3: "pb_frames pb3 = rest" using ok2(3) by (simp add: pb3_def)
    have say: "\<exists>ok pb'. next_valid_frame rest (missing_image t pb3) = Inr (ok, pb') \<and> reading_keeps pb pb' \<and>
        read_up_to (dropWhile incomplete rest) ok pb'" for t
    proof -
      have "reading_keeps pb (missing_image t pb3)" using k3 by (simp add: missing_image_def)
      moreover from this have "handles_ok (pb_base (missing_image t pb3))" "\<not> kc_stopped (pb_base (missing_image t pb3))"
        using Cons.prems(2) by (simp_all add: reading_keeps_def)
      ultimately show ?thesis using Cons.IH [of "missing_image t pb3"] f3 reading_keeps_trans by fastforce
    qed
    consider ts im im' where "c = Some (ts, im)" "d = Some im'" | "c = None" | x where "c = Some x" "d = None"
      by (cases c; cases d) auto
    then show ?thesis
    proof cases
      case 1
      have "reading_keeps pb (pb3\<lparr>pb_timestamp := ts\<rparr>)" using k3 by (simp add: reading_keeps_def)
      moreover have "read_up_to (e # rest) True (pb3\<lparr>pb_timestamp := ts\<rparr>)"
        using 1 Recorded f3 by (simp add: read_up_to_def) (simp add: pb3_def take_capture_def capture_create_def Let_def)
      moreover have "next_valid_frame (e # rest) pb = Inr (True, pb3\<lparr>pb_timestamp := ts\<rparr>)"
        using 1 Recorded Cons.prems(2) r(1) by (subst next_valid_frame.simps) (simp add: Let_def pb2_def pb3_def)
      ultimately show ?thesis using 1 Recorded by fastforce
    next
      case 2
      have "next_valid_frame (e # rest) pb = next_valid_frame rest (missing_image ''Color'' pb3)"
        using 2 Recorded Cons.prems(2) r(1) by (subst next_valid_frame.simps) (simp add: Let_def pb2_def pb3_def)
      then show ?thesis using say 2 Recorded by simp
    next
      case 3
      have "next_valid_frame (e # rest) pb = next_valid_frame rest (missing_image ''Depth'' pb3)"
        using 3 Recorded Cons.prems(2) r(1)
        by (subst next_valid_frame.simps) (auto simp: Let_def pb2_def pb3_def split: prod.split)
      then show ?thesis using say 3 Recorded by simp
    qed
  qed
qed

text \<open>
  Reading the next frame of a recording is a search: \<open>_capture_next_valid_frame\<close> stops at the first
  capture of the file that has both images, or at the first one that cannot be read, or at the end. In the
  first case its images are the current frame, its colour timestamp the current timestamp, and the file
  goes on behind it. The captures it skips and the previous frame are released, none is leaked.
\<close>

theorem playback_reads_next_complete_frame:
  assumes "handles_ok (pb_base pb)" and "\<not> kc_stopped (pb_base pb)"
  shows "\<exists>ok pb'. capture_next_valid_frame pb = Inr (ok, pb') \<and>
    read_up_to (dropWhile incomplete (pb_frames pb)) ok pb' \<and>
    leaked_captures (pb_base pb') = leaked_captures (pb_base pb) \<and> handles_ok (pb_base pb')"
  using next_valid_spec [OF assms refl] by (auto simp: capture_next_valid_frame_def reading_keeps_def)

section \<open>The frame for the master's timestamp\<close>

definition too_early :: "u64 \<Rightarrow> recorded \<Rightarrow> bool" where
  "too_early t e =
     (case e of
        Recorded (Some (ts, _)) (Some _) \<Rightarrow> ts \<le> t
      | Recorded _ _ \<Rightarrow> True
      | Unreadable \<Rightarrow> False)"

lemma dropWhile_weaker:
  "(\<And>x. P x \<Longrightarrow> Q x) \<Longrightarrow> dropWhile Q xs = dropWhile Q (dropWhile P xs)"
  by (induction xs) auto

lemma incomplete_too_early: "incomplete e \<Longrightarrow> too_early t e"
  by (cases e rule: incomplete.cases) (auto simp: too_early_def split: option.split)

text \<open>Where the search for a complete frame stops.\<close>

lemma stops_at:
  assumes "dropWhile incomplete xs = fs"
  shows "fs = [] \<or> (\<exists>rest. fs = Unreadable # rest) \<or>
    (\<exists>ts im im' rest. fs = Recorded (Some (ts, im)) (Some im') # rest)"
proof (cases fs)
  case (Cons e rest)
  then have "\<not> incomplete e" using assms by (metis dropWhile_eq_Cons_conv)
  then show ?thesis using Cons by (cases e rule: incomplete.cases) auto
qed simp

lemma frame_loop_spec:
  assumes "handles_ok (pb_base pb)" and "\<not> kc_stopped (pb_base pb)"
  shows "\<exists>ok pb'. frame_loop t pb = Inr (ok, pb') \<and> reading_keeps pb pb' \<and>
    read_up_to (dropWhile (too_early t) (pb_frames pb)) ok pb'"
  using assms
proof (induction t pb rule: frame_loop.induct)
  case (1 t pb)
  obtain ok pb1 where n: "capture_next_valid_frame pb = Inr (ok, pb1)" "reading_keeps pb pb1"
    "read_up_to (dropWhile incomplete (pb_frames pb)) ok pb1"
    using next_valid_spec [OF 1(2,3) refl] by (auto simp: capture_next_valid_frame_def)
  have d: "dropWhile (too_early t) (pb_frames pb) = dropWhile (too_early t) (dropWhile incomplete (pb_frames pb))"
    using incomplete_too_early by (rule dropWhile_weaker)
  obtain fs where fs: "dropWhile incomplete (pb_frames pb) = fs" by simp
  show ?case
  proof (cases ok)
    case False
    then have "fs = [] \<or> (\<exists>rest. fs = Unreadable # rest)"
      using n(3) fs stops_at [OF fs] by (auto simp: read_up_to_def)
    then have "dropWhile (too_early t) fs = fs" by (auto simp: too_early_def)
    moreover have "frame_loop t pb = Inr (False, pb1)" using False n(1) by (subst frame_loop.simps) simp
    ultimately show ?thesis using False n d fs by fastforce
  next
    case True
    then obtain ts im im' rest where e: "fs = Recorded (Some (ts, im)) (Some im') # rest"
      using n(3) fs stops_at [OF fs] by (auto simp: read_up_to_def)
    have ts: "pb_timestamp pb1 = ts" "pb_frames pb1 = rest" using n(3) fs e True by (simp_all add: read_up_to_def)
    show ?thesis
    proof (cases "t < ts")
      case True
      then have "dropWhile (too_early t) fs = fs" using e by (simp add: too_early_def)
      moreover have "\<exists>pb'. frame_loop t pb = Inr (True, pb') \<and> (pb' = pb1 \<or> (\<exists>s. pb' = pb_say s pb1))"
        using n(1) \<open>ok\<close> True ts by (subst frame_loop.simps) auto
      ultimately show ?thesis using n(2,3) d fs \<open>ok\<close> by fastforce
    next
      case False
      then have "dropWhile (too_early t) fs = dropWhile (too_early t) (pb_frames pb1)" using e ts by (simp add: too_early_def)
      moreover have "frame_loop t pb = frame_loop t pb1"
        using n(1) \<open>ok\<close> False ts by (subst frame_loop.simps) simp
      moreover have "handles_ok (pb_base pb1)" "\<not> kc_stopped (pb_base pb1)" using n(2) 1(3) by (simp_all add: reading_keeps_def)
      ultimately show ?thesis
        using 1(1) [OF n(1) refl] \<open>ok\<close> False ts d fs reading_keeps_trans [OF n(2)] by fastforce
    qed
  qed
qed

text \<open>
  C12. The frame a camera contributes to the master's timestamp is the first one of its file that is complete
  and strictly later, unless the current frame is: the loop of \<open>_capture_frame_no_earlier_than_timestamp\<close>
  ends for every file, finds this frame or reports that there is none, and leaks no capture. A frame
  with exactly the master's timestamp is skipped.
\<close>

theorem playback_finds_partner:
  assumes "handles_ok (pb_base pb)" and "\<not> kc_stopped (pb_base pb)"
    and "kc_current_frameset (pb_base pb) = None \<or> pb_timestamp pb \<le> t"
  shows "\<exists>ok pb'. capture_frame_no_earlier_than_timestamp t pb = Inr (ok, pb') \<and>
    read_up_to (dropWhile (too_early t) (pb_frames pb)) ok pb' \<and>
    leaked_captures (pb_base pb') = leaked_captures (pb_base pb) \<and> handles_ok (pb_base pb')"
proof -
  have "capture_frame_no_earlier_than_timestamp t pb = frame_loop t pb"
    using assms(3) by (auto simp: capture_frame_no_earlier_than_timestamp_def)
  then show ?thesis using frame_loop_spec [OF assms(1,2), of t] by (auto simp: reading_keeps_def)
qed

section \<open>All files together\<close>

text \<open>A camera between two rounds: running, its last frame handed on.\<close>

definition between_rounds :: "playback_camera \<Rightarrow> bool" where
  "between_rounds pb \<longleftrightarrow>
     handles_ok (pb_base pb) \<and> \<not> kc_stopped (pb_base pb) \<and> kc_current_frameset (pb_base pb) = None"

text \<open>What a round leaves of a camera that was asked for a frame after \<open>t\<close>, or for any.\<close>

definition partner_taken :: "u64 \<Rightarrow> playback_camera \<Rightarrow> playback_camera \<Rightarrow> bool" where
  "partner_taken t pb pb' \<longleftrightarrow>
     read_up_to (dropWhile (if 0 < t then too_early t else incomplete) (pb_frames pb)) True pb' \<and>
     leaked_captures (pb_base pb') = leaked_captures (pb_base pb)"

lemma playback_wait_result:
  assumes "between_rounds pb"
  shows "\<exists>ts pb'. playback_wait t pb = Inr (ts, pb') \<and> pb_master pb' = pb_master pb \<and>
    (ts \<noteq> 0 \<longrightarrow> ts = pb_timestamp pb' \<and> partner_taken t pb pb')"
proof -
  have ok: "handles_ok (pb_base pb)" "\<not> kc_stopped (pb_base pb)" "kc_current_frameset (pb_base pb) = None"
    using assms by (simp_all add: between_rounds_def)
  show ?thesis
  proof (cases "0 < t")
    case True
    then obtain r pb' where "frame_loop t pb = Inr (r, pb')" "reading_keeps pb pb'"
      "read_up_to (dropWhile (too_early t) (pb_frames pb)) r pb'"
      using frame_loop_spec [OF ok(1,2), of t] by blast
    then show ?thesis using True ok
      by (auto simp: playback_wait_def capture_frame_no_earlier_than_timestamp_def partner_taken_def reading_keeps_def
          pb_master_def)
  next
    case False
    obtain r pb' where "capture_next_valid_frame pb = Inr (r, pb')" "reading_keeps pb pb'"
      "read_up_to (dropWhile incomplete (pb_frames pb)) r pb'"
      using next_valid_spec [OF ok(1,2) refl] by (auto simp: capture_next_valid_frame_def)
    then show ?thesis using False ok
      by (auto simp: playback_wait_def partner_taken_def reading_keeps_def pb_master_def)
  qed
qed

lemma ask_camera_result:
  assumes "ask_camera t i cams = Inr (ts, cams')" and "ts \<noteq> 0" and "i < length cams" and "between_rounds (cams ! i)"
  shows "\<exists>pb'. cams' = cams[i := pb'] \<and> pb_master pb' = pb_master (cams ! i) \<and> ts = pb_timestamp pb' \<and>
    partner_taken t (cams ! i) pb'"
  using assms playback_wait_result [OF assms(4), of t] by (auto simp: ask_camera_def map_sum_Inr)

lemma capture_others_spec:
  assumes "capture_others is t (cams, log) = Inr (True, t', cams', log')" and "0 < t"
    and "distinct is" and "set is \<subseteq> {..<length cams}"
    and "\<forall>i \<in> set is. \<not> pb_master (cams ! i) \<longrightarrow> between_rounds (cams ! i)"
  shows "t' = t \<and> length cams' = length cams \<and>
    (\<forall>i < length cams. if i \<in> set is \<and> \<not> pb_master (cams ! i) then partner_taken t (cams ! i) (cams' ! i)
                       else cams' ! i = cams ! i)"
  using assms
proof (induction "is" arbitrary: cams log)
  case (Cons i rest)
  show ?case
  proof (cases "pb_master (cams ! i)")
    case True
    then show ?thesis using Cons.IH [of cams log] Cons.prems by auto
  next
    case False
    then obtain ts cams1 where a: "ask_camera t i cams = Inr (ts, cams1)" "ts \<noteq> 0"
      and r: "capture_others rest t (cams1, log) = Inr (True, t', cams', log')"
      using Cons.prems(1,2) by (auto split: sum.splits prod.splits if_splits)
    obtain pb' where pb: "cams1 = cams[i := pb']" "pb_master pb' = pb_master (cams ! i)" "partner_taken t (cams ! i) pb'"
      using ask_camera_result [OF a] Cons.prems(4,5) False by auto
    have same: "cams1 ! j = cams ! j" if "j \<in> set rest" for j
      using pb(1) Cons.prems(3) that by (metis distinct.simps(2) nth_list_update_neq)
    have IH: "t' = t \<and> length cams' = length cams1 \<and>
      (\<forall>j < length cams1. if j \<in> set rest \<and> \<not> pb_master (cams1 ! j) then partner_taken t (cams1 ! j) (cams' ! j)
                          else cams' ! j = cams1 ! j)"
      by (rule Cons.IH [OF r Cons.prems(2)]) (use Cons.prems same pb(1) in auto)
    show ?thesis
    proof (intro conjI allI impI)
      fix j assume j: "j < length cams"
      show "if j \<in> set (i # rest) \<and> \<not> pb_master (cams ! j) then partner_taken t (cams ! j) (cams' ! j)
            else cams' ! j = cams ! j"
      proof (cases "j = i")
        case True
        then have "cams' ! j = cams1 ! j" using IH j pb(1) Cons.prems(3) by (metis distinct.simps(2) length_list_update)
        then show ?thesis using True j pb False by simp
      next
        case neq: False
        then have "cams1 ! j = cams ! j" using pb(1) by simp
        then show ?thesis using IH j neq pb(1) by (metis length_list_update set_ConsD list.set_intros(2))
      qed
    qed (use IH pb(1) in simp_all)
  qed
qed simp

text \<open>
  C21. A round of the playback gives frames that belong together: with one master among the cameras, a
  successful \<open>_capture_all_cameras\<close> takes the first complete frame of the master's file, announces its
  timestamp, and takes from every other file the first complete frame that is later than that. No file
  leaks a capture.
\<close>

theorem playback_round_synchronises:
  assumes "playback_capture_all 0 (cams, log) = Inr (True, t, cams', log')" and "\<forall>pb \<in> set cams. between_rounds pb"
    and "m < length cams" and "\<forall>i < length cams. pb_master (cams ! i) \<longleftrightarrow> i = m"
  shows "length cams' = length cams \<and> t = pb_timestamp (cams' ! m) \<and> partner_taken 0 (cams ! m) (cams' ! m) \<and>
    (\<forall>i < length cams. i \<noteq> m \<longrightarrow> partner_taken t (cams ! i) (cams' ! i))"
proof -
  have f: "find (\<lambda>i. pb_master (cams ! i)) [0..<length cams] = Some m"
    using assms(3,4) by (subst find_Some_iff) (auto intro!: exI [of _ m])
  then obtain ts cams1 where a: "ask_camera 0 m cams = Inr (ts, cams1)" "ts \<noteq> 0"
    and r: "capture_others [0..<length cams] ts (cams1, log) = Inr (True, t, cams', log')"
    using assms(1) by (auto simp: playback_capture_all_def split: sum.splits prod.splits if_splits)
  obtain pb' where pb: "cams1 = cams[m := pb']" "pb_master pb' = pb_master (cams ! m)" "ts = pb_timestamp pb'"
    "partner_taken 0 (cams ! m) pb'"
    using ask_camera_result [OF a assms(3)] assms(2,3) by auto
  have master: "pb_master (cams1 ! i) \<longleftrightarrow> i = m" if "i < length cams" for i
    using pb assms(3,4) that by (cases "i = m") simp_all
  have "t = ts \<and> length cams' = length cams1 \<and>
      (\<forall>i < length cams1. if i \<in> set [0..<length cams] \<and> \<not> pb_master (cams1 ! i) then partner_taken ts (cams1 ! i) (cams' ! i)
                          else cams' ! i = cams1 ! i)"
    by (rule capture_others_spec [OF r]) (use a(2) pb(1) master assms(2) in \<open>auto simp: word_neq_0_conv\<close>)
  then show ?thesis using pb master assms(3) by auto
qed

section \<open>One master among the files\<close>

text \<open>The loop over the files, one file at a time: what it leaves of the modes it has seen.\<close>

definition modes_seen :: "recording_files \<Rightarrow> int \<Rightarrow> nat \<Rightarrow> file_opening \<Rightarrow> bool" where
  "modes_seen recs master0 n st \<longleftrightarrow>
     length (op_opened st) = n \<and> (\<forall>j < n. rf_mode recs (op_opened st ! j) \<in> {Some Master, Some Subordinate}) \<and>
     (if op_found st
      then \<exists>m < n. op_master st = int m \<and> (\<forall>j < n. rf_mode recs (op_opened st ! j) = Some Master \<longleftrightarrow> j = m)
      else op_master st = master0 \<and> (\<forall>j < n. rf_mode recs (op_opened st ! j) = Some Subordinate))"

lemma op_say_fields [simp]:
  "op_configs (op_say t st) = op_configs st" "op_master (op_say t st) = op_master st"
  "op_found (op_say t st) = op_found st" "op_opened (op_say t st) = op_opened st"
  by (simp_all add: op_say_def)

lemma open_one_modes:
  assumes "open_one recs True current i st = (True, st')" and "modes_seen recs master0 i st"
  shows "modes_seen recs master0 (i + 1) st'"
proof -
  define fname where "fname = recording_path current (op_configs st ! i)"
  define st1 where "st1 = st\<lparr>op_opened := op_opened st @ [fname]\<rparr>"
  obtain mode st2 where m: "rf_mode recs fname = Some mode" "check_mode i fname mode st1 = (True, st2)"
    and st': "op_opened st' = op_opened st2" "op_master st' = op_master st2" "op_found st' = op_found st2"
    using assms(1)
    by (auto simp: open_one_def fname_def [symmetric] st1_def [symmetric] Let_def
        split: if_splits option.splits prod.splits)
  have len: "length (op_opened st) = i" using assms(2) by (simp add: modes_seen_def)
  have st2: "op_opened st2 = op_opened st @ [fname] \<and>
      (if mode = Master then \<not> op_found st \<and> op_found st2 \<and> op_master st2 = int i
       else mode = Subordinate \<and> op_found st2 = op_found st \<and> op_master st2 = op_master st)"
    using m(2) by (cases mode) (auto simp: check_mode_def st1_def Let_def split: if_splits)
  show ?thesis
  proof (cases "mode = Master")
    case True
    then show ?thesis
      using assms(2) m(1) st' st2 len by (auto simp: modes_seen_def nth_append less_Suc_eq)
  next
    case False
    then show ?thesis
      using assms(2) m(1) st' st2 len by (auto simp: modes_seen_def nth_append less_Suc_eq split: if_splits)
  qed
qed

lemma open_loop_modes:
  assumes "open_loop recs True current [i..<n] st = (True, st')" and "modes_seen recs master0 i st" and "i \<le> n"
  shows "modes_seen recs master0 n st'"
  using assms
proof (induction "n - i" arbitrary: i st)
  case (Suc k)
  then have u: "[i..<n] = i # [Suc i..<n]" by (simp add: upt_conv_Cons)
  obtain st1 where o: "open_one recs True current i st = (True, st1)" "open_loop recs True current [Suc i..<n] st1 = (True, st')"
    using Suc.prems(1) unfolding u by (auto split: prod.splits bool.splits)
  show ?case
    using Suc.hyps(1) [of "Suc i" st1] Suc.hyps(2) o(2) open_one_modes [OF o(1) Suc.prems(2)] by simp
qed simp

text \<open>
  Recordings of a synchronised set are only played together when they fit: when more than one file is
  opened and synchronisation is not ignored, every file was recorded as a master or a subordinate, at most
  one of them as the master, and if there is one, \<open>master_id\<close> is its position; without one it is
  what an earlier configuration left in it.
\<close>

theorem playback_files_have_one_master:
  assumes "open_recording_files recs current master_id c = Inr (True, st, c')"
    and "1 < length (all_camera_configs c)" and "\<not> ignore_sync (sync c)"
  shows "modes_seen recs master_id (length (all_camera_configs c)) st"
proof -
  define st0 where "st0 = \<lparr>op_configs = all_camera_configs c, op_master = master_id, op_found = False, op_opened = [], op_log = []\<rparr>"
  have "open_loop recs True current [0..<length (all_camera_configs c)] st0 = (True, st)"
    using assms by (auto simp: open_recording_files_def st0_def Let_def split: prod.splits if_splits)
  moreover have "modes_seen recs master_id 0 st0" by (simp add: modes_seen_def st0_def)
  ultimately show ?thesis by (rule open_loop_modes) simp
qed

text \<open>
  A position that an earlier configuration left behind is used as an index into the new one: without a
  master among the files it can be out of range.
\<close>

lemma stale_master_position:
  assumes "open_loop recs synced current [0..<n]
      \<lparr>op_configs = all_camera_configs c, op_master = int n, op_found = False, op_opened = [], op_log = []\<rparr> = (True, st)"
    and "n = length (all_camera_configs c)" and "0 < n" and "synced = (1 < n \<and> \<not> ignore_sync (sync c))"
    and "op_master st = int n" and "sync_master_serial (sync c) = []"
  shows "open_recording_files recs current (int n) c = Inl Out_of_bounds"
  using assms by (simp add: open_recording_files_def Let_def)

section \<open>Witnesses\<close>

definition playback_sample :: "string \<Rightarrow> recorded list \<Rightarrow> playback_camera" where
  "playback_sample serial frames =
     (let pb = new_playback_camera (new_k4a_camera 0 serial ''M'' [] new_k4a_hardware new_k4a_processing new_k4a_filtering None)
                 frames 0 100
      in pb\<lparr>pb_base := (pb_base pb)\<lparr>kc_stopped := False\<rparr>\<rparr>)"

lemma playback_sample_ok:
  "between_rounds (playback_sample serial frames)" "pb_frames (playback_sample serial frames) = frames"
  "pb_master (playback_sample serial frames) = (serial = ''M'')"
  by (simp_all add: between_rounds_def playback_sample_def new_playback_camera_def new_k4a_camera_def handle_defs
      held_captures_def Let_def pb_master_def)

definition sample_read :: "u64 \<Rightarrow> recorded" where
  "sample_read t = Recorded (Some (t, no_color)) (Some no_depth)"

definition colorless_read :: recorded where
  "colorless_read = Recorded None (Some no_depth)"

theorem playback_reads_next_complete_frame_witness:
  "\<exists>ok pb'. capture_next_valid_frame (playback_sample ''M'' [colorless_read, sample_read 5, sample_read 9]) = Inr (ok, pb') \<and>
     ok \<and> pb_timestamp pb' = 5 \<and> pb_frames pb' = [sample_read 9]"
  using playback_reads_next_complete_frame [of "playback_sample ''M'' [colorless_read, sample_read 5, sample_read 9]"]
    playback_sample_ok [of "''M''" "[colorless_read, sample_read 5, sample_read 9]"]
  by (auto simp: between_rounds_def colorless_read_def sample_read_def read_up_to_def)

theorem playback_finds_partner_witness:
  "\<exists>ok pb'. capture_frame_no_earlier_than_timestamp 5 (playback_sample ''S'' [sample_read 5, sample_read 9]) = Inr (ok, pb') \<and>
     ok \<and> pb_timestamp pb' = 9"
  using playback_finds_partner [of "playback_sample ''S'' [sample_read 5, sample_read 9]" 5]
    playback_sample_ok [of "''S''" "[sample_read 5, sample_read 9]"]
  by (auto simp: between_rounds_def sample_read_def read_up_to_def too_early_def)

definition sample_recordings :: "playback_camera list" where
  "sample_recordings = [playback_sample ''S'' [sample_read 2, sample_read 6], playback_sample ''M'' [sample_read 5]]"

lemma sample_round:
  "\<exists>t cams' log'. playback_capture_all 0 (sample_recordings, []) = Inr (True, t, cams', log')"
proof -
  define s where "s = playback_sample ''S'' [sample_read 2, sample_read 6]"
  define m where "m = playback_sample ''M'' [sample_read 5]"
  note ok = playback_sample_ok [of "''S''" "[sample_read 2, sample_read 6]", folded s_def]
    playback_sample_ok [of "''M''" "[sample_read 5]", folded m_def]
  have hm: "handles_ok (pb_base m)" "\<not> kc_stopped (pb_base m)" and hs: "handles_ok (pb_base s)" "\<not> kc_stopped (pb_base s)"
    "kc_current_frameset (pb_base s) = None"
    using ok(1,4) by (simp_all add: between_rounds_def)
  obtain r1 m' where m': "capture_next_valid_frame m = Inr (r1, m')" "reading_keeps m m'" "read_up_to [sample_read 5] r1 m'"
    using next_valid_spec [OF hm refl] ok(5) by (auto simp: capture_next_valid_frame_def sample_read_def)
  then have t: "r1" "pb_timestamp m' = 5" "pb_master m'"
    using ok(6) by (simp_all add: read_up_to_def sample_read_def reading_keeps_def pb_master_def)
  obtain r2 s' where s': "frame_loop 5 s = Inr (r2, s')" "read_up_to [sample_read 6] r2 s'"
    using frame_loop_spec [OF hs(1,2), of 5] ok(2) by (auto simp: sample_read_def too_early_def)
  then have u: "r2" "pb_timestamp s' = 6" by (simp_all add: read_up_to_def sample_read_def)
  have w: "playback_wait 0 m = Inr (5, m')" "playback_wait 5 s = Inr (6, s')"
    using hm hs m'(1) s'(1) t u
    by (simp_all add: playback_wait_def capture_frame_no_earlier_than_timestamp_def)
  have "[0..<Suc (Suc 0)] = [0, 1]" by (simp add: upt_rec)
  then show ?thesis
    using w ok(3,6) t(3)
    by (simp add: playback_capture_all_def sample_recordings_def s_def [symmetric] m_def [symmetric] ask_camera_def)
qed

theorem playback_round_synchronises_witness:
  "\<exists>t cams' log'. playback_capture_all 0 (sample_recordings, []) = Inr (True, t, cams', log') \<and>
     t = pb_timestamp (cams' ! 1) \<and> partner_taken t (sample_recordings ! 0) (cams' ! 0)"
proof -
  obtain t cams' log' where r: "playback_capture_all 0 (sample_recordings, []) = Inr (True, t, cams', log')"
    using sample_round by blast
  have "length cams' = length sample_recordings \<and> t = pb_timestamp (cams' ! 1) \<and>
      partner_taken 0 (sample_recordings ! 1) (cams' ! 1) \<and>
      (\<forall>i < length sample_recordings. i \<noteq> 1 \<longrightarrow> partner_taken t (sample_recordings ! i) (cams' ! i))"
    by (rule playback_round_synchronises [OF r]; auto simp: sample_recordings_def playback_sample_ok less_Suc_eq nth_Cons')
  with r show ?thesis by (auto simp: sample_recordings_def)
qed

definition sample_files :: recording_files where
  "sample_files = \<lparr>rf_opens = (\<lambda>_. True), rf_mode = (\<lambda>n. Some (if n = ''a.mkv'' then Master else Subordinate)),
     rf_serial = (\<lambda>n. Some n), rf_frames = (\<lambda>_. []), rf_start = (\<lambda>_. 0), rf_length = (\<lambda>_. 0)\<rparr>"

definition sample_playback_config :: k4a_config where
  "sample_playback_config = new_k4a_config\<lparr>all_camera_configs :=
     [new_camera_config\<lparr>cam_filename := ''b.mkv''\<rparr>, new_camera_config\<lparr>cam_filename := ''a.mkv''\<rparr>]\<rparr>"

theorem playback_files_have_one_master_witness:
  "\<exists>st c'. open_recording_files sample_files [] (- 1) sample_playback_config = Inr (True, st, c') \<and>
     modes_seen sample_files (- 1) 2 st"
proof -
  have "[0..<Suc (Suc 0)] = [0, 1]" by (simp add: upt_rec)
  then obtain st c' where o: "open_recording_files sample_files [] (- 1) sample_playback_config = Inr (True, st, c')"
    by (simp add: open_recording_files_def sample_files_def sample_playback_config_def new_k4a_config_def new_k4a_sync_def
        open_one_def check_mode_def recording_path_def directory_of_def new_camera_config_def Let_def)
  then have "modes_seen sample_files (- 1) (length (all_camera_configs sample_playback_config)) st"
    by (rule playback_files_have_one_master)
      (simp_all add: sample_playback_config_def new_k4a_config_def new_k4a_sync_def)
  with o show ?thesis by (auto simp: sample_playback_config_def numeral_2_eq_2)
qed

end
