(* ===== verification/KinectMetadata.thy ===== *)
theory KinectMetadata
  imports KinectCamera KinectCapture
begin

text \<open>
  The images a Kinect camera adds to a point cloud as metadata (\<open>save_frameset_metadata\<close> of
  \<open>K4ABaseCamera.hpp\<close>). The image handles the function has acquired and not released are counted.
  Skeletons and camera specifications are not modelled.
\<close>

section \<open>State\<close>

text \<open>
  What the SDK and \<open>malloc\<close> answer. The properties of an image are its stride, its format number and
  its size in bytes.
\<close>

record image_answers =
  ia_sdk :: k4a_images
  ia_memory :: "bool \<times> bgra list"
  ia_created :: bool
  ia_color_props :: "color_image \<Rightarrow> int \<times> int \<times> u64"
  ia_depth_props :: "depth_image \<Rightarrow> int \<times> int \<times> u64"
  ia_pointer :: "nat option"
  ia_free :: nat

record metadata_save =
  ms_items :: "metadata_item list"
  ms_images :: int
  ms_log :: "string list"

definition ms_say :: "string \<Rightarrow> metadata_save \<Rightarrow> metadata_save" where
  "ms_say t st = st\<lparr>ms_log := ms_log st @ [t]\<rparr>"

definition ms_hold :: "int \<Rightarrow> metadata_save \<Rightarrow> metadata_save" where
  "ms_hold n st = st\<lparr>ms_images := ms_images st + n\<rparr>"

definition image_description :: "int \<Rightarrow> int \<Rightarrow> int \<Rightarrow> int \<Rightarrow> string" where
  "image_description width height stride format =
     ''width='' @ to_string width @ '',height='' @ to_string height @ '',stride='' @ to_string stride
     @ '',format='' @ to_string format"

text \<open>The copy of an image is added when there is memory for it.\<close>

definition add_image ::
  "image_answers \<Rightarrow> string \<Rightarrow> nat \<Rightarrow> nat \<Rightarrow> int \<times> int \<times> u64 \<Rightarrow> metadata_save \<Rightarrow> metadata_save" where
  "add_image ia name width height props st =
     (case props of (stride, format, sz) \<Rightarrow>
      case ia_pointer ia of
        None \<Rightarrow> st
      | Some p \<Rightarrow>
          st\<lparr>ms_items := metadata_add name (image_description (int width) (int height) stride format) p sz (ia_free ia)
                           (ms_items st)\<rparr>)"

section \<open>The operation\<close>

text \<open>The colour image; \<open>False\<close> when the function returns early.\<close>

definition save_rgb ::
  "image_answers \<Rightarrow> bool \<Rightarrow> string \<Rightarrow> color_image \<Rightarrow> depth_image \<Rightarrow> metadata_save \<Rightarrow> bool \<times> metadata_save" where
  "save_rgb ia to_depth serial color depth st =
     (let (color1, said) = uncompress_color_image (ia_sdk ia) (fst (ia_memory ia)) (snd (ia_memory ia)) color;
          st1 = st\<lparr>ms_log := ms_log st @ said\<rparr>;
          finish = (\<lambda>im s. (True, ms_hold (- 1)
                      (add_image ia (''rgb.'' @ serial) (ci_width im) (ci_height im) (ia_color_props ia im) s)))
      in if \<not> to_depth then finish color1 st1
         else if \<not> ia_created ia then (False, ms_say ''Failed to create transformed color image: 1'' st1)
         else case k4l_color_to_depth (ia_sdk ia) depth color1 of
                None \<Rightarrow> (False, ms_say ''Failed to compute transformed color image: 1'' (ms_hold 1 st1))
              | Some color2 \<Rightarrow> finish color2 (ms_hold (- 1) (ms_hold 1 st1)))"

definition save_depth ::
  "image_answers \<Rightarrow> bool \<Rightarrow> string \<Rightarrow> color_image \<Rightarrow> depth_image \<Rightarrow> metadata_save \<Rightarrow> metadata_save" where
  "save_depth ia to_depth serial color depth st =
     (let finish = (\<lambda>im s. add_image ia (''depth.'' @ serial) (di_width im) (di_height im) (ia_depth_props ia im) s)
      in if to_depth then finish depth st
         else if \<not> ia_created ia then ms_say ''Failed to create transformed depth image: 1'' st
         else case k4l_depth_to_color (ia_sdk ia) depth (ci_width color, ci_height color) of
                None \<Rightarrow> ms_say ''Failed to compute transformed depth image: 1'' (ms_hold 1 st)
              | Some depth2 \<Rightarrow> finish depth2 (ms_hold (- 1) (ms_hold 1 st)))"

text \<open>The images that \<open>k4a_capture_get_color_image\<close> and \<open>k4a_capture_get_depth_image\<close> return have to be released.\<close>

definition save_frameset_metadata ::
  "image_answers \<Rightarrow> metadata_wants \<Rightarrow> k4a_camera \<Rightarrow> (color_image option \<times> depth_image option) option
   \<Rightarrow> metadata_save \<Rightarrow> metadata_save" where
  "save_frameset_metadata ia wants cam frame st =
     (case frame of
        None \<Rightarrow> ms_say ''save_frameset_metadata: current_captured_frameset is NULL'' st
      | Some (c, d) \<Rightarrow>
          if \<not> want_rgb wants \<and> \<not> want_depth wants then st
          else
            let st1 = ms_hold ((if c = None then 0 else 1) + (if d = None then 0 else 1)) st;
                to_depth = map_color_to_depth (view_filtering cam)
            in case (c, d) of
                 (Some color, Some depth) \<Rightarrow>
                   let (go_on, st2) = (if want_rgb wants then save_rgb ia to_depth (kc_serial cam) color depth st1
                                       else (True, st1))
                   in if go_on \<and> want_depth wants then save_depth ia to_depth (kc_serial cam) color depth st2 else st2
               | _ \<Rightarrow> ms_say ''Failed to get color or depth image from capture for metadata'' st1)"

section \<open>Leaked images\<close>

lemma ms_fields [simp]:
  "ms_images (ms_say t st) = ms_images st" "ms_images (ms_hold n st) = ms_images st + n"
  "ms_items (ms_say t st) = ms_items st" "ms_items (ms_hold n st) = ms_items st"
  "ms_images (add_image ia name w h props st) = ms_images st"
  by (simp_all add: ms_say_def ms_hold_def add_image_def split: prod.split option.split)

lemma save_rgb_images:
  "save_rgb ia to_depth serial color depth st = (go_on, st') \<Longrightarrow> ms_images st - 1 \<le> ms_images st'"
  by (auto simp: save_rgb_def Let_def split: prod.splits if_splits option.splits)

lemma save_depth_images: "ms_images st \<le> ms_images (save_depth ia to_depth serial color depth st)"
  by (auto simp: save_depth_def Let_def split: option.split)

text \<open>
  Saving images as metadata leaks image handles: whenever an image is wanted and the frameset has
  both, at least one handle is held when the function returns, whatever the SDK answers and whether
  or not it returns early. (The depth image is never released, and neither is the colour image when
  only depth is wanted.)
\<close>

theorem saved_metadata_leaks_image:
  assumes "want_rgb wants \<or> want_depth wants"
  shows "ms_images st + (if want_rgb wants then 1 else 2)
    \<le> ms_images (save_frameset_metadata ia wants cam (Some (Some color, Some depth)) st)"
proof -
  obtain go_on st2 where r: "save_rgb ia (map_color_to_depth (view_filtering cam)) (kc_serial cam) color depth (ms_hold 2 st)
      = (go_on, st2)"
    by fastforce
  have "ms_images st + 1 \<le> ms_images st2" using save_rgb_images [OF r] by simp
  then show ?thesis
    using assms r save_depth_images [of st2 ia "map_color_to_depth (view_filtering cam)" "kc_serial cam" color depth]
      save_depth_images [of "ms_hold 2 st" ia "map_color_to_depth (view_filtering cam)" "kc_serial cam" color depth]
    by (auto simp: save_frameset_metadata_def Let_def)
qed

text \<open>What is saved when all goes well: the wanted images under the camera's serial number.\<close>

lemma saved_metadata_items:
  assumes "ia_created ia" and "\<And>d c. k4l_color_to_depth (ia_sdk ia) d c = Some (f d c)"
    and "\<And>d s. k4l_depth_to_color (ia_sdk ia) d s = Some (g d s)"
    and "ia_pointer ia = Some p"
  shows "map md_name (ms_items (save_frameset_metadata ia wants cam (Some (Some color, Some depth)) st)) =
    map md_name (ms_items st) @ (if want_rgb wants then [''rgb.'' @ kc_serial cam] else [])
      @ (if want_depth wants then [''depth.'' @ kc_serial cam] else [])"
proof -
  have rgb: "\<exists>s. save_rgb ia b n color depth t = (True, s) \<and> map md_name (ms_items s) = map md_name (ms_items t) @ [''rgb.'' @ n]"
    for b n t
    using assms by (auto simp: save_rgb_def add_image_def metadata_add_def Let_def ms_hold_def split: prod.split option.split)
  have depth: "map md_name (ms_items (save_depth ia b n color depth t)) = map md_name (ms_items t) @ [''depth.'' @ n]" for b n t
    using assms by (auto simp: save_depth_def add_image_def metadata_add_def Let_def ms_hold_def split: prod.split option.split)
  show ?thesis
    using rgb [of "map_color_to_depth (view_filtering cam)" "kc_serial cam" "ms_hold 2 st"] depth
    by (auto simp: save_frameset_metadata_def Let_def)
qed

definition sample_images :: image_answers where
  "sample_images = \<lparr>ia_sdk = plain_sdk, ia_memory = (True, []), ia_created = True, ia_color_props = (\<lambda>_. (8, 3, 16)),
     ia_depth_props = (\<lambda>_. (4, 4, 8)), ia_pointer = Some 1, ia_free = 0\<rparr>"

theorem saved_metadata_leaks_image_witness:
  "1 \<le> ms_images (save_frameset_metadata sample_images
     \<lparr>want_rgb = True, want_depth = True, want_skeleton = False, want_camera_specs = False\<rparr>
     (new_k4a_camera 0 ''A'' [] [] new_k4a_hardware new_k4a_processing new_k4a_filtering None)
     (Some (Some sample_color, Some sample_depth)) \<lparr>ms_items = [], ms_images = 0, ms_log = []\<rparr>)"
  using saved_metadata_leaks_image
    [of "\<lparr>want_rgb = True, want_depth = True, want_skeleton = False, want_camera_specs = False\<rparr>"
      "\<lparr>ms_items = [], ms_images = 0, ms_log = []\<rparr>" sample_images
      "new_k4a_camera 0 ''A'' [] [] new_k4a_hardware new_k4a_processing new_k4a_filtering None" sample_color sample_depth]
  by simp

end
