(* ===== verification/RS2Config.thy ===== *)
theory RS2Config
  imports KinectConfig
begin

text \<open>
  \<open>cwipc_realsense2/src/RS2Config.hpp\<close> and \<open>RS2Config.cpp\<close>: the configuration of a RealSense
  capturer, its reading from JSON and its writing. A \<open>float\<close> attribute goes through the library's
  own number type, a \<open>double\<close>; \<open>to_float\<close> is its conversion back.
\<close>

section \<open>The structures\<close>

record rs2_filtering =
  rs_map_color_to_depth :: u32
  rs_do_decimation :: bool
  rs_decimation_magnitude :: u32
  rs_do_threshold :: bool
  rs_threshold_min_distance :: f32
  rs_threshold_max_distance :: f32
  rs_do_spatial :: bool
  rs_spatial_magnitude :: u32
  rs_spatial_smooth_alpha :: f32
  rs_spatial_smooth_delta :: u32
  rs_spatial_holes_fill :: u32
  rs_do_temporal :: bool
  rs_temporal_smooth_alpha :: f32
  rs_temporal_smooth_delta :: u32
  rs_temporal_persistency :: u32
  rs_do_hole_filling :: bool
  rs_hole_filling_mode :: u32

record rs2_hardware =
  rs_color_width :: u32
  rs_color_height :: u32
  rs_depth_width :: u32
  rs_depth_height :: u32
  rs_fps :: u32
  rs_visual_preset :: u32
  rs_color_exposure :: u32
  rs_color_gain :: u32
  rs_depth_exposure :: u32
  rs_depth_gain :: u32
  rs_whitebalance :: u32
  rs_backlight_compensation :: u32
  rs_laser_power :: u32

record rs2_processing =
  rs_greenscreen_removal :: bool
  rs_depth_x_erosion :: u32
  rs_depth_y_erosion :: u32
  rs_height_min :: f64
  rs_height_max :: f64
  rs_radius_filter :: f64

record rs2_sync =
  rs_sync_master_serial :: string
  rs_sync_mode :: u32

record rs2_camera_config =
  rs_camera :: camera_config
  rs_playback_inpoint_micros :: u32

record rs2_config =
  rs_type :: string
  rs_processing :: rs2_processing
  rs_filtering :: rs2_filtering
  rs_hardware :: rs2_hardware
  rs_sync :: rs2_sync
  rs_record_to_directory :: string
  rs_playback_realtime :: bool
  rs_new_timestamps :: bool
  rs_playback_loop :: bool
  rs_debug :: bool
  rs_prefer_color_timing :: bool
  rs_all_camera_configs :: "rs2_camera_config list"

text \<open>The floats are 0.15, 4.0, 0.5 and 0.4.\<close>

definition new_rs2_filtering :: rs2_filtering where
  "new_rs2_filtering = \<lparr>
     rs_map_color_to_depth = 1, rs_do_decimation = False, rs_decimation_magnitude = 1,
     rs_do_threshold = True, rs_threshold_min_distance = 0x3E19999A,
     rs_threshold_max_distance = 0x40800000, rs_do_spatial = True, rs_spatial_magnitude = 2,
     rs_spatial_smooth_alpha = 0x3F000000, rs_spatial_smooth_delta = 20, rs_spatial_holes_fill = 0,
     rs_do_temporal = False, rs_temporal_smooth_alpha = 0x3ECCCCCD, rs_temporal_smooth_delta = 20,
     rs_temporal_persistency = 3, rs_do_hole_filling = False, rs_hole_filling_mode = 0\<rparr>"

definition new_rs2_hardware :: rs2_hardware where
  "new_rs2_hardware = \<lparr>
     rs_color_width = 0, rs_color_height = 0, rs_depth_width = 0, rs_depth_height = 0, rs_fps = 0,
     rs_visual_preset = 0, rs_color_exposure = - 1, rs_color_gain = - 1, rs_depth_exposure = - 1,
     rs_depth_gain = - 1, rs_whitebalance = - 1, rs_backlight_compensation = - 1, rs_laser_power = - 1\<rparr>"

definition new_rs2_processing :: rs2_processing where
  "new_rs2_processing = \<lparr>
     rs_greenscreen_removal = False, rs_depth_x_erosion = 0, rs_depth_y_erosion = 0, rs_height_min = 0,
     rs_height_max = 0, rs_radius_filter = 0\<rparr>"

definition new_rs2_sync :: rs2_sync where
  "new_rs2_sync = \<lparr>
     rs_sync_master_serial = [], rs_sync_mode = 2\<rparr>"

definition new_rs2_camera_config :: rs2_camera_config where
  "new_rs2_camera_config = \<lparr>rs_camera = new_camera_config, rs_playback_inpoint_micros = 0\<rparr>"

definition new_rs2_config :: rs2_config where
  "new_rs2_config = \<lparr>rs_type = [], rs_processing = new_rs2_processing, rs_filtering = new_rs2_filtering,
     rs_hardware = new_rs2_hardware, rs_sync = new_rs2_sync, rs_record_to_directory = [],
     rs_playback_realtime = False, rs_new_timestamps = False, rs_playback_loop = False, rs_debug = False,
     rs_prefer_color_timing = True, rs_all_camera_configs = []\<rparr>"

section \<open>Reading\<close>

text \<open>\<open>RS2CameraConfig::_from_json\<close>: the members of every camera, and one of its own.\<close>

definition rs2_camera_from_json :: "json_lib \<Rightarrow> json \<Rightarrow> rs2_camera_config reader" where
  "rs2_camera_from_json lib json_data = read_all
     [(\<lambda>c. case camera_from_json lib json_data (rs_camera c) of (ok, base) \<Rightarrow> (ok, c\<lparr>rs_camera := base\<rparr>)),
      json_get (to_int lib) json_data ''playback_inpoint_micros'' (\<lambda>v c. c\<lparr>rs_playback_inpoint_micros := v\<rparr>)]"

definition rs2_read_camera :: "json_lib \<Rightarrow> json \<Rightarrow> rs2_config reader" where
  "rs2_read_camera lib camera_config_json c =
     (case rs2_camera_from_json lib camera_config_json new_rs2_camera_config of
        (ok, camera_config) \<Rightarrow>
          if ok then (True, c\<lparr>rs_all_camera_configs := rs_all_camera_configs c @ [camera_config]\<rparr>)
          else (False, c))"

definition rs2_read_cameras :: "json_lib \<Rightarrow> json \<Rightarrow> rs2_config reader" where
  "rs2_read_cameras lib cameras =
     read_all ((\<lambda>c. (True, c\<lparr>rs_all_camera_configs := []\<rparr>)) # map (rs2_read_camera lib) (json_elements cameras))"

definition rs2_read_system :: "json_lib \<Rightarrow> json \<Rightarrow> rs2_config reader" where
  "rs2_read_system lib system_data = read_all
     [json_get (to_str lib) system_data ''record_to_directory'' (\<lambda>v. rs_record_to_directory_update (\<lambda>_. v)),
      json_get (to_bool lib) system_data ''playback_realtime'' (\<lambda>v. rs_playback_realtime_update (\<lambda>_. v)),
      json_get (to_bool lib) system_data ''new_timestamps'' (\<lambda>v. rs_new_timestamps_update (\<lambda>_. v)),
      json_get (to_bool lib) system_data ''debug'' (\<lambda>v. rs_debug_update (\<lambda>_. v)),
      json_get (to_bool lib) system_data ''prefer_color_timing'' (\<lambda>v. rs_prefer_color_timing_update (\<lambda>_. v))]"

definition rs2_read_sync :: "json_lib \<Rightarrow> json \<Rightarrow> rs2_config reader" where
  "rs2_read_sync lib sync_data = read_all
     [json_get (to_str lib) sync_data ''sync_master_serial'' (\<lambda>v. rs_sync_update (rs_sync_master_serial_update (\<lambda>_. v))),
      json_get (to_int lib) sync_data ''sync_mode'' (\<lambda>v. rs_sync_update (rs_sync_mode_update (\<lambda>_. v)))]"

text \<open>The code asks for \<open>fps\<close> twice.\<close>

definition rs2_read_hardware :: "json_lib \<Rightarrow> json \<Rightarrow> rs2_config reader" where
  "rs2_read_hardware lib hardware_data = read_all
     [json_get (to_int lib) hardware_data ''color_width'' (\<lambda>v. rs_hardware_update (rs_color_width_update (\<lambda>_. v))),
      json_get (to_int lib) hardware_data ''color_height'' (\<lambda>v. rs_hardware_update (rs_color_height_update (\<lambda>_. v))),
      json_get (to_int lib) hardware_data ''fps'' (\<lambda>v. rs_hardware_update (rs_fps_update (\<lambda>_. v))),
      json_get (to_int lib) hardware_data ''depth_width'' (\<lambda>v. rs_hardware_update (rs_depth_width_update (\<lambda>_. v))),
      json_get (to_int lib) hardware_data ''depth_height'' (\<lambda>v. rs_hardware_update (rs_depth_height_update (\<lambda>_. v))),
      json_get (to_int lib) hardware_data ''fps'' (\<lambda>v. rs_hardware_update (rs_fps_update (\<lambda>_. v))),
      json_get (to_int lib) hardware_data ''visual_preset'' (\<lambda>v. rs_hardware_update (rs_visual_preset_update (\<lambda>_. v))),
      json_get (to_int lib) hardware_data ''color_exposure'' (\<lambda>v. rs_hardware_update (rs_color_exposure_update (\<lambda>_. v))),
      json_get (to_int lib) hardware_data ''color_gain'' (\<lambda>v. rs_hardware_update (rs_color_gain_update (\<lambda>_. v))),
      json_get (to_int lib) hardware_data ''depth_exposure'' (\<lambda>v. rs_hardware_update (rs_depth_exposure_update (\<lambda>_. v))),
      json_get (to_int lib) hardware_data ''depth_gain'' (\<lambda>v. rs_hardware_update (rs_depth_gain_update (\<lambda>_. v))),
      json_get (to_int lib) hardware_data ''whitebalance'' (\<lambda>v. rs_hardware_update (rs_whitebalance_update (\<lambda>_. v))),
      json_get (to_int lib) hardware_data ''backlight_compensation'' (\<lambda>v. rs_hardware_update (rs_backlight_compensation_update (\<lambda>_. v))),
      json_get (to_int lib) hardware_data ''laser_power'' (\<lambda>v. rs_hardware_update (rs_laser_power_update (\<lambda>_. v)))]"

definition rs2_read_processing :: "json_lib \<Rightarrow> json \<Rightarrow> rs2_config reader" where
  "rs2_read_processing lib processing_data = read_all
     [json_get (to_bool lib) processing_data ''greenscreen_removal'' (\<lambda>v. rs_processing_update (rs_greenscreen_removal_update (\<lambda>_. v))),
      json_get (to_double lib) processing_data ''height_min'' (\<lambda>v. rs_processing_update (rs_height_min_update (\<lambda>_. v))),
      json_get (to_double lib) processing_data ''height_max'' (\<lambda>v. rs_processing_update (rs_height_max_update (\<lambda>_. v))),
      json_get (to_double lib) processing_data ''radius_filter'' (\<lambda>v. rs_processing_update (rs_radius_filter_update (\<lambda>_. v))),
      json_get (to_int lib) processing_data ''depth_x_erosion'' (\<lambda>v. rs_processing_update (rs_depth_x_erosion_update (\<lambda>_. v))),
      json_get (to_int lib) processing_data ''depth_y_erosion'' (\<lambda>v. rs_processing_update (rs_depth_y_erosion_update (\<lambda>_. v)))]"

definition rs2_read_filtering :: "json_lib \<Rightarrow> (json \<Rightarrow> f32 option) \<Rightarrow> json \<Rightarrow> rs2_config reader" where
  "rs2_read_filtering lib to_float filtering_data = read_all
     [json_get (to_int lib) filtering_data ''map_color_to_depth'' (\<lambda>v. rs_filtering_update (rs_map_color_to_depth_update (\<lambda>_. v))),
      json_get (to_bool lib) filtering_data ''do_decimation'' (\<lambda>v. rs_filtering_update (rs_do_decimation_update (\<lambda>_. v))),
      json_get (to_int lib) filtering_data ''decimation_magnitude'' (\<lambda>v. rs_filtering_update (rs_decimation_magnitude_update (\<lambda>_. v))),
      json_get (to_bool lib) filtering_data ''do_threshold'' (\<lambda>v. rs_filtering_update (rs_do_threshold_update (\<lambda>_. v))),
      json_get to_float filtering_data ''threshold_min_distance'' (\<lambda>v. rs_filtering_update (rs_threshold_min_distance_update (\<lambda>_. v))),
      json_get to_float filtering_data ''threshold_max_distance'' (\<lambda>v. rs_filtering_update (rs_threshold_max_distance_update (\<lambda>_. v))),
      json_get (to_bool lib) filtering_data ''do_spatial'' (\<lambda>v. rs_filtering_update (rs_do_spatial_update (\<lambda>_. v))),
      json_get (to_int lib) filtering_data ''spatial_magnitude'' (\<lambda>v. rs_filtering_update (rs_spatial_magnitude_update (\<lambda>_. v))),
      json_get to_float filtering_data ''spatial_smooth_alpha'' (\<lambda>v. rs_filtering_update (rs_spatial_smooth_alpha_update (\<lambda>_. v))),
      json_get (to_int lib) filtering_data ''spatial_smooth_delta'' (\<lambda>v. rs_filtering_update (rs_spatial_smooth_delta_update (\<lambda>_. v))),
      json_get (to_int lib) filtering_data ''spatial_holes_fill'' (\<lambda>v. rs_filtering_update (rs_spatial_holes_fill_update (\<lambda>_. v))),
      json_get (to_bool lib) filtering_data ''do_temporal'' (\<lambda>v. rs_filtering_update (rs_do_temporal_update (\<lambda>_. v))),
      json_get to_float filtering_data ''temporal_smooth_alpha'' (\<lambda>v. rs_filtering_update (rs_temporal_smooth_alpha_update (\<lambda>_. v))),
      json_get (to_int lib) filtering_data ''temporal_smooth_delta'' (\<lambda>v. rs_filtering_update (rs_temporal_smooth_delta_update (\<lambda>_. v))),
      json_get (to_int lib) filtering_data ''temporal_persistency'' (\<lambda>v. rs_filtering_update (rs_temporal_persistency_update (\<lambda>_. v))),
      json_get (to_bool lib) filtering_data ''do_hole_filling'' (\<lambda>v. rs_filtering_update (rs_do_hole_filling_update (\<lambda>_. v))),
      json_get (to_int lib) filtering_data ''hole_filling_mode'' (\<lambda>v. rs_filtering_update (rs_hole_filling_mode_update (\<lambda>_. v)))]"

text \<open>\<open>_from_json\<close>, with the warning it logs at its end. The versions 3, 4 and 5 are read alike.\<close>

definition rs2_read :: "json_lib \<Rightarrow> (json \<Rightarrow> f32 option) \<Rightarrow> json \<Rightarrow> rs2_config reader" where
  "rs2_read lib to_float json_data = read_all
     [json_at_get (to_str lib) json_data ''type'' (\<lambda>v c. c\<lparr>rs_type := v\<rparr>),
      json_at json_data ''system'' (rs2_read_system lib),
      json_if_contains json_data ''sync'' (rs2_read_sync lib),
      json_if_contains json_data ''hardware'' (rs2_read_hardware lib),
      json_if_contains json_data ''processing'' (rs2_read_processing lib),
      json_if_contains json_data ''filtering'' (rs2_read_filtering lib to_float),
      json_at json_data ''camera'' (rs2_read_cameras lib)]"

definition rs2_from_json :: "json_lib \<Rightarrow> (json \<Rightarrow> f32 option) \<Rightarrow> json \<Rightarrow> (world \<times> rs2_config) reader" where
  "rs2_from_json lib to_float json_data s =
     (case s of (w, c) \<Rightarrow>
      case rs2_read lib to_float json_data c of (ok, c1) \<Rightarrow>
        (ok, if ok \<and> rs_all_camera_configs c1 = []
             then cwipc_log CWIPC_LOG_LEVEL_WARNING ''cwipc_realsense2'' ''No cameras in configuration'' w else w, c1))"

definition rs2_error :: "string \<Rightarrow> string \<Rightarrow> world \<Rightarrow> world" where
  "rs2_error filename msg w =
     cwipc_log CWIPC_LOG_LEVEL_ERROR ''cwipc_realsense2'' (''CameraConfig '' @ filename @ msg) w"

text \<open>
  \<open>from_file\<close> and \<open>from_string\<close> accept different versions. \<open>what\<close> is the message of the exception,
  if one is thrown.
\<close>

definition rs2_from_file ::
  "json_lib \<Rightarrow> (json \<Rightarrow> f32 option) \<Rightarrow> (u8 list \<Rightarrow> json option) \<Rightarrow> string \<Rightarrow> string \<Rightarrow> string
   \<Rightarrow> (world \<times> rs2_config) reader" where
  "rs2_from_file lib to_float parse_bytes what filename typeWanted s =
     (let err = (\<lambda>msg (w, c). (False, rs2_error filename msg w, c));
          threw = err ('': exception '' @ what) in
      case files (fst s) filename of
        None \<Rightarrow> err '' not found'' s
      | Some content \<Rightarrow>
          (case parse_bytes content of
             None \<Rightarrow> threw s
           | Some json_data \<Rightarrow>
               (case get_version lib json_data of
                  None \<Rightarrow> threw s
                | Some version \<Rightarrow>
                    if version \<noteq> 5 \<and> version \<noteq> 4 \<and> version \<noteq> 3
                    then err '' ignored, is not version 5, 4 or 3'' s
                    else case get_type lib json_data of
                           None \<Rightarrow> threw s
                         | Some ty \<Rightarrow>
                             if ty \<noteq> typeWanted then err ('' ignored, is not '' @ typeWanted @ '' but '' @ ty) s
                             else (case rs2_from_json lib to_float json_data s of
                                     (ok, s1) \<Rightarrow> if ok then (True, s1) else threw s1))))"

definition rs2_from_string ::
  "json_lib \<Rightarrow> (json \<Rightarrow> f32 option) \<Rightarrow> (string \<Rightarrow> json option) \<Rightarrow> string \<Rightarrow> string \<Rightarrow> string
   \<Rightarrow> (world \<times> rs2_config) reader" where
  "rs2_from_string lib to_float parse what jsonBuffer typeWanted s =
     (let err = (\<lambda>msg (w, c). (False, rs2_error ''(inline buffer) '' msg w, c));
          threw = err ('': exception '' @ what) in
      case parse jsonBuffer of
        None \<Rightarrow> threw s
      | Some json_data \<Rightarrow>
          (case get_version lib json_data of
             None \<Rightarrow> threw s
           | Some version \<Rightarrow>
               if version \<noteq> 3 then err '' is not version 3'' s
               else case get_type lib json_data of
                      None \<Rightarrow> threw s
                    | Some ty \<Rightarrow>
                        if ty \<noteq> typeWanted then err ('' type='' @ ty @ '' but expected '' @ typeWanted) s
                        else (case rs2_from_json lib to_float json_data s of
                                (ok, s1) \<Rightarrow> if ok then (True, s1) else threw s1)))"

section \<open>Writing\<close>

text \<open>\<open>RS2CameraConfig::_to_json\<close>: the start of a playback is only written when there is one.\<close>

definition rs2_camera_to_json :: "bool \<Rightarrow> rs2_camera_config \<Rightarrow> fault + json" where
  "rs2_camera_to_json for_recording c =
     (case camera_to_json (rs_camera c) Json_null of
        Inl f \<Rightarrow> Inl f
      | Inr j \<Rightarrow>
          (case json_put_all
             ((if for_recording then [(''type'', Json_string ''realsense_playback'')] else [])
              @ (if rs_playback_inpoint_micros c \<noteq> 0
                 then [(''playback_inpoint_micros'', json_of_int (rs_playback_inpoint_micros c))] else [])) j of
             None \<Rightarrow> Inl Uncaught_exception
           | Some j1 \<Rightarrow> Inr j1))"

fun rs2_cameras_to_json :: "bool \<Rightarrow> rs2_camera_config list \<Rightarrow> fault + json list" where
  "rs2_cameras_to_json for_recording [] = Inr []"
| "rs2_cameras_to_json for_recording (c # cs) =
     (case rs2_camera_to_json for_recording c of
        Inl f \<Rightarrow> Inl f
      | Inr j \<Rightarrow> (case rs2_cameras_to_json for_recording cs of Inl f \<Rightarrow> Inl f | Inr js \<Rightarrow> Inr (j # js)))"

definition rs2_sync_members :: "rs2_sync \<Rightarrow> (string \<times> json) list" where
  "rs2_sync_members s =
     [(''sync_master_serial'', Json_string (rs_sync_master_serial s)),
      (''sync_mode'', json_of_int (rs_sync_mode s))]"

definition rs2_filtering_members :: "rs2_filtering \<Rightarrow> (string \<times> json) list" where
  "rs2_filtering_members f =
     [(''map_color_to_depth'', json_of_int (rs_map_color_to_depth f)),
      (''do_decimation'', Json_bool (rs_do_decimation f)),
      (''decimation_magnitude'', json_of_int (rs_decimation_magnitude f)),
      (''do_threshold'', Json_bool (rs_do_threshold f)),
      (''threshold_min_distance'', Json_float (f64_of_f32 (rs_threshold_min_distance f))),
      (''threshold_max_distance'', Json_float (f64_of_f32 (rs_threshold_max_distance f))),
      (''do_spatial'', Json_bool (rs_do_spatial f)),
      (''spatial_magnitude'', json_of_int (rs_spatial_magnitude f)),
      (''spatial_smooth_alpha'', Json_float (f64_of_f32 (rs_spatial_smooth_alpha f))),
      (''spatial_smooth_delta'', json_of_int (rs_spatial_smooth_delta f)),
      (''spatial_holes_fill'', json_of_int (rs_spatial_holes_fill f)),
      (''do_temporal'', Json_bool (rs_do_temporal f)),
      (''temporal_smooth_alpha'', Json_float (f64_of_f32 (rs_temporal_smooth_alpha f))),
      (''temporal_smooth_delta'', json_of_int (rs_temporal_smooth_delta f)),
      (''temporal_persistency'', json_of_int (rs_temporal_persistency f)),
      (''do_hole_filling'', Json_bool (rs_do_hole_filling f)),
      (''hole_filling_mode'', json_of_int (rs_hole_filling_mode f))]"

definition rs2_processing_members :: "rs2_processing \<Rightarrow> (string \<times> json) list" where
  "rs2_processing_members p =
     [(''greenscreen_removal'', Json_bool (rs_greenscreen_removal p)),
      (''height_min'', Json_float (rs_height_min p)),
      (''height_max'', Json_float (rs_height_max p)),
      (''radius_filter'', Json_float (rs_radius_filter p)),
      (''depth_x_erosion'', json_of_int (rs_depth_x_erosion p)),
      (''depth_y_erosion'', json_of_int (rs_depth_y_erosion p))]"

definition rs2_system_members :: "bool \<Rightarrow> rs2_config \<Rightarrow> (string \<times> json) list" where
  "rs2_system_members for_recording c =
     [(''record_to_directory'', Json_string (if for_recording then [] else rs_record_to_directory c)),
      (''playback_realtime'', Json_bool (rs_playback_realtime c)),
      (''new_timestamps'', Json_bool (rs_new_timestamps c)),
      (''debug'', Json_bool (rs_debug c)),
      (''prefer_color_timing'', Json_bool (rs_prefer_color_timing c))]"

definition rs2_hardware_members :: "rs2_hardware \<Rightarrow> (string \<times> json) list" where
  "rs2_hardware_members h =
     [(''color_width'', json_of_int (rs_color_width h)),
      (''color_height'', json_of_int (rs_color_height h)),
      (''depth_width'', json_of_int (rs_depth_width h)),
      (''depth_height'', json_of_int (rs_depth_height h)),
      (''fps'', json_of_int (rs_fps h)),
      (''visual_preset'', json_of_int (rs_visual_preset h)),
      (''color_exposure'', json_of_int (rs_color_exposure h)),
      (''color_gain'', json_of_int (rs_color_gain h)),
      (''depth_exposure'', json_of_int (rs_depth_exposure h)),
      (''depth_gain'', json_of_int (rs_depth_gain h)),
      (''whitebalance'', json_of_int (rs_whitebalance h)),
      (''backlight_compensation'', json_of_int (rs_backlight_compensation h)),
      (''laser_power'', json_of_int (rs_laser_power h))]"

definition rs2_to_json :: "bool \<Rightarrow> rs2_config \<Rightarrow> fault + json" where
  "rs2_to_json for_recording c =
     (case rs2_cameras_to_json for_recording (rs_all_camera_configs c) of
        Inl f \<Rightarrow> Inl f
      | Inr cameras \<Rightarrow>
          (case json_put_all
             ([(''type'', Json_string (rs_type c)), (''version'', Json_int 5)]
              @ (if for_recording then [(''type'', Json_string ''realsense_playback'')] else [])
              @ [(''camera'', json_array_of cameras),
                 (''sync'', json_object_of (rs2_sync_members (rs_sync c))),
                 (''filtering'', json_object_of (rs2_filtering_members (rs_filtering c))),
                 (''processing'', json_object_of (rs2_processing_members (rs_processing c))),
                 (''system'', json_object_of (rs2_system_members for_recording c)),
                 (''hardware'', json_object_of (rs2_hardware_members (rs_hardware c)))]) Json_null of
             None \<Rightarrow> Inl Uncaught_exception
           | Some j \<Rightarrow> Inr j))"

definition rs2_to_string :: "(json \<Rightarrow> string) \<Rightarrow> bool \<Rightarrow> rs2_config \<Rightarrow> fault + string" where
  "rs2_to_string dump for_recording c = map_sum id dump (rs2_to_json for_recording c)"

section \<open>Reading back what was written\<close>

text \<open>What is written for a recording is the configuration of its playback.\<close>

definition rs2_camera_as_written :: "bool \<Rightarrow> rs2_camera_config \<Rightarrow> rs2_camera_config" where
  "rs2_camera_as_written for_recording c =
     (if for_recording then c\<lparr>rs_camera := (rs_camera c)\<lparr>cam_type := ''realsense_playback''\<rparr>\<rparr> else c)"

definition rs2_as_written :: "bool \<Rightarrow> rs2_config \<Rightarrow> rs2_config" where
  "rs2_as_written for_recording c =
     (if for_recording
      then c\<lparr>rs_type := ''realsense_playback'', rs_record_to_directory := [],
             rs_all_camera_configs := map (rs2_camera_as_written True) (rs_all_camera_configs c)\<rparr>
      else c)"

text \<open>Each \<open>float\<close> of the configuration is read back from the \<open>double\<close> it was stored as.\<close>

definition floats_kept :: "(json \<Rightarrow> f32 option) \<Rightarrow> rs2_filtering \<Rightarrow> bool" where
  "floats_kept to_float f \<longleftrightarrow>
     list_all (\<lambda>x. to_float (Json_float (f64_of_f32 x)) = Some x)
       [rs_threshold_min_distance f, rs_threshold_max_distance f, rs_spatial_smooth_alpha f, rs_temporal_smooth_alpha f]"

lemmas rs2_members_defs = rs2_system_members_def rs2_sync_members_def rs2_hardware_members_def
  rs2_processing_members_def rs2_filtering_members_def

lemma rs2_members_objects:
  "json_object_of (rs2_system_members r c) = Json_object (rs2_system_members r c)"
  "json_object_of (rs2_sync_members s) = Json_object (rs2_sync_members s)"
  "json_object_of (rs2_hardware_members h) = Json_object (rs2_hardware_members h)"
  "json_object_of (rs2_processing_members p) = Json_object (rs2_processing_members p)"
  "json_object_of (rs2_filtering_members f) = Json_object (rs2_filtering_members f)"
  by (simp_all add: json_object_of_distinct rs2_members_defs)

lemma rs2_members_read:
  assumes "json_lib_ok lib"
  shows "rs2_read_system lib (Json_object (rs2_system_members r k)) c =
      (True, c\<lparr>rs_record_to_directory := if r then [] else rs_record_to_directory k,
        rs_playback_realtime := rs_playback_realtime k, rs_new_timestamps := rs_new_timestamps k,
        rs_debug := rs_debug k, rs_prefer_color_timing := rs_prefer_color_timing k\<rparr>)"
    and "rs2_read_sync lib (Json_object (rs2_sync_members s)) c = (True, c\<lparr>rs_sync := s\<rparr>)"
    and "rs2_read_hardware lib (Json_object (rs2_hardware_members h)) c = (True, c\<lparr>rs_hardware := h\<rparr>)"
    and "rs2_read_processing lib (Json_object (rs2_processing_members p)) c = (True, c\<lparr>rs_processing := p\<rparr>)"
  by (simp_all add: rs2_read_system_def rs2_read_sync_def rs2_read_hardware_def rs2_read_processing_def
      rs2_members_defs reader_then_def json_get_def json_lookup_def json_lib_conversions [OF assms])

lemma rs2_filtering_read:
  assumes "json_lib_ok lib" and "floats_kept to_float f"
  shows "rs2_read_filtering lib to_float (Json_object (rs2_filtering_members f)) c = (True, c\<lparr>rs_filtering := f\<rparr>)"
  using assms(2)
  by (simp add: rs2_read_filtering_def rs2_members_defs reader_then_def json_get_def json_lookup_def
      floats_kept_def json_lib_conversions [OF assms(1)])

lemma update_append_fresh: "k \<notin> set (map fst al) \<Longrightarrow> AList.update k v al = al @ [(k, v)]"
  for al :: "(string \<times> json) list"
  by (induction al) auto

lemma camera_from_extended:
  assumes "k \<notin> {''type'', ''serial'', ''disabled'', ''filename'', ''playback_filename'', ''trafo''}"
  shows "camera_from_json lib (Json_object (kvs @ [(k, v)])) c = camera_from_json lib (Json_object kvs) c"
proof -
  have look: "json_lookup (Json_object (kvs @ [(k, v)])) key = json_lookup (Json_object kvs) key" if "key \<noteq> k" for key
    using that by (simp add: json_lookup_def map_add_def split: option.split)
  have g: "json_get conv (Json_object (kvs @ [(k, v)])) key = json_get conv (Json_object kvs) key"
    "json_at_get conv (Json_object (kvs @ [(k, v)])) key = json_at_get conv (Json_object kvs) key"
    "json_at (Json_object (kvs @ [(k, v)])) key = json_at (Json_object kvs) key"
    if "key \<noteq> k" for key and conv :: "json \<Rightarrow> 'v option"
    using look [OF that] by (simp_all add: fun_eq_iff json_get_def json_at_get_def json_at_def)
  have "''type'' \<noteq> k" "''serial'' \<noteq> k" "''disabled'' \<noteq> k" "''filename'' \<noteq> k" "''playback_filename'' \<noteq> k" "''trafo'' \<noteq> k"
    using assms by auto
  then show ?thesis by (simp add: camera_from_json_def g look del: read_all.simps)
qed

lemma rs2_camera_read:
  assumes "json_lib_ok lib" and "camera_config_ok (rs_camera c)"
  shows "\<exists>j. rs2_camera_to_json r c = Inr j \<and>
    rs2_camera_from_json lib j new_rs2_camera_config = (True, rs2_camera_as_written r c)"
proof -
  define b where "b = rs_camera (rs2_camera_as_written r c)"
  define inpoint where "inpoint = (if rs_playback_inpoint_micros c \<noteq> 0
    then [(''playback_inpoint_micros'', json_of_int (rs_playback_inpoint_micros c))] else [])"
  obtain m where m: "cam_trafo (rs_camera c) = Some m" "cam_trafo b = Some m" and ok: "camera_config_ok b"
    using assms(2) by (auto simp: b_def rs2_camera_as_written_def camera_config_ok_def split: option.splits)
  have fresh: "''playback_inpoint_micros'' \<notin> set (map fst (camera_members d m))" for d
    by (auto simp: camera_members_def split: prod.splits)
  then have put: "json_put_all inpoint (Json_object (camera_members d m)) = Some (Json_object (camera_members d m @ inpoint))" for d
    by (simp add: inpoint_def json_put_def update_append_fresh)
  have "rs2_camera_to_json r c = Inr (Json_object (camera_members b m @ inpoint))"
    using put by (cases r) (simp_all add: rs2_camera_to_json_def camera_written [OF m(1)] camera_retyped
        inpoint_def [symmetric] b_def rs2_camera_as_written_def)
  moreover have "camera_from_json lib (Json_object (camera_members b m @ inpoint)) new_camera_config = (True, b)"
    using camera_read [OF ok m(2) assms(1)] by (simp add: inpoint_def camera_from_extended)
  moreover have "json_lookup (Json_object (camera_members b m @ inpoint)) ''playback_inpoint_micros'' =
      map_of inpoint ''playback_inpoint_micros''"
    using fresh [of b] by (simp add: json_lookup_def map_add_def map_of_eq_None_iff [symmetric] split: option.split)
  ultimately show ?thesis
    by (cases c; cases r) (simp_all add: rs2_camera_from_json_def new_rs2_camera_config_def json_get_def
        inpoint_def json_lib_conversions [OF assms(1)] reader_then_def b_def rs2_camera_as_written_def)
qed

lemma rs2_cameras_read:
  assumes "json_lib_ok lib" and "list_all (\<lambda>c. camera_config_ok (rs_camera c)) cs"
  shows "\<exists>js. rs2_cameras_to_json r cs = Inr js \<and> (\<forall>k. read_all (map (rs2_read_camera lib) js) k =
    (True, k\<lparr>rs_all_camera_configs := rs_all_camera_configs k @ map (rs2_camera_as_written r) cs\<rparr>))"
  using assms(2)
proof (induction cs)
  case (Cons c cs)
  obtain j where j: "rs2_camera_to_json r c = Inr j"
    "rs2_camera_from_json lib j new_rs2_camera_config = (True, rs2_camera_as_written r c)"
    using rs2_camera_read [OF assms(1)] Cons.prems by auto
  obtain js where "rs2_cameras_to_json r cs = Inr js" "\<And>k. read_all (map (rs2_read_camera lib) js) k =
    (True, k\<lparr>rs_all_camera_configs := rs_all_camera_configs k @ map (rs2_camera_as_written r) cs\<rparr>)"
    using Cons by auto
  moreover have "rs2_read_camera lib j k =
      (True, k\<lparr>rs_all_camera_configs := rs_all_camera_configs k @ [rs2_camera_as_written r c]\<rparr>)" for k
    by (simp add: rs2_read_camera_def j(2))
  ultimately show ?case by (simp add: reader_then_def j(1))
qed simp

lemma rs2_written:
  assumes "json_lib_ok lib" and "floats_kept to_float (rs_filtering c)"
    and "list_all (\<lambda>c. camera_config_ok (rs_camera c)) (rs_all_camera_configs c)"
  shows "\<exists>j. rs2_to_json r c = Inr j \<and> get_version lib j = Some 5 \<and>
    get_type lib j = Some (rs_type (rs2_as_written r c)) \<and>
    rs2_read lib to_float j c0 = (True, (rs2_as_written r c)\<lparr>rs_playback_loop := rs_playback_loop c0\<rparr>)"
proof -
  obtain js where js: "rs2_cameras_to_json r (rs_all_camera_configs c) = Inr js"
    "\<And>k. read_all (map (rs2_read_camera lib) js) k = (True, k\<lparr>rs_all_camera_configs :=
       rs_all_camera_configs k @ map (rs2_camera_as_written r) (rs_all_camera_configs c)\<rparr>)"
    using rs2_cameras_read [OF assms(1,3)] by blast
  define ty where "ty = (if r then ''realsense_playback'' else rs_type c)"
  define kvs where "kvs = [(''type'', Json_string ty), (''version'', Json_int 5), (''camera'', json_array_of js),
     (''sync'', Json_object (rs2_sync_members (rs_sync c))),
     (''filtering'', Json_object (rs2_filtering_members (rs_filtering c))),
     (''processing'', Json_object (rs2_processing_members (rs_processing c))),
     (''system'', Json_object (rs2_system_members r c)),
     (''hardware'', Json_object (rs2_hardware_members (rs_hardware c)))]"
  have w: "rs2_to_json r c = Inr (Json_object kvs)"
    by (simp add: rs2_to_json_def js(1) rs2_members_objects json_put_def kvs_def ty_def)
  have e: "json_elements (json_array_of js) = js"
    by (simp add: json_elements_def json_array_of_def)
  have five: "to_int lib (Json_int 5) = Some 5"
    using json_lib_conversions(1) [OF assms(1), of 5] by (simp add: json_of_int_def)
  have same: "rs2_camera_as_written False = (\<lambda>cam. cam)"
    by (simp add: rs2_camera_as_written_def fun_eq_iff)
  have "rs2_read lib to_float (Json_object kvs) c0 =
      (True, (rs2_as_written r c)\<lparr>rs_playback_loop := rs_playback_loop c0\<rparr>)"
    by (simp add: rs2_read_def rs2_read_cameras_def kvs_def ty_def rs2_as_written_def
        reader_then_def json_at_def json_if_contains_def json_at_get_def json_lookup_def e js(2) same
        rs2_members_read [OF assms(1)] rs2_filtering_read [OF assms(1,2)] json_lib_conversions [OF assms(1)])
  then show ?thesis
    using w five
    by (simp add: get_version_def get_type_def json_lookup_def kvs_def ty_def rs2_as_written_def
        json_lib_conversions [OF assms(1)])
qed

section \<open>Properties\<close>


definition sample_rs2_config :: rs2_config where
  "sample_rs2_config = new_rs2_config\<lparr>rs_type := ''realsense'', rs_record_to_directory := ''rec'',
     rs_all_camera_configs := [\<lparr>rs_camera = sample_camera, rs_playback_inpoint_micros = 7\<rparr>]\<rparr>"

definition sample_to_float :: "json \<Rightarrow> f32 option" where
  "sample_to_float j = (case j of Json_float d \<Rightarrow> Some (f32_of_f64 d) | _ \<Rightarrow> None)"

lemma sample_floats_kept: "floats_kept sample_to_float new_rs2_filtering"
  by code_simp


end
