(* ===== verification/RealSenseCamera.thy ===== *)
theory RealSenseCamera
  imports RS2Config "HOL-Library.Sublist"
begin

text \<open>
  \<open>cwipc_realsense2/src/RS2BaseCamera.cpp\<close>, second part, and the two places that drive it: waiting for
  a frame set of a camera (\<open>wait_for_captured_frameset\<close>), for one of every camera
  (\<open>_capture_all_cameras\<close> of \<open>RS2BaseCapture.hpp\<close>), and the synchronisation and the positions of
  \<open>RS2PlaybackCapture.cpp\<close> and \<open>RS2PlaybackCamera.cpp\<close>. What the pipeline of librealsense delivers is
  the list of its reads. The messages of debug mode are left out.
\<close>

section \<open>Frame sets and the pipeline\<close>

text \<open>
  A frame set, its depth frame possibly null; time stamps are milliseconds, as a \<open>double\<close>. Asking a
  null frame for its time stamp throws.
\<close>

record rs2_frameset =
  fsr_depth :: "f64 option"
  fsr_number :: nat

datatype pipeline_read = Arrived rs2_frameset | Not_arrived string

record rs2_camera =
  rc_serial :: string
  rc_stopped :: bool
  rc_eos :: bool
  rc_waiting :: bool
  rc_prefer_color_timing :: bool
  rc_previous :: "rs2_frameset option"
  rc_current :: "rs2_frameset option"
  rc_reads :: "pipeline_read list"
  rc_log :: "string list"

definition rc_say :: "string \<Rightarrow> rs2_camera \<Rightarrow> rs2_camera" where
  "rc_say t cam = cam\<lparr>rc_log := rc_log cam @ [t]\<rparr>"

definition frame_timeout_text :: string where
  "frame_timeout_text = ''Frame didn'' @ [CHR 0x27] @ ''t arrive within''"

definition contains_text :: "string \<Rightarrow> string \<Rightarrow> bool" where
  "contains_text pattern what = list_ex (prefix pattern) (suffixes what)"

text \<open>\<open>uint64_t\<close> of a time stamp.\<close>

definition rs2_ms :: "f64 \<Rightarrow> u64" where "rs2_ms t = word_of_int (f64_trunc t)"

definition rs2_same_time :: "f64 \<Rightarrow> f64 \<Rightarrow> bool" where
  "rs2_same_time x y \<longleftrightarrow> \<not> f64_isnan x \<and> \<not> f64_isnan y \<and> f64_key x = f64_key y"

text \<open>
  \<open>_wait_for_frames_from_pipeline\<close>. Nothing left to read is a time out, which is how the end of a
  stream is noticed; the frame set returned then is empty.
\<close>

definition wait_for_frames_from_pipeline :: "rs2_camera \<Rightarrow> rs2_frameset option \<times> rs2_camera" where
  "wait_for_frames_from_pipeline cam =
     (let cam1 = cam\<lparr>rc_waiting := True\<rparr> in
      case rc_reads cam1 of
        Arrived f # reads \<Rightarrow> (Some f, cam1\<lparr>rc_reads := reads\<rparr>)
      | Not_arrived what # reads \<Rightarrow>
          (None, (if contains_text frame_timeout_text what then id else rc_say (''wait_for_frames: rs2::error '' @ what))
                   (cam1\<lparr>rc_reads := reads, rc_eos := True\<rparr>))
      | [] \<Rightarrow> (None, cam1\<lparr>rc_eos := True\<rparr>))"

definition depth_time :: "rs2_frameset option \<Rightarrow> f64 option" where
  "depth_time f = (case f of None \<Rightarrow> None | Some f \<Rightarrow> fsr_depth f)"

section \<open>Waiting for a frame set\<close>

definition read_current :: "rs2_camera \<Rightarrow> rs2_camera" where
  "read_current cam = (case wait_for_frames_from_pipeline cam of (f, cam1) \<Rightarrow> cam1\<lparr>rc_current := f\<rparr>)"

definition move_on :: "rs2_camera \<Rightarrow> rs2_camera" where
  "move_on cam =
     read_current
       (case rc_current cam of
          Some f \<Rightarrow> cam\<lparr>rc_previous := Some f\<rparr>
        | None \<Rightarrow> (case wait_for_frames_from_pipeline cam of (f, cam1) \<Rightarrow> cam1\<lparr>rc_previous := f\<rparr>))"

definition no_depth_frame :: "rs2_camera \<Rightarrow> rs2_camera" where
  "no_depth_frame = rc_say ''wait_for_captured_frameset: no depth frame in frameset''"

text \<open>
  One turn of the loop: whether the function returns here or goes on to the test of the loop, with
  the value of \<open>resultant_timestamp\<close>. A turn that returns keeps that of the turn before.
\<close>

definition capture_turn :: "u64 \<Rightarrow> rs2_camera \<Rightarrow> fault + bool \<times> u64 \<times> rs2_camera" where
  "capture_turn resultant_timestamp cam =
     (let cam1 = move_on cam in
      if rc_eos cam1 then Inr (True, resultant_timestamp, cam1)
      else case depth_time (rc_current cam1) of
        None \<Rightarrow> Inr (True, resultant_timestamp, no_depth_frame cam1)
      | Some t \<Rightarrow>
          if \<not> rc_prefer_color_timing cam1 then Inr (False, rs2_ms t, cam1)
          else case depth_time (rc_previous cam1) of
            None \<Rightarrow> Inl Uncaught_exception
          | Some p \<Rightarrow>
              if \<not> rs2_same_time t p then Inr (False, rs2_ms t, cam1)
              else
                let cam2 = read_current (cam1\<lparr>rc_previous := rc_current cam1\<rparr>) in
                if rc_eos cam2 then Inr (True, resultant_timestamp, cam2)
                else (case depth_time (rc_current cam2) of
                        None \<Rightarrow> Inr (True, resultant_timestamp, no_depth_frame cam2)
                      | Some t' \<Rightarrow> Inr (False, rs2_ms t', cam2)))"

lemma pipeline_cases:
  obtains (read) f reads where "rc_reads cam = Arrived f # reads"
      "wait_for_frames_from_pipeline cam = (Some f, cam\<lparr>rc_waiting := True, rc_reads := reads\<rparr>)"
    | (ended) cam1 where "wait_for_frames_from_pipeline cam = (None, cam1)" "rc_eos cam1"
  by (cases "rc_reads cam"; cases "hd (rc_reads cam)")
    (auto simp: wait_for_frames_from_pipeline_def rc_say_def)

lemma pipeline_keeps_eos:
  "rc_eos cam \<Longrightarrow> rc_eos (snd (wait_for_frames_from_pipeline cam))"
  by (auto simp: wait_for_frames_from_pipeline_def rc_say_def Let_def split: list.split pipeline_read.split)

lemma read_current_open:
  assumes "\<not> rc_eos (read_current cam)"
  obtains f reads where "rc_reads cam = Arrived f # reads"
    "read_current cam = cam\<lparr>rc_waiting := True, rc_reads := reads, rc_current := Some f\<rparr>" "\<not> rc_eos cam"
proof (cases rule: pipeline_cases [of cam])
  case (read f reads)
  then show ?thesis using that assms by (simp add: read_current_def)
next
  case (ended cam1)
  then show ?thesis using assms by (simp add: read_current_def)
qed

lemma move_on_open:
  assumes "\<not> rc_eos (move_on cam)"
  obtains gs f reads p where "rc_reads cam = map Arrived gs @ Arrived f # reads" "\<not> rc_eos cam"
    "move_on cam = cam\<lparr>rc_waiting := True, rc_reads := reads, rc_previous := Some p, rc_current := Some f\<rparr>"
proof (cases "rc_current cam")
  case (Some c)
  then have open': "\<not> rc_eos (read_current (cam\<lparr>rc_previous := Some c\<rparr>))" using assms by (simp add: move_on_def)
  obtain f reads where "rc_reads (cam\<lparr>rc_previous := Some c\<rparr>) = Arrived f # reads"
    "read_current (cam\<lparr>rc_previous := Some c\<rparr>) =
       cam\<lparr>rc_previous := Some c\<rparr>\<lparr>rc_waiting := True, rc_reads := reads, rc_current := Some f\<rparr>"
    "\<not> rc_eos (cam\<lparr>rc_previous := Some c\<rparr>)"
    by (rule read_current_open [OF open'])
  then show ?thesis using that [of "[]" f reads c] Some by (simp add: move_on_def)
next
  case None
  show ?thesis
  proof (cases rule: pipeline_cases [of cam])
    case (read g reads)
    define cam1 where "cam1 = cam\<lparr>rc_waiting := True, rc_reads := reads, rc_previous := Some g\<rparr>"
    have open': "\<not> rc_eos (read_current cam1)" using assms None read by (simp add: move_on_def cam1_def)
    obtain f reads' where "rc_reads cam1 = Arrived f # reads'"
      "read_current cam1 = cam1\<lparr>rc_waiting := True, rc_reads := reads', rc_current := Some f\<rparr>" "\<not> rc_eos cam1"
      by (rule read_current_open [OF open'])
    then show ?thesis using that [of "[g]" f reads' g] None read by (simp add: move_on_def cam1_def)
  next
    case (ended cam1)
    then have "rc_eos (move_on cam)"
      using None pipeline_keeps_eos [of "cam1\<lparr>rc_previous := None\<rparr>"]
      by (auto simp: move_on_def read_current_def split: prod.splits)
    with assms show ?thesis by simp
  qed
qed

text \<open>A turn that goes on has read a frame set with a depth frame, the one that is current now.\<close>

lemma turn_goes_on:
  assumes "capture_turn r cam = Inr (False, ts, cam')"
  obtains gs f t where "rc_reads cam = map Arrived gs @ Arrived f # rc_reads cam'" "rc_current cam' = Some f"
    "fsr_depth f = Some t" "ts = rs2_ms t" "\<not> rc_eos cam" "\<not> rc_eos cam'"
    "rc_stopped cam' = rc_stopped cam" "rc_prefer_color_timing cam' = rc_prefer_color_timing cam"
    "rc_serial cam' = rc_serial cam"
proof -
  have open1: "\<not> rc_eos (move_on cam)"
    using assms by (auto simp: capture_turn_def Let_def split: if_splits)
  obtain gs f reads p where m: "rc_reads cam = map Arrived gs @ Arrived f # reads" "\<not> rc_eos cam"
    "move_on cam = cam\<lparr>rc_waiting := True, rc_reads := reads, rc_previous := Some p, rc_current := Some f\<rparr>"
    by (rule move_on_open [OF open1])
  define cam1 where "cam1 = cam\<lparr>rc_waiting := True, rc_reads := reads, rc_previous := Some p, rc_current := Some f\<rparr>"
  obtain t where t: "fsr_depth f = Some t"
    using assms m by (auto simp: capture_turn_def Let_def depth_time_def split: option.splits)
  show ?thesis
  proof (cases "cam' = cam1")
    case True
    then have "ts = rs2_ms t"
      using assms m t by (auto simp: capture_turn_def Let_def depth_time_def cam1_def read_current_def
          wait_for_frames_from_pipeline_def split: option.splits if_splits list.splits pipeline_read.splits)
    with True show ?thesis using that [of gs f t] m t by (simp add: cam1_def)
  next
    case False
    define cam2 where "cam2 = cam1\<lparr>rc_previous := Some f\<rparr>"
    have c: "\<not> rc_eos (read_current cam2)" "cam' = read_current cam2"
        "\<exists>t'. depth_time (rc_current cam') = Some t' \<and> ts = rs2_ms t'"
      using assms m False by (auto simp: capture_turn_def Let_def cam1_def cam2_def split: option.splits if_splits)
    obtain f' reads' where "rc_reads cam2 = Arrived f' # reads'"
      "read_current cam2 = cam2\<lparr>rc_waiting := True, rc_reads := reads', rc_current := Some f'\<rparr>" "\<not> rc_eos cam2"
      by (rule read_current_open [OF c(1)])
    then show ?thesis
      using that [of "gs @ [f]" f'] m c by (auto simp: cam1_def cam2_def depth_time_def)
  qed
qed

text \<open>A turn that returns keeps the time stamp, and has reached the end or a frame set without a depth frame.\<close>

lemma turn_returns:
  assumes "capture_turn r cam = Inr (True, ts, cam')"
  shows "ts = r" "rc_eos cam' \<or> depth_time (rc_current cam') = None"
  using assms
  by (auto simp: capture_turn_def Let_def no_depth_frame_def rc_say_def depth_time_def
      split: option.splits if_splits)

function capture_loop :: "u64 \<Rightarrow> u64 \<Rightarrow> rs2_camera \<Rightarrow> fault + u64 \<times> rs2_camera" where
  "capture_loop minimum_timestamp resultant_timestamp cam =
     (case capture_turn resultant_timestamp cam of
        Inl f \<Rightarrow> Inl f
      | Inr (returns, ts, cam1) \<Rightarrow>
          if returns \<or> \<not> ts < minimum_timestamp then Inr (ts, cam1)
          else capture_loop minimum_timestamp ts cam1)"
  by pat_completeness auto
termination
proof (relation "measure (\<lambda>(_, _, cam). length (rc_reads cam))")
  fix minimum_timestamp r :: u64 and cam cam1 returns ts x y
  assume "capture_turn r cam = Inr x" "(returns, y) = x" "(ts, cam1) = y" "\<not> (returns \<or> \<not> ts < minimum_timestamp)"
  then have "capture_turn r cam = Inr (False, ts, cam1)" by auto
  then obtain gs f where "rc_reads cam = map Arrived gs @ Arrived f # rc_reads cam1"
    by (rule turn_goes_on)
  then show "((minimum_timestamp, ts, cam1), minimum_timestamp, r, cam) \<in> measure (\<lambda>(_, _, cam). length (rc_reads cam))"
    by simp
qed simp

declare capture_loop.simps [simp del]

definition rs2_wait_for_captured_frameset :: "u64 \<Rightarrow> rs2_camera \<Rightarrow> fault + u64 \<times> rs2_camera" where
  "rs2_wait_for_captured_frameset minimum_timestamp cam =
     (if rc_stopped cam then Inr (0, cam)
      else case rc_previous cam of
        Some previous \<Rightarrow>
          if 0 < minimum_timestamp then
            (case fsr_depth previous of
               None \<Rightarrow> Inl Uncaught_exception
             | Some t \<Rightarrow>
                 if minimum_timestamp < rs2_ms t then Inr (rs2_ms t, cam\<lparr>rc_current := Some previous\<rparr>)
                 else capture_loop minimum_timestamp 0 cam)
          else capture_loop minimum_timestamp 0 cam
      | None \<Rightarrow> capture_loop minimum_timestamp 0 cam)"

text \<open>
  What the loop leaves: the end of the stream, a frame set without a depth frame, or one that is in
  time. Without a minimum it is left after one turn.
\<close>

lemma loop_in_time:
  assumes "capture_loop minimum_timestamp r cam = Inr (ts, cam')"
  shows "rc_eos cam' \<or> depth_time (rc_current cam') = None \<or>
    (\<exists>gs f t. rc_reads cam = map Arrived gs @ Arrived f # rc_reads cam' \<and> rc_current cam' = Some f \<and>
       fsr_depth f = Some t \<and> ts = rs2_ms t \<and> minimum_timestamp \<le> ts)"
  using assms
proof (induction minimum_timestamp r cam rule: capture_loop.induct)
  case (1 minimum_timestamp r cam)
  obtain returns ts1 cam1 where turn: "capture_turn r cam = Inr (returns, ts1, cam1)"
    using "1.prems" by (subst (asm) capture_loop.simps) (auto split: sum.splits)
  show ?case
  proof (cases returns)
    case True
    then have "cam' = cam1" using "1.prems" turn by (subst (asm) capture_loop.simps) simp
    with turn True turn_returns(2) [of r cam ts1 cam1] show ?thesis by auto
  next
    case False
    then have goes: "capture_turn r cam = Inr (False, ts1, cam1)" using turn by simp
    obtain gs f t where t: "rc_reads cam = map Arrived gs @ Arrived f # rc_reads cam1" "rc_current cam1 = Some f"
      "fsr_depth f = Some t" "ts1 = rs2_ms t" "\<not> rc_eos cam1"
      using goes by (rule turn_goes_on)
    show ?thesis
    proof (cases "ts1 < minimum_timestamp")
      case True
      then have "capture_loop minimum_timestamp ts1 cam1 = Inr (ts, cam')"
        using "1.prems" turn False by (subst (asm) capture_loop.simps) simp
      from "1.IH" [OF turn refl refl _ this] True False
      consider "rc_eos cam'" | "depth_time (rc_current cam') = None"
        | gs' f' t' where "rc_reads cam1 = map Arrived gs' @ Arrived f' # rc_reads cam'" "rc_current cam' = Some f'"
          "fsr_depth f' = Some t'" "ts = rs2_ms t'" "minimum_timestamp \<le> ts" by auto
      then show ?thesis
      proof cases
        case 3
        with t show ?thesis
          by (intro disjI2 exI [of _ "gs @ f # gs'"] exI [of _ f'] exI [of _ t']) simp
      qed simp_all
    next
      case in_time: False
      then have "ts = ts1" "cam' = cam1"
        using "1.prems" turn by (subst (asm) capture_loop.simps, simp)+
      with t in_time show ?thesis by (metis not_less)
    qed
  qed
qed

lemma loop_without_minimum:
  "capture_loop 0 r cam = map_sum id snd (capture_turn r cam)"
  by (subst capture_loop.simps) (auto split: sum.split)


text \<open>A recording with frames at 1000, 1033 and 1066 milliseconds.\<close>

definition frame_at :: "f64 \<Rightarrow> nat \<Rightarrow> rs2_frameset" where
  "frame_at t n = \<lparr>fsr_depth = Some t, fsr_number = n\<rparr>"

definition recorded_frames :: "rs2_frameset list" where
  "recorded_frames = [frame_at 0x408F400000000000 1, frame_at 0x4090240000000000 2, frame_at 0x4090A80000000000 3]"

definition recorded_camera :: "string \<Rightarrow> rs2_frameset list \<Rightarrow> rs2_camera" where
  "recorded_camera serial frames =
     \<lparr>rc_serial = serial, rc_stopped = False, rc_eos = False, rc_waiting = False, rc_prefer_color_timing = False,
      rc_previous = None, rc_current = None, rc_reads = map Arrived frames, rc_log = []\<rparr>"


section \<open>A frame set of every camera\<close>

text \<open>
  \<open>_capture_all_cameras\<close>: the first camera delivers any frame set, the others one that is not earlier.
  The messages are the capturer's.
\<close>

fun rs2_capture_cameras ::
  "rs2_camera list \<Rightarrow> u64 \<Rightarrow> fault + bool \<times> u64 \<times> rs2_camera list \<times> string list" where
  "rs2_capture_cameras [] first_timestamp = Inr (True, first_timestamp, [], [])"
| "rs2_capture_cameras (cam # cams) first_timestamp =
     (case rs2_wait_for_captured_frameset first_timestamp cam of
        Inl f \<Rightarrow> Inl f
      | Inr (ts, cam1) \<Rightarrow>
          if rc_eos cam1 then Inr (False, first_timestamp, cam1 # cams, [])
          else if ts = 0
          then Inr (False, first_timestamp, cam1 # cams, [''no frameset captured from camera '' @ rc_serial cam1])
          else (case rs2_capture_cameras cams (if first_timestamp = 0 then ts else first_timestamp) of
                  Inl f \<Rightarrow> Inl f
                | Inr (ok, first, cams1, log) \<Rightarrow> Inr (ok, first, cam1 # cams1, log)))"

definition rs2_capture_all_cameras ::
  "bool \<Rightarrow> u64 \<Rightarrow> rs2_camera list \<Rightarrow> fault + bool \<times> u64 \<times> rs2_camera list \<times> string list" where
  "rs2_capture_all_cameras nt time_of_day cams =
     (case rs2_capture_cameras cams 0 of
        Inl f \<Rightarrow> Inl f
      | Inr (ok, first, cams1, log) \<Rightarrow>
          Inr (ok, if \<not> ok then 0 else if nt then time_of_day else first, cams1, log))"

text \<open>The time of the frame set a camera holds.\<close>

definition captured_at :: "rs2_camera \<Rightarrow> u64 option" where
  "captured_at cam = map_option rs2_ms (depth_time (rc_current cam))"

definition not_before :: "u64 \<Rightarrow> rs2_camera \<Rightarrow> bool" where
  "not_before first cam \<longleftrightarrow> (\<forall>ts. captured_at cam = Some ts \<longrightarrow> first \<le> ts)"

lemma wait_captures:
  assumes "rs2_wait_for_captured_frameset m cam = Inr (ts, cam')" and "\<not> rc_eos cam'" "ts \<noteq> 0"
  shows "not_before m cam'" "m = 0 \<Longrightarrow> captured_at cam' = Some ts"
proof -
  have c: "capture_loop m 0 cam = Inr (ts, cam') \<or> m \<noteq> 0 \<and> captured_at cam' = Some ts \<and> m \<le> ts"
    using assms by (auto simp: rs2_wait_for_captured_frameset_def captured_at_def depth_time_def
        split: if_splits option.splits)
  moreover have "not_before m cam'" if "capture_loop m 0 cam = Inr (ts, cam')"
    using loop_in_time [OF that] assms(2) by (auto simp: not_before_def captured_at_def depth_time_def)
  ultimately show "not_before m cam'" by (auto simp: not_before_def)
  assume m: "m = 0"
  with c obtain returns where "capture_turn 0 cam = Inr (returns, ts, cam')"
    by (auto simp: loop_without_minimum map_sum_Inr)
  then have t: "capture_turn 0 cam = Inr (False, ts, cam')" using turn_returns(1) [of 0 cam ts cam'] assms(3)
    by (cases returns) auto
  then show "captured_at cam' = Some ts"
    by (rule turn_goes_on) (simp add: captured_at_def depth_time_def)
qed

lemma capture_cameras_from:
  assumes "rs2_capture_cameras cams first = Inr (True, ts, cams', log)"
  shows "length cams' = length cams \<and> list_all (not_before ts) cams' \<and>
    (if first = 0 then (case cams' of [] \<Rightarrow> ts = 0 | cam # _ \<Rightarrow> captured_at cam = Some ts \<and> ts \<noteq> 0) else ts = first)"
  using assms
proof (induction cams arbitrary: first ts cams' log)
  case (Cons cam cams)
  obtain ts1 cam1 where w: "rs2_wait_for_captured_frameset first cam = Inr (ts1, cam1)"
    using Cons.prems by (auto split: sum.splits)
  then have n: "ts1 \<noteq> 0" "\<not> rc_eos cam1" using Cons.prems by (auto split: if_splits sum.splits)
  then have c: "not_before first cam1" "first = 0 \<Longrightarrow> captured_at cam1 = Some ts1" using wait_captures [OF w] by blast+
  obtain cams1 log1 where r: "rs2_capture_cameras cams (if first = 0 then ts1 else first) = Inr (True, ts, cams1, log1)"
    "cams' = cam1 # cams1"
    using Cons.prems w n by (auto split: if_splits sum.splits)
  from Cons.IH [OF r(1)] c r(2) n show ?case
    by (auto simp: not_before_def split: if_splits)
qed simp

text \<open>
  C27. A round of the RealSense capturer is synchronised with its first camera: when all cameras have
  delivered, the time stamp of the new point cloud is that of the frame set the first camera holds (or
  the time of day, if new time stamps were asked for), and no other camera holds a depth frame that is
  earlier.
\<close>

theorem realsense_round_synchronised:
  assumes "rs2_capture_all_cameras nt time_of_day cams = Inr (True, ts, cams', log)"
  shows "length cams' = length cams \<and>
    (case cams' of
       [] \<Rightarrow> True
     | first # _ \<Rightarrow>
         (\<exists>t. captured_at first = Some t \<and> t \<noteq> 0 \<and> ts = (if nt then time_of_day else t) \<and>
            (\<forall>cam \<in> set cams'. \<forall>t'. captured_at cam = Some t' \<longrightarrow> t \<le> t')))"
proof -
  obtain first where f: "rs2_capture_cameras cams 0 = Inr (True, first, cams', log)" "ts = (if nt then time_of_day else first)"
    using assms by (auto simp: rs2_capture_all_cameras_def split: sum.splits if_splits)
  from capture_cameras_from [OF f(1)] f(2) show ?thesis
    by (cases cams') (auto simp: not_before_def list_all_iff)
qed

theorem realsense_round_synchronised_witness:
  "\<exists>cams' log t. rs2_capture_all_cameras False 5 [recorded_camera ''A'' (tl recorded_frames), recorded_camera ''B'' recorded_frames] =
       Inr (True, 1066, cams', log) \<and> captured_at (hd cams') = Some 1066 \<and>
     (\<forall>cam \<in> set cams'. \<forall>t'. captured_at cam = Some t' \<longrightarrow> 1066 \<le> t')"
proof -
  define cams' where "cams' =
    [(recorded_camera ''A'' [])\<lparr>rc_waiting := True,
       rc_previous := Some (frame_at 0x4090240000000000 2), rc_current := Some (frame_at 0x4090A80000000000 3)\<rparr>,
     (recorded_camera ''B'' [])\<lparr>rc_waiting := True,
       rc_previous := Some (frame_at 0x4090240000000000 2), rc_current := Some (frame_at 0x4090A80000000000 3)\<rparr>]"
  have r: "rs2_capture_all_cameras False 5 [recorded_camera ''A'' (tl recorded_frames), recorded_camera ''B'' recorded_frames] =
      Inr (True, 1066, cams', [])"
    unfolding cams'_def by code_simp
  show ?thesis using realsense_round_synchronised [OF r] r by (auto simp: cams'_def)
qed

section \<open>A frame set without a depth frame\<close>


text \<open>
  Later in the loop it is worse: the function then returns the time stamp of the turn before, which
  is not zero and too early, and the capturer takes the frame set without a depth frame for delivered.
\<close>

definition depthless_camera :: rs2_camera where
  "depthless_camera = recorded_camera ''B''
     [frame_at 0x408F400000000000 1, frame_at 0x4090240000000000 2, \<lparr>fsr_depth = None, fsr_number = 3\<rparr>]"

lemma depthless_frameset_delivered:
  "map_sum id (\<lambda>(ts, cam). (ts, rc_current cam)) (rs2_wait_for_captured_frameset 1066 depthless_camera) =
     Inr (1033, Some \<lparr>fsr_depth = None, fsr_number = 3\<rparr>)"
  by code_simp


section \<open>Playback\<close>

text \<open>
  \<open>_initial_camera_synchronization\<close> of a playback: every camera is moved to the latest first time
  stamp. The capturer remembers the first time stamp it has seen, for \<open>seek\<close>.
\<close>

fun first_timestamps :: "rs2_camera list \<Rightarrow> u64 \<times> u64 \<Rightarrow> fault + (u64 \<times> u64) \<times> rs2_camera list" where
  "first_timestamps [] s = Inr (s, [])"
| "first_timestamps (cam # cams) (earliest_seen, newest_first) =
     (case rs2_wait_for_captured_frameset 0 cam of
        Inl f \<Rightarrow> Inl f
      | Inr (ts, cam1) \<Rightarrow>
          (case first_timestamps cams (if earliest_seen = 0 then ts else earliest_seen, max newest_first ts) of
             Inl f \<Rightarrow> Inl f | Inr (s, cams1) \<Rightarrow> Inr (s, cam1 # cams1)))"

fun seek_cameras :: "u64 \<Rightarrow> rs2_camera list \<Rightarrow> fault + rs2_camera list" where
  "seek_cameras newest_first [] = Inr []"
| "seek_cameras newest_first (cam # cams) =
     (case rs2_wait_for_captured_frameset newest_first cam of
        Inl f \<Rightarrow> Inl f
      | Inr (_, cam1) \<Rightarrow> (case seek_cameras newest_first cams of Inl f \<Rightarrow> Inl f | Inr cams1 \<Rightarrow> Inr (cam1 # cams1)))"

definition initial_camera_synchronization :: "u64 \<Rightarrow> rs2_camera list \<Rightarrow> fault + u64 \<times> rs2_camera list" where
  "initial_camera_synchronization earliest_seen cams =
     (case first_timestamps cams (earliest_seen, 0) of
        Inl f \<Rightarrow> Inl f
      | Inr ((earliest, newest_first), cams1) \<Rightarrow>
          (case seek_cameras newest_first cams1 of Inl f \<Rightarrow> Inl f | Inr cams2 \<Rightarrow> Inr (earliest, cams2)))"

text \<open>
  The positions a recording is moved to, in nanoseconds: at the start of the camera, and for \<open>seek\<close>,
  where the start of the playback in microseconds is multiplied as an \<open>int\<close>, 32 bits wide.
\<close>

definition start_position :: "u32 \<Rightarrow> u64" where
  "start_position playback_inpoint_micros = 1000 * scast playback_inpoint_micros"

definition seek_position :: "u32 \<Rightarrow> u64 \<Rightarrow> u64" where
  "seek_position playback_inpoint_micros timestamp = scast (playback_inpoint_micros * 1000) + timestamp * 1000000"

definition rs2_playback_seek :: "u64 \<Rightarrow> u32 list \<Rightarrow> u64 \<Rightarrow> u64 list \<times> string list" where
  "rs2_playback_seek earliest_seen inpoints timestamp =
     (map (\<lambda>i. seek_position i (timestamp - earliest_seen)) inpoints,
      if earliest_seen = 0 then [''seek: cannot seek before initial timestamp seen''] else [])"

text \<open>Up to two seconds the two agree; from there on \<open>seek\<close> goes elsewhere.\<close>

lemma seek_position_inpoint:
  "playback_inpoint_micros \<le> 2147483 \<Longrightarrow> seek_position playback_inpoint_micros 0 = start_position playback_inpoint_micros"
  "seek_position 3000000 0 = start_position 3000000 - 2 ^ 32"
proof -
  show "seek_position 3000000 0 = start_position 3000000 - 2 ^ 32"
    by (simp add: seek_position_def start_position_def)
  assume a: "playback_inpoint_micros \<le> 2147483"
  define n where "n = uint playback_inpoint_micros"
  have n: "0 \<le> n" "n \<le> 2147483" "playback_inpoint_micros = word_of_int n"
    using a by (simp_all add: n_def word_le_def)
  have "scast (word_of_int n * 1000 :: u32) = (1000 * scast (word_of_int n :: u32) :: u64)"
  proof -
    have w: "word_of_int n * 1000 = (word_of_int (n * 1000) :: u32)" by simp
    have s: "sint (word_of_int m :: u32) = m" if "0 \<le> m" "m \<le> 2147483000" for m
      using that by (simp add: signed_of_int signed_take_bit_int_eq_self)
    show ?thesis
      unfolding w scast_eq using s [of n] s [of "n * 1000"] n(1,2) by (simp add: mult.commute)
  qed
  then show "seek_position playback_inpoint_micros 0 = start_position playback_inpoint_micros"
    by (simp add: seek_position_def start_position_def n(3))
qed

end
