(* ===== verification/RealSenseDevice.thy ===== *)
theory RealSenseDevice
  imports RS2Config
begin

text \<open>
  What a RealSense capturer sets on its devices and reads back from them: the options of the sensors
  (\<open>_init_hardware_for_all_cameras\<close> and \<open>_setup_inter_camera_sync\<close> of
  \<open>cwipc_realsense2/src/RS2Capture.cpp\<close>), and the hardware parameters of a camera
  (\<open>get_camera_hardware_parameters\<close>, \<open>match_camera_hardware_parameters\<close> and
  \<open>_post_start_this_camera\<close> of \<open>RS2BaseCamera.cpp\<close>).
\<close>

section \<open>Sensors and options\<close>

text \<open>
  A device has sensors, a sensor has options, which it need not support (\<open>None\<close>). Setting or
  reading an option that is not supported throws, and so does asking for a sensor that is not there.
  The options are floats that hold integers; the model keeps the integer.
\<close>

datatype rs2_sensor = Depth_sensor | Color_sensor | Motion_sensor

datatype rs2_option =
    Visual_preset | Gain | Exposure | Enable_auto_exposure | White_balance | Enable_auto_white_balance
  | Backlight_compensation | Laser_power | Inter_cam_sync_mode

record rs2_device =
  rd_name :: string
  rd_serial :: string
  rd_sensors :: "rs2_sensor list"
  rd_options :: "rs2_sensor \<Rightarrow> rs2_option \<Rightarrow> int option"

definition platform_camera :: "rs2_device \<Rightarrow> bool" where
  "platform_camera d \<longleftrightarrow> rd_name d = ''Platform Camera''"

definition count_devices :: "rs2_device list \<Rightarrow> nat" where
  "count_devices devs = length (filter (\<lambda>d. \<not> platform_camera d) devs)"

definition supports :: "rs2_device \<Rightarrow> rs2_sensor \<Rightarrow> rs2_option \<Rightarrow> bool" where
  "supports d s opt \<longleftrightarrow> rd_options d s opt \<noteq> None"

definition set_option :: "rs2_sensor \<Rightarrow> rs2_option \<Rightarrow> int \<Rightarrow> rs2_device \<Rightarrow> fault + rs2_device" where
  "set_option s opt v d =
     (if supports d s opt then Inr (d\<lparr>rd_options := (rd_options d)(s := (rd_options d s)(opt := Some v))\<rparr>)
      else Inl Uncaught_exception)"

definition get_option :: "rs2_device \<Rightarrow> rs2_sensor \<Rightarrow> rs2_option \<Rightarrow> fault + int" where
  "get_option d s opt = (case rd_options d s opt of None \<Rightarrow> Inl Uncaught_exception | Some v \<Rightarrow> Inr v)"

section \<open>Initialising the hardware\<close>

text \<open>
  The settings a configuration asks for, in order. A negative parameter means automatic, or that the
  option is left alone. The first component tells whether the code asks first if it is supported.
\<close>

type_synonym rs2_setting = "bool \<times> rs2_sensor \<times> rs2_option \<times> int"

definition color_settings :: "rs2_hardware \<Rightarrow> rs2_setting list" where
  "color_settings hw =
     (if 0 \<le> sint (rs_color_gain hw) then [(False, Color_sensor, Gain, sint (rs_color_gain hw))] else [])
     @ (if 0 \<le> sint (rs_color_exposure hw)
        then [(False, Color_sensor, Enable_auto_exposure, 0), (False, Color_sensor, Exposure, sint (rs_color_exposure hw))]
        else [(True, Color_sensor, Enable_auto_exposure, 1)])
     @ (if 0 \<le> sint (rs_whitebalance hw)
        then [(True, Color_sensor, Enable_auto_white_balance, 0), (True, Color_sensor, White_balance, sint (rs_whitebalance hw))]
        else [(True, Color_sensor, Enable_auto_white_balance, 1)])
     @ (if 0 \<le> sint (rs_backlight_compensation hw)
        then [(True, Color_sensor, Backlight_compensation, sint (rs_backlight_compensation hw))] else [])"

definition depth_settings :: "rs2_hardware \<Rightarrow> rs2_setting list" where
  "depth_settings hw =
     (if 0 \<le> sint (rs_depth_gain hw) then [(False, Depth_sensor, Gain, sint (rs_depth_gain hw))] else [])
     @ (if 0 \<le> sint (rs_depth_exposure hw)
        then [(False, Depth_sensor, Enable_auto_exposure, 0), (False, Depth_sensor, Exposure, sint (rs_depth_exposure hw))]
        else [(True, Depth_sensor, Enable_auto_exposure, 1)])
     @ (if 0 \<le> sint (rs_laser_power hw) then [(True, Depth_sensor, Laser_power, sint (rs_laser_power hw))] else [])"

definition hardware_settings :: "rs2_hardware \<Rightarrow> rs2_setting list" where
  "hardware_settings hw =
     [(True, Depth_sensor, Visual_preset, sint (rs_visual_preset hw))] @ color_settings hw @ depth_settings hw"

fun apply_settings :: "rs2_setting list \<Rightarrow> rs2_device \<Rightarrow> fault + rs2_device" where
  "apply_settings [] d = Inr d"
| "apply_settings ((asks, s, opt, v) # rest) d =
     (if asks \<and> \<not> supports d s opt then apply_settings rest d
      else case set_option s opt v d of Inl f \<Rightarrow> Inl f | Inr d1 \<Rightarrow> apply_settings rest d1)"

definition init_device :: "rs2_hardware \<Rightarrow> rs2_device \<Rightarrow> fault + rs2_device" where
  "init_device hw d =
     (if Depth_sensor \<notin> set (rd_sensors d) \<or> Color_sensor \<notin> set (rd_sensors d) then Inl Uncaught_exception
      else apply_settings (hardware_settings hw) d)"

fun rs2_init_hardware_for_all_cameras :: "rs2_hardware \<Rightarrow> rs2_device list \<Rightarrow> fault + rs2_device list" where
  "rs2_init_hardware_for_all_cameras hw [] = Inr []"
| "rs2_init_hardware_for_all_cameras hw (d # ds) =
     (case init_device hw d of
        Inl f \<Rightarrow> Inl f
      | Inr d1 \<Rightarrow>
          (case rs2_init_hardware_for_all_cameras hw ds of Inl f \<Rightarrow> Inl f | Inr ds1 \<Rightarrow> Inr (d1 # ds1)))"

section \<open>Synchronisation between cameras\<close>

text \<open>One device: whether it has a synchronisation option, and the device with the mode set on every sensor.\<close>

definition syncs :: "rs2_device \<Rightarrow> bool" where
  "syncs d \<longleftrightarrow> (\<exists>s \<in> set (rd_sensors d). supports d s Inter_cam_sync_mode)"

definition set_sync_mode :: "int \<Rightarrow> rs2_device \<Rightarrow> rs2_device" where
  "set_sync_mode v d =
     d\<lparr>rd_options := (\<lambda>s opt. if s \<in> set (rd_sensors d) \<and> opt = Inter_cam_sync_mode \<and> supports d s opt then Some v
                              else rd_options d s opt)\<rparr>"

definition not_first_text :: "string \<Rightarrow> string" where
  "not_first_text master_serial =
     ''Camera '' @ master_serial @ '' is not the first camera found. This may influence sync''"

text \<open>The warning is given for every sensor of the master that has the option.\<close>

fun sync_devices :: "string \<Rightarrow> int \<Rightarrow> bool \<Rightarrow> rs2_device list \<Rightarrow> (bool \<times> string list) \<times> rs2_device list" where
  "sync_devices master_serial mode is_first_camera [] = ((False, []), [])"
| "sync_devices master_serial mode is_first_camera (d # ds) =
     (let is_master = (rd_serial d = master_serial);
          ((found, log), ds1) = sync_devices master_serial mode False ds;
          sensors = filter (\<lambda>s. supports d s Inter_cam_sync_mode) (rd_sensors d)
      in ((is_master \<and> syncs d \<or> found,
           (if is_master \<and> \<not> is_first_camera then map (\<lambda>_. not_first_text master_serial) sensors else []) @ log),
          set_sync_mode (if is_master then 1 else mode) d # ds1))"

definition setup_inter_camera_sync :: "rs2_sync \<Rightarrow> rs2_device list \<Rightarrow> bool \<times> string list \<times> rs2_device list" where
  "setup_inter_camera_sync sync_cfg devs =
     (let master_serial = rs_sync_master_serial sync_cfg; mode = sint (rs_sync_mode sync_cfg) in
      if master_serial = [] then (True, [], map (set_sync_mode 0) devs)
      else if mode = 0 then (False, [''Sync_master_serial set, but no sync mode requested''], devs)
      else case sync_devices master_serial mode True devs of
             ((found, log), devs1) \<Rightarrow>
               if master_serial = ''external'' \<or> found then (True, log, devs1)
               else (False, log @ [''Sync master camera with serial '' @ master_serial @ '' not found''], devs1))"

section \<open>The parameters of a running camera\<close>

definition get_automatic :: "rs2_device \<Rightarrow> rs2_sensor \<Rightarrow> rs2_option \<Rightarrow> rs2_option \<Rightarrow> fault + u32" where
  "get_automatic d s auto opt =
     (case get_option d s auto of
        Inl f \<Rightarrow> Inl f
      | Inr is_auto \<Rightarrow>
          map_sum id (\<lambda>v. word_of_int (if is_auto \<noteq> 0 then - v else v)) (get_option d s opt))"

definition get_plain :: "rs2_device \<Rightarrow> rs2_sensor \<Rightarrow> rs2_option \<Rightarrow> fault + u32" where
  "get_plain d s opt = map_sum id word_of_int (get_option d s opt)"

definition read_into :: "fault + u32 \<Rightarrow> (u32 \<Rightarrow> rs2_hardware \<Rightarrow> rs2_hardware) \<Rightarrow> fault + rs2_hardware \<Rightarrow> fault + rs2_hardware" where
  "read_into v put out =
     (case out of Inl f \<Rightarrow> Inl f | Inr hw \<Rightarrow> map_sum id (\<lambda>x. put x hw) v)"

text \<open>\<open>output\<close> is the caller's; its visual preset is left alone.\<close>

definition rs2_get_camera_hardware_parameters ::
  "rs2_hardware \<Rightarrow> rs2_device \<Rightarrow> rs2_hardware \<Rightarrow> fault + rs2_hardware" where
  "rs2_get_camera_hardware_parameters hw d output_hw =
     (let out0 = output_hw\<lparr>rs_color_width := rs_color_width hw, rs_color_height := rs_color_height hw,
            rs_depth_width := rs_depth_width hw, rs_depth_height := rs_depth_height hw, rs_fps := rs_fps hw\<rparr>;
          out1 = read_into (get_automatic d Color_sensor Enable_auto_exposure Exposure) (\<lambda>x. rs_color_exposure_update (\<lambda>_. x)) (Inr out0);
          out2 = read_into (get_plain d Color_sensor Gain) (\<lambda>x. rs_color_gain_update (\<lambda>_. x)) out1;
          out3 = read_into (get_automatic d Color_sensor Enable_auto_white_balance White_balance) (\<lambda>x. rs_whitebalance_update (\<lambda>_. x)) out2;
          out4 = read_into (get_plain d Color_sensor Backlight_compensation) (\<lambda>x. rs_backlight_compensation_update (\<lambda>_. x)) out3;
          out5 = read_into (get_automatic d Depth_sensor Enable_auto_exposure Exposure) (\<lambda>x. rs_depth_exposure_update (\<lambda>_. x)) out4;
          out6 = read_into (get_plain d Depth_sensor Gain) (\<lambda>x. rs_depth_gain_update (\<lambda>_. x)) out5
      in if Depth_sensor \<notin> set (rd_sensors d) \<or> Color_sensor \<notin> set (rd_sensors d) then Inl Uncaught_exception
         else read_into (get_plain d Depth_sensor Laser_power) (\<lambda>x. rs_laser_power_update (\<lambda>_. x)) out6)"

text \<open>All members are compared.\<close>

definition rs2_match_camera_hardware_parameters :: "rs2_hardware \<Rightarrow> rs2_hardware \<Rightarrow> bool" where
  "rs2_match_camera_hardware_parameters hw wanted \<longleftrightarrow>
     rs_fps wanted = rs_fps hw \<and>
     rs_color_height wanted = rs_color_height hw \<and> rs_color_width wanted = rs_color_width hw \<and>
     rs_color_exposure wanted = rs_color_exposure hw \<and> rs_color_gain wanted = rs_color_gain hw \<and>
     rs_backlight_compensation wanted = rs_backlight_compensation hw \<and> rs_whitebalance wanted = rs_whitebalance hw \<and>
     rs_depth_exposure wanted = rs_depth_exposure hw \<and> rs_depth_gain wanted = rs_depth_gain hw \<and>
     rs_depth_height wanted = rs_depth_height hw \<and> rs_depth_width wanted = rs_depth_width hw \<and>
     rs_visual_preset wanted = rs_visual_preset hw \<and> rs_laser_power wanted = rs_laser_power hw"

text \<open>
  \<open>_post_start_this_camera\<close>: the frame rate and the sizes are those of the streams that were opened,
  the last one of each kind. The result is the hardware configuration, the two format names and
  the messages.
\<close>

record rs2_stream =
  sm_depth :: bool
  sm_fps :: u32
  sm_width :: u32
  sm_height :: u32
  sm_format :: string

definition last_stream :: "bool \<Rightarrow> rs2_stream list \<Rightarrow> rs2_stream option" where
  "last_stream depth streams = (case filter (\<lambda>s. sm_depth s = depth) streams of [] \<Rightarrow> None | ss \<Rightarrow> Some (last ss))"

definition post_start_hardware :: "rs2_stream list \<Rightarrow> rs2_hardware \<Rightarrow> rs2_hardware \<times> string list" where
  "post_start_hardware streams hw =
     (let (depth_fps, depth_width, depth_height) =
            (case last_stream True streams of None \<Rightarrow> (rs_fps hw, rs_depth_width hw, rs_depth_height hw)
             | Some s \<Rightarrow> (sm_fps s, sm_width s, sm_height s));
          (color_fps, color_width, color_height) =
            (case last_stream False streams of None \<Rightarrow> (rs_fps hw, rs_color_width hw, rs_color_height hw)
             | Some s \<Rightarrow> (sm_fps s, sm_width s, sm_height s))
      in (hw\<lparr>rs_fps := depth_fps, rs_depth_width := depth_width, rs_depth_height := depth_height,
             rs_color_width := color_width, rs_color_height := color_height\<rparr>,
          if depth_fps \<noteq> color_fps
          then [''Depth and color fps differ: depth '' @ to_string (sint depth_fps) @ '' color ''
                @ to_string (sint color_fps) @ ''. Using depth fps.'']
          else []))"

section \<open>What was set is read back\<close>

definition full_device :: "rs2_device \<Rightarrow> bool" where
  "full_device d \<longleftrightarrow> Depth_sensor \<in> set (rd_sensors d) \<and> Color_sensor \<in> set (rd_sensors d) \<and>
     (\<forall>s opt. supports d s opt)"

lemma set_supported:
  "supports d s opt \<Longrightarrow>
     set_option s opt v d = Inr (d\<lparr>rd_options := (rd_options d)(s := (rd_options d s)(opt := Some v))\<rparr>)"
  by (simp add: set_option_def)

lemma supports_update [simp]:
  "supports (d\<lparr>rd_options := (rd_options d)(s := (rd_options d s)(opt := Some v))\<rparr>) s' opt' \<longleftrightarrow>
     (s' = s \<and> opt' = opt) \<or> supports d s' opt'"
  by (auto simp: supports_def)

text \<open>On a device that supports everything the settings are written one over the other.\<close>

fun written :: "rs2_setting list \<Rightarrow> (rs2_sensor \<Rightarrow> rs2_option \<Rightarrow> int option) \<Rightarrow> rs2_sensor \<Rightarrow> rs2_option \<Rightarrow> int option" where
  "written [] opts = opts"
| "written ((_, s, opt, v) # rest) opts = written rest (opts(s := (opts s)(opt := Some v)))"

lemma apply_written:
  assumes "\<forall>s opt. supports d s opt"
  shows "apply_settings ss d = Inr (d\<lparr>rd_options := written ss (rd_options d)\<rparr>)"
  using assms
proof (induction ss arbitrary: d)
  case (Cons x ss)
  obtain asks s opt v where x: "x = (asks, s, opt, v)" by (cases x)
  define opts where "opts = (rd_options d)(s := (rd_options d s)(opt := Some v))"
  have "\<forall>s opt. supports (d\<lparr>rd_options := opts\<rparr>) s opt"
    using Cons.prems by (simp add: opts_def)
  from Cons.IH [OF this] Cons.prems show ?case
    by (simp add: x set_option_def flip: opts_def)
qed simp

text \<open>The parameters that are given a value, rather than left to the device.\<close>

definition manual_hardware :: "rs2_hardware \<Rightarrow> bool" where
  "manual_hardware hw \<longleftrightarrow>
     list_all (\<lambda>x. 0 \<le> sint x)
       [rs_color_exposure hw, rs_color_gain hw, rs_depth_exposure hw, rs_depth_gain hw, rs_whitebalance hw,
        rs_backlight_compensation hw, rs_laser_power hw]"

text \<open>
  The hardware parameters of a RealSense configuration survive the way to the device and back: when
  every parameter is given a value and the device supports them all, initialising it succeeds, and
  reading the parameters of the camera returns those of the configuration, all but the visual preset,
  which is never read and keeps what the caller had.
\<close>

theorem rs2_hardware_read_back:
  assumes "full_device d" and "manual_hardware hw"
  shows "\<exists>d'. init_device hw d = Inr d' \<and>
    rs2_get_camera_hardware_parameters hw d' output_hw = Inr (hw\<lparr>rs_visual_preset := rs_visual_preset output_hw\<rparr>)"
proof -
  define d' where "d' = d\<lparr>rd_options := written (hardware_settings hw) (rd_options d)\<rparr>"
  have "init_device hw d = Inr d'"
    using assms(1) apply_written [of d "hardware_settings hw"] by (simp add: init_device_def full_device_def d'_def)
  moreover have "rs2_get_camera_hardware_parameters hw d' output_hw = Inr (hw\<lparr>rs_visual_preset := rs_visual_preset output_hw\<rparr>)"
    using assms
    by (simp add: rs2_get_camera_hardware_parameters_def full_device_def manual_hardware_def d'_def hardware_settings_def
        color_settings_def depth_settings_def read_into_def get_automatic_def get_plain_def get_option_def Let_def)
  ultimately show ?thesis by blast
qed

definition plain_device :: rs2_device where
  "plain_device = \<lparr>rd_name = ''D435'', rd_serial = ''A'', rd_sensors = [Depth_sensor, Color_sensor],
     rd_options = (\<lambda>_ _. Some 0)\<rparr>"

definition manual_settings :: rs2_hardware where
  "manual_settings = new_rs2_hardware\<lparr>rs_color_exposure := 8, rs_color_gain := 1, rs_depth_exposure := 4, rs_depth_gain := 2,
     rs_whitebalance := 3, rs_backlight_compensation := 1, rs_laser_power := 5, rs_visual_preset := 7\<rparr>"

theorem rs2_hardware_read_back_witness:
  "\<exists>d'. init_device manual_settings plain_device = Inr d' \<and>
     rs2_get_camera_hardware_parameters manual_settings d' new_rs2_hardware = Inr (manual_settings\<lparr>rs_visual_preset := 0\<rparr>)"
  using rs2_hardware_read_back [of plain_device manual_settings new_rs2_hardware]
  by (simp add: full_device_def plain_device_def manual_hardware_def manual_settings_def supports_def new_rs2_hardware_def)

text \<open>An automatic exposure is reported with the sign changed, so that it is automatic when it is read again.\<close>

lemma automatic_exposure_negative:
  assumes "rd_options d Color_sensor Enable_auto_exposure = Some 1" and "rd_options d Color_sensor Exposure = Some v"
  shows "get_automatic d Color_sensor Enable_auto_exposure Exposure = Inr (word_of_int (- v))"
  using assms by (simp add: get_automatic_def get_option_def)

text \<open>A platform camera, which all other loops skip, has no depth sensor: initialising the hardware throws.\<close>

lemma webcam_stops_initialisation:
  "Depth_sensor \<notin> set (rd_sensors d) \<Longrightarrow> d \<in> set devs \<Longrightarrow>
     \<exists>f. rs2_init_hardware_for_all_cameras hw devs = Inl f"
  by (induction devs) (auto simp: init_device_def split: sum.split)

end
