(* ===== verification/RealSenseCapture.thy ===== *)
theory RealSenseCapture
  imports RealSenseCamera RealSenseDevice KinectCapture
begin

text \<open>
  \<open>cwipc_realsense2/src/RS2BaseCapture.hpp\<close> and \<open>RS2Capture.cpp\<close>: the capturer for live RealSense
  cameras, everything but its control thread (theory \<open>RealSenseThread\<close>). Point clouds are kept in a
  heap, because the capturer keeps the pointer of a cloud it has handed out. What librealsense
  answers is an argument of the operation that asks.
\<close>

section \<open>State\<close>

text \<open>
  A camera as its capturer sees it: the part that waits for frame sets, the queue of one frame set in
  front of its processing thread, where that thread is (about to test \<open>camera_stopped\<close>, waiting for a
  frame set, or not there), the frame set it works on, and what it made last. The points it makes of a
  frame set are a parameter of the executions. The constructor leaves \<open>processing_done\<close> uninitialised.
\<close>

datatype rs2_unit_at = Ut_test | Ut_waiting | Ut_ended

record rs2_unit =
  ru_cam :: rs2_camera
  ru_index :: nat
  ru_pointSize :: f32
  ru_queue :: "rs2_frameset option"
  ru_at :: rs2_unit_at
  ru_busy :: "rs2_frameset option"
  ru_done :: bool
  ru_processed :: "rs2_frameset option"
  ru_cloud :: "pcl_point list option"

record rs2_wants =
  rw_rgb :: bool
  rw_depth :: bool
  rw_timestamps :: bool
  rw_camera_specs :: bool

text \<open>
  Where the control thread is. In \<open>Rt_waiting n\<close> it waits for camera \<open>n\<close>; the other places are as
  those of the Kinect control thread. A cloud is known by its address.
\<close>

datatype rs2_at =
    Rt_begin | Rt_test | Rt_predicate | Rt_before_block | Rt_blocked | Rt_eof_check | Rt_capture
  | Rt_captured u64 | Rt_new nat | Rt_queued nat | Rt_lock nat | Rt_published | Rt_waiting nat
  | Rt_merge | Rt_exit | Rt_done

record rs2_capture =
  rk_config :: rs2_config
  rk_wants :: rs2_wants
  rk_cameras :: "rs2_unit list"
  rk_devices :: "rs2_device list"
  rk_initialized :: bool
  rk_stopping :: bool
  rk_stopped :: bool
  rk_eof :: bool
  rk_mergedPC :: "nat option"
  rk_fresh :: bool
  rk_want_new :: bool
  rk_control :: "rs2_at option"
  rk_calls :: "(camera_call \<times> nat) list"

record rs2_state =
  rx_world :: world
  rx_heap :: "nat \<Rightarrow> cwipc_obj option"
  rx_next :: nat
  rx_cap :: rs2_capture

definition new_rs2_capture :: rs2_capture where
  "new_rs2_capture = \<lparr>rk_config = new_rs2_config,
     rk_wants = \<lparr>rw_rgb = False, rw_depth = False, rw_timestamps = False, rw_camera_specs = False\<rparr>,
     rk_cameras = [], rk_devices = [], rk_initialized = False, rk_stopping = False, rk_stopped = False, rk_eof = False,
     rk_mergedPC = None, rk_fresh = False, rk_want_new = False, rk_control = None, rk_calls = []\<rparr>"

definition rs2_log :: "cwipc_log_level \<Rightarrow> string \<Rightarrow> world \<Rightarrow> world" where
  "rs2_log level message w = cwipc_log level ''cwipc_realsense2::RS2Capture'' message w"

definition rs2_debug :: "rs2_capture \<Rightarrow> string \<Rightarrow> world \<Rightarrow> world" where
  "rs2_debug k message w = (if rs_debug (rk_config k) then rs2_log CWIPC_LOG_LEVEL_DEBUG message w else w)"

type_synonym rs2_pair = "world \<times> rs2_capture"

text \<open>A loop that makes one call on every camera, and what the call does to the camera.\<close>

definition rs2_call_cameras :: "camera_call \<Rightarrow> (rs2_unit \<Rightarrow> rs2_unit) \<Rightarrow> rs2_capture \<Rightarrow> rs2_capture" where
  "rs2_call_cameras f g k =
     k\<lparr>rk_calls := rk_calls k @ map (Pair f) [0..<length (rk_cameras k)], rk_cameras := map g (rk_cameras k)\<rparr>"

section \<open>Small methods\<close>

definition rs2_can_start :: "rs2_capture \<Rightarrow> bool" where "rs2_can_start k = rk_initialized k"

definition rs2_is_playing :: "rs2_capture \<Rightarrow> bool" where "rs2_is_playing k = (rk_control k \<noteq> None)"

definition rs2_get_camera_count :: "rs2_capture \<Rightarrow> int" where
  "rs2_get_camera_count k = int_of_size (size_of_nat (length (rk_cameras k)))"

definition rs2_eof :: "rs2_capture \<Rightarrow> bool" where "rs2_eof k = rk_eof k"

definition rs2_live_seek :: "u64 \<Rightarrow> rs2_capture \<Rightarrow> bool" where "rs2_live_seek timestamp k = False"

definition rs2_request_metadata :: "bool \<Rightarrow> bool \<Rightarrow> bool \<Rightarrow> bool \<Rightarrow> bool \<Rightarrow> rs2_capture \<Rightarrow> rs2_capture" where
  "rs2_request_metadata rgb depth timestamps skeleton_b camera_specs k =
     k\<lparr>rk_wants := \<lparr>rw_rgb = rgb, rw_depth = depth, rw_timestamps = timestamps, rw_camera_specs = camera_specs\<rparr>\<rparr>"

definition rs2_get_pointSize :: "rs2_capture \<Rightarrow> f32" where
  "rs2_get_pointSize k =
     (if \<not> rs2_is_playing k then f32_zero
      else let rv = foldl (\<lambda>rv cam. if f32_lt (ru_pointSize cam) rv then ru_pointSize cam else rv)
                      f32_99999 (rk_cameras k)
           in if f32_lt f32_9999 rv then f32_zero else rv)"

text \<open>\<open>map2d3d\<close> and \<open>mapcolordepth\<close>: the camera whose tile it is answers.\<close>

definition rs2_map_pixel :: "(rs2_unit \<Rightarrow> 'r option) \<Rightarrow> int \<Rightarrow> rs2_capture \<Rightarrow> 'r option" where
  "rs2_map_pixel result tile k =
     (case find (\<lambda>cam. word_of_int tile = (push_bit (ru_index cam) 1 :: u32)) (rk_cameras k) of
        Some cam \<Rightarrow> result cam
      | None \<Rightarrow> None)"

definition rs2_get_camera_config :: "string \<Rightarrow> rs2_pair \<Rightarrow> nat option \<times> world" where
  "rs2_get_camera_config serial s =
     (let cfgs = rs_all_camera_configs (rk_config (snd s)) in
      case find (\<lambda>i. cam_serial (rs_camera (cfgs ! i)) = serial) [0..<length cfgs] of
        Some i \<Rightarrow> (Some i, fst s)
      | None \<Rightarrow> (None, rs2_log CWIPC_LOG_LEVEL_WARNING (''Unknown camera '' @ serial) (fst s)))"

section \<open>Stopping\<close>

definition stop_waiting :: "rs2_unit \<Rightarrow> rs2_unit" where
  "stop_waiting u = u\<lparr>ru_cam := (ru_cam u)\<lparr>rc_stopped := True\<rparr>\<rparr>"

text \<open>
  \<open>_stop_cameras\<close> in five parts: the cameras are told, they are stopped (which waits until their
  processing threads have ended), the flags, the second notification,
  and everything from the join on. \<open>mergedPC_is_fresh\<close> and \<open>mergedPC_want_new\<close> stay set.
\<close>

definition rs2_stop_begin :: "rs2_capture \<Rightarrow> rs2_capture" where
  "rs2_stop_begin k = rs2_call_cameras Pre_stop stop_waiting (k\<lparr>rk_stopping := True\<rparr>)"

definition stop_unit :: "rs2_unit \<Rightarrow> rs2_unit" where
  "stop_unit u = (stop_waiting u)\<lparr>ru_queue := None, ru_done := True\<rparr>"

definition rs2_stop_cameras :: "rs2_capture \<Rightarrow> rs2_capture option" where
  "rs2_stop_cameras k =
     (if list_all (\<lambda>u. ru_at u = Ut_ended \<and> ru_busy u = None) (rk_cameras k)
      then Some (rs2_call_cameras Stop_camera stop_unit k) else None)"

definition rs2_stop_flags :: "rs2_capture \<Rightarrow> rs2_capture" where
  "rs2_stop_flags k = k\<lparr>rk_stopped := True, rk_fresh := True, rk_want_new := False\<rparr>"

definition rs2_notify_want_new :: "rs2_capture \<Rightarrow> rs2_capture" where
  "rs2_notify_want_new k = (if rk_control k = Some Rt_blocked then k\<lparr>rk_control := Some Rt_predicate\<rparr> else k)"

definition rs2_stop_notify :: "rs2_capture \<Rightarrow> rs2_capture" where
  "rs2_stop_notify k = rs2_notify_want_new (k\<lparr>rk_want_new := True\<rparr>)"

definition rs2_post_stop_all_cameras :: "(json \<Rightarrow> string) \<Rightarrow> (string \<Rightarrow> u8 list) \<Rightarrow> rs2_pair \<Rightarrow> fault + rs2_pair" where
  "rs2_post_stop_all_cameras dump bytes s =
     (case s of (w, k) \<Rightarrow>
        let dir = rs_record_to_directory (rk_config k) in
        if dir = [] then Inr s
        else case rs2_to_string dump True (rk_config k) of
               Inl f \<Rightarrow> Inl f
             | Inr recording_config \<Rightarrow>
                 Inr (w\<lparr>files := (files w)(dir @ ''/'' @ ''cameraconfig.json'' \<mapsto>
                          bytes (recording_config @ [CHR 0x0A]))\<rparr>, k))"

definition rs2_stop_joined :: "(json \<Rightarrow> string) \<Rightarrow> (string \<Rightarrow> u8 list) \<Rightarrow> rs2_pair \<Rightarrow> fault + rs2_pair" where
  "rs2_stop_joined dump bytes s =
     (case s of (w, k) \<Rightarrow>
      case rs2_post_stop_all_cameras dump bytes (w, k\<lparr>rk_control := None\<rparr>) of
        Inl f \<Rightarrow> Inl f
      | Inr (w1, k1) \<Rightarrow>
          let k2 = (rs2_call_cameras Delete_camera id k1)\<lparr>rk_cameras := []\<rparr>
          in Inr (rs2_debug k2 ''deleted all cameras'' (rs2_debug k1 ''post-stopped'' w1), k2))"

text \<open>\<open>_unload_cameras\<close> where no control thread exists and no camera works on a frame set.\<close>

definition rs2_unload_cameras :: "(json \<Rightarrow> string) \<Rightarrow> (string \<Rightarrow> u8 list) \<Rightarrow> rs2_pair \<Rightarrow> fault + rs2_pair" where
  "rs2_unload_cameras dump bytes s =
     rs2_stop_joined dump bytes
       (fst s, rs2_stop_notify (rs2_stop_flags (rs2_call_cameras Stop_camera stop_unit (rs2_stop_begin (snd s)))))"

section \<open>Configuration\<close>

record rs2_io = config_io +
  rio_to_float :: "json \<Rightarrow> f32 option"

definition rs2_auto_camera_config :: "string \<Rightarrow> rs2_camera_config" where
  "rs2_auto_camera_config serial = new_rs2_camera_config\<lparr>rs_camera := new_camera_config\<lparr>cam_type := ''realsense'',
     cam_serial := serial, cam_trafo := Some identity_trafo, cam_position := (0, 0, 0)\<rparr>\<rparr>"

definition rs2_apply_auto_config :: "rs2_device list \<Rightarrow> rs2_pair \<Rightarrow> bool \<times> rs2_pair" where
  "rs2_apply_auto_config devs s =
     (case s of (w, k) \<Rightarrow>
      let ds = filter (\<lambda>d. \<not> platform_camera d) devs;
          w1 = foldl (\<lambda>w d. rs2_log CWIPC_LOG_LEVEL_DEBUG (''_apply_auto_config: Examining camera '' @ rd_name d) w) w ds;
          k1 = k\<lparr>rk_config := (rk_config k)\<lparr>rs_all_camera_configs :=
                   rs_all_camera_configs (rk_config k) @ map (\<lambda>d. rs2_auto_camera_config (rd_serial d)) ds\<rparr>\<rparr>
      in if rs_all_camera_configs (rk_config k1) = []
         then (False, rs2_log CWIPC_LOG_LEVEL_ERROR ''no cameras found during auto-configuration'' w1, k1)
         else (True, w1, k1))"

definition rs2_on_configuration :: "(world \<times> rs2_config) reader \<Rightarrow> rs2_pair \<Rightarrow> bool \<times> rs2_pair" where
  "rs2_on_configuration rd s =
     (case s of (w, k) \<Rightarrow> case rd (w, rk_config k) of (ok, w1, c) \<Rightarrow> (ok, w1, k\<lparr>rk_config := c\<rparr>))"

text \<open>\<open>_apply_config\<close> starts from a new configuration.\<close>

definition rs2_apply_config :: "rs2_io \<Rightarrow> rs2_device list \<Rightarrow> string option \<Rightarrow> rs2_pair \<Rightarrow> bool \<times> rs2_pair" where
  "rs2_apply_config io devs configFilename s =
     (let name = (case configFilename of
                    None \<Rightarrow> ''cameraconfig.json''
                  | Some n \<Rightarrow> if n = [] then ''cameraconfig.json'' else n);
          s1 = (fst s, (snd s)\<lparr>rk_config := new_rs2_config\<rparr>)
      in if name = ''auto'' then rs2_apply_auto_config devs s1
         else if hd name = CHR ''{''
         then rs2_on_configuration (rs2_from_string (cio_lib io) (rio_to_float io) (cio_parse io) (cio_what io) name ''realsense'') s1
         else if strrchr_dot name = Some ''.json''
         then rs2_on_configuration
                (rs2_from_file (cio_lib io) (rio_to_float io) (cio_parse_bytes io) (cio_what io) name ''realsense'') s1
         else (False, rs2_log CWIPC_LOG_LEVEL_ERROR
                (''Unknown configuration file type: '' @ [CHR 0x27] @ name @ [CHR 0x27]) (fst s1), snd s1))"

definition rs2_config_reload :: "rs2_io \<Rightarrow> rs2_device list \<Rightarrow> string option \<Rightarrow> rs2_pair \<Rightarrow> bool \<times> rs2_pair" where
  "rs2_config_reload io devs configFilename s =
     (if rk_control (snd s) \<noteq> None
      then (False, rs2_log CWIPC_LOG_LEVEL_ERROR
             ''config_reload: cannot reload configuration while capturer is running'' (fst s), snd s)
      else case rs2_apply_config io devs configFilename s of
             (False, w1, k1) \<Rightarrow> (False, w1, k1\<lparr>rk_initialized := False\<rparr>)
           | (True, w1, k1) \<Rightarrow>
               (case cwipc_log_get_level w1 of
                  (level, w2) \<Rightarrow>
                    (True, w2, k1\<lparr>rk_config := (if CWIPC_LOG_LEVEL_DEBUG \<le> level then (rk_config k1)\<lparr>rs_debug := True\<rparr>
                                              else rk_config k1), rk_initialized := True\<rparr>)))"

definition rs2_copy_trafos :: "rs2_camera_config list \<Rightarrow> rs2_camera_config list \<Rightarrow> rs2_camera_config list" where
  "rs2_copy_trafos old new =
     map (\<lambda>(o_c, n_c). o_c\<lparr>rs_camera := (rs_camera o_c)\<lparr>cam_trafo := cam_trafo (rs_camera n_c),
                          cam_position := cam_position (rs_camera n_c)\<rparr>\<rparr>) (zip old new)"

definition rs2_fast_reload_error :: "string \<Rightarrow> string \<Rightarrow> world \<Rightarrow> world" where
  "rs2_fast_reload_error what name w =
     rs2_log CWIPC_LOG_LEVEL_ERROR
       (''Invalid configuration for fast reload (RS2) ('' @ what @ ''): '' @ [CHR 0x27] @ name @ [CHR 0x27]) w"

definition rs2_read_new_configuration :: "rs2_io \<Rightarrow> string \<Rightarrow> world \<Rightarrow> bool \<times> world \<times> rs2_config" where
  "rs2_read_new_configuration io name w =
     (if name \<noteq> [] \<and> hd name = CHR ''{''
      then rs2_from_string (cio_lib io) (rio_to_float io) (cio_parse io) (cio_what io) name ''realsense'' (w, new_rs2_config)
      else if strrchr_dot name = Some ''.json''
      then rs2_from_file (cio_lib io) (rio_to_float io) (cio_parse_bytes io) (cio_what io) name ''realsense'' (w, new_rs2_config)
      else (False, w, new_rs2_config))"

text \<open>A null name is put into a \<open>std::string\<close> for the message.\<close>

definition rs2_config_reload_fast :: "rs2_io \<Rightarrow> string option \<Rightarrow> rs2_pair \<Rightarrow> fault + bool \<times> rs2_pair" where
  "rs2_config_reload_fast io configFilename s =
     (case s of (w, k) \<Rightarrow>
      case configFilename of
        None \<Rightarrow> Inl Null_deref
      | Some name \<Rightarrow>
          (case rs2_read_new_configuration io name w of
             (success, w1, new_configuration) \<Rightarrow>
               if \<not> success
               then Inr (False, rs2_fast_reload_error ''either not file or invalid JSON'' name w1, k)
               else
                 let c = (rk_config k)\<lparr>rs_processing := rs_processing new_configuration\<rparr>;
                     old = rs_all_camera_configs c; new = rs_all_camera_configs new_configuration
                 in if length old = length new
                    then Inr (True, w1, k\<lparr>rk_config := c\<lparr>rs_all_camera_configs := rs2_copy_trafos old new\<rparr>\<rparr>)
                    else Inr (True, rs2_fast_reload_error ''size of cameras changed'' name w1, k\<lparr>rk_config := c\<rparr>)))"

text \<open>\<open>config_get\<close>: the parameters are read from the device of the first camera into a new structure.\<close>

definition rs2_config_get :: "(json \<Rightarrow> string) \<Rightarrow> rs2_device \<Rightarrow> rs2_pair \<Rightarrow> fault + string \<times> rs2_pair" where
  "rs2_config_get dump d s =
     (case s of (w, k) \<Rightarrow>
      if rk_cameras k = [] then Inr ([], rs2_log CWIPC_LOG_LEVEL_ERROR ''Must start() before getting config'' w, k)
      else case rs2_get_camera_hardware_parameters (rs_hardware (rk_config k)) d new_rs2_hardware of
             Inl f \<Rightarrow> Inl f
           | Inr curHardwareConfig \<Rightarrow>
               let k1 = k\<lparr>rk_config := (rk_config k)\<lparr>rs_hardware := curHardwareConfig\<rparr>\<rparr>
               in map_sum id (\<lambda>text_s. (text_s, w, k1)) (rs2_to_string dump False (rk_config k1)))"

text \<open>It resets the visual preset of the configuration, which is not read from the device.\<close>

lemma config_get_loses_visual_preset:
  assumes "rs2_config_get dump d (w, k) = Inr (t, w', k')" and "rk_cameras k \<noteq> []"
  shows "rs_visual_preset (rs_hardware (rk_config k')) = 0"
proof -
  obtain hw where "rs2_get_camera_hardware_parameters (rs_hardware (rk_config k)) d new_rs2_hardware = Inr hw"
    and k: "rs_hardware (rk_config k') = hw"
    using assms by (auto simp: rs2_config_get_def Let_def map_sum_Inr split: sum.splits)
  then have "rs_visual_preset hw = rs_visual_preset new_rs2_hardware"
    by (auto simp: rs2_get_camera_hardware_parameters_def read_into_def Let_def map_sum_Inr split: if_splits sum.splits)
  with k show ?thesis by (simp add: new_rs2_hardware_def)
qed

section \<open>Starting\<close>

text \<open>
  The constructors of a camera read the configuration at the camera's own index; \<open>unset\<close> is the value
  the memory of \<open>processing_done\<close> happens to have.
\<close>

definition new_rs2_unit :: "bool \<Rightarrow> nat \<Rightarrow> rs2_config \<Rightarrow> fault + rs2_unit" where
  "new_rs2_unit unset index c =
     (if \<not> index < length (rs_all_camera_configs c) then Inl Out_of_bounds
      else Inr \<lparr>ru_cam = \<lparr>rc_serial = cam_serial (rs_camera (rs_all_camera_configs c ! index)), rc_stopped = True, rc_eos = False,
                  rc_waiting = False, rc_prefer_color_timing = rs_prefer_color_timing c, rc_previous = None, rc_current = None,
                  rc_reads = [], rc_log = []\<rparr>,
             ru_index = index, ru_pointSize = f32_zero, ru_queue = None, ru_at = Ut_ended, ru_busy = None, ru_done = unset,
             ru_processed = None, ru_cloud = None\<rparr>)"

definition rs2_set_connected :: "nat \<Rightarrow> rs2_capture \<Rightarrow> rs2_capture" where
  "rs2_set_connected i k =
     (let c = rk_config k; cfgs = rs_all_camera_configs c
      in k\<lparr>rk_config := c\<lparr>rs_all_camera_configs :=
             cfgs[i := (cfgs ! i)\<lparr>rs_camera := (rs_camera (cfgs ! i))\<lparr>cam_connected := True\<rparr>\<rparr>]\<rparr>\<rparr>)"

definition rs2_warn :: "string \<Rightarrow> rs2_pair \<Rightarrow> fault + bool \<times> rs2_pair" where
  "rs2_warn msg s = Inr (False, rs2_log CWIPC_LOG_LEVEL_WARNING msg (fst s), snd s)"

fun rs2_create_cameras :: "bool \<Rightarrow> rs2_device list \<Rightarrow> rs2_pair \<Rightarrow> fault + bool \<times> rs2_pair" where
  "rs2_create_cameras unset [] s = Inr (True, s)"
| "rs2_create_cameras unset (d # ds) (w, k) =
     (if platform_camera d then rs2_create_cameras unset ds (w, k)
      else
        let serial = rd_serial d in
        case rs2_get_camera_config serial
               (rs2_log CWIPC_LOG_LEVEL_DEBUG (''_create_cameras: Opening camera '' @ rd_name d) w, k) of
          (None, w1) \<Rightarrow> rs2_warn (''Camera with serial '' @ serial @ '' is connected but not in configuration'') (w1, k)
        | (Some i, w1) \<Rightarrow>
            let cd = rs_camera (rs_all_camera_configs (rk_config k) ! i) in
            if cam_type cd \<noteq> ''realsense''
            then rs2_warn (''Camera '' @ serial @ '' is type '' @ cam_type cd @ '' in stead of realsense'') (w1, k)
            else if cam_disabled cd then rs2_create_cameras unset ds (w1, k)
            else case new_rs2_unit unset (length (rk_cameras k)) (rk_config k) of
                   Inl f \<Rightarrow> Inl f
                 | Inr cam \<Rightarrow> rs2_create_cameras unset ds (w1, rs2_set_connected i (k\<lparr>rk_cameras := rk_cameras k @ [cam]\<rparr>)))"

definition rs2_check_cameras_connected :: "rs2_pair \<Rightarrow> bool \<times> rs2_pair" where
  "rs2_check_cameras_connected s =
     (case s of (w, k) \<Rightarrow>
        case find (\<lambda>cd. \<not> cam_connected cd \<and> \<not> cam_disabled cd) (map rs_camera (rs_all_camera_configs (rk_config k))) of
          Some cd \<Rightarrow> (False, rs2_log CWIPC_LOG_LEVEL_WARNING
                       (''Camera with serial '' @ cam_serial cd @ '' is not connected'') w, k)
        | None \<Rightarrow> (True, s))"

text \<open>
  What starting the pipeline of a camera gives: an exception with its text, or the serial number and
  the streams of the device, the point size (\<open>_computePointSize\<close>) and what the pipeline will deliver.
\<close>

record rs2_started =
  sd_serial :: string
  sd_streams :: "rs2_stream list"
  sd_pointSize :: f32
  sd_reads :: "pipeline_read list"

definition start_unit :: "rs2_started \<Rightarrow> rs2_unit \<Rightarrow> rs2_unit" where
  "start_unit sd u = u\<lparr>ru_cam := (ru_cam u)\<lparr>rc_serial := sd_serial sd, rc_eos := False, rc_reads := sd_reads sd\<rparr>,
                       ru_pointSize := sd_pointSize sd\<rparr>"

definition started_config :: "rs2_started \<Rightarrow> nat \<Rightarrow> rs2_config \<Rightarrow> rs2_config" where
  "started_config sd i c =
     (let cfgs = rs_all_camera_configs c
      in c\<lparr>rs_hardware := fst (post_start_hardware (sd_streams sd) (rs_hardware c)),
           rs_all_camera_configs := cfgs[i := (cfgs ! i)\<lparr>rs_camera := (rs_camera (cfgs ! i))\<lparr>cam_serial := sd_serial sd\<rparr>\<rparr>]\<rparr>)"

definition start_unit_streaming :: "rs2_unit \<Rightarrow> rs2_unit" where
  "start_unit_streaming u = u\<lparr>ru_cam := (ru_cam u)\<lparr>rc_stopped := False\<rparr>, ru_at := Ut_test\<rparr>"

text \<open>The cameras from position \<open>i\<close>; the first component is whether all were started.\<close>

fun start_from :: "(nat \<Rightarrow> string + rs2_started) \<Rightarrow> nat \<Rightarrow> nat \<Rightarrow> rs2_pair \<Rightarrow> bool \<times> rs2_pair" where
  "start_from outcome i 0 s = (True, s)"
| "start_from outcome i (Suc n) (w, k) =
     (let k1 = k\<lparr>rk_calls := rk_calls k @ [(Start_camera, i)]\<rparr> in
      case outcome i of
        Inl what \<Rightarrow> (False, rs2_log CWIPC_LOG_LEVEL_ERROR (''Exception while starting camera: '' @ what) w, k1)
      | Inr sd \<Rightarrow>
          start_from outcome (i + 1) n
            (foldl (\<lambda>w m. rs2_log CWIPC_LOG_LEVEL_WARNING m w) w (snd (post_start_hardware (sd_streams sd) (rs_hardware (rk_config k)))),
             k1\<lparr>rk_cameras := (rk_cameras k)[i := start_unit sd (rk_cameras k ! i)],
                rk_config := started_config sd i (rk_config k)\<rparr>))"

definition rs2_start_cameras :: "(nat \<Rightarrow> string + rs2_started) \<Rightarrow> rs2_pair \<Rightarrow> bool \<times> rs2_pair" where
  "rs2_start_cameras outcome s =
     (case s of (w, k) \<Rightarrow>
      case start_from outcome 0 (length (rk_cameras k)) (w, rs2_call_cameras Pre_start_all id k) of
        (False, w1, k1) \<Rightarrow> (False, rs2_log CWIPC_LOG_LEVEL_ERROR ''Not all cameras could be started'' w1, k1)
      | (True, w1, k1) \<Rightarrow>
          (True, w1, rs2_call_cameras Post_start_all id
             (rs2_call_cameras Start_streaming start_unit_streaming k1)))"

text \<open>
  \<open>start\<close>. The results of setting up the synchronisation and of starting the cameras are not used.
  \<open>devs\<close> are the devices librealsense finds, in two of three places after their options were set.
\<close>

definition rs2_start ::
  "(json \<Rightarrow> string) \<Rightarrow> (string \<Rightarrow> u8 list) \<Rightarrow> rs2_device list \<Rightarrow> bool \<Rightarrow> (nat \<Rightarrow> string + rs2_started) \<Rightarrow> rs2_pair
   \<Rightarrow> fault + bool \<times> rs2_pair" where
  "rs2_start dump bytes devs unset outcome s =
     (case s of (w, k) \<Rightarrow>
      if \<not> rs2_can_start k then Inr (False, rs2_log CWIPC_LOG_LEVEL_ERROR ''start() called but not initialized'' w, k)
      else if rs2_is_playing k
      then Inr (False, rs2_log CWIPC_LOG_LEVEL_WARNING ''start() called but already started'' w, k)
      else if rs_all_camera_configs (rk_config k) = [] then Inr (False, s)
      else case rs2_init_hardware_for_all_cameras (rs_hardware (rk_config k)) devs of
        Inl f \<Rightarrow> Inl f
      | Inr devs1 \<Rightarrow>
          (case setup_inter_camera_sync (rs_sync (rk_config k)) devs1 of
             (_, msgs, devs2) \<Rightarrow>
               let w1 = foldl (\<lambda>w m. rs2_log CWIPC_LOG_LEVEL_WARNING m w) w msgs; k1 = k\<lparr>rk_devices := devs2\<rparr> in
               case rs2_create_cameras unset devs2 (w1, k1) of
                 Inl f \<Rightarrow> Inl f
               | Inr (created, s2) \<Rightarrow>
                   if \<not> created then map_sum id (Pair False) (rs2_unload_cameras dump bytes s2)
                   else case rs2_check_cameras_connected s2 of
                     (connected, s3) \<Rightarrow>
                       if \<not> connected then map_sum id (Pair False) (rs2_unload_cameras dump bytes s3)
                       else case rs2_start_cameras outcome s3 of
                         (_, w4, k4) \<Rightarrow>
                           Inr (True, w4, k4\<lparr>rk_stopped := False, rk_stopping := False, rk_control := Some Rt_begin\<rparr>)))"

end
