(* ===== verification/RealSenseThread.thy ===== *)
theory RealSenseThread
  imports RealSenseCapture KinectThread
begin

text \<open>
  The control thread of \<open>cwipc_realsense2/src/RS2BaseCapture.hpp\<close>, the processing threads of its
  cameras and the client calls that meet them. The control thread is cut where another thread can
  change what it reads next, as that of the Kinect capturer. Executions are all interleavings of
  thread steps and client actions; the parts of a stop come in their order.
\<close>

section \<open>Metadata\<close>

text \<open>
  What librealsense knows of a processed frame set, its depth and its colour image, and what else the
  executions depend on: the points the processing makes of a frame set (\<open>RealSenseImages\<close>), the
  position in a recording, the addresses \<open>malloc\<close> returns, and the JSON library.
\<close>

record rs2_picture =
  rp_width :: int
  rp_height :: int
  rp_stride :: int
  rp_bpp :: int
  rp_size :: u64
  rp_format :: string
  rp_number :: int
  rp_time :: int
  rp_clock :: int

record rs2_env =
  re_points :: "nat \<Rightarrow> rs2_frameset \<Rightarrow> pcl_point list"
  re_depth :: "rs2_frameset \<Rightarrow> rs2_picture"
  re_color :: "rs2_frameset \<Rightarrow> rs2_picture"
  re_position :: "int option"
  re_memory :: "u64 \<Rightarrow> nat option"
  re_free :: nat
  re_io :: rs2_io
  re_dump :: "json \<Rightarrow> string"
  re_bytes :: "string \<Rightarrow> u8 list"

definition timestamp_data :: "int option \<Rightarrow> rs2_picture \<Rightarrow> rs2_picture \<Rightarrow> string" where
  "timestamp_data position d c =
     ''depth_framenum='' @ to_string (rp_number d) @ '',depth_timestamp='' @ to_string (rp_time d)
     @ '',depth_clock='' @ to_string (rp_clock d) @ '',color_framenum='' @ to_string (rp_number c)
     @ '',color_timestamp='' @ to_string (rp_time c) @ '',color_clock='' @ to_string (rp_clock c)
     @ (case position of None \<Rightarrow> [] | Some p \<Rightarrow> '',filetime_ns='' @ to_string p)"

definition picture_description :: "rs2_picture \<Rightarrow> string" where
  "picture_description p =
     ''width='' @ to_string (rp_width p) @ '',height='' @ to_string (rp_height p) @ '',stride='' @ to_string (rp_stride p)
     @ '',bpp='' @ to_string (rp_bpp p) @ '',format='' @ rp_format p"

definition add_picture :: "rs2_env \<Rightarrow> string \<Rightarrow> rs2_picture \<Rightarrow> metadata_item list \<Rightarrow> metadata_item list" where
  "add_picture e name p items =
     (case re_memory e (rp_size p) of
        None \<Rightarrow> items
      | Some pointer \<Rightarrow> metadata_add name (picture_description p) pointer (rp_size p) (re_free e) items)"

text \<open>
  \<open>save_frameset_metadata\<close> of \<open>RS2BaseCamera.cpp\<close>: the images and times of the frame set that was
  processed last. The memory for the specifications is not tested.
\<close>

definition rs2_save_frameset_metadata :: "rs2_env \<Rightarrow> rs2_wants \<Rightarrow> rs2_unit \<Rightarrow> metadata_item list \<Rightarrow> fault + metadata_item list" where
  "rs2_save_frameset_metadata e wants u items =
     (if \<not> rw_depth wants \<and> \<not> rw_rgb wants \<and> \<not> rw_timestamps wants \<and> \<not> rw_camera_specs wants then Inr items
      else case ru_processed u of
        None \<Rightarrow> Inr items
      | Some f \<Rightarrow>
          let serial = rc_serial (ru_cam u); d = re_depth e f; c = re_color e f;
              items1 = (if rw_timestamps wants
                        then metadata_add (''timestamps.'' @ serial) (timestamp_data (re_position e) d c) 0 0 (re_free e) items
                        else items);
              items2 = (if rw_rgb wants then add_picture e (''rgb.'' @ serial) c items1 else items1);
              items3 = (if rw_depth wants then add_picture e (''depth.'' @ serial) d items2 else items2)
          in if \<not> rw_camera_specs wants then Inr items3
             else case re_memory e 32 of
                    None \<Rightarrow> Inl Null_deref
                  | Some pointer \<Rightarrow> Inr (metadata_add (''camera.'' @ serial) [] pointer 32 (re_free e) items3))"

fun save_all_metadata :: "rs2_env \<Rightarrow> rs2_wants \<Rightarrow> rs2_unit list \<Rightarrow> metadata_item list \<Rightarrow> fault + metadata_item list" where
  "save_all_metadata e wants [] items = Inr items"
| "save_all_metadata e wants (u # us) items =
     (case rs2_save_frameset_metadata e wants u items of Inl f \<Rightarrow> Inl f | Inr items1 \<Rightarrow> save_all_metadata e wants us items1)"

section \<open>The heap\<close>

definition free_at :: "nat \<Rightarrow> rs2_state \<Rightarrow> fault + rs2_state" where
  "free_at a st =
     (case rx_heap st a of
        None \<Rightarrow> Inl Use_after_free
      | Some pc \<Rightarrow> Inr (st\<lparr>rx_world := free_pc pc (rx_world st), rx_heap := (rx_heap st)(a := None)\<rparr>))"

text \<open>A new empty cloud with the metadata of all cameras.\<close>

definition rs2_create_pc :: "rs2_env \<Rightarrow> u64 \<Rightarrow> rs2_state \<Rightarrow> fault + nat \<times> rs2_state" where
  "rs2_create_pc e timestamp st =
     (case cwipc_from_pcl (Some []) timestamp None CWIPC_API_VERSION (rx_world st) of
        (None, _) \<Rightarrow> Inl Null_deref
      | (Some newPC, w1) \<Rightarrow>
          (case save_all_metadata e (rk_wants (rx_cap st)) (rk_cameras (rx_cap st)) [] of
             Inl f \<Rightarrow> Inl f
           | Inr items \<Rightarrow>
               Inr (rx_next st,
                    st\<lparr>rx_world := w1, rx_next := rx_next st + 1,
                       rx_heap := (rx_heap st)(rx_next st \<mapsto>
                         (if items = [] then newPC else newPC\<lparr>m_metadata := Some items\<rparr>))\<rparr>)))"

section \<open>Steps of the control thread\<close>

datatype rs2_event = Go | Now u64 | Spurious

definition rs2_mutex_held :: "rs2_capture \<Rightarrow> bool" where
  "rs2_mutex_held k =
     (case rk_control k of
        Some Rt_predicate \<Rightarrow> True | Some Rt_before_block \<Rightarrow> True | Some Rt_published \<Rightarrow> True
      | Some (Rt_waiting n) \<Rightarrow> True | Some Rt_merge \<Rightarrow> True | _ \<Rightarrow> False)"

definition on_cap :: "(rs2_capture \<Rightarrow> rs2_capture) \<Rightarrow> rs2_state \<Rightarrow> rs2_state" where
  "on_cap f st = st\<lparr>rx_cap := f (rx_cap st)\<rparr>"

definition go_to :: "rs2_at \<Rightarrow> rs2_state \<Rightarrow> rs2_state" where
  "go_to at = on_cap (\<lambda>k. k\<lparr>rk_control := Some at\<rparr>)"

definition say_debug :: "string \<Rightarrow> rs2_state \<Rightarrow> rs2_state" where
  "say_debug m st = st\<lparr>rx_world := rs2_debug (rx_cap st) m (rx_world st)\<rparr>"

definition set_cams :: "rs2_camera list \<Rightarrow> rs2_unit list \<Rightarrow> rs2_unit list" where
  "set_cams cams us = map (\<lambda>(c, u). u\<lparr>ru_cam := c\<rparr>) (zip cams us)"

text \<open>The round's frame sets; the cameras' and the capturer's messages go to the log.\<close>

definition capture_round :: "u64 \<Rightarrow> rs2_state \<Rightarrow> fault + rs2_state" where
  "capture_round now st =
     (let k = rx_cap st in
      case rs2_capture_all_cameras (rs_new_timestamps (rk_config k)) now (map ru_cam (rk_cameras k)) of
        Inl f \<Rightarrow> Inl f
      | Inr (ok, timestamp, cams, msgs) \<Rightarrow>
          Inr (go_to (if ok then Rt_captured timestamp else Rt_test)
                 (st\<lparr>rx_world := foldl (\<lambda>w m. rs2_log CWIPC_LOG_LEVEL_WARNING m w) (rx_world st) msgs,
                     rx_cap := k\<lparr>rk_cameras := set_cams cams (rk_cameras k)\<rparr>\<rparr>)))"

text \<open>\<open>process_pointcloud_from_frameset\<close>: the queue holds one frame set and drops the older one.\<close>

definition submit :: "rs2_unit \<Rightarrow> rs2_unit" where
  "submit u = u\<lparr>ru_queue := rc_current (ru_cam u)\<rparr>"

definition rs2_publish :: "nat \<Rightarrow> rs2_state \<Rightarrow> fault + rs2_state" where
  "rs2_publish a st =
     (let k = rx_cap st;
          st1 = (case rk_mergedPC k of None \<Rightarrow> Inr st | Some old \<Rightarrow> if rk_fresh k then free_at old st else Inr st)
      in map_sum id (\<lambda>s. go_to Rt_published (on_cap (\<lambda>k. k\<lparr>rk_mergedPC := Some a\<rparr>) s)) st1)"

text \<open>\<open>wait_for_pointcloud_processed\<close> of one camera; \<open>None\<close>: it waits.\<close>

definition wait_unit :: "nat \<Rightarrow> rs2_capture \<Rightarrow> rs2_capture option" where
  "wait_unit n k =
     (if ru_done (rk_cameras k ! n)
      then Some (k\<lparr>rk_cameras := (rk_cameras k)[n := (rk_cameras k ! n)\<lparr>ru_done := False\<rparr>], rk_control := Some (Rt_waiting (n + 1))\<rparr>)
      else None)"

definition units_points :: "rs2_unit list \<Rightarrow> pcl_point list" where
  "units_points us = concat (map (\<lambda>u. case ru_cloud u of None \<Rightarrow> [] | Some ps \<Rightarrow> ps) us)"

definition warn_null_units :: "rs2_unit list \<Rightarrow> world \<Rightarrow> world" where
  "warn_null_units us w =
     foldl (\<lambda>w u. if ru_cloud u = None
                  then rs2_log CWIPC_LOG_LEVEL_WARNING ''_merge_camera_pointclouds: camera pointcloud is null for some camera'' w
                  else w) w us"

definition rs2_merge :: "rs2_state \<Rightarrow> fault + rs2_state" where
  "rs2_merge st =
     (let k = rx_cap st in
      case rk_mergedPC k of
        None \<Rightarrow> Inl Null_deref
      | Some a \<Rightarrow>
          (case rx_heap st a of
             None \<Rightarrow> Inl Use_after_free
           | Some pc \<Rightarrow>
               let ps = units_points (rk_cameras k) in
               Inr (go_to Rt_test
                 (say_debug (if ps = [] then ''merged pointcloud is empty''
                             else ''merged pointcloud has '' @ to_string (int (length ps)) @ '' points'')
                   (st\<lparr>rx_world := warn_null_units (rk_cameras k) (rx_world st),
                       rx_heap := (rx_heap st)(a \<mapsto> pc\<lparr>m_pc := Some ps\<rparr>),
                       rx_cap := k\<lparr>rk_fresh := True, rk_want_new := False\<rparr>\<rparr>)))))"

text \<open>The end of a round that is given up.\<close>

definition drop_cloud :: "nat \<Rightarrow> rs2_state \<Rightarrow> fault + rs2_state" where
  "drop_cloud a st = map_sum id (go_to Rt_exit) (free_at a st)"

definition rs2_control_step :: "rs2_env \<Rightarrow> rs2_event \<Rightarrow> rs2_state \<Rightarrow> (fault + rs2_state) option" where
  "rs2_control_step e ev st =
     (let k = rx_cap st in
      case rk_control k of
        None \<Rightarrow> None
      | Some at \<Rightarrow>
          (case (at, ev) of
             (Rt_begin, Go) \<Rightarrow> Some (Inr (go_to Rt_test (say_debug ''control thread started'' st)))
           | (Rt_test, Go) \<Rightarrow> Some (Inr (go_to (if rk_stopped k \<or> rk_stopping k then Rt_exit else Rt_predicate) st))
           | (Rt_predicate, Go) \<Rightarrow> Some (Inr (go_to (if rk_want_new k then Rt_eof_check else Rt_before_block) st))
           | (Rt_before_block, Go) \<Rightarrow> Some (Inr (go_to Rt_blocked st))
           | (Rt_blocked, Spurious) \<Rightarrow> Some (Inr (go_to Rt_predicate st))
           | (Rt_eof_check, Go) \<Rightarrow>
               let ended = list_ex (\<lambda>u. rc_eos (ru_cam u)) (rk_cameras k) in
               Some (Inr (go_to (if ended \<or> rk_stopped k then Rt_exit else Rt_capture)
                            (if ended then on_cap (\<lambda>k. k\<lparr>rk_eof := True, rk_stopped := True\<rparr>) st else st)))
           | (Rt_capture, Now now) \<Rightarrow> Some (capture_round now st)
           | (Rt_captured timestamp, Now now) \<Rightarrow>
               if rk_stopped k then Some (Inr (go_to Rt_exit st))
               else
                 let ts = (if rs_new_timestamps (rk_config k) then now else timestamp)
                 in Some (case rs2_create_pc e ts (say_debug (''creating pc with ts='' @ to_string (uint ts)) st) of
                            Inl f \<Rightarrow> Inl f
                          | Inr (a, st1) \<Rightarrow> Inr (go_to (Rt_new a) st1))
           | (Rt_new a, Go) \<Rightarrow>
               Some (if rk_stopped k then drop_cloud a st
                     else Inr (go_to (Rt_queued a) (on_cap (\<lambda>k. k\<lparr>rk_cameras := map submit (rk_cameras k)\<rparr>) st)))
           | (Rt_queued a, Go) \<Rightarrow> Some (if rk_stopped k then drop_cloud a st else Inr (go_to (Rt_lock a) st))
           | (Rt_lock a, Go) \<Rightarrow> Some (rs2_publish a st)
           | (Rt_published, Go) \<Rightarrow> Some (Inr (go_to (if rk_stopped k then Rt_exit else Rt_waiting 0) st))
           | (Rt_waiting n, Go) \<Rightarrow>
               if n < length (rk_cameras k) then map_option (\<lambda>k1. Inr (st\<lparr>rx_cap := k1\<rparr>)) (wait_unit n k)
               else Some (Inr (go_to Rt_merge st))
           | (Rt_merge, Go) \<Rightarrow> Some (rs2_merge st)
           | (Rt_exit, Go) \<Rightarrow> Some (Inr (go_to Rt_done (say_debug ''control thread exiting'' st)))
           | _ \<Rightarrow> None))"

section \<open>Steps of the processing threads\<close>

text \<open>
  \<open>_processing_thread_main\<close> of one camera. The thread tests whether the camera is stopped and waits for
  a frame set; the wait times out, or takes the frame set of the queue; at the end of the stream the
  thread ends either way. A frame set that was taken is finished with in another step. A thread that
  waits already may take a frame set although the camera is stopped meanwhile.
\<close>

definition unit_test :: "rs2_unit \<Rightarrow> rs2_unit option" where
  "unit_test u =
     (if ru_at u = Ut_test \<and> ru_busy u = None
      then Some (u\<lparr>ru_at := (if rc_stopped (ru_cam u) then Ut_ended else Ut_waiting)\<rparr>) else None)"

definition unit_timeout :: "rs2_unit \<Rightarrow> rs2_unit option" where
  "unit_timeout u =
     (if ru_at u = Ut_waiting \<and> ru_queue u = None
      then Some (u\<lparr>ru_at := (if rc_eos (ru_cam u) then Ut_ended else Ut_test)\<rparr>) else None)"

definition unit_dequeue :: "rs2_unit \<Rightarrow> rs2_unit option" where
  "unit_dequeue u =
     (case (ru_at u, ru_queue u, ru_busy u) of
        (Ut_waiting, Some f, None) \<Rightarrow>
          if rc_eos (ru_cam u) then Some (u\<lparr>ru_queue := None, ru_at := Ut_ended\<rparr>)
          else Some (u\<lparr>ru_queue := None, ru_at := Ut_test, ru_busy := Some f, ru_cam := (ru_cam u)\<lparr>rc_waiting := False\<rparr>\<rparr>)
      | _ \<Rightarrow> None)"

definition unit_finish :: "rs2_env \<Rightarrow> rs2_unit \<Rightarrow> rs2_unit option" where
  "unit_finish e u =
     map_option (\<lambda>f. u\<lparr>ru_busy := None, ru_processed := Some f, ru_cloud := Some (re_points e (ru_index u) f), ru_done := True\<rparr>)
       (ru_busy u)"

definition on_unit :: "(rs2_unit \<Rightarrow> rs2_unit option) \<Rightarrow> nat \<Rightarrow> rs2_capture \<Rightarrow> rs2_capture option" where
  "on_unit step i k =
     (if i < length (rk_cameras k)
      then map_option (\<lambda>u. k\<lparr>rk_cameras := (rk_cameras k)[i := u]\<rparr>) (step (rk_cameras k ! i)) else None)"

section \<open>Client calls\<close>

definition rs2_request_new_pointcloud :: "rs2_capture \<Rightarrow> rs2_capture option" where
  "rs2_request_new_pointcloud k =
     (if rs2_mutex_held k then None
      else Some (if \<not> rk_want_new k \<and> \<not> rk_fresh k then rs2_notify_want_new (k\<lparr>rk_want_new := True\<rparr>) else k))"

definition rs2_available_begin :: "rs2_pair \<Rightarrow> bool \<times> rs2_pair" where
  "rs2_available_begin s =
     (if rs2_is_playing (snd s) then (True, s)
      else (False, rs2_log CWIPC_LOG_LEVEL_WARNING ''available() called but not playing'' (fst s), snd s))"

definition rs2_available_result :: "rs2_capture \<Rightarrow> bool option" where
  "rs2_available_result k = (if rs2_mutex_held k then None else Some (rk_fresh k))"

definition rs2_get_begin :: "rs2_pair \<Rightarrow> bool \<times> rs2_pair" where
  "rs2_get_begin s =
     (if rs2_is_playing (snd s) then (True, s)
      else (False, rs2_log CWIPC_LOG_LEVEL_ERROR ''get_pointcloud: not playing'' (fst s), snd s))"

text \<open>The pointer is returned and kept.\<close>

definition rs2_get_take :: "rs2_capture \<Rightarrow> (nat option \<times> rs2_capture) option" where
  "rs2_get_take k =
     (if rs2_mutex_held k \<or> \<not> rk_fresh k then None else Some (rk_mergedPC k, k\<lparr>rk_fresh := False\<rparr>))"

text \<open>The destructor, once the cameras are unloaded.\<close>

definition rs2_destroy_capture :: "rs2_state \<Rightarrow> fault + rs2_state" where
  "rs2_destroy_capture st =
     (case rk_mergedPC (rx_cap st) of
        None \<Rightarrow> Inr st
      | Some a \<Rightarrow> map_sum id (on_cap (\<lambda>k. k\<lparr>rk_mergedPC := None\<rparr>)) (free_at a st))"

section \<open>Executions\<close>

datatype rs2_action =
    X_reload "rs2_device list" "string option"
  | X_reload_fast "string option"
  | X_request_metadata bool bool bool bool bool
  | X_config_get rs2_device
  | X_start "rs2_device list" bool "nat \<Rightarrow> string + rs2_started"
  | X_stop_begin
  | X_stop_cameras
  | X_stop_flags
  | X_stop_notify
  | X_stop_join
  | X_request
  | X_available
  | X_take
  | X_give_back nat
  | X_test nat
  | X_timeout nat
  | X_dequeue nat
  | X_finish nat
  | X_control rs2_event

text \<open>
  The state with the clouds the client has fetched, as they were then, those it has freed, and the
  number of clouds published.
\<close>

record rs2_run =
  rr_st :: rs2_state
  rr_fetched :: "(nat \<times> cwipc_obj option) list"
  rr_returned :: "nat list"
  rr_rounds :: nat

definition rr_init :: "world \<Rightarrow> rs2_run" where
  "rr_init w = \<lparr>rr_st = \<lparr>rx_world = w, rx_heap = (\<lambda>_. None), rx_next = 0, rx_cap = new_rs2_capture\<rparr>,
     rr_fetched = [], rr_returned = [], rr_rounds = 0\<rparr>"

definition rr_pair :: "rs2_run \<Rightarrow> rs2_pair" where
  "rr_pair r = (rx_world (rr_st r), rx_cap (rr_st r))"

definition set_pair :: "rs2_pair \<Rightarrow> rs2_run \<Rightarrow> rs2_run" where
  "set_pair s r = r\<lparr>rr_st := (rr_st r)\<lparr>rx_world := fst s, rx_cap := snd s\<rparr>\<rparr>"

definition set_cap :: "rs2_capture \<Rightarrow> rs2_run \<Rightarrow> rs2_run" where
  "set_cap k r = r\<lparr>rr_st := (rr_st r)\<lparr>rx_cap := k\<rparr>\<rparr>"

definition publishes :: "rs2_capture \<Rightarrow> bool" where
  "publishes k \<longleftrightarrow> (case rk_control k of Some (Rt_lock a) \<Rightarrow> True | _ \<Rightarrow> False)"

definition taken :: "nat option \<Rightarrow> rs2_run \<Rightarrow> (nat \<times> cwipc_obj option) list" where
  "taken rv r = (case rv of None \<Rightarrow> [] | Some a \<Rightarrow> [(a, rx_heap (rr_st r) a)])"

definition enabled_if :: "bool \<Rightarrow> 'a option \<Rightarrow> 'a option" where
  "enabled_if b x = (if b then x else None)"

fun rs2_exec :: "rs2_env \<Rightarrow> rs2_action \<Rightarrow> rs2_run \<Rightarrow> (fault + rs2_run) option" where
  "rs2_exec e (X_reload devs f) r = Some (Inr (set_pair (snd (rs2_config_reload (re_io e) devs f (rr_pair r))) r))"
| "rs2_exec e (X_reload_fast f) r =
     Some (map_sum id (\<lambda>(_, s). set_pair s r) (rs2_config_reload_fast (re_io e) f (rr_pair r)))"
| "rs2_exec e (X_request_metadata a b c d f) r =
     Some (Inr (set_cap (rs2_request_metadata a b c d f (rx_cap (rr_st r))) r))"
| "rs2_exec e (X_config_get d) r =
     Some (map_sum id (\<lambda>(_, s). set_pair s r) (rs2_config_get (re_dump e) d (rr_pair r)))"
| "rs2_exec e (X_start devs unset outcome) r =
     Some (map_sum id (\<lambda>(_, s). set_pair s r)
       (rs2_start (re_dump e) (re_bytes e) devs unset outcome (rr_pair r)))"
| "rs2_exec e X_stop_begin r = Some (Inr (set_cap (rs2_stop_begin (rx_cap (rr_st r))) r))"
| "rs2_exec e X_stop_cameras r =
     enabled_if (rk_stopping (rx_cap (rr_st r))) (map_option (\<lambda>k. Inr (set_cap k r)) (rs2_stop_cameras (rx_cap (rr_st r))))"
| "rs2_exec e X_stop_flags r =
     enabled_if (rk_stopping (rx_cap (rr_st r))) (Some (Inr (set_cap (rs2_stop_flags (rx_cap (rr_st r))) r)))"
| "rs2_exec e X_stop_notify r =
     enabled_if (rk_stopping (rx_cap (rr_st r))) (Some (Inr (set_cap (rs2_stop_notify (rx_cap (rr_st r))) r)))"
| "rs2_exec e X_stop_join r =
     enabled_if (rk_stopping (rx_cap (rr_st r)) \<and>
           (rk_control (rx_cap (rr_st r)) = None \<or> rk_control (rx_cap (rr_st r)) = Some Rt_done))
       (Some (map_sum id (\<lambda>s. set_pair s r) (rs2_stop_joined (re_dump e) (re_bytes e) (rr_pair r))))"
| "rs2_exec e X_request r = map_option (\<lambda>k. Inr (set_cap k r)) (rs2_request_new_pointcloud (rx_cap (rr_st r)))"
| "rs2_exec e X_available r = map_option (\<lambda>_. Inr r) (rs2_available_result (rx_cap (rr_st r)))"
| "rs2_exec e X_take r =
     enabled_if (rs2_is_playing (rx_cap (rr_st r)))
       (map_option (\<lambda>(rv, k). Inr (set_cap k (r\<lparr>rr_fetched := rr_fetched r @ taken rv r\<rparr>)))
         (rs2_get_take (rx_cap (rr_st r))))"
| "rs2_exec e (X_give_back a) r =
     enabled_if (a \<in> fst ` set (rr_fetched r) \<and> a \<notin> set (rr_returned r))
       (Some (map_sum id (\<lambda>st. r\<lparr>rr_st := st, rr_returned := a # rr_returned r\<rparr>) (free_at a (rr_st r))))"
| "rs2_exec e (X_test i) r = map_option (\<lambda>k. Inr (set_cap k r)) (on_unit unit_test i (rx_cap (rr_st r)))"
| "rs2_exec e (X_timeout i) r = map_option (\<lambda>k. Inr (set_cap k r)) (on_unit unit_timeout i (rx_cap (rr_st r)))"
| "rs2_exec e (X_dequeue i) r = map_option (\<lambda>k. Inr (set_cap k r)) (on_unit unit_dequeue i (rx_cap (rr_st r)))"
| "rs2_exec e (X_finish i) r = map_option (\<lambda>k. Inr (set_cap k r)) (on_unit (unit_finish e) i (rx_cap (rr_st r)))"
| "rs2_exec e (X_control ev) r =
     map_option (map_sum id (\<lambda>st. r\<lparr>rr_st := st, rr_rounds := rr_rounds r + (if publishes (rx_cap (rr_st r)) then 1 else 0)\<rparr>))
       (rs2_control_step e ev (rr_st r))"

fun rs2_run_actions :: "rs2_env \<Rightarrow> rs2_action list \<Rightarrow> rs2_run \<Rightarrow> (fault + rs2_run) option" where
  "rs2_run_actions e [] r = Some (Inr r)"
| "rs2_run_actions e (a # as) r =
     (case rs2_exec e a r of
        None \<Rightarrow> None | Some (Inl f) \<Rightarrow> Some (Inl f) | Some (Inr r') \<Rightarrow> rs2_run_actions e as r')"

end
