(* ===== verification/RealSenseRuns.thy ===== *)
theory RealSenseRuns
  imports RealSenseThread
begin

text \<open>
  Executions of a RealSense capturer (theories \<open>RealSenseCapture\<close> and \<open>RealSenseThread\<close>): what happens
  to the clouds a client has fetched, while the capturer runs and when it is stopped and destroyed,
  and which frame sets the points and the metadata of a cloud come from.
\<close>

section \<open>Frame equations\<close>

lemma on_cap_fields [simp]:
  "rx_heap (on_cap f st) = rx_heap st" "rx_next (on_cap f st) = rx_next st" "rx_cap (on_cap f st) = f (rx_cap st)"
  "rx_world (on_cap f st) = rx_world st"
  by (simp_all add: on_cap_def)

lemma go_to_fields [simp]:
  "rx_heap (go_to at st) = rx_heap st" "rx_next (go_to at st) = rx_next st"
  "rx_cap (go_to at st) = (rx_cap st)\<lparr>rk_control := Some at\<rparr>"
  by (simp_all add: go_to_def)

lemma say_debug_fields [simp]:
  "rx_heap (say_debug m st) = rx_heap st" "rx_next (say_debug m st) = rx_next st" "rx_cap (say_debug m st) = rx_cap st"
  by (simp_all add: say_debug_def)

lemma run_fields [simp]:
  "rx_cap (rr_st (set_pair s r)) = snd s" "rx_heap (rr_st (set_pair s r)) = rx_heap (rr_st r)"
  "rx_next (rr_st (set_pair s r)) = rx_next (rr_st r)" "rr_fetched (set_pair s r) = rr_fetched r"
  "rr_returned (set_pair s r) = rr_returned r" "rr_rounds (set_pair s r) = rr_rounds r"
  "rx_cap (rr_st (set_cap k r)) = k" "rx_heap (rr_st (set_cap k r)) = rx_heap (rr_st r)"
  "rx_next (rr_st (set_cap k r)) = rx_next (rr_st r)" "rr_fetched (set_cap k r) = rr_fetched r"
  "rr_returned (set_cap k r) = rr_returned r" "rr_rounds (set_cap k r) = rr_rounds r" "rr_rounds (r\<lparr>rr_fetched := fs\<rparr>) = rr_rounds r"
  "snd (rr_pair r) = rx_cap (rr_st r)"
  by (simp_all add: set_pair_def set_cap_def rr_pair_def)

lemma enabled_if_Some [simp]: "enabled_if b x = Some y \<longleftrightarrow> b \<and> x = Some y"
  by (simp add: enabled_if_def)

lemma calls_fields [simp]:
  "rk_mergedPC (rs2_call_cameras f g k) = rk_mergedPC k" "rk_control (rs2_call_cameras f g k) = rk_control k"
  "rk_fresh (rs2_call_cameras f g k) = rk_fresh k" "rk_stopping (rs2_call_cameras f g k) = rk_stopping k"
  "rk_cameras (rs2_call_cameras f g k) = map g (rk_cameras k)" "rk_stopped (rs2_call_cameras f g k) = rk_stopped k"
  by (simp_all add: rs2_call_cameras_def)

section \<open>What the configuration calls leave alone\<close>

lemma on_configuration_result:
  "rs2_on_configuration rd (w, k\<lparr>rk_config := c0\<rparr>) = (ok, w', k') \<Longrightarrow> \<exists>c. k' = k\<lparr>rk_config := c\<rparr>"
  by (auto simp: rs2_on_configuration_def split: prod.splits)

lemma apply_config_result:
  assumes "rs2_apply_config io devs f (w, k) = (ok, w', k')"
  shows "\<exists>c. k' = k\<lparr>rk_config := c\<rparr>"
proof -
  define name where "name = (case f of None \<Rightarrow> ''cameraconfig.json'' | Some n \<Rightarrow> if n = [] then ''cameraconfig.json'' else n)"
  have a: "\<exists>c. k' = k\<lparr>rk_config := c\<rparr>" if "rs2_apply_auto_config devs (w, k\<lparr>rk_config := new_rs2_config\<rparr>) = (ok, w', k')"
    using that by (auto simp: rs2_apply_auto_config_def Let_def split: if_splits)
  show ?thesis
    using assms a by (auto simp: rs2_apply_config_def Let_def simp flip: name_def split: if_splits dest!: on_configuration_result)
qed

lemma reload_result:
  assumes "rs2_config_reload io devs f (w, k) = (ok, w', k')"
  shows "\<exists>c i. k' = k\<lparr>rk_config := c, rk_initialized := i\<rparr>"
proof -
  have same: "\<exists>c i. k = k\<lparr>rk_config := c, rk_initialized := i\<rparr>"
    by (intro exI [of _ "rk_config k"] exI [of _ "rk_initialized k"]) simp
  obtain ok1 w1 k1 where a: "rs2_apply_config io devs f (w, k) = (ok1, w1, k1)" by (metis prod.exhaust)
  then have "\<exists>c. k1 = k\<lparr>rk_config := c\<rparr>" by (rule apply_config_result)
  then show ?thesis
    using assms same a by (auto simp: rs2_config_reload_def split: if_splits bool.splits prod.splits)
qed

lemma reload_fast_result:
  assumes "rs2_config_reload_fast io f (w, k) = Inr (ok, w', k')"
  shows "\<exists>c. k' = k\<lparr>rk_config := c\<rparr>"
proof -
  have "\<exists>c. k = k\<lparr>rk_config := c\<rparr>" by (rule exI [of _ "rk_config k"]) simp
  then show ?thesis
    using assms by (auto simp: rs2_config_reload_fast_def Let_def split: option.splits prod.splits if_splits)
qed

lemma config_get_result:
  assumes "rs2_config_get dump d (w, k) = Inr (t, w', k')"
  shows "\<exists>c. k' = k\<lparr>rk_config := c\<rparr>"
proof -
  have "\<exists>c. k = k\<lparr>rk_config := c\<rparr>" by (rule exI [of _ "rk_config k"]) simp
  then show ?thesis
    using assms by (auto simp: rs2_config_get_def Let_def map_sum_Inr split: if_splits sum.splits)
qed

section \<open>What a start does\<close>

text \<open>A camera that has never been given a frame set.\<close>

definition unused :: "bool \<Rightarrow> rs2_unit \<Rightarrow> bool" where
  "unused unset u \<longleftrightarrow> ru_queue u = None \<and> ru_busy u = None \<and> ru_done u = unset \<and> ru_processed u = None \<and> ru_cloud u = None"

lemma create_cameras_result:
  assumes "rs2_create_cameras unset devs (w, k) = Inr (ok, w', k')"
  shows "\<exists>c cams. k' = k\<lparr>rk_config := c, rk_cameras := rk_cameras k @ cams\<rparr> \<and> list_all (unused unset) cams"
  using assms
proof (induction devs arbitrary: w k)
  case Nil
  then have "k' = k\<lparr>rk_config := rk_config k, rk_cameras := rk_cameras k @ []\<rparr>" by simp
  then show ?case by (intro exI [of _ "rk_config k"] exI [of _ "[]"]) simp
next
  case (Cons d ds)
  have same: "\<exists>c cams. k = k\<lparr>rk_config := c, rk_cameras := rk_cameras k @ cams\<rparr> \<and> list_all (unused unset) cams"
    by (intro exI [of _ "rk_config k"] exI [of _ "[]"]) simp
  show ?case
  proof (cases "platform_camera d")
    case True
    then show ?thesis using Cons by simp
  next
    case False
    obtain i w1 where g: "rs2_get_camera_config (rd_serial d)
        (rs2_log CWIPC_LOG_LEVEL_DEBUG (''_create_cameras: Opening camera '' @ rd_name d) w, k) = (i, w1)" by fastforce
    show ?thesis
    proof (cases i)
      case None
      with Cons.prems False g same show ?thesis by (simp add: rs2_warn_def)
    next
      case (Some j)
      let ?cd = "rs_camera (rs_all_camera_configs (rk_config k) ! j)"
      consider "cam_type ?cd \<noteq> ''realsense''" | "cam_type ?cd = ''realsense''" "cam_disabled ?cd"
        | "cam_type ?cd = ''realsense''" "\<not> cam_disabled ?cd" by blast
      then show ?thesis
      proof cases
        case 1
        with Cons.prems False g Some same show ?thesis by (simp add: rs2_warn_def)
      next
        case 2
        with Cons.prems False g Some have "rs2_create_cameras unset ds (w1, k) = Inr (ok, w', k')" by simp
        then show ?thesis by (rule Cons.IH)
      next
        case 3
        with Cons.prems False g Some obtain u where u: "new_rs2_unit unset (length (rk_cameras k)) (rk_config k) = Inr u"
          and r: "rs2_create_cameras unset ds (w1, rs2_set_connected j (k\<lparr>rk_cameras := rk_cameras k @ [u]\<rparr>)) = Inr (ok, w', k')"
          by (auto split: sum.splits)
        have n: "unused unset u" using u by (auto simp: new_rs2_unit_def unused_def split: if_splits)
        from Cons.IH [OF r] obtain c cams where
          "k' = (rs2_set_connected j (k\<lparr>rk_cameras := rk_cameras k @ [u]\<rparr>))\<lparr>rk_config := c,
             rk_cameras := rk_cameras (rs2_set_connected j (k\<lparr>rk_cameras := rk_cameras k @ [u]\<rparr>)) @ cams\<rparr>"
          "list_all (unused unset) cams" by blast
        with n show ?thesis
          by (intro exI [of _ c] exI [of _ "u # cams"]) (simp add: rs2_set_connected_def Let_def)
      qed
    qed
  qed
qed

lemma start_unit_unused [simp]:
  "unused unset (start_unit sd u) = unused unset u" "unused unset (start_unit_streaming u) = unused unset u"
  by (simp_all add: unused_def start_unit_def start_unit_streaming_def)

lemma start_from_result:
  assumes "start_from outcome i n (w, k) = (ok, w', k')"
  shows "\<exists>c cams calls. k' = k\<lparr>rk_config := c, rk_cameras := cams, rk_calls := calls\<rparr> \<and>
    (list_all (unused unset) (rk_cameras k) \<longrightarrow> list_all (unused unset) cams)"
  using assms
proof (induction n arbitrary: i w k)
  case 0
  then have "k' = k\<lparr>rk_config := rk_config k, rk_cameras := rk_cameras k, rk_calls := rk_calls k\<rparr>" by simp
  then show ?case by blast
next
  case (Suc n)
  show ?case
  proof (cases "outcome i")
    case (Inl what)
    with Suc.prems have "k' = k\<lparr>rk_config := rk_config k, rk_cameras := rk_cameras k, rk_calls := rk_calls k @ [(Start_camera, i)]\<rparr>"
      by simp
    then show ?thesis by blast
  next
    case (Inr sd)
    define k1 where "k1 = k\<lparr>rk_calls := rk_calls k @ [(Start_camera, i)],
      rk_cameras := (rk_cameras k)[i := start_unit sd (rk_cameras k ! i)], rk_config := started_config sd i (rk_config k)\<rparr>"
    obtain w1 where "start_from outcome (i + 1) n (w1, k1) = (ok, w', k')"
      using Suc.prems Inr by (auto simp: k1_def)
    from Suc.IH [OF this] obtain c cams calls where
      r: "k' = k1\<lparr>rk_config := c, rk_cameras := cams, rk_calls := calls\<rparr>"
      "list_all (unused unset) (rk_cameras k1) \<longrightarrow> list_all (unused unset) cams" by blast
    have "list_all (unused unset) (rk_cameras k1)" if "list_all (unused unset) (rk_cameras k)"
    proof (cases "i < length (rk_cameras k)")
      case True
      then have "unused unset (start_unit sd (rk_cameras k ! i))" using that by (simp add: list_all_length)
      with True show ?thesis using that by (auto simp: k1_def list_all_length nth_list_update)
    next
      case False
      then show ?thesis using that by (simp add: k1_def list_update_beyond)
    qed
    with r show ?thesis by (auto simp: k1_def)
  qed
qed

lemma start_cameras_result:
  assumes "rs2_start_cameras outcome (w, k) = (ok, w', k')" and "list_all (unused unset) (rk_cameras k)"
  shows "list_all (unused unset) (rk_cameras k') \<and> rk_mergedPC k' = rk_mergedPC k \<and> rk_fresh k' = rk_fresh k"
proof -
  define k0 where "k0 = rs2_call_cameras Pre_start_all id k"
  obtain ok1 w1 k1 where r: "start_from outcome 0 (length (rk_cameras k)) (w, k0) = (ok1, w1, k1)" by (metis prod.exhaust)
  have "list_all (unused unset) (rk_cameras k0)" using assms(2) by (simp add: k0_def)
  with start_from_result [OF r, of unset] have "list_all (unused unset) (rk_cameras k1)" "rk_mergedPC k1 = rk_mergedPC k"
    "rk_fresh k1 = rk_fresh k" by (auto simp: k0_def)
  then show ?thesis
    using assms(1) r by (cases ok1) (auto simp: rs2_start_cameras_def k0_def list_all_iff unused_def start_unit_streaming_def)
qed

lemma post_stop_result:
  "rs2_post_stop_all_cameras dump bytes (w, k) = Inr (w', k') \<Longrightarrow> k' = k"
  by (auto simp: rs2_post_stop_all_cameras_def Let_def split: if_splits sum.splits)

lemma rs2_stop_joined_result:
  assumes "rs2_stop_joined dump bytes (w, k) = Inr (w', k')"
  shows "rk_cameras k' = []" "rk_mergedPC k' = rk_mergedPC k" "rk_control k' = None" "rk_stopping k' = rk_stopping k"
    "rk_fresh k' = rk_fresh k"
  using assms by (auto simp: rs2_stop_joined_def Let_def split: sum.splits prod.splits dest!: post_stop_result)

lemma unload_result:
  assumes "rs2_unload_cameras dump bytes (w, k) = Inr (w', k')" and "rk_control k = None"
  shows "rk_cameras k' = []" "rk_mergedPC k' = rk_mergedPC k" "rk_control k' = None" "rk_stopping k'"
  using assms rs2_stop_joined_result [of dump bytes w
      "rs2_stop_notify (rs2_stop_flags (rs2_call_cameras Stop_camera stop_unit (rs2_stop_begin k)))" w' k']
  by (simp_all add: rs2_unload_cameras_def rs2_stop_notify_def rs2_notify_want_new_def rs2_stop_flags_def rs2_stop_begin_def)

text \<open>A call of \<open>start\<close> changes nothing, or leaves no cameras, or leaves new ones and a new thread.\<close>

lemma start_result:
  assumes "rs2_start dump bytes devs unset outcome (w, k) = Inr (ok, w', k')"
    and "rk_control k = None \<longrightarrow> rk_cameras k = []"
  obtains (nothing) "k' = k"
    | (unloaded) "rk_control k = None" "rk_control k' = None" "rk_cameras k' = []" "rk_mergedPC k' = rk_mergedPC k" "rk_stopping k'"
    | (started) "rk_control k = None" "rk_control k' = Some Rt_begin" "list_all (unused unset) (rk_cameras k')"
      "rk_mergedPC k' = rk_mergedPC k" "rk_fresh k' = rk_fresh k" "\<not> rk_stopping k'"
proof (cases "rs2_can_start k \<and> \<not> rs2_is_playing k \<and> rs_all_camera_configs (rk_config k) \<noteq> []")
  case False
  then have "k' = k" using assms(1) by (auto simp: rs2_start_def split: if_splits)
  then show ?thesis by (rule nothing)
next
  case True
  then have none: "rk_control k = None" "rk_cameras k = []" using assms(2) by (simp_all add: rs2_is_playing_def)
  obtain devs1 where i: "rs2_init_hardware_for_all_cameras (rs_hardware (rk_config k)) devs = Inr devs1"
    using assms(1) True by (auto simp: rs2_start_def split: sum.splits)
  obtain ok1 msgs devs2 where sy: "setup_inter_camera_sync (rs_sync (rk_config k)) devs1 = (ok1, msgs, devs2)"
    by (metis prod.exhaust)
  define w1 where "w1 = foldl (\<lambda>w m. rs2_log CWIPC_LOG_LEVEL_WARNING m w) w msgs"
  obtain created w2 k2 where c: "rs2_create_cameras unset devs2 (w1, k\<lparr>rk_devices := devs2\<rparr>) = Inr (created, w2, k2)"
    using assms(1) True i sy by (auto simp: rs2_start_def Let_def w1_def split: sum.splits)
  have k2: "rk_control k2 = None" "rk_mergedPC k2 = rk_mergedPC k" "rk_fresh k2 = rk_fresh k" "list_all (unused unset) (rk_cameras k2)"
    using create_cameras_result [OF c] none by auto
  obtain connected w3 k3 where ch: "rs2_check_cameras_connected (w2, k2) = (connected, w3, k3)" by (metis prod.exhaust)
  have k3: "k3 = k2" using ch by (auto simp: rs2_check_cameras_connected_def split: option.splits)
  show ?thesis
  proof (cases "created \<and> connected")
    case False
    obtain w4 where "rs2_unload_cameras dump bytes (w4, k2) = Inr (w', k')"
      using assms(1) True i sy c ch k3 False
      by (auto simp: rs2_start_def Let_def w1_def map_sum_Inr split: if_splits)
    from unload_result [OF this k2(1)] k2 none show ?thesis by (intro unloaded) simp_all
  next
    case good: True
    obtain ok4 w4 k4 where s: "rs2_start_cameras outcome (w3, k3) = (ok4, w4, k4)" by (metis prod.exhaust)
    have "k' = k4\<lparr>rk_stopped := False, rk_stopping := False, rk_control := Some Rt_begin\<rparr>"
      using assms(1) True i sy c ch good s by (auto simp: rs2_start_def Let_def w1_def)
    with start_cameras_result [OF s, of unset] k2 k3 none show ?thesis by (intro started) simp_all
  qed
qed

section \<open>Who owns a cloud\<close>

definition rt_carried :: "rs2_capture \<Rightarrow> nat option" where
  "rt_carried k =
     (case rk_control k of Some (Rt_new a) \<Rightarrow> Some a | Some (Rt_queued a) \<Rightarrow> Some a | Some (Rt_lock a) \<Rightarrow> Some a | _ \<Rightarrow> None)"

definition rt_merging :: "rs2_capture \<Rightarrow> bool" where
  "rt_merging k =
     (case rk_control k of Some Rt_published \<Rightarrow> True | Some (Rt_waiting n) \<Rightarrow> True | Some Rt_merge \<Rightarrow> True | _ \<Rightarrow> False)"

text \<open>
  \<open>h\<close> is the heap, \<open>n\<close> the next address, \<open>m\<close> the capturer's cloud, \<open>c\<close> the one the control thread
  carries, \<open>mg\<close> whether it is merging, \<open>F\<close> and \<open>R\<close> the clouds fetched and given back by the client.
\<close>

definition owned :: "(nat \<Rightarrow> cwipc_obj option) \<Rightarrow> nat \<Rightarrow> nat option \<Rightarrow> nat option \<Rightarrow> bool \<Rightarrow> nat set \<Rightarrow> nat set \<Rightarrow> bool" where
  "owned h n m c mg F R \<longleftrightarrow>
     (\<forall>a. m = Some a \<longrightarrow> a < n \<and> (a \<notin> R \<longrightarrow> h a \<noteq> None)) \<and>
     (\<forall>a. c = Some a \<longrightarrow> a < n \<and> h a \<noteq> None \<and> m \<noteq> Some a \<and> a \<notin> F) \<and>
     (mg \<longrightarrow> (\<exists>a. m = Some a \<and> h a \<noteq> None \<and> a \<notin> F)) \<and>
     (\<forall>a \<in> R. h a = None \<and> a \<in> F) \<and> (\<forall>a \<in> F. a < n)"

lemma owned_create:
  "owned h n m None False F R \<Longrightarrow> owned (h(n \<mapsto> pc)) (n + 1) m (Some n) False F R"
  by (fastforce simp: owned_def)

lemma owned_drop:
  "owned h n m (Some a) mg F R \<Longrightarrow> h a \<noteq> None \<and> owned (h(a := None)) n m None mg F R"
  by (auto simp: owned_def)

lemma owned_publish:
  "owned h n m (Some a) False F R \<Longrightarrow> owned h n (Some a) None True F R"
  by (auto simp: owned_def)

lemma owned_publish_free:
  "owned h n (Some b) (Some a) False F R \<Longrightarrow> owned (h(b := None)) n (Some a) None True F R"
  by (auto simp: owned_def)

lemma owned_merge:
  "owned h n m None True F R \<Longrightarrow> \<exists>a. m = Some a \<and> h a \<noteq> None \<and> a \<notin> F \<and> owned (h(a \<mapsto> pc)) n m None False F R"
  by (fastforce simp: owned_def)

lemma owned_calm: "owned h n m c mg F R \<Longrightarrow> owned h n m c False F R"
  by (simp add: owned_def)

lemma owned_take: "owned h n (Some a) c False F R \<Longrightarrow> owned h n (Some a) c False (insert a F) R"
  by (auto simp: owned_def)

lemma owned_give_back:
  "owned h n m c mg F R \<Longrightarrow> a \<in> F \<Longrightarrow> owned (h(a := None)) n m c mg F (insert a R)"
  by (fastforce simp: owned_def)

definition own_ok :: "rs2_run \<Rightarrow> bool" where
  "own_ok r = owned (rx_heap (rr_st r)) (rx_next (rr_st r)) (rk_mergedPC (rx_cap (rr_st r))) (rt_carried (rx_cap (rr_st r)))
     (rt_merging (rx_cap (rr_st r))) (fst ` set (rr_fetched r)) (set (rr_returned r))"

lemma carried_simps_rs2 [simp]:
  "rt_carried (k\<lparr>rk_control := Some at\<rparr>) =
     (case at of Rt_new a \<Rightarrow> Some a | Rt_queued a \<Rightarrow> Some a | Rt_lock a \<Rightarrow> Some a | _ \<Rightarrow> None)"
  "rt_merging (k\<lparr>rk_control := Some at\<rparr>) =
     (case at of Rt_published \<Rightarrow> True | Rt_waiting n \<Rightarrow> True | Rt_merge \<Rightarrow> True | _ \<Rightarrow> False)"
  by (simp_all add: rt_carried_def rt_merging_def split: rs2_at.split)

lemma fresh_places [simp]:
  "rt_carried (k\<lparr>rk_fresh := b\<rparr>) = rt_carried k" "rt_merging (k\<lparr>rk_fresh := b\<rparr>) = rt_merging k"
  by (simp_all add: rt_carried_def rt_merging_def)

text \<open>What one step of the control thread can do to the clouds.\<close>

datatype cloud_effect = Keeps | Creates | Drops | Publishes "nat option" | Merges

definition effect :: "cloud_effect \<Rightarrow> rs2_state \<Rightarrow> rs2_state \<Rightarrow> bool" where
  "effect f st st' \<longleftrightarrow>
     (let k = rx_cap st; k' = rx_cap st'; h = rx_heap st; h' = rx_heap st' in
      case f of
        Keeps \<Rightarrow> h' = h \<and> rx_next st' = rx_next st \<and> rk_mergedPC k' = rk_mergedPC k \<and> rk_fresh k' = rk_fresh k \<and>
          rt_carried k' = rt_carried k \<and> (rt_merging k' \<longrightarrow> rt_merging k)
      | Creates \<Rightarrow> (\<exists>pc. h' = h(rx_next st \<mapsto> pc)) \<and> rx_next st' = rx_next st + 1 \<and> rk_mergedPC k' = rk_mergedPC k \<and>
          rk_fresh k' = rk_fresh k \<and> rt_carried k = None \<and> rt_carried k' = Some (rx_next st) \<and> \<not> rt_merging k \<and> \<not> rt_merging k'
      | Drops \<Rightarrow> (\<exists>a. rt_carried k = Some a \<and> h' = h(a := None)) \<and> rx_next st' = rx_next st \<and> rk_mergedPC k' = rk_mergedPC k \<and>
          rk_fresh k' = rk_fresh k \<and> rt_carried k' = None \<and> \<not> rt_merging k'
      | Publishes old \<Rightarrow> (case old of None \<Rightarrow> h' = h \<and> (rk_mergedPC k = None \<or> \<not> rk_fresh k)
                           | Some b \<Rightarrow> rk_mergedPC k = Some b \<and> rk_fresh k \<and> h' = h(b := None)) \<and>
          rx_next st' = rx_next st \<and> rk_mergedPC k' = rt_carried k \<and> rt_carried k \<noteq> None \<and> rk_fresh k' = rk_fresh k \<and>
          rt_carried k' = None \<and> \<not> rt_merging k \<and> rt_merging k'
      | Merges \<Rightarrow> (\<exists>a pc. rk_mergedPC k = Some a \<and> h' = h(a \<mapsto> pc)) \<and> rx_next st' = rx_next st \<and>
          rk_mergedPC k' = rk_mergedPC k \<and> rk_fresh k' \<and> rt_merging k \<and> rt_carried k = None \<and>
          rt_carried k' = None \<and> \<not> rt_merging k')"

lemma own_effect:
  assumes "effect f st st'" and "owned (rx_heap st) (rx_next st) (rk_mergedPC (rx_cap st)) (rt_carried (rx_cap st)) (rt_merging (rx_cap st)) F R"
  shows "owned (rx_heap st') (rx_next st') (rk_mergedPC (rx_cap st')) (rt_carried (rx_cap st')) (rt_merging (rx_cap st')) F R"
proof (cases f)
  case Keeps
  with assms owned_calm [OF assms(2)] show ?thesis
    by (cases "rt_merging (rx_cap st')") (simp_all add: effect_def Let_def)
next
  case Creates
  with assms show ?thesis by (auto simp: effect_def Let_def intro: owned_create [simplified])
next
  case Drops
  with assms show ?thesis by (auto simp: effect_def Let_def intro: owned_calm [OF owned_drop [THEN conjunct2]])
next
  case (Publishes old)
  with assms show ?thesis
    by (auto simp: effect_def Let_def split: option.splits intro: owned_publish owned_publish_free)
next
  case Merges
  with assms owned_merge [of "rx_heap st" "rx_next st" "rk_mergedPC (rx_cap st)" F R] show ?thesis
    by (auto simp: effect_def Let_def)
qed

text \<open>Every step of the control thread has one of these effects.\<close>

lemma effect_keeps [simp]:
  "effect Keeps st (go_to at st') \<longleftrightarrow>
     rx_heap st' = rx_heap st \<and> rx_next st' = rx_next st \<and> rk_mergedPC (rx_cap st') = rk_mergedPC (rx_cap st) \<and>
     rk_fresh (rx_cap st') = rk_fresh (rx_cap st) \<and>
     rt_carried ((rx_cap st')\<lparr>rk_control := Some at\<rparr>) = rt_carried (rx_cap st) \<and>
     (rt_merging ((rx_cap st')\<lparr>rk_control := Some at\<rparr>) \<longrightarrow> rt_merging (rx_cap st))"
  by (auto simp: effect_def Let_def)

lemma at_place:
  "rk_control k = Some at \<Longrightarrow> rt_carried k = (case at of Rt_new a \<Rightarrow> Some a | Rt_queued a \<Rightarrow> Some a | Rt_lock a \<Rightarrow> Some a | _ \<Rightarrow> None)"
  "rk_control k = Some at \<Longrightarrow> rt_merging k = (case at of Rt_published \<Rightarrow> True | Rt_waiting n \<Rightarrow> True | Rt_merge \<Rightarrow> True | _ \<Rightarrow> False)"
  by (simp_all add: rt_carried_def rt_merging_def)

lemma drop_effect:
  assumes "drop_cloud a st = Inr st'" and "rk_control (rx_cap st) = Some at" and "at = Rt_new a \<or> at = Rt_queued a"
  shows "effect Drops st st'"
proof -
  obtain pc where "rx_heap st a = Some pc"
    "st' = go_to Rt_exit (st\<lparr>rx_world := free_pc pc (rx_world st), rx_heap := (rx_heap st)(a := None)\<rparr>)"
    using assms(1) by (auto simp: drop_cloud_def map_sum_Inr free_at_def split: option.splits)
  then show ?thesis using assms(2,3) by (auto simp: effect_def Let_def at_place)
qed

lemma create_effect:
  assumes "rs2_create_pc e ts (say_debug m st) = Inr (a, st1)" and "rk_control (rx_cap st) = Some (Rt_captured t)"
  shows "effect Creates st (go_to (Rt_new a) st1)"
  using assms by (auto simp: rs2_create_pc_def effect_def Let_def at_place split: prod.splits option.splits sum.splits)

lemma publish_effect:
  assumes "rs2_publish a st = Inr st'" and "rk_control (rx_cap st) = Some (Rt_lock a)"
  shows "\<exists>old. effect (Publishes old) st st'"
proof (cases "\<exists>b. rk_mergedPC (rx_cap st) = Some b \<and> rk_fresh (rx_cap st)")
  case True
  then obtain b where b: "rk_mergedPC (rx_cap st) = Some b" "rk_fresh (rx_cap st)" by blast
  then obtain pc where "rx_heap st b = Some pc"
    "st' = go_to Rt_published (on_cap (\<lambda>k. k\<lparr>rk_mergedPC := Some a\<rparr>)
       (st\<lparr>rx_world := free_pc pc (rx_world st), rx_heap := (rx_heap st)(b := None)\<rparr>))"
    using assms(1) by (auto simp: rs2_publish_def map_sum_Inr free_at_def split: option.splits)
  with b assms(2) show ?thesis by (intro exI [of _ "Some b"]) (simp add: effect_def at_place)
next
  case False
  then have "st' = go_to Rt_published (on_cap (\<lambda>k. k\<lparr>rk_mergedPC := Some a\<rparr>) st)"
    using assms(1) by (auto simp: rs2_publish_def Let_def split: option.splits)
  with False assms(2) show ?thesis by (intro exI [of _ None]) (auto simp: effect_def at_place)
qed

lemma merge_effect:
  assumes "rs2_merge st = Inr st'" and "rk_control (rx_cap st) = Some Rt_merge"
  shows "effect Merges st st'"
  using assms by (auto simp: rs2_merge_def effect_def Let_def at_place split: option.splits)

lemma capture_round_result:
  assumes "capture_round now st = Inr st'"
  obtains ok ts cams msgs w where
    "rs2_capture_all_cameras (rs_new_timestamps (rk_config (rx_cap st))) now (map ru_cam (rk_cameras (rx_cap st))) = Inr (ok, ts, cams, msgs)"
    "st' = go_to (if ok then Rt_captured ts else Rt_test)
       (st\<lparr>rx_world := w, rx_cap := (rx_cap st)\<lparr>rk_cameras := set_cams cams (rk_cameras (rx_cap st))\<rparr>\<rparr>)"
  using assms by (auto simp: capture_round_def Let_def split: sum.splits)

lemma control_effect:
  assumes "rs2_control_step e ev st = Some (Inr st')"
  obtains f where "effect f st st'" "publishes (rx_cap st) \<longleftrightarrow> (\<exists>old. f = Publishes old)"
proof -
  obtain at where c: "rk_control (rx_cap st) = Some at"
    using assms by (auto simp: rs2_control_step_def Let_def split: option.splits)
  have p: "publishes (rx_cap st) \<longleftrightarrow> (\<exists>a. at = Rt_lock a)" using c by (auto simp: publishes_def split: rs2_at.splits)
  note step = assms [unfolded rs2_control_step_def Let_def c option.case]
  have "effect Keeps st st'" if "at \<in> {Rt_begin, Rt_test, Rt_predicate, Rt_before_block, Rt_blocked, Rt_eof_check, Rt_published, Rt_exit}"
    using that step c by (cases ev) (auto simp: at_place split: if_splits)
  moreover have "effect Keeps st st'" if "at = Rt_capture"
    using that step c by (cases ev) (auto simp: at_place elim!: capture_round_result)
  moreover have "effect Keeps st st' \<or> effect Creates st st'" if "at = Rt_captured t" for t
    using that step c by (cases ev) (auto simp: at_place split: if_splits sum.splits intro: create_effect)
  moreover have "effect Keeps st st' \<or> effect Drops st st'" if "at = Rt_new a \<or> at = Rt_queued a" for a
    using that step c by (cases ev) (auto simp: at_place split: if_splits intro: drop_effect)
  moreover have "effect Keeps st st'" if "at = Rt_waiting n" for n
    using that step c by (cases ev) (auto simp: at_place effect_def wait_unit_def split: if_splits)
  moreover have "\<exists>old. effect (Publishes old) st st'" if "at = Rt_lock a" for a
    using that step c by (cases ev) (auto intro: publish_effect)
  moreover have "effect Merges st st'" if "at = Rt_merge"
    using that step c by (cases ev) (auto intro: merge_effect)
  moreover have "at \<noteq> Rt_done" using step by (cases ev) auto
  ultimately show ?thesis
    using p that by (cases at) fastforce+
qed

lemma control_goes_on:
  assumes "rs2_control_step e ev st = Some (Inr st')"
  shows "rk_control (rx_cap st') \<noteq> None"
proof -
  obtain at where c: "rk_control (rx_cap st) = Some at"
    using assms by (auto simp: rs2_control_step_def Let_def split: option.splits)
  note step = assms [unfolded rs2_control_step_def Let_def c option.case]
  show ?thesis
    using step by (cases at; cases ev)
      (auto simp: capture_round_def rs2_publish_def rs2_merge_def drop_cloud_def map_sum_Inr wait_unit_def Let_def
        split: if_splits sum.splits option.splits)
qed

section \<open>Every action\<close>

definition cameras_ok :: "rs2_run \<Rightarrow> bool" where
  "cameras_ok r \<longleftrightarrow> (rk_control (rx_cap (rr_st r)) = None \<longrightarrow> rk_cameras (rx_cap (rr_st r)) = [])"

text \<open>An action that leaves the clouds alone.\<close>

definition quiet :: "rs2_run \<Rightarrow> rs2_run \<Rightarrow> bool" where
  "quiet r r' \<longleftrightarrow>
     (let k = rx_cap (rr_st r); k' = rx_cap (rr_st r') in
      rx_heap (rr_st r') = rx_heap (rr_st r) \<and> rx_next (rr_st r') = rx_next (rr_st r) \<and> rr_fetched r' = rr_fetched r \<and>
      rr_returned r' = rr_returned r \<and> rr_rounds r' = rr_rounds r \<and> rk_mergedPC k' = rk_mergedPC k \<and>
      rt_carried k' = rt_carried k \<and> rt_merging k' = rt_merging k)"

lemma quiet_cap:
  assumes "rk_mergedPC k' = rk_mergedPC (rx_cap (rr_st r))" and "rk_control k' = rk_control (rx_cap (rr_st r))"
  shows "quiet r (set_cap k' r)" "cameras_ok r \<Longrightarrow> (rk_cameras (rx_cap (rr_st r)) = [] \<longrightarrow> rk_cameras k' = []) \<Longrightarrow> cameras_ok (set_cap k' r)"
  using assms by (simp_all add: quiet_def Let_def rt_carried_def rt_merging_def cameras_ok_def)

lemma quiet_pair:
  assumes "rk_mergedPC (snd s) = rk_mergedPC (rx_cap (rr_st r))" and "rk_control (snd s) = rk_control (rx_cap (rr_st r))"
  shows "quiet r (set_pair s r)" "cameras_ok r \<Longrightarrow> rk_cameras (snd s) = rk_cameras (rx_cap (rr_st r)) \<Longrightarrow> cameras_ok (set_pair s r)"
  using assms by (simp_all add: quiet_def Let_def rt_carried_def rt_merging_def cameras_ok_def)

lemma notify_fields [simp]:
  "rk_mergedPC (rs2_notify_want_new k) = rk_mergedPC k" "rk_cameras (rs2_notify_want_new k) = rk_cameras k"
  "rk_fresh (rs2_notify_want_new k) = rk_fresh k" "rk_stopping (rs2_notify_want_new k) = rk_stopping k"
  "rt_carried (rs2_notify_want_new k) = rt_carried k" "rt_merging (rs2_notify_want_new k) = rt_merging k"
  "rk_control (rs2_notify_want_new k) = None \<longleftrightarrow> rk_control k = None"
  by (simp_all add: rs2_notify_want_new_def at_place)

lemma quiet_start:
  assumes "rs2_exec e (X_start devs unset outcome) r = Some (Inr r')" and "cameras_ok r"
  shows "quiet r r' \<and> cameras_ok r'"
proof -
  obtain ok w' k' where s: "rs2_start (re_dump e) (re_bytes e) devs unset outcome (rr_pair r) = Inr (ok, w', k')"
    and r': "r' = set_pair (w', k') r"
    using assms(1) by (auto simp: map_sum_Inr)
  note s' = s [unfolded rr_pair_def]
  show ?thesis
  proof (rule start_result [OF s'])
    show "rk_control (rx_cap (rr_st r)) = None \<longrightarrow> rk_cameras (rx_cap (rr_st r)) = []" using assms(2) by (simp add: cameras_ok_def)
  next
    assume "k' = rx_cap (rr_st r)"
    with assms(2) show ?thesis by (simp add: r' quiet_def cameras_ok_def)
  next
    assume "rk_control (rx_cap (rr_st r)) = None" "rk_control k' = None" "rk_cameras k' = []" "rk_mergedPC k' = rk_mergedPC (rx_cap (rr_st r))"
    then show ?thesis by (simp add: r' quiet_def cameras_ok_def Let_def rt_carried_def rt_merging_def)
  next
    assume "rk_control (rx_cap (rr_st r)) = None" "rk_control k' = Some Rt_begin" "rk_mergedPC k' = rk_mergedPC (rx_cap (rr_st r))"
    then show ?thesis by (simp add: r' quiet_def cameras_ok_def Let_def rt_carried_def rt_merging_def)
  qed
qed

definition moves_clouds :: "rs2_action \<Rightarrow> bool" where
  "moves_clouds a \<longleftrightarrow> (case a of X_take \<Rightarrow> True | X_give_back n \<Rightarrow> True | X_control ev \<Rightarrow> True | _ \<Rightarrow> False)"

lemma action_cases:
  obtains (X_control) ev where "a = X_control ev" | (X_take) "a = X_take" | (X_give_back) n where "a = X_give_back n"
    | (other) "\<not> moves_clouds a"
  by (cases a) (auto simp: moves_clouds_def)

lemma quiet_exec:
  assumes "rs2_exec e a r = Some (Inr r')" and "cameras_ok r" and "\<not> moves_clouds a"
  shows "quiet r r' \<and> cameras_ok r'"
proof (cases a)
  case (X_start devs unset outcome)
  with assms quiet_start show ?thesis by blast
next
  case (X_reload devs f)
  obtain ok w' k' where k: "rs2_config_reload (re_io e) devs f (rx_world (rr_st r), rx_cap (rr_st r)) = (ok, w', k')"
    by (metis prod.exhaust)
  with reload_result [OF k] assms(1,2) X_reload show ?thesis by (auto simp: rr_pair_def intro!: quiet_pair)
next
  case (X_reload_fast f)
  then obtain ok w' k' where k: "rs2_config_reload_fast (re_io e) f (rx_world (rr_st r), rx_cap (rr_st r)) = Inr (ok, w', k')"
    and r': "r' = set_pair (w', k') r" using assms(1) by (auto simp: rr_pair_def map_sum_Inr)
  with reload_fast_result [OF k] assms(2) show ?thesis by (auto intro!: quiet_pair)
next
  case (X_config_get d)
  then obtain t w' k' where k: "rs2_config_get (re_dump e) d (rx_world (rr_st r), rx_cap (rr_st r)) = Inr (t, w', k')"
    and r': "r' = set_pair (w', k') r" using assms(1) by (auto simp: rr_pair_def map_sum_Inr)
  with config_get_result [OF k] assms(2) show ?thesis by (auto intro!: quiet_pair)
next
  case X_stop_join
  then obtain w' k' where k: "rs2_stop_joined (re_dump e) (re_bytes e) (rx_world (rr_st r), rx_cap (rr_st r)) = Inr (w', k')"
    and r': "r' = set_pair (w', k') r" and c: "rk_control (rx_cap (rr_st r)) = None \<or> rk_control (rx_cap (rr_st r)) = Some Rt_done"
    using assms(1) by (auto simp: rr_pair_def map_sum_Inr)
  from rs2_stop_joined_result [OF k] c r' show ?thesis
    by (auto simp: quiet_def cameras_ok_def Let_def rt_carried_def rt_merging_def)
next
  case X_stop_notify
  with assms(1,2) show ?thesis
    by (auto simp: rs2_stop_notify_def quiet_def Let_def cameras_ok_def rt_carried_def rt_merging_def rs2_notify_want_new_def
        split: if_splits)
next
  case X_request
  with assms(1,2) show ?thesis
    by (auto simp: rs2_request_new_pointcloud_def quiet_def Let_def cameras_ok_def rt_carried_def rt_merging_def
        rs2_notify_want_new_def split: if_splits)
qed (use assms in \<open>auto simp: moves_clouds_def rs2_stop_begin_def rs2_stop_cameras_def rs2_stop_flags_def rs2_request_metadata_def
      on_unit_def quiet_def cameras_ok_def Let_def rt_carried_def rt_merging_def split: if_splits\<close>)

lemma own_quiet: "quiet r r' \<Longrightarrow> own_ok r \<Longrightarrow> own_ok r'"
  by (simp add: quiet_def own_ok_def Let_def)

lemma held_places:
  "\<not> rs2_mutex_held k \<Longrightarrow> \<not> rt_merging k"
  by (auto simp: rs2_mutex_held_def rt_merging_def split: option.splits rs2_at.splits)

lemma own_exec:
  assumes "rs2_exec e a r = Some (Inr r')" and "own_ok r" "cameras_ok r"
  shows "own_ok r' \<and> cameras_ok r'"
proof (cases a rule: action_cases)
  case (X_control ev)
  then obtain st' where st: "rs2_control_step e ev (rr_st r) = Some (Inr st')"
    "r' = r\<lparr>rr_st := st', rr_rounds := rr_rounds r + (if publishes (rx_cap (rr_st r)) then 1 else 0)\<rparr>"
    using assms(1) by (auto simp: map_sum_Inr)
  obtain f where "effect f (rr_st r) st'" using control_effect [OF st(1)] by blast
  with assms(2) have "own_ok r'" by (simp add: own_ok_def st(2) own_effect)
  moreover have "rk_control (rx_cap st') \<noteq> None" using control_goes_on [OF st(1)] .
  ultimately show ?thesis by (auto simp: st(2) cameras_ok_def)
next
  case X_take
  then obtain rv where t: "rs2_get_take (rx_cap (rr_st r)) = Some (rv, (rx_cap (rr_st r))\<lparr>rk_fresh := False\<rparr>)"
    "r' = set_cap ((rx_cap (rr_st r))\<lparr>rk_fresh := False\<rparr>) (r\<lparr>rr_fetched := rr_fetched r @ taken rv r\<rparr>)"
    "rv = rk_mergedPC (rx_cap (rr_st r))" "\<not> rs2_mutex_held (rx_cap (rr_st r))"
    using assms(1) by (auto simp: rs2_get_take_def split: if_splits)
  have calm: "\<not> rt_merging (rx_cap (rr_st r))" using t(4) by (rule held_places)
  show ?thesis
  proof (cases "rk_mergedPC (rx_cap (rr_st r))")
    case None
    with assms(2,3) t(2,3) show ?thesis by (simp add: own_ok_def taken_def cameras_ok_def)
  next
    case (Some b)
    have "owned (rx_heap (rr_st r)) (rx_next (rr_st r)) (Some b) (rt_carried (rx_cap (rr_st r))) False
        (insert b (fst ` set (rr_fetched r))) (set (rr_returned r))"
      using assms(2) calm Some by (intro owned_take) (simp add: own_ok_def)
    with assms(3) t(2,3) Some calm show ?thesis by (simp add: own_ok_def taken_def cameras_ok_def)
  qed
next
  case (X_give_back n)
  then obtain st where st: "free_at n (rr_st r) = Inr st" "r' = r\<lparr>rr_st := st, rr_returned := n # rr_returned r\<rparr>"
    "n \<in> fst ` set (rr_fetched r)"
    using assms(1) by (auto simp: map_sum_Inr)
  then show ?thesis
    using assms(2,3) owned_give_back [OF _ st(3)]
    by (auto simp: own_ok_def free_at_def cameras_ok_def split: option.splits)
next
  case other
  then show ?thesis using quiet_exec [OF assms(1,3)] own_quiet assms(2) by blast
qed

section \<open>The clouds a client has fetched\<close>

definition stops :: "rs2_action \<Rightarrow> bool" where
  "stops a \<longleftrightarrow> a \<in> {X_stop_begin, X_stop_cameras, X_stop_flags, X_stop_notify, X_stop_join}"

definition intact :: "(nat \<times> cwipc_obj option) list \<Rightarrow> nat list \<Rightarrow> (nat \<Rightarrow> cwipc_obj option) \<Rightarrow> bool" where
  "intact F R h \<longleftrightarrow> (\<forall>(a, ob) \<in> set F. a \<notin> set R \<longrightarrow> ob \<noteq> None \<and> h a = ob)"

lemma intact_update: "intact F R h \<Longrightarrow> b \<notin> fst ` set F \<Longrightarrow> intact F R (h(b := x))"
  by (force simp: intact_def)

lemma intact_give_back: "intact F R h \<Longrightarrow> intact F (n # R) (h(n := None))"
  by (auto simp: intact_def)

lemma intact_take: "intact F R h \<Longrightarrow> h b \<noteq> None \<Longrightarrow> intact (F @ [(b, h b)]) R h"
  by (auto simp: intact_def)

definition kept :: "rs2_run \<Rightarrow> bool" where
  "kept r \<longleftrightarrow>
     (let k = rx_cap (rr_st r); F = fst ` set (rr_fetched r) in
      distinct (map fst (rr_fetched r)) \<and>
      intact (rr_fetched r) (rr_returned r) (rx_heap (rr_st r)) \<and>
      (rk_fresh k \<longrightarrow> (\<forall>a. rk_mergedPC k = Some a \<longrightarrow> a \<notin> F)) \<and>
      (rk_control k = None \<longrightarrow> rk_mergedPC k = None))"

lemma calm_exec:
  assumes "rs2_exec e a r = Some (Inr r')" and "cameras_ok r" "\<not> moves_clouds a" "\<not> stops a"
  shows "rk_control (rx_cap (rr_st r)) = None \<or>
    rk_fresh (rx_cap (rr_st r')) = rk_fresh (rx_cap (rr_st r)) \<and> rk_control (rx_cap (rr_st r')) \<noteq> None"
proof (cases "rk_control (rx_cap (rr_st r)) = None")
  case False
  have "rk_fresh (rx_cap (rr_st r')) = rk_fresh (rx_cap (rr_st r)) \<and> rk_control (rx_cap (rr_st r')) \<noteq> None"
  proof (cases a)
    case (X_start devs unset outcome)
    obtain ok w' k' where s: "rs2_start (re_dump e) (re_bytes e) devs unset outcome (rx_world (rr_st r), rx_cap (rr_st r)) = Inr (ok, w', k')"
      and r': "r' = set_pair (w', k') r"
      using assms(1) X_start by (auto simp: map_sum_Inr rr_pair_def)
    have "k' = rx_cap (rr_st r)"
      using s False by (auto simp: rs2_start_def rs2_is_playing_def split: if_splits)
    then show ?thesis using False by (simp add: r')
  next
    case (X_reload devs f)
    with assms(1) False show ?thesis by (auto simp: rs2_config_reload_def rr_pair_def)
  next
    case (X_reload_fast f)
    then obtain ok w' k' where k: "rs2_config_reload_fast (re_io e) f (rx_world (rr_st r), rx_cap (rr_st r)) = Inr (ok, w', k')"
      and r': "r' = set_pair (w', k') r" using assms(1) by (auto simp: rr_pair_def map_sum_Inr)
    with reload_fast_result [OF k] False show ?thesis by auto
  next
    case (X_config_get d)
    then obtain t w' k' where k: "rs2_config_get (re_dump e) d (rx_world (rr_st r), rx_cap (rr_st r)) = Inr (t, w', k')"
      and r': "r' = set_pair (w', k') r" using assms(1) by (auto simp: rr_pair_def map_sum_Inr)
    with config_get_result [OF k] False show ?thesis by auto
  next
    case X_request
    with assms(1) False show ?thesis
      by (auto simp: rs2_request_new_pointcloud_def rs2_notify_want_new_def split: if_splits)
  qed (use assms False in \<open>auto simp: moves_clouds_def stops_def rs2_request_metadata_def on_unit_def split: if_splits\<close>)
  then show ?thesis by blast
qed simp

lemma kept_control:
  assumes "effect f (rr_st r) st'" and "own_ok r" "kept r" "rk_control (rx_cap st') \<noteq> None"
  shows "kept (r\<lparr>rr_st := st', rr_rounds := n\<rparr>)"
proof -
  note o = assms(2) [unfolded own_ok_def owned_def]
  have next_new: "rx_next (rr_st r) \<notin> fst ` set (rr_fetched r)" using o by blast
  have keep: "kept (r\<lparr>rr_st := st', rr_rounds := n\<rparr>)"
    if "intact (rr_fetched r) (rr_returned r) (rx_heap st')"
      and "\<And>a. rk_fresh (rx_cap st') \<Longrightarrow> rk_mergedPC (rx_cap st') = Some a \<Longrightarrow> a \<notin> fst ` set (rr_fetched r)"
    using assms(3,4) that by (simp add: kept_def Let_def) auto
  note old = assms(3) [unfolded kept_def Let_def]
  show ?thesis
  proof (cases f)
    case Keeps
    with assms(1) old show ?thesis by (intro keep) (simp_all add: effect_def Let_def)
  next
    case Creates
    with assms(1) old next_new show ?thesis
      by (intro keep) (auto simp: effect_def Let_def intro!: intact_update)
  next
    case Drops
    then obtain a where a: "rt_carried (rx_cap (rr_st r)) = Some a" "rx_heap st' = (rx_heap (rr_st r))(a := None)"
      "rk_fresh (rx_cap st') = rk_fresh (rx_cap (rr_st r))" "rk_mergedPC (rx_cap st') = rk_mergedPC (rx_cap (rr_st r))"
      using assms(1) by (auto simp: effect_def Let_def)
    then have "a \<notin> fst ` set (rr_fetched r)" using o by blast
    with a old show ?thesis by (intro keep) (simp_all add: intact_update)
  next
    case (Publishes b)
    then obtain a where a: "rt_carried (rx_cap (rr_st r)) = Some a" "rk_mergedPC (rx_cap st') = Some a"
      using assms(1) by (auto simp: effect_def Let_def)
    then have "a \<notin> fst ` set (rr_fetched r)" using o by blast
    moreover have "intact (rr_fetched r) (rr_returned r) (rx_heap st')"
      using assms(1) old Publishes by (cases b) (auto simp: effect_def Let_def intro!: intact_update)
    ultimately show ?thesis using a by (intro keep) simp_all
  next
    case Merges
    then obtain a pc where a: "rk_mergedPC (rx_cap (rr_st r)) = Some a" "rx_heap st' = (rx_heap (rr_st r))(a \<mapsto> pc)"
      and m: "rt_merging (rx_cap (rr_st r))" "rk_mergedPC (rx_cap st') = Some a"
      using assms(1) by (auto simp: effect_def Let_def)
    then have "a \<notin> fst ` set (rr_fetched r)" using o by auto
    with a m old show ?thesis by (intro keep) (simp_all add: intact_update)
  qed
qed

lemma kept_exec:
  assumes "rs2_exec e a r = Some (Inr r')" and "own_ok r" "cameras_ok r" "kept r" "\<not> stops a"
  shows "kept r'"
proof (cases a rule: action_cases)
  case (X_control ev)
  then obtain st' where st: "rs2_control_step e ev (rr_st r) = Some (Inr st')"
    "r' = r\<lparr>rr_st := st', rr_rounds := rr_rounds r + (if publishes (rx_cap (rr_st r)) then 1 else 0)\<rparr>"
    using assms(1) by (auto simp: map_sum_Inr)
  obtain f where "effect f (rr_st r) st'" using control_effect [OF st(1)] by blast
  from kept_control [OF this assms(2,4) control_goes_on [OF st(1)]] st(2) show ?thesis by simp
next
  case X_take
  then have t: "rk_fresh (rx_cap (rr_st r))" "rk_control (rx_cap (rr_st r)) \<noteq> None"
    "r' = set_cap ((rx_cap (rr_st r))\<lparr>rk_fresh := False\<rparr>) (r\<lparr>rr_fetched := rr_fetched r @ taken (rk_mergedPC (rx_cap (rr_st r))) r\<rparr>)"
    using assms(1) by (auto simp: rs2_get_take_def rs2_is_playing_def split: if_splits)
  show ?thesis
  proof (cases "rk_mergedPC (rx_cap (rr_st r))")
    case None
    with t assms(4) show ?thesis by (simp add: kept_def taken_def Let_def)
  next
    case (Some b)
    have b: "b \<notin> fst ` set (rr_fetched r)" using assms(4) t(1) Some by (simp add: kept_def Let_def)
    moreover have "rx_heap (rr_st r) b \<noteq> None"
      using assms(2) b Some by (auto simp: own_ok_def owned_def)
    ultimately show ?thesis using t assms(4) Some by (simp add: kept_def taken_def Let_def intact_take)
  qed
next
  case (X_give_back n)
  then obtain st where st: "free_at n (rr_st r) = Inr st" "r' = r\<lparr>rr_st := st, rr_returned := n # rr_returned r\<rparr>"
    using assms(1) by (auto simp: map_sum_Inr)
  then obtain pc where "r' = r\<lparr>rr_st := (rr_st r)\<lparr>rx_world := free_pc pc (rx_world (rr_st r)), rx_heap := (rx_heap (rr_st r))(n := None)\<rparr>,
      rr_returned := n # rr_returned r\<rparr>"
    by (auto simp: free_at_def split: option.splits)
  then show ?thesis using assms(4) by (simp add: kept_def Let_def intact_give_back)
next
  case other
  have q: "quiet r r'" using quiet_exec [OF assms(1,3) other] by blast
  from calm_exec [OF assms(1,3) other assms(5)] q assms(4) show ?thesis
    by (auto simp: kept_def quiet_def Let_def)
qed

lemma run_owned:
  assumes "rs2_run_actions e as r = Some (Inr r')" and "own_ok r" "cameras_ok r"
  shows "own_ok r' \<and> cameras_ok r' \<and> (kept r \<longrightarrow> list_all (\<lambda>a. \<not> stops a) as \<longrightarrow> kept r')"
  using assms
proof (induction "as" arbitrary: r)
  case (Cons a as)
  then obtain r1 where r1: "rs2_exec e a r = Some (Inr r1)" "rs2_run_actions e as r1 = Some (Inr r')"
    by (auto split: option.splits sum.splits)
  with Cons own_exec [OF r1(1)] kept_exec [OF r1(1)] show ?case by fastforce
qed simp

lemma init_owned: "own_ok (rr_init w)" "cameras_ok (rr_init w)" "kept (rr_init w)"
  by (simp_all add: own_ok_def owned_def cameras_ok_def kept_def intact_def rr_init_def new_rs2_capture_def rt_carried_def rt_merging_def)

text \<open>Nothing a round or a client does uses a cloud that has been freed, as long as nobody stops the capturer.\<close>

lemma capture_turn_fault: "capture_turn r cam = Inl f \<Longrightarrow> f = Uncaught_exception"
  by (auto simp: capture_turn_def Let_def split: if_splits option.splits)

lemma capture_loop_fault: "capture_loop m r cam = Inl f \<Longrightarrow> f = Uncaught_exception"
proof (induction m r cam rule: capture_loop.induct)
  case (1 m r cam)
  show ?case
  proof (cases "capture_turn r cam")
    case (Inl g)
    with "1.prems" capture_turn_fault [OF Inl] show ?thesis by (subst (asm) capture_loop.simps) simp
  next
    case (Inr x)
    obtain b ts cam1 where x: "x = (b, ts, cam1)" by (metis prod.exhaust)
    with "1.prems" Inr have go: "\<not> (b \<or> \<not> ts < m)" "capture_loop m ts cam1 = Inl f"
      by (subst (asm) capture_loop.simps; auto split: if_splits)+
    from "1.IH" [OF Inr x [symmetric] refl go(1) go(2)] show ?thesis .
  qed
qed

lemma capture_fault:
  "rs2_capture_cameras cams first = Inl f \<Longrightarrow> f = Uncaught_exception"
  by (induction cams arbitrary: first)
    (auto simp: rs2_wait_for_captured_frameset_def split: sum.splits if_splits option.splits dest: capture_loop_fault)

lemma no_use_after_free:
  assumes "own_ok r" and "kept r"
  shows "rs2_exec e (X_control ev) r \<noteq> Some (Inl Use_after_free)" "rs2_exec e (X_give_back n) r \<noteq> Some (Inl Use_after_free)"
proof -
  note o = assms(1) [unfolded own_ok_def owned_def]
  define st where "st = rr_st r"
  have free: "free_at a st = Inl f \<Longrightarrow> rx_heap st a = None" for a f
    by (auto simp: free_at_def split: option.splits)
  have carried: "rx_heap st a \<noteq> None" if "rt_carried (rx_cap st) = Some a" for a
    using o that by (simp add: st_def)
  have fresh: "rx_heap st b \<noteq> None" if "rk_mergedPC (rx_cap st) = Some b" "rk_fresh (rx_cap st)" for b
  proof -
    have "b \<notin> fst ` set (rr_fetched r)" using assms(2) that by (simp add: kept_def st_def Let_def)
    then show ?thesis using o that(1) by (auto simp: st_def)
  qed
  have "rs2_control_step e ev st \<noteq> Some (Inl Use_after_free)"
  proof
    assume a: "rs2_control_step e ev st = Some (Inl Use_after_free)"
    then obtain at where c: "rk_control (rx_cap st) = Some at"
      by (auto simp: rs2_control_step_def Let_def split: option.splits)
    note step = a [unfolded rs2_control_step_def Let_def c option.case]
    have "capture_round t st \<noteq> Inl Use_after_free" for t
      by (auto simp: capture_round_def rs2_capture_all_cameras_def Let_def split: sum.splits dest: capture_fault)
    moreover have "save_all_metadata e w us items \<noteq> Inl Use_after_free" for w us items
      by (induction us arbitrary: items)
        (auto simp: rs2_save_frameset_metadata_def Let_def split: sum.splits option.splits if_splits)
    then have "rs2_create_pc e ts s \<noteq> Inl Use_after_free" for ts s
      by (auto simp: rs2_create_pc_def split: prod.splits option.splits sum.splits)
    moreover have "rs2_merge st \<noteq> Inl Use_after_free" if "at = Rt_merge"
      using o that c by (auto simp: rs2_merge_def Let_def st_def at_place split: option.splits)
    moreover have "drop_cloud b st \<noteq> Inl Use_after_free" if "at = Rt_new b \<or> at = Rt_queued b" for b
      using carried [of b] that c by (auto simp: drop_cloud_def map_sum_Inl at_place dest: free)
    moreover have "rs2_publish b st \<noteq> Inl Use_after_free" for b
      using fresh by (auto simp: rs2_publish_def map_sum_Inl Let_def split: option.splits if_splits dest!: free)
    ultimately show False
      using step by (cases at; cases ev) (auto split: if_splits sum.splits)
  qed
  then show "rs2_exec e (X_control ev) r \<noteq> Some (Inl Use_after_free)" by (auto simp: st_def map_sum_Inl)
  show "rs2_exec e (X_give_back n) r \<noteq> Some (Inl Use_after_free)"
  proof
    assume "rs2_exec e (X_give_back n) r = Some (Inl Use_after_free)"
    then have n: "n \<in> fst ` set (rr_fetched r)" "n \<notin> set (rr_returned r)" and "free_at n st = Inl Use_after_free"
      by (simp_all add: map_sum_Inl st_def)
    from free [OF this(3)] n show False
      using assms(2) by (fastforce simp: kept_def intact_def st_def Let_def)
  qed
qed

text \<open>
  C11. A cloud fetched from a RealSense capturer is the client's, as long as the capturer is not
  stopped: in every execution without a stop, however the threads interleave, no cloud is handed out
  twice, every cloud the client has fetched and not freed is still there with the content it was
  fetched with, and neither the control thread nor a client that frees what it has fetched ever uses
  a cloud that has been freed, although the capturer keeps the pointers.
\<close>

theorem rs2_fetched_clouds_kept:
  assumes "rs2_run_actions e as (rr_init w) = Some (Inr r)" and "list_all (\<lambda>a. \<not> stops a) as"
  shows "distinct (map fst (rr_fetched r)) \<and>
    (\<forall>(a, ob) \<in> set (rr_fetched r). a \<notin> set (rr_returned r) \<longrightarrow> ob \<noteq> None \<and> rx_heap (rr_st r) a = ob) \<and>
    (\<forall>ev. rs2_exec e (X_control ev) r \<noteq> Some (Inl Use_after_free)) \<and>
    (\<forall>n. rs2_exec e (X_give_back n) r \<noteq> Some (Inl Use_after_free))"
proof -
  have "own_ok r" "kept r" using run_owned [OF assms(1) init_owned(1,2)] init_owned(3) assms(2) by blast+
  with no_use_after_free [OF this] show ?thesis by (simp add: kept_def intact_def Let_def)
qed

section \<open>Destroying the capturer\<close>

lemma merged_stays:
  assumes "rs2_exec e a r = Some (Inr r')" and "cameras_ok r"
  shows "rr_rounds r' = rr_rounds r \<and> rk_mergedPC (rx_cap (rr_st r')) = rk_mergedPC (rx_cap (rr_st r)) \<or>
    rr_rounds r < rr_rounds r'"
proof (cases a rule: action_cases)
  case (X_control ev)
  then obtain st' where st: "rs2_control_step e ev (rr_st r) = Some (Inr st')"
    "r' = r\<lparr>rr_st := st', rr_rounds := rr_rounds r + (if publishes (rx_cap (rr_st r)) then 1 else 0)\<rparr>"
    using assms(1) by (auto simp: map_sum_Inr)
  obtain f where f: "effect f (rr_st r) st'" "publishes (rx_cap (rr_st r)) \<longleftrightarrow> (\<exists>old. f = Publishes old)"
    using control_effect [OF st(1)] by blast
  then show ?thesis using st(2) by (cases f) (simp_all add: effect_def Let_def)
next
  case X_take
  with assms(1) show ?thesis by (auto simp: rs2_get_take_def split: if_splits)
next
  case (X_give_back n)
  with assms(1) show ?thesis by (auto simp: map_sum_Inr free_at_def split: option.splits)
next
  case other
  with quiet_exec [OF assms other] show ?thesis by (simp add: quiet_def Let_def)
qed

lemma merged_stays_run:
  assumes "rs2_run_actions e as r = Some (Inr r')" and "own_ok r" "cameras_ok r"
  shows "rr_rounds r' = rr_rounds r \<and> rk_mergedPC (rx_cap (rr_st r')) = rk_mergedPC (rx_cap (rr_st r)) \<or>
    rr_rounds r < rr_rounds r'"
  using assms
proof (induction "as" arbitrary: r)
  case (Cons a as)
  then obtain r1 where r1: "rs2_exec e a r = Some (Inr r1)" "rs2_run_actions e as r1 = Some (Inr r')"
    by (auto split: option.splits sum.splits)
  from own_exec [OF r1(1) Cons.prems(2,3)] Cons.IH [OF r1(2)] merged_stays [OF r1(1) Cons.prems(3)]
  show ?case by auto
qed simp

text \<open>
  C35. The cloud a client fetched last from a RealSense capturer is not the client's. Take any
  execution in which the client fetches a cloud, and anything that may follow without another cloud
  being published, a stop or the end of the recording for instance: when the capturer is destroyed
  then, the cloud is freed under the client, or freed a second time if the client has freed it.
\<close>

theorem rs2_destructor_frees_fetched_cloud:
  assumes "rs2_run_actions e as (rr_init w) = Some (Inr r)" and "rs2_exec e X_take r = Some (Inr r1)"
    and "rk_mergedPC (rx_cap (rr_st r)) = Some a"
    and "rs2_run_actions e bs r1 = Some (Inr r2)" and "rr_rounds r2 = rr_rounds r1"
  shows "if a \<in> set (rr_returned r2) then rs2_destroy_capture (rr_st r2) = Inl Use_after_free
    else \<exists>st. rs2_destroy_capture (rr_st r2) = Inr st \<and> rx_heap (rr_st r2) a \<noteq> None \<and> rx_heap st a = None"
proof -
  have r: "own_ok r" "cameras_ok r" using run_owned [OF assms(1) init_owned(1,2)] by blast+
  then have r1: "own_ok r1" "cameras_ok r1" using own_exec [OF assms(2)] by blast+
  have "rr_rounds r1 = rr_rounds r \<and> rk_mergedPC (rx_cap (rr_st r1)) = Some a"
    using assms(2,3) by (auto simp: rs2_get_take_def split: if_splits)
  then have m: "rk_mergedPC (rx_cap (rr_st r2)) = Some a"
    using merged_stays_run [OF assms(4) r1] assms(5) by simp
  have "own_ok r2" using run_owned [OF assms(4) r1] by blast
  then have "(a \<in> set (rr_returned r2) \<longrightarrow> rx_heap (rr_st r2) a = None) \<and> (a \<notin> set (rr_returned r2) \<longrightarrow> rx_heap (rr_st r2) a \<noteq> None)"
    using m by (auto simp: own_ok_def owned_def)
  with m show ?thesis by (auto simp: rs2_destroy_capture_def free_at_def)
qed

end
