(* ===== verification/RealSenseImages.thy ===== *)
theory RealSenseImages
  imports KinectImages RS2Config
begin

text \<open>
  \<open>cwipc_realsense2/src/RS2BaseCamera.cpp\<close>, first part: the erosion of a depth image, the order of the
  filters of a frame, and the loop that makes and filters the points. The vertices and the texture
  coordinates are what \<open>rs2::pointcloud\<close> calculates; the filters are those of librealsense.
\<close>

section \<open>Erosion\<close>

text \<open>
  \<open>_erode_depth\<close>. \<open>zs\<close> is the copy of the image the zeros are looked for in, \<open>ds\<close> the image itself.
\<close>

definition erode_row :: "nat \<Rightarrow> int \<Rightarrow> nat \<Rightarrow> nat \<Rightarrow> u16 list \<Rightarrow> u16 list" where
  "erode_row width x_delta x y ds =
     fold (\<lambda>ix ds. if ix < 0 \<or> int width \<le> ix then ds else ds[nat ix + y * width := 0])
       [int x - x_delta..int x + x_delta] ds"

definition erode_column :: "nat \<Rightarrow> nat \<Rightarrow> int \<Rightarrow> nat \<Rightarrow> nat \<Rightarrow> u16 list \<Rightarrow> u16 list" where
  "erode_column width height y_delta x y ds =
     fold (\<lambda>iy ds. if iy < 0 \<or> int height \<le> iy then ds else ds[x + nat iy * width := 0])
       [int y - y_delta..int y + y_delta] ds"

definition erode_depth :: "nat \<Rightarrow> nat \<Rightarrow> int \<Rightarrow> int \<Rightarrow> u16 list \<Rightarrow> u16 list" where
  "erode_depth width height x_delta y_delta zs =
     fold (\<lambda>(x, y) ds. if zs ! (x + y * width) \<noteq> 0 then ds
                       else erode_column width height y_delta x y (erode_row width x_delta x y ds))
       [(x, y). x \<leftarrow> [0..<width], y \<leftarrow> [0..<height]] zs"

text \<open>All of it clears pixels, so what counts is which indices are cleared.\<close>

definition clear_all :: "nat list \<Rightarrow> u16 list \<Rightarrow> u16 list" where
  "clear_all is ds = fold (\<lambda>i ds. ds[i := 0]) is ds"

lemma clear_all_simps [simp]:
  "clear_all [] ds = ds" "clear_all (i # is) ds = clear_all is (ds[i := 0])"
  "length (clear_all is ds) = length ds"
  "clear_all js (clear_all is ds) = clear_all (is @ js) ds"
  by (simp_all add: clear_all_def, induction "is" arbitrary: ds) simp_all

lemma clear_all_nth:
  "j < length ds \<Longrightarrow> clear_all is ds ! j = (if j \<in> set is then 0 else ds ! j)"
  by (induction "is" arbitrary: ds) (auto simp: nth_list_update)

definition row_indices :: "nat \<Rightarrow> int \<Rightarrow> nat \<Rightarrow> nat \<Rightarrow> nat list" where
  "row_indices width x_delta x y =
     [nat ix + y * width. ix \<leftarrow> [int x - x_delta..int x + x_delta], 0 \<le> ix \<and> ix < int width]"

definition column_indices :: "nat \<Rightarrow> nat \<Rightarrow> int \<Rightarrow> nat \<Rightarrow> nat \<Rightarrow> nat list" where
  "column_indices width height y_delta x y =
     [x + nat iy * width. iy \<leftarrow> [int y - y_delta..int y + y_delta], 0 \<le> iy \<and> iy < int height]"

lemma fold_clears:
  "fold (\<lambda>i ds. if p i then ds else ds[f i := 0]) is ds = clear_all [f i. i \<leftarrow> is, \<not> p i] ds"
  by (induction "is" arbitrary: ds) simp_all

lemma erode_row_clears: "erode_row width x_delta x y ds = clear_all (row_indices width x_delta x y) ds"
  by (simp add: erode_row_def row_indices_def fold_clears not_less not_le)

lemma erode_column_clears:
  "erode_column width height y_delta x y ds = clear_all (column_indices width height y_delta x y) ds"
  by (simp add: erode_column_def column_indices_def fold_clears not_less not_le)

lemma fold_clear_blocks:
  "fold (\<lambda>p ds. if q p then ds else clear_all (g p) ds) ps ds = clear_all (concat [g p. p \<leftarrow> ps, \<not> q p]) ds"
  by (induction ps arbitrary: ds) simp_all

lemma erode_depth_clears:
  "erode_depth width height x_delta y_delta zs =
     clear_all (concat [row_indices width x_delta x y @ column_indices width height y_delta x y.
       (x, y) \<leftarrow> [(x, y). x \<leftarrow> [0..<width], y \<leftarrow> [0..<height]], \<not> zs ! (x + y * width) \<noteq> 0]) zs"
  unfolding erode_depth_def erode_row_clears erode_column_clears clear_all_simps
  using fold_clear_blocks [of "\<lambda>p. zs ! (fst p + snd p * width) \<noteq> 0"
      "\<lambda>p. row_indices width x_delta (fst p) (snd p) @ column_indices width height y_delta (fst p) (snd p)"]
  by (simp add: split_def)

lemma pixel_index_inj:
  fixes x x' y y' width :: nat
  assumes "x < width" and "x' < width"
  shows "x + y * width = x' + y' * width \<longleftrightarrow> x = x' \<and> y = y'"
proof
  assume e: "x + y * width = x' + y' * width"
  have "(x + y * width) div width = y" "(x' + y' * width) div width = y'"
    "(x + y * width) mod width = x" "(x' + y' * width) mod width = x'"
    using assms by simp_all
  with e show "x = x' \<and> y = y'" by metis
qed simp

lemma row_indices_set:
  assumes "x < width" and "a < width"
  shows "x + y * width \<in> set (row_indices width x_delta a b) \<longleftrightarrow> b = y \<and> \<bar>int x - int a\<bar> \<le> x_delta"
proof
  assume "x + y * width \<in> set (row_indices width x_delta a b)"
  then obtain ix where "x + y * width = nat ix + b * width" "0 \<le> ix" "ix < int width"
    "int a - x_delta \<le> ix" "ix \<le> int a + x_delta"
    by (auto simp: row_indices_def)
  with pixel_index_inj [OF assms(1), of "nat ix" y b] show "b = y \<and> \<bar>int x - int a\<bar> \<le> x_delta" by auto
next
  assume "b = y \<and> \<bar>int x - int a\<bar> \<le> x_delta"
  with assms show "x + y * width \<in> set (row_indices width x_delta a b)"
    by (auto simp: row_indices_def intro!: bexI [of _ "int x"])
qed

lemma column_indices_set:
  assumes "x < width" and "a < width" and "y < height"
  shows "x + y * width \<in> set (column_indices width height y_delta a b) \<longleftrightarrow> a = x \<and> \<bar>int y - int b\<bar> \<le> y_delta"
proof
  assume "x + y * width \<in> set (column_indices width height y_delta a b)"
  moreover have "\<exists>iy. j = a + nat iy * width \<and> 0 \<le> iy \<and> iy < int height \<and> int b - y_delta \<le> iy \<and> iy \<le> int b + y_delta"
    if "j \<in> set (column_indices width height y_delta a b)" for j
    using that by (force simp: column_indices_def)
  ultimately obtain iy where "x + y * width = a + nat iy * width" "0 \<le> iy" "iy < int height"
    "int b - y_delta \<le> iy" "iy \<le> int b + y_delta"
    by blast
  with pixel_index_inj [OF assms(1,2), of y "nat iy"] show "a = x \<and> \<bar>int y - int b\<bar> \<le> y_delta" by auto
next
  assume "a = x \<and> \<bar>int y - int b\<bar> \<le> y_delta"
  with assms show "x + y * width \<in> set (column_indices width height y_delta a b)"
    by (auto simp: column_indices_def intro!: bexI [of _ "int y"])
qed

text \<open>
  C18. The nested loops of \<open>_erode_depth\<close>, which clear pixels of the image while they scan a copy of
  it, compute exactly this: a pixel keeps its depth unless the original image has no depth at a pixel
  of the same row at most \<open>x_delta\<close> away, or of the same column at most \<open>y_delta\<close> away. Pixels cleared
  by the erosion itself do not spread, and nothing outside the image is touched.
\<close>

theorem realsense_erosion_is_cross:
  assumes "length zs = width * height" and "x < width" and "y < height"
  shows "length (erode_depth width height x_delta y_delta zs) = width * height \<and>
    erode_depth width height x_delta y_delta zs ! (x + y * width) =
      (if (\<exists>a < width. \<bar>int x - int a\<bar> \<le> x_delta \<and> zs ! (a + y * width) = 0) \<or>
          (\<exists>b < height. \<bar>int y - int b\<bar> \<le> y_delta \<and> zs ! (x + b * width) = 0)
       then 0 else zs ! (x + y * width))"
proof -
  have "x + y * width < width + (height - 1) * width"
    using assms(2,3) by (intro add_less_le_mono mult_le_mono1) simp_all
  also have "\<dots> = width * height" using assms(3) by (cases height) simp_all
  finally have j: "x + y * width < length zs" using assms(1) by simp
  have "x + y * width \<in> set (concat [row_indices width x_delta a b @ column_indices width height y_delta a b.
       (a, b) \<leftarrow> [(a, b). a \<leftarrow> [0..<width], b \<leftarrow> [0..<height]], \<not> zs ! (a + b * width) \<noteq> 0]) \<longleftrightarrow>
     (\<exists>a < width. \<exists>b < height. zs ! (a + b * width) = 0 \<and>
        (b = y \<and> \<bar>int x - int a\<bar> \<le> x_delta \<or> a = x \<and> \<bar>int y - int b\<bar> \<le> y_delta))"
    using row_indices_set [OF assms(2)] column_indices_set [OF assms(2) _ assms(3)] by fastforce
  then show ?thesis
    using assms by (auto simp: erode_depth_clears clear_all_nth [OF j])
qed

theorem realsense_erosion_is_cross_witness:
  "erode_depth 3 2 1 0 [5, 0, 7, 8, 9, 6] ! (2 + 0 * 3) = 0 \<and>
   erode_depth 3 2 1 0 [5, 0, 7, 8, 9, 6] ! (1 + 1 * 3) = 9"
proof -
  let ?zs = "[5, 0, 7, 8, 9, 6] :: u16 list"
  have "\<exists>a < 3. \<bar>int 2 - int a\<bar> \<le> 1 \<and> ?zs ! (a + 0 * 3) = 0" by (rule exI [of _ 1]) simp
  then have "erode_depth 3 2 1 0 ?zs ! (2 + 0 * 3) = 0"
    using realsense_erosion_is_cross [of ?zs 3 2 2 0 1 0] by simp
  moreover have "\<not> (\<exists>a < 3. \<bar>int 1 - int a\<bar> \<le> 1 \<and> ?zs ! (a + 1 * 3) = 0)"
  proof -
    have "a < 3 \<Longrightarrow> a = 0 \<or> a = 1 \<or> a = 2" for a :: nat by linarith
    then show ?thesis by fastforce
  qed
  moreover have "b = 1" if "\<bar>int 1 - int b\<bar> \<le> 0" for b using that by simp
  then have "\<not> (\<exists>b < 2. \<bar>int 1 - int b\<bar> \<le> 0 \<and> ?zs ! (1 + b * 3) = 0)" by fastforce
  ultimately have "erode_depth 3 2 1 0 ?zs ! (1 + 1 * 3) = 9" "erode_depth 3 2 1 0 ?zs ! (2 + 0 * 3) = 0"
    using realsense_erosion_is_cross [of ?zs 3 2 1 1 1 0] by simp_all
  then show ?thesis by simp
qed

section \<open>The filters of librealsense\<close>

datatype rs_filter =
    Rs_decimation | Rs_threshold | Rs_depth_to_disparity | Rs_spatial | Rs_temporal | Rs_hole_filling
  | Rs_disparity_to_depth | Rs_align_color_to_depth | Rs_align_depth_to_color

datatype rs_option =
    Rs_filter_magnitude | Rs_min_distance | Rs_max_distance | Rs_smooth_alpha | Rs_smooth_delta | Rs_holes_fill

text \<open>\<open>_init_filters\<close>: the options that are set. Every option is a \<open>float\<close>.\<close>

definition rs2_init_filters :: "rs2_filtering \<Rightarrow> (rs_filter \<times> rs_option \<times> f32) list" where
  "rs2_init_filters fl =
     (let int_f = (\<lambda>i. f32_of_int (sint i)) in
      (if rs_do_decimation fl then [(Rs_decimation, Rs_filter_magnitude, int_f (rs_decimation_magnitude fl))] else [])
      @ (if rs_do_threshold fl
         then [(Rs_threshold, Rs_min_distance, rs_threshold_min_distance fl),
               (Rs_threshold, Rs_max_distance, rs_threshold_max_distance fl)] else [])
      @ (if rs_do_spatial fl
         then [(Rs_spatial, Rs_filter_magnitude, int_f (rs_spatial_magnitude fl)),
               (Rs_spatial, Rs_smooth_alpha, rs_spatial_smooth_alpha fl),
               (Rs_spatial, Rs_smooth_delta, int_f (rs_spatial_smooth_delta fl)),
               (Rs_spatial, Rs_holes_fill, int_f (rs_spatial_holes_fill fl))] else [])
      @ (if rs_do_temporal fl
         then [(Rs_temporal, Rs_smooth_alpha, rs_temporal_smooth_alpha fl),
               (Rs_temporal, Rs_smooth_delta, int_f (rs_temporal_smooth_delta fl)),
               (Rs_temporal, Rs_holes_fill, int_f (rs_temporal_persistency fl))] else [])
      @ (if rs_do_hole_filling fl then [(Rs_hole_filling, Rs_holes_fill, int_f (rs_hole_filling_mode fl))] else []))"

text \<open>\<open>_apply_rs2_filters\<close>: the filters a frame goes through, in order.\<close>

definition rs2_filter_chain :: "rs2_filtering \<Rightarrow> rs_filter list" where
  "rs2_filter_chain fl =
     (let do_rs2_disparity = rs_do_spatial fl \<or> rs_do_temporal fl \<or> rs_do_hole_filling fl;
          do_rs2_depth = do_rs2_disparity \<or> rs_do_decimation fl \<or> rs_do_threshold fl
      in if \<not> do_rs2_depth then []
         else (if rs_do_decimation fl then [Rs_decimation] else [])
           @ (if rs_do_threshold fl then [Rs_threshold] else [])
           @ (if do_rs2_disparity
              then [Rs_depth_to_disparity]
                @ (if rs_do_spatial fl then [Rs_spatial] else [])
                @ (if rs_do_temporal fl then [Rs_temporal] else [])
                @ (if rs_do_hole_filling fl then [Rs_hole_filling] else [])
                @ [Rs_disparity_to_depth]
              else []))"

definition rs2_apply_filters :: "(rs_filter \<Rightarrow> 'f \<Rightarrow> 'f) \<Rightarrow> rs2_filtering \<Rightarrow> 'f \<Rightarrow> 'f" where
  "rs2_apply_filters process fl frameset =
     fold process
       (rs2_filter_chain fl
        @ (if rs_map_color_to_depth fl = 1 then [Rs_align_color_to_depth]
           else if rs_map_color_to_depth fl = 0 then [Rs_align_depth_to_color] else [])) frameset"

section \<open>The points of a frame\<close>

record rs2_view =
  rv_index :: nat
  rv_trafo :: "f64 list list option"
  rv_processing :: rs2_processing

record rs2_texture =
  tx_width :: nat
  tx_height :: nat
  tx_bytes_per_pixel :: nat
  tx_stride :: nat
  tx_data :: "u8 list"

text \<open>\<open>int(0.5 + u*texture_width)\<close>: a product of floats, a sum of doubles.\<close>

definition f64_one_half :: f64 where "f64_one_half = 0x3FE0000000000000"

definition int_of_double :: "f64 \<Rightarrow> fault + int" where
  "int_of_double x =
     (if f64_inf \<le> f64_mag x \<or> f64_trunc x < - (2 ^ 31) \<or> 2 ^ 31 \<le> f64_trunc x then Inl Bad_conversion
      else Inr (f64_trunc x))"

definition texture_position :: "f32 \<Rightarrow> nat \<Rightarrow> fault + int" where
  "texture_position u pixels = int_of_double (f64_add f64_one_half (f64_of_f32 (f32_mul u (f32_of_int (int pixels)))))"

definition rs2_transform_point_cam_to_world :: "rs2_view \<Rightarrow> pcl_point \<Rightarrow> fault + pcl_point" where
  "rs2_transform_point_cam_to_world cam pt =
     (case rv_trafo cam of
        None \<Rightarrow> Inl Null_deref
      | Some m \<Rightarrow>
          let p = (pcl_x pt, pcl_y pt, pcl_z pt)
          in Inr (pt\<lparr>pcl_x := trafo_row m 0 p, pcl_y := trafo_row m 1 p, pcl_z := trafo_row m 2 p\<rparr>))"

definition rs2_too_low_or_high :: "rs2_processing \<Rightarrow> pcl_point \<Rightarrow> bool" where
  "rs2_too_low_or_high pr pt =
     (let lo = f32_of_f64 (rs_height_min pr); hi = f32_of_f64 (rs_height_max pr)
      in f32_lt lo hi \<and> (f32_lt (pcl_y pt) lo \<or> f32_lt hi (pcl_y pt)))"

definition rs2_too_far :: "rs2_processing \<Rightarrow> pcl_point \<Rightarrow> bool" where
  "rs2_too_far pr pt = (f64_lt 0 (rs_radius_filter pr) \<and> \<not> isPointInRadius pt (f32_of_f64 (rs_radius_filter pr)))"

text \<open>The colour at a texture position; \<open>None\<close> near or beyond the border of the image.\<close>

definition rs2_texel :: "rs2_texture \<Rightarrow> f32 \<times> f32 \<Rightarrow> fault + (u8 \<times> u8 \<times> u8) option" where
  "rs2_texel tex uv =
     (case texture_position (fst uv) (tx_width tex) of
        Inl f \<Rightarrow> Inl f
      | Inr texture_x \<Rightarrow>
          (case texture_position (snd uv) (tx_height tex) of
             Inl f \<Rightarrow> Inl f
           | Inr texture_y \<Rightarrow>
               if texture_x \<le> 0 \<or> int (tx_width tex) - 1 \<le> texture_x then Inr None
               else if texture_y \<le> 0 \<or> int (tx_height tex) - 1 \<le> texture_y then Inr None
               else
                 let idx = nat texture_x * tx_bytes_per_pixel tex + nat texture_y * tx_stride tex in
                 if length (tx_data tex) \<le> idx + 2 then Inl Out_of_bounds
                 else Inr (Some (tx_data tex ! idx, tx_data tex ! (idx + 1), tx_data tex ! (idx + 2)))))"

text \<open>One vertex: \<open>None\<close> when it gives no point.\<close>

definition rs2_point :: "rs2_view \<Rightarrow> rs2_texture \<Rightarrow> f32 \<times> f32 \<times> f32 \<Rightarrow> f32 \<times> f32 \<Rightarrow> fault + pcl_point option" where
  "rs2_point cam tex vertex uv =
     (case vertex of (x, y, z) \<Rightarrow>
      if f32_eq z f32_zero then Inr None
      else
        case rs2_transform_point_cam_to_world cam (blank_point\<lparr>pcl_x := x, pcl_y := y, pcl_z := z\<rparr>) of
          Inl f \<Rightarrow> Inl f
        | Inr pt \<Rightarrow>
            if rs2_too_low_or_high (rv_processing cam) pt then Inr None
            else if rs2_too_far (rv_processing cam) pt then Inr None
            else case rs2_texel tex uv of
              Inl f \<Rightarrow> Inl f
            | Inr None \<Rightarrow> Inr None
            | Inr (Some (r, g, b)) \<Rightarrow>
                if r = 0 \<and> g = 0 \<and> b = 0 then Inr None
                else
                  let pt1 = pt\<lparr>pcl_r := r, pcl_g := g, pcl_b := b, pcl_a := camera_tile (rv_index cam)\<rparr> in
                  if \<not> rs_greenscreen_removal (rv_processing cam) then Inr (Some pt1)
                  else map_sum id (\<lambda>(ok, pt2). if ok then Some pt2 else None) (isNotGreen pt1))"

fun rs2_generate_point_cloud ::
  "rs2_view \<Rightarrow> rs2_texture \<Rightarrow> ((f32 \<times> f32 \<times> f32) \<times> (f32 \<times> f32)) list \<Rightarrow> fault + pcl_point list" where
  "rs2_generate_point_cloud cam tex [] = Inr []"
| "rs2_generate_point_cloud cam tex ((vertex, uv) # points) =
     (case rs2_point cam tex vertex uv of
        Inl f \<Rightarrow> Inl f
      | Inr p \<Rightarrow>
          (case rs2_generate_point_cloud cam tex points of
             Inl f \<Rightarrow> Inl f
           | Inr pcl_pointcloud \<Rightarrow> Inr (case p of None \<Rightarrow> pcl_pointcloud | Some pt \<Rightarrow> pt # pcl_pointcloud)))"

section \<open>Reading the colours\<close>

text \<open>An image as librealsense delivers one in the format RGB8: rows of a stride that holds them.\<close>

definition texture_ok :: "rs2_texture \<Rightarrow> bool" where
  "texture_ok tex \<longleftrightarrow> 3 \<le> tx_bytes_per_pixel tex \<and> tx_width tex * tx_bytes_per_pixel tex \<le> tx_stride tex \<and>
     length (tx_data tex) = tx_stride tex * tx_height tex"

lemma texel_inside:
  assumes "texture_ok tex" and "0 < x" "x < int (tx_width tex) - 1" and "0 < y" "y < int (tx_height tex) - 1"
  shows "nat x * tx_bytes_per_pixel tex + nat y * tx_stride tex + 2 < length (tx_data tex)"
proof -
  let ?b = "tx_bytes_per_pixel tex" and ?s = "tx_stride tex"
  have "(nat x + 1) * ?b \<le> tx_width tex * ?b" using assms(2,3) by (intro mult_le_mono1) linarith
  then have "nat x * ?b + 2 < ?s" using assms(1) by (simp add: texture_ok_def)
  moreover have "(nat y + 1) * ?s \<le> tx_height tex * ?s" using assms(4,5) by (intro mult_le_mono1) linarith
  ultimately show ?thesis using assms(1) by (simp add: texture_ok_def mult.commute)
qed

lemma texel_reads:
  "texture_ok tex \<Longrightarrow> rs2_texel tex uv = Inl f \<Longrightarrow> f = Bad_conversion"
  using texel_inside [of tex]
  by (force simp: rs2_texel_def texture_position_def int_of_double_def Let_def not_le not_less
      split: sum.splits if_splits)

lemma is_not_green_keeps:
  "isNotGreen p = Inr (ok, p') \<Longrightarrow>
     pcl_x p' = pcl_x p \<and> pcl_y p' = pcl_y p \<and> pcl_z p' = pcl_z p \<and> pcl_a p' = pcl_a p"
  by (auto simp: isNotGreen_def scale_red_blue_def Let_def split: sum.splits if_splits)

lemma is_not_green_faults: "isNotGreen p = Inl f \<Longrightarrow> f = Bad_conversion"
  by (auto simp: isNotGreen_def scale_red_blue_def byte_scale_def Let_def split: sum.splits if_splits)

lemma keep_not_green:
  "map_sum id (\<lambda>(ok, p2). if ok then Some p2 else None) (isNotGreen p) = Inl f \<Longrightarrow> f = Bad_conversion"
  "map_sum id (\<lambda>(ok, p2). if ok then Some p2 else None) (isNotGreen p) = Inr (Some p') \<Longrightarrow>
     pcl_x p' = pcl_x p \<and> pcl_y p' = pcl_y p \<and> pcl_z p' = pcl_z p \<and> pcl_a p' = pcl_a p"
  by (cases "isNotGreen p"; auto split: if_splits dest: is_not_green_faults is_not_green_keeps)+

definition rs2_filtered :: "rs2_view \<Rightarrow> pcl_point \<Rightarrow> bool" where
  "rs2_filtered cam p \<longleftrightarrow> \<not> rs2_too_low_or_high (rv_processing cam) p \<and> \<not> rs2_too_far (rv_processing cam) p \<and>
     pcl_a p = camera_tile (rv_index cam)"

lemma point_outcome:
  assumes "texture_ok tex" and "rv_trafo cam \<noteq> None"
  shows "case rs2_point cam tex vertex uv of
      Inl f \<Rightarrow> f = Bad_conversion | Inr None \<Rightarrow> True | Inr (Some p) \<Rightarrow> rs2_filtered cam p"
proof -
  obtain x y z where v: "vertex = (x, y, z)" by (cases vertex)
  obtain pt where pt: "rs2_transform_point_cam_to_world cam (blank_point\<lparr>pcl_x := x, pcl_y := y, pcl_z := z\<rparr>) = Inr pt"
    using assms(2) by (auto simp: rs2_transform_point_cam_to_world_def Let_def)
  have same: "rs2_filtered cam p \<longleftrightarrow> \<not> rs2_too_low_or_high (rv_processing cam) pt \<and>
      \<not> rs2_too_far (rv_processing cam) pt \<and> pcl_a p = camera_tile (rv_index cam)"
    if "pcl_x p = pcl_x pt" "pcl_y p = pcl_y pt" "pcl_z p = pcl_z pt" for p
    using that by (simp add: rs2_filtered_def rs2_too_low_or_high_def rs2_too_far_def isPointInRadius_def)
  show ?thesis
    by (auto simp: rs2_point_def v pt same Let_def split: sum.splits option.splits if_splits
        dest: texel_reads [OF assms(1)] keep_not_green)
qed

text \<open>
  The points a RealSense camera makes: the colour of a vertex is never read outside the image,
  whatever texture coordinates librealsense calculates for it, and every point that is kept lies
  within the configured height range and radius and carries the tile of its camera. The only thing
  that can go wrong is a texture coordinate or a green screen colour that has no integer value.
\<close>

theorem realsense_points_pass_filters:
  assumes "texture_ok tex" and "rv_trafo cam \<noteq> None"
  shows "case rs2_generate_point_cloud cam tex points of
      Inl f \<Rightarrow> f = Bad_conversion
    | Inr cloud \<Rightarrow> length cloud \<le> length points \<and> list_all (rs2_filtered cam) cloud"
proof (induction points)
  case (Cons p points)
  obtain vertex uv where p: "p = (vertex, uv)" by (cases p)
  show ?case
    using Cons point_outcome [OF assms, of vertex uv] by (auto simp: p split: sum.splits option.splits)
qed simp

definition sample_rs2_view :: rs2_view where
  "sample_rs2_view = \<lparr>rv_index = 1, rv_trafo = Some identity_trafo, rv_processing = new_rs2_processing\<rparr>"

definition sample_texture :: rs2_texture where
  "sample_texture = \<lparr>tx_width = 3, tx_height = 3, tx_bytes_per_pixel = 3, tx_stride = 9,
     tx_data = replicate 12 0 @ [10, 20, 30] @ replicate 12 0\<rparr>"

theorem realsense_points_pass_filters_witness:
  "\<exists>p. rs2_generate_point_cloud sample_rs2_view sample_texture
       [((0x3F800000, 0x3F800000, 0x3F800000), (0x3EAAAAAB, 0x3EAAAAAB)), ((0, 0, 0), (0, 0))] = Inr [p]
     \<and> pcl_a p = 2 \<and> pcl_g p = 20 \<and> rs2_filtered sample_rs2_view p"
proof -
  let ?points = "[((0x3F800000, 0x3F800000, 0x3F800000), (0x3EAAAAAB, 0x3EAAAAAB)), ((0, 0, 0), (0, 0))]"
  have "texture_position 0x3EAAAAAB 3 = Inr 1" by code_simp
  then have t: "rs2_texel sample_texture (0x3EAAAAAB, 0x3EAAAAAB) = Inr (Some (10, 20, 30))"
    by (simp add: rs2_texel_def sample_texture_def nth_append)
  have z: "f32_eq 0 f32_zero" "\<not> f32_eq 0x3F800000 f32_zero" by code_simp+
  have far: "rs2_too_low_or_high new_rs2_processing p = False" "rs2_too_far new_rs2_processing p = False" for p
    by (simp_all add: rs2_too_low_or_high_def rs2_too_far_def new_rs2_processing_def Let_def f32_lt_def f64_lt_def)
  have green: "\<not> rs_greenscreen_removal new_rs2_processing" by (simp add: new_rs2_processing_def)
  obtain p where "rs2_point sample_rs2_view sample_texture (0x3F800000, 0x3F800000, 0x3F800000) (0x3EAAAAAB, 0x3EAAAAAB) =
      Inr (Some p)" and p: "pcl_a p = 2" "pcl_g p = 20"
    by (simp add: rs2_point_def z t far green sample_rs2_view_def rs2_transform_point_cam_to_world_def Let_def
        camera_tile_def)
  then have c: "rs2_generate_point_cloud sample_rs2_view sample_texture ?points = Inr [p]"
    by (simp add: rs2_point_def [of _ _ "(0, 0, 0)"] z)
  have "texture_ok sample_texture" by (simp add: texture_ok_def sample_texture_def)
  moreover have "rv_trafo sample_rs2_view \<noteq> None" by (simp add: sample_rs2_view_def)
  ultimately show ?thesis
    using realsense_points_pass_filters [of sample_texture sample_rs2_view ?points] c p by simp
qed

end
