(* ===== verification/RealSenseRounds.thy ===== *)
theory RealSenseRounds
  imports RealSenseRuns RealSenseImages
begin

text \<open>
  The rounds of a RealSense capturer (theory \<open>RealSenseThread\<close>): which frame sets the points and the
  metadata of a cloud are made of, with sample executions for the properties of \<open>RealSenseRuns\<close>.
\<close>

section \<open>Where a frame set is\<close>

text \<open>
  Between two rounds a camera is idle: nothing queued, nothing in work, no completion left over, and
  the cloud it made last is that of the frame set it processed last. In a round the frame set that
  was captured is queued, in work, or done.
\<close>

definition made_last :: "rs2_env \<Rightarrow> rs2_unit \<Rightarrow> bool" where
  "made_last e u \<longleftrightarrow> ru_cloud u = map_option (re_points e (ru_index u)) (ru_processed u)"

definition idle :: "rs2_env \<Rightarrow> rs2_unit \<Rightarrow> bool" where
  "idle e u \<longleftrightarrow> ru_queue u = None \<and> ru_busy u = None \<and> \<not> ru_done u \<and> made_last e u"

definition captured :: "rs2_unit \<Rightarrow> bool" where
  "captured u \<longleftrightarrow> rc_current (ru_cam u) \<noteq> None \<and> \<not> rc_eos (ru_cam u)"

definition pending :: "rs2_env \<Rightarrow> rs2_unit \<Rightarrow> bool" where
  "pending e u \<longleftrightarrow> captured u \<and> made_last e u \<and>
     (ru_queue u = rc_current (ru_cam u) \<and> ru_busy u = None \<and> \<not> ru_done u \<or>
      ru_queue u = None \<and> ru_busy u = rc_current (ru_cam u) \<and> \<not> ru_done u \<or>
      ru_queue u = None \<and> ru_busy u = None \<and> ru_done u \<and> ru_processed u = rc_current (ru_cam u))"

definition finished :: "rs2_env \<Rightarrow> rs2_unit \<Rightarrow> bool" where
  "finished e u \<longleftrightarrow> captured u \<and> idle e u \<and> ru_processed u = rc_current (ru_cam u)"

definition round_ok :: "rs2_env \<Rightarrow> rs2_at \<Rightarrow> rs2_unit list \<Rightarrow> bool" where
  "round_ok e at us \<longleftrightarrow>
     (case at of
        Rt_captured t \<Rightarrow> list_all (\<lambda>u. idle e u \<and> captured u) us
      | Rt_new a \<Rightarrow> list_all (\<lambda>u. idle e u \<and> captured u) us
      | Rt_queued a \<Rightarrow> list_all (pending e) us
      | Rt_lock a \<Rightarrow> list_all (pending e) us
      | Rt_published \<Rightarrow> list_all (pending e) us
      | Rt_waiting n \<Rightarrow> (\<forall>i < length us. if i < n then finished e (us ! i) else pending e (us ! i))
      | Rt_merge \<Rightarrow> list_all (finished e) us
      | Rt_exit \<Rightarrow> True
      | Rt_done \<Rightarrow> True
      | _ \<Rightarrow> list_all (idle e) us)"

definition rounds_ok :: "rs2_env \<Rightarrow> rs2_run \<Rightarrow> bool" where
  "rounds_ok e r \<longleftrightarrow>
     (let k = rx_cap (rr_st r) in
      rk_stopping k \<or> (\<forall>at. rk_control k = Some at \<longrightarrow> round_ok e at (rk_cameras k)))"

section \<open>The processing threads\<close>

definition keeps_round :: "rs2_env \<Rightarrow> rs2_unit \<Rightarrow> rs2_unit \<Rightarrow> bool" where
  "keeps_round e u u' \<longleftrightarrow> (idle e u \<longrightarrow> idle e u' \<and> (captured u \<longrightarrow> captured u')) \<and>
     (finished e u \<longrightarrow> finished e u') \<and> (pending e u \<longrightarrow> pending e u')"

lemmas round_defs = keeps_round_def idle_def finished_def pending_def captured_def made_last_def

lemma unit_steps_keep:
  "unit_dequeue u = Some u' \<Longrightarrow> keeps_round e u u'" "unit_finish e u = Some u' \<Longrightarrow> keeps_round e u u'"
  "unit_test u = Some u' \<Longrightarrow> keeps_round e u u'" "unit_timeout u = Some u' \<Longrightarrow> keeps_round e u u'"
  by (auto simp: unit_dequeue_def unit_finish_def unit_test_def unit_timeout_def round_defs
      split: option.splits rs2_unit_at.splits if_splits)

lemma unit_step_round:
  assumes "keeps_round e (us ! i) u'" and "i < length us" "round_ok e at us"
  shows "round_ok e at (us[i := u'])"
  using assms by (cases at) (auto simp: round_ok_def keeps_round_def list_all_length nth_list_update)

section \<open>The control thread\<close>

lemma wait_holds:
  assumes "rs2_wait_for_captured_frameset m cam = Inr (ts, cam')" and "ts \<noteq> 0" "\<not> rc_eos cam'"
  shows "rc_current cam' \<noteq> None"
proof -
  have turn: "rc_current cam1 \<noteq> None" if turn1: "capture_turn r cam0 = Inr (b, t, cam1)" and open2: "\<not> rc_eos cam1"
    for r cam0 b t cam1
  proof -
    have open1: "\<not> rc_eos (move_on cam0)"
      using turn1 open2 by (auto simp: capture_turn_def Let_def no_depth_frame_def rc_say_def split: if_splits option.splits)
    obtain f p reads where m: "move_on cam0 = cam0\<lparr>rc_waiting := True, rc_reads := reads, rc_previous := Some p, rc_current := Some f\<rparr>"
      by (rule move_on_open [OF open1])
    show ?thesis
    proof (cases "\<exists>c. cam1 = read_current c \<or> cam1 = no_depth_frame (read_current c)")
      case True
      then obtain c where c: "\<not> rc_eos (read_current c)" "cam1 = read_current c \<or> cam1 = no_depth_frame (read_current c)"
        using open2 by (auto simp: no_depth_frame_def rc_say_def)
      obtain g rest where "read_current c = c\<lparr>rc_waiting := True, rc_reads := rest, rc_current := Some g\<rparr>"
        by (rule read_current_open [OF c(1)])
      with c(2) show ?thesis by (auto simp: no_depth_frame_def rc_say_def)
    next
      case False
      then have "cam1 = move_on cam0 \<or> cam1 = no_depth_frame (move_on cam0)"
        using turn1 by (auto simp: capture_turn_def Let_def split: if_splits option.splits)
      with m show ?thesis by (auto simp: no_depth_frame_def rc_say_def)
    qed
  qed
  have "rc_current cam' \<noteq> None" if "capture_loop m r c = Inr (ts', cam')" "\<not> rc_eos cam'" for m r c ts'
    using that
  proof (induction m r c rule: capture_loop.induct)
    case (1 m r c)
    obtain b t c1 where t: "capture_turn r c = Inr (b, t, c1)"
      using "1.prems"(1) by (subst (asm) capture_loop.simps) (auto split: sum.splits)
    show ?case
    proof (cases "b \<or> \<not> t < m")
      case True
      then have "c1 = cam'" using "1.prems"(1) t by (subst (asm) capture_loop.simps) simp
      with turn [OF t] "1.prems"(2) show ?thesis by simp
    next
      case False
      then have "capture_loop m t c1 = Inr (ts', cam')" using "1.prems"(1) t by (subst (asm) capture_loop.simps) simp
      from "1.IH" [OF t refl refl False this "1.prems"(2)] show ?thesis .
    qed
  qed
  then show ?thesis
    using assms by (auto simp: rs2_wait_for_captured_frameset_def split: if_splits option.splits)
qed

lemma capture_cameras_hold:
  assumes "rs2_capture_cameras cams first = Inr (True, ts, cams', log)"
  shows "list_all (\<lambda>c. rc_current c \<noteq> None \<and> \<not> rc_eos c) cams'"
  using assms
proof (induction cams arbitrary: first ts cams' log)
  case (Cons cam cams)
  obtain ts1 cam1 where w: "rs2_wait_for_captured_frameset first cam = Inr (ts1, cam1)"
    using Cons.prems by (auto split: sum.splits)
  then have n: "ts1 \<noteq> 0" "\<not> rc_eos cam1" using Cons.prems by (auto split: if_splits sum.splits)
  obtain cams1 log1 where r: "rs2_capture_cameras cams (if first = 0 then ts1 else first) = Inr (True, ts, cams1, log1)"
    "cams' = cam1 # cams1"
    using Cons.prems w n by (auto split: if_splits sum.splits)
  from Cons.IH [OF r(1)] wait_holds [OF w n] n r(2) show ?case by simp
qed simp

lemma set_cams_all:
  assumes "list_all P us" and "\<And>u c. P u \<Longrightarrow> Q c \<Longrightarrow> R (u\<lparr>ru_cam := c\<rparr>)" and "list_all Q cams"
  shows "list_all R (set_cams cams us)"
  using assms(1,3) by (auto simp: set_cams_def list_all_iff intro!: assms(2) dest: set_zip_leftD set_zip_rightD)

lemma idle_cam [simp]: "idle e (u\<lparr>ru_cam := c\<rparr>) = idle e u"
  by (simp add: idle_def made_last_def)

lemma capture_round_ok:
  assumes "capture_round now st = Inr st'" and "list_all (idle e) (rk_cameras (rx_cap st))"
  obtains at where "rk_control (rx_cap st') = Some at" "round_ok e at (rk_cameras (rx_cap st'))"
    "rk_stopping (rx_cap st') = rk_stopping (rx_cap st)"
proof -
  obtain ok ts cams msgs w where c: "rs2_capture_all_cameras (rs_new_timestamps (rk_config (rx_cap st))) now
      (map ru_cam (rk_cameras (rx_cap st))) = Inr (ok, ts, cams, msgs)"
    and st': "st' = go_to (if ok then Rt_captured ts else Rt_test)
       (st\<lparr>rx_world := w, rx_cap := (rx_cap st)\<lparr>rk_cameras := set_cams cams (rk_cameras (rx_cap st))\<rparr>\<rparr>)"
    by (rule capture_round_result [OF assms(1)])
  have i: "list_all (idle e) (set_cams cams (rk_cameras (rx_cap st)))"
    by (rule set_cams_all [OF assms(2), of "\<lambda>_. True"]) (simp_all add: list_all_iff)
  have "list_all (\<lambda>u. idle e u \<and> captured u) (set_cams cams (rk_cameras (rx_cap st)))" if all_ok: ok
  proof (rule set_cams_all [OF assms(2)])
    show "list_all (\<lambda>c. rc_current c \<noteq> None \<and> \<not> rc_eos c) cams"
    proof -
      obtain first where "rs2_capture_cameras (map ru_cam (rk_cameras (rx_cap st))) 0 = Inr (True, first, cams, msgs)"
        using c all_ok by (auto simp: rs2_capture_all_cameras_def split: sum.splits)
      then show ?thesis by (rule capture_cameras_hold)
    qed
  qed (simp add: captured_def)
  with i st' show ?thesis
    by (intro that [of "if ok then Rt_captured ts else Rt_test"]) (auto simp: round_ok_def)
qed

lemma submit_pending: "idle e u \<and> captured u \<Longrightarrow> pending e (submit u)"
  by (auto simp: idle_def captured_def pending_def submit_def made_last_def)

lemma waited_finished: "pending e u \<Longrightarrow> ru_done u \<Longrightarrow> finished e (u\<lparr>ru_done := False\<rparr>)"
  by (auto simp: pending_def finished_def idle_def captured_def made_last_def)

lemma finished_idle: "list_all (finished e) us \<Longrightarrow> list_all (idle e) us"
  by (auto simp: finished_def list_all_iff)

text \<open>Every step keeps it: the cases where the cameras change, and the others.\<close>

lemma control_round:
  assumes "rs2_control_step e ev st = Some (Inr st')" and "rk_control (rx_cap st) = Some at"
    and "round_ok e at (rk_cameras (rx_cap st))"
  shows "\<exists>at'. rk_control (rx_cap st') = Some at' \<and> round_ok e at' (rk_cameras (rx_cap st'))"
proof -
  note step = assms(1) [unfolded rs2_control_step_def Let_def assms(2) option.case]
  have drop: "rk_control (rx_cap s') = Some Rt_exit" if "drop_cloud b s = Inr s'" for b s s'
    using that by (auto simp: drop_cloud_def map_sum_Inr)
  have create: "rx_cap s' = rx_cap s" if "rs2_create_pc e' ts s = Inr (b, s')" for e' ts s b s'
    using that by (auto simp: rs2_create_pc_def split: prod.splits option.splits sum.splits)
  consider (round) "at = Rt_capture" | (made) t where "at = Rt_captured t" | (new) a where "at = Rt_new a"
    | (queued) a where "at = Rt_queued a" | (lock) a where "at = Rt_lock a" | (wait) n where "at = Rt_waiting n"
    | (merge) "at = Rt_merge"
    | (plain) "at \<in> {Rt_begin, Rt_test, Rt_predicate, Rt_before_block, Rt_blocked, Rt_exit, Rt_done}"
    | (check) "at = Rt_eof_check" | (published) "at = Rt_published"
    by (cases at) auto
  then show ?thesis
  proof cases
    case round
    then obtain now where "capture_round now st = Inr st'" using step by (cases ev) auto
    moreover have "list_all (idle e) (rk_cameras (rx_cap st))" using assms(3) round by (simp add: round_ok_def)
    ultimately show ?thesis using capture_round_ok by metis
  next
    case made
    then show ?thesis
      using step assms(3) by (cases ev) (auto simp: round_ok_def split: if_splits sum.splits dest!: create)
  next
    case new
    then show ?thesis
      using step assms(3)
      by (cases ev) (auto simp: round_ok_def list_all_iff submit_pending split: if_splits dest!: drop)
  next
    case queued
    then show ?thesis
      using step assms(3) by (cases ev) (auto simp: round_ok_def split: if_splits dest!: drop)
  next
    case lock
    then show ?thesis
      using step assms(3)
      by (cases ev) (auto simp: round_ok_def rs2_publish_def map_sum_Inr free_at_def Let_def split: option.splits if_splits)
  next
    case (wait n)
    then show ?thesis
    proof (cases "n < length (rk_cameras (rx_cap st))")
      case True
      then have "ru_done (rk_cameras (rx_cap st) ! n)"
        "st' = st\<lparr>rx_cap := (rx_cap st)\<lparr>rk_cameras := (rk_cameras (rx_cap st))[n := (rk_cameras (rx_cap st) ! n)\<lparr>ru_done := False\<rparr>],
           rk_control := Some (Rt_waiting (n + 1))\<rparr>\<rparr>"
        using step wait by (cases ev; auto simp: wait_unit_def split: if_splits)+
      then show ?thesis
        using assms(3) wait True waited_finished [of e "rk_cameras (rx_cap st) ! n"]
        by (auto simp: round_ok_def nth_list_update)
    next
      case False
      then show ?thesis
        using step wait assms(3) by (cases ev) (auto simp: round_ok_def list_all_length)
    qed
  next
    case merge
    then show ?thesis
      using step assms(3) finished_idle
      by (cases ev) (auto simp: round_ok_def rs2_merge_def Let_def split: option.splits)
  next
    case plain
    then show ?thesis
      using step assms(3) by (cases ev) (auto simp: round_ok_def split: if_splits)
  next
    case check
    then show ?thesis
      using step assms(3) by (cases ev) (auto simp: round_ok_def split: if_splits)
  next
    case published
    then have "round_ok e (Rt_waiting 0) (rk_cameras (rx_cap st))"
      using assms(3) by (simp add: round_ok_def list_all_length)
    moreover have "round_ok e Rt_exit us" for us by (simp add: round_ok_def)
    moreover have "st' = go_to (if rk_stopped (rx_cap st) then Rt_exit else Rt_waiting 0) st"
      using step published by (cases ev) simp_all
    ultimately show ?thesis by simp
  qed
qed

lemma control_stopping:
  assumes "rs2_control_step e ev st = Some (Inr st')"
  shows "rk_stopping (rx_cap st') = rk_stopping (rx_cap st)"
proof -
  obtain at where c: "rk_control (rx_cap st) = Some at"
    using assms by (auto simp: rs2_control_step_def Let_def split: option.splits)
  note step = assms [unfolded rs2_control_step_def Let_def c option.case]
  show ?thesis
    using step by (cases at; cases ev)
      (auto simp: capture_round_def rs2_publish_def rs2_merge_def drop_cloud_def map_sum_Inr wait_unit_def rs2_create_pc_def
        free_at_def Let_def split: if_splits sum.splits option.splits prod.splits)
qed

section \<open>Every action\<close>

lemma unit_round:
  assumes "on_unit step i k = Some k'" and "\<And>u u'. step u = Some u' \<Longrightarrow> keeps_round e u u'"
    and "rounds_ok e r" "k = rx_cap (rr_st r)"
  shows "rounds_ok e (set_cap k' r)"
proof -
  obtain u' where u: "i < length (rk_cameras k)" "step (rk_cameras k ! i) = Some u'"
    "k' = k\<lparr>rk_cameras := (rk_cameras k)[i := u']\<rparr>"
    using assms(1) by (auto simp: on_unit_def split: if_splits)
  have "round_ok e at (rk_cameras k) \<Longrightarrow> round_ok e at (rk_cameras k')" for at
    using unit_step_round [OF assms(2) [OF u(2)] u(1)] u(3) by simp
  then show ?thesis
    using assms(3,4) u(3) by (auto simp: rounds_ok_def Let_def split: option.split)
qed

lemma rounds_same:
  assumes "rounds_ok e r" and "rk_cameras k' = rk_cameras (rx_cap (rr_st r))" "rk_control k' = rk_control (rx_cap (rr_st r))"
    "rk_stopping k' = rk_stopping (rx_cap (rr_st r))"
  shows "rounds_ok e (set_pair (w', k') r)" "rounds_ok e (set_cap k' r)"
  using assms by (simp_all add: rounds_ok_def Let_def)

lemma rounds_exec:
  assumes "rs2_exec e a r = Some (Inr r')" and "rounds_ok e r" "cameras_ok r" and "\<And>devs outcome. a \<noteq> X_start devs True outcome"
  shows "rounds_ok e r'"
proof (cases a)
  case (X_control ev)
  then obtain st' where st: "rs2_control_step e ev (rr_st r) = Some (Inr st')"
    "r' = r\<lparr>rr_st := st', rr_rounds := rr_rounds r + (if publishes (rx_cap (rr_st r)) then 1 else 0)\<rparr>"
    using assms(1) by (auto simp: map_sum_Inr)
  obtain at where c: "rk_control (rx_cap (rr_st r)) = Some at"
    using st(1) by (auto simp: rs2_control_step_def Let_def split: option.splits)
  from control_stopping [OF st(1)] control_round [OF st(1) c] assms(2) c st(2) show ?thesis
    by (auto simp: rounds_ok_def Let_def)
next
  case (X_dequeue i)
  then obtain k' where k: "on_unit unit_dequeue i (rx_cap (rr_st r)) = Some k'" "r' = set_cap k' r" using assms(1) by auto
  from unit_round [OF k(1) unit_steps_keep(1) assms(2) refl] k(2) show ?thesis by simp
next
  case (X_finish i)
  then obtain k' where k: "on_unit (unit_finish e) i (rx_cap (rr_st r)) = Some k'" "r' = set_cap k' r" using assms(1) by auto
  from unit_round [OF k(1) unit_steps_keep(2) assms(2) refl] k(2) show ?thesis by simp
next
  case (X_test i)
  then obtain k' where k: "on_unit unit_test i (rx_cap (rr_st r)) = Some k'" "r' = set_cap k' r" using assms(1) by auto
  from unit_round [OF k(1) unit_steps_keep(3) assms(2) refl] k(2) show ?thesis by simp
next
  case (X_timeout i)
  then obtain k' where k: "on_unit unit_timeout i (rx_cap (rr_st r)) = Some k'" "r' = set_cap k' r" using assms(1) by auto
  from unit_round [OF k(1) unit_steps_keep(4) assms(2) refl] k(2) show ?thesis by simp
next
  case (X_start devs unset outcome)
  then have u: "\<not> unset" using assms(4) by (cases unset) auto
  obtain ok w' k' where s: "rs2_start (re_dump e) (re_bytes e) devs unset outcome (rx_world (rr_st r), rx_cap (rr_st r)) = Inr (ok, w', k')"
    and r': "r' = set_pair (w', k') r"
    using assms(1) X_start by (auto simp: map_sum_Inr rr_pair_def)
  show ?thesis
  proof (rule start_result [OF s])
    show "rk_control (rx_cap (rr_st r)) = None \<longrightarrow> rk_cameras (rx_cap (rr_st r)) = []" using assms(3) by (simp add: cameras_ok_def)
  next
    assume "k' = rx_cap (rr_st r)"
    with assms(2) show ?thesis by (simp add: r' rounds_ok_def)
  next
    assume "rk_control k' = None"
    then show ?thesis by (simp add: r' rounds_ok_def Let_def)
  next
    assume "rk_control k' = Some Rt_begin" "list_all (unused unset) (rk_cameras k')"
    with u show ?thesis
      by (auto simp: r' rounds_ok_def round_ok_def Let_def list_all_iff unused_def idle_def made_last_def)
  qed
next
  case X_stop_join
  then obtain w' k' where k: "rs2_stop_joined (re_dump e) (re_bytes e) (rx_world (rr_st r), rx_cap (rr_st r)) = Inr (w', k')"
    and r': "r' = set_pair (w', k') r"
    using assms(1) by (auto simp: rr_pair_def map_sum_Inr)
  from rs2_stop_joined_result [OF k] r' show ?thesis by (simp add: rounds_ok_def Let_def)
next
  case X_request
  then obtain k' where k: "rs2_request_new_pointcloud (rx_cap (rr_st r)) = Some k'" and r': "r' = set_cap k' r"
    using assms(1) by auto
  define k0 where "k0 = rx_cap (rr_st r)"
  have same: "rk_cameras k' = rk_cameras k0" "rk_stopping k' = rk_stopping k0"
    "rk_control k' = rk_control k0 \<or> rk_control k0 = Some Rt_blocked \<and> rk_control k' = Some Rt_predicate"
    using k by (auto simp: k0_def rs2_request_new_pointcloud_def rs2_notify_want_new_def split: if_splits)
  have "round_ok e Rt_predicate us = round_ok e Rt_blocked us" for us by (simp add: round_ok_def)
  with same show ?thesis
    using assms(2) by (cases "rk_control k0") (auto simp: r' rounds_ok_def Let_def simp flip: k0_def)
next
  case (X_reload devs f)
  obtain ok w' k' where k: "rs2_config_reload (re_io e) devs f (rx_world (rr_st r), rx_cap (rr_st r)) = (ok, w', k')"
    by (metis prod.exhaust)
  with reload_result [OF k] assms(1,2) X_reload show ?thesis by (auto simp: rr_pair_def intro!: rounds_same)
next
  case (X_reload_fast f)
  then obtain ok w' k' where k: "rs2_config_reload_fast (re_io e) f (rx_world (rr_st r), rx_cap (rr_st r)) = Inr (ok, w', k')"
    and r': "r' = set_pair (w', k') r" using assms(1) by (auto simp: rr_pair_def map_sum_Inr)
  with reload_fast_result [OF k] assms(2) show ?thesis by (auto intro!: rounds_same)
next
  case (X_config_get d)
  then obtain t w' k' where k: "rs2_config_get (re_dump e) d (rx_world (rr_st r), rx_cap (rr_st r)) = Inr (t, w', k')"
    and r': "r' = set_pair (w', k') r" using assms(1) by (auto simp: rr_pair_def map_sum_Inr)
  with config_get_result [OF k] assms(2) show ?thesis by (auto intro!: rounds_same)
next
  case (X_give_back n)
  with assms(1,2) show ?thesis by (auto simp: map_sum_Inr free_at_def rounds_ok_def Let_def split: option.splits)
next
  case X_take
  with assms(1,2) show ?thesis by (auto simp: rs2_get_take_def rounds_ok_def Let_def split: if_splits)
qed (use assms(1,2) in \<open>auto simp: rs2_stop_begin_def rs2_stop_cameras_def rs2_stop_flags_def rs2_stop_notify_def
      rs2_notify_want_new_def rs2_request_metadata_def rounds_ok_def Let_def split: if_splits\<close>)

lemma rounds_run:
  assumes "rs2_run_actions e as r = Some (Inr r')" and "rounds_ok e r" "own_ok r" "cameras_ok r"
    and "\<forall>devs outcome. X_start devs True outcome \<notin> set as"
  shows "rounds_ok e r'"
  using assms
proof (induction "as" arbitrary: r)
  case (Cons a as)
  then obtain r1 where r1: "rs2_exec e a r = Some (Inr r1)" "rs2_run_actions e as r1 = Some (Inr r')"
    by (auto split: option.splits sum.splits)
  have "rounds_ok e r1" using rounds_exec [OF r1(1) Cons.prems(2,4)] Cons.prems(5) by auto
  with own_exec [OF r1(1) Cons.prems(3,4)] Cons.IH [OF r1(2)] Cons.prems(5) show ?case by auto
qed simp

section \<open>The points of a round\<close>

lemma finished_points:
  assumes "list_all (finished e) us"
  shows "units_points us = concat (map (\<lambda>u. re_points e (ru_index u) (the (rc_current (ru_cam u)))) us)"
  using assms
  by (induction us) (auto simp: units_points_def finished_def idle_def made_last_def captured_def)

text \<open>
  C7. The point cloud a RealSense capturer publishes consists of exactly what its cameras captured in
  that round: whenever the control thread, in any execution that is not being stopped, comes to merge,
  every camera has made its cloud from the frame set captured last, and merging gives the published
  cloud the points of those frame sets, camera after camera, and marks it fresh; no frame set of an
  earlier round, none skipped, none twice. (Provided \<open>processing_done\<close>, which the constructor of a
  camera does not initialise, happened to be false.)
\<close>

theorem rs2_round_merges_captured:
  assumes "rs2_run_actions e as (rr_init w) = Some (Inr r)"
    and "\<forall>devs outcome. X_start devs True outcome \<notin> set as"
    and "rk_control (rx_cap (rr_st r)) = Some Rt_merge" and "\<not> rk_stopping (rx_cap (rr_st r))"
  shows "\<exists>a pc r'. rk_mergedPC (rx_cap (rr_st r)) = Some a \<and> rx_heap (rr_st r) a = Some pc \<and>
    rs2_exec e (X_control Go) r = Some (Inr r') \<and> rk_fresh (rx_cap (rr_st r')) \<and>
    list_all (\<lambda>u. rc_current (ru_cam u) \<noteq> None) (rk_cameras (rx_cap (rr_st r))) \<and>
    rx_heap (rr_st r') a = Some (pc\<lparr>m_pc := Some (concat
      (map (\<lambda>u. re_points e (ru_index u) (the (rc_current (ru_cam u)))) (rk_cameras (rx_cap (rr_st r)))))\<rparr>)"
proof -
  have "rounds_ok e (rr_init w)" by (simp add: rounds_ok_def rr_init_def new_rs2_capture_def)
  then have "rounds_ok e r" using rounds_run [OF assms(1) _ init_owned(1,2) assms(2)] by blast
  then have f: "list_all (finished e) (rk_cameras (rx_cap (rr_st r)))"
    using assms(3,4) by (simp add: rounds_ok_def round_ok_def Let_def)
  then have c: "list_all (\<lambda>u. rc_current (ru_cam u) \<noteq> None) (rk_cameras (rx_cap (rr_st r)))"
    by (auto simp: finished_def captured_def list_all_iff)
  have "own_ok r" using run_owned [OF assms(1) init_owned(1,2)] by blast
  then obtain a pc where a: "rk_mergedPC (rx_cap (rr_st r)) = Some a" "rx_heap (rr_st r) a = Some pc"
    using assms(3) by (auto simp: own_ok_def owned_def at_place)
  then obtain st' where st': "rs2_merge (rr_st r) = Inr st'" "rk_fresh (rx_cap st')"
    "rx_heap st' a = Some (pc\<lparr>m_pc := Some (units_points (rk_cameras (rx_cap (rr_st r))))\<rparr>)"
    by (simp add: rs2_merge_def Let_def)
  then have "rs2_exec e (X_control Go) r = Some (Inr (r\<lparr>rr_st := st', rr_rounds := rr_rounds r\<rparr>))"
    using assms(3) by (simp add: rs2_control_step_def Let_def publishes_def)
  with a st' c finished_points [OF f] show ?thesis
    by (intro exI [of _ a] exI [of _ pc] exI [of _ "r\<lparr>rr_st := st', rr_rounds := rr_rounds r\<rparr>"]) simp
qed

section \<open>The metadata of a round\<close>

text \<open>
  C26. The metadata of a point cloud of a RealSense capturer is that of another frame set than its
  points: when the control thread makes the new cloud, in any execution that is not being stopped, the
  frame sets of the round are captured and none of them is processed yet; the images and times it
  attaches are those of the frame set each camera processed last, from which the points of the
  \<^emph>\<open>previous\<close> cloud were made, and in the first round there are none, whatever was asked for.
\<close>

theorem rs2_metadata_is_of_previous_round:
  assumes "rs2_run_actions e as (rr_init w) = Some (Inr r)"
    and "\<forall>devs outcome. X_start devs True outcome \<notin> set as"
    and "rk_control (rx_cap (rr_st r)) = Some (Rt_captured t)" and "\<not> rk_stopping (rx_cap (rr_st r))" "\<not> rk_stopped (rx_cap (rr_st r))"
    and "rs2_exec e (X_control (Now now)) r = Some (Inr r')"
  shows "\<exists>a pc items. rk_control (rx_cap (rr_st r')) = Some (Rt_new a) \<and> rx_heap (rr_st r') a = Some pc \<and>
    m_metadata pc = (if items = [] then None else Some items) \<and>
    save_all_metadata e (rk_wants (rx_cap (rr_st r))) (rk_cameras (rx_cap (rr_st r))) [] = Inr items \<and>
    list_all (\<lambda>u. rc_current (ru_cam u) \<noteq> None \<and> ru_queue u = None \<and> ru_busy u = None \<and>
        ru_cloud u = map_option (re_points e (ru_index u)) (ru_processed u)) (rk_cameras (rx_cap (rr_st r))) \<and>
    (list_all (\<lambda>u. ru_cloud u = None) (rk_cameras (rx_cap (rr_st r))) \<longrightarrow> items = [])"
proof -
  have "rounds_ok e (rr_init w)" by (simp add: rounds_ok_def rr_init_def new_rs2_capture_def)
  then have "rounds_ok e r" using rounds_run [OF assms(1) _ init_owned(1,2) assms(2)] by blast
  then have f: "list_all (\<lambda>u. idle e u \<and> captured u) (rk_cameras (rx_cap (rr_st r)))"
    using assms(3,4) by (simp add: rounds_ok_def round_ok_def Let_def)
  obtain st ts a st1 where s: "rs2_create_pc e ts st = Inr (a, st1)" "rr_st r' = go_to (Rt_new a) st1"
    "rx_cap st = rx_cap (rr_st r)"
    using assms(3,5,6)
    by (auto simp: rs2_control_step_def Let_def map_sum_Inr split: sum.splits)
  obtain items pc where i: "save_all_metadata e (rk_wants (rx_cap (rr_st r))) (rk_cameras (rx_cap (rr_st r))) [] = Inr items"
    "rx_heap st1 a = Some pc" "m_metadata pc = (if items = [] then None else Some items)"
    using s(1,3) by (auto simp: rs2_create_pc_def cwipc_from_pcl_def api_version_bad_def CWIPC_API_VERSION_def
        CWIPC_API_VERSION_OLD_def new_cwipc_impl_def Let_def split: sum.splits if_splits)
  have "save_all_metadata e wants us items' = Inr items'"
    if "list_all (\<lambda>u. ru_processed u = None) us" for wants us items'
    using that by (induction us) (simp_all add: rs2_save_frameset_metadata_def)
  moreover have "list_all (\<lambda>u. ru_processed u = None) (rk_cameras (rx_cap (rr_st r)))"
    if "list_all (\<lambda>u. ru_cloud u = None) (rk_cameras (rx_cap (rr_st r)))"
    using that f by (auto simp: list_all_iff idle_def made_last_def)
  ultimately have "list_all (\<lambda>u. ru_cloud u = None) (rk_cameras (rx_cap (rr_st r))) \<longrightarrow> items = []" using i(1) by auto
  moreover have "list_all (\<lambda>u. rc_current (ru_cam u) \<noteq> None \<and> ru_queue u = None \<and> ru_busy u = None \<and>
        ru_cloud u = map_option (re_points e (ru_index u)) (ru_processed u)) (rk_cameras (rx_cap (rr_st r)))"
    using f by (auto simp: list_all_iff idle_def captured_def made_last_def)
  ultimately show ?thesis
    using s(2) i by (intro exI [of _ a] exI [of _ pc] exI [of _ items]) simp
qed

section \<open>A sample execution\<close>

text \<open>
  One camera found by automatic configuration, a recording of four frame sets, and a point that tells
  the number of its frame set.
\<close>

definition rs2_sample_frames :: "rs2_frameset list" where
  "rs2_sample_frames = recorded_frames @ [frame_at 0x40912C0000000000 4]"

definition rs2_sample_started :: rs2_started where
  "rs2_sample_started = \<lparr>sd_serial = ''A'', sd_streams = [], sd_pointSize = 0, sd_reads = map Arrived rs2_sample_frames\<rparr>"

definition numbered_point :: "nat \<Rightarrow> rs2_frameset \<Rightarrow> pcl_point list" where
  "numbered_point i f = [\<lparr>pcl_x = of_nat (fsr_number f), pcl_y = 0, pcl_z = 0, pcl_r = 0, pcl_g = 0, pcl_b = 0, pcl_a = of_nat i\<rparr>]"

definition rs2_sample_picture :: "rs2_frameset \<Rightarrow> rs2_picture" where
  "rs2_sample_picture f = \<lparr>rp_width = 2, rp_height = 2, rp_stride = 4, rp_bpp = 2, rp_size = 8, rp_format = ''Z16'',
     rp_number = int (fsr_number f), rp_time = 0, rp_clock = 0\<rparr>"

definition rs2_sample_env :: rs2_env where
  "rs2_sample_env = \<lparr>re_points = numbered_point, re_depth = rs2_sample_picture, re_color = rs2_sample_picture,
     re_position = None, re_memory = (\<lambda>_. Some 1), re_free = 0,
     re_io = \<lparr>cio_lib = sample_lib, cio_parse = (\<lambda>_. None), cio_parse_bytes = (\<lambda>_. None), cio_what = [],
              rio_to_float = sample_to_float\<rparr>,
     re_dump = (\<lambda>_. []), re_bytes = (\<lambda>_. [])\<rparr>"

definition rs2_to_captured :: "rs2_action list" where
  "rs2_to_captured = [X_reload [plain_device] (Some ''auto''), X_start [plain_device] False (\<lambda>_. Inr rs2_sample_started),
     X_request_metadata False False True False False, X_request]
     @ replicate 4 (X_control Go) @ [X_control (Now 7)]"

definition rs2_to_merge :: "rs2_action list" where
  "rs2_to_merge = rs2_to_captured @ [X_control (Now 8)] @ replicate 4 (X_control Go) @ [X_test 0, X_dequeue 0, X_finish 0]
     @ replicate 2 (X_control Go)"

definition rs2_round :: "rs2_action list" where
  "rs2_round = rs2_to_merge @ [X_control Go]"

definition rs2_gives :: "(fault + rs2_run) option \<Rightarrow> (rs2_run \<Rightarrow> bool) \<Rightarrow> bool" where
  "rs2_gives x P = (case x of Some (Inr r) \<Rightarrow> P r | _ \<Rightarrow> False)"

lemma rs2_givesE:
  assumes "rs2_gives x P"
  obtains r where "x = Some (Inr r)" and "P r"
  using assms by (auto simp: rs2_gives_def split: option.splits sum.splits)

definition rs2_outcome :: "rs2_action list \<Rightarrow> (rs2_run \<Rightarrow> bool) \<Rightarrow> bool" where
  "rs2_outcome as = rs2_gives (rs2_run_actions rs2_sample_env as (rr_init (world_init None 0)))"

lemmas rs2_outcomeE = rs2_givesE [of "rs2_run_actions rs2_sample_env as (rr_init (world_init None 0))" for as, folded rs2_outcome_def]

lemma rs2_captured_runs:
  "rs2_outcome rs2_to_captured (\<lambda>r. let k = rx_cap (rr_st r) in
     rk_control k = Some (Rt_captured 1033) \<and> \<not> rk_stopping k \<and> \<not> rk_stopped k \<and>
     list_all (\<lambda>u. ru_cloud u = None) (rk_cameras k) \<and> rw_timestamps (rk_wants k) \<and>
     rs2_gives (rs2_exec rs2_sample_env (X_control (Now 8)) r) (\<lambda>_. True))"
  by code_simp

lemma rs2_merge_runs:
  "rs2_outcome rs2_to_merge (\<lambda>r. let k = rx_cap (rr_st r) in
     rk_control k = Some Rt_merge \<and> \<not> rk_stopping k \<and>
     concat (map (\<lambda>u. re_points rs2_sample_env (ru_index u) (the (rc_current (ru_cam u)))) (rk_cameras k))
       = numbered_point 0 (frame_at 0x4090240000000000 2))"
  by code_simp

lemma rs2_round_runs:
  "rs2_outcome rs2_round (\<lambda>r. rk_mergedPC (rx_cap (rr_st r)) = Some 0 \<and>
     rs2_gives (rs2_exec rs2_sample_env X_take r) (\<lambda>r1. map fst (rr_fetched r1) = [0] \<and> rr_returned r1 = []))"
  by code_simp

definition rs2_two_rounds :: "rs2_action list" where
  "rs2_two_rounds = rs2_round @ [X_take, X_request] @ drop 5 rs2_round @ [X_take, X_give_back 0]"

lemma rs2_second_round_runs:
  "rs2_outcome rs2_two_rounds (\<lambda>r. map fst (rr_fetched r) = [0, 1] \<and> rr_returned r = [0])"
  by code_simp

theorem rs2_round_merges_captured_witness:
  "\<exists>r a pc r'. rs2_run_actions rs2_sample_env rs2_to_merge (rr_init (world_init None 0)) = Some (Inr r) \<and>
     rs2_exec rs2_sample_env (X_control Go) r = Some (Inr r') \<and> rk_fresh (rx_cap (rr_st r')) \<and>
     rx_heap (rr_st r') a = Some (pc\<lparr>m_pc := Some (numbered_point 0 (frame_at 0x4090240000000000 2))\<rparr>)"
proof -
  obtain r where r: "rs2_run_actions rs2_sample_env rs2_to_merge (rr_init (world_init None 0)) = Some (Inr r)"
    and k: "rk_control (rx_cap (rr_st r)) = Some Rt_merge" "\<not> rk_stopping (rx_cap (rr_st r))"
      "concat (map (\<lambda>u. re_points rs2_sample_env (ru_index u) (the (rc_current (ru_cam u)))) (rk_cameras (rx_cap (rr_st r))))
        = numbered_point 0 (frame_at 0x4090240000000000 2)"
    using rs2_merge_runs by (auto simp: Let_def elim!: rs2_outcomeE)
  have n: "\<forall>devs outcome. X_start devs True outcome \<notin> set rs2_to_merge" by (simp add: rs2_to_merge_def rs2_to_captured_def)
  obtain a pc r' where "rs2_exec rs2_sample_env (X_control Go) r = Some (Inr r')" "rk_fresh (rx_cap (rr_st r'))"
    "rx_heap (rr_st r') a = Some (pc\<lparr>m_pc := Some (numbered_point 0 (frame_at 0x4090240000000000 2))\<rparr>)"
    using rs2_round_merges_captured [OF r n k(1,2), unfolded k(3)] by blast
  with r show ?thesis by blast
qed

theorem rs2_metadata_is_of_previous_round_witness:
  "\<exists>r r' a pc t. rs2_run_actions rs2_sample_env rs2_to_captured (rr_init (world_init None 0)) = Some (Inr r) \<and>
     rk_control (rx_cap (rr_st r)) = Some (Rt_captured t) \<and> rw_timestamps (rk_wants (rx_cap (rr_st r))) \<and>
     rs2_exec rs2_sample_env (X_control (Now 8)) r = Some (Inr r') \<and>
     rk_control (rx_cap (rr_st r')) = Some (Rt_new a) \<and> rx_heap (rr_st r') a = Some pc \<and> m_metadata pc = None"
proof -
  obtain r r' where r: "rs2_run_actions rs2_sample_env rs2_to_captured (rr_init (world_init None 0)) = Some (Inr r)"
    and k: "rk_control (rx_cap (rr_st r)) = Some (Rt_captured 1033)" "\<not> rk_stopping (rx_cap (rr_st r))" "\<not> rk_stopped (rx_cap (rr_st r))"
      "rs2_exec rs2_sample_env (X_control (Now 8)) r = Some (Inr r')"
    and u: "list_all (\<lambda>u. ru_cloud u = None) (rk_cameras (rx_cap (rr_st r)))" "rw_timestamps (rk_wants (rx_cap (rr_st r)))"
    using rs2_captured_runs
    by (auto simp: Let_def elim!: rs2_outcomeE rs2_givesE)
  have n: "\<forall>devs outcome. X_start devs True outcome \<notin> set rs2_to_captured" by (simp add: rs2_to_captured_def)
  obtain a pc items where "rk_control (rx_cap (rr_st r')) = Some (Rt_new a)" "rx_heap (rr_st r') a = Some pc"
    "m_metadata pc = (if items = [] then None else Some items)" "items = []"
    using rs2_metadata_is_of_previous_round [OF r n k] u(1) by blast
  then have m: "rk_control (rx_cap (rr_st r')) = Some (Rt_new a)" "rx_heap (rr_st r') a = Some pc" "m_metadata pc = None"
    by simp_all
  show ?thesis by (intro exI conjI) (rule r, rule k(1), rule u(2), rule k(4), rule m(1), rule m(2), rule m(3))
qed

text \<open>For the properties of \<open>RealSenseRuns\<close>: two rounds, and a cloud that is fetched and still held.\<close>

theorem rs2_fetched_clouds_kept_witness:
  "\<exists>r. rs2_run_actions rs2_sample_env rs2_two_rounds (rr_init (world_init None 0)) = Some (Inr r) \<and>
     map fst (rr_fetched r) = [0, 1] \<and> rr_returned r = [0] \<and> rx_heap (rr_st r) 1 \<noteq> None \<and>
     rs2_exec rs2_sample_env (X_give_back 1) r \<noteq> Some (Inl Use_after_free)"
proof -
  obtain r where r: "rs2_run_actions rs2_sample_env rs2_two_rounds (rr_init (world_init None 0)) = Some (Inr r)"
    and f: "map fst (rr_fetched r) = [0, 1]" "rr_returned r = [0]"
    using rs2_second_round_runs by (auto elim!: rs2_outcomeE)
  have n: "list_all (\<lambda>a. \<not> stops a) rs2_two_rounds"
    by (simp add: rs2_two_rounds_def rs2_round_def rs2_to_merge_def rs2_to_captured_def stops_def eval_nat_numeral)
  have "1 \<in> fst ` set (rr_fetched r)" using f(1) by (metis list.set_intros(1) list.set_intros(2) set_map)
  then obtain ob where ob: "(1, ob) \<in> set (rr_fetched r)" by auto
  note kept = rs2_fetched_clouds_kept [OF r n]
  have h: "rx_heap (rr_st r) 1 \<noteq> None" using kept [THEN conjunct2, THEN conjunct1] ob f(2) by auto
  have g: "rs2_exec rs2_sample_env (X_give_back 1) r \<noteq> Some (Inl Use_after_free)" using kept by blast
  show ?thesis by (intro exI conjI) (rule r, rule f(1), rule f(2), rule h, rule g)
qed

theorem rs2_destructor_frees_fetched_cloud_witness:
  "\<exists>r r1 st. rs2_run_actions rs2_sample_env rs2_round (rr_init (world_init None 0)) = Some (Inr r) \<and>
     rs2_exec rs2_sample_env X_take r = Some (Inr r1) \<and> map fst (rr_fetched r1) = [0] \<and> rr_returned r1 = [] \<and>
     rs2_destroy_capture (rr_st r1) = Inr st \<and> rx_heap (rr_st r1) 0 \<noteq> None \<and> rx_heap st 0 = None"
proof -
  obtain r r1 where r: "rs2_run_actions rs2_sample_env rs2_round (rr_init (world_init None 0)) = Some (Inr r)"
    and k: "rs2_exec rs2_sample_env X_take r = Some (Inr r1)" "rk_mergedPC (rx_cap (rr_st r)) = Some 0"
    and f: "map fst (rr_fetched r1) = [0]" "rr_returned r1 = []"
    using rs2_round_runs by (elim rs2_outcomeE rs2_givesE conjE) (rule that)
  obtain st where d: "rs2_destroy_capture (rr_st r1) = Inr st" "rx_heap (rr_st r1) 0 \<noteq> None" "rx_heap st 0 = None"
    using rs2_destructor_frees_fetched_cloud [OF r k, of "[]" r1] f(2) by auto
  show ?thesis
    by (intro exI conjI) (rule r, rule k(1), rule f(1), rule f(2), rule d(1), rule d(2), rule d(3))
qed

end
