(* ===== verification/OrbbecConfig.thy ===== *)
theory OrbbecConfig
  imports KinectConfig
begin

text \<open>
  \<open>cwipc_orbbec/src/OrbbecConfig.hpp\<close> and \<open>OrbbecConfig.cpp\<close>: the configuration of an Orbbec
  capturer, its reading from JSON and its writing. Its cameras have the attributes of every camera.
\<close>

section \<open>The structures\<close>

record orbbec_filtering =
  ob_do_threshold :: bool
  ob_threshold_near :: f64
  ob_threshold_far :: f64
  ob_map_color_to_depth :: bool

record orbbec_hardware =
  ob_color_width :: u32
  ob_color_height :: u32
  ob_depth_width :: u32
  ob_depth_height :: u32
  ob_fps :: u32
  ob_color_exposure_time :: u32
  ob_color_whitebalance :: u32
  ob_color_backlight_compensation :: u32
  ob_color_brightness :: u32
  ob_color_contrast :: u32
  ob_color_saturation :: u32
  ob_color_sharpness :: u32
  ob_color_gain :: u32
  ob_color_powerline_frequency :: u32

record orbbec_processing =
  ob_greenscreen_removal :: bool
  ob_depth_x_erosion :: u32
  ob_depth_y_erosion :: u32
  ob_height_min :: f64
  ob_height_max :: f64
  ob_radius_filter :: f64

record orbbec_sync =
  ob_sync_master_serial :: string
  ob_ignore_sync :: bool

text \<open>\<open>ob_camera_processing\<close> is a second set of filtering parameters that nothing reads or writes.\<close>

record orbbec_config = capture_config +
  ob_processing :: orbbec_processing
  ob_filtering :: orbbec_filtering
  ob_hardware :: orbbec_hardware
  ob_sync :: orbbec_sync
  ob_single_tile :: u32
  ob_camera_processing :: orbbec_filtering
  ob_record_to_directory :: string
  ob_new_timestamps :: bool
  ob_debug :: bool
  ob_apiDebug :: bool

text \<open>The thresholds are 0.15 and 6.0.\<close>

definition new_orbbec_filtering :: orbbec_filtering where
  "new_orbbec_filtering = \<lparr>
     ob_do_threshold = True, ob_threshold_near = 0x3FC3333333333333,
     ob_threshold_far = 0x4018000000000000, ob_map_color_to_depth = False\<rparr>"

definition new_orbbec_hardware :: orbbec_hardware where
  "new_orbbec_hardware = \<lparr>
     ob_color_width = 1280, ob_color_height = 720, ob_depth_width = 640, ob_depth_height = 576,
     ob_fps = 15, ob_color_exposure_time = - 200, ob_color_whitebalance = - 6500,
     ob_color_backlight_compensation = 0, ob_color_brightness = 0, ob_color_contrast = 32,
     ob_color_saturation = 54, ob_color_sharpness = 6, ob_color_gain = 60,
     ob_color_powerline_frequency = 2\<rparr>"

definition new_orbbec_processing :: orbbec_processing where
  "new_orbbec_processing = \<lparr>
     ob_greenscreen_removal = False, ob_depth_x_erosion = 0, ob_depth_y_erosion = 0, ob_height_min = 0,
     ob_height_max = 0, ob_radius_filter = 0\<rparr>"

definition new_orbbec_sync :: orbbec_sync where
  "new_orbbec_sync = \<lparr>
     ob_sync_master_serial = [], ob_ignore_sync = False\<rparr>"

definition new_orbbec_config :: orbbec_config where
  "new_orbbec_config = \<lparr>cfg_type = [], all_camera_configs = [], ob_processing = new_orbbec_processing,
     ob_filtering = new_orbbec_filtering, ob_hardware = new_orbbec_hardware, ob_sync = new_orbbec_sync,
     ob_single_tile = - 1, ob_camera_processing = new_orbbec_filtering, ob_record_to_directory = [],
     ob_new_timestamps = False, ob_debug = False, ob_apiDebug = False\<rparr>"

section \<open>Reading\<close>

definition ob_read_system :: "json_lib \<Rightarrow> json \<Rightarrow> orbbec_config reader" where
  "ob_read_system lib system_data = read_all
     [json_get (to_int lib) system_data ''single_tile'' (\<lambda>v. ob_single_tile_update (\<lambda>_. v)),
      json_get (to_str lib) system_data ''record_to_directory'' (\<lambda>v. ob_record_to_directory_update (\<lambda>_. v)),
      json_get (to_bool lib) system_data ''debug'' (\<lambda>v. ob_debug_update (\<lambda>_. v)),
      json_get (to_bool lib) system_data ''apiDebug'' (\<lambda>v. ob_apiDebug_update (\<lambda>_. v)),
      json_get (to_bool lib) system_data ''new_timestamps'' (\<lambda>v. ob_new_timestamps_update (\<lambda>_. v))]"

definition ob_read_sync :: "json_lib \<Rightarrow> json \<Rightarrow> orbbec_config reader" where
  "ob_read_sync lib sync_data = read_all
     [json_get (to_str lib) sync_data ''sync_master_serial'' (\<lambda>v. ob_sync_update (ob_sync_master_serial_update (\<lambda>_. v))),
      json_get (to_bool lib) sync_data ''ignore_sync'' (\<lambda>v. ob_sync_update (ob_ignore_sync_update (\<lambda>_. v)))]"

definition ob_read_hardware :: "json_lib \<Rightarrow> json \<Rightarrow> orbbec_config reader" where
  "ob_read_hardware lib hardware_data = read_all
     [json_get (to_int lib) hardware_data ''color_width'' (\<lambda>v. ob_hardware_update (ob_color_width_update (\<lambda>_. v))),
      json_get (to_int lib) hardware_data ''color_height'' (\<lambda>v. ob_hardware_update (ob_color_height_update (\<lambda>_. v))),
      json_get (to_int lib) hardware_data ''depth_width'' (\<lambda>v. ob_hardware_update (ob_depth_width_update (\<lambda>_. v))),
      json_get (to_int lib) hardware_data ''depth_height'' (\<lambda>v. ob_hardware_update (ob_depth_height_update (\<lambda>_. v))),
      json_get (to_int lib) hardware_data ''fps'' (\<lambda>v. ob_hardware_update (ob_fps_update (\<lambda>_. v))),
      json_get (to_int lib) hardware_data ''color_exposure_time'' (\<lambda>v. ob_hardware_update (ob_color_exposure_time_update (\<lambda>_. v))),
      json_get (to_int lib) hardware_data ''color_whitebalance'' (\<lambda>v. ob_hardware_update (ob_color_whitebalance_update (\<lambda>_. v))),
      json_get (to_int lib) hardware_data ''color_backlight_compensation'' (\<lambda>v. ob_hardware_update (ob_color_backlight_compensation_update (\<lambda>_. v))),
      json_get (to_int lib) hardware_data ''color_brightness'' (\<lambda>v. ob_hardware_update (ob_color_brightness_update (\<lambda>_. v))),
      json_get (to_int lib) hardware_data ''color_contrast'' (\<lambda>v. ob_hardware_update (ob_color_contrast_update (\<lambda>_. v))),
      json_get (to_int lib) hardware_data ''color_saturation'' (\<lambda>v. ob_hardware_update (ob_color_saturation_update (\<lambda>_. v))),
      json_get (to_int lib) hardware_data ''color_sharpness'' (\<lambda>v. ob_hardware_update (ob_color_sharpness_update (\<lambda>_. v))),
      json_get (to_int lib) hardware_data ''color_gain'' (\<lambda>v. ob_hardware_update (ob_color_gain_update (\<lambda>_. v))),
      json_get (to_int lib) hardware_data ''color_powerline_frequency'' (\<lambda>v. ob_hardware_update (ob_color_powerline_frequency_update (\<lambda>_. v)))]"

definition ob_read_processing :: "json_lib \<Rightarrow> json \<Rightarrow> orbbec_config reader" where
  "ob_read_processing lib processing_data = read_all
     [json_get (to_bool lib) processing_data ''greenscreenremoval'' (\<lambda>v. ob_processing_update (ob_greenscreen_removal_update (\<lambda>_. v))),
      json_get (to_int lib) processing_data ''depth_x_erosion'' (\<lambda>v. ob_processing_update (ob_depth_x_erosion_update (\<lambda>_. v))),
      json_get (to_int lib) processing_data ''depth_y_erosion'' (\<lambda>v. ob_processing_update (ob_depth_y_erosion_update (\<lambda>_. v))),
      json_get (to_double lib) processing_data ''height_min'' (\<lambda>v. ob_processing_update (ob_height_min_update (\<lambda>_. v))),
      json_get (to_double lib) processing_data ''height_max'' (\<lambda>v. ob_processing_update (ob_height_max_update (\<lambda>_. v))),
      json_get (to_double lib) processing_data ''radius_filter'' (\<lambda>v. ob_processing_update (ob_radius_filter_update (\<lambda>_. v)))]"

definition ob_read_filtering :: "json_lib \<Rightarrow> json \<Rightarrow> orbbec_config reader" where
  "ob_read_filtering lib filtering_data = read_all
     [json_get (to_bool lib) filtering_data ''map_color_to_depth'' (\<lambda>v. ob_filtering_update (ob_map_color_to_depth_update (\<lambda>_. v))),
      json_get (to_bool lib) filtering_data ''do_threshold'' (\<lambda>v. ob_filtering_update (ob_do_threshold_update (\<lambda>_. v))),
      json_get (to_double lib) filtering_data ''threshold_near'' (\<lambda>v. ob_filtering_update (ob_threshold_near_update (\<lambda>_. v))),
      json_get (to_double lib) filtering_data ''threshold_far'' (\<lambda>v. ob_filtering_update (ob_threshold_far_update (\<lambda>_. v)))]"

definition ob_read :: "json_lib \<Rightarrow> json \<Rightarrow> orbbec_config reader" where
  "ob_read lib json_data = read_all
     [base_config_from_json lib json_data,
      json_at json_data ''system'' (ob_read_system lib),
      json_if_contains json_data ''sync'' (ob_read_sync lib),
      json_if_contains json_data ''hardware'' (ob_read_hardware lib),
      json_if_contains json_data ''processing'' (ob_read_processing lib),
      json_if_contains json_data ''filtering'' (ob_read_filtering lib),
      json_at json_data ''camera'' (read_cameras lib)]"

text \<open>\<open>_from_json\<close>, with the warning it logs at its end.\<close>

definition ob_from_json :: "json_lib \<Rightarrow> json \<Rightarrow> (world \<times> orbbec_config) reader" where
  "ob_from_json lib json_data s =
     (case s of (w, c) \<Rightarrow>
      case ob_read lib json_data c of (ok, c1) \<Rightarrow>
        (ok, if ok \<and> all_camera_configs c1 = []
             then cwipc_log CWIPC_LOG_LEVEL_WARNING ''cwipc_orbbec'' ''No cameras in configuration'' w else w, c1))"

definition ob_error :: "string \<Rightarrow> string \<Rightarrow> world \<Rightarrow> world" where
  "ob_error filename msg w =
     cwipc_log CWIPC_LOG_LEVEL_ERROR ''cwipc_orbbec'' (''CameraConfig '' @ filename @ msg) w"

definition ob_from_file ::
  "json_lib \<Rightarrow> (u8 list \<Rightarrow> json option) \<Rightarrow> string \<Rightarrow> string \<Rightarrow> string \<Rightarrow> (world \<times> orbbec_config) reader" where
  "ob_from_file lib parse_bytes what filename typeWanted s =
     (let err = (\<lambda>msg (w, c). (False, ob_error filename msg w, c));
          threw = err ('': exception '' @ what) in
      case files (fst s) filename of
        None \<Rightarrow> err '' not found'' s
      | Some content \<Rightarrow>
          (case parse_bytes content of
             None \<Rightarrow> threw s
           | Some json_data \<Rightarrow>
               (case get_version lib json_data of
                  None \<Rightarrow> threw s
                | Some version \<Rightarrow>
                    if version \<noteq> 5 then err '' is not version 5'' s
                    else case get_type lib json_data of
                           None \<Rightarrow> threw s
                         | Some ty \<Rightarrow>
                             if ty \<noteq> typeWanted then err (''  type='' @ ty @ '' but expected '' @ typeWanted) s
                             else (case ob_from_json lib json_data s of
                                     (ok, s1) \<Rightarrow> if ok then (True, s1) else threw s1))))"

text \<open>The message of the version test names another version than the one it tests.\<close>

definition ob_from_string ::
  "json_lib \<Rightarrow> (string \<Rightarrow> json option) \<Rightarrow> string \<Rightarrow> string \<Rightarrow> string \<Rightarrow> (world \<times> orbbec_config) reader" where
  "ob_from_string lib parse what jsonBuffer typeWanted s =
     (let err = (\<lambda>msg (w, c). (False, ob_error ''(inline buffer) '' msg w, c));
          threw = err ('': exception '' @ what) in
      case parse jsonBuffer of
        None \<Rightarrow> threw s
      | Some json_data \<Rightarrow>
          (case get_version lib json_data of
             None \<Rightarrow> threw s
           | Some version \<Rightarrow>
               if version \<noteq> 5 then err ''ignored, is not version 3'' s
               else case get_type lib json_data of
                      None \<Rightarrow> threw s
                    | Some ty \<Rightarrow>
                        if ty \<noteq> typeWanted then err (''ignored, is not '' @ typeWanted @ '' but '' @ ty) s
                        else (case ob_from_json lib json_data s of
                                (ok, s1) \<Rightarrow> if ok then (True, s1) else threw s1)))"

section \<open>Writing\<close>

definition ob_system_members :: "bool \<Rightarrow> orbbec_config \<Rightarrow> (string \<times> json) list" where
  "ob_system_members for_recording c =
     [(''single_tile'', json_of_int (ob_single_tile c)),
      (''record_to_directory'', Json_string (if for_recording then [] else ob_record_to_directory c)),
      (''new_timestamps'', Json_bool (ob_new_timestamps c)),
      (''debug'', Json_bool (ob_debug c)),
      (''apiDebug'', Json_bool (ob_apiDebug c))]"

definition ob_sync_members :: "orbbec_sync \<Rightarrow> (string \<times> json) list" where
  "ob_sync_members s =
     [(''sync_master_serial'', Json_string (ob_sync_master_serial s)),
      (''ignore_sync'', Json_bool (ob_ignore_sync s))]"

definition ob_hardware_members :: "orbbec_hardware \<Rightarrow> (string \<times> json) list" where
  "ob_hardware_members h =
     [(''color_width'', json_of_int (ob_color_width h)),
      (''color_height'', json_of_int (ob_color_height h)),
      (''depth_width'', json_of_int (ob_depth_width h)),
      (''depth_height'', json_of_int (ob_depth_height h)),
      (''fps'', json_of_int (ob_fps h)),
      (''color_exposure_time'', json_of_int (ob_color_exposure_time h)),
      (''color_whitebalance'', json_of_int (ob_color_whitebalance h)),
      (''color_backlight_compensation'', json_of_int (ob_color_backlight_compensation h)),
      (''color_brightness'', json_of_int (ob_color_brightness h)),
      (''color_contrast'', json_of_int (ob_color_contrast h)),
      (''color_saturation'', json_of_int (ob_color_saturation h)),
      (''color_gain'', json_of_int (ob_color_gain h)),
      (''color_powerline_frequency'', json_of_int (ob_color_powerline_frequency h))]"

definition ob_processing_members :: "orbbec_processing \<Rightarrow> (string \<times> json) list" where
  "ob_processing_members p =
     [(''greenscreenremoval'', Json_bool (ob_greenscreen_removal p)),
      (''depth_x_erosion'', json_of_int (ob_depth_x_erosion p)),
      (''depth_y_erosion'', json_of_int (ob_depth_y_erosion p)),
      (''height_min'', Json_float (ob_height_min p)),
      (''height_max'', Json_float (ob_height_max p)),
      (''radius_filter'', Json_float (ob_radius_filter p))]"

definition ob_filtering_members :: "orbbec_filtering \<Rightarrow> (string \<times> json) list" where
  "ob_filtering_members f =
     [(''do_threshold'', Json_bool (ob_do_threshold f)),
      (''threshold_near'', Json_float (ob_threshold_near f)),
      (''threshold_far'', Json_float (ob_threshold_far f)),
      (''map_color_to_depth'', Json_bool (ob_map_color_to_depth f))]"

definition ob_to_json :: "bool \<Rightarrow> orbbec_config \<Rightarrow> fault + json" where
  "ob_to_json for_recording c =
     (case cameras_to_json ''orbbec_playback'' for_recording (all_camera_configs c) of
        Inl f \<Rightarrow> Inl f
      | Inr cameras \<Rightarrow>
          (case json_put_all
             ([(''type'', Json_string (cfg_type c)), (''version'', Json_int 5)]
              @ (if for_recording then [(''type'', Json_string ''orbbec_playback'')] else [])
              @ [(''camera'', json_array_of cameras),
                 (''system'', json_object_of (ob_system_members for_recording c)),
                 (''sync'', json_object_of (ob_sync_members (ob_sync c))),
                 (''hardware'', json_object_of (ob_hardware_members (ob_hardware c))),
                 (''processing'', json_object_of (ob_processing_members (ob_processing c))),
                 (''filtering'', json_object_of (ob_filtering_members (ob_filtering c)))]) Json_null of
             None \<Rightarrow> Inl Uncaught_exception
           | Some j \<Rightarrow> Inr j))"

definition ob_to_string :: "(json \<Rightarrow> string) \<Rightarrow> bool \<Rightarrow> orbbec_config \<Rightarrow> fault + string" where
  "ob_to_string dump for_recording c = map_sum id dump (ob_to_json for_recording c)"

section \<open>Reading back what was written\<close>

definition ob_as_written :: "bool \<Rightarrow> orbbec_config \<Rightarrow> orbbec_config" where
  "ob_as_written for_recording c =
     (if for_recording
      then c\<lparr>cfg_type := ''orbbec_playback'', ob_record_to_directory := [],
             all_camera_configs := map (cam_type_update (\<lambda>_. ''orbbec_playback'')) (all_camera_configs c)\<rparr>
      else c)"

text \<open>The attributes that are not written keep the value they have in the configuration read into.\<close>

definition ob_unwritten_from :: "orbbec_config \<Rightarrow> orbbec_config \<Rightarrow> orbbec_config" where
  "ob_unwritten_from c0 c = c\<lparr>ob_camera_processing := ob_camera_processing c0,
     ob_hardware := (ob_hardware c)\<lparr>ob_color_sharpness := ob_color_sharpness (ob_hardware c0)\<rparr>\<rparr>"

lemmas ob_members_defs = ob_system_members_def ob_sync_members_def ob_hardware_members_def
  ob_processing_members_def ob_filtering_members_def

lemma ob_members_objects:
  "json_object_of (ob_system_members r c) = Json_object (ob_system_members r c)"
  "json_object_of (ob_sync_members s) = Json_object (ob_sync_members s)"
  "json_object_of (ob_hardware_members h) = Json_object (ob_hardware_members h)"
  "json_object_of (ob_processing_members p) = Json_object (ob_processing_members p)"
  "json_object_of (ob_filtering_members f) = Json_object (ob_filtering_members f)"
  by (simp_all add: json_object_of_distinct ob_members_defs)

lemma ob_members_read:
  assumes "json_lib_ok lib"
  shows "ob_read_system lib (Json_object (ob_system_members r k)) c =
      (True, c\<lparr>ob_single_tile := ob_single_tile k,
        ob_record_to_directory := if r then [] else ob_record_to_directory k,
        ob_new_timestamps := ob_new_timestamps k, ob_debug := ob_debug k, ob_apiDebug := ob_apiDebug k\<rparr>)"
    and "ob_read_sync lib (Json_object (ob_sync_members s)) c = (True, c\<lparr>ob_sync := s\<rparr>)"
    and "ob_read_hardware lib (Json_object (ob_hardware_members h)) c = (True, c\<lparr>ob_hardware :=
           h\<lparr>ob_color_sharpness := ob_color_sharpness (ob_hardware c)\<rparr>\<rparr>)"
    and "ob_read_processing lib (Json_object (ob_processing_members p)) c = (True, c\<lparr>ob_processing := p\<rparr>)"
    and "ob_read_filtering lib (Json_object (ob_filtering_members f)) c = (True, c\<lparr>ob_filtering := f\<rparr>)"
  by (simp_all add: ob_read_system_def ob_read_sync_def ob_read_hardware_def ob_read_processing_def
      ob_read_filtering_def ob_members_defs reader_then_def json_get_def json_lookup_def
      json_lib_conversions [OF assms])

lemma ob_written:
  assumes "json_lib_ok lib" and "list_all camera_config_ok (all_camera_configs c)"
  shows "\<exists>j. ob_to_json r c = Inr j \<and> get_version lib j = Some 5 \<and>
    get_type lib j = Some (cfg_type (ob_as_written r c)) \<and>
    ob_read lib j c0 = (True, ob_unwritten_from c0 (ob_as_written r c))"
proof -
  obtain js where js: "cameras_to_json ''orbbec_playback'' r (all_camera_configs c) = Inr js"
    "\<And>k. read_all (map (read_camera lib) js) (k :: orbbec_config) =
       (True, k\<lparr>all_camera_configs := all_camera_configs k
          @ (if r then map (cam_type_update (\<lambda>_. ''orbbec_playback'')) (all_camera_configs c)
             else all_camera_configs c)\<rparr>)"
    using cameras_read [OF assms] by blast
  define ty where "ty = (if r then ''orbbec_playback'' else cfg_type c)"
  define kvs where "kvs = [(''type'', Json_string ty), (''version'', Json_int 5),
     (''camera'', json_array_of js), (''system'', Json_object (ob_system_members r c)),
     (''sync'', Json_object (ob_sync_members (ob_sync c))),
     (''hardware'', Json_object (ob_hardware_members (ob_hardware c))),
     (''processing'', Json_object (ob_processing_members (ob_processing c))),
     (''filtering'', Json_object (ob_filtering_members (ob_filtering c)))]"
  have w: "ob_to_json r c = Inr (Json_object kvs)"
    by (simp add: ob_to_json_def js(1) ob_members_objects json_put_def kvs_def ty_def)
  have e: "json_elements (json_array_of js) = js"
    by (simp add: json_elements_def json_array_of_def)
  have five: "to_int lib (Json_int 5) = Some 5"
    using json_lib_conversions(1) [OF assms(1), of 5] by (simp add: json_of_int_def)
  have "ob_read lib (Json_object kvs) c0 = (True, ob_unwritten_from c0 (ob_as_written r c))"
    by (simp add: ob_read_def base_config_from_json_def read_cameras_def kvs_def ty_def ob_as_written_def
        ob_unwritten_from_def reader_then_def json_at_def json_if_contains_def json_at_get_def json_lookup_def
        e js(2) ob_members_read [OF assms(1)] json_lib_conversions [OF assms(1)])
  then show ?thesis
    using w five
    by (simp add: get_version_def get_type_def json_lookup_def kvs_def ty_def ob_as_written_def
        json_lib_conversions [OF assms(1)])
qed

section \<open>Properties\<close>


definition sample_orbbec_config :: orbbec_config where
  "sample_orbbec_config = new_orbbec_config\<lparr>cfg_type := ''orbbec'', all_camera_configs := [sample_camera],
     ob_hardware := new_orbbec_hardware\<lparr>ob_color_sharpness := 3\<rparr>\<rparr>"


end
